(* ===== verification/Prelude.thy ===== *)
theory Prelude
  imports Complex_Main "HOL-Library.Word"
begin

text \<open>
  What every component shares: the integer types of the Rust sources, Rust's \<open>Result\<close> as a
  sum with \<open>Inl\<close> for \<open>Err\<close>, the operators \<open>?\<close>, \<open>ok_or\<close> and \<open>map_err\<close> on it, Rust's checked
  integer operations on words, early-exit loops over a slice as \<open>foldE\<close>, byte slices, and the
  collections \<open>ok_simps\<close> (when does an operation succeed) and \<open>unat_simps\<close> (what a word
  operation computes) that the component proofs hand to the simplifier.
\<close>

unbundle bit_operations_syntax

named_theorems ok_simps \<open>success of an operation as an equivalence\<close>

named_theorems unat_simps \<open>words read as natural numbers\<close>

section \<open>Integer types\<close>

text \<open>Signed integers are kept as words of their width and read with \<open>sint\<close>.\<close>

type_synonym u8 = "8 word"
type_synonym u16 = "16 word"
type_synonym u32 = "32 word"
type_synonym u64 = "64 word"
type_synonym u128 = "128 word"
type_synonym i32 = "32 word"
type_synonym i64 = "64 word"

section \<open>Results\<close>

definition bindE :: "'e + 'a \<Rightarrow> ('a \<Rightarrow> 'e + 'b) \<Rightarrow> 'e + 'b" where
  "bindE m f = (case m of Inl e \<Rightarrow> Inl e | Inr x \<Rightarrow> f x)"

definition ok_or :: "'a option \<Rightarrow> 'e \<Rightarrow> 'e + 'a" where
  "ok_or x e = (case x of None \<Rightarrow> Inl e | Some v \<Rightarrow> Inr v)"

definition map_err :: "('e \<Rightarrow> 'f) \<Rightarrow> 'e + 'a \<Rightarrow> 'f + 'a" where
  "map_err f m = (case m of Inl e \<Rightarrow> Inl (f e) | Inr x \<Rightarrow> Inr x)"

definition is_ok :: "'e + 'a \<Rightarrow> bool" where
  "is_ok m = (case m of Inl _ \<Rightarrow> False | Inr _ \<Rightarrow> True)"

lemma bindE_simps [simp]:
  "bindE (Inl e) f = Inl e" "bindE (Inr x) f = f x"
  by (simp_all add: bindE_def)

lemma ok_or_simps [simp]: "ok_or None e = Inl e" "ok_or (Some v) e = Inr v"
  by (simp_all add: ok_or_def)

lemma map_err_simps [simp]: "map_err f (Inl e) = Inl (f e)" "map_err f (Inr x) = Inr x"
  by (simp_all add: map_err_def)

lemma is_ok_simps [simp]: "is_ok (Inl e) = False" "is_ok (Inr x) = True"
  by (simp_all add: is_ok_def)

lemma is_ok_iff: "is_ok m \<longleftrightarrow> (\<exists>x. m = Inr x)"
  by (cases m) auto

lemma bindE_Inr [ok_simps]: "bindE m f = Inr y \<longleftrightarrow> (\<exists>x. m = Inr x \<and> f x = Inr y)"
  by (cases m) auto

lemma bindE_Inl: "bindE m f = Inl e \<longleftrightarrow> m = Inl e \<or> (\<exists>x. m = Inr x \<and> f x = Inl e)"
  by (cases m) auto

lemma guard_Inr [ok_simps]: "(if c then Inl e else m) = Inr y \<longleftrightarrow> \<not> c \<and> m = Inr y"
  by simp

lemma ok_or_Inr [ok_simps]: "ok_or x e = Inr v \<longleftrightarrow> x = Some v"
  by (cases x) auto

lemma ok_or_Inl: "ok_or x e = Inl e' \<longleftrightarrow> x = None \<and> e' = e"
  by (cases x) auto

lemma map_err_Inr [ok_simps]: "map_err f m = Inr y \<longleftrightarrow> m = Inr y"
  by (cases m) auto

text \<open>Taking a successful handler apart, one early return after another.\<close>

lemma bindE_InrE: "bindE m f = Inr y \<Longrightarrow> (\<And>x. m = Inr x \<Longrightarrow> f x = Inr y \<Longrightarrow> thesis) \<Longrightarrow> thesis"
  by (cases m) auto

lemma guard_InrE: "(if c then Inl e else m) = Inr y \<Longrightarrow> (\<not> c \<Longrightarrow> m = Inr y \<Longrightarrow> thesis) \<Longrightarrow> thesis"
  by (cases c) auto

lemma pair_InrE:
  "(case p of (a, b) \<Rightarrow> f a b) = Inr y \<Longrightarrow>
   (\<And>a b. p = (a, b) \<Longrightarrow> f a b = Inr y \<Longrightarrow> thesis) \<Longrightarrow> thesis"
  by (cases p) auto

lemma ok_or_InrE: "ok_or x e = Inr v \<Longrightarrow> (x = Some v \<Longrightarrow> thesis) \<Longrightarrow> thesis"
  by (cases x) auto

lemmas success_elims = bindE_InrE guard_InrE pair_InrE ok_or_InrE

section \<open>Loops over a slice with early return\<close>

fun foldE :: "('s \<Rightarrow> 'a \<Rightarrow> 'e + 's) \<Rightarrow> 's \<Rightarrow> 'a list \<Rightarrow> 'e + 's" where
  "foldE f s [] = Inr s"
| "foldE f s (x # xs) = bindE (f s x) (\<lambda>s'. foldE f s' xs)"

lemma foldE_append: "foldE f s (xs @ ys) = bindE (foldE f s xs) (\<lambda>s'. foldE f s' ys)"
  by (induction xs arbitrary: s) (auto simp: bindE_def split: sum.splits)

lemma foldE_snoc: "foldE f s (xs @ [x]) = bindE (foldE f s xs) (\<lambda>s'. f s' x)"
proof -
  have "(\<lambda>s'. foldE f s' [x]) = (\<lambda>s'. f s' x)"
    by (rule ext) (simp add: bindE_def split: sum.splits)
  then show ?thesis by (simp add: foldE_append)
qed

text \<open>
  The interface a loop body offers to the proofs about the loop: \<open>rep xs s\<close> says that the
  state \<open>s\<close> describes the elements \<open>xs\<close> seen so far, and the body keeps that description
  exactly when it does not return early. What a walk accepts is then known for every slice.
\<close>

locale walk =
  fixes f :: "'s \<Rightarrow> 'a \<Rightarrow> 'e + 's"
    and init :: 's
    and rep :: "'a list \<Rightarrow> 's option"
  assumes rep_init: "rep [] = Some init"
    and rep_step: "rep xs = Some s \<Longrightarrow>
          rep (xs @ [x]) = (case f s x of Inl _ \<Rightarrow> None | Inr s' \<Rightarrow> Some s')"
    and rep_stop: "rep xs = None \<Longrightarrow> rep (xs @ [x]) = None"
begin

lemma walk_eq: "(foldE f init xs = Inr s) \<longleftrightarrow> rep xs = Some s"
proof (induction xs arbitrary: s rule: rev_induct)
  case Nil
  show ?case by (auto simp: rep_init)
next
  case (snoc x xs)
  show ?case
  proof (cases "rep xs")
    case None
    then show ?thesis
      using snoc.IH by (auto simp: foldE_snoc bindE_Inr rep_stop)
  next
    case (Some t)
    then have "foldE f init xs = Inr t" using snoc.IH by simp
    then show ?thesis
      by (simp add: foldE_snoc rep_step [OF Some] split: sum.splits)
  qed
qed

end

section \<open>Checked and wrapping operations on unsigned integers\<close>

definition checked_add :: "'a::len word \<Rightarrow> 'a word \<Rightarrow> 'a word option" where
  "checked_add a b = (if unat a + unat b < 2 ^ LENGTH('a) then Some (a + b) else None)"

definition checked_sub :: "'a::len word \<Rightarrow> 'a word \<Rightarrow> 'a word option" where
  "checked_sub a b = (if b \<le> a then Some (a - b) else None)"

definition checked_mul :: "'a::len word \<Rightarrow> 'a word \<Rightarrow> 'a word option" where
  "checked_mul a b = (if unat a * unat b < 2 ^ LENGTH('a) then Some (a * b) else None)"

definition overflowing_add :: "'a::len word \<Rightarrow> 'a word \<Rightarrow> 'a word \<times> bool" where
  "overflowing_add a b = (a + b, 2 ^ LENGTH('a) \<le> unat a + unat b)"

definition saturating_add :: "'a::len word \<Rightarrow> 'a word \<Rightarrow> 'a word" where
  "saturating_add a b = (case checked_add a b of Some c \<Rightarrow> c | None \<Rightarrow> - 1)"

definition saturating_sub :: "'a::len word \<Rightarrow> 'a word \<Rightarrow> 'a word" where
  "saturating_sub a b = (case checked_sub a b of Some c \<Rightarrow> c | None \<Rightarrow> 0)"

lemma unat_less_exp: "unat (a :: 'a::len word) < 2 ^ LENGTH('a)"
  by (rule unsigned_less)

lemma checked_add_Some [unat_simps]:
  "checked_add a b = Some c \<longleftrightarrow> unat c = unat a + unat b"
  for a b c :: "'a::len word"
proof
  assume "checked_add a b = Some c"
  then show "unat c = unat a + unat b"
    by (auto simp: checked_add_def unat_word_ariths split: if_splits)
next
  assume c: "unat c = unat a + unat b"
  then have "unat a + unat b < 2 ^ LENGTH('a)" using unat_less_exp [of c] by simp
  then have "unat (a + b) = unat c" using c by (simp add: unat_word_ariths)
  then have "a + b = c" by (simp add: word_unat_eq_iff)
  with \<open>unat a + unat b < _\<close> show "checked_add a b = Some c"
    by (simp add: checked_add_def)
qed

lemma checked_sub_Some [unat_simps]:
  "checked_sub a b = Some c \<longleftrightarrow> unat a = unat b + unat c"
  for a b c :: "'a::len word"
proof
  assume "checked_sub a b = Some c"
  then show "unat a = unat b + unat c"
    by (auto simp: checked_sub_def unat_sub word_le_nat_alt split: if_splits)
next
  assume a: "unat a = unat b + unat c"
  then have le: "b \<le> a" by (simp add: word_le_nat_alt)
  then have "unat (a - b) = unat c" using a by (simp add: unat_sub)
  then have "a - b = c" by (simp add: word_unat_eq_iff)
  with le show "checked_sub a b = Some c" by (simp add: checked_sub_def)
qed

lemma checked_mul_Some [unat_simps]:
  "checked_mul a b = Some c \<longleftrightarrow> unat c = unat a * unat b"
  for a b c :: "'a::len word"
proof
  assume "checked_mul a b = Some c"
  then show "unat c = unat a * unat b"
    by (auto simp: checked_mul_def unat_word_ariths split: if_splits)
next
  assume c: "unat c = unat a * unat b"
  then have lt: "unat a * unat b < 2 ^ LENGTH('a)" using unat_less_exp [of c] by simp
  then have "unat (a * b) = unat c" using c by (simp add: unat_word_ariths)
  then have "a * b = c" by (simp add: word_unat_eq_iff)
  with lt show "checked_mul a b = Some c" by (simp add: checked_mul_def)
qed

lemma checked_add_None: "checked_add a b = None \<longleftrightarrow> 2 ^ LENGTH('a) \<le> unat a + unat b"
  for a b :: "'a::len word"
  by (auto simp: checked_add_def)

lemma checked_sub_None: "checked_sub a b = None \<longleftrightarrow> unat a < unat b"
  for a b :: "'a::len word"
  by (auto simp: checked_sub_def word_le_nat_alt)

lemma checked_mul_None: "checked_mul a b = None \<longleftrightarrow> 2 ^ LENGTH('a) \<le> unat a * unat b"
  for a b :: "'a::len word"
  by (auto simp: checked_mul_def)

section \<open>Byte slices\<close>

text \<open>\<open>data.get(offset..offset + n)\<close>: \<open>None\<close> when the range leaves the slice.\<close>

definition get_range :: "'a list \<Rightarrow> nat \<Rightarrow> nat \<Rightarrow> 'a list option" where
  "get_range xs off n = (if off + n \<le> length xs then Some (take n (drop off xs)) else None)"

definition get_index :: "'a list \<Rightarrow> nat \<Rightarrow> 'a option" where
  "get_index xs i = (if i < length xs then Some (xs ! i) else None)"

lemma get_range_length: "get_range xs off n = Some ys \<Longrightarrow> length ys = n"
  by (auto simp: get_range_def split: if_splits)

text \<open>Little-endian digits of a number and back.\<close>

primrec le_digits :: "nat \<Rightarrow> nat \<Rightarrow> u8 list" where
  "le_digits 0 v = []"
| "le_digits (Suc n) v = word_of_nat v # le_digits n (v div 256)"

fun le_value :: "u8 list \<Rightarrow> nat" where
  "le_value [] = 0"
| "le_value (b # bs) = unat b + 256 * le_value bs"

definition to_le_bytes :: "'a::len word \<Rightarrow> u8 list" where
  "to_le_bytes w = le_digits (LENGTH('a) div 8) (unat w)"

definition from_le_bytes :: "u8 list \<Rightarrow> 'a::len word" where
  "from_le_bytes bs = word_of_nat (le_value bs)"

lemma length_le_digits [simp]: "length (le_digits n v) = n"
  by (induction n arbitrary: v) auto

lemma length_to_le_bytes [simp]: "length (to_le_bytes (w :: 'a::len word)) = LENGTH('a) div 8"
  by (simp add: to_le_bytes_def)

lemma le_value_digits: "le_value (le_digits n v) = v mod 256 ^ n"
proof (induction n arbitrary: v)
  case (Suc n)
  have "unat (word_of_nat v :: u8) = v mod 256"
    by (simp add: unat_of_nat)
  moreover have "v mod (256 * 256 ^ n) = v mod 256 + 256 * (v div 256 mod 256 ^ n)"
    using mod_mult2_eq [of v 256 "256 ^ n"] by simp
  ultimately show ?case by (simp add: Suc.IH)
qed simp

lemma le_value_bound: "le_value bs < 256 ^ length bs"
proof (induction bs)
  case (Cons b bs)
  have "unat b < 256" using unat_less_exp [of b] by simp
  with Cons show ?case by simp
qed simp

lemma le_digits_value: "length bs = n \<Longrightarrow> le_digits n (le_value bs) = bs"
proof (induction bs arbitrary: n)
  case (Cons b bs)
  then obtain m where n: "n = Suc m" and m: "length bs = m" by (cases n) auto
  have b: "unat b < 256" using unat_less_exp [of b] by simp
  have "(unat b + 256 * le_value bs) div 256 = le_value bs" using b by simp
  moreover have "word_of_nat (unat b + 256 * le_value bs) = b"
  proof -
    have "(256 :: u8) = 0" by simp
    then have "256 * (word_of_nat (le_value bs) :: u8) = 0" by (metis mult_zero_left)
    then show ?thesis by simp
  qed
  ultimately show ?case using n Cons.IH [OF m] by simp
qed simp

lemma from_to_le_bytes:
  assumes "8 dvd LENGTH('a)"
  shows "from_le_bytes (to_le_bytes (w :: 'a::len word)) = w"
proof -
  have "(256 :: nat) ^ (LENGTH('a) div 8) = 2 ^ (8 * (LENGTH('a) div 8))"
    by (simp add: power_mult)
  also have "\<dots> = 2 ^ LENGTH('a)" using assms by simp
  finally have "le_value (to_le_bytes w) = unat w"
    using unat_less_exp [of w] by (simp add: to_le_bytes_def le_value_digits)
  then show ?thesis by (simp add: from_le_bytes_def)
qed

lemma to_from_le_bytes:
  assumes "8 dvd LENGTH('a)" and "length bs = LENGTH('a) div 8"
  shows "to_le_bytes (from_le_bytes bs :: 'a::len word) = bs"
proof -
  have "(256 :: nat) ^ length bs = 2 ^ (8 * (LENGTH('a) div 8))"
    by (simp add: power_mult assms(2))
  also have "\<dots> = 2 ^ LENGTH('a)" using assms(1) by simp
  finally have "le_value bs < 2 ^ LENGTH('a)" using le_value_bound [of bs] by simp
  then have "unat (from_le_bytes bs :: 'a word) = le_value bs"
    by (simp add: from_le_bytes_def unat_of_nat)
  then show ?thesis by (simp add: to_le_bytes_def le_digits_value assms(2))
qed

text \<open>
  A fixed array \<open>[u8; N]\<close> is a word of \<open>8 * N\<close> bits whose most significant byte is the
  array's first byte, so equality of arrays is equality of words.
\<close>

definition array_bytes :: "'a::len word \<Rightarrow> u8 list" where
  "array_bytes w = rev (to_le_bytes w)"

definition array_of_bytes :: "u8 list \<Rightarrow> 'a::len word" where
  "array_of_bytes bs = from_le_bytes (rev bs)"

lemma length_array_bytes [simp]: "length (array_bytes (w :: 'a::len word)) = LENGTH('a) div 8"
  by (simp add: array_bytes_def)

lemma array_of_array_bytes:
  "8 dvd LENGTH('a) \<Longrightarrow> array_of_bytes (array_bytes w) = (w :: 'a::len word)"
  by (simp add: array_bytes_def array_of_bytes_def from_to_le_bytes)

lemma array_bytes_of_array:
  "8 dvd LENGTH('a) \<Longrightarrow> length bs = LENGTH('a) div 8 \<Longrightarrow>
   array_bytes (array_of_bytes bs :: 'a::len word) = bs"
  by (simp add: array_bytes_def array_of_bytes_def to_from_le_bytes)

end
