(* ===== verification/Solana_Runtime.thy ===== *)
theory Solana_Runtime
  imports Prelude
begin

text \<open>
  The machine the two on-chain programs run on, as far as their sources use it. Accounts live
  in a ledger indexed by their address, so two slots of an instruction that name the same
  account share its lamports, data and owner, as the runtime's shared cells do. A program sees
  a list of \<open>account_info\<close> (address and the transaction's signer and writable flags) and works
  on a \<open>world\<close>: the ledger and the structured log lines emitted so far.

  What the sources take from \<^verbatim>\<open>solana_program\<close> (address derivation, sysvars, cross-program calls,
  the system program, hashing) is the record \<open>runtime\<close>, an argument of every definition that
  uses it; the predicates at the end of this theory name the documented behaviour that
  theorems rely on.
\<close>

section \<open>Addresses\<close>

type_synonym pubkey = "256 word"

text \<open>\<open>pubkey!("...")\<close>: a base58 literal, first digit most significant.\<close>

definition base58_digit :: "char \<Rightarrow> nat" where
  "base58_digit c =
     (let n = of_char c in
      if n < 58 then n - 49 else if n < 73 then n - 56 else if n < 79 then n - 57
      else if n < 91 then n - 58 else if n < 108 then n - 64 else n - 65)"

fun base58_value :: "nat \<Rightarrow> string \<Rightarrow> nat" where
  "base58_value acc [] = acc"
| "base58_value acc (c # cs) = base58_value (acc * 58 + base58_digit c) cs"

definition pubkey_of :: "string \<Rightarrow> pubkey" where
  "pubkey_of s = word_of_nat (base58_value 0 s)"

lemma base58_digits:
  "map base58_digit ''123456789ABCDEFGHJKLMNPQRSTUVWXYZabcdefghijkmnopqrstuvwxyz'' = [0..<58]"
  by (simp add: base58_digit_def upt_rec)

lemmas pubkey_literal = pubkey_of_def base58_digit_def

definition system_program_ID :: pubkey where
  "system_program_ID = pubkey_of ''11111111111111111111111111111111''"

definition sysvar_clock_id :: pubkey where
  "sysvar_clock_id = pubkey_of ''SysvarC1ock11111111111111111111111111111111''"

definition sysvar_rent_id :: pubkey where
  "sysvar_rent_id = pubkey_of ''SysvarRent111111111111111111111111111111111''"

lemma system_program_ID_eq: "system_program_ID = 0"
  by (simp add: system_program_ID_def pubkey_literal)

text \<open>A byte-string literal \<open>b"..."\<close>.\<close>

definition byte_literal :: "string \<Rightarrow> u8 list" where
  "byte_literal s = map (\<lambda>c. word_of_nat (of_char c)) s"

section \<open>Errors\<close>

datatype program_error =
    Custom u32
  | InvalidArgument
  | InvalidInstructionData
  | InvalidAccountData
  | AccountDataTooSmall
  | InsufficientFunds
  | IncorrectProgramId
  | MissingRequiredSignature
  | AccountAlreadyInitialized
  | UninitializedAccount
  | NotEnoughAccountKeys
  | AccountBorrowFailed
  | MaxSeedLengthExceeded
  | InvalidSeeds
  | BorshIoError
  | AccountNotRentExempt
  | UnsupportedSysvar
  | IllegalOwner
  | InvalidRealloc
  | InvalidAccountOwner
  | ArithmeticOverflow
  | Immutable
  | IncorrectAuthority

section \<open>Accounts and the world\<close>

record account =
  lamports :: u64
  data :: "u8 list"
  owner :: pubkey

record account_info =
  key :: pubkey
  is_signer :: bool
  is_writable :: bool

record world =
  ledger :: "pubkey \<Rightarrow> account"
  logs :: "u8 list list list"

definition account_of :: "world \<Rightarrow> account_info \<Rightarrow> account" where
  "account_of w a = ledger w (key a)"

definition update_account :: "pubkey \<Rightarrow> (account \<Rightarrow> account) \<Rightarrow> world \<Rightarrow> world" where
  "update_account k f w = w\<lparr>ledger := (ledger w)(k := f (ledger w k))\<rparr>"

definition write_data :: "pubkey \<Rightarrow> u8 list \<Rightarrow> world \<Rightarrow> world" where
  "write_data k bs w = update_account k (\<lambda>a. a\<lparr>data := bs\<rparr>) w"

definition sol_log_data :: "u8 list list \<Rightarrow> world \<Rightarrow> world" where
  "sol_log_data ev w = w\<lparr>logs := logs w @ [ev]\<rparr>"

text \<open>\<open>next_account_info\<close> over the remaining accounts.\<close>

definition next_account_info ::
  "account_info list \<Rightarrow> program_error + account_info \<times> account_info list" where
  "next_account_info xs = (case xs of [] \<Rightarrow> Inl NotEnoughAccountKeys | a # rest \<Rightarrow> Inr (a, rest))"

lemma next_account_info_simps [simp]:
  "next_account_info [] = Inl NotEnoughAccountKeys"
  "next_account_info (a # rest) = Inr (a, rest)"
  by (simp_all add: next_account_info_def)

lemma next_account_info_Inr [ok_simps]:
  "next_account_info xs = Inr p \<longleftrightarrow> xs = fst p # snd p"
  by (cases xs) (auto simp: next_account_info_def)

lemma next_account_infoE:
  "next_account_info xs = Inr (a, rest) \<Longrightarrow> (xs = a # rest \<Longrightarrow> thesis) \<Longrightarrow> thesis"
  by (simp add: next_account_info_Inr)

lemma ledger_simps [simp]:
  "ledger (sol_log_data f w) = ledger w"
  "ledger (write_data k bs w) = (ledger w)(k := (ledger w k)\<lparr>data := bs\<rparr>)"
  "ledger (update_account k g w) = (ledger w)(k := g (ledger w k))"
  "logs (sol_log_data f w) = logs w @ [f]"
  "logs (write_data k bs w) = logs w"
  "logs (update_account k g w) = logs w"
  by (simp_all add: sol_log_data_def write_data_def update_account_def)

section \<open>Instructions\<close>

record account_meta =
  meta_pubkey :: pubkey
  meta_is_signer :: bool
  meta_is_writable :: bool

definition AccountMeta_new :: "pubkey \<Rightarrow> bool \<Rightarrow> account_meta" where
  "AccountMeta_new k s = \<lparr>meta_pubkey = k, meta_is_signer = s, meta_is_writable = True\<rparr>"

definition AccountMeta_new_readonly :: "pubkey \<Rightarrow> bool \<Rightarrow> account_meta" where
  "AccountMeta_new_readonly k s = \<lparr>meta_pubkey = k, meta_is_signer = s, meta_is_writable = False\<rparr>"

record instruction =
  ix_program_id :: pubkey
  ix_accounts :: "account_meta list"
  ix_data :: "u8 list"

section \<open>Services of the runtime\<close>

record clock =
  slot :: u64
  unix_timestamp :: i64

text \<open>
  \<open>rent_get\<close> is \<open>Rent::get()\<close> with \<open>minimum_balance\<close> of the result; \<open>create_account\<close> builds the
  system program's instruction; \<open>invoke\<close> and \<open>invoke_signed\<close> run an instruction of another
  program on the world.
\<close>

record runtime =
  find_program_address :: "u8 list list \<Rightarrow> pubkey \<Rightarrow> pubkey \<times> u8"
  clock_get :: "program_error + clock"
  rent_get :: "program_error + (nat \<Rightarrow> u64)"
  create_account :: "pubkey \<Rightarrow> pubkey \<Rightarrow> u64 \<Rightarrow> u64 \<Rightarrow> pubkey \<Rightarrow> instruction"
  invoke :: "instruction \<Rightarrow> account_info list \<Rightarrow> world \<Rightarrow> program_error + world"
  invoke_signed ::
    "instruction \<Rightarrow> account_info list \<Rightarrow> u8 list list list \<Rightarrow> world \<Rightarrow> program_error + world"
  realloc :: "u8 list \<Rightarrow> nat \<Rightarrow> program_error + u8 list"
  hashv :: "u8 list list \<Rightarrow> 256 word"

section \<open>Documented behaviour of the runtime\<close>

definition unused_account :: "account \<Rightarrow> bool" where
  "unused_account a \<longleftrightarrow> lamports a = 0 \<and> data a = [] \<and> owner a = system_program_ID"

text \<open>
  \<open>system_program::create_account\<close> succeeds only on an account that is not in use
  (\<open>AccountAlreadyInUse\<close> otherwise), moves the lamports, allocates \<open>space\<close> zero bytes and hands
  the account to \<open>own\<close>.
\<close>

definition create_account_law :: "'z runtime_scheme \<Rightarrow> bool" where
  "create_account_law rt \<longleftrightarrow>
     (\<forall>from to lam space own infos seeds w w'.
        invoke_signed rt (create_account rt from to lam space own) infos seeds w = Inr w' \<longrightarrow>
        unused_account (ledger w to) \<and> logs w' = logs w \<and>
        ledger w' = (ledger w)
          (from := (ledger w from)\<lparr>lamports := lamports (ledger w from) - lam\<rparr>,
           to := \<lparr>lamports = lam, data = replicate (unat space) 0, owner = own\<rparr>))"

lemma create_account_effect:
  assumes "create_account_law rt"
    and "invoke_signed rt (create_account rt from to lam space own) infos seeds w = Inr w'"
  shows "unused_account (ledger w to)"
    and "ledger w' = (ledger w)
      (from := (ledger w from)\<lparr>lamports := lamports (ledger w from) - lam\<rparr>,
       to := \<lparr>lamports = lam, data = replicate (unat space) 0, owner = own\<rparr>)"
    and "logs w' = logs w"
  using assms unfolding create_account_law_def by blast+

text \<open>
  The runtime lets a program change the data of an account only when it owns the account, and
  lets it hand an account to another owner only when the data is all zeros. So whatever
  programs other than \<open>pid\<close> do leaves \<open>pid\<close>'s accounts alone, and an account they give to
  \<open>pid\<close> holds zeros.
\<close>

definition foreign_change :: "pubkey \<Rightarrow> (pubkey \<Rightarrow> account) \<Rightarrow> (pubkey \<Rightarrow> account) \<Rightarrow> bool" where
  "foreign_change pid L L' \<longleftrightarrow>
     (\<forall>k. (owner (L k) = pid \<longrightarrow> owner (L' k) = pid \<and> data (L' k) = data (L k)) \<and>
          (owner (L k) \<noteq> pid \<and> owner (L' k) = pid \<longrightarrow> set (data (L' k)) \<subseteq> {0}))"

definition invoke_law :: "'z runtime_scheme \<Rightarrow> pubkey \<Rightarrow> bool" where
  "invoke_law rt pid \<longleftrightarrow>
     (\<forall>ix infos w w'. invoke rt ix infos w = Inr w' \<longrightarrow> ix_program_id ix \<noteq> pid \<longrightarrow>
        foreign_change pid (ledger w) (ledger w'))"

lemma foreign_change_refl: "foreign_change pid L L"
  by (simp add: foreign_change_def)

lemma foreign_change_trans:
  "foreign_change pid L M \<Longrightarrow> foreign_change pid M N \<Longrightarrow> foreign_change pid L N"
  unfolding foreign_change_def by metis

lemma foreign_change_own:
  "foreign_change pid L L' \<Longrightarrow> owner (L k) = pid \<Longrightarrow> owner (L' k) = pid \<and> data (L' k) = data (L k)"
  by (simp add: foreign_change_def)

end
