(* ===== verification/Condition_Types.thy ===== *)
theory Condition_Types
  imports Solana_Runtime
begin

text \<open>
  The data of \<^verbatim>\<open>programs/clawsol-authority/src/condition_verifier.rs\<close>: its constants, the mirror
  enums, the verifier's errors, and the condition and snapshot structs. Field names that occur in
  several structs are qualified by the struct (\<open>PythPriceCondition.feed_id\<close>).
\<close>

definition SOLEND_WAD :: u128 where
  "SOLEND_WAD = 1000000000000000000"

definition BPS_DENOM :: u128 where
  "BPS_DENOM = 10000"

definition SUPPORTED_SOLEND_FORMULA_VERSION :: u8 where
  "SUPPORTED_SOLEND_FORMULA_VERSION = 1"

definition PYTH_MAX_EXPONENT_DIFF :: int where
  "PYTH_MAX_EXPONENT_DIFF = 18"

datatype Comparison = Lt | Lte | Gt | Gte

text \<open>Values of type \<open>i128\<close> are integers; every operation the source applies to them is checked.\<close>

primrec apply_i128 :: "Comparison \<Rightarrow> int \<Rightarrow> int \<Rightarrow> bool" where
  "apply_i128 Lt lhs rhs = (lhs < rhs)"
| "apply_i128 Lte lhs rhs = (lhs \<le> rhs)"
| "apply_i128 Gt lhs rhs = (lhs > rhs)"
| "apply_i128 Gte lhs rhs = (lhs \<ge> rhs)"

primrec apply_u128 :: "Comparison \<Rightarrow> u128 \<Rightarrow> u128 \<Rightarrow> bool" where
  "apply_u128 Lt lhs rhs = (lhs < rhs)"
| "apply_u128 Lte lhs rhs = (lhs \<le> rhs)"
| "apply_u128 Gt lhs rhs = (lhs > rhs)"
| "apply_u128 Gte lhs rhs = (lhs \<ge> rhs)"

datatype BoundMode = AdverseLowerForGt | AdverseUpperForLt | Midpoint

datatype RateKind = Apr | Apy

datatype VerificationLevel = Full

datatype ConditionLogic = All_logic | Any_logic

datatype VerifierError =
    PythFeedIdMismatch
  | PythPriceTooOld
  | PythVerificationLevelInsufficient
  | PythConfidenceTooWide
  | PythExponentOutOfRange
  | PythComputeOverflow
  | BoundDirectionMismatch
  | UnsupportedComparison
  | SolendFormulaVersionUnsupported
  | SolendReserveStale
  | UnsupportedRateKind
  | SolendInvalidReserveConfig
  | SolendComputeOverflow
  | SolendThresholdOverflow

record PythPriceCondition =
  feed_id :: "256 word"
  comparison :: Comparison
  threshold_mantissa :: i64
  threshold_exponent :: i32
  max_age_seconds :: u32
  max_confidence_bps :: u16
  verification_level_required :: VerificationLevel
  bound_mode :: BoundMode

record PythPriceSnapshot =
  feed_id :: "256 word"
  price_mantissa :: i64
  price_exponent :: i32
  conf :: u64
  publish_time :: i64
  verification_level :: VerificationLevel

record PythVerificationContext =
  current_unix_time :: i64

record SolendSupplyAprCondition =
  comparison :: Comparison
  threshold_bps :: u32
  rate_kind :: RateKind
  formula_version :: u8
  max_reserve_staleness_slots :: u32

record SolendReserveSnapshot =
  available_amount :: u64
  borrowed_amount_wads :: u128
  min_borrow_rate_pct :: u8
  optimal_borrow_rate_pct :: u8
  max_borrow_rate_pct :: u8
  super_max_borrow_rate_pct :: u64
  optimal_utilization_rate_pct :: u8
  max_utilization_rate_pct :: u8
  protocol_take_rate_pct :: u8
  last_update_slot :: u64
  stale_flag :: bool

record SolendVerificationContext =
  current_slot :: u64

section \<open>Comparisons on words are comparisons of the numbers\<close>

lemma apply_u128_unat: "apply_u128 c a b = apply_i128 c (int (unat a)) (int (unat b))"
  by (cases c) (simp_all add: word_less_def word_le_def)

end
