(* ===== verification/Wad_Math.thy ===== *)
theory Wad_Math
  imports Condition_Types
begin

text \<open>
  The fixed-point arithmetic at the bottom of \<^verbatim>\<open>condition_verifier.rs\<close>: \<open>mul_div_floor_u128\<close> with
  its 256-bit intermediate and restoring long division, and \<open>mul_wad\<close>, \<open>div_wad\<close>, \<open>pct_to_wad\<close> on
  top of it. The lemmas show that the routine is floor division of the exact product and fails
  exactly when the divisor is zero or the quotient does not fit 128 bits.
\<close>

section \<open>The code\<close>

definition bit_of_u256 :: "u128 \<Rightarrow> u128 \<Rightarrow> nat \<Rightarrow> u128" where
  "bit_of_u256 hi lo idx =
     (if idx < 128 then drop_bit idx lo AND 1 else drop_bit (idx - 128) hi AND 1)"

text \<open>One iteration of the division loop on \<open>(quot, quot_overflow, rem)\<close>.\<close>

definition long_division_step ::
  "u128 \<Rightarrow> u128 \<Rightarrow> u128 \<Rightarrow> nat \<Rightarrow> u128 \<times> bool \<times> u128 \<Rightarrow> u128 \<times> bool \<times> u128" where
  "long_division_step hi lo c i = (\<lambda>(quot, quot_overflow, rem).
     let rem_overflow = (drop_bit 127 rem AND 1 = 1);
         rem = push_bit 1 rem OR bit_of_u256 hi lo i;
         need_sub = rem_overflow \<or> c \<le> rem;
         rem = (if need_sub then rem - c else rem);
         quot_msb = (drop_bit 127 quot AND 1 = 1);
         quot_overflow = (quot_msb \<or> quot_overflow);
         quot = push_bit 1 quot OR (if need_sub then 1 else 0)
     in (quot, quot_overflow, rem))"

text \<open>The loop \<open>for i in (0..n).rev()\<close>.\<close>

primrec long_division_loop ::
  "u128 \<Rightarrow> u128 \<Rightarrow> u128 \<Rightarrow> nat \<Rightarrow> u128 \<times> bool \<times> u128 \<Rightarrow> u128 \<times> bool \<times> u128" where
  "long_division_loop hi lo c 0 s = s"
| "long_division_loop hi lo c (Suc i) s =
     long_division_loop hi lo c i (long_division_step hi lo c i s)"

definition mul_div_floor_u128 :: "u128 \<Rightarrow> u128 \<Rightarrow> u128 \<Rightarrow> VerifierError + u128" where
  "mul_div_floor_u128 a b c =
    (if c = 0 then Inl SolendComputeOverflow
     else case checked_mul a b of
       Some product \<Rightarrow> Inr (product div c)
     | None \<Rightarrow>
       let a_lo = ucast (ucast a :: u64) :: u128;
           a_hi = drop_bit 64 a;
           b_lo = ucast (ucast b :: u64) :: u128;
           b_hi = drop_bit 64 b;
           ll = a_lo * b_lo;
           lh = a_lo * b_hi;
           hl = a_hi * b_lo;
           hh = a_hi * b_hi;
           mid = lh + hl;
           mid_carry = (if mid < lh then push_bit 64 1 else 0);
           mid_lo = push_bit 64 mid;
           mid_hi = drop_bit 64 mid;
           (lo, c1) = overflowing_add ll mid_lo
       in bindE (ok_or (checked_add hh mid_hi) SolendComputeOverflow) (\<lambda>hi.
          bindE (ok_or (checked_add hi (if c1 then 1 else 0)) SolendComputeOverflow) (\<lambda>hi.
          bindE (ok_or (checked_add hi mid_carry) SolendComputeOverflow) (\<lambda>hi.
          case long_division_loop hi lo c 256 (0, False, 0) of (quot, quot_overflow, rem) \<Rightarrow>
            if quot_overflow then Inl SolendComputeOverflow else Inr quot))))"

definition mul_wad :: "u128 \<Rightarrow> u128 \<Rightarrow> VerifierError + u128" where
  "mul_wad a b = mul_div_floor_u128 a b SOLEND_WAD"

definition div_wad :: "u128 \<Rightarrow> u128 \<Rightarrow> VerifierError + u128" where
  "div_wad a b = (if b = 0 then Inl SolendComputeOverflow else mul_div_floor_u128 a SOLEND_WAD b)"

definition pct_to_wad :: "u64 \<Rightarrow> VerifierError + u128" where
  "pct_to_wad pct = ok_or (checked_mul (ucast pct) (10 ^ 16)) SolendComputeOverflow"

definition pct_to_wad_u64_super_max :: "u64 \<Rightarrow> VerifierError + u128" where
  "pct_to_wad_u64_super_max pct = pct_to_wad pct"

section \<open>The long division\<close>

lemma unat_drop_bit: "unat (drop_bit n w) = unat w div 2 ^ n" for w :: "'a::len word"
  by (simp add: unsigned_drop_bit_eq take_bit_nat_eq_self flip: drop_bit_eq_div)

lemma even_unat: "even (unat w) \<longleftrightarrow> even w" for w :: "'a::len word"
  using bit_unsigned_iff [of w 0, where 'a = nat] by (simp add: bit_0)

lemma unat_and_one: "unat (w AND 1) = unat w mod 2" for w :: "'a::len word"
  by (simp add: and_one_eq mod2_eq_if even_unat)

lemma and_one_iff: "(w :: 'a::len word) AND 1 = 1 \<longleftrightarrow> odd (unat w)"
  by (simp add: and_one_eq mod2_eq_if even_unat)

lemma msb_iff: "drop_bit 127 (w :: u128) AND 1 = 1 \<longleftrightarrow> 2 ^ 127 \<le> unat w"
proof -
  have "unat w < 2 ^ 128" using unat_less_exp [of w] by simp
  then have q: "unat w div 2 ^ 127 < 2" by (simp add: less_mult_imp_div_less)
  then have "odd (unat w div 2 ^ 127) \<longleftrightarrow> 0 < unat w div 2 ^ 127"
    by (auto simp: less_2_cases_iff)
  also have "\<dots> \<longleftrightarrow> 2 ^ 127 \<le> unat w"
    by (simp only: div_greater_zero_iff) simp
  finally show ?thesis by (simp only: and_one_iff unat_drop_bit)
qed

lemma shift_in:
  "b = 0 \<or> b = 1 \<Longrightarrow> push_bit 1 w OR b = word_of_nat (2 * unat w + unat b)"
  for b w :: "'a::len word"
  by (auto simp: or_one_eq push_bit_eq_mult)

definition u256 :: "u128 \<Rightarrow> u128 \<Rightarrow> nat" where
  "u256 hi lo = unat hi * 2 ^ 128 + unat lo"

lemma unat_bit_of_u256:
  assumes "i < 256"
  shows "unat (bit_of_u256 hi lo i) = u256 hi lo div 2 ^ i mod 2"
proof (cases "i < 128")
  case True
  then have k: "128 = i + Suc (127 - i)" by simp
  have "u256 hi lo = unat lo + 2 * (unat hi * 2 ^ (127 - i)) * 2 ^ i"
    unfolding u256_def by (subst k) (simp only: power_add power_Suc ac_simps)
  then have "u256 hi lo div 2 ^ i = 2 * (unat hi * 2 ^ (127 - i)) + unat lo div 2 ^ i"
    by (simp only: div_mult_self1 power_not_zero) simp
  then show ?thesis using True by (simp add: bit_of_u256_def unat_and_one unat_drop_bit)
next
  case False
  have "u256 hi lo div 2 ^ 128 = unat hi"
    using unat_less_exp [of lo] by (simp add: u256_def)
  moreover have "u256 hi lo div 2 ^ i = u256 hi lo div 2 ^ 128 div 2 ^ (i - 128)"
    using False by (simp only: div_mult2_eq [symmetric] power_add [symmetric]) simp
  ultimately show ?thesis
    using False by (simp only: bit_of_u256_def if_False unat_and_one unat_drop_bit)
qed

lemma bit_of_u256_01: "bit_of_u256 hi lo i = 0 \<or> bit_of_u256 hi lo i = 1"
  by (simp add: bit_of_u256_def and_one_eq mod2_eq_if)

text \<open>
  After the bits above \<open>i\<close> of the dividend \<open>N\<close> are consumed, \<open>rem\<close> is the remainder of the
  partial dividend \<open>N div 2 ^ i\<close>, \<open>quot\<close> its quotient modulo \<open>2 ^ 128\<close>, and the flag records
  whether the quotient has left the word.
\<close>

definition division_state :: "nat \<Rightarrow> u128 \<Rightarrow> nat \<Rightarrow> u128 \<times> bool \<times> u128 \<Rightarrow> bool" where
  "division_state N c i = (\<lambda>(quot, ovf, rem).
     unat rem = N div 2 ^ i mod unat c \<and>
     unat quot = N div 2 ^ i div unat c mod 2 ^ 128 \<and>
     (ovf \<longleftrightarrow> 2 ^ 128 \<le> N div 2 ^ i div unat c))"

lemma division_round_bound:
  "0 < C \<Longrightarrow> b \<le> 1 \<Longrightarrow> 2 * (D mod C) + b < 2 * (C :: nat)"
  using mod_less_divisor [of C D] by linarith

lemma division_round:
  fixes D C b :: nat
  assumes "0 < C" and "b \<le> 1"
  defines "R \<equiv> 2 * (D mod C) + b"
  shows "(2 * D + b) mod C = (if C \<le> R then R - C else R)"
    and "(2 * D + b) div C = 2 * (D div C) + (if C \<le> R then 1 else 0)"
proof -
  have "2 * D = 2 * (C * (D div C) + D mod C)" by simp
  then have X: "2 * D + b = R + C * (2 * (D div C))"
    unfolding R_def by (simp only: distrib_left ac_simps)
  have R: "R < 2 * C" unfolding R_def by (rule division_round_bound) fact+
  have m: "R mod C = (if C \<le> R then R - C else R)" using R by (simp add: le_mod_geq)
  have d: "R div C = (if C \<le> R then 1 else 0)" using R assms(1) by (simp add: le_div_geq)
  show "(2 * D + b) mod C = (if C \<le> R then R - C else R)" unfolding X using m by simp
  show "(2 * D + b) div C = 2 * (D div C) + (if C \<le> R then 1 else 0)"
    unfolding X using d assms(1) by simp
qed

lemma unat_word_of_nat:
  "n < 2 ^ LENGTH('a) \<Longrightarrow> unat (word_of_nat n :: 'a::len word) = n"
  by (simp add: unat_of_nat)

lemma need_sub_iff:
  fixes rem c b :: u128
  assumes r: "unat rem < unat c" and b: "b = 0 \<or> b = 1"
  shows "(drop_bit 127 rem AND 1 = 1 \<or> c \<le> push_bit 1 rem OR b) \<longleftrightarrow>
         unat c \<le> 2 * unat rem + unat b"
proof -
  have C: "unat c < 2 ^ 128" using unat_less_exp [of c] by simp
  have b1: "unat b \<le> 1" using b by auto
  show ?thesis
  proof (cases "2 ^ 127 \<le> unat rem")
    case True
    then have "2 ^ 128 \<le> 2 * unat rem" by simp
    with True C show ?thesis unfolding msb_iff by linarith
  next
    case False
    then have "2 * unat rem + unat b < 2 ^ 128" using b1 by simp
    then have "unat (push_bit 1 rem OR b) = 2 * unat rem + unat b"
      unfolding shift_in [OF b] by (intro unat_word_of_nat) simp
    then show ?thesis using False unfolding msb_iff word_le_nat_alt by simp
  qed
qed

lemma division_state_step:
  assumes c: "c \<noteq> 0" and i: "i < 256"
    and s: "division_state (u256 hi lo) c (Suc i) s"
  shows "division_state (u256 hi lo) c i (long_division_step hi lo c i s)"
proof -
  obtain quot ovf rem where s_eq: "s = (quot, ovf, rem)" by (cases s)
  define D where "D = u256 hi lo div 2 ^ Suc i"
  define b where "b = bit_of_u256 hi lo i"
  define R where "R = 2 * (D mod unat c) + unat b"
  define ns where "ns \<longleftrightarrow> unat c \<le> R"
  have C: "0 < unat c" using c by (simp add: unat_gt_0)
  have b: "unat b = u256 hi lo div 2 ^ i mod 2" "b = 0 \<or> b = 1"
    using unat_bit_of_u256 [OF i, of hi lo] bit_of_u256_01 [of hi lo i] by (auto simp: b_def)
  have b1: "unat b \<le> 1" using b(2) by auto
  have D': "u256 hi lo div 2 ^ i = 2 * D + unat b"
    by (simp add: D_def b(1) div_mult2_eq mult.commute [of 2])
  from s have rem: "unat rem = D mod unat c" and quot: "unat quot = D div unat c mod 2 ^ 128"
    and ovf: "ovf \<longleftrightarrow> 2 ^ 128 \<le> D div unat c"
    by (simp_all add: division_state_def s_eq D_def)
  have ns: "(drop_bit 127 rem AND 1 = 1 \<or> c \<le> push_bit 1 rem OR b) \<longleftrightarrow> ns"
    using need_sub_iff [of rem c b] C b(2) by (simp add: rem ns_def R_def)
  define q where "q = push_bit 1 quot OR (if ns then 1 else 0)"
  define r where "r = (if ns then (push_bit 1 rem OR b) - c else push_bit 1 rem OR b)"
  have step: "long_division_step hi lo c i s = (q, 2 ^ 127 \<le> unat quot \<or> ovf, r)"
    using ns by (auto simp: long_division_step_def s_eq Let_def msb_iff q_def r_def b_def)
  note round = division_round [OF C b1, of D, folded R_def ns_def]
  have Rw: "push_bit 1 rem OR b = word_of_nat R"
    unfolding R_def rem [symmetric] by (rule shift_in [OF b(2)])
  have "r = word_of_nat (if ns then R - unat c else R)"
    unfolding r_def Rw by (simp add: ns_def)
  moreover have "unat (word_of_nat (if ns then R - unat c else R) :: u128) =
      (if ns then R - unat c else R)"
    using unat_less_exp [of c] division_round_bound [OF C b1, of D, folded R_def]
    by (intro unat_word_of_nat) (auto simp: ns_def)
  ultimately have "unat r = (if ns then R - unat c else R)" by simp
  then have "unat r = (2 * D + unat b) mod unat c" by (simp add: round)
  moreover have "unat q = (2 * D + unat b) div unat c mod 2 ^ 128"
  proof -
    have "q = word_of_nat (2 * unat quot + (if ns then 1 else 0))"
      using shift_in [of "if ns then 1 else 0" quot] unfolding q_def by (cases ns) simp_all
    then have "unat q = (2 * (D div unat c mod 2 ^ 128) + (if ns then 1 else 0)) mod 2 ^ 128"
      by (simp only: unat_of_nat quot) simp
    then show ?thesis unfolding round by (metis mod_add_left_eq mod_mult_right_eq)
  qed
  moreover have "(2 ^ 127 \<le> unat quot \<or> ovf) \<longleftrightarrow> 2 ^ 128 \<le> (2 * D + unat b) div unat c"
    unfolding round quot ovf by (cases "D div unat c < 2 ^ 128") auto
  ultimately show ?thesis by (simp add: division_state_def step D')
qed

lemma division_state_loop:
  assumes "c \<noteq> 0"
  shows "n \<le> 256 \<Longrightarrow> division_state (u256 hi lo) c n s \<Longrightarrow>
         division_state (u256 hi lo) c 0 (long_division_loop hi lo c n s)"
proof (induction n arbitrary: s)
  case (Suc n)
  then show ?case using division_state_step [OF assms, of n hi lo s] by simp
qed simp

lemma u256_bound: "u256 hi lo < 2 ^ 256"
proof -
  have "unat hi + 1 \<le> 2 ^ 128" using unat_less_exp [of hi] by simp
  then have "(unat hi + 1) * 2 ^ 128 \<le> 2 ^ 128 * 2 ^ 128" by (rule mult_le_mono1)
  moreover have "u256 hi lo < (unat hi + 1) * 2 ^ 128"
    using unat_less_exp [of lo] by (simp add: u256_def)
  ultimately show ?thesis by simp
qed

lemma long_division:
  assumes c: "c \<noteq> 0" and r: "long_division_loop hi lo c 256 (0, False, 0) = (quot, ovf, rem)"
  shows "ovf \<longleftrightarrow> 2 ^ 128 \<le> u256 hi lo div unat c"
    and "unat quot = u256 hi lo div unat c mod 2 ^ 128"
    and "unat rem = u256 hi lo mod unat c"
proof -
  have "division_state (u256 hi lo) c 256 (0, False, 0)"
    using u256_bound [of hi lo] by (simp add: division_state_def)
  from division_state_loop [OF c _ this] r
  show "ovf \<longleftrightarrow> 2 ^ 128 \<le> u256 hi lo div unat c"
    and "unat quot = u256 hi lo div unat c mod 2 ^ 128" and "unat rem = u256 hi lo mod unat c"
    by (simp_all add: division_state_def)
qed

section \<open>The 256-bit product\<close>

lemma unat_low_half: "unat (ucast (ucast a :: u64) :: u128) = unat a mod 2 ^ 64" for a :: u128
proof -
  have "unat (ucast x :: u128) = unat x" for x :: u64
    using unat_less_exp [of x] by (simp add: unsigned_ucast_eq take_bit_nat_eq_self)
  moreover have "unat (ucast a :: u64) = unat a mod 2 ^ 64"
    by (simp add: unsigned_ucast_eq take_bit_eq_mod)
  ultimately show ?thesis by metis
qed

lemma unat_add_mod: "unat (x + y) = (unat x + unat y) mod 2 ^ 128" for x y :: u128
  by (simp add: unat_word_ariths)

lemma unat_mult_halves:
  assumes "unat x < 2 ^ 64" "unat y < 2 ^ 64"
  shows "unat (x * y :: u128) = unat x * unat y"
proof -
  have "unat x * unat y < 2 ^ 64 * 2 ^ 64" using assms by (intro mult_strict_mono) auto
  then show ?thesis by (simp add: unat_word_ariths)
qed

lemma half_bounds: "unat a mod 2 ^ 64 < 2 ^ 64" "unat a div 2 ^ 64 < 2 ^ 64" for a :: u128
  using unat_less_exp [of a] by (simp_all add: less_mult_imp_div_less)

text \<open>The carries of the middle column, on numbers.\<close>

lemma columns:
  fixes ll m hh k :: nat
  defines "M \<equiv> m mod (k * k)"
  defines "mlo \<equiv> M * k mod (k * k)"
  shows "hh * (k * k) + m * k + ll =
    (hh + M div k + (ll + mlo) div (k * k) + m div (k * k) * k) * (k * k) + (ll + mlo) mod (k * k)"
proof -
  have m: "m = m div (k * k) * (k * k) + M" by (simp only: M_def div_mult_mod_eq)
  have M: "M * k = M div k * (k * k) + mlo"
    using div_mult_mod_eq [of "M * k" "k * k"] by (cases "k = 0") (simp_all add: mlo_def)
  have l: "ll + mlo = (ll + mlo) div (k * k) * (k * k) + (ll + mlo) mod (k * k)"
    by (simp only: div_mult_mod_eq)
  have "hh * (k * k) + m * k + ll = hh * (k * k) + m div (k * k) * k * (k * k) + M * k + ll"
    by (subst m) (simp only: distrib_right distrib_left ac_simps)
  also have "\<dots> = hh * (k * k) + m div (k * k) * k * (k * k) + M div k * (k * k) + (ll + mlo)"
    by (simp only: M ac_simps)
  also have "\<dots> = (hh + M div k + (ll + mlo) div (k * k) + m div (k * k) * k) * (k * k)
      + (ll + mlo) mod (k * k)"
    by (subst l) (simp only: distrib_right distrib_left ac_simps)
  finally show ?thesis .
qed

lemma wrap_once:
  fixes x y n :: nat
  assumes "x < n" "y < n"
  shows "(x + y) div n = (if n \<le> x + y then 1 else 0)" and "(x + y) mod n < x \<longleftrightarrow> n \<le> x + y"
  using assms by (auto simp: div_if mod_if)

lemma unat_shift_64: "unat (push_bit 64 w) = unat w * 2 ^ 64 mod 2 ^ 128" for w :: u128
  by (simp add: push_bit_eq_mult unat_word_ariths)

lemma unat_mult_exact: "unat a * unat b < 2 ^ 256" for a b :: u128
proof -
  have "unat a * unat b < 2 ^ 128 * 2 ^ 128"
    using unat_less_exp [of a] unat_less_exp [of b] by (intro mult_strict_mono) simp_all
  then show ?thesis by simp
qed

lemma checked_add_chain:
  fixes x y z t :: u128
  assumes "unat x + unat y + unat z + unat t < 2 ^ 128"
  obtains h1 h2 hi where "checked_add x y = Some h1" "checked_add h1 z = Some h2"
    "checked_add h2 t = Some hi" "unat hi = unat x + unat y + unat z + unat t"
proof -
  have u: "unat (word_of_nat n :: u128) = n" if "n < 2 ^ 128" for n
    using that by (intro unat_word_of_nat) simp
  show ?thesis
    by (rule that [of "word_of_nat (unat x + unat y)" "word_of_nat (unat x + unat y + unat z)"
          "word_of_nat (unat x + unat y + unat z + unat t)"])
      (use assms in \<open>simp_all only: checked_add_Some u add_lessD1\<close>)
qed

lemma product_256:
  fixes a b :: u128
  defines "al \<equiv> ucast (ucast a :: u64) :: u128" and "ah \<equiv> drop_bit 64 a"
    and "bl \<equiv> ucast (ucast b :: u64) :: u128" and "bh \<equiv> drop_bit 64 b"
  defines "mid \<equiv> al * bh + ah * bl"
  obtains h1 h2 hi where
    "checked_add (ah * bh) (drop_bit 64 mid) = Some h1"
    "checked_add h1 (if snd (overflowing_add (al * bl) (push_bit 64 mid)) then 1 else 0) = Some h2"
    "checked_add h2 (if mid < al * bh then push_bit 64 1 else 0) = Some hi"
    "u256 hi (fst (overflowing_add (al * bl) (push_bit 64 mid))) = unat a * unat b"
proof -
  define k where "k = (2 ^ 64 :: nat)"
  have kk: "k * k = 2 ^ 128" by (simp add: k_def)
  define AL AH BL BH where "AL = unat a mod k" "AH = unat a div k" "BL = unat b mod k" "BH = unat b div k"
  define m where "m = AL * BH + AH * BL"
  define mlo where "mlo = m mod (k * k) * k mod (k * k)"
  have u: "unat al = AL" "unat ah = AH" "unat bl = BL" "unat bh = BH"
    by (simp_all only: al_def ah_def bl_def bh_def unat_low_half unat_drop_bit AL_AH_BL_BH_def k_def)
  have lt: "AL < 2 ^ 64" "AH < 2 ^ 64" "BL < 2 ^ 64" "BH < 2 ^ 64"
    using half_bounds [of a] half_bounds [of b] by (simp_all only: AL_AH_BL_BH_def k_def)
  have prods: "unat (al * bl) = AL * BL" "unat (al * bh) = AL * BH" "unat (ah * bl) = AH * BL"
    "unat (ah * bh) = AH * BH"
    using lt by (simp_all only: unat_mult_halves u)
  then have small: "AL * BL < k * k" "AL * BH < k * k" "AH * BL < k * k"
    using unat_less_exp [of "al * bl"] unat_less_exp [of "al * bh"] unat_less_exp [of "ah * bl"]
    by (simp_all add: kk)
  have mid: "unat mid = m mod (k * k)"
    by (simp only: mid_def unat_add_mod prods m_def kk)
  have mlo: "unat (push_bit 64 mid) = mlo"
    unfolding unat_shift_64 mid mlo_def kk by (simp only: k_def)
  have c1: "unat (if snd (overflowing_add (al * bl) (push_bit 64 mid)) then 1 else (0 :: u128)) =
      (AL * BL + mlo) div (k * k)"
    using wrap_once(1) [OF small(1), of mlo] by (simp add: overflowing_add_def prods mlo kk mlo_def)
  have c2: "unat (if mid < al * bh then push_bit 64 1 else (0 :: u128)) = m div (k * k) * k"
    using wrap_once [OF small(2,3)]
    by (simp add: word_less_nat_alt mid prods m_def k_def)
  define H where "H = AH * BH + m mod (k * k) div k + (AL * BL + mlo) div (k * k) + m div (k * k) * k"
  have "unat a * unat b = (AH * k + AL) * (BH * k + BL)"
    by (simp add: AL_AH_BL_BH_def)
  also have "\<dots> = AH * BH * (k * k) + m * k + AL * BL"
    by (simp add: m_def algebra_simps)
  also have "\<dots> = H * (k * k) + (AL * BL + mlo) mod (k * k)"
    unfolding H_def mlo_def by (rule columns)
  finally have ab: "unat a * unat b = H * (k * k) + (AL * BL + mlo) mod (k * k)" .
  have "H < k * k"
  proof (rule ccontr)
    assume "\<not> H < k * k"
    then have "k * k * (k * k) \<le> unat a * unat b" unfolding ab
      by (intro trans_le_add1 mult_le_mono1) simp
    then show False using unat_mult_exact [of a b] by (simp add: kk)
  qed
  moreover have "unat (drop_bit 64 mid) = m mod (k * k) div k"
    by (simp only: unat_drop_bit mid k_def)
  ultimately obtain h1 h2 hi where h:
    "checked_add (ah * bh) (drop_bit 64 mid) = Some h1"
    "checked_add h1 (if snd (overflowing_add (al * bl) (push_bit 64 mid)) then 1 else 0) = Some h2"
    "checked_add h2 (if mid < al * bh then push_bit 64 1 else 0) = Some hi" and hi: "unat hi = H"
    using checked_add_chain [of "ah * bh" "drop_bit 64 mid"
        "if snd (overflowing_add (al * bl) (push_bit 64 mid)) then 1 else 0"
        "if mid < al * bh then push_bit 64 1 else 0"]
    unfolding prods c1 c2 H_def kk by metis
  have "u256 hi (fst (overflowing_add (al * bl) (push_bit 64 mid))) = unat a * unat b"
    unfolding u256_def overflowing_add_def fst_conv unat_add_mod prods mlo hi ab kk ..
  with h show ?thesis by (rule that)
qed

section \<open>The routine is floor division of the exact product\<close>

lemma mul_div_floor_u128_eq:
  "mul_div_floor_u128 a b c =
     (if c = 0 \<or> 2 ^ 128 \<le> unat a * unat b div unat c then Inl SolendComputeOverflow
      else Inr (word_of_nat (unat a * unat b div unat c)))"
proof (cases "c = 0")
  case c: False
  show ?thesis
  proof (cases "checked_mul a b")
    case (Some p)
    then have p: "unat p = unat a * unat b" by (simp only: checked_mul_Some)
    have lt: "unat (p div c) < 2 ^ 128" using unat_less_exp [of "p div c"] by simp
    have q: "unat (p div c) = unat a * unat b div unat c" by (simp add: unat_div p)
    have "p div c = word_of_nat (unat a * unat b div unat c)"
      unfolding q [symmetric] by simp
    then show ?thesis using c Some lt q by (simp add: mul_div_floor_u128_def)
  next
    case None
    obtain hi lo where hl: "u256 hi lo = unat a * unat b"
      and m: "mul_div_floor_u128 a b c =
        (case long_division_loop hi lo c 256 (0, False, 0) of (quot, quot_overflow, rem) \<Rightarrow>
           if quot_overflow then Inl SolendComputeOverflow else Inr quot)"
      by (rule product_256 [of a b]) (simp only: mul_div_floor_u128_def None c Let_def
          case_prod_beta option.case if_False ok_or_simps bindE_simps)
    obtain quot ovf rem where r: "long_division_loop hi lo c 256 (0, False, 0) = (quot, ovf, rem)"
      by (cases "long_division_loop hi lo c 256 (0, False, 0)") auto
    note d = long_division [OF c r, unfolded hl]
    have "quot = word_of_nat (unat a * unat b div unat c)"
      if "unat a * unat b div unat c < 2 ^ 128"
    proof -
      have "unat quot = unat a * unat b div unat c" using d(2) that by simp
      then show ?thesis by (metis of_nat_unat ucast_id)
    qed
    then show ?thesis using c d(1) by (simp only: m r prod.case) (auto simp: not_le)
  qed
qed (simp add: mul_div_floor_u128_def)

text \<open>When it succeeds, and with which number: the form the rate formulas use.\<close>

lemma mul_div_floor_u128_Inr [unat_simps]:
  "mul_div_floor_u128 a b c = Inr q \<longleftrightarrow>
     c \<noteq> 0 \<and> unat q = unat a * unat b div unat c"
proof
  assume "mul_div_floor_u128 a b c = Inr q"
  then show "c \<noteq> 0 \<and> unat q = unat a * unat b div unat c"
    by (auto simp: mul_div_floor_u128_eq not_le split: if_splits
        intro!: unat_word_of_nat)
next
  assume q: "c \<noteq> 0 \<and> unat q = unat a * unat b div unat c"
  then have "unat a * unat b div unat c < 2 ^ 128" using unat_less_exp [of q] by simp
  moreover have "q = word_of_nat (unat a * unat b div unat c)"
    using q by (metis of_nat_unat ucast_id)
  ultimately show "mul_div_floor_u128 a b c = Inr q"
    using q by (simp add: mul_div_floor_u128_eq)
qed

lemma mul_div_floor_u128_Inl:
  "mul_div_floor_u128 a b c = Inl e \<longleftrightarrow>
     e = SolendComputeOverflow \<and> (c = 0 \<or> 2 ^ 128 \<le> unat a * unat b div unat c)"
  by (auto simp: mul_div_floor_u128_eq)

lemma unat_WAD: "unat SOLEND_WAD = 10 ^ 18"
  by (simp add: SOLEND_WAD_def)

lemma WAD_nonzero [simp]: "SOLEND_WAD \<noteq> 0"
  by (simp add: SOLEND_WAD_def)

lemma mul_wad_Inr [unat_simps]: "mul_wad a b = Inr q \<longleftrightarrow> unat q = unat a * unat b div 10 ^ 18"
  by (simp add: mul_wad_def mul_div_floor_u128_Inr unat_WAD)

lemma mul_wad_Inl:
  "mul_wad a b = Inl e \<longleftrightarrow> e = SolendComputeOverflow \<and> 2 ^ 128 \<le> unat a * unat b div 10 ^ 18"
  by (simp add: mul_wad_def mul_div_floor_u128_Inl unat_WAD)

lemma div_wad_Inr [unat_simps]:
  "div_wad a b = Inr q \<longleftrightarrow> b \<noteq> 0 \<and> unat q = unat a * 10 ^ 18 div unat b"
  by (simp add: div_wad_def mul_div_floor_u128_Inr unat_WAD)

lemma pct_to_wad_Inr [unat_simps]: "pct_to_wad p = Inr q \<longleftrightarrow> unat q = unat p * 10 ^ 16"
  by (simp add: pct_to_wad_def ok_or_Inr checked_mul_Some unsigned_ucast_eq take_bit_nat_eq_self
      unat_less_exp [THEN less_le_trans])

lemma pct_to_wad_total: "\<exists>q. pct_to_wad p = Inr q"
proof -
  have "unat p * 10 ^ 16 < 2 ^ 64 * 10 ^ 16" using unat_less_exp [of p] by simp
  also have "\<dots> < (2 :: nat) ^ 128" by simp
  finally have "unat (word_of_nat (unat p * 10 ^ 16) :: u128) = unat p * 10 ^ 16"
    by (intro unat_word_of_nat) simp
  then show ?thesis by (auto simp: pct_to_wad_Inr)
qed

text \<open>
  C38: the hand-rolled 256-bit multiply-and-divide equals the floor of the exact quotient, for all
  128-bit inputs; it fails exactly when the divisor is zero or that floor needs more than 128 bits.
\<close>

theorem mul_div_floor_exact:
  "mul_div_floor_u128 a b c =
     (let q = \<lfloor>real (unat a) * real (unat b) / real (unat c)\<rfloor>
      in if c = 0 \<or> 2 ^ 128 \<le> q then Inl SolendComputeOverflow else Inr (word_of_int q))"
proof -
  have q: "\<lfloor>real (unat a) * real (unat b) / real (unat c)\<rfloor> = int (unat a * unat b div unat c)"
    using floor_divide_of_nat_eq [of "unat a * unat b" "unat c"] by simp
  have "2 ^ 128 \<le> int n \<longleftrightarrow> 2 ^ 128 \<le> n" for n by simp
  then show ?thesis
    unfolding mul_div_floor_u128_eq q Let_def by (simp only: of_int_of_nat_eq)
qed

end
