(* ===== verification/Solend_Rate.thy ===== *)
theory Solend_Rate
  imports Wad_Math
begin

text \<open>
  The Solend supply-APR formula of \<^verbatim>\<open>condition_verifier.rs\<close>: reserve configuration checks,
  utilisation, the three-region kinked borrow rate and the supply APR, all in WAD. A reference
  formula over the natural numbers, without widths or failures, is refined by the code; bounds and
  monotonicity are proved on the reference and transferred.
\<close>

section \<open>The code\<close>

definition is_reserve_config_valid :: "SolendReserveSnapshot \<Rightarrow> bool" where
  "is_reserve_config_valid s =
     (let min = ucast (min_borrow_rate_pct s) :: u64;
          opt = ucast (optimal_borrow_rate_pct s) :: u64;
          max = ucast (max_borrow_rate_pct s) :: u64;
          super_max = super_max_borrow_rate_pct s
      in if \<not> (min \<le> opt \<and> opt \<le> max \<and> max \<le> super_max) then False
         else if \<not> (optimal_utilization_rate_pct s \<le> max_utilization_rate_pct s \<and>
                    max_utilization_rate_pct s \<le> 100) then False
         else if protocol_take_rate_pct s > 100 then False
         else True)"

definition utilization_wad :: "SolendReserveSnapshot \<Rightarrow> VerifierError + u128" where
  "utilization_wad s =
     (if borrowed_amount_wads s = 0 then Inr 0
      else bindE (ok_or (checked_mul (ucast (available_amount s)) SOLEND_WAD) SolendComputeOverflow)
        (\<lambda>available_wads.
      bindE (ok_or (checked_add (borrowed_amount_wads s) available_wads) SolendComputeOverflow)
        (\<lambda>denom.
      if denom = 0 then Inr 0 else div_wad (borrowed_amount_wads s) denom)))"

text \<open>The three regions of \<open>current_borrow_rate_wad\<close>, in the order of the source.\<close>

definition borrow_rate_region_1 :: "SolendReserveSnapshot \<Rightarrow> u128 \<Rightarrow> u128 \<Rightarrow> VerifierError + u128" where
  "borrow_rate_region_1 s utilisation optimal_util =
     bindE (pct_to_wad (ucast (min_borrow_rate_pct s))) (\<lambda>min_rate.
     if optimal_util = 0 then Inr min_rate
     else bindE (div_wad utilisation optimal_util) (\<lambda>normalised.
     bindE (ok_or (checked_sub (ucast (optimal_borrow_rate_pct s) :: u64)
       (ucast (min_borrow_rate_pct s))) SolendComputeOverflow) (\<lambda>opt_minus_min.
     bindE (pct_to_wad opt_minus_min) (\<lambda>rate_range.
     bindE (mul_wad normalised rate_range) (\<lambda>scaled.
     ok_or (checked_add scaled min_rate) SolendComputeOverflow)))))"

definition borrow_rate_region_2 ::
  "SolendReserveSnapshot \<Rightarrow> u128 \<Rightarrow> u128 \<Rightarrow> u128 \<Rightarrow> VerifierError + u128" where
  "borrow_rate_region_2 s utilisation optimal_util max_util =
     bindE (ok_or (checked_sub utilisation optimal_util) SolendComputeOverflow) (\<lambda>weight_num.
     bindE (ok_or (checked_sub max_util optimal_util) SolendComputeOverflow) (\<lambda>weight_den.
     if weight_den = 0 then pct_to_wad (ucast (optimal_borrow_rate_pct s))
     else bindE (div_wad weight_num weight_den) (\<lambda>weight.
     bindE (pct_to_wad (ucast (optimal_borrow_rate_pct s))) (\<lambda>optimal_rate.
     bindE (pct_to_wad (ucast (max_borrow_rate_pct s))) (\<lambda>max_rate.
     bindE (ok_or (checked_sub max_rate optimal_rate) SolendComputeOverflow) (\<lambda>rate_range.
     bindE (mul_wad weight rate_range) (\<lambda>scaled.
     ok_or (checked_add scaled optimal_rate) SolendComputeOverflow)))))))"

definition borrow_rate_region_3 ::
  "SolendReserveSnapshot \<Rightarrow> u128 \<Rightarrow> u128 \<Rightarrow> VerifierError + u128" where
  "borrow_rate_region_3 s utilisation max_util =
     bindE (ok_or (checked_sub utilisation max_util) SolendComputeOverflow) (\<lambda>weight_num.
     bindE (ok_or (checked_sub SOLEND_WAD max_util) SolendComputeOverflow) (\<lambda>weight_den.
     if weight_den = 0 then pct_to_wad_u64_super_max (super_max_borrow_rate_pct s)
     else bindE (div_wad weight_num weight_den) (\<lambda>weight.
     bindE (pct_to_wad (ucast (max_borrow_rate_pct s))) (\<lambda>max_rate.
     bindE (pct_to_wad_u64_super_max (super_max_borrow_rate_pct s)) (\<lambda>super_max_rate.
     bindE (ok_or (checked_sub super_max_rate max_rate) SolendComputeOverflow) (\<lambda>rate_range.
     bindE (mul_wad weight rate_range) (\<lambda>scaled.
     ok_or (checked_add scaled max_rate) SolendComputeOverflow)))))))"

definition current_borrow_rate_wad :: "SolendReserveSnapshot \<Rightarrow> VerifierError + u128" where
  "current_borrow_rate_wad s =
     bindE (utilization_wad s) (\<lambda>utilisation.
     bindE (pct_to_wad (ucast (optimal_utilization_rate_pct s))) (\<lambda>optimal_util.
     bindE (pct_to_wad (ucast (max_utilization_rate_pct s))) (\<lambda>max_util.
     if utilisation \<le> optimal_util then borrow_rate_region_1 s utilisation optimal_util
     else if utilisation \<le> max_util then borrow_rate_region_2 s utilisation optimal_util max_util
     else borrow_rate_region_3 s utilisation max_util)))"

definition supply_apr_wad :: "SolendReserveSnapshot \<Rightarrow> VerifierError + u128" where
  "supply_apr_wad s =
     (if \<not> is_reserve_config_valid s then Inl SolendInvalidReserveConfig
      else bindE (utilization_wad s) (\<lambda>utilisation.
        bindE (current_borrow_rate_wad s) (\<lambda>borrow_rate.
        bindE (pct_to_wad (ucast (protocol_take_rate_pct s))) (\<lambda>take_rate.
        bindE (ok_or (checked_sub SOLEND_WAD take_rate) SolendComputeOverflow) (\<lambda>one_minus_take.
        bindE (mul_wad utilisation one_minus_take) (\<lambda>inner.
        mul_wad borrow_rate inner))))))"

section \<open>The reference formula\<close>

text \<open>A straight line from \<open>(x0, y0)\<close> to \<open>(x1, y1)\<close> in WAD, rounded down the way Solend does.\<close>

definition wad_line :: "nat \<Rightarrow> nat \<Rightarrow> nat \<Rightarrow> nat \<Rightarrow> nat \<Rightarrow> nat" where
  "wad_line x0 x1 y0 y1 x = (x - x0) * 10 ^ 18 div (x1 - x0) * (y1 - y0) div 10 ^ 18 + y0"

definition utilization_ref :: "SolendReserveSnapshot \<Rightarrow> nat" where
  "utilization_ref s =
     unat (borrowed_amount_wads s) * 10 ^ 18 div
       (unat (borrowed_amount_wads s) + unat (available_amount s) * 10 ^ 18)"

definition pct :: "'a::len word \<Rightarrow> nat" where
  "pct w = unat w * 10 ^ 16"

definition kinked_rate :: "nat \<Rightarrow> nat \<Rightarrow> nat \<Rightarrow> nat \<Rightarrow> nat \<Rightarrow> nat \<Rightarrow> nat \<Rightarrow> nat" where
  "kinked_rate o_util m_util r0 r1 r2 r3 u =
     (if u \<le> o_util then (if o_util = 0 then r0 else wad_line 0 o_util r0 r1 u)
      else if u \<le> m_util then wad_line o_util m_util r1 r2 u
      else wad_line m_util (10 ^ 18) r2 r3 u)"

definition borrow_rate_ref :: "SolendReserveSnapshot \<Rightarrow> nat \<Rightarrow> nat" where
  "borrow_rate_ref s u =
     kinked_rate (pct (optimal_utilization_rate_pct s)) (pct (max_utilization_rate_pct s))
       (pct (min_borrow_rate_pct s)) (pct (optimal_borrow_rate_pct s))
       (pct (max_borrow_rate_pct s)) (pct (super_max_borrow_rate_pct s)) u"

definition supply_apr_ref :: "SolendReserveSnapshot \<Rightarrow> nat" where
  "supply_apr_ref s =
     borrow_rate_ref s (utilization_ref s) *
       (utilization_ref s * (10 ^ 18 - pct (protocol_take_rate_pct s)) div 10 ^ 18) div 10 ^ 18"

definition reserve_fits :: "SolendReserveSnapshot \<Rightarrow> bool" where
  "reserve_fits s \<longleftrightarrow> borrowed_amount_wads s = 0 \<or>
     unat (borrowed_amount_wads s) + unat (available_amount s) * 10 ^ 18 < 2 ^ 128"

section \<open>Properties of the reference\<close>

lemma share_le: "b * n div (b + a) \<le> (n :: nat)"
proof -
  have "b * n div (b + a) \<le> (b + a) * n div (b + a)"
    by (intro div_le_mono mult_le_mono1) simp
  also have "\<dots> \<le> n" by (cases "b + a = 0") simp_all
  finally show ?thesis .
qed

lemma utilization_ref_le: "utilization_ref s \<le> 10 ^ 18"
  unfolding utilization_ref_def by (rule share_le)

lemma wad_line_lower: "y0 \<le> wad_line x0 x1 y0 y1 x"
  by (simp add: wad_line_def)

lemma wad_line_upper:
  assumes "x \<le> x1" "y0 \<le> y1"
  shows "wad_line x0 x1 y0 y1 x \<le> y1"
proof -
  have "(x - x0) * 10 ^ 18 div (x1 - x0) \<le> (x1 - x0) * 10 ^ 18 div (x1 - x0)"
    using assms(1) by (intro div_le_mono mult_le_mono1 diff_le_mono)
  also have "\<dots> \<le> 10 ^ 18" by (cases "x1 - x0 = 0") simp_all
  finally have "(x - x0) * 10 ^ 18 div (x1 - x0) * (y1 - y0) div 10 ^ 18 \<le>
      10 ^ 18 * (y1 - y0) div 10 ^ 18"
    by (intro div_le_mono mult_le_mono1)
  then show ?thesis using assms(2) by (simp add: wad_line_def)
qed

lemma wad_line_mono: "x \<le> x' \<Longrightarrow> wad_line x0 x1 y0 y1 x \<le> wad_line x0 x1 y0 y1 x'"
  unfolding wad_line_def by (intro add_le_mono1 div_le_mono mult_le_mono1 diff_le_mono)

lemma pct_le_iff: "pct a \<le> pct b \<longleftrightarrow> unat a \<le> unat b"
  by (simp add: pct_def)

lemma unat_ucast_u8 [simp]: "unat (ucast (b :: u8) :: u64) = unat b"
  using unat_less_exp [of b] by (simp add: unsigned_ucast_eq take_bit_nat_eq_self)

lemma unat_ucast_u64 [simp]: "unat (ucast (b :: u64) :: u128) = unat b"
  using unat_less_exp [of b] by (simp add: unsigned_ucast_eq take_bit_nat_eq_self)

lemma if_chain: "(if c then False else b) \<longleftrightarrow> \<not> c \<and> b"
  by simp

lemma pct_le_WAD: "pct w \<le> 10 ^ 18 \<longleftrightarrow> w \<le> 100" for w :: u8
  by (simp add: pct_def word_le_nat_alt)

lemma is_reserve_config_valid_iff:
  "is_reserve_config_valid s \<longleftrightarrow>
     pct (min_borrow_rate_pct s) \<le> pct (optimal_borrow_rate_pct s) \<and>
     pct (optimal_borrow_rate_pct s) \<le> pct (max_borrow_rate_pct s) \<and>
     pct (max_borrow_rate_pct s) \<le> pct (super_max_borrow_rate_pct s) \<and>
     pct (optimal_utilization_rate_pct s) \<le> pct (max_utilization_rate_pct s) \<and>
     pct (max_utilization_rate_pct s) \<le> 10 ^ 18 \<and> pct (protocol_take_rate_pct s) \<le> 10 ^ 18"
  unfolding is_reserve_config_valid_def Let_def pct_le_iff pct_le_WAD
  by (simp only: if_chain not_not not_less conj_assoc simp_thms)
    (simp only: word_le_nat_alt [where 'a = 64] word_le_nat_alt [where 'a = 8] unat_ucast_u8)

lemma kinked_rate_bounds:
  assumes "o_util \<le> m_util" "m_util \<le> 10 ^ 18" "r0 \<le> r1" "r1 \<le> r2" "r2 \<le> r3" "u \<le> 10 ^ 18"
  shows "r0 \<le> kinked_rate o_util m_util r0 r1 r2 r3 u"
    and "kinked_rate o_util m_util r0 r1 r2 r3 u \<le> r3"
    and "u \<le> o_util \<Longrightarrow> kinked_rate o_util m_util r0 r1 r2 r3 u \<le> r1"
    and "o_util < u \<Longrightarrow> r1 \<le> kinked_rate o_util m_util r0 r1 r2 r3 u"
    and "u \<le> m_util \<Longrightarrow> kinked_rate o_util m_util r0 r1 r2 r3 u \<le> r2"
    and "m_util < u \<Longrightarrow> r2 \<le> kinked_rate o_util m_util r0 r1 r2 r3 u"
  using assms wad_line_upper [of u o_util r0 r1 0] wad_line_upper [of u m_util r1 r2 o_util]
    wad_line_upper [of u "10 ^ 18" r2 r3 m_util] wad_line_lower [of r0 0 o_util r1 u]
    wad_line_lower [of r1 o_util m_util r2 u] wad_line_lower [of r2 m_util "10 ^ 18" r3 u]
  unfolding kinked_rate_def by (auto simp del: power_numeral split: if_split)

lemma kinked_rate_mono:
  assumes "o_util \<le> m_util" "m_util \<le> 10 ^ 18" "r0 \<le> r1" "r1 \<le> r2" "r2 \<le> r3"
    and "u \<le> u'" "u' \<le> 10 ^ 18"
  shows "kinked_rate o_util m_util r0 r1 r2 r3 u \<le> kinked_rate o_util m_util r0 r1 r2 r3 u'"
proof -
  note b = kinked_rate_bounds [OF assms(1-5)]
  have u: "u \<le> 10 ^ 18" using assms(6,7) by (rule le_trans)
  consider "u' \<le> o_util" | "o_util < u" "u' \<le> m_util" | "m_util < u"
    | "u \<le> o_util" "o_util < u'" | "o_util < u" "u \<le> m_util" "m_util < u'"
    using assms(6) by linarith
  then show ?thesis
  proof cases
    case 4
    then show ?thesis using b(3) [OF u] b(4) [OF assms(7)] by linarith
  next
    case 5
    then show ?thesis using b(5) [OF u] b(6) [OF assms(7)] by linarith
  qed (use assms in \<open>simp_all add: kinked_rate_def wad_line_mono del: power_numeral\<close>)
qed

lemma borrow_rate_ref_bounds:
  assumes "is_reserve_config_valid s" and "u \<le> 10 ^ 18"
  shows "pct (min_borrow_rate_pct s) \<le> borrow_rate_ref s u"
    and "borrow_rate_ref s u \<le> pct (super_max_borrow_rate_pct s)"
  unfolding borrow_rate_ref_def
  by (rule kinked_rate_bounds; use assms in \<open>simp add: is_reserve_config_valid_iff\<close>)+

lemma borrow_rate_ref_mono:
  assumes "is_reserve_config_valid s" and "u \<le> u'" and "u' \<le> 10 ^ 18"
  shows "borrow_rate_ref s u \<le> borrow_rate_ref s u'"
  unfolding borrow_rate_ref_def
  by (rule kinked_rate_mono; use assms in \<open>simp add: is_reserve_config_valid_iff\<close>)

lemma take_share_le: "utilization_ref s * (10 ^ 18 - t) div 10 ^ 18 \<le> 10 ^ 18"
proof -
  have "utilization_ref s * (10 ^ 18 - t) div 10 ^ 18 \<le> 10 ^ 18 * 10 ^ 18 div 10 ^ 18"
    by (intro div_le_mono mult_le_mono utilization_ref_le) simp
  then show ?thesis by simp
qed

lemma supply_apr_ref_le:
  "is_reserve_config_valid s \<Longrightarrow> supply_apr_ref s \<le> borrow_rate_ref s (utilization_ref s)"
  using div_le_mono [OF mult_le_mono2 [OF take_share_le, of "borrow_rate_ref s (utilization_ref s)" s
        "pct (protocol_take_rate_pct s)"], of "10 ^ 18"]
  by (simp add: supply_apr_ref_def)

section \<open>The code computes the reference\<close>

lemma u128_of_nat: "n < 2 ^ 128 \<Longrightarrow> \<exists>w :: u128. unat w = n"
  using unat_word_of_nat [where 'a = 128, of n] by auto

lemma unat_eqD: "unat q = n \<Longrightarrow> q = word_of_nat n" for q :: "'a::len word"
  by auto

lemma utilization_wad_eq:
  "utilization_wad s =
     (if reserve_fits s then Inr (word_of_nat (utilization_ref s)) else Inl SolendComputeOverflow)"
proof (cases "borrowed_amount_wads s = 0")
  case True
  then show ?thesis by (simp add: utilization_wad_def reserve_fits_def utilization_ref_def)
next
  case b: False
  let ?b = "borrowed_amount_wads s"
  have "unat (available_amount s) * 10 ^ 18 < 2 ^ 64 * 10 ^ 18"
    using unat_less_exp [of "available_amount s"] by simp
  also have "\<dots> < (2 :: nat) ^ 128" by simp
  finally obtain aw :: u128 where aw: "unat aw = unat (available_amount s) * 10 ^ 18"
    using u128_of_nat by blast
  then have cm: "checked_mul (ucast (available_amount s)) SOLEND_WAD = Some aw"
    by (simp add: checked_mul_Some unat_WAD)
  show ?thesis
  proof (cases "checked_add ?b aw")
    case None
    then have "\<not> reserve_fits s" using b by (simp add: checked_add_None reserve_fits_def aw)
    then show ?thesis using b by (simp add: utilization_wad_def cm None)
  next
    case (Some denom)
    then have d: "unat denom = unat ?b + unat (available_amount s) * 10 ^ 18"
      by (simp add: checked_add_Some aw)
    then have "reserve_fits s" using unat_less_exp [of denom] by (simp add: reserve_fits_def)
    moreover have d0: "denom \<noteq> 0" using d b by (auto simp: unat_eq_zero)
    moreover have "div_wad ?b denom = Inr (word_of_nat (utilization_ref s))"
    proof -
      have "utilization_ref s < 2 ^ 128" using utilization_ref_le [of s] by simp
      then have "unat (word_of_nat (utilization_ref s) :: u128) = utilization_ref s"
        by (intro unat_word_of_nat) simp
      then show ?thesis by (simp only: div_wad_Inr d d0 utilization_ref_def) simp
    qed
    ultimately show ?thesis using b by (simp add: utilization_wad_def cm Some)
  qed
qed

text \<open>The arithmetic every region ends with.\<close>

lemma line_code:
  fixes num den range base :: u128
  assumes "den \<noteq> 0" and "unat num \<le> unat den" and "unat range + unat base < 2 ^ 128"
  shows "bindE (div_wad num den) (\<lambda>weight. bindE (mul_wad weight range) (\<lambda>scaled.
           ok_or (checked_add scaled base) SolendComputeOverflow)) =
         Inr (word_of_nat (unat num * 10 ^ 18 div unat den * unat range div 10 ^ 18 + unat base))"
proof -
  define wn where "wn = unat num * 10 ^ 18 div unat den"
  have "wn \<le> 10 ^ 18"
    using share_le [of "unat num" "10 ^ 18" "unat den - unat num"] assms(2) by (simp add: wn_def)
  moreover from this have sc: "wn * unat range div 10 ^ 18 \<le> unat range"
    using div_le_mono [of "wn * unat range" "10 ^ 18 * unat range" "10 ^ 18"] by simp
  ultimately obtain w scaled :: u128
    where w: "unat w = wn" and scaled: "unat scaled = wn * unat range div 10 ^ 18"
    using u128_of_nat [of wn] u128_of_nat [of "wn * unat range div 10 ^ 18"]
      unat_less_exp [of range] by auto
  obtain r :: u128 where r: "unat r = wn * unat range div 10 ^ 18 + unat base"
    using u128_of_nat [of "wn * unat range div 10 ^ 18 + unat base"] sc assms(3) by auto
  have "div_wad num den = Inr w" "mul_wad w range = Inr scaled" "checked_add scaled base = Some r"
    using assms(1) by (simp_all only: div_wad_Inr mul_wad_Inr checked_add_Some w scaled r wn_def)
      simp_all
  then show ?thesis using unat_eqD [OF r] by (simp add: wn_def)
qed

lemma u128_pct: obtains q :: u128 where "pct_to_wad (ucast (b :: u8)) = Inr q" "unat q = pct b"
  using pct_to_wad_total [of "ucast b"] by (auto simp: pct_to_wad_Inr pct_def)

lemma u128_pct_u64: obtains q :: u128 where "pct_to_wad b = Inr q" "unat q = pct b"
  using pct_to_wad_total [of b] by (auto simp: pct_to_wad_Inr pct_def)

lemma pct_u64_small: "pct (w :: u64) < 2 ^ 128"
  using unat_less_exp [of w] by (simp add: pct_def)

lemma checked_sub_ex:
  fixes a b :: "'a::len word"
  assumes "unat b \<le> unat a"
  obtains d where "checked_sub a b = Some d" "unat d = unat a - unat b"
  using assms by (cases "checked_sub a b") (auto simp: checked_sub_None checked_sub_Some)

lemma region_1_eq:
  assumes v: "is_reserve_config_valid s"
    and o_util: "unat o_util = pct (optimal_utilization_rate_pct s)"
    and u: "unat u \<le> unat o_util"
  shows "borrow_rate_region_1 s u o_util = Inr (word_of_nat (borrow_rate_ref s (unat u)))"
proof -
  note v' = v [unfolded is_reserve_config_valid_iff]
  obtain r0 where r0: "pct_to_wad (ucast (min_borrow_rate_pct s)) = Inr r0"
    "unat r0 = pct (min_borrow_rate_pct s)" by (rule u128_pct)
  obtain d :: u64 where d: "checked_sub (ucast (optimal_borrow_rate_pct s)) (ucast (min_borrow_rate_pct s)) = Some d"
    and d': "unat d = unat (optimal_borrow_rate_pct s) - unat (min_borrow_rate_pct s)"
    by (rule checked_sub_ex [of "ucast (min_borrow_rate_pct s) :: u64" "ucast (optimal_borrow_rate_pct s)"])
      (use v' in \<open>simp_all add: pct_le_iff\<close>)
  obtain range where range: "pct_to_wad d = Inr range" "unat range = pct d" by (rule u128_pct_u64)
  have pd: "pct d = pct (optimal_borrow_rate_pct s) - pct (min_borrow_rate_pct s)"
    by (simp add: pct_def d' diff_mult_distrib)
  have "unat range + unat r0 < 2 ^ 128"
    using v' pct_u64_small [of "super_max_borrow_rate_pct s"] by (simp add: range pd r0)
  note line = line_code [OF _ u this, unfolded range(2) pd r0(2) o_util]
  show ?thesis
  proof (cases "o_util = 0")
    case True
    then show ?thesis using u o_util unat_eqD [OF r0(2)]
      by (simp add: borrow_rate_region_1_def r0(1) borrow_rate_ref_def kinked_rate_def)
  next
    case False
    then have "0 < pct (optimal_utilization_rate_pct s)" using o_util by (metis unat_gt_0)
    then show ?thesis using line [OF False] u o_util
      by (simp add: borrow_rate_region_1_def r0(1) False d range(1) borrow_rate_ref_def
          kinked_rate_def wad_line_def)
  qed
qed

lemma region_2_eq:
  assumes v: "is_reserve_config_valid s"
    and o_util: "unat o_util = pct (optimal_utilization_rate_pct s)"
    and m_util: "unat m_util = pct (max_utilization_rate_pct s)"
    and u: "unat o_util < unat u" "unat u \<le> unat m_util"
  shows "borrow_rate_region_2 s u o_util m_util = Inr (word_of_nat (borrow_rate_ref s (unat u)))"
proof -
  note v' = v [unfolded is_reserve_config_valid_iff]
  obtain r1 where r1: "pct_to_wad (ucast (optimal_borrow_rate_pct s)) = Inr r1"
    "unat r1 = pct (optimal_borrow_rate_pct s)" by (rule u128_pct)
  obtain r2 where r2: "pct_to_wad (ucast (max_borrow_rate_pct s)) = Inr r2"
    "unat r2 = pct (max_borrow_rate_pct s)" by (rule u128_pct)
  obtain num where num: "checked_sub u o_util = Some num" "unat num = unat u - unat o_util"
    using u by (auto intro: checked_sub_ex [of o_util u])
  obtain den where den: "checked_sub m_util o_util = Some den" "unat den = unat m_util - unat o_util"
    using u by (auto intro: checked_sub_ex [of o_util m_util])
  obtain range where range: "checked_sub r2 r1 = Some range" "unat range = unat r2 - unat r1"
    using v' by (auto simp: r1 r2 intro: checked_sub_ex [of r1 r2])
  have den0: "den \<noteq> 0" using u den(2) by auto
  have "unat range + unat r1 < 2 ^ 128" "unat num \<le> unat den"
    using v' u unat_less_exp [of r2] by (simp_all add: range r1 r2 num den)
  note line = line_code [OF den0 this(2,1)]
  show ?thesis using u line
    by (simp add: borrow_rate_region_2_def num(1) den(1) den0 r1(1) r2(1) range(1)
        borrow_rate_ref_def kinked_rate_def wad_line_def num(2) den(2) range(2) r1(2) r2(2) o_util m_util)
qed

lemma region_3_eq:
  assumes v: "is_reserve_config_valid s"
    and m_util: "unat m_util = pct (max_utilization_rate_pct s)"
    and u: "unat m_util < unat u" "unat u \<le> 10 ^ 18"
  shows "borrow_rate_region_3 s u m_util = Inr (word_of_nat (borrow_rate_ref s (unat u)))"
proof -
  note v' = v [unfolded is_reserve_config_valid_iff]
  obtain r2 where r2: "pct_to_wad (ucast (max_borrow_rate_pct s)) = Inr r2"
    "unat r2 = pct (max_borrow_rate_pct s)" by (rule u128_pct)
  obtain r3 where r3: "pct_to_wad (super_max_borrow_rate_pct s) = Inr r3"
    "unat r3 = pct (super_max_borrow_rate_pct s)" by (rule u128_pct_u64)
  obtain num where num: "checked_sub u m_util = Some num" "unat num = unat u - unat m_util"
    using u by (auto intro: checked_sub_ex [of m_util u])
  obtain den where den: "checked_sub SOLEND_WAD m_util = Some den" "unat den = 10 ^ 18 - unat m_util"
    using v' by (auto simp: unat_WAD m_util intro: checked_sub_ex [of m_util SOLEND_WAD])
  obtain range where range: "checked_sub r3 r2 = Some range" "unat range = unat r3 - unat r2"
    using v' by (auto simp: r3 r2 intro: checked_sub_ex [of r2 r3])
  have den0: "den \<noteq> 0" using u den(2) by auto
  have "unat range + unat r2 < 2 ^ 128" "unat num \<le> unat den"
    using v' u unat_less_exp [of r3] by (simp_all add: range r2 r3 num den)
  note line = line_code [OF den0 this(2,1)]
  show ?thesis using u v' line
    by (simp add: borrow_rate_region_3_def num(1) den(1) den0 r2(1) r3(1) range(1) pct_to_wad_u64_super_max_def
        borrow_rate_ref_def kinked_rate_def wad_line_def num(2) den(2) range(2) r3(2) r2(2) m_util)
qed

lemma unat_utilization: "unat (word_of_nat (utilization_ref s) :: u128) = utilization_ref s"
  using utilization_ref_le [of s] by (intro unat_word_of_nat) simp

lemma current_borrow_rate_wad_eq:
  assumes v: "is_reserve_config_valid s"
  shows "current_borrow_rate_wad s =
     (if reserve_fits s then Inr (word_of_nat (borrow_rate_ref s (utilization_ref s)))
      else Inl SolendComputeOverflow)"
proof (cases "reserve_fits s")
  case True
  define u :: u128 where "u = word_of_nat (utilization_ref s)"
  have u: "unat u = utilization_ref s" unfolding u_def by (rule unat_utilization)
  obtain om where om: "pct_to_wad (ucast (optimal_utilization_rate_pct s)) = Inr om"
    "unat om = pct (optimal_utilization_rate_pct s)" by (rule u128_pct)
  obtain mm where mm: "pct_to_wad (ucast (max_utilization_rate_pct s)) = Inr mm"
    "unat mm = pct (max_utilization_rate_pct s)" by (rule u128_pct)
  have "current_borrow_rate_wad s =
    (if u \<le> om then borrow_rate_region_1 s u om
     else if u \<le> mm then borrow_rate_region_2 s u om mm else borrow_rate_region_3 s u mm)"
    by (simp add: current_borrow_rate_wad_def utilization_wad_eq True om(1) mm(1) u_def)
  also have "\<dots> = Inr (word_of_nat (borrow_rate_ref s (unat u)))"
    using region_1_eq [OF v om(2), of u] region_2_eq [OF v om(2) mm(2), of u]
      region_3_eq [OF v mm(2), of u] utilization_ref_le [of s]
    by (auto simp: word_le_nat_alt u)
  finally show ?thesis using True by (simp only: u if_True)
qed (simp add: current_borrow_rate_wad_def utilization_wad_eq)

lemma supply_apr_wad_eq:
  "supply_apr_wad s =
     (if \<not> is_reserve_config_valid s then Inl SolendInvalidReserveConfig
      else if \<not> reserve_fits s then Inl SolendComputeOverflow
      else Inr (word_of_nat (supply_apr_ref s)))"
proof -
  consider "\<not> is_reserve_config_valid s" | "\<not> reserve_fits s" | "is_reserve_config_valid s" "reserve_fits s"
    by blast
  then show ?thesis
  proof cases
    case 3
    note v' = 3(1) [unfolded is_reserve_config_valid_iff]
    let ?u = "utilization_ref s" and ?r = "borrow_rate_ref s (utilization_ref s)"
    let ?t = "10 ^ 18 - pct (protocol_take_rate_pct s)"
    obtain t where t: "pct_to_wad (ucast (protocol_take_rate_pct s)) = Inr t"
      "unat t = pct (protocol_take_rate_pct s)" by (rule u128_pct)
    obtain rest where rest: "checked_sub SOLEND_WAD t = Some rest" "unat rest = ?t"
      using v' by (auto simp: unat_WAD t intro: checked_sub_ex [of t SOLEND_WAD])
    have "?u * ?t div 10 ^ 18 \<le> 10 ^ 18" by (rule take_share_le)
    then obtain inner :: u128 where inner: "unat inner = ?u * ?t div 10 ^ 18"
      using u128_of_nat [of "?u * ?t div 10 ^ 18"] by auto
    have r_lt: "?r < 2 ^ 128"
      using borrow_rate_ref_bounds(2) [OF 3(1) utilization_ref_le]
        pct_u64_small [of "super_max_borrow_rate_pct s"] by (rule le_less_trans)
    have "supply_apr_ref s \<le> ?r" by (rule supply_apr_ref_le [OF 3(1)])
    then have apr: "unat (word_of_nat (supply_apr_ref s) :: u128) = supply_apr_ref s"
      using r_lt by (intro unat_word_of_nat) simp
    have r: "unat (word_of_nat ?r :: u128) = ?r" using r_lt by (intro unat_word_of_nat) simp
    have "mul_wad (word_of_nat ?u) rest = Inr inner"
      by (simp only: mul_wad_Inr unat_utilization rest inner)
    moreover have "mul_wad (word_of_nat ?r) inner = Inr (word_of_nat (supply_apr_ref s))"
      by (simp only: mul_wad_Inr r inner apr) (simp only: supply_apr_ref_def)
    ultimately show ?thesis
      using 3 by (simp add: supply_apr_wad_def utilization_wad_eq current_borrow_rate_wad_eq t(1) rest(1))
  qed (auto simp: supply_apr_wad_def utilization_wad_eq)
qed

lemma current_borrow_rate_unat:
  assumes "is_reserve_config_valid s" and "current_borrow_rate_wad s = Inr r"
  shows "unat r = borrow_rate_ref s (utilization_ref s)"
proof -
  have "borrow_rate_ref s (utilization_ref s) < 2 ^ 128"
    using borrow_rate_ref_bounds(2) [OF assms(1) utilization_ref_le]
      pct_u64_small [of "super_max_borrow_rate_pct s"] by (rule le_less_trans)
  then have "unat (word_of_nat (borrow_rate_ref s (utilization_ref s)) :: u128) =
      borrow_rate_ref s (utilization_ref s)"
    by (intro unat_word_of_nat) simp
  then show ?thesis
    using assms(2) by (simp add: current_borrow_rate_wad_eq [OF assms(1)] split: if_splits)
qed

text \<open>
  The kinked borrow rate is monotone in the utilisation and stays between the minimum and the
  super-maximum rate of the reserve, the latter at its full 64-bit width: for two snapshots of the
  same configuration, more utilisation never lowers the rate.
\<close>

theorem borrow_rate_monotone:
  assumes "is_reserve_config_valid s" and "s' = s\<lparr>available_amount := a, borrowed_amount_wads := b\<rparr>"
    and "utilization_wad s = Inr u" and "utilization_wad s' = Inr u'" and "u \<le> u'"
  shows "\<exists>r r'. current_borrow_rate_wad s = Inr r \<and> current_borrow_rate_wad s' = Inr r' \<and> r \<le> r' \<and>
    unat (min_borrow_rate_pct s) * 10 ^ 16 \<le> unat r \<and>
    unat r' \<le> unat (super_max_borrow_rate_pct s) * 10 ^ 16"
proof -
  have v': "is_reserve_config_valid s'" using assms(1,2) by (simp add: is_reserve_config_valid_iff)
  have fits: "reserve_fits s" "reserve_fits s'"
    and u: "utilization_ref s = unat u" "utilization_ref s' = unat u'"
    using assms(3,4) by (auto simp: utilization_wad_eq unat_utilization split: if_splits)
  obtain r r' where r: "current_borrow_rate_wad s = Inr r" "current_borrow_rate_wad s' = Inr r'"
    using fits by (simp add: current_borrow_rate_wad_eq assms(1) v')
  note ur = current_borrow_rate_unat [OF assms(1) r(1)] current_borrow_rate_unat [OF v' r(2)]
  have same: "borrow_rate_ref s' = borrow_rate_ref s"
    using assms(2) by (intro ext) (simp add: borrow_rate_ref_def)
  have "utilization_ref s \<le> utilization_ref s'" using assms(5) by (simp add: u word_le_nat_alt)
  then have "unat r \<le> unat r'"
    unfolding ur same by (rule borrow_rate_ref_mono [OF assms(1) _ utilization_ref_le])
  moreover have "pct (min_borrow_rate_pct s) \<le> unat r" "unat r' \<le> pct (super_max_borrow_rate_pct s)"
    unfolding ur same using borrow_rate_ref_bounds [OF assms(1) utilization_ref_le] by simp_all
  ultimately show ?thesis using r by (auto simp: word_le_nat_alt pct_def)
qed

definition example_reserve :: SolendReserveSnapshot where
  "example_reserve = \<lparr>available_amount = 30, borrowed_amount_wads = 70 * 10 ^ 18,
     min_borrow_rate_pct = 2, optimal_borrow_rate_pct = 10, max_borrow_rate_pct = 50,
     super_max_borrow_rate_pct = 300, optimal_utilization_rate_pct = 60,
     max_utilization_rate_pct = 90, protocol_take_rate_pct = 10, last_update_slot = 5,
     stale_flag = False\<rparr>"

lemma example_reserve_valid: "is_reserve_config_valid example_reserve"
  by (simp add: is_reserve_config_valid_def example_reserve_def)

lemma example_utilization:
  "utilization_wad example_reserve = Inr 700000000000000000"
  "utilization_wad (example_reserve\<lparr>available_amount := 5, borrowed_amount_wads := 95 * 10 ^ 18\<rparr>) =
     Inr 950000000000000000"
  by (simp_all add: utilization_wad_eq reserve_fits_def utilization_ref_def example_reserve_def)

theorem borrow_rate_monotone_witness:
  "\<exists>r r'. current_borrow_rate_wad example_reserve = Inr r \<and>
     current_borrow_rate_wad (example_reserve\<lparr>available_amount := 5, borrowed_amount_wads := 95 * 10 ^ 18\<rparr>)
       = Inr r' \<and> r \<le> r' \<and> 2 * 10 ^ 16 \<le> unat r \<and> unat r' \<le> 300 * 10 ^ 16"
  using borrow_rate_monotone [OF example_reserve_valid refl example_utilization]
  by (simp add: example_reserve_def)

end
