(* ===== verification/Condition_Verifier.thy ===== *)
theory Condition_Verifier
  imports Solend_Rate
begin

text \<open>
  The verifiers of \<^verbatim>\<open>condition_verifier.rs\<close>: the Pyth price condition with its integrity gates and
  exponent-normalised comparison, the Solend supply-APR condition, and the evaluator that pairs
  conditions with snapshots and combines the verdicts. The lemmas state when each verifier answers,
  and that the answer is the comparison of the exact rational values.
\<close>

section \<open>The code\<close>

text \<open>\<open>i128\<close> and \<open>i64\<close> values are integers; a checked operation answers inside the type's range.\<close>

definition checked_i128 :: "int \<Rightarrow> int option" where
  "checked_i128 z = (if - (2 ^ 127) \<le> z \<and> z < 2 ^ 127 then Some z else None)"

definition checked_i64 :: "int \<Rightarrow> int option" where
  "checked_i64 z = (if - (2 ^ 63) \<le> z \<and> z < 2 ^ 63 then Some z else None)"

text \<open>\<open>pow10_i128\<close>: the loop \<open>for _ in 0..n\<close> on the accumulator.\<close>

primrec pow10_loop :: "nat \<Rightarrow> int \<Rightarrow> VerifierError + int" where
  "pow10_loop 0 acc = Inr acc"
| "pow10_loop (Suc n) acc =
     bindE (ok_or (checked_i128 (acc * 10)) PythComputeOverflow) (\<lambda>acc. pow10_loop n acc)"

definition pow10_i128 :: "nat \<Rightarrow> VerifierError + int" where
  "pow10_i128 n = pow10_loop n 1"

definition bound_direction_ok :: "Comparison \<Rightarrow> BoundMode \<Rightarrow> bool" where
  "bound_direction_ok c m =
     (case (c, m) of
        (Gt, AdverseLowerForGt) \<Rightarrow> True
      | (Gte, AdverseLowerForGt) \<Rightarrow> True
      | (Lt, AdverseUpperForLt) \<Rightarrow> True
      | (Lte, AdverseUpperForLt) \<Rightarrow> True
      | (_, Midpoint) \<Rightarrow> True
      | _ \<Rightarrow> False)"

text \<open>Gate 5, then the adverse bound and the exponent normalisation of gate 6.\<close>

definition pyth_confidence_gate :: "PythPriceCondition \<Rightarrow> PythPriceSnapshot \<Rightarrow> VerifierError + unit" where
  "pyth_confidence_gate condition snapshot =
     bindE (ok_or (checked_i128 \<bar>sint (price_mantissa snapshot)\<bar>) PythComputeOverflow) (\<lambda>price_abs.
     let price_abs_u128 = word_of_int price_abs :: u128 in
     if price_abs_u128 = 0 then Inl PythConfidenceTooWide
     else bindE (ok_or (checked_mul (ucast (conf snapshot)) BPS_DENOM) PythComputeOverflow)
       (\<lambda>conf_bps_num.
     let conf_bps = conf_bps_num div price_abs_u128 in
     if conf_bps > ucast (max_confidence_bps condition) then Inl PythConfidenceTooWide
     else Inr ()))"

definition pyth_bound :: "PythPriceCondition \<Rightarrow> PythPriceSnapshot \<Rightarrow> VerifierError + int" where
  "pyth_bound condition snapshot =
     (case bound_mode condition of
        AdverseLowerForGt \<Rightarrow>
          ok_or (checked_i128 (sint (price_mantissa snapshot) - int (unat (conf snapshot)))) PythComputeOverflow
      | AdverseUpperForLt \<Rightarrow>
          ok_or (checked_i128 (sint (price_mantissa snapshot) + int (unat (conf snapshot)))) PythComputeOverflow
      | Midpoint \<Rightarrow> Inr (sint (price_mantissa snapshot)))"

definition pyth_operands ::
  "PythPriceCondition \<Rightarrow> PythPriceSnapshot \<Rightarrow> int \<Rightarrow> VerifierError + int \<times> int" where
  "pyth_operands condition snapshot bound =
     bindE (ok_or (checked_i64 (sint (price_exponent snapshot) - sint (threshold_exponent condition)))
       PythComputeOverflow) (\<lambda>diff.
     if \<not> (- PYTH_MAX_EXPONENT_DIFF \<le> diff \<and> diff \<le> PYTH_MAX_EXPONENT_DIFF)
     then Inl PythExponentOutOfRange
     else if diff = 0 then Inr (bound, sint (threshold_mantissa condition))
     else if diff > 0 then
       bindE (pow10_i128 (nat diff)) (\<lambda>m.
       bindE (ok_or (checked_i128 (bound * m)) PythComputeOverflow) (\<lambda>lhs.
       Inr (lhs, sint (threshold_mantissa condition))))
     else
       bindE (pow10_i128 (nat (- diff))) (\<lambda>m.
       bindE (ok_or (checked_i128 (sint (threshold_mantissa condition) * m)) PythComputeOverflow) (\<lambda>rhs.
       Inr (bound, rhs))))"

definition verify_pyth_price_condition ::
  "PythPriceCondition \<Rightarrow> PythPriceSnapshot \<Rightarrow> PythVerificationContext \<Rightarrow> VerifierError + bool" where
  "verify_pyth_price_condition condition snapshot context =
     (if PythPriceSnapshot.feed_id snapshot \<noteq> PythPriceCondition.feed_id condition
      then Inl PythFeedIdMismatch
      else case (verification_level snapshot, verification_level_required condition) of
        (Full, Full) \<Rightarrow>
      bindE (ok_or (checked_i128 (sint (current_unix_time context) - sint (publish_time snapshot)))
        PythComputeOverflow) (\<lambda>age_secs.
      if age_secs < 0 \<or> age_secs > int (unat (max_age_seconds condition)) then Inl PythPriceTooOld
      else if \<not> bound_direction_ok (PythPriceCondition.comparison condition) (bound_mode condition)
      then Inl BoundDirectionMismatch
      else bindE (pyth_confidence_gate condition snapshot) (\<lambda>_.
      bindE (pyth_bound condition snapshot) (\<lambda>bound.
      bindE (pyth_operands condition snapshot bound) (\<lambda>(lhs, rhs).
      Inr (apply_i128 (PythPriceCondition.comparison condition) lhs rhs))))))"

definition verify_solend_supply_apr_condition ::
  "SolendSupplyAprCondition \<Rightarrow> SolendReserveSnapshot \<Rightarrow> SolendVerificationContext \<Rightarrow>
   VerifierError + bool" where
  "verify_solend_supply_apr_condition condition snapshot context =
     (if formula_version condition \<noteq> SUPPORTED_SOLEND_FORMULA_VERSION
      then Inl SolendFormulaVersionUnsupported
      else case rate_kind condition of Apy \<Rightarrow> Inl UnsupportedRateKind | Apr \<Rightarrow>
      if \<not> is_reserve_config_valid snapshot then Inl SolendInvalidReserveConfig
      else bindE (ok_or (checked_sub (current_slot context) (last_update_slot snapshot)) SolendReserveStale)
        (\<lambda>age.
      if age > ucast (max_reserve_staleness_slots condition) \<or> stale_flag snapshot
      then Inl SolendReserveStale
      else bindE (supply_apr_wad snapshot) (\<lambda>supply_apr_wad.
      bindE (ok_or (checked_mul (ucast (threshold_bps condition)) (10 ^ 14)) SolendThresholdOverflow)
        (\<lambda>threshold_wad.
      Inr (apply_u128 (SolendSupplyAprCondition.comparison condition) supply_apr_wad threshold_wad)))))"

datatype EvalCondition =
    EvalCondition_Pyth PythPriceCondition
  | EvalCondition_Solend SolendSupplyAprCondition

datatype EvalSnapshot =
    EvalSnapshot_Pyth PythPriceSnapshot PythVerificationContext
  | EvalSnapshot_Solend SolendReserveSnapshot SolendVerificationContext

fun evaluate_condition :: "EvalCondition \<Rightarrow> EvalSnapshot \<Rightarrow> VerifierError + bool" where
  "evaluate_condition (EvalCondition_Pyth c) (EvalSnapshot_Pyth s ctx) =
     verify_pyth_price_condition c s ctx"
| "evaluate_condition (EvalCondition_Solend c) (EvalSnapshot_Solend s ctx) =
     verify_solend_supply_apr_condition c s ctx"
| "evaluate_condition (EvalCondition_Pyth _) (EvalSnapshot_Solend _ _) = Inl UnsupportedComparison"
| "evaluate_condition (EvalCondition_Solend _) (EvalSnapshot_Pyth _ _) = Inl UnsupportedComparison"

primrec evaluate_condition_logic :: "ConditionLogic \<Rightarrow> bool list \<Rightarrow> bool" where
  "evaluate_condition_logic All_logic results = list_all (\<lambda>r. r) results"
| "evaluate_condition_logic Any_logic results = list_ex (\<lambda>r. r) results"

section \<open>No intermediate overflow\<close>

lemma checked_i128_small: "\<bar>z\<bar> < 2 ^ 127 \<Longrightarrow> checked_i128 z = Some z"
  unfolding checked_i128_def by auto

lemma sint_bound: "\<bar>sint (w :: 'a::len word)\<bar> \<le> 2 ^ (LENGTH('a) - 1)"
  using sint_greater_eq [of w] sint_less [of w] by simp

lemma pow10_loop_eq: "\<bar>acc * 10 ^ n\<bar> < 2 ^ 127 \<Longrightarrow> pow10_loop n acc = Inr (acc * 10 ^ n)"
proof (induction n arbitrary: acc)
  case (Suc n)
  have "\<bar>acc * 10\<bar> * 1 \<le> \<bar>acc * 10\<bar> * 10 ^ n" by (intro mult_left_mono) simp_all
  then have "\<bar>acc * 10\<bar> < 2 ^ 127" using Suc.prems by (simp add: abs_mult mult.assoc)
  moreover have "\<bar>acc * 10 * 10 ^ n\<bar> < 2 ^ 127" using Suc.prems by (simp add: mult.assoc)
  ultimately show ?case using Suc.IH [of "acc * 10"] by (simp add: checked_i128_small)
qed simp

lemma pow10_i128_eq:
  assumes "n \<le> 18"
  shows "pow10_i128 n = Inr (10 ^ n)"
proof -
  have "(10 :: int) ^ n \<le> 10 ^ 18" using assms by (intro power_increasing) simp_all
  then show ?thesis using pow10_loop_eq [of 1 n] by (simp add: pow10_i128_def)
qed

text \<open>The widened side of the comparison stays far inside \<open>i128\<close>.\<close>

lemma scaled_small:
  assumes "\<bar>z\<bar> \<le> 2 ^ 65" and "n \<le> 18"
  shows "checked_i128 (z * 10 ^ n) = Some (z * 10 ^ n)"
proof (rule checked_i128_small)
  have "\<bar>z\<bar> * 10 ^ n \<le> 2 ^ 65 * 10 ^ 18"
    using assms by (intro mult_mono power_increasing) simp_all
  then show "\<bar>z * 10 ^ n\<bar> < 2 ^ 127" by (simp add: abs_mult)
qed

section \<open>The Pyth verdict is the comparison of the exact prices\<close>

fun compares :: "Comparison \<Rightarrow> 'a::linorder \<Rightarrow> 'a \<Rightarrow> bool" where
  "compares Lt x y \<longleftrightarrow> x < y"
| "compares Lte x y \<longleftrightarrow> x \<le> y"
| "compares Gt x y \<longleftrightarrow> y < x"
| "compares Gte x y \<longleftrightarrow> y \<le> x"

lemma apply_i128_compares: "apply_i128 c x y = compares c x y"
  by (cases c) simp_all

lemma compares_strict_mono:
  assumes "\<And>a b. f a < f b \<longleftrightarrow> a < b"
  shows "compares c (f a) (f b) \<longleftrightarrow> compares c a b"
proof -
  have "f b \<le> f a \<longleftrightarrow> b \<le> a" for a b using assms [of a b] by (simp add: not_less [symmetric])
  then show ?thesis using assms by (cases c) simp_all
qed

definition decimal :: "int \<Rightarrow> int \<Rightarrow> real" where
  "decimal m e = real_of_int m * 10 powi e"

lemma decimal_compares:
  "compares c (decimal m e) (decimal n e) \<longleftrightarrow> compares c m n"
  by (rule compares_strict_mono) (simp add: decimal_def)

lemma decimal_shift: "decimal m (e + int k) = decimal (m * 10 ^ k) e"
  by (simp add: decimal_def power_int_add)

text \<open>The price on the adverse side of the confidence interval, as the rule asks.\<close>

definition adverse_price :: "BoundMode \<Rightarrow> PythPriceSnapshot \<Rightarrow> int" where
  "adverse_price m s =
     (case m of AdverseLowerForGt \<Rightarrow> sint (price_mantissa s) - int (unat (conf s))
      | AdverseUpperForLt \<Rightarrow> sint (price_mantissa s) + int (unat (conf s))
      | Midpoint \<Rightarrow> sint (price_mantissa s))"

lemma adverse_price_bound: "\<bar>adverse_price m s\<bar> \<le> 2 ^ 65"
proof -
  define k where "k = int (unat (conf s))"
  have "0 \<le> k" "k < 2 ^ 64" using uint_bounded [of "conf s"] by (simp_all add: k_def)
  then show ?thesis using sint_bound [of "price_mantissa s"]
    unfolding adverse_price_def k_def [symmetric] by (cases m) (simp_all add: abs_le_iff)
qed

lemma pyth_bound_eq: "pyth_bound c s = Inr (adverse_price (bound_mode c) s)"
proof -
  have "checked_i128 (adverse_price (bound_mode c) s) = Some (adverse_price (bound_mode c) s)"
    using adverse_price_bound [of "bound_mode c" s] by (intro checked_i128_small) simp
  then show ?thesis by (cases "bound_mode c") (simp_all add: pyth_bound_def adverse_price_def)
qed

definition exponent_diff :: "PythPriceCondition \<Rightarrow> PythPriceSnapshot \<Rightarrow> int" where
  "exponent_diff c s = sint (price_exponent s) - sint (threshold_exponent c)"

lemma checked_exponent_diff: "checked_i64 (exponent_diff c s) = Some (exponent_diff c s)"
  using sint_bound [of "price_exponent s"] sint_bound [of "threshold_exponent c"]
  unfolding checked_i64_def exponent_diff_def by auto

lemma pyth_operands_eq:
  assumes b: "\<bar>bound\<bar> \<le> 2 ^ 65"
  shows "pyth_operands c s bound =
    (if \<bar>exponent_diff c s\<bar> \<le> 18
     then Inr (bound * 10 ^ nat (exponent_diff c s),
               sint (threshold_mantissa c) * 10 ^ nat (- exponent_diff c s))
     else Inl PythExponentOutOfRange)"
proof -
  have t: "\<bar>sint (threshold_mantissa c)\<bar> \<le> 2 ^ 65" using sint_bound [of "threshold_mantissa c"] by simp
  show ?thesis
    using scaled_small [OF b, of "nat (exponent_diff c s)"]
      scaled_small [OF t, of "nat (- exponent_diff c s)"]
    unfolding pyth_operands_def exponent_diff_def [symmetric] checked_exponent_diff
    by (auto simp: PYTH_MAX_EXPONENT_DIFF_def pow10_i128_eq)
qed

lemma operands_compare:
  "compares cmp (b * 10 ^ nat (exponent_diff c s)) (t * 10 ^ nat (- exponent_diff c s)) \<longleftrightarrow>
   compares cmp (decimal b (sint (price_exponent s))) (decimal t (sint (threshold_exponent c)))"
  (is "_ = compares cmp (decimal b ?pe) (decimal t ?te)")
proof (cases "0 \<le> exponent_diff c s")
  case True
  then have "?pe = ?te + int (nat (exponent_diff c s))" by (simp add: exponent_diff_def)
  then show ?thesis using True by (metis decimal_shift decimal_compares mult.right_neutral
      nat_0_iff neg_le_0_iff_le power_0)
next
  case False
  then have "?te = ?pe + int (nat (- exponent_diff c s))" by (simp add: exponent_diff_def)
  then show ?thesis using False by (metis decimal_shift decimal_compares mult.right_neutral
      nat_0_iff not_le_imp_less less_imp_le power_0)
qed

lemma pyth_confidence_gate_eq:
  "pyth_confidence_gate c s =
     (if sint (price_mantissa s) = 0 \<or>
         int (unat (max_confidence_bps c)) < int (unat (conf s)) * 10000 div \<bar>sint (price_mantissa s)\<bar>
      then Inl PythConfidenceTooWide else Inr ())"
proof -
  define P where "P = nat \<bar>sint (price_mantissa s)\<bar>"
  have P: "\<bar>sint (price_mantissa s)\<bar> = int P" by (simp add: P_def)
  have "P \<le> 2 ^ 63" using sint_bound [of "price_mantissa s"] unfolding P_def by simp
  then have uP: "unat (word_of_nat P :: u128) = P" by (intro unat_word_of_nat) simp
  have "checked_i128 (int P) = Some (int P)"
    using \<open>P \<le> 2 ^ 63\<close> by (intro checked_i128_small) simp
  have uc: "unat (ucast (conf s) :: u128) = unat (conf s)" by simp
  have "unat (conf s) * 10000 < 2 ^ 64 * 10000" using unat_less_exp [of "conf s"] by simp
  then obtain cb :: u128 where cb: "unat cb = unat (conf s) * 10000"
    using u128_of_nat [of "unat (conf s) * 10000"] by auto
  then have cm: "checked_mul (ucast (conf s)) BPS_DENOM = Some cb"
    by (simp add: checked_mul_Some BPS_DENOM_def uc)
  have um: "unat (ucast (max_confidence_bps c) :: u128) = unat (max_confidence_bps c)"
    using unat_less_exp [of "max_confidence_bps c"] by (simp add: unsigned_ucast_eq take_bit_nat_eq_self)
  have z: "(word_of_nat P :: u128) = 0 \<longleftrightarrow> sint (price_mantissa s) = 0"
  proof -
    have "(word_of_nat P :: u128) = 0 \<longleftrightarrow> P = 0" by (simp only: word_unat_eq_iff uP unat_0)
    then show ?thesis by (simp add: P_def)
  qed
  have "ucast (max_confidence_bps c) < cb div word_of_nat P \<longleftrightarrow>
      unat (max_confidence_bps c) < unat (conf s) * 10000 div P"
    by (simp only: word_less_nat_alt unat_div um uP cb)
  also have "\<dots> \<longleftrightarrow> int (unat (max_confidence_bps c)) < int (unat (conf s)) * 10000 div int P"
    by (simp only: of_nat_less_iff [where 'a = int, symmetric] of_nat_mult of_nat_numeral zdiv_int)
  finally show ?thesis
    unfolding pyth_confidence_gate_def P \<open>checked_i128 (int P) = Some (int P)\<close> cm Let_def
    by (simp only: ok_or_simps bindE_simps of_int_of_nat_eq z)
      (simp del: of_nat_unat split: if_split)
qed

text \<open>Every branch of the verifier, with the arithmetic done in the rationals.\<close>

lemma verify_pyth_price_condition_eq:
  "verify_pyth_price_condition c s ctx =
     (let age = sint (current_unix_time ctx) - sint (publish_time s);
          p = sint (price_mantissa s)
      in if PythPriceSnapshot.feed_id s \<noteq> PythPriceCondition.feed_id c then Inl PythFeedIdMismatch
         else if age < 0 \<or> int (unat (max_age_seconds c)) < age then Inl PythPriceTooOld
         else if \<not> bound_direction_ok (PythPriceCondition.comparison c) (bound_mode c)
         then Inl BoundDirectionMismatch
         else if p = 0 \<or> int (unat (max_confidence_bps c)) < int (unat (conf s)) * 10000 div \<bar>p\<bar>
         then Inl PythConfidenceTooWide
         else if 18 < \<bar>exponent_diff c s\<bar> then Inl PythExponentOutOfRange
         else Inr (compares (PythPriceCondition.comparison c)
                (decimal (adverse_price (bound_mode c) s) (sint (price_exponent s)))
                (decimal (sint (threshold_mantissa c)) (sint (threshold_exponent c)))))"
proof -
  have "\<bar>sint (current_unix_time ctx) - sint (publish_time s)\<bar> < 2 ^ 127"
    using sint_bound [of "current_unix_time ctx"] sint_bound [of "publish_time s"] by auto
  note age = checked_i128_small [OF this]
  have lv: "verification_level s = Full" "verification_level_required c = Full"
    using VerificationLevel.exhaust by blast+
  show ?thesis
    unfolding verify_pyth_price_condition_def age lv pyth_confidence_gate_eq pyth_bound_eq Let_def
    by (simp add: pyth_operands_eq [OF adverse_price_bound] apply_i128_compares operands_compare not_less)
qed

lemma pyth_direction:
  assumes "bound_direction_ok cmp m" and "m \<noteq> Midpoint"
  shows "m = AdverseLowerForGt \<and> (cmp = Gt \<or> cmp = Gte) \<or> m = AdverseUpperForLt \<and> (cmp = Lt \<or> cmp = Lte)"
  using assms by (cases cmp; cases m) (simp_all add: bound_direction_ok_def)

text \<open>
  C39: with an adverse bound, a trigger that fires holds for every price inside the snapshot's
  confidence interval, with both sides taken as exact decimal numbers.
\<close>

theorem pyth_trigger_robust:
  assumes "verify_pyth_price_condition c s ctx = Inr True" and "bound_mode c \<noteq> Midpoint"
    and "\<bar>x - real_of_int (sint (price_mantissa s))\<bar> \<le> real (unat (conf s))"
  shows "compares (PythPriceCondition.comparison c) (x * 10 powi sint (price_exponent s))
    (decimal (sint (threshold_mantissa c)) (sint (threshold_exponent c)))"
proof -
  let ?e = "10 powi sint (price_exponent s) :: real"
  have d: "bound_direction_ok (PythPriceCondition.comparison c) (bound_mode c)"
    and v: "compares (PythPriceCondition.comparison c)
      (decimal (adverse_price (bound_mode c) s) (sint (price_exponent s)))
      (decimal (sint (threshold_mantissa c)) (sint (threshold_exponent c)))"
    using assms(1) by (auto simp: verify_pyth_price_condition_eq Let_def split: if_splits)
  have e: "0 < ?e" by simp
  from pyth_direction [OF d assms(2)] show ?thesis
  proof
    assume m: "bound_mode c = AdverseLowerForGt \<and>
      (PythPriceCondition.comparison c = Gt \<or> PythPriceCondition.comparison c = Gte)"
    then have "real_of_int (adverse_price (bound_mode c) s) \<le> x"
      using assms(3) by (simp add: adverse_price_def abs_le_iff)
    then have "decimal (adverse_price (bound_mode c) s) (sint (price_exponent s)) \<le> x * ?e"
      using e by (simp add: decimal_def)
    then show ?thesis using m v by auto
  next
    assume m: "bound_mode c = AdverseUpperForLt \<and>
      (PythPriceCondition.comparison c = Lt \<or> PythPriceCondition.comparison c = Lte)"
    then have "x \<le> real_of_int (adverse_price (bound_mode c) s)"
      using assms(3) by (simp add: adverse_price_def abs_le_iff)
    then have "x * ?e \<le> decimal (adverse_price (bound_mode c) s) (sint (price_exponent s))"
      using e by (simp add: decimal_def)
    then show ?thesis using m v by auto
  qed
qed

text \<open>
  A concrete rule, \<open>SOL > 150.00\<close> with two decimals against a snapshot at 151.23 with ten cents of
  confidence and eight decimals: it fires, and so it does at 151.15.
\<close>

definition example_pyth_condition :: PythPriceCondition where
  "example_pyth_condition = \<lparr>PythPriceCondition.feed_id = 7, PythPriceCondition.comparison = Gt, 
     threshold_mantissa = 15000, threshold_exponent = -2, max_age_seconds = 30, max_confidence_bps = 50,
     verification_level_required = Full, bound_mode = AdverseLowerForGt\<rparr>"

definition example_pyth_snapshot :: PythPriceSnapshot where
  "example_pyth_snapshot = \<lparr>PythPriceSnapshot.feed_id = 7, price_mantissa = 15123000000, price_exponent = -8,
     conf = 10000000, publish_time = 1000, verification_level = Full\<rparr>"

lemma example_pyth_fires:
  "verify_pyth_price_condition example_pyth_condition example_pyth_snapshot
     \<lparr>current_unix_time = 1010\<rparr> = Inr True"
  by (simp add: verify_pyth_price_condition_eq example_pyth_condition_def example_pyth_snapshot_def
      bound_direction_ok_def adverse_price_def exponent_diff_def decimal_def power_int_minus Let_def)

theorem pyth_trigger_robust_witness:
  "15000 * 10 powi (-2) < (15115000000 :: real) * 10 powi (-8)"
  using pyth_trigger_robust [OF example_pyth_fires, of 15115000000]
  by (simp add: example_pyth_condition_def example_pyth_snapshot_def decimal_def)

text \<open>
  The Pyth verifier on every branch: which gate rejects which input, in which order, and
  otherwise the verdict is the comparison of the exact decimal values; the overflow error of the
  source is unreachable.
\<close>

theorem pyth_verdict_exact:
  "verify_pyth_price_condition c s ctx =
     (let age = sint (current_unix_time ctx) - sint (publish_time s);
          p = sint (price_mantissa s)
      in if PythPriceSnapshot.feed_id s \<noteq> PythPriceCondition.feed_id c then Inl PythFeedIdMismatch
         else if age < 0 \<or> int (unat (max_age_seconds c)) < age then Inl PythPriceTooOld
         else if \<not> bound_direction_ok (PythPriceCondition.comparison c) (bound_mode c)
         then Inl BoundDirectionMismatch
         else if p = 0 \<or> int (unat (max_confidence_bps c)) < int (unat (conf s)) * 10000 div \<bar>p\<bar>
         then Inl PythConfidenceTooWide
         else if 18 < \<bar>exponent_diff c s\<bar> then Inl PythExponentOutOfRange
         else Inr (compares (PythPriceCondition.comparison c)
                (decimal (adverse_price (bound_mode c) s) (sint (price_exponent s)))
                (decimal (sint (threshold_mantissa c)) (sint (threshold_exponent c)))))"
  by (rule verify_pyth_price_condition_eq)

section \<open>The Solend verdict\<close>

lemma threshold_wad:
  obtains t :: u128 where "checked_mul (ucast (b :: u32)) (10 ^ 14) = Some t" "unat t = unat b * 10 ^ 14"
proof -
  have u: "unat (ucast b :: u128) = unat b"
    using unat_less_exp [of b] by (simp add: unsigned_ucast_eq take_bit_nat_eq_self)
  have "unat b * 10 ^ 14 < 2 ^ 32 * 10 ^ 14" using unat_less_exp [of b] by simp
  also have "\<dots> < (2 :: nat) ^ 128" by simp
  finally obtain t :: u128 where t: "unat t = unat b * 10 ^ 14" using u128_of_nat by blast
  then have "checked_mul (ucast b) (10 ^ 14) = Some t" by (simp add: checked_mul_Some u)
  then show ?thesis using t by (rule that)
qed

lemma supply_apr_unat:
  assumes "supply_apr_wad s = Inr r"
  shows "unat r = supply_apr_ref s"
proof -
  let ?r = "borrow_rate_ref s (utilization_ref s)"
  have v: "is_reserve_config_valid s" and r: "r = word_of_nat (supply_apr_ref s)"
    using assms by (auto simp: supply_apr_wad_eq split: if_splits)
  have "supply_apr_ref s \<le> ?r" by (rule supply_apr_ref_le [OF v])
  also have "?r < 2 ^ 128"
    using borrow_rate_ref_bounds(2) [OF v utilization_ref_le]
      pct_u64_small [of "super_max_borrow_rate_pct s"] by (rule le_less_trans)
  finally show ?thesis unfolding r by (intro unat_word_of_nat) simp
qed

text \<open>
  The Solend verifier on every branch: formula version, rate kind, reserve configuration and
  staleness gates in this order, overflow exactly when the reserve's total does not fit
  128 bits, and otherwise the comparison of the reference supply APR with the threshold.
\<close>

theorem solend_verdict_exact:
  "verify_solend_supply_apr_condition c s ctx =
     (if formula_version c \<noteq> 1 then Inl SolendFormulaVersionUnsupported
      else if rate_kind c = Apy then Inl UnsupportedRateKind
      else if \<not> is_reserve_config_valid s then Inl SolendInvalidReserveConfig
      else if unat (current_slot ctx) < unat (last_update_slot s) \<or> stale_flag s \<or>
        unat (max_reserve_staleness_slots c) < unat (current_slot ctx) - unat (last_update_slot s)
      then Inl SolendReserveStale
      else if \<not> reserve_fits s then Inl SolendComputeOverflow
      else Inr (compares (SolendSupplyAprCondition.comparison c)
             (supply_apr_ref s) (unat (threshold_bps c) * 10 ^ 14)))"
proof -
  obtain t :: u128 where t: "checked_mul (ucast (threshold_bps c)) (10 ^ 14) = Some t"
    "unat t = unat (threshold_bps c) * 10 ^ 14" by (rule threshold_wad)
  have um: "unat (ucast (max_reserve_staleness_slots c) :: u64) = unat (max_reserve_staleness_slots c)"
    using unat_less_exp [of "max_reserve_staleness_slots c"]
    by (simp add: unsigned_ucast_eq take_bit_nat_eq_self)
  have apply_eq: "apply_u128 cmp r t = compares cmp (unat r) (unat t)" for cmp r
    by (cases cmp) (simp_all add: word_less_nat_alt word_le_nat_alt)
  have apr: "bindE (supply_apr_wad s) (\<lambda>r. Inr (apply_u128 cmp r t)) =
      (if \<not> reserve_fits s then Inl SolendComputeOverflow else Inr (compares cmp (supply_apr_ref s) (unat t)))"
    if "is_reserve_config_valid s" for cmp
    using that supply_apr_unat [of s] by (simp add: supply_apr_wad_eq apply_eq)
  show ?thesis
  proof (cases "checked_sub (current_slot ctx) (last_update_slot s)")
    case None
    then have "unat (current_slot ctx) < unat (last_update_slot s)" by (simp add: checked_sub_None)
    then show ?thesis
      by (simp add: None verify_solend_supply_apr_condition_def SUPPORTED_SOLEND_FORMULA_VERSION_def
          split: RateKind.split)
  next
    case (Some age)
    then have "unat (current_slot ctx) = unat (last_update_slot s) + unat age"
      by (simp add: checked_sub_Some)
    then show ?thesis using Some apr t
      by (auto simp: verify_solend_supply_apr_condition_def SUPPORTED_SOLEND_FORMULA_VERSION_def
          word_less_nat_alt um split: RateKind.split)
  qed
qed

end
