(* ===== verification/Authority_Error.thy ===== *)
theory Authority_Error
  imports Solana_Runtime
begin

text \<open>
  \<^verbatim>\<open>programs/clawsol-authority/src/error.rs\<close>: the custom errors of the authority program with
  their discriminants, and the conversion into \<open>ProgramError::Custom\<close>. The numbers are the wire
  shape off-chain clients decode, so the conversion must keep the errors apart.
\<close>

datatype (plugins only: size) AuthorityError =
    UserMustSign
  | InvalidPda
  | AuthorizationExpired
  | InvalidZeroMaxAmount
  | UnsupportedSchemaVersion
  | InvalidActionType
  | RevokeWrongUser
  | CloseWrongUser
  | NotCloseable
  | MissingExecutorSignature
  | InvalidAuthorizationPda
  | AuthorizationOwnerMismatch
  | AuthorizationUserMismatch
  | ExecutorMismatch
  | RuleHashMismatch
  | ActionTypeMismatch
  | AuthorizationRevoked
  | AuthorizationCompleted
  | InputAmountZero
  | InputAmountExceeded
  | ExecutionNonceMismatch
  | SameSlotReplay
  | MissingConditionProof
  | ConditionCountMismatch
  | ConditionNotMet
  | ConditionVerificationFailed
  | PythSnapshotStale
  | PythFeedIdMismatch
  | PythVerificationLevelInsufficient
  | PythConfidenceTooWide
  | SolendFormulaVersionUnsupported
  | SolendReserveStale
  | SolendBoundaryProofMissing
  | UnsupportedSolendAction
  | SolendProgramMismatch
  | SolendObligationOwnerMismatch
  | SolendObligationAuthorityMismatch
  | SolendMainWalletObligationRejected
  | SolendReserveMismatch
  | SolendLendingMarketMismatch
  | SolendDestinationMismatch
  | SolendRefreshMissing
  | SolendWithdrawMissing
  | SolendInstructionOrderInvalid
  | SolendDuplicateOrConflictingInstruction
  | SolendBoundaryVerificationFailed
  | JupiterBoundaryProofMissing
  | JupiterBoundaryVerificationFailed
  | JupiterIllegalSiblingInstruction
  | JupiterInstructionOrderInvalid
  | JupiterProgramIdMismatch
  | JupiterUnexpectedWritableAccount
  | JupiterDestinationMismatch
  | JupiterTokenAccountInvalid
  | JupiterMintMismatch
  | JupiterPostBalanceUnderflow
  | JupiterBalanceDeltaTooSmall
  | JupiterSiblingListTooLarge
  | JupiterBracketCheckpointMissing
  | JupiterBracketCheckpointConsumed
  | SolendAccountDataTooShort
  | SolendAccountOwnerMismatch
  | SolendObligationDecodeFailed
  | SolendReserveDecodeFailed
  | SolendUnsupportedObligationVersion
  | SolendUnsupportedReserveVersion
  | SolendObligationLendingMarketMismatch
  | SolendReserveLendingMarketMismatch
  | SolendLastUpdateSlotMismatch
  | SolendTokenAccountOwnerMismatch
  | SolendTokenAccountMintMismatch
  | SolendTokenAccountAuthorityMismatch
  | SolendTokenAccountInvalidLength
  | SolendCpiAccountOrderInvalid
  | SolendCpiSysvarMismatch
  | SolendCpiTokenProgramMismatch
  | SolendCpiZeroCollateralAmount
  | SolendCpiOracleUnverified
  | SolendCpiBuilderInvariantFailed
  | SolendCpiDelegatedWalletMissing
  | SolendCpiDelegatedWalletNotSigner
  | SolendCpiDelegatedWalletMismatch
  | SolendCpiRefreshReserveFailed
  | SolendCpiRefreshObligationFailed
  | SolendCpiWithdrawFailed
  | SolendCpiSuccessPathBlockedByOracleValidation
  | SolendCpiInsufficientAccounts
  | SolendCpiBorrowAcrossInvokeRisk
  | SolendDemoOracleUnknownReserve
  | SolendDemoOracleTupleMismatch

primrec error_code :: "AuthorityError \<Rightarrow> u32" where
  "error_code UserMustSign = 0"
| "error_code InvalidPda = 1"
| "error_code AuthorizationExpired = 2"
| "error_code InvalidZeroMaxAmount = 3"
| "error_code UnsupportedSchemaVersion = 4"
| "error_code InvalidActionType = 5"
| "error_code RevokeWrongUser = 6"
| "error_code CloseWrongUser = 7"
| "error_code NotCloseable = 8"
| "error_code MissingExecutorSignature = 9"
| "error_code InvalidAuthorizationPda = 10"
| "error_code AuthorizationOwnerMismatch = 11"
| "error_code AuthorizationUserMismatch = 12"
| "error_code ExecutorMismatch = 13"
| "error_code RuleHashMismatch = 14"
| "error_code ActionTypeMismatch = 15"
| "error_code AuthorizationRevoked = 16"
| "error_code AuthorizationCompleted = 17"
| "error_code InputAmountZero = 18"
| "error_code InputAmountExceeded = 19"
| "error_code ExecutionNonceMismatch = 20"
| "error_code SameSlotReplay = 21"
| "error_code MissingConditionProof = 22"
| "error_code ConditionCountMismatch = 23"
| "error_code ConditionNotMet = 24"
| "error_code ConditionVerificationFailed = 25"
| "error_code PythSnapshotStale = 26"
| "error_code PythFeedIdMismatch = 27"
| "error_code PythVerificationLevelInsufficient = 28"
| "error_code PythConfidenceTooWide = 29"
| "error_code SolendFormulaVersionUnsupported = 30"
| "error_code SolendReserveStale = 31"
| "error_code SolendBoundaryProofMissing = 32"
| "error_code UnsupportedSolendAction = 33"
| "error_code SolendProgramMismatch = 34"
| "error_code SolendObligationOwnerMismatch = 35"
| "error_code SolendObligationAuthorityMismatch = 36"
| "error_code SolendMainWalletObligationRejected = 37"
| "error_code SolendReserveMismatch = 38"
| "error_code SolendLendingMarketMismatch = 39"
| "error_code SolendDestinationMismatch = 40"
| "error_code SolendRefreshMissing = 41"
| "error_code SolendWithdrawMissing = 42"
| "error_code SolendInstructionOrderInvalid = 43"
| "error_code SolendDuplicateOrConflictingInstruction = 44"
| "error_code SolendBoundaryVerificationFailed = 45"
| "error_code JupiterBoundaryProofMissing = 46"
| "error_code JupiterBoundaryVerificationFailed = 47"
| "error_code JupiterIllegalSiblingInstruction = 48"
| "error_code JupiterInstructionOrderInvalid = 49"
| "error_code JupiterProgramIdMismatch = 50"
| "error_code JupiterUnexpectedWritableAccount = 51"
| "error_code JupiterDestinationMismatch = 52"
| "error_code JupiterTokenAccountInvalid = 53"
| "error_code JupiterMintMismatch = 54"
| "error_code JupiterPostBalanceUnderflow = 55"
| "error_code JupiterBalanceDeltaTooSmall = 56"
| "error_code JupiterSiblingListTooLarge = 57"
| "error_code JupiterBracketCheckpointMissing = 58"
| "error_code JupiterBracketCheckpointConsumed = 59"
| "error_code SolendAccountDataTooShort = 60"
| "error_code SolendAccountOwnerMismatch = 61"
| "error_code SolendObligationDecodeFailed = 62"
| "error_code SolendReserveDecodeFailed = 63"
| "error_code SolendUnsupportedObligationVersion = 64"
| "error_code SolendUnsupportedReserveVersion = 65"
| "error_code SolendObligationLendingMarketMismatch = 66"
| "error_code SolendReserveLendingMarketMismatch = 67"
| "error_code SolendLastUpdateSlotMismatch = 68"
| "error_code SolendTokenAccountOwnerMismatch = 69"
| "error_code SolendTokenAccountMintMismatch = 70"
| "error_code SolendTokenAccountAuthorityMismatch = 71"
| "error_code SolendTokenAccountInvalidLength = 72"
| "error_code SolendCpiAccountOrderInvalid = 73"
| "error_code SolendCpiSysvarMismatch = 74"
| "error_code SolendCpiTokenProgramMismatch = 75"
| "error_code SolendCpiZeroCollateralAmount = 76"
| "error_code SolendCpiOracleUnverified = 77"
| "error_code SolendCpiBuilderInvariantFailed = 78"
| "error_code SolendCpiDelegatedWalletMissing = 79"
| "error_code SolendCpiDelegatedWalletNotSigner = 80"
| "error_code SolendCpiDelegatedWalletMismatch = 81"
| "error_code SolendCpiRefreshReserveFailed = 82"
| "error_code SolendCpiRefreshObligationFailed = 83"
| "error_code SolendCpiWithdrawFailed = 84"
| "error_code SolendCpiSuccessPathBlockedByOracleValidation = 85"
| "error_code SolendCpiInsufficientAccounts = 86"
| "error_code SolendCpiBorrowAcrossInvokeRisk = 87"
| "error_code SolendDemoOracleUnknownReserve = 88"
| "error_code SolendDemoOracleTupleMismatch = 89"

text \<open>\<open>impl From<AuthorityError> for ProgramError\<close>.\<close>

definition authority_err :: "AuthorityError \<Rightarrow> program_error" where
  "authority_err e = Custom (error_code e)"

section \<open>The codes keep the errors apart\<close>

definition all_errors :: "AuthorityError list" where
  "all_errors = [
    UserMustSign, InvalidPda, AuthorizationExpired, InvalidZeroMaxAmount,
    UnsupportedSchemaVersion, InvalidActionType, RevokeWrongUser, CloseWrongUser, NotCloseable,
    MissingExecutorSignature, InvalidAuthorizationPda, AuthorizationOwnerMismatch,
    AuthorizationUserMismatch, ExecutorMismatch, RuleHashMismatch, ActionTypeMismatch,
    AuthorizationRevoked, AuthorizationCompleted, InputAmountZero, InputAmountExceeded,
    ExecutionNonceMismatch, SameSlotReplay, MissingConditionProof, ConditionCountMismatch,
    ConditionNotMet, ConditionVerificationFailed, PythSnapshotStale, PythFeedIdMismatch,
    PythVerificationLevelInsufficient, PythConfidenceTooWide, SolendFormulaVersionUnsupported,
    SolendReserveStale, SolendBoundaryProofMissing, UnsupportedSolendAction,
    SolendProgramMismatch, SolendObligationOwnerMismatch, SolendObligationAuthorityMismatch,
    SolendMainWalletObligationRejected, SolendReserveMismatch, SolendLendingMarketMismatch,
    SolendDestinationMismatch, SolendRefreshMissing, SolendWithdrawMissing,
    SolendInstructionOrderInvalid, SolendDuplicateOrConflictingInstruction,
    SolendBoundaryVerificationFailed, JupiterBoundaryProofMissing,
    JupiterBoundaryVerificationFailed, JupiterIllegalSiblingInstruction,
    JupiterInstructionOrderInvalid, JupiterProgramIdMismatch, JupiterUnexpectedWritableAccount,
    JupiterDestinationMismatch, JupiterTokenAccountInvalid, JupiterMintMismatch,
    JupiterPostBalanceUnderflow, JupiterBalanceDeltaTooSmall, JupiterSiblingListTooLarge,
    JupiterBracketCheckpointMissing, JupiterBracketCheckpointConsumed, SolendAccountDataTooShort,
    SolendAccountOwnerMismatch, SolendObligationDecodeFailed, SolendReserveDecodeFailed,
    SolendUnsupportedObligationVersion, SolendUnsupportedReserveVersion,
    SolendObligationLendingMarketMismatch, SolendReserveLendingMarketMismatch,
    SolendLastUpdateSlotMismatch, SolendTokenAccountOwnerMismatch,
    SolendTokenAccountMintMismatch, SolendTokenAccountAuthorityMismatch,
    SolendTokenAccountInvalidLength, SolendCpiAccountOrderInvalid, SolendCpiSysvarMismatch,
    SolendCpiTokenProgramMismatch, SolendCpiZeroCollateralAmount, SolendCpiOracleUnverified,
    SolendCpiBuilderInvariantFailed, SolendCpiDelegatedWalletMissing,
    SolendCpiDelegatedWalletNotSigner, SolendCpiDelegatedWalletMismatch,
    SolendCpiRefreshReserveFailed, SolendCpiRefreshObligationFailed, SolendCpiWithdrawFailed,
    SolendCpiSuccessPathBlockedByOracleValidation, SolendCpiInsufficientAccounts,
    SolendCpiBorrowAcrossInvokeRisk, SolendDemoOracleUnknownReserve, SolendDemoOracleTupleMismatch]"

lemma all_errors_complete: "e \<in> set all_errors"
  by (cases e) (simp_all add: all_errors_def)

lemma all_error_codes: "map (unat \<circ> error_code) all_errors = [0..<90]"
  by (simp add: all_errors_def upt_rec)

lemma error_code_inject: "error_code d = error_code e \<longleftrightarrow> d = e"
proof
  assume eq: "error_code d = error_code e"
  have "distinct (map (unat \<circ> error_code) all_errors)" by (simp only: all_error_codes distinct_upt)
  then have "inj_on (unat \<circ> error_code) (set all_errors)" by (simp only: distinct_map)
  then show "d = e" by (rule inj_onD) (simp_all add: eq all_errors_complete)
qed simp

lemma error_code_bound: "unat (error_code e) < 90"
proof -
  have "(unat \<circ> error_code) e \<in> set (map (unat \<circ> error_code) all_errors)"
    using all_errors_complete [of e] by (simp only: set_map) (rule imageI)
  then show ?thesis by (simp only: all_error_codes) simp
qed

lemma authority_err_inject [simp]: "authority_err d = authority_err e \<longleftrightarrow> d = e"
  by (simp add: authority_err_def error_code_inject)

lemma authority_err_program [simp]:
  "authority_err e \<noteq> InvalidArgument" "authority_err e \<noteq> InvalidInstructionData"
  "authority_err e \<noteq> InvalidAccountData" "authority_err e \<noteq> NotEnoughAccountKeys"
  "authority_err e \<noteq> AccountAlreadyInitialized" "authority_err e \<noteq> ArithmeticOverflow"
  by (simp_all add: authority_err_def)

text \<open>Errors are compared by their discriminant, as \<open>#[repr(u32)]\<close> makes the program do.\<close>

instantiation AuthorityError :: equal
begin

definition equal_AuthorityError :: "AuthorityError \<Rightarrow> AuthorityError \<Rightarrow> bool" where
  "equal_AuthorityError d e \<longleftrightarrow> error_code d = error_code e"

instance
  by standard (simp add: equal_AuthorityError_def error_code_inject)

end

end
