(* ===== verification/Borsh.thy ===== *)
theory Borsh
  imports Solana_Runtime
begin

text \<open>
  Borsh, the wire format of both programs' records and instructions. A \<open>borsh\<close> value is the
  serializer and the strict \<open>try_from_slice\<close> of one type (it consumes the whole slice); the
  handlers take it as a parameter. The interface they rely on is the locale \<open>borsh_fixed\<close>:
  reading back what was written, a fixed length, and no other bytes that read as the value.

  The second half gives the layout the sources' comments document (structs in declared field
  order, integers little-endian, \<open>[u8; N]\<close> raw, \<open>bool\<close> one byte, \<open>Option\<close> and enums with a tag
  byte, \<open>Vec\<close> with a \<open>u32\<close> length), as combinators that keep the laws.
\<close>

section \<open>Serializers as the handlers see them\<close>

record 'a borsh =
  to_bytes :: "'a \<Rightarrow> u8 list"
  try_from_slice :: "u8 list \<Rightarrow> 'a option"

text \<open>
  \<open>x.serialize(&mut &mut data[..])\<close> overwrites the front of the buffer and fails when the
  buffer is too short.
\<close>

definition serialize_into :: "'a borsh \<Rightarrow> 'a \<Rightarrow> u8 list \<Rightarrow> u8 list option" where
  "serialize_into c x buf =
     (let bs = to_bytes c x in
      if length bs \<le> length buf then Some (bs @ drop (length bs) buf) else None)"

text \<open>Reading a record out of an account and writing it back, with the error both programs map to.\<close>

definition read_account :: "'a borsh \<Rightarrow> pubkey \<Rightarrow> world \<Rightarrow> program_error + 'a" where
  "read_account c k w = ok_or (try_from_slice c (data (ledger w k))) InvalidAccountData"

definition serialize_account :: "'a borsh \<Rightarrow> 'a \<Rightarrow> pubkey \<Rightarrow> world \<Rightarrow> program_error + world" where
  "serialize_account c x k w =
     bindE (ok_or (serialize_into c x (data (ledger w k))) InvalidAccountData) (\<lambda>bs.
     Inr (write_data k bs w))"

lemma read_account_Inr [ok_simps]:
  "read_account c k w = Inr x \<longleftrightarrow> try_from_slice c (data (ledger w k)) = Some x"
  by (simp add: read_account_def ok_or_Inr)

locale borsh_fixed =
  fixes c :: "'a borsh" and n :: nat
  assumes read_written: "try_from_slice c (to_bytes c x) = Some x"
    and written_length: "length (to_bytes c x) = n"
    and read_exact: "try_from_slice c bs = Some x \<Longrightarrow> bs = to_bytes c x"
begin

lemma read_iff: "try_from_slice c bs = Some x \<longleftrightarrow> bs = to_bytes c x"
  using read_written read_exact by blast

lemma read_length: "try_from_slice c bs = Some x \<Longrightarrow> length bs = n"
  using read_exact written_length by blast

lemma to_bytes_inject: "to_bytes c x = to_bytes c y \<longleftrightarrow> x = y"
  using read_written by (metis option.inject)

lemma serialize_exact: "length buf = n \<Longrightarrow> serialize_into c x buf = Some (to_bytes c x)"
  by (simp add: serialize_into_def written_length)

lemma serialize_over: "try_from_slice c buf = Some y \<Longrightarrow> serialize_into c x buf = Some (to_bytes c x)"
  by (simp add: read_length serialize_exact)

lemma serialize_account_over:
  "try_from_slice c (data (ledger w k)) = Some y \<Longrightarrow>
   serialize_account c x k w = Inr (write_data k (to_bytes c x) w)"
  by (simp add: serialize_account_def serialize_over)

lemma serialize_account_new:
  "data (ledger w k) = replicate n 0 \<Longrightarrow>
   serialize_account c x k w = Inr (write_data k (to_bytes c x) w)"
  by (simp add: serialize_account_def serialize_exact)

lemma serialize_account_other:
  "serialize_account c x k w = Inr w' \<Longrightarrow> is_ok (serialize_account c y k w)"
  by (auto simp: serialize_account_def serialize_into_def written_length Let_def split: if_splits)

lemma serialize_new: "serialize_into c x (replicate n 0) = Some (to_bytes c x)"
  by (simp add: serialize_exact)

end

section \<open>Layouts\<close>

record 'a layout =
  enc :: "'a \<Rightarrow> u8 list"
  dec :: "u8 list \<Rightarrow> ('a \<times> u8 list) option"

text \<open>
  A layout is lawful on the values \<open>P\<close> that it can represent: reading undoes writing in front
  of any rest, and whatever it reads is one of those values, spelled the only way.
\<close>

locale borsh_layout =
  fixes l :: "'a layout" and P :: "'a \<Rightarrow> bool"
  assumes dec_enc: "P x \<Longrightarrow> dec l (enc l x @ rest) = Some (x, rest)"
    and dec_exact: "dec l bs = Some (x, rest) \<Longrightarrow> P x \<and> bs = enc l x @ rest"

definition word_layout :: "'a::len word layout" where
  "word_layout = \<lparr>enc = to_le_bytes,
     dec = (\<lambda>bs. let n = LENGTH('a) div 8 in
       if n \<le> length bs then Some (from_le_bytes (take n bs), drop n bs) else None)\<rparr>"

definition array_layout :: "'a::len word layout" where
  "array_layout = \<lparr>enc = array_bytes,
     dec = (\<lambda>bs. let n = LENGTH('a) div 8 in
       if n \<le> length bs then Some (array_of_bytes (take n bs), drop n bs) else None)\<rparr>"

definition bool_layout :: "bool layout" where
  "bool_layout = \<lparr>enc = (\<lambda>b. [if b then 1 else 0]),
     dec = (\<lambda>bs. case bs of [] \<Rightarrow> None
        | b # rest \<Rightarrow> if b = 0 then Some (False, rest) else if b = 1 then Some (True, rest) else None)\<rparr>"

definition pair_layout :: "'a layout \<Rightarrow> 'b layout \<Rightarrow> ('a \<times> 'b) layout" where
  "pair_layout l m = \<lparr>enc = (\<lambda>(x, y). enc l x @ enc m y),
     dec = (\<lambda>bs. case dec l bs of None \<Rightarrow> None
        | Some (x, rest) \<Rightarrow> (case dec m rest of None \<Rightarrow> None
          | Some (y, rest') \<Rightarrow> Some ((x, y), rest')))\<rparr>"

definition map_layout :: "('a \<Rightarrow> 'b) \<Rightarrow> ('b \<Rightarrow> 'a) \<Rightarrow> 'a layout \<Rightarrow> 'b layout" where
  "map_layout f g l = \<lparr>enc = (\<lambda>y. enc l (g y)),
     dec = (\<lambda>bs. case dec l bs of None \<Rightarrow> None | Some (x, rest) \<Rightarrow> Some (f x, rest))\<rparr>"

definition borsh_of :: "'a layout \<Rightarrow> 'a borsh" where
  "borsh_of l = \<lparr>to_bytes = enc l,
     try_from_slice = (\<lambda>bs. case dec l bs of Some (x, []) \<Rightarrow> Some x | _ \<Rightarrow> None)\<rparr>"

lemma word_layout_ok:
  "8 dvd LENGTH('a) \<Longrightarrow> borsh_layout (word_layout :: 'a::len word layout) (\<lambda>_. True)"
  by (unfold_locales)
    (auto simp: word_layout_def Let_def from_to_le_bytes to_from_le_bytes split: if_splits)

lemma array_layout_ok:
  "8 dvd LENGTH('a) \<Longrightarrow> borsh_layout (array_layout :: 'a::len word layout) (\<lambda>_. True)"
  by (unfold_locales)
    (auto simp: array_layout_def Let_def array_of_array_bytes array_bytes_of_array split: if_splits)

lemma bool_layout_ok: "borsh_layout bool_layout (\<lambda>_. True)"
  by (unfold_locales) (auto simp: bool_layout_def split: list.splits if_splits)

lemma pair_layout_ok:
  assumes "borsh_layout l P" and "borsh_layout m Q"
  shows "borsh_layout (pair_layout l m) (\<lambda>(x, y). P x \<and> Q y)"
proof
  fix p :: "'a \<times> 'b" and rest
  assume "case p of (x, y) \<Rightarrow> P x \<and> Q y"
  then show "dec (pair_layout l m) (enc (pair_layout l m) p @ rest) = Some (p, rest)"
    by (auto simp: pair_layout_def borsh_layout.dec_enc [OF assms(1)] borsh_layout.dec_enc [OF assms(2)])
next
  fix bs and p :: "'a \<times> 'b" and rest
  assume "dec (pair_layout l m) bs = Some (p, rest)"
  then show "(case p of (x, y) \<Rightarrow> P x \<and> Q y) \<and> bs = enc (pair_layout l m) p @ rest"
    by (auto simp: pair_layout_def split: option.splits
        dest!: borsh_layout.dec_exact [OF assms(1)] borsh_layout.dec_exact [OF assms(2)])
qed

lemma map_layout_ok:
  assumes l: "borsh_layout l P" and fg: "\<And>y. f (g y) = y" and gf: "\<And>x. P x \<Longrightarrow> g (f x) = x"
  shows "borsh_layout (map_layout f g l) (\<lambda>y. P (g y))"
proof
  fix y rest
  assume "P (g y)"
  then show "dec (map_layout f g l) (enc (map_layout f g l) y @ rest) = Some (y, rest)"
    by (simp add: map_layout_def borsh_layout.dec_enc [OF l] fg)
next
  fix bs y rest
  assume "dec (map_layout f g l) bs = Some (y, rest)"
  then show "P (g y) \<and> bs = enc (map_layout f g l) y @ rest"
    by (auto simp: map_layout_def gf split: option.splits dest!: borsh_layout.dec_exact [OF l])
qed

lemma borsh_layout_total: "borsh_layout l P \<Longrightarrow> (\<And>x. P x) \<Longrightarrow> borsh_layout l (\<lambda>_. True)"
  by (simp add: borsh_layout_def)

text \<open>Layouts that represent every value of their type, as a collection to resolve against.\<close>

lemma pair_layout_total:
  "borsh_layout l (\<lambda>_. True) \<Longrightarrow> borsh_layout m (\<lambda>_. True) \<Longrightarrow>
   borsh_layout (pair_layout l m) (\<lambda>_. True)"
  by (drule (1) pair_layout_ok) (simp add: case_prod_unfold)

lemma map_layout_total:
  "borsh_layout l (\<lambda>_. True) \<Longrightarrow> (\<And>y. f (g y) = y) \<Longrightarrow> (\<And>x. g (f x) = x) \<Longrightarrow>
   borsh_layout (map_layout f g l) (\<lambda>_. True)"
  using map_layout_ok [of l "\<lambda>_. True" f g] by simp

lemmas layout_intros = word_layout_ok array_layout_ok bool_layout_ok pair_layout_total

lemma layout_lengths:
  "length (enc (word_layout :: 'a::len word layout) w) = LENGTH('a) div 8"
  "length (enc (array_layout :: 'a::len word layout) w) = LENGTH('a) div 8"
  "length (enc bool_layout b) = 1"
  "length (enc (pair_layout l m) p) = length (enc l (fst p)) + length (enc m (snd p))"
  "enc (map_layout f g l) y = enc l (g y)"
  by (simp_all add: word_layout_def array_layout_def bool_layout_def pair_layout_def
      map_layout_def case_prod_unfold)

text \<open>A lawful layout of fixed length is a serializer the handlers can rely on.\<close>

locale fixed_layout = borsh_layout l "\<lambda>_. True" for l :: "'a layout" +
  fixes n :: nat
  assumes enc_length: "length (enc l x) = n"

sublocale fixed_layout \<subseteq> fixed: borsh_fixed "borsh_of l" n
proof
  fix x
  have "dec l (enc l x) = Some (x, [])" using dec_enc [of x "[]"] by simp
  then show "try_from_slice (borsh_of l) (to_bytes (borsh_of l) x) = Some x"
    by (simp add: borsh_of_def)
  show "length (to_bytes (borsh_of l) x) = n" by (simp add: borsh_of_def enc_length)
next
  fix bs x
  assume "try_from_slice (borsh_of l) bs = Some x"
  then show "bs = to_bytes (borsh_of l) x"
    by (auto simp: borsh_of_def split: option.splits list.splits dest: dec_exact)
qed

end
