(* ===== verification/Authority_State.thy ===== *)
theory Authority_State
  imports Borsh
begin

text \<open>
  \<^verbatim>\<open>programs/clawsol-authority/src/state.rs\<close>: the authorization record kept in the program's
  address, the action types it may allow, its declared length, and its Borsh layout with the
  proof that the layout is one the handlers can rely on.
\<close>

definition STAGE2_AUTHORITY_SCHEMA_VERSION :: u8 where
  "STAGE2_AUTHORITY_SCHEMA_VERSION = 1"

datatype Stage2ActionType = SolendWithdrawAllDelegated | JupiterBuySolWithUsdc

primrec Stage2ActionType_to_u8 :: "Stage2ActionType \<Rightarrow> u8" where
  "Stage2ActionType_to_u8 SolendWithdrawAllDelegated = 1"
| "Stage2ActionType_to_u8 JupiterBuySolWithUsdc = 2"

definition Stage2ActionType_from_u8 :: "u8 \<Rightarrow> Stage2ActionType option" where
  "Stage2ActionType_from_u8 value =
     (if value = 1 then Some SolendWithdrawAllDelegated
      else if value = 2 then Some JupiterBuySolWithUsdc
      else None)"

record AuthorizationRecord =
  schema_version :: u8
  rule_id :: "128 word"
  user :: pubkey
  executor :: pubkey
  delegated_wallet :: pubkey
  canonical_rule_hash :: "256 word"
  allowed_action_type :: u8
  max_input_amount_raw :: u64
  used_amount_raw :: u64
  destination :: pubkey
  expires_at_slot :: u64
  revoked :: bool
  completed :: bool
  execution_nonce :: u64
  last_execution_slot :: u64
  bump :: u8

definition AuthorizationRecord_LEN :: nat where
  "AuthorizationRecord_LEN = 1 + 16 + 32 + 32 + 32 + 32 + 1 + 8 + 8 + 32 + 8 + 1 + 1 + 8 + 8 + 1"

section \<open>Action types\<close>

lemma from_to_u8 [simp]: "Stage2ActionType_from_u8 (Stage2ActionType_to_u8 t) = Some t"
  by (cases t) (simp_all add: Stage2ActionType_from_u8_def)

lemma to_from_u8: "Stage2ActionType_from_u8 b = Some t \<longleftrightarrow> b = Stage2ActionType_to_u8 t"
  by (cases t) (auto simp: Stage2ActionType_from_u8_def)

lemma from_u8_None: "Stage2ActionType_from_u8 b = None \<longleftrightarrow> b \<noteq> 1 \<and> b \<noteq> 2"
  by (simp add: Stage2ActionType_from_u8_def)

section \<open>Borsh layout\<close>

type_synonym authorization_fields =
  "u8 \<times> 128 word \<times> pubkey \<times> pubkey \<times> pubkey \<times> 256 word \<times> u8 \<times> u64 \<times> u64 \<times> pubkey \<times> u64 \<times>
   bool \<times> bool \<times> u64 \<times> u64 \<times> u8"

fun authorization_of_fields :: "authorization_fields \<Rightarrow> AuthorizationRecord" where
  "authorization_of_fields (sv, ri, us, ex, dw, h, act, mx, used, dst, ex_slot, rv, cp, nonce, ls, bu) =
     \<lparr>schema_version = sv, rule_id = ri, user = us, executor = ex, delegated_wallet = dw,
      canonical_rule_hash = h, allowed_action_type = act, max_input_amount_raw = mx,
      used_amount_raw = used, destination = dst, expires_at_slot = ex_slot, revoked = rv,
      completed = cp, execution_nonce = nonce, last_execution_slot = ls, bump = bu\<rparr>"

definition fields_of_authorization :: "AuthorizationRecord \<Rightarrow> authorization_fields" where
  "fields_of_authorization r =
     (schema_version r, rule_id r, user r, executor r, delegated_wallet r, canonical_rule_hash r,
      allowed_action_type r, max_input_amount_raw r, used_amount_raw r, destination r,
      expires_at_slot r, revoked r, completed r, execution_nonce r, last_execution_slot r, bump r)"

definition authorization_fields_layout :: "authorization_fields layout" where
  "authorization_fields_layout =
     pair_layout word_layout (pair_layout array_layout (pair_layout array_layout
     (pair_layout array_layout (pair_layout array_layout (pair_layout array_layout
     (pair_layout word_layout (pair_layout word_layout (pair_layout word_layout
     (pair_layout array_layout (pair_layout word_layout (pair_layout bool_layout
     (pair_layout bool_layout (pair_layout word_layout (pair_layout word_layout word_layout))))))))))))))"

definition authorization_layout :: "AuthorizationRecord layout" where
  "authorization_layout =
     map_layout authorization_of_fields fields_of_authorization authorization_fields_layout"

lemma authorization_fields_layout_ok: "borsh_layout authorization_fields_layout (\<lambda>_. True)"
  unfolding authorization_fields_layout_def
  by (intro layout_intros) simp_all

interpretation authorization: fixed_layout authorization_layout AuthorizationRecord_LEN
proof (rule fixed_layout.intro)
  show "borsh_layout authorization_layout (\<lambda>_. True)"
    unfolding authorization_layout_def
    by (rule map_layout_total [OF authorization_fields_layout_ok])
      (auto simp: fields_of_authorization_def)
  show "fixed_layout_axioms authorization_layout AuthorizationRecord_LEN"
    by unfold_locales (simp add: authorization_layout_def authorization_fields_layout_def
        fields_of_authorization_def AuthorizationRecord_LEN_def layout_lengths)
qed

text \<open>
  The wire format of the authorization record: a byte string reads as a record exactly when it
  is that record's encoding, and every encoding has the length the program allocates.
\<close>

theorem authorization_wire_exact:
  "(try_from_slice (borsh_of authorization_layout) bs = Some rec \<longleftrightarrow>
      bs = to_bytes (borsh_of authorization_layout) rec) \<and>
   length (to_bytes (borsh_of authorization_layout) rec) = AuthorizationRecord_LEN"
  using authorization.fixed.read_iff authorization.fixed.written_length by blast

end
