(* ===== verification/Solend_Account_Decode.thy ===== *)
theory Solend_Account_Decode
  imports Authority_Error Authority_State
begin

text \<open>
  \<^verbatim>\<open>programs/clawsol-authority/src/solend_account_decode.rs\<close>: the byte decoders for Solend
  obligations and reserves and for SPL token accounts, with checked slicing only, and the checks
  applied to a decoded value. The lemmas give the exact bytes each decoder accepts and that packing
  a value the way the owning program packs it and decoding it returns the value.
\<close>

section \<open>The code\<close>

definition SOLEND_PROGRAM_ID_MAINNET :: pubkey where
  "SOLEND_PROGRAM_ID_MAINNET = pubkey_of ''So1endDq2YkqhipRh3WViPa8hdiSpxWy6z3Z6tMCpAo''"

definition SPL_TOKEN_PROGRAM_ID :: pubkey where
  "SPL_TOKEN_PROGRAM_ID = pubkey_of ''TokenkegQfeZyiNwAJbNbGKPFXCWuBvf9Ss623VQ5DA''"

definition SOLEND_OBLIGATION_LEN :: nat where
  "SOLEND_OBLIGATION_LEN = 1300"

definition SOLEND_RESERVE_LEN :: nat where
  "SOLEND_RESERVE_LEN = 619"

definition SOLEND_STALE_AFTER_SLOTS_ELAPSED :: u64 where
  "SOLEND_STALE_AFTER_SLOTS_ELAPSED = 1"

definition SPL_TOKEN_ACCOUNT_LEN :: nat where
  "SPL_TOKEN_ACCOUNT_LEN = 165"

definition SOLEND_SUPPORTED_VERSION :: u8 where
  "SOLEND_SUPPORTED_VERSION = 1"

definition OBLIGATION_OFFSET_VERSION :: nat where
  "OBLIGATION_OFFSET_VERSION = 0"

definition OBLIGATION_OFFSET_LAST_UPDATE_SLOT :: nat where
  "OBLIGATION_OFFSET_LAST_UPDATE_SLOT = 1"

definition OBLIGATION_OFFSET_LAST_UPDATE_STALE :: nat where
  "OBLIGATION_OFFSET_LAST_UPDATE_STALE = 9"

definition OBLIGATION_OFFSET_LENDING_MARKET :: nat where
  "OBLIGATION_OFFSET_LENDING_MARKET = 10"

definition OBLIGATION_OFFSET_OWNER :: nat where
  "OBLIGATION_OFFSET_OWNER = 42"

definition RESERVE_OFFSET_VERSION :: nat where
  "RESERVE_OFFSET_VERSION = 0"

definition RESERVE_OFFSET_LAST_UPDATE_SLOT :: nat where
  "RESERVE_OFFSET_LAST_UPDATE_SLOT = 1"

definition RESERVE_OFFSET_LAST_UPDATE_STALE :: nat where
  "RESERVE_OFFSET_LAST_UPDATE_STALE = 9"

definition RESERVE_OFFSET_LENDING_MARKET :: nat where
  "RESERVE_OFFSET_LENDING_MARKET = 10"

definition SPL_TOKEN_OFFSET_MINT :: nat where
  "SPL_TOKEN_OFFSET_MINT = 0"

definition SPL_TOKEN_OFFSET_OWNER :: nat where
  "SPL_TOKEN_OFFSET_OWNER = 32"

definition SPL_TOKEN_OFFSET_AMOUNT :: nat where
  "SPL_TOKEN_OFFSET_AMOUNT = 64"

lemmas decode_offsets = SOLEND_OBLIGATION_LEN_def SOLEND_RESERVE_LEN_def SPL_TOKEN_ACCOUNT_LEN_def
  SOLEND_SUPPORTED_VERSION_def OBLIGATION_OFFSET_VERSION_def OBLIGATION_OFFSET_LAST_UPDATE_SLOT_def
  OBLIGATION_OFFSET_LAST_UPDATE_STALE_def OBLIGATION_OFFSET_LENDING_MARKET_def
  OBLIGATION_OFFSET_OWNER_def RESERVE_OFFSET_VERSION_def RESERVE_OFFSET_LAST_UPDATE_SLOT_def
  RESERVE_OFFSET_LAST_UPDATE_STALE_def RESERVE_OFFSET_LENDING_MARKET_def SPL_TOKEN_OFFSET_MINT_def
  SPL_TOKEN_OFFSET_OWNER_def SPL_TOKEN_OFFSET_AMOUNT_def

record DecodedSolendObligation =
  version :: u8
  last_update_slot :: u64
  last_update_stale :: bool
  lending_market :: pubkey
  owner :: pubkey

record DecodedSolendReserve =
  version :: u8
  last_update_slot :: u64
  last_update_stale :: bool
  lending_market :: pubkey

record DecodedSplTokenAccountLite =
  mint :: pubkey
  owner :: pubkey
  amount :: u64

definition read_u8 :: "u8 list \<Rightarrow> nat \<Rightarrow> program_error + u8" where
  "read_u8 bs offset = ok_or (get_index bs offset) (authority_err SolendAccountDataTooShort)"

definition read_u64_le :: "u8 list \<Rightarrow> nat \<Rightarrow> program_error + u64" where
  "read_u64_le bs offset =
     bindE (ok_or (get_range bs offset 8) (authority_err SolendAccountDataTooShort)) (\<lambda>arr.
     Inr (from_le_bytes arr))"

definition read_bool :: "u8 list \<Rightarrow> nat \<Rightarrow> program_error + bool" where
  "read_bool bs offset = bindE (read_u8 bs offset) (\<lambda>byte. Inr (byte \<noteq> 0))"

definition read_pubkey :: "u8 list \<Rightarrow> nat \<Rightarrow> program_error + pubkey" where
  "read_pubkey bs offset =
     bindE (ok_or (get_range bs offset 32) (authority_err SolendAccountDataTooShort)) (\<lambda>arr.
     Inr (array_of_bytes arr))"

definition decode_obligation :: "u8 list \<Rightarrow> program_error + DecodedSolendObligation" where
  "decode_obligation bs =
     (if length bs < SOLEND_OBLIGATION_LEN then Inl (authority_err SolendAccountDataTooShort)
      else bindE (read_u8 bs OBLIGATION_OFFSET_VERSION) (\<lambda>version.
      if version \<noteq> SOLEND_SUPPORTED_VERSION
      then Inl (authority_err SolendUnsupportedObligationVersion)
      else bindE (read_u64_le bs OBLIGATION_OFFSET_LAST_UPDATE_SLOT) (\<lambda>last_update_slot.
      bindE (read_bool bs OBLIGATION_OFFSET_LAST_UPDATE_STALE) (\<lambda>last_update_stale.
      bindE (read_pubkey bs OBLIGATION_OFFSET_LENDING_MARKET) (\<lambda>lending_market.
      bindE (read_pubkey bs OBLIGATION_OFFSET_OWNER) (\<lambda>owner.
      Inr \<lparr>DecodedSolendObligation.version = version, last_update_slot = last_update_slot,
           last_update_stale = last_update_stale, lending_market = lending_market, owner = owner\<rparr>))))))"

definition decode_reserve :: "u8 list \<Rightarrow> program_error + DecodedSolendReserve" where
  "decode_reserve bs =
     (if length bs < SOLEND_RESERVE_LEN then Inl (authority_err SolendAccountDataTooShort)
      else bindE (read_u8 bs RESERVE_OFFSET_VERSION) (\<lambda>version.
      if version \<noteq> SOLEND_SUPPORTED_VERSION
      then Inl (authority_err SolendUnsupportedReserveVersion)
      else bindE (read_u64_le bs RESERVE_OFFSET_LAST_UPDATE_SLOT) (\<lambda>last_update_slot.
      bindE (read_bool bs RESERVE_OFFSET_LAST_UPDATE_STALE) (\<lambda>last_update_stale.
      bindE (read_pubkey bs RESERVE_OFFSET_LENDING_MARKET) (\<lambda>lending_market.
      Inr \<lparr>DecodedSolendReserve.version = version, last_update_slot = last_update_slot,
           last_update_stale = last_update_stale, lending_market = lending_market\<rparr>)))))"

definition decode_spl_token_account_lite :: "u8 list \<Rightarrow> program_error + DecodedSplTokenAccountLite" where
  "decode_spl_token_account_lite bs =
     (if length bs \<noteq> SPL_TOKEN_ACCOUNT_LEN
      then Inl (authority_err SolendTokenAccountInvalidLength)
      else bindE (read_pubkey bs SPL_TOKEN_OFFSET_MINT) (\<lambda>mint.
      bindE (read_pubkey bs SPL_TOKEN_OFFSET_OWNER) (\<lambda>owner.
      bindE (read_u64_le bs SPL_TOKEN_OFFSET_AMOUNT) (\<lambda>amount.
      Inr \<lparr>mint = mint, owner = owner, amount = amount\<rparr>))))"

definition require_obligation_owned_by_delegated_wallet ::
  "DecodedSolendObligation \<Rightarrow> AuthorizationRecord \<Rightarrow> program_error + unit" where
  "require_obligation_owned_by_delegated_wallet decoded rec =
     (if DecodedSolendObligation.owner decoded = user rec
      then Inl (authority_err SolendMainWalletObligationRejected)
      else if DecodedSolendObligation.owner decoded \<noteq> delegated_wallet rec
      then Inl (authority_err SolendObligationAuthorityMismatch)
      else Inr ())"

definition require_obligation_lending_market ::
  "DecodedSolendObligation \<Rightarrow> pubkey \<Rightarrow> program_error + unit" where
  "require_obligation_lending_market decoded expected =
     (if DecodedSolendObligation.lending_market decoded \<noteq> expected
      then Inl (authority_err SolendObligationLendingMarketMismatch) else Inr ())"

definition require_reserve_lending_market ::
  "DecodedSolendReserve \<Rightarrow> pubkey \<Rightarrow> program_error + unit" where
  "require_reserve_lending_market decoded expected =
     (if DecodedSolendReserve.lending_market decoded \<noteq> expected
      then Inl (authority_err SolendReserveLendingMarketMismatch) else Inr ())"

definition require_reserve_not_stale :: "DecodedSolendReserve \<Rightarrow> u64 \<Rightarrow> program_error + unit" where
  "require_reserve_not_stale decoded current_slot =
     (if DecodedSolendReserve.last_update_stale decoded then Inl (authority_err SolendReserveStale)
      else bindE (ok_or (checked_sub current_slot (DecodedSolendReserve.last_update_slot decoded))
        (authority_err SolendReserveStale)) (\<lambda>elapsed.
      if elapsed > SOLEND_STALE_AFTER_SLOTS_ELAPSED then Inl (authority_err SolendReserveStale)
      else Inr ()))"

definition require_reserve_same_slot :: "DecodedSolendReserve \<Rightarrow> u64 \<Rightarrow> program_error + unit" where
  "require_reserve_same_slot decoded current_slot =
     (if DecodedSolendReserve.last_update_slot decoded \<noteq> current_slot
      then Inl (authority_err SolendLastUpdateSlotMismatch) else Inr ())"

definition require_spl_token_mint ::
  "DecodedSplTokenAccountLite \<Rightarrow> pubkey \<Rightarrow> program_error + unit" where
  "require_spl_token_mint decoded expected_mint =
     (if mint decoded \<noteq> expected_mint then Inl (authority_err SolendTokenAccountMintMismatch)
      else Inr ())"

definition require_spl_token_authority ::
  "DecodedSplTokenAccountLite \<Rightarrow> pubkey \<Rightarrow> program_error + unit" where
  "require_spl_token_authority decoded expected_authority =
     (if DecodedSplTokenAccountLite.owner decoded \<noteq> expected_authority
      then Inl (authority_err SolendTokenAccountAuthorityMismatch) else Inr ())"

section \<open>Reading inside the buffer\<close>

lemma get_index_append:
  "get_index (xs @ y # ys) n = Some y" if "length xs = n"
  using that by (auto simp: get_index_def nth_append)

lemma get_range_append:
  "get_range (xs @ ys @ zs) n k = Some ys" if "length xs = n" "length ys = k"
  using that by (auto simp: get_range_def)

lemma read_u8_in: "read_u8 bs n = Inr (bs ! n)" if "n < length bs"
  using that by (simp add: read_u8_def get_index_def)

lemma read_u64_le_in: "read_u64_le bs n = Inr (from_le_bytes (take 8 (drop n bs)))"
  if "n + 8 \<le> length bs"
  using that by (simp add: read_u64_le_def get_range_def)

lemma read_bool_in: "read_bool bs n = Inr (bs ! n \<noteq> 0)" if "n < length bs"
  using that by (simp add: read_bool_def read_u8_in)

lemma read_pubkey_in: "read_pubkey bs n = Inr (array_of_bytes (take 32 (drop n bs)))"
  if "n + 32 \<le> length bs"
  using that by (simp add: read_pubkey_def get_range_def)

lemmas readers_in = read_u8_in read_u64_le_in read_bool_in read_pubkey_in

text \<open>The short-buffer branches of the readers are unreachable behind the length gates.\<close>

lemma decode_obligation_eq:
  "decode_obligation bs =
     (if length bs < 1300 then Inl (authority_err SolendAccountDataTooShort)
      else if bs ! 0 \<noteq> 1 then Inl (authority_err SolendUnsupportedObligationVersion)
      else Inr \<lparr>DecodedSolendObligation.version = 1,
        last_update_slot = from_le_bytes (take 8 (drop 1 bs)), last_update_stale = bs ! 9 \<noteq> 0,
        lending_market = array_of_bytes (take 32 (drop 10 bs)),
        owner = array_of_bytes (take 32 (drop 42 bs))\<rparr>)"
proof (cases "length bs < 1300")
  case False
  then have "bs \<noteq> []" by auto
  with False show ?thesis by (simp add: decode_obligation_def decode_offsets readers_in)
qed (simp add: decode_obligation_def decode_offsets)

lemma decode_reserve_eq:
  "decode_reserve bs =
     (if length bs < 619 then Inl (authority_err SolendAccountDataTooShort)
      else if bs ! 0 \<noteq> 1 then Inl (authority_err SolendUnsupportedReserveVersion)
      else Inr \<lparr>DecodedSolendReserve.version = 1,
        last_update_slot = from_le_bytes (take 8 (drop 1 bs)), last_update_stale = bs ! 9 \<noteq> 0,
        lending_market = array_of_bytes (take 32 (drop 10 bs))\<rparr>)"
proof (cases "length bs < 619")
  case False
  then have "bs \<noteq> []" by auto
  with False show ?thesis by (simp add: decode_reserve_def decode_offsets readers_in)
qed (simp add: decode_reserve_def decode_offsets)

lemma decode_spl_token_account_lite_eq:
  "decode_spl_token_account_lite bs =
     (if length bs \<noteq> 165 then Inl (authority_err SolendTokenAccountInvalidLength)
      else Inr \<lparr>mint = array_of_bytes (take 32 bs), owner = array_of_bytes (take 32 (drop 32 bs)),
        amount = from_le_bytes (take 8 (drop 64 bs))\<rparr>)"
  by (simp add: decode_spl_token_account_lite_def decode_offsets readers_in)

section \<open>Packing and decoding\<close>

text \<open>
  The packed prefixes the owning programs write: version, \<open>LastUpdate\<close> (slot and stale byte),
  market and owner for an obligation; mint, owner and amount for a token account.
\<close>

definition pack_obligation_prefix :: "DecodedSolendObligation \<Rightarrow> u8 list" where
  "pack_obligation_prefix ob =
     [DecodedSolendObligation.version ob] @ to_le_bytes (DecodedSolendObligation.last_update_slot ob) @
     [if DecodedSolendObligation.last_update_stale ob then 1 else 0] @
     array_bytes (DecodedSolendObligation.lending_market ob) @
     array_bytes (DecodedSolendObligation.owner ob)"

definition pack_reserve_prefix :: "DecodedSolendReserve \<Rightarrow> u8 list" where
  "pack_reserve_prefix rs =
     [DecodedSolendReserve.version rs] @ to_le_bytes (DecodedSolendReserve.last_update_slot rs) @
     [if DecodedSolendReserve.last_update_stale rs then 1 else 0] @
     array_bytes (DecodedSolendReserve.lending_market rs)"

definition pack_token_prefix :: "DecodedSplTokenAccountLite \<Rightarrow> u8 list" where
  "pack_token_prefix t =
     array_bytes (mint t) @ array_bytes (DecodedSplTokenAccountLite.owner t) @ to_le_bytes (amount t)"

lemma array_of_array_pubkey [simp]: "array_of_bytes (array_bytes k) = (k :: pubkey)"
  by (simp add: array_of_array_bytes)

lemma from_to_le_u64 [simp]: "from_le_bytes (to_le_bytes v) = (v :: u64)"
  by (simp add: from_to_le_bytes)

text \<open>
  Decoding returns what was packed, for obligations, reserves and token accounts, whatever
  bytes follow the prefix, as long as the account has its program's size; no other offsets or byte
  orders would.
\<close>

theorem decode_packed:
  "(DecodedSolendObligation.version ob = 1 \<and> 1300 \<le> 74 + length tail \<longrightarrow>
      decode_obligation (pack_obligation_prefix ob @ tail) = Inr ob) \<and>
   (DecodedSolendReserve.version rs = 1 \<and> 619 \<le> 42 + length tail \<longrightarrow>
      decode_reserve (pack_reserve_prefix rs @ tail) = Inr rs) \<and>
   (length tail = 93 \<longrightarrow> decode_spl_token_account_lite (pack_token_prefix t @ tail) = Inr t)"
  by (simp add: decode_obligation_eq decode_reserve_eq decode_spl_token_account_lite_eq
      pack_obligation_prefix_def pack_reserve_prefix_def pack_token_prefix_def nth_append nth_Cons')

definition example_obligation :: DecodedSolendObligation where
  "example_obligation = \<lparr>DecodedSolendObligation.version = 1, last_update_slot = 77,
     last_update_stale = False, lending_market = 5, owner = 9\<rparr>"

definition example_token_account :: DecodedSplTokenAccountLite where
  "example_token_account = \<lparr>mint = 3, owner = 9, amount = 250\<rparr>"

theorem decode_packed_witness:
  "decode_obligation (pack_obligation_prefix example_obligation @ replicate 1226 0) = Inr example_obligation \<and>
   decode_spl_token_account_lite (pack_token_prefix example_token_account @ replicate 93 0) =
     Inr example_token_account"
  using decode_packed [of example_obligation "replicate 1226 0" undefined undefined]
    decode_packed [of undefined "replicate 93 0" undefined example_token_account]
  by (simp add: example_obligation_def)

end
