(* ===== verification/Solend_Boundary.thy ===== *)
theory Solend_Boundary
  imports Solend_Account_Decode
begin

text \<open>
  \<^verbatim>\<open>programs/clawsol-authority/src/solend_boundary.rs\<close>: the boundary proof an executor supplies for
  a delegated Solend withdrawal, the walk over the sibling instructions of the transaction, and the
  wrappers that decode live accounts. The walk is an instance of the locale \<open>walk\<close>; the result is
  that the boundary accepts exactly the proofs a declarative predicate describes.
\<close>

section \<open>The code\<close>

definition SOLEND_VARIANT_REFRESH_RESERVE :: u8 where
  "SOLEND_VARIANT_REFRESH_RESERVE = 3"

definition SOLEND_VARIANT_WITHDRAW_OBLIGATION_COLLATERAL_AND_REDEEM :: u8 where
  "SOLEND_VARIANT_WITHDRAW_OBLIGATION_COLLATERAL_AND_REDEEM = 15"

definition MAX_SIBLING_INSTRUCTIONS :: nat where
  "MAX_SIBLING_INSTRUCTIONS = 16"

record ObligationFixture =
  account_owner_program :: pubkey
  obligation_authority :: pubkey
  lending_market :: pubkey

record SiblingIxDescriptor =
  program_id :: pubkey
  variant_byte :: u8
  target_reserve :: "pubkey option"
  target_obligation :: "pubkey option"
  target_lending_market :: "pubkey option"
  target_destination :: "pubkey option"

record SolendBoundaryProof =
  solend_program_id :: pubkey
  obligation_pubkey :: pubkey
  obligation :: ObligationFixture
  reserve_pubkey :: pubkey
  lending_market_pubkey :: pubkey
  destination_pubkey :: pubkey
  sibling_instructions :: "SiblingIxDescriptor list"

text \<open>The body of the loop over \<open>siblings.iter().enumerate()\<close>, on the two remembered indices.\<close>

type_synonym walk_state = "nat option \<times> nat option"

definition refresh_arm :: "pubkey \<Rightarrow> walk_state \<Rightarrow> nat \<times> SiblingIxDescriptor \<Rightarrow> program_error + walk_state" where
  "refresh_arm expected_reserve = (\<lambda>(refresh_index, withdraw_index) (i, ix).
     bindE (ok_or (target_reserve ix) (authority_err SolendBoundaryVerificationFailed)) (\<lambda>tr.
     if tr = expected_reserve then
       (if refresh_index \<noteq> None
        then Inl (authority_err SolendDuplicateOrConflictingInstruction)
        else Inr (Some i, withdraw_index))
     else Inr (refresh_index, withdraw_index)))"

definition withdraw_arm ::
  "pubkey \<Rightarrow> pubkey \<Rightarrow> pubkey \<Rightarrow> pubkey \<Rightarrow> walk_state \<Rightarrow> nat \<times> SiblingIxDescriptor \<Rightarrow>
   program_error + walk_state" where
  "withdraw_arm expected_reserve expected_obligation expected_lending_market expected_destination =
   (\<lambda>(refresh_index, withdraw_index) (i, ix).
     bindE (ok_or (target_reserve ix) (authority_err SolendBoundaryVerificationFailed)) (\<lambda>tr.
     bindE (ok_or (target_obligation ix) (authority_err SolendBoundaryVerificationFailed)) (\<lambda>tob.
     bindE (ok_or (target_lending_market ix) (authority_err SolendBoundaryVerificationFailed)) (\<lambda>tlm.
     bindE (ok_or (target_destination ix) (authority_err SolendBoundaryVerificationFailed)) (\<lambda>td.
     if tob = expected_obligation then
       (if tr \<noteq> expected_reserve then Inl (authority_err SolendReserveMismatch)
        else if tlm \<noteq> expected_lending_market then Inl (authority_err SolendLendingMarketMismatch)
        else if td \<noteq> expected_destination then Inl (authority_err SolendDestinationMismatch)
        else if withdraw_index \<noteq> None
        then Inl (authority_err SolendDuplicateOrConflictingInstruction)
        else Inr (refresh_index, Some i))
     else if tr = expected_reserve
     then Inl (authority_err SolendDuplicateOrConflictingInstruction)
     else Inr (refresh_index, withdraw_index))))))"

definition sibling_step ::
  "pubkey \<Rightarrow> pubkey \<Rightarrow> pubkey \<Rightarrow> pubkey \<Rightarrow> walk_state \<Rightarrow> nat \<times> SiblingIxDescriptor \<Rightarrow>
   program_error + walk_state" where
  "sibling_step expected_reserve expected_obligation expected_lending_market expected_destination s p =
     (let ix = snd p in
      if program_id ix \<noteq> SOLEND_PROGRAM_ID_MAINNET then Inr s
      else if variant_byte ix = SOLEND_VARIANT_REFRESH_RESERVE then refresh_arm expected_reserve s p
      else if variant_byte ix = SOLEND_VARIANT_WITHDRAW_OBLIGATION_COLLATERAL_AND_REDEEM
      then withdraw_arm expected_reserve expected_obligation expected_lending_market
             expected_destination s p
      else let touches_target =
             (case target_reserve ix of None \<Rightarrow> False | Some r \<Rightarrow> r = expected_reserve) \<or>
             (case target_obligation ix of None \<Rightarrow> False | Some ob \<Rightarrow> ob = expected_obligation)
           in if touches_target
              then Inl (authority_err SolendDuplicateOrConflictingInstruction) else Inr s)"

definition verify_same_tx_refresh_and_withdraw ::
  "SiblingIxDescriptor list \<Rightarrow> pubkey \<Rightarrow> pubkey \<Rightarrow> pubkey \<Rightarrow> pubkey \<Rightarrow> program_error + unit" where
  "verify_same_tx_refresh_and_withdraw siblings expected_reserve expected_obligation
     expected_lending_market expected_destination =
     bindE (foldE (sibling_step expected_reserve expected_obligation expected_lending_market
                     expected_destination) (None, None) (enumerate 0 siblings))
       (\<lambda>(refresh_index, withdraw_index).
     bindE (ok_or refresh_index (authority_err SolendRefreshMissing)) (\<lambda>r.
     bindE (ok_or withdraw_index (authority_err SolendWithdrawMissing)) (\<lambda>w.
     if r \<ge> w then Inl (authority_err SolendInstructionOrderInvalid) else Inr ())))"

definition verify_solend_delegated_boundary ::
  "AuthorizationRecord \<Rightarrow> SolendBoundaryProof \<Rightarrow> program_error + unit" where
  "verify_solend_delegated_boundary rec prf =
     (if solend_program_id prf \<noteq> SOLEND_PROGRAM_ID_MAINNET
      then Inl (authority_err SolendProgramMismatch)
      else if account_owner_program (obligation prf) \<noteq> SOLEND_PROGRAM_ID_MAINNET
      then Inl (authority_err SolendObligationOwnerMismatch)
      else if obligation_authority (obligation prf) = user rec
      then Inl (authority_err SolendMainWalletObligationRejected)
      else if obligation_authority (obligation prf) \<noteq> delegated_wallet rec
      then Inl (authority_err SolendObligationAuthorityMismatch)
      else if ObligationFixture.lending_market (obligation prf) \<noteq> lending_market_pubkey prf
      then Inl (authority_err SolendLendingMarketMismatch)
      else if destination_pubkey prf \<noteq> destination rec
      then Inl (authority_err SolendDestinationMismatch)
      else if length (sibling_instructions prf) > MAX_SIBLING_INSTRUCTIONS
      then Inl (authority_err SolendBoundaryVerificationFailed)
      else verify_same_tx_refresh_and_withdraw (sibling_instructions prf) (reserve_pubkey prf)
             (obligation_pubkey prf) (lending_market_pubkey prf) (destination_pubkey prf))"

definition verify_obligation_account_info ::
  "world \<Rightarrow> account_info \<Rightarrow> AuthorizationRecord \<Rightarrow> pubkey \<Rightarrow> program_error + DecodedSolendObligation" where
  "verify_obligation_account_info w acct rec expected_lending_market =
     (if account.owner (account_of w acct) \<noteq> SOLEND_PROGRAM_ID_MAINNET
      then Inl (authority_err SolendAccountOwnerMismatch)
      else bindE (decode_obligation (data (account_of w acct))) (\<lambda>decoded.
      bindE (require_obligation_owned_by_delegated_wallet decoded rec) (\<lambda>_.
      bindE (require_obligation_lending_market decoded expected_lending_market) (\<lambda>_.
      Inr decoded))))"

definition verify_reserve_account_info ::
  "world \<Rightarrow> account_info \<Rightarrow> pubkey \<Rightarrow> u64 \<Rightarrow> program_error + DecodedSolendReserve" where
  "verify_reserve_account_info w acct expected_lending_market current_slot =
     (if account.owner (account_of w acct) \<noteq> SOLEND_PROGRAM_ID_MAINNET
      then Inl (authority_err SolendAccountOwnerMismatch)
      else bindE (decode_reserve (data (account_of w acct))) (\<lambda>decoded.
      bindE (require_reserve_lending_market decoded expected_lending_market) (\<lambda>_.
      bindE (require_reserve_not_stale decoded current_slot) (\<lambda>_.
      Inr decoded))))"

definition verify_spl_token_account_info ::
  "world \<Rightarrow> account_info \<Rightarrow> pubkey \<Rightarrow> pubkey \<Rightarrow> program_error + DecodedSplTokenAccountLite" where
  "verify_spl_token_account_info w acct expected_mint expected_authority =
     (if account.owner (account_of w acct) \<noteq> SPL_TOKEN_PROGRAM_ID
      then Inl (authority_err SolendTokenAccountOwnerMismatch)
      else bindE (decode_spl_token_account_lite (data (account_of w acct))) (\<lambda>decoded.
      bindE (require_spl_token_mint decoded expected_mint) (\<lambda>_.
      bindE (require_spl_token_authority decoded expected_authority) (\<lambda>_.
      Inr decoded))))"

section \<open>What the walk accepts\<close>

definition is_refresh :: "pubkey \<Rightarrow> SiblingIxDescriptor \<Rightarrow> bool" where
  "is_refresh rsv ix \<longleftrightarrow> program_id ix = SOLEND_PROGRAM_ID_MAINNET \<and> variant_byte ix = 3 \<and>
     target_reserve ix = Some rsv"

definition is_withdraw :: "pubkey \<Rightarrow> SiblingIxDescriptor \<Rightarrow> bool" where
  "is_withdraw ob ix \<longleftrightarrow> program_id ix = SOLEND_PROGRAM_ID_MAINNET \<and> variant_byte ix = 15 \<and>
     target_obligation ix = Some ob"

text \<open>A sibling the boundary tolerates: complete, and not in conflict with the protected pair.\<close>

definition tolerated :: "pubkey \<Rightarrow> pubkey \<Rightarrow> pubkey \<Rightarrow> pubkey \<Rightarrow> SiblingIxDescriptor \<Rightarrow> bool" where
  "tolerated rsv ob mkt dst ix \<longleftrightarrow>
     program_id ix \<noteq> SOLEND_PROGRAM_ID_MAINNET \<or>
     (if variant_byte ix = 3 then target_reserve ix \<noteq> None
      else if variant_byte ix = 15 then
        target_reserve ix \<noteq> None \<and> target_obligation ix \<noteq> None \<and>
        target_lending_market ix \<noteq> None \<and> target_destination ix \<noteq> None \<and>
        (if target_obligation ix = Some ob
         then target_reserve ix = Some rsv \<and> target_lending_market ix = Some mkt \<and>
              target_destination ix = Some dst
         else target_reserve ix \<noteq> Some rsv)
      else target_reserve ix \<noteq> Some rsv \<and> target_obligation ix \<noteq> Some ob)"

definition indices :: "('a \<Rightarrow> bool) \<Rightarrow> (nat \<times> 'a) list \<Rightarrow> nat list" where
  "indices Q xs = map fst (filter (Q \<circ> snd) xs)"

definition sole :: "'a list \<Rightarrow> 'a option" where
  "sole xs = (case xs of [] \<Rightarrow> None | x # _ \<Rightarrow> Some x)"

definition walk_rep ::
  "pubkey \<Rightarrow> pubkey \<Rightarrow> pubkey \<Rightarrow> pubkey \<Rightarrow> (nat \<times> SiblingIxDescriptor) list \<Rightarrow> walk_state option" where
  "walk_rep rsv ob mkt dst xs =
     (let R = indices (is_refresh rsv) xs; W = indices (is_withdraw ob) xs in
      if list_all (tolerated rsv ob mkt dst \<circ> snd) xs \<and> length R \<le> 1 \<and> length W \<le> 1
      then Some (sole R, sole W) else None)"

lemma indices_snoc: "indices Q (xs @ [p]) = indices Q xs @ (if Q (snd p) then [fst p] else [])"
  by (simp add: indices_def)

lemma sole_simps [simp]: "sole [] = None" "sole (x # xs) = Some x"
  by (simp_all add: sole_def)

lemma sole_None: "sole xs = None \<longleftrightarrow> xs = []"
  by (cases xs) simp_all

lemmas step_unfold = sibling_step_def refresh_arm_def withdraw_arm_def tolerated_def is_refresh_def
  is_withdraw_def SOLEND_VARIANT_REFRESH_RESERVE_def
  SOLEND_VARIANT_WITHDRAW_OBLIGATION_COLLATERAL_AND_REDEEM_def

lemma sibling_step_Inr:
  "sibling_step rsv ob mkt dst (r, w) (i, ix) = Inr s \<longleftrightarrow>
     tolerated rsv ob mkt dst ix \<and> (is_refresh rsv ix \<longrightarrow> r = None) \<and> (is_withdraw ob ix \<longrightarrow> w = None) \<and>
     s = (if is_refresh rsv ix then Some i else r, if is_withdraw ob ix then Some i else w)"
proof (cases "program_id ix = SOLEND_PROGRAM_ID_MAINNET")
  case True
  consider "variant_byte ix = 3" | "variant_byte ix = 15" | "variant_byte ix \<noteq> 3" "variant_byte ix \<noteq> 15"
    by blast
  then show ?thesis
  proof cases
    case 1
    then show ?thesis using True by (cases "target_reserve ix") (auto simp: step_unfold)
  next
    case 2
    then show ?thesis using True
      by (cases "target_reserve ix"; cases "target_obligation ix"; cases "target_lending_market ix";
          cases "target_destination ix") (auto simp: step_unfold)
  next
    case 3
    then show ?thesis using True
      by (auto simp: step_unfold Let_def split: option.splits)
  qed
qed (auto simp: step_unfold)

interpretation solend_walk: walk "sibling_step rsv ob mkt dst" "(None, None)" "walk_rep rsv ob mkt dst"
  for rsv ob mkt dst
proof
  show "walk_rep rsv ob mkt dst [] = Some (None, None)"
    by (simp add: walk_rep_def indices_def)
next
  fix xs and p :: "nat \<times> SiblingIxDescriptor"
  assume "walk_rep rsv ob mkt dst xs = None"
  then show "walk_rep rsv ob mkt dst (xs @ [p]) = None"
    by (auto simp: walk_rep_def indices_snoc Let_def split: if_splits)
next
  fix xs s and p :: "nat \<times> SiblingIxDescriptor"
  assume a: "walk_rep rsv ob mkt dst xs = Some s"
  obtain i ix where p: "p = (i, ix)" by (cases p)
  let ?R = "indices (is_refresh rsv) xs" and ?W = "indices (is_withdraw ob) xs"
  have ok: "list_all (tolerated rsv ob mkt dst \<circ> snd) xs" "length ?R \<le> 1" "length ?W \<le> 1"
    and s: "s = (sole ?R, sole ?W)"
    using a by (auto simp: walk_rep_def Let_def split: if_splits)
  show "walk_rep rsv ob mkt dst (xs @ [p]) =
      (case sibling_step rsv ob mkt dst s p of Inl _ \<Rightarrow> None | Inr s' \<Rightarrow> Some s')"
  proof (cases "sibling_step rsv ob mkt dst s p")
    case (Inl e)
    then have "\<not> (tolerated rsv ob mkt dst ix \<and> (is_refresh rsv ix \<longrightarrow> ?R = []) \<and> (is_withdraw ob ix \<longrightarrow> ?W = []))"
      using sibling_step_Inr [of rsv ob mkt dst "sole ?R" "sole ?W" i ix] by (auto simp: p s sole_None)
    then show ?thesis using Inl by (auto simp: p walk_rep_def indices_snoc Let_def)
  next
    case (Inr s')
    then show ?thesis using ok sibling_step_Inr [of rsv ob mkt dst "sole ?R" "sole ?W" i ix s']
      by (auto simp: p s walk_rep_def indices_snoc Let_def sole_None)
  qed
qed

text \<open>
  The declarative boundary: pinned identities, no conflicting sibling, and one refresh of the
  reserve that comes before the one withdrawal from the delegated obligation.
\<close>

definition solend_boundary_spec :: "AuthorizationRecord \<Rightarrow> SolendBoundaryProof \<Rightarrow> bool" where
  "solend_boundary_spec rec prf \<longleftrightarrow>
     solend_program_id prf = SOLEND_PROGRAM_ID_MAINNET \<and>
     account_owner_program (obligation prf) = SOLEND_PROGRAM_ID_MAINNET \<and>
     obligation_authority (obligation prf) = delegated_wallet rec \<and>
     obligation_authority (obligation prf) \<noteq> user rec \<and>
     ObligationFixture.lending_market (obligation prf) = lending_market_pubkey prf \<and>
     destination_pubkey prf = destination rec \<and>
     length (sibling_instructions prf) \<le> 16 \<and>
     (\<forall>ix \<in> set (sibling_instructions prf).
        tolerated (reserve_pubkey prf) (obligation_pubkey prf) (lending_market_pubkey prf)
          (destination_pubkey prf) ix) \<and>
     (\<exists>r w. r < w \<and>
        [i \<leftarrow> [0..<length (sibling_instructions prf)].
           is_refresh (reserve_pubkey prf) (sibling_instructions prf ! i)] = [r] \<and>
        [i \<leftarrow> [0..<length (sibling_instructions prf)].
           is_withdraw (obligation_pubkey prf) (sibling_instructions prf ! i)] = [w])"

lemma indices_enumerate: "indices Q (enumerate 0 xs) = [i \<leftarrow> [0..<length xs]. Q (xs ! i)]"
proof -
  have "enumerate 0 xs = map (\<lambda>i. (i, xs ! i)) [0..<length xs]"
    by (rule nth_equalityI) (simp_all add: enumerate_eq_zip)
  then show ?thesis by (simp add: indices_def filter_map comp_def)
qed

lemma same_tx_Inr:
  "verify_same_tx_refresh_and_withdraw ixs rsv ob mkt dst = Inr () \<longleftrightarrow>
     (\<forall>ix \<in> set ixs. tolerated rsv ob mkt dst ix) \<and>
     (\<exists>r w. r < w \<and> indices (is_refresh rsv) (enumerate 0 ixs) = [r] \<and>
        indices (is_withdraw ob) (enumerate 0 ixs) = [w])"
proof -
  let ?R = "indices (is_refresh rsv) (enumerate 0 ixs)" and ?W = "indices (is_withdraw ob) (enumerate 0 ixs)"
  have all: "list_all (tolerated rsv ob mkt dst \<circ> snd) (enumerate 0 ixs) \<longleftrightarrow>
      (\<forall>ix \<in> set ixs. tolerated rsv ob mkt dst ix)"
    unfolding list.pred_map [symmetric] map_snd_enumerate by (rule list_all_iff)
  have one: "length xs \<le> 1 \<and> sole xs = Some x \<longleftrightarrow> xs = [x]" for xs and x :: nat
    by (cases xs) auto
  have "verify_same_tx_refresh_and_withdraw ixs rsv ob mkt dst = Inr () \<longleftrightarrow>
      (\<exists>r w. walk_rep rsv ob mkt dst (enumerate 0 ixs) = Some (Some r, Some w) \<and> r < w)"
    by (auto simp: verify_same_tx_refresh_and_withdraw_def ok_simps solend_walk.walk_eq not_le)
  also have "\<dots> \<longleftrightarrow> (\<exists>r w. (\<forall>ix \<in> set ixs. tolerated rsv ob mkt dst ix) \<and>
      (length ?R \<le> 1 \<and> sole ?R = Some r) \<and> (length ?W \<le> 1 \<and> sole ?W = Some w) \<and> r < w)"
    by (auto simp: walk_rep_def Let_def all split: if_splits)
  finally show ?thesis unfolding one by blast
qed

lemma solend_boundary_Inr [ok_simps]:
  "verify_solend_delegated_boundary rec prf = Inr u \<longleftrightarrow> solend_boundary_spec rec prf"
  unfolding verify_solend_delegated_boundary_def solend_boundary_spec_def
  by (auto simp: ok_simps same_tx_Inr indices_enumerate MAX_SIBLING_INSTRUCTIONS_def)

text \<open>
  The Solend boundary accepts exactly the proofs of the declarative specification: pinned
  program, delegated (never main-wallet) obligation, matching market and destination, at most 16
  siblings, one refresh strictly before one withdrawal, nothing else touching the pair.
\<close>

theorem solend_boundary_exact:
  "verify_solend_delegated_boundary rec prf = Inr () \<longleftrightarrow> solend_boundary_spec rec prf"
  by (rule solend_boundary_Inr)

section \<open>What the account wrappers guarantee\<close>

lemma verify_obligation_account_info_Inr [ok_simps]:
  "verify_obligation_account_info w acct rec mkt = Inr ob \<longleftrightarrow>
     account.owner (account_of w acct) = SOLEND_PROGRAM_ID_MAINNET \<and>
     decode_obligation (data (account_of w acct)) = Inr ob \<and>
     DecodedSolendObligation.owner ob \<noteq> user rec \<and>
     DecodedSolendObligation.owner ob = delegated_wallet rec \<and>
     DecodedSolendObligation.lending_market ob = mkt"
  by (auto simp: verify_obligation_account_info_def ok_simps require_obligation_lending_market_def
      require_obligation_owned_by_delegated_wallet_def)

lemma require_reserve_not_stale_Inr [ok_simps]:
  "require_reserve_not_stale rs now = Inr u \<longleftrightarrow>
     \<not> DecodedSolendReserve.last_update_stale rs \<and>
     unat (DecodedSolendReserve.last_update_slot rs) \<le> unat now \<and>
     unat now \<le> unat (DecodedSolendReserve.last_update_slot rs) + 1"
proof (cases "checked_sub now (DecodedSolendReserve.last_update_slot rs)")
  case None
  then have "unat now < unat (DecodedSolendReserve.last_update_slot rs)" by (simp add: checked_sub_None)
  then show ?thesis by (simp add: require_reserve_not_stale_def None)
next
  case (Some e)
  then have "unat now = unat (DecodedSolendReserve.last_update_slot rs) + unat e"
    by (simp add: checked_sub_Some)
  moreover have "1 < e \<longleftrightarrow> 1 < unat e" by (simp add: word_less_nat_alt)
  ultimately show ?thesis
    by (auto simp: require_reserve_not_stale_def Some SOLEND_STALE_AFTER_SLOTS_ELAPSED_def)
qed

lemma verify_reserve_account_info_Inr [ok_simps]:
  "verify_reserve_account_info w acct mkt now = Inr rs \<longleftrightarrow>
     account.owner (account_of w acct) = SOLEND_PROGRAM_ID_MAINNET \<and>
     decode_reserve (data (account_of w acct)) = Inr rs \<and>
     DecodedSolendReserve.lending_market rs = mkt \<and> require_reserve_not_stale rs now = Inr ()"
  by (auto simp: verify_reserve_account_info_def bindE_Inr guard_Inr require_reserve_lending_market_def)

lemma verify_spl_token_account_info_Inr [ok_simps]:
  "verify_spl_token_account_info w acct m a = Inr t \<longleftrightarrow>
     account.owner (account_of w acct) = SPL_TOKEN_PROGRAM_ID \<and>
     decode_spl_token_account_lite (data (account_of w acct)) = Inr t \<and>
     mint t = m \<and> DecodedSplTokenAccountLite.owner t = a"
  by (auto simp: verify_spl_token_account_info_def ok_simps require_spl_token_mint_def
      require_spl_token_authority_def)

end
