(* ===== verification/Jupiter_Boundary.thy ===== *)
theory Jupiter_Boundary
  imports Solend_Account_Decode
begin

text \<open>
  \<^verbatim>\<open>programs/clawsol-authority/src/jupiter_boundary.rs\<close>: the boundary proof for a Jupiter swap, the
  per-class allowlist of sibling instructions, the phase cursor that orders them around the one
  swap, and the writable-account check. The walk is a second instance of the locale \<open>walk\<close>.
\<close>

section \<open>The code\<close>

definition JUPITER_V6_PROGRAM_ID_MAINNET :: pubkey where
  "JUPITER_V6_PROGRAM_ID_MAINNET = pubkey_of ''JUP6LkbZbjS1jKKwapdHNy74zcZ3tLUZoi5QNyVTaV4''"

definition ATA_PROGRAM_ID :: pubkey where
  "ATA_PROGRAM_ID = pubkey_of ''ATokenGPvbdGVxr1b2hvZbsiqW5xWH25efTNsLJA8knL''"

definition COMPUTE_BUDGET_PROGRAM_ID :: pubkey where
  "COMPUTE_BUDGET_PROGRAM_ID = pubkey_of ''ComputeBudget111111111111111111111111111111''"

definition MAX_JUPITER_SIBLING_INSTRUCTIONS :: nat where
  "MAX_JUPITER_SIBLING_INSTRUCTIONS = 16"

definition MAX_WRITABLE_ACCOUNTS_PER_DESCRIPTOR :: nat where
  "MAX_WRITABLE_ACCOUNTS_PER_DESCRIPTOR = 32"

definition SPL_TOKEN_ALLOWED_VARIANT_BYTES :: "u8 list" where
  "SPL_TOKEN_ALLOWED_VARIANT_BYTES = [3, 9, 12, 17]"

datatype JupiterSiblingClass =
  ComputeBudget | JupiterSwap | SplToken | AssociatedTokenAccount | System

definition from_program_id :: "pubkey \<Rightarrow> JupiterSiblingClass option" where
  "from_program_id pid =
     (if pid = COMPUTE_BUDGET_PROGRAM_ID then Some ComputeBudget
      else if pid = JUPITER_V6_PROGRAM_ID_MAINNET then Some JupiterSwap
      else if pid = SPL_TOKEN_PROGRAM_ID then Some SplToken
      else if pid = ATA_PROGRAM_ID then Some AssociatedTokenAccount
      else if pid = system_program_ID then Some System
      else None)"

datatype PhaseCursor = BeforeSwap | AtSwap | AfterSwap

record JupiterSiblingIxDescriptor =
  program_id :: pubkey
  variant_byte :: u8
  writable_accounts :: "pubkey list"

record JupiterTokenAccountFixture =
  address :: pubkey
  mint :: pubkey
  owner :: pubkey
  amount :: u64

record JupiterBoundaryProof =
  jupiter_program_id :: pubkey
  expected_destination_token_account :: pubkey
  expected_destination_mint :: pubkey
  expected_input_mint :: pubkey
  delegated_input_token_account :: pubkey
  delegated_output_token_account :: pubkey
  destination_pre_snapshot :: JupiterTokenAccountFixture
  destination_post_snapshot :: JupiterTokenAccountFixture
  min_output_amount_raw :: u64
  sibling_instructions :: "JupiterSiblingIxDescriptor list"

definition build_allowed_writable_set :: "AuthorizationRecord \<Rightarrow> JupiterBoundaryProof \<Rightarrow> pubkey list" where
  "build_allowed_writable_set rec prf =
     [delegated_wallet rec, destination rec, delegated_input_token_account prf,
      delegated_output_token_account prf]"

text \<open>The relative-ordering cursor and the swap counter.\<close>

fun advance_cursor ::
  "PhaseCursor \<times> nat \<Rightarrow> JupiterSiblingClass \<Rightarrow> program_error + PhaseCursor \<times> nat" where
  "advance_cursor (BeforeSwap, swap_count) JupiterSwap = Inr (AtSwap, swap_count + 1)"
| "advance_cursor (AtSwap, swap_count) JupiterSwap = Inl (authority_err JupiterInstructionOrderInvalid)"
| "advance_cursor (AfterSwap, swap_count) JupiterSwap = Inl (authority_err JupiterInstructionOrderInvalid)"
| "advance_cursor (AtSwap, swap_count) _ = Inr (AfterSwap, swap_count)"
| "advance_cursor (BeforeSwap, swap_count) _ = Inr (BeforeSwap, swap_count)"
| "advance_cursor (AfterSwap, swap_count) _ = Inr (AfterSwap, swap_count)"

definition jupiter_sibling_step ::
  "pubkey list \<Rightarrow> PhaseCursor \<times> nat \<Rightarrow> JupiterSiblingIxDescriptor \<Rightarrow>
   program_error + PhaseCursor \<times> nat" where
  "jupiter_sibling_step allowed_writable_set s ix =
     bindE (ok_or (from_program_id (program_id ix)) (authority_err JupiterIllegalSiblingInstruction))
       (\<lambda>cls.
     if cls = SplToken \<and> variant_byte ix \<notin> set SPL_TOKEN_ALLOWED_VARIANT_BYTES
     then Inl (authority_err JupiterIllegalSiblingInstruction)
     else bindE (advance_cursor s cls) (\<lambda>s.
     if cls \<noteq> JupiterSwap \<and> \<not> list_all (\<lambda>w. w \<in> set allowed_writable_set) (writable_accounts ix)
     then Inl (authority_err JupiterUnexpectedWritableAccount)
     else Inr s))"

definition verify_sibling_instructions ::
  "JupiterSiblingIxDescriptor list \<Rightarrow> pubkey list \<Rightarrow> program_error + unit" where
  "verify_sibling_instructions siblings allowed_writable_set =
     bindE (foldE (jupiter_sibling_step allowed_writable_set) (BeforeSwap, 0) siblings)
       (\<lambda>(cursor, swap_count).
     if swap_count \<noteq> 1 then Inl (authority_err JupiterInstructionOrderInvalid) else Inr ())"

definition verify_jupiter_boundary_skeleton ::
  "AuthorizationRecord \<Rightarrow> JupiterBoundaryProof \<Rightarrow> program_error + unit" where
  "verify_jupiter_boundary_skeleton rec prf =
     (if length (sibling_instructions prf) > MAX_JUPITER_SIBLING_INSTRUCTIONS
      then Inl (authority_err JupiterSiblingListTooLarge)
      else if list_ex (\<lambda>ix. length (writable_accounts ix) > MAX_WRITABLE_ACCOUNTS_PER_DESCRIPTOR)
        (sibling_instructions prf)
      then Inl (authority_err JupiterBoundaryVerificationFailed)
      else if jupiter_program_id prf \<noteq> JUPITER_V6_PROGRAM_ID_MAINNET
      then Inl (authority_err JupiterProgramIdMismatch)
      else if expected_destination_token_account prf \<noteq> destination rec
      then Inl (authority_err JupiterDestinationMismatch)
      else if address (destination_pre_snapshot prf) \<noteq> expected_destination_token_account prf \<or>
              address (destination_post_snapshot prf) \<noteq> expected_destination_token_account prf
      then Inl (authority_err JupiterTokenAccountInvalid)
      else if JupiterTokenAccountFixture.mint (destination_pre_snapshot prf) \<noteq> expected_destination_mint prf \<or>
              JupiterTokenAccountFixture.mint (destination_post_snapshot prf) \<noteq> expected_destination_mint prf
      then Inl (authority_err JupiterMintMismatch)
      else verify_sibling_instructions (sibling_instructions prf) (build_allowed_writable_set rec prf))"

section \<open>The program ids are distinct\<close>

lemma jupiter_ids_distinct:
  "distinct [COMPUTE_BUDGET_PROGRAM_ID, JUPITER_V6_PROGRAM_ID_MAINNET, SPL_TOKEN_PROGRAM_ID,
     ATA_PROGRAM_ID, system_program_ID]"
  by (simp add: COMPUTE_BUDGET_PROGRAM_ID_def JUPITER_V6_PROGRAM_ID_MAINNET_def
      SPL_TOKEN_PROGRAM_ID_def ATA_PROGRAM_ID_def system_program_ID_def pubkey_literal)

section \<open>What the walk accepts\<close>

definition is_swap :: "JupiterSiblingIxDescriptor \<Rightarrow> bool" where
  "is_swap ix \<longleftrightarrow> program_id ix = JUPITER_V6_PROGRAM_ID_MAINNET"

text \<open>A sibling the allowlists admit, on its own.\<close>

definition admitted :: "pubkey list \<Rightarrow> JupiterSiblingIxDescriptor \<Rightarrow> bool" where
  "admitted allowed ix =
     (case from_program_id (program_id ix) of
        None \<Rightarrow> False
      | Some JupiterSwap \<Rightarrow> True
      | Some SplToken \<Rightarrow> variant_byte ix \<in> {3, 9, 12, 17} \<and> set (writable_accounts ix) \<subseteq> set allowed
      | Some _ \<Rightarrow> set (writable_accounts ix) \<subseteq> set allowed)"

definition jupiter_rep :: "pubkey list \<Rightarrow> JupiterSiblingIxDescriptor list \<Rightarrow> (PhaseCursor \<times> nat) option" where
  "jupiter_rep allowed xs =
     (let n = length (filter is_swap xs) in
      if list_all (admitted allowed) xs \<and> n \<le> 1
      then Some (if n = 0 then BeforeSwap else if is_swap (last xs) then AtSwap else AfterSwap, n)
      else None)"

primrec class_id :: "JupiterSiblingClass \<Rightarrow> pubkey" where
  "class_id ComputeBudget = COMPUTE_BUDGET_PROGRAM_ID"
| "class_id JupiterSwap = JUPITER_V6_PROGRAM_ID_MAINNET"
| "class_id SplToken = SPL_TOKEN_PROGRAM_ID"
| "class_id AssociatedTokenAccount = ATA_PROGRAM_ID"
| "class_id System = system_program_ID"

lemma from_program_id_Some: "from_program_id pid = Some cls \<longleftrightarrow> pid = class_id cls"
  using jupiter_ids_distinct by (cases cls) (auto simp: from_program_id_def)

lemma class_id_inject: "class_id a = class_id b \<longleftrightarrow> a = b"
  using from_program_id_Some [of "class_id a" a] from_program_id_Some [of "class_id a" b] by auto

lemma advance_cursor_Inr:
  "advance_cursor (c, n) cls = Inr s \<longleftrightarrow> (cls = JupiterSwap \<longrightarrow> c = BeforeSwap) \<and>
     s = (if cls = JupiterSwap then (AtSwap, n + 1) else (if c = AtSwap then AfterSwap else c, n))"
  by (cases c; cases cls) auto

lemma step_Inr:
  "jupiter_sibling_step allowed (c, n) ix = Inr s \<longleftrightarrow>
     admitted allowed ix \<and> (is_swap ix \<longrightarrow> c = BeforeSwap) \<and>
     s = (if is_swap ix then (AtSwap, n + 1) else (if c = AtSwap then AfterSwap else c, n))"
proof (cases "from_program_id (program_id ix)")
  case None
  then show ?thesis by (simp add: jupiter_sibling_step_def admitted_def)
next
  case (Some cls)
  then have "is_swap ix \<longleftrightarrow> cls = JupiterSwap"
    using class_id_inject [of cls JupiterSwap] by (simp add: is_swap_def from_program_id_Some)
  then show ?thesis
    by (cases cls) (auto simp: jupiter_sibling_step_def admitted_def Some ok_simps advance_cursor_Inr
        SPL_TOKEN_ALLOWED_VARIANT_BYTES_def list_all_iff subset_iff)
qed

interpretation jupiter_walk: walk "jupiter_sibling_step allowed" "(BeforeSwap, 0)" "jupiter_rep allowed"
  for allowed
proof
  show "jupiter_rep allowed [] = Some (BeforeSwap, 0)" by (simp add: jupiter_rep_def)
next
  fix xs and ix :: JupiterSiblingIxDescriptor
  assume "jupiter_rep allowed xs = None"
  then show "jupiter_rep allowed (xs @ [ix]) = None"
    by (auto simp: jupiter_rep_def Let_def split: if_splits)
next
  fix xs s and ix :: JupiterSiblingIxDescriptor
  assume a: "jupiter_rep allowed xs = Some s"
  obtain c n where s: "s = (c, n)" by (cases s)
  show "jupiter_rep allowed (xs @ [ix]) =
      (case jupiter_sibling_step allowed s ix of Inl _ \<Rightarrow> None | Inr s' \<Rightarrow> Some s')"
  proof (cases "jupiter_sibling_step allowed s ix")
    case (Inl e)
    then have "\<not> (admitted allowed ix \<and> (is_swap ix \<longrightarrow> c = BeforeSwap))"
      using step_Inr [of allowed c n ix "if is_swap ix then (AtSwap, n + 1)
          else (if c = AtSwap then AfterSwap else c, n)"] by (simp add: s)
    then show ?thesis using Inl a by (auto simp: s jupiter_rep_def Let_def split: if_splits)
  next
    case (Inr s')
    then show ?thesis using a step_Inr [of allowed c n ix s']
      by (auto simp: s jupiter_rep_def Let_def split: if_splits)
  qed
qed

text \<open>
  The declarative boundary: pinned ids, destination and mint, bounded sizes, every sibling on the
  allowlist, no writable account outside the four known ones except in the swap, and one swap.
\<close>

definition jupiter_boundary_spec :: "AuthorizationRecord \<Rightarrow> JupiterBoundaryProof \<Rightarrow> bool" where
  "jupiter_boundary_spec rec prf \<longleftrightarrow>
     length (sibling_instructions prf) \<le> 16 \<and>
     (\<forall>ix \<in> set (sibling_instructions prf). length (writable_accounts ix) \<le> 32) \<and>
     jupiter_program_id prf = JUPITER_V6_PROGRAM_ID_MAINNET \<and>
     expected_destination_token_account prf = destination rec \<and>
     address (destination_pre_snapshot prf) = destination rec \<and>
     address (destination_post_snapshot prf) = destination rec \<and>
     JupiterTokenAccountFixture.mint (destination_pre_snapshot prf) = expected_destination_mint prf \<and>
     JupiterTokenAccountFixture.mint (destination_post_snapshot prf) = expected_destination_mint prf \<and>
     (\<forall>ix \<in> set (sibling_instructions prf).
        admitted [delegated_wallet rec, destination rec, delegated_input_token_account prf,
                  delegated_output_token_account prf] ix) \<and>
     length (filter is_swap (sibling_instructions prf)) = 1"

lemma verify_sibling_instructions_Inr:
  "verify_sibling_instructions ixs allowed = Inr () \<longleftrightarrow>
     (\<forall>ix \<in> set ixs. admitted allowed ix) \<and> length (filter is_swap ixs) = 1"
proof -
  have "verify_sibling_instructions ixs allowed = Inr () \<longleftrightarrow>
      (\<exists>c. jupiter_rep allowed ixs = Some (c, 1))"
    by (auto simp: verify_sibling_instructions_def ok_simps jupiter_walk.walk_eq)
  then show ?thesis by (auto simp: jupiter_rep_def Let_def list_all_iff)
qed

lemma jupiter_boundary_Inr [ok_simps]:
  "verify_jupiter_boundary_skeleton rec prf = Inr u \<longleftrightarrow> jupiter_boundary_spec rec prf"
  unfolding verify_jupiter_boundary_skeleton_def jupiter_boundary_spec_def
  by (auto simp: ok_simps verify_sibling_instructions_Inr build_allowed_writable_set_def
      MAX_JUPITER_SIBLING_INSTRUCTIONS_def MAX_WRITABLE_ACCOUNTS_PER_DESCRIPTOR_def
      list_ex_iff not_less)

text \<open>
  The Jupiter boundary accepts exactly the proofs of the declarative specification; in
  particular an accepted proof lists exactly one swap and no unlisted program, token instruction or
  writable account around it.
\<close>

theorem jupiter_boundary_exact:
  "verify_jupiter_boundary_skeleton rec prf = Inr () \<longleftrightarrow> jupiter_boundary_spec rec prf"
  by (rule jupiter_boundary_Inr)

end
