(* ===== verification/Jupiter_Bracket.thy ===== *)
theory Jupiter_Bracket
  imports Jupiter_Boundary
begin

text \<open>
  \<^verbatim>\<open>programs/clawsol-authority/src/jupiter_bracket.rs\<close>: the checkpoint account of the trustless
  balance bracket, its address derivation, and the pre-check and post-check processors. The lemmas
  show what a successful check has verified and written; the theorems, that a pre-check followed by
  a post-check proves a balance gain of at least the recorded minimum, and that a checkpoint serves
  once.
\<close>

section \<open>The code\<close>

definition JUPITER_BRACKET_SEED_PREFIX :: "u8 list" where
  "JUPITER_BRACKET_SEED_PREFIX = byte_literal ''stage2-jupiter-bracket''"

definition JUPITER_BRACKET_SCHEMA_VERSION :: u8 where
  "JUPITER_BRACKET_SCHEMA_VERSION = 1"

record JupiterBracketCheckpoint =
  schema_version :: u8
  authorization_pda :: pubkey
  execution_nonce :: u64
  destination_token_account :: pubkey
  destination_mint :: pubkey
  pre_balance :: u64
  min_output_amount_raw :: u64
  consumed :: bool
  bump :: u8

definition JupiterBracketCheckpoint_LEN :: nat where
  "JupiterBracketCheckpoint_LEN = 1 + 32 + 8 + 32 + 32 + 8 + 8 + 1 + 1"

record JupiterPreBracketProof =
  execution_nonce :: u64
  destination_token_account :: pubkey
  expected_destination_mint :: pubkey
  min_output_amount_raw :: u64

record JupiterPostBracketProof =
  execution_nonce :: u64
  destination_token_account :: pubkey

text \<open>The runtime together with the Borsh code derived for the two account types.\<close>

record authority_env = runtime +
  authz_codec :: "AuthorizationRecord borsh"
  checkpoint_codec :: "JupiterBracketCheckpoint borsh"

definition derive_jupiter_bracket_checkpoint_pda ::
  "'z runtime_scheme \<Rightarrow> pubkey \<Rightarrow> pubkey \<Rightarrow> u64 \<Rightarrow> pubkey \<Rightarrow> pubkey \<times> u8" where
  "derive_jupiter_bracket_checkpoint_pda rt pid authz nonce dest =
     (let nonce_bytes = to_le_bytes nonce;
          seeds = [JUPITER_BRACKET_SEED_PREFIX, array_bytes authz, nonce_bytes, array_bytes dest]
      in find_program_address rt seeds pid)"

definition process_pre_jupiter_bracket_check ::
  "'z authority_env_scheme \<Rightarrow> pubkey \<Rightarrow> account_info list \<Rightarrow> JupiterPreBracketProof \<Rightarrow> world \<Rightarrow>
   program_error + world" where
  "process_pre_jupiter_bracket_check rt pid accounts prf w =
     bindE (next_account_info accounts) (\<lambda>(executor_account, it).
     bindE (next_account_info it) (\<lambda>(authz_pda_account, it).
     bindE (next_account_info it) (\<lambda>(destination_account, it).
     bindE (next_account_info it) (\<lambda>(checkpoint_pda_account, it).
     bindE (next_account_info it) (\<lambda>(system_program_account, it).
     if \<not> is_signer executor_account then Inl (authority_err MissingExecutorSignature)
     else if key system_program_account \<noteq> system_program_ID then Inl IncorrectProgramId
     else if account.owner (account_of w authz_pda_account) \<noteq> pid
     then Inl (authority_err AuthorizationOwnerMismatch)
     else bindE (read_account (authz_codec rt) (key authz_pda_account) w) (\<lambda>rec.
     if executor rec \<noteq> key executor_account then Inl (authority_err ExecutorMismatch)
     else if JupiterPreBracketProof.destination_token_account prf \<noteq> destination rec
     then Inl (authority_err JupiterDestinationMismatch)
     else if key destination_account \<noteq> JupiterPreBracketProof.destination_token_account prf
     then Inl (authority_err JupiterDestinationMismatch)
     else bindE (ok_or (checked_add (AuthorizationRecord.execution_nonce rec) 1)
       (authority_err ExecutionNonceMismatch)) (\<lambda>expected_nonce.
     if JupiterPreBracketProof.execution_nonce prf \<noteq> expected_nonce
     then Inl (authority_err ExecutionNonceMismatch)
     else bindE (decode_spl_token_account_lite (data (account_of w destination_account))) (\<lambda>decoded.
     if DecodedSplTokenAccountLite.mint decoded \<noteq> JupiterPreBracketProof.expected_destination_mint prf
     then Inl (authority_err JupiterMintMismatch)
     else let pre_balance = DecodedSplTokenAccountLite.amount decoded;
              (expected_checkpoint_pda, bump) = derive_jupiter_bracket_checkpoint_pda rt pid
                (key authz_pda_account) (JupiterPreBracketProof.execution_nonce prf)
                (JupiterPreBracketProof.destination_token_account prf)
     in if expected_checkpoint_pda \<noteq> key checkpoint_pda_account then Inl (authority_err InvalidPda)
     else bindE (rent_get rt) (\<lambda>minimum_balance.
     let lamports = minimum_balance JupiterBracketCheckpoint_LEN;
         create_ix = create_account rt (key executor_account) (key checkpoint_pda_account) lamports
           (of_nat JupiterBracketCheckpoint_LEN) pid;
         nonce_bytes = to_le_bytes (JupiterPreBracketProof.execution_nonce prf);
         signer_seeds = [JUPITER_BRACKET_SEED_PREFIX, array_bytes (key authz_pda_account), nonce_bytes,
           array_bytes (JupiterPreBracketProof.destination_token_account prf), [bump]]
     in bindE (invoke_signed rt create_ix
          [executor_account, checkpoint_pda_account, system_program_account] [signer_seeds] w) (\<lambda>w.
     serialize_account (checkpoint_codec rt)
       \<lparr>JupiterBracketCheckpoint.schema_version = JUPITER_BRACKET_SCHEMA_VERSION,
        authorization_pda = key authz_pda_account,
        execution_nonce = JupiterPreBracketProof.execution_nonce prf,
        destination_token_account = JupiterPreBracketProof.destination_token_account prf,
        destination_mint = JupiterPreBracketProof.expected_destination_mint prf,
        pre_balance = pre_balance,
        min_output_amount_raw = JupiterPreBracketProof.min_output_amount_raw prf,
        consumed = False, bump = bump\<rparr> (key checkpoint_pda_account) w))))))))))"

definition process_post_jupiter_bracket_check ::
  "'z authority_env_scheme \<Rightarrow> pubkey \<Rightarrow> account_info list \<Rightarrow> JupiterPostBracketProof \<Rightarrow> world \<Rightarrow>
   program_error + world" where
  "process_post_jupiter_bracket_check rt pid accounts prf w =
     bindE (next_account_info accounts) (\<lambda>(executor_account, it).
     bindE (next_account_info it) (\<lambda>(authz_pda_account, it).
     bindE (next_account_info it) (\<lambda>(destination_account, it).
     bindE (next_account_info it) (\<lambda>(checkpoint_pda_account, it).
     if \<not> is_signer executor_account then Inl (authority_err MissingExecutorSignature)
     else if account.owner (account_of w authz_pda_account) \<noteq> pid
     then Inl (authority_err AuthorizationOwnerMismatch)
     else bindE (read_account (authz_codec rt) (key authz_pda_account) w) (\<lambda>rec.
     if executor rec \<noteq> key executor_account then Inl (authority_err ExecutorMismatch)
     else if account.owner (account_of w checkpoint_pda_account) \<noteq> pid
     then Inl (authority_err JupiterBracketCheckpointMissing)
     else let (expected_checkpoint_pda, bump) = derive_jupiter_bracket_checkpoint_pda rt pid
                (key authz_pda_account) (JupiterPostBracketProof.execution_nonce prf)
                (JupiterPostBracketProof.destination_token_account prf)
     in if expected_checkpoint_pda \<noteq> key checkpoint_pda_account
     then Inl (authority_err JupiterBracketCheckpointMissing)
     else bindE (read_account (checkpoint_codec rt) (key checkpoint_pda_account) w) (\<lambda>checkpoint.
     if JupiterBracketCheckpoint.schema_version checkpoint \<noteq> JUPITER_BRACKET_SCHEMA_VERSION
     then Inl (authority_err UnsupportedSchemaVersion)
     else if consumed checkpoint then Inl (authority_err JupiterBracketCheckpointConsumed)
     else if authorization_pda checkpoint \<noteq> key authz_pda_account
     then Inl (authority_err JupiterBracketCheckpointMissing)
     else if JupiterBracketCheckpoint.destination_token_account checkpoint \<noteq>
             JupiterPostBracketProof.destination_token_account prf
     then Inl (authority_err JupiterDestinationMismatch)
     else if key destination_account \<noteq> JupiterBracketCheckpoint.destination_token_account checkpoint
     then Inl (authority_err JupiterDestinationMismatch)
     else if JupiterBracketCheckpoint.execution_nonce checkpoint \<noteq> JupiterPostBracketProof.execution_nonce prf
     then Inl (authority_err JupiterBracketCheckpointMissing)
     else bindE (decode_spl_token_account_lite (data (account_of w destination_account))) (\<lambda>decoded.
     if DecodedSplTokenAccountLite.mint decoded \<noteq> destination_mint checkpoint
     then Inl (authority_err JupiterMintMismatch)
     else bindE (ok_or (checked_sub (DecodedSplTokenAccountLite.amount decoded) (pre_balance checkpoint))
       (authority_err JupiterPostBalanceUnderflow)) (\<lambda>delta.
     if delta < JupiterBracketCheckpoint.min_output_amount_raw checkpoint
     then Inl (authority_err JupiterBalanceDeltaTooSmall)
     else serialize_account (checkpoint_codec rt) (checkpoint\<lparr>consumed := True\<rparr>)
            (key checkpoint_pda_account) w))))))))"

section \<open>Borsh layout of the checkpoint\<close>

type_synonym checkpoint_fields =
  "u8 \<times> pubkey \<times> u64 \<times> pubkey \<times> pubkey \<times> u64 \<times> u64 \<times> bool \<times> u8"

fun checkpoint_of_fields :: "checkpoint_fields \<Rightarrow> JupiterBracketCheckpoint" where
  "checkpoint_of_fields (sv, az, n, dta, dm, pb, mo, cs, bu) =
     \<lparr>JupiterBracketCheckpoint.schema_version = sv, authorization_pda = az, execution_nonce = n,
      destination_token_account = dta, destination_mint = dm, pre_balance = pb,
      min_output_amount_raw = mo, consumed = cs, bump = bu\<rparr>"

definition fields_of_checkpoint :: "JupiterBracketCheckpoint \<Rightarrow> checkpoint_fields" where
  "fields_of_checkpoint c =
     (JupiterBracketCheckpoint.schema_version c, authorization_pda c,
      JupiterBracketCheckpoint.execution_nonce c, JupiterBracketCheckpoint.destination_token_account c,
      destination_mint c, pre_balance c, JupiterBracketCheckpoint.min_output_amount_raw c, consumed c,
      JupiterBracketCheckpoint.bump c)"

definition checkpoint_layout :: "JupiterBracketCheckpoint layout" where
  "checkpoint_layout = map_layout checkpoint_of_fields fields_of_checkpoint
     (pair_layout word_layout (pair_layout array_layout (pair_layout word_layout
     (pair_layout array_layout (pair_layout array_layout (pair_layout word_layout
     (pair_layout word_layout (pair_layout bool_layout word_layout))))))))"

interpretation checkpoint: fixed_layout checkpoint_layout JupiterBracketCheckpoint_LEN
proof (rule fixed_layout.intro)
  show "borsh_layout checkpoint_layout (\<lambda>_. True)"
    unfolding checkpoint_layout_def
    by (rule map_layout_total, (intro layout_intros; simp))
      (auto simp: fields_of_checkpoint_def)
  show "fixed_layout_axioms checkpoint_layout JupiterBracketCheckpoint_LEN"
    by unfold_locales (simp add: checkpoint_layout_def fields_of_checkpoint_def
        JupiterBracketCheckpoint_LEN_def layout_lengths)
qed

section \<open>What a successful check has verified and written\<close>

lemma pre_check_success:
  assumes "process_pre_jupiter_bracket_check rt pid accounts prf w = Inr w'"
  obtains ex az de ck sy rest rec tok lam bu w1 where
    "accounts = ex # az # de # ck # sy # rest" "is_signer ex"
    "account.owner (ledger w (key az)) = pid"
    "try_from_slice (authz_codec rt) (data (ledger w (key az))) = Some rec"
    "executor rec = key ex" "key de = destination rec"
    "JupiterPreBracketProof.destination_token_account prf = destination rec"
    "unat (JupiterPreBracketProof.execution_nonce prf) = unat (AuthorizationRecord.execution_nonce rec) + 1"
    "decode_spl_token_account_lite (data (ledger w (key de))) = Inr tok"
    "DecodedSplTokenAccountLite.mint tok = JupiterPreBracketProof.expected_destination_mint prf"
    "derive_jupiter_bracket_checkpoint_pda rt pid (key az) (JupiterPreBracketProof.execution_nonce prf)
       (destination rec) = (key ck, bu)"
    "invoke_signed rt (create_account rt (key ex) (key ck) lam (of_nat JupiterBracketCheckpoint_LEN) pid)
       [ex, ck, sy] [[JUPITER_BRACKET_SEED_PREFIX, array_bytes (key az),
         to_le_bytes (JupiterPreBracketProof.execution_nonce prf), array_bytes (destination rec), [bu]]] w
       = Inr w1"
    "serialize_account (checkpoint_codec rt)
       \<lparr>JupiterBracketCheckpoint.schema_version = 1, authorization_pda = key az,
        execution_nonce = JupiterPreBracketProof.execution_nonce prf,
        destination_token_account = destination rec,
        destination_mint = JupiterPreBracketProof.expected_destination_mint prf,
        pre_balance = DecodedSplTokenAccountLite.amount tok,
        min_output_amount_raw = JupiterPreBracketProof.min_output_amount_raw prf,
        consumed = False, bump = bu\<rparr> (key ck) w1 = Inr w'"
  using assms unfolding process_pre_jupiter_bracket_check_def Let_def
  by (elim success_elims) (auto simp: ok_simps account_of_def checked_add_Some
      JUPITER_BRACKET_SCHEMA_VERSION_def)

lemma checked_gain:
  "checked_sub a b = Some d \<Longrightarrow> \<not> d < m \<Longrightarrow> unat b + unat m \<le> unat a" for a b d m :: "'a::len word"
  by (simp add: checked_sub_Some not_less word_le_nat_alt)

lemma post_check_success:
  assumes "process_post_jupiter_bracket_check rt pid accounts prf w = Inr w'"
  obtains ex az de ck rest rec cp tok bu where
    "accounts = ex # az # de # ck # rest" "is_signer ex"
    "account.owner (ledger w (key az)) = pid"
    "try_from_slice (authz_codec rt) (data (ledger w (key az))) = Some rec" "executor rec = key ex"
    "account.owner (ledger w (key ck)) = pid"
    "derive_jupiter_bracket_checkpoint_pda rt pid (key az) (JupiterPostBracketProof.execution_nonce prf)
       (JupiterPostBracketProof.destination_token_account prf) = (key ck, bu)"
    "try_from_slice (checkpoint_codec rt) (data (ledger w (key ck))) = Some cp" "\<not> consumed cp"
    "authorization_pda cp = key az"
    "key de = JupiterBracketCheckpoint.destination_token_account cp"
    "decode_spl_token_account_lite (data (ledger w (key de))) = Inr tok"
    "DecodedSplTokenAccountLite.mint tok = destination_mint cp"
    "unat (pre_balance cp) + unat (JupiterBracketCheckpoint.min_output_amount_raw cp) \<le>
       unat (DecodedSplTokenAccountLite.amount tok)"
    "serialize_account (checkpoint_codec rt) (cp\<lparr>consumed := True\<rparr>) (key ck) w = Inr w'"
proof -
  from assms [unfolded process_post_jupiter_bracket_check_def Let_def] show thesis
    by (elim success_elims)
      (frule (1) checked_gain, clarsimp simp: ok_simps account_of_def, rule that, (assumption | simp)+)
qed

section \<open>The bracket\<close>

lemma pre_check_effect:
  assumes law: "create_account_law rt" and codec: "borsh_fixed (checkpoint_codec rt) JupiterBracketCheckpoint_LEN"
    and pre: "process_pre_jupiter_bracket_check rt pid accounts prf w = Inr w'"
  obtains ex az de ck sy rest rec tok bu where
    "accounts = ex # az # de # ck # sy # rest" "is_signer ex"
    "account.owner (ledger w (key az)) = pid"
    "try_from_slice (authz_codec rt) (data (ledger w (key az))) = Some rec" "executor rec = key ex"
    "key de = destination rec"
    "decode_spl_token_account_lite (data (ledger w (key de))) = Inr tok"
    "unused_account (ledger w (key ck))" "account.owner (ledger w' (key ck)) = pid"
    "try_from_slice (checkpoint_codec rt) (data (ledger w' (key ck))) =
       Some \<lparr>JupiterBracketCheckpoint.schema_version = 1, authorization_pda = key az,
        execution_nonce = JupiterPreBracketProof.execution_nonce prf,
        destination_token_account = key de, destination_mint = DecodedSplTokenAccountLite.mint tok,
        pre_balance = DecodedSplTokenAccountLite.amount tok,
        min_output_amount_raw = JupiterPreBracketProof.min_output_amount_raw prf,
        consumed = False, bump = bu\<rparr>"
    "\<And>k. k \<noteq> key ck \<Longrightarrow> data (ledger w' k) = data (ledger w k) \<and>
       account.owner (ledger w' k) = account.owner (ledger w k)"
proof (rule pre_check_success [OF pre])
  fix ex az de ck sy rest rec tok lam bu w1
  assume a: "accounts = ex # az # de # ck # sy # rest" "is_signer ex"
    "account.owner (ledger w (key az)) = pid"
    "try_from_slice (authz_codec rt) (data (ledger w (key az))) = Some rec" "executor rec = key ex"
    "key de = destination rec"
    and tok: "decode_spl_token_account_lite (data (ledger w (key de))) = Inr tok"
      "DecodedSplTokenAccountLite.mint tok = JupiterPreBracketProof.expected_destination_mint prf"
    and inv: "invoke_signed rt (create_account rt (key ex) (key ck) lam (of_nat JupiterBracketCheckpoint_LEN) pid)
       [ex, ck, sy] [[JUPITER_BRACKET_SEED_PREFIX, array_bytes (key az),
         to_le_bytes (JupiterPreBracketProof.execution_nonce prf), array_bytes (destination rec), [bu]]] w
       = Inr w1"
    and ser: "serialize_account (checkpoint_codec rt)
       \<lparr>JupiterBracketCheckpoint.schema_version = 1, authorization_pda = key az,
        execution_nonce = JupiterPreBracketProof.execution_nonce prf,
        destination_token_account = destination rec,
        destination_mint = JupiterPreBracketProof.expected_destination_mint prf,
        pre_balance = DecodedSplTokenAccountLite.amount tok,
        min_output_amount_raw = JupiterPreBracketProof.min_output_amount_raw prf,
        consumed = False, bump = bu\<rparr> (key ck) w1 = Inr w'"
  note cr = create_account_effect [OF law inv]
  have "data (ledger w1 (key ck)) = replicate JupiterBracketCheckpoint_LEN 0"
    by (simp add: cr(2) JupiterBracketCheckpoint_LEN_def)
  from ser [unfolded borsh_fixed.serialize_account_new [OF codec this]] cr(2)
  show thesis
    by (intro that [of ex az de ck sy rest rec tok bu] a tok(1) cr(1))
      (auto simp: borsh_fixed.read_written [OF codec] tok(2) a(6))
qed

lemma post_check_effect:
  assumes codec: "borsh_fixed (checkpoint_codec rt) n"
    and post: "process_post_jupiter_bracket_check rt pid accounts prf w = Inr w'"
  obtains ex az de ck rest rec cp tok where
    "accounts = ex # az # de # ck # rest" "is_signer ex"
    "try_from_slice (authz_codec rt) (data (ledger w (key az))) = Some rec" "executor rec = key ex"
    "account.owner (ledger w (key ck)) = pid"
    "try_from_slice (checkpoint_codec rt) (data (ledger w (key ck))) = Some cp" "\<not> consumed cp"
    "authorization_pda cp = key az"
    "key de = JupiterBracketCheckpoint.destination_token_account cp"
    "decode_spl_token_account_lite (data (ledger w (key de))) = Inr tok"
    "DecodedSplTokenAccountLite.mint tok = destination_mint cp"
    "unat (pre_balance cp) + unat (JupiterBracketCheckpoint.min_output_amount_raw cp) \<le>
       unat (DecodedSplTokenAccountLite.amount tok)"
    "w' = write_data (key ck) (to_bytes (checkpoint_codec rt) (cp\<lparr>consumed := True\<rparr>)) w"
proof (rule post_check_success [OF post])
  fix ex az de ck rest rec cp tok bu
  assume a: "accounts = ex # az # de # ck # rest" "is_signer ex"
    "try_from_slice (authz_codec rt) (data (ledger w (key az))) = Some rec" "executor rec = key ex"
    "account.owner (ledger w (key ck)) = pid"
    and cp: "try_from_slice (checkpoint_codec rt) (data (ledger w (key ck))) = Some cp"
    and b: "\<not> consumed cp" "authorization_pda cp = key az"
    "key de = JupiterBracketCheckpoint.destination_token_account cp"
    "decode_spl_token_account_lite (data (ledger w (key de))) = Inr tok"
    "DecodedSplTokenAccountLite.mint tok = destination_mint cp"
    "unat (pre_balance cp) + unat (JupiterBracketCheckpoint.min_output_amount_raw cp) \<le>
       unat (DecodedSplTokenAccountLite.amount tok)"
    and ser: "serialize_account (checkpoint_codec rt) (cp\<lparr>consumed := True\<rparr>) (key ck) w = Inr w'"
  show thesis
    by (rule that [OF a cp b]) (use ser in \<open>simp add: borsh_fixed.serialize_account_over [OF codec cp]\<close>)
qed

text \<open>
  A pre-check and a later post-check on the same checkpoint, with anything in between that
  leaves the checkpoint account alone, prove that the destination token account gained at least the
  recorded minimum, in the same mint, between the two live reads.
\<close>

theorem bracket_guarantees_gain:
  assumes "create_account_law rt" and "borsh_fixed (checkpoint_codec rt) JupiterBracketCheckpoint_LEN"
    and "process_pre_jupiter_bracket_check rt pid accounts prf w0 = Inr w1"
    and "process_post_jupiter_bracket_check rt pid accounts' prf' w2 = Inr w3"
    and "key (accounts' ! 3) = key (accounts ! 3)"
    and "data (ledger w2 (key (accounts ! 3))) = data (ledger w1 (key (accounts ! 3)))"
  shows "\<exists>before after.
      decode_spl_token_account_lite (data (ledger w0 (key (accounts ! 2)))) = Inr before \<and>
      decode_spl_token_account_lite (data (ledger w2 (key (accounts ! 2)))) = Inr after \<and>
      DecodedSplTokenAccountLite.mint after = DecodedSplTokenAccountLite.mint before \<and>
      unat (DecodedSplTokenAccountLite.amount before) +
        unat (JupiterPreBracketProof.min_output_amount_raw prf)
      \<le> unat (DecodedSplTokenAccountLite.amount after)"
  by (rule pre_check_effect [OF assms(1-3)], rule post_check_effect [OF assms(2,4)])
    (use assms(5,6) in \<open>auto simp: numeral_eq_Suc\<close>)

text \<open>
  A checkpoint serves once: while the checkpoint account keeps the bytes a successful
  post-check wrote, every further post-check on it fails, whoever signs it and whatever the proof
  says.
\<close>

theorem bracket_replay_rejected:
  assumes "borsh_fixed (checkpoint_codec rt) JupiterBracketCheckpoint_LEN"
    and "process_post_jupiter_bracket_check rt pid accounts prf w = Inr w1"
    and "data (ledger w2 (key (accounts ! 3))) = data (ledger w1 (key (accounts ! 3)))"
    and "key (accounts' ! 3) = key (accounts ! 3)"
  shows "\<not> is_ok (process_post_jupiter_bracket_check rt pid' accounts' prf' w2)"
proof
  assume "is_ok (process_post_jupiter_bracket_check rt pid' accounts' prf' w2)"
  then obtain w3 where again: "process_post_jupiter_bracket_check rt pid' accounts' prf' w2 = Inr w3"
    by (auto simp: is_ok_iff)
  show False
    by (rule post_check_effect [OF assms(1,2)], rule post_check_effect [OF assms(1) again])
      (use assms(3,4) in \<open>auto simp: numeral_eq_Suc borsh_fixed.read_written [OF assms(1)]\<close>)
qed

text \<open>
  The minimum output is the executor's choice: a pre-check that succeeds also succeeds with any
  other minimum, zero included, and records that one.
\<close>

theorem bracket_minimum_unconstrained:
  assumes "create_account_law rt" and "borsh_fixed (checkpoint_codec rt) JupiterBracketCheckpoint_LEN"
    and "process_pre_jupiter_bracket_check rt pid accounts prf w = Inr w'"
  shows "\<exists>w'' cp. process_pre_jupiter_bracket_check rt pid accounts
      (prf\<lparr>JupiterPreBracketProof.min_output_amount_raw := m\<rparr>) w = Inr w'' \<and>
    try_from_slice (checkpoint_codec rt) (data (ledger w'' (key (accounts ! 3)))) = Some cp \<and>
    JupiterBracketCheckpoint.min_output_amount_raw cp = m"
proof -
  have "is_ok (process_pre_jupiter_bracket_check rt pid accounts
      (prf\<lparr>JupiterPreBracketProof.min_output_amount_raw := m\<rparr>) w)"
    using assms(3) unfolding process_pre_jupiter_bracket_check_def Let_def
    by (elim success_elims)
      (simp add: next_account_info_Inr borsh_fixed.serialize_account_other [OF assms(2)])
  then obtain w'' where again: "process_pre_jupiter_bracket_check rt pid accounts
      (prf\<lparr>JupiterPreBracketProof.min_output_amount_raw := m\<rparr>) w = Inr w''"
    by (auto simp: is_ok_iff)
  show ?thesis
    by (rule pre_check_effect [OF assms(1,2) again]) (use again in \<open>auto simp: numeral_eq_Suc\<close>)
qed

end
