(* ===== verification/Authority_Instruction.thy ===== *)
theory Authority_Instruction
  imports Condition_Verifier Solend_Boundary Jupiter_Bracket
begin

text \<open>
  \<^verbatim>\<open>programs/clawsol-authority/src/instruction.rs\<close>: the instruction payloads the program accepts, the
  derivation of the authorization address, and the builders off-chain clients use. Serialization is
  the Borsh code derived for \<open>AuthorityInstruction\<close>, one more parameter of the runtime.
\<close>

definition MAX_PROOF_CONDITIONS :: nat where
  "MAX_PROOF_CONDITIONS = 8"

datatype ProofCondition =
    ProofCondition_Pyth PythPriceCondition PythPriceSnapshot
  | ProofCondition_Solend SolendSupplyAprCondition SolendReserveSnapshot

record ConditionProofPayload =
  condition_logic :: ConditionLogic
  conditions :: "ProofCondition list"

datatype AuthorityInstruction =
    CreateAuthorization u8 "128 word" pubkey pubkey "256 word" u8 u64 pubkey u64
      \<comment> \<open>schema version, rule id, executor, delegated wallet, rule hash, action type, maximum, destination, expiry\<close>
  | Revoke
  | CloseAuthorization
  | ExecuteAction u8 "128 word" "256 word" u8 u64 u64 ConditionProofPayload
      "SolendBoundaryProof option" "JupiterBoundaryProof option"
      \<comment> \<open>schema version, rule id, rule hash, action type, amount, nonce, condition proof, boundary proofs\<close>
  | PreJupiterBracketCheck JupiterPreBracketProof
  | PostJupiterBracketCheck JupiterPostBracketProof

record authority_runtime = authority_env +
  instruction_codec :: "AuthorityInstruction borsh"

definition AUTHZ_SEED_PREFIX :: "u8 list" where
  "AUTHZ_SEED_PREFIX = byte_literal ''authz''"

definition authorization_seeds :: "u8 \<Rightarrow> pubkey \<Rightarrow> 128 word \<Rightarrow> u8 list list" where
  "authorization_seeds schema usr rule = [AUTHZ_SEED_PREFIX, [schema], array_bytes usr, array_bytes rule]"

definition derive_authorization_pda ::
  "'z runtime_scheme \<Rightarrow> pubkey \<Rightarrow> u8 \<Rightarrow> pubkey \<Rightarrow> 128 word \<Rightarrow> pubkey \<times> u8" where
  "derive_authorization_pda rt pid schema usr rule =
     find_program_address rt (authorization_seeds schema usr rule) pid"

section \<open>Builders\<close>

definition create_authorization_instruction ::
  "'z authority_runtime_scheme \<Rightarrow> pubkey \<Rightarrow> pubkey \<Rightarrow> u8 \<Rightarrow> 128 word \<Rightarrow> pubkey \<Rightarrow> pubkey \<Rightarrow> 256 word \<Rightarrow>
   u8 \<Rightarrow> u64 \<Rightarrow> pubkey \<Rightarrow> u64 \<Rightarrow> instruction" where
  "create_authorization_instruction rt pid usr schema rule exec delegated rule_hash action max_in dest expiry =
     (let (authz_pda, _) = derive_authorization_pda rt pid schema usr rule in
      \<lparr>ix_program_id = pid,
       ix_accounts = [AccountMeta_new usr True, AccountMeta_new authz_pda False,
         AccountMeta_new_readonly system_program_ID False],
       ix_data = to_bytes (instruction_codec rt)
         (CreateAuthorization schema rule exec delegated rule_hash action max_in dest expiry)\<rparr>)"

definition revoke_authorization_instruction ::
  "'z authority_runtime_scheme \<Rightarrow> pubkey \<Rightarrow> pubkey \<Rightarrow> u8 \<Rightarrow> 128 word \<Rightarrow> instruction" where
  "revoke_authorization_instruction rt pid usr schema rule =
     (let (authz_pda, _) = derive_authorization_pda rt pid schema usr rule in
      \<lparr>ix_program_id = pid,
       ix_accounts = [AccountMeta_new_readonly usr True, AccountMeta_new authz_pda False],
       ix_data = to_bytes (instruction_codec rt) Revoke\<rparr>)"

definition close_authorization_instruction ::
  "'z authority_runtime_scheme \<Rightarrow> pubkey \<Rightarrow> pubkey \<Rightarrow> u8 \<Rightarrow> 128 word \<Rightarrow> instruction" where
  "close_authorization_instruction rt pid usr schema rule =
     (let (authz_pda, _) = derive_authorization_pda rt pid schema usr rule in
      \<lparr>ix_program_id = pid,
       ix_accounts = [AccountMeta_new usr True, AccountMeta_new authz_pda False],
       ix_data = to_bytes (instruction_codec rt) CloseAuthorization\<rparr>)"

definition execute_action_instruction ::
  "'z authority_runtime_scheme \<Rightarrow> pubkey \<Rightarrow> pubkey \<Rightarrow> pubkey \<Rightarrow> pubkey \<Rightarrow> u8 \<Rightarrow> 128 word \<Rightarrow> 256 word \<Rightarrow>
   u8 \<Rightarrow> u64 \<Rightarrow> u64 \<Rightarrow> ConditionProofPayload \<Rightarrow> SolendBoundaryProof option \<Rightarrow>
   JupiterBoundaryProof option \<Rightarrow> instruction" where
  "execute_action_instruction rt pid exec usr delegated schema rule rule_hash action amt nonce cproof sproof jproof =
     (let (authz_pda, _) = derive_authorization_pda rt pid schema usr rule in
      \<lparr>ix_program_id = pid,
       ix_accounts = [AccountMeta_new_readonly exec True, AccountMeta_new authz_pda False,
         AccountMeta_new_readonly usr False, AccountMeta_new_readonly delegated False],
       ix_data = to_bytes (instruction_codec rt)
         (ExecuteAction schema rule rule_hash action amt nonce cproof sproof jproof)\<rparr>)"

definition pre_jupiter_bracket_check_instruction ::
  "'z authority_runtime_scheme \<Rightarrow> pubkey \<Rightarrow> pubkey \<Rightarrow> pubkey \<Rightarrow> JupiterPreBracketProof \<Rightarrow> instruction" where
  "pre_jupiter_bracket_check_instruction rt pid exec authz prf =
     (let (checkpoint_pda, _) = derive_jupiter_bracket_checkpoint_pda rt pid authz
            (JupiterPreBracketProof.execution_nonce prf) (JupiterPreBracketProof.destination_token_account prf);
          dest = JupiterPreBracketProof.destination_token_account prf in
      \<lparr>ix_program_id = pid,
       ix_accounts = [AccountMeta_new exec True, AccountMeta_new_readonly authz False,
         AccountMeta_new_readonly dest False, AccountMeta_new checkpoint_pda False,
         AccountMeta_new_readonly system_program_ID False],
       ix_data = to_bytes (instruction_codec rt) (PreJupiterBracketCheck prf)\<rparr>)"

definition post_jupiter_bracket_check_instruction ::
  "'z authority_runtime_scheme \<Rightarrow> pubkey \<Rightarrow> pubkey \<Rightarrow> pubkey \<Rightarrow> JupiterPostBracketProof \<Rightarrow> instruction" where
  "post_jupiter_bracket_check_instruction rt pid exec authz prf =
     (let (checkpoint_pda, _) = derive_jupiter_bracket_checkpoint_pda rt pid authz
            (JupiterPostBracketProof.execution_nonce prf) (JupiterPostBracketProof.destination_token_account prf);
          dest = JupiterPostBracketProof.destination_token_account prf in
      \<lparr>ix_program_id = pid,
       ix_accounts = [AccountMeta_new_readonly exec True, AccountMeta_new_readonly authz False,
         AccountMeta_new_readonly dest False, AccountMeta_new checkpoint_pda False],
       ix_data = to_bytes (instruction_codec rt) (PostJupiterBracketCheck prf)\<rparr>)"

text \<open>The account views a program gets for the account list of an instruction.\<close>

definition infos_of_metas :: "account_meta list \<Rightarrow> account_info list" where
  "infos_of_metas ms = map (\<lambda>m. \<lparr>key = meta_pubkey m, is_signer = meta_is_signer m,
     is_writable = meta_is_writable m\<rparr>) ms"

lemmas builder_simps = infos_of_metas_def AccountMeta_new_def AccountMeta_new_readonly_def

end
