(* ===== verification/Solend_Cpi_Builder.thy ===== *)
theory Solend_Cpi_Builder
  imports Solend_Boundary
begin

text \<open>
  \<^verbatim>\<open>programs/clawsol-authority/src/solend_cpi_builder.rs\<close>: instruction data and account lists of the
  three Solend calls, the shadow-mapping validator over the twelve withdraw accounts, the
  delegated-wallet signer guard, the demo oracle allowlist, and the two-phase orchestrator that
  validates everything before the first cross-program call. A cross-program call is the runtime's
  \<open>invoke\<close> on the world.
\<close>

section \<open>Instruction data and account lists\<close>

definition SOLEND_VARIANT_REFRESH_OBLIGATION :: u8 where
  "SOLEND_VARIANT_REFRESH_OBLIGATION = 7"

definition WITHDRAW_BASE_ACCOUNTS_LEN :: nat where
  "WITHDRAW_BASE_ACCOUNTS_LEN = 12"

definition build_refresh_reserve_data :: "u8 list" where
  "build_refresh_reserve_data = [SOLEND_VARIANT_REFRESH_RESERVE]"

definition build_refresh_obligation_data :: "u8 list" where
  "build_refresh_obligation_data = [SOLEND_VARIANT_REFRESH_OBLIGATION]"

definition build_withdraw_obligation_collateral_and_redeem_reserve_collateral_data :: "u64 \<Rightarrow> u8 list" where
  "build_withdraw_obligation_collateral_and_redeem_reserve_collateral_data amt =
     SOLEND_VARIANT_WITHDRAW_OBLIGATION_COLLATERAL_AND_REDEEM # to_le_bytes amt"

definition build_refresh_reserve_metas ::
  "pubkey \<Rightarrow> pubkey \<Rightarrow> pubkey \<Rightarrow> pubkey \<Rightarrow> pubkey option \<Rightarrow> account_meta list" where
  "build_refresh_reserve_metas rsv pyth switchboard clk extra =
     [AccountMeta_new rsv False, AccountMeta_new_readonly pyth False,
      AccountMeta_new_readonly switchboard False, AccountMeta_new_readonly clk False] @
     (case extra of None \<Rightarrow> [] | Some e \<Rightarrow> [AccountMeta_new_readonly e False])"

definition build_refresh_obligation_metas :: "pubkey \<Rightarrow> pubkey list \<Rightarrow> account_meta list" where
  "build_refresh_obligation_metas ob reserves =
     AccountMeta_new ob False # map (\<lambda>r. AccountMeta_new r False) reserves"

definition build_withdraw_obligation_collateral_and_redeem_reserve_collateral_metas ::
  "pubkey \<Rightarrow> pubkey \<Rightarrow> pubkey \<Rightarrow> pubkey \<Rightarrow> pubkey \<Rightarrow> pubkey \<Rightarrow> pubkey \<Rightarrow> pubkey \<Rightarrow> pubkey \<Rightarrow>
   pubkey \<Rightarrow> pubkey \<Rightarrow> pubkey \<Rightarrow> pubkey list \<Rightarrow> account_meta list" where
  "build_withdraw_obligation_collateral_and_redeem_reserve_collateral_metas source_collateral
     delegated_ctoken withdraw_reserve ob market lending_market_authority
     destination_liquidity reserve_collateral_mint reserve_liquidity_supply obligation_owner
     user_transfer_authority token_program deposit_reserves =
     [AccountMeta_new source_collateral False,
      AccountMeta_new delegated_ctoken False,
      AccountMeta_new withdraw_reserve False,
      AccountMeta_new ob False,
      AccountMeta_new market False,
      AccountMeta_new_readonly lending_market_authority False,
      AccountMeta_new destination_liquidity False,
      AccountMeta_new reserve_collateral_mint False,
      AccountMeta_new reserve_liquidity_supply False,
      AccountMeta_new_readonly obligation_owner True,
      AccountMeta_new_readonly user_transfer_authority True,
      AccountMeta_new_readonly token_program False] @
     map (\<lambda>r. AccountMeta_new r False) deposit_reserves"

record SolendWithdrawAccounts =
  source_collateral :: account_info
  delegated_ctoken :: account_info
  reserve :: account_info
  obligation :: account_info
  lending_market :: account_info
  lending_market_authority :: account_info
  destination :: account_info
  reserve_collateral_mint :: account_info
  reserve_liquidity_supply :: account_info
  obligation_owner :: account_info
  user_transfer_authority :: account_info
  token_program :: account_info

definition SolendWithdrawAccounts_parse :: "account_info list \<Rightarrow> program_error + SolendWithdrawAccounts" where
  "SolendWithdrawAccounts_parse accounts =
     (if length accounts < WITHDRAW_BASE_ACCOUNTS_LEN
      then Inl (authority_err SolendCpiAccountOrderInvalid)
      else Inr \<lparr>source_collateral = accounts ! 0, delegated_ctoken = accounts ! 1,
        reserve = accounts ! 2, obligation = accounts ! 3, lending_market = accounts ! 4,
        lending_market_authority = accounts ! 5, destination = accounts ! 6,
        reserve_collateral_mint = accounts ! 7, reserve_liquidity_supply = accounts ! 8,
        obligation_owner = accounts ! 9, user_transfer_authority = accounts ! 10,
        token_program = accounts ! 11\<rparr>)"

definition withdraw_account_list :: "SolendWithdrawAccounts \<Rightarrow> account_info list" where
  "withdraw_account_list a =
     [source_collateral a, delegated_ctoken a, reserve a, SolendWithdrawAccounts.obligation a,
      SolendWithdrawAccounts.lending_market a, lending_market_authority a,
      SolendWithdrawAccounts.destination a, reserve_collateral_mint a, reserve_liquidity_supply a,
      obligation_owner a, user_transfer_authority a, token_program a]"

section \<open>Shadow mapping\<close>

record SolendWithdrawShadowExpectations =
  solend_program_id :: pubkey
  expected_obligation :: pubkey
  expected_reserve :: pubkey
  expected_lending_market :: pubkey
  expected_ctoken_mint :: pubkey
  expected_liquidity_mint :: pubkey

record SolendWithdrawShadowDecoded =
  obligation :: DecodedSolendObligation
  reserve :: DecodedSolendReserve
  delegated_ctoken :: DecodedSplTokenAccountLite
  destination :: DecodedSplTokenAccountLite

definition forbid_canonical_sysvars_in_base_slots :: "SolendWithdrawAccounts \<Rightarrow> program_error + unit" where
  "forbid_canonical_sysvars_in_base_slots accounts =
     (if list_ex (\<lambda>a. key a = sysvar_clock_id \<or> key a = sysvar_rent_id) (withdraw_account_list accounts)
      then Inl (authority_err SolendCpiSysvarMismatch) else Inr ())"

definition validate_shadow_obligation ::
  "world \<Rightarrow> SolendWithdrawAccounts \<Rightarrow> AuthorizationRecord \<Rightarrow> SolendWithdrawShadowExpectations \<Rightarrow>
   program_error + DecodedSolendObligation" where
  "validate_shadow_obligation w accounts rec ex =
     (if key (SolendWithdrawAccounts.obligation accounts) \<noteq> expected_obligation ex
      then Inl (authority_err SolendCpiAccountOrderInvalid)
      else if account.owner (account_of w (SolendWithdrawAccounts.obligation accounts)) \<noteq>
        SolendWithdrawShadowExpectations.solend_program_id ex
      then Inl (authority_err SolendAccountOwnerMismatch)
      else bindE (decode_obligation (data (account_of w (SolendWithdrawAccounts.obligation accounts))))
        (\<lambda>decoded.
      bindE (require_obligation_owned_by_delegated_wallet decoded rec) (\<lambda>_.
      bindE (require_obligation_lending_market decoded (expected_lending_market ex)) (\<lambda>_.
      Inr decoded))))"

definition validate_shadow_reserve ::
  "world \<Rightarrow> SolendWithdrawAccounts \<Rightarrow> SolendWithdrawShadowExpectations \<Rightarrow>
   program_error + DecodedSolendReserve" where
  "validate_shadow_reserve w accounts ex =
     (if key (SolendWithdrawAccounts.reserve accounts) \<noteq> expected_reserve ex
      then Inl (authority_err SolendReserveMismatch)
      else if account.owner (account_of w (SolendWithdrawAccounts.reserve accounts)) \<noteq>
        SolendWithdrawShadowExpectations.solend_program_id ex
      then Inl (authority_err SolendAccountOwnerMismatch)
      else bindE (decode_reserve (data (account_of w (SolendWithdrawAccounts.reserve accounts))))
        (\<lambda>decoded.
      bindE (require_reserve_lending_market decoded (expected_lending_market ex)) (\<lambda>_.
      if key (SolendWithdrawAccounts.lending_market accounts) \<noteq> expected_lending_market ex
      then Inl (authority_err SolendLendingMarketMismatch)
      else Inr decoded)))"

definition validate_shadow_ctoken ::
  "world \<Rightarrow> SolendWithdrawAccounts \<Rightarrow> AuthorizationRecord \<Rightarrow> SolendWithdrawShadowExpectations \<Rightarrow>
   program_error + DecodedSplTokenAccountLite" where
  "validate_shadow_ctoken w accounts rec ex =
     (if account.owner (account_of w (SolendWithdrawAccounts.delegated_ctoken accounts)) \<noteq> SPL_TOKEN_PROGRAM_ID
      then Inl (authority_err SolendTokenAccountOwnerMismatch)
      else bindE (decode_spl_token_account_lite
        (data (account_of w (SolendWithdrawAccounts.delegated_ctoken accounts)))) (\<lambda>decoded.
      bindE (require_spl_token_authority decoded (delegated_wallet rec)) (\<lambda>_.
      bindE (require_spl_token_mint decoded (expected_ctoken_mint ex)) (\<lambda>_.
      Inr decoded))))"

definition validate_shadow_destination ::
  "world \<Rightarrow> SolendWithdrawAccounts \<Rightarrow> AuthorizationRecord \<Rightarrow> SolendWithdrawShadowExpectations \<Rightarrow>
   program_error + DecodedSplTokenAccountLite" where
  "validate_shadow_destination w accounts rec ex =
     (if key (SolendWithdrawAccounts.destination accounts) \<noteq> AuthorizationRecord.destination rec
      then Inl (authority_err SolendDestinationMismatch)
      else if account.owner (account_of w (SolendWithdrawAccounts.destination accounts)) \<noteq> SPL_TOKEN_PROGRAM_ID
      then Inl (authority_err SolendTokenAccountOwnerMismatch)
      else bindE (decode_spl_token_account_lite
        (data (account_of w (SolendWithdrawAccounts.destination accounts)))) (\<lambda>decoded.
      bindE (require_spl_token_mint decoded (expected_liquidity_mint ex)) (\<lambda>_.
      Inr decoded)))"

definition validate_shadow_signers ::
  "SolendWithdrawAccounts \<Rightarrow> AuthorizationRecord \<Rightarrow> program_error + unit" where
  "validate_shadow_signers accounts rec =
     (if key (token_program accounts) \<noteq> SPL_TOKEN_PROGRAM_ID
      then Inl (authority_err SolendCpiTokenProgramMismatch)
      else if key (obligation_owner accounts) = user rec
      then Inl (authority_err SolendMainWalletObligationRejected)
      else if key (obligation_owner accounts) \<noteq> delegated_wallet rec
      then Inl (authority_err SolendObligationAuthorityMismatch)
      else if \<not> is_signer (obligation_owner accounts)
      then Inl (authority_err SolendCpiBuilderInvariantFailed)
      else if key (user_transfer_authority accounts) = user rec
      then Inl (authority_err SolendMainWalletObligationRejected)
      else if key (user_transfer_authority accounts) \<noteq> delegated_wallet rec
      then Inl (authority_err SolendObligationAuthorityMismatch)
      else if \<not> is_signer (user_transfer_authority accounts)
      then Inl (authority_err SolendCpiBuilderInvariantFailed)
      else Inr ())"

definition validate_solend_withdraw_shadow_mapping ::
  "world \<Rightarrow> SolendWithdrawAccounts \<Rightarrow> AuthorizationRecord \<Rightarrow> SolendWithdrawShadowExpectations \<Rightarrow>
   program_error + SolendWithdrawShadowDecoded" where
  "validate_solend_withdraw_shadow_mapping w accounts rec ex =
     bindE (forbid_canonical_sysvars_in_base_slots accounts) (\<lambda>_.
     if SolendWithdrawShadowExpectations.solend_program_id ex \<noteq> SOLEND_PROGRAM_ID_MAINNET
     then Inl (authority_err SolendProgramMismatch)
     else bindE (validate_shadow_obligation w accounts rec ex) (\<lambda>decoded_obligation.
     bindE (validate_shadow_reserve w accounts ex) (\<lambda>decoded_reserve.
     bindE (validate_shadow_ctoken w accounts rec ex) (\<lambda>decoded_ctoken.
     bindE (validate_shadow_destination w accounts rec ex) (\<lambda>decoded_destination.
     bindE (validate_shadow_signers accounts rec) (\<lambda>_.
     Inr \<lparr>SolendWithdrawShadowDecoded.obligation = decoded_obligation, reserve = decoded_reserve,
          delegated_ctoken = decoded_ctoken, destination = decoded_destination\<rparr>))))))"

definition require_canonical_clock_sysvar :: "account_info \<Rightarrow> program_error + unit" where
  "require_canonical_clock_sysvar a =
     (if key a \<noteq> sysvar_clock_id then Inl (authority_err SolendCpiSysvarMismatch) else Inr ())"

definition require_canonical_token_program :: "account_info \<Rightarrow> program_error + unit" where
  "require_canonical_token_program a =
     (if key a \<noteq> SPL_TOKEN_PROGRAM_ID then Inl (authority_err SolendCpiTokenProgramMismatch) else Inr ())"

definition read_live_ctoken_amount_or_fail_closed ::
  "world \<Rightarrow> account_info \<Rightarrow> AuthorizationRecord \<Rightarrow> pubkey \<Rightarrow> program_error + u64" where
  "read_live_ctoken_amount_or_fail_closed w ctoken rec mnt =
     (if account.owner (account_of w ctoken) \<noteq> SPL_TOKEN_PROGRAM_ID
      then Inl (authority_err SolendTokenAccountOwnerMismatch)
      else bindE (decode_spl_token_account_lite (data (account_of w ctoken))) (\<lambda>decoded.
      bindE (require_spl_token_authority decoded (delegated_wallet rec)) (\<lambda>_.
      bindE (require_spl_token_mint decoded mnt) (\<lambda>_.
      if amount decoded = 0 then Inl (authority_err SolendCpiZeroCollateralAmount)
      else Inr (amount decoded)))))"

definition verify_oracles_or_fail_closed_p5b1 ::
  "account_info \<Rightarrow> account_info \<Rightarrow> account_info option \<Rightarrow> pubkey \<Rightarrow> program_error + unit" where
  "verify_oracles_or_fail_closed_p5b1 pyth switchboard extra rsv =
     Inl (authority_err SolendCpiOracleUnverified)"

section \<open>Cross-program calls\<close>

definition cpi_refresh_reserve ::
  "'z runtime_scheme \<Rightarrow> account_info \<Rightarrow> account_info \<Rightarrow> account_info \<Rightarrow> account_info \<Rightarrow> account_info \<Rightarrow>
   account_info option \<Rightarrow> world \<Rightarrow> program_error + world" where
  "cpi_refresh_reserve rt solend_program rsv pyth switchboard clk extra w =
     (if key solend_program \<noteq> SOLEND_PROGRAM_ID_MAINNET then Inl (authority_err SolendProgramMismatch)
      else map_err (\<lambda>_. authority_err SolendCpiRefreshReserveFailed)
        (invoke rt
          \<lparr>ix_program_id = key solend_program,
           ix_accounts = build_refresh_reserve_metas (key rsv) (key pyth) (key switchboard) (key clk)
             (map_option key extra),
           ix_data = build_refresh_reserve_data\<rparr>
          ([rsv, pyth, switchboard, clk] @ (case extra of None \<Rightarrow> [] | Some e \<Rightarrow> [e])) w))"

definition cpi_refresh_obligation ::
  "'z runtime_scheme \<Rightarrow> account_info \<Rightarrow> account_info \<Rightarrow> account_info list \<Rightarrow> world \<Rightarrow>
   program_error + world" where
  "cpi_refresh_obligation rt solend_program ob deposit_reserves w =
     (if key solend_program \<noteq> SOLEND_PROGRAM_ID_MAINNET then Inl (authority_err SolendProgramMismatch)
      else map_err (\<lambda>_. authority_err SolendCpiRefreshObligationFailed)
        (invoke rt
          \<lparr>ix_program_id = key solend_program,
           ix_accounts = build_refresh_obligation_metas (key ob) (map key deposit_reserves),
           ix_data = build_refresh_obligation_data\<rparr>
          (ob # deposit_reserves) w))"

definition withdraw_instruction :: "account_info \<Rightarrow> SolendWithdrawAccounts \<Rightarrow> account_info list \<Rightarrow> u64 \<Rightarrow> instruction" where
  "withdraw_instruction solend_program accounts deposit_reserves amt =
     \<lparr>ix_program_id = key solend_program,
      ix_accounts = build_withdraw_obligation_collateral_and_redeem_reserve_collateral_metas
        (key (source_collateral accounts)) (key (SolendWithdrawAccounts.delegated_ctoken accounts))
        (key (SolendWithdrawAccounts.reserve accounts)) (key (SolendWithdrawAccounts.obligation accounts))
        (key (SolendWithdrawAccounts.lending_market accounts)) (key (lending_market_authority accounts))
        (key (SolendWithdrawAccounts.destination accounts)) (key (reserve_collateral_mint accounts))
        (key (reserve_liquidity_supply accounts)) (key (obligation_owner accounts))
        (key (user_transfer_authority accounts)) (key (token_program accounts))
        (map key deposit_reserves),
      ix_data = build_withdraw_obligation_collateral_and_redeem_reserve_collateral_data amt\<rparr>"

definition cpi_withdraw_obligation_collateral_and_redeem_reserve_collateral ::
  "'z runtime_scheme \<Rightarrow> account_info \<Rightarrow> SolendWithdrawAccounts \<Rightarrow> account_info list \<Rightarrow> u64 \<Rightarrow> world \<Rightarrow>
   program_error + world" where
  "cpi_withdraw_obligation_collateral_and_redeem_reserve_collateral rt solend_program accounts
     deposit_reserves amt w =
     (if key solend_program \<noteq> SOLEND_PROGRAM_ID_MAINNET then Inl (authority_err SolendProgramMismatch)
      else map_err (\<lambda>_. authority_err SolendCpiWithdrawFailed)
        (invoke rt (withdraw_instruction solend_program accounts deposit_reserves amt)
          (withdraw_account_list accounts @ deposit_reserves) w))"

definition require_external_delegated_wallet_signer ::
  "account_info \<Rightarrow> AuthorizationRecord \<Rightarrow> program_error + unit" where
  "require_external_delegated_wallet_signer a rec =
     (if key a = user rec then Inl (authority_err SolendMainWalletObligationRejected)
      else if key a \<noteq> delegated_wallet rec then Inl (authority_err SolendCpiDelegatedWalletMismatch)
      else if \<not> is_signer a then Inl (authority_err SolendCpiDelegatedWalletNotSigner)
      else Inr ())"

section \<open>Oracle modes\<close>

datatype SolendOracleMode = OfficialReserveDecode | FailClosed | DemoPinnedAllowlist

definition p5b2_oracle_mode :: SolendOracleMode where
  "p5b2_oracle_mode = FailClosed"

record DemoOracleTuple =
  reserve :: pubkey
  lending_market :: pubkey
  liquidity_mint :: pubkey
  ctoken_mint :: pubkey
  pyth_oracle :: pubkey
  switchboard_oracle :: pubkey
  extra_oracle :: pubkey

definition MAINNET_BETA_DEMO_USDC_TUPLE :: DemoOracleTuple where
  "MAINNET_BETA_DEMO_USDC_TUPLE =
     \<lparr>DemoOracleTuple.reserve = pubkey_of ''BgxfHJDzm44T7XG68MYKx7YisTjZu73tVovyZSjJMpmw'',
      lending_market = pubkey_of ''4UpD2fh7xH3VP9QQaXtsS1YY3bxzWhtfpks7FatyKvdY'',
      liquidity_mint = pubkey_of ''EPjFWdd5AufqSSqeM2qN1xzybapC8G4wEGGkZwyTDt1v'',
      ctoken_mint = pubkey_of ''993dVFL2uXWYeoXuEBFXR4BijeXdTv4s6BzsCjJZuwqk'',
      pyth_oracle = pubkey_of ''Dpw1EAVrSB1ibxiDQyTAW6Zip3J4Btk2x4SgApQCeFbX'',
      switchboard_oracle = pubkey_of ''nu11111111111111111111111111111111111111111'',
      extra_oracle = 0\<rparr>"

definition verify_demo_pinned_oracle_tuple ::
  "pubkey \<Rightarrow> pubkey \<Rightarrow> pubkey \<Rightarrow> pubkey \<Rightarrow> pubkey \<Rightarrow> pubkey \<Rightarrow> pubkey option \<Rightarrow> program_error + unit" where
  "verify_demo_pinned_oracle_tuple rsv mkt liq ctk pyth sb extra =
     (let demo = MAINNET_BETA_DEMO_USDC_TUPLE in
      if rsv \<noteq> DemoOracleTuple.reserve demo then Inl (authority_err SolendDemoOracleUnknownReserve)
      else if mkt \<noteq> DemoOracleTuple.lending_market demo then Inl (authority_err SolendDemoOracleTupleMismatch)
      else if liq \<noteq> liquidity_mint demo then Inl (authority_err SolendDemoOracleTupleMismatch)
      else if ctk \<noteq> ctoken_mint demo then Inl (authority_err SolendDemoOracleTupleMismatch)
      else if pyth \<noteq> pyth_oracle demo then Inl (authority_err SolendDemoOracleTupleMismatch)
      else if sb \<noteq> switchboard_oracle demo then Inl (authority_err SolendDemoOracleTupleMismatch)
      else let runtime_extra = (case extra of None \<Rightarrow> 0 | Some e \<Rightarrow> e) in
      if runtime_extra \<noteq> extra_oracle demo then Inl (authority_err SolendDemoOracleTupleMismatch)
      else Inr ())"

definition select_oracle_mode_for_runtime_tuple ::
  "pubkey \<Rightarrow> pubkey \<Rightarrow> pubkey \<Rightarrow> pubkey \<Rightarrow> pubkey \<Rightarrow> pubkey \<Rightarrow> pubkey option \<Rightarrow> SolendOracleMode" where
  "select_oracle_mode_for_runtime_tuple rsv mkt liq ctk pyth sb extra =
     (case verify_demo_pinned_oracle_tuple rsv mkt liq ctk pyth sb extra of
        Inr _ \<Rightarrow> DemoPinnedAllowlist | Inl _ \<Rightarrow> FailClosed)"

section \<open>The two-phase orchestrator\<close>

record SolendCpiSubstrate =
  solend_program :: account_info
  pyth_oracle :: account_info
  switchboard_oracle :: account_info
  clock_sysvar :: account_info
  extra_oracle :: "account_info option"

definition oracle_gate ::
  "SolendCpiSubstrate \<Rightarrow> SolendWithdrawShadowExpectations \<Rightarrow> program_error + unit" where
  "oracle_gate sub ex =
     (case select_oracle_mode_for_runtime_tuple (expected_reserve ex) (expected_lending_market ex)
             (expected_liquidity_mint ex) (expected_ctoken_mint ex)
             (key (SolendCpiSubstrate.pyth_oracle sub)) (key (SolendCpiSubstrate.switchboard_oracle sub))
             (map_option key (SolendCpiSubstrate.extra_oracle sub)) of
        FailClosed \<Rightarrow> Inl (authority_err SolendCpiSuccessPathBlockedByOracleValidation)
      | DemoPinnedAllowlist \<Rightarrow> Inr ()
      | OfficialReserveDecode \<Rightarrow>
          verify_oracles_or_fail_closed_p5b1 (SolendCpiSubstrate.pyth_oracle sub)
            (SolendCpiSubstrate.switchboard_oracle sub) (SolendCpiSubstrate.extra_oracle sub)
            (expected_reserve ex))"

definition try_solend_cpi_skeleton ::
  "'z runtime_scheme \<Rightarrow> AuthorizationRecord \<Rightarrow> account_info \<Rightarrow> SolendCpiSubstrate \<Rightarrow>
   SolendWithdrawAccounts \<Rightarrow> account_info list \<Rightarrow> SolendWithdrawShadowExpectations \<Rightarrow> world \<Rightarrow>
   program_error + world" where
  "try_solend_cpi_skeleton rt rec delegated_wallet_account sub accounts deposit_reserves ex w =
     (if key (solend_program sub) \<noteq> SOLEND_PROGRAM_ID_MAINNET
      then Inl (authority_err SolendProgramMismatch)
      else bindE (require_external_delegated_wallet_signer delegated_wallet_account rec) (\<lambda>_.
      bindE (require_canonical_clock_sysvar (clock_sysvar sub)) (\<lambda>_.
      bindE (require_canonical_token_program (token_program accounts)) (\<lambda>_.
      bindE (validate_solend_withdraw_shadow_mapping w accounts rec ex) (\<lambda>_.
      bindE (read_live_ctoken_amount_or_fail_closed w (SolendWithdrawAccounts.delegated_ctoken accounts)
        rec (expected_ctoken_mint ex)) (\<lambda>amount.
      bindE (oracle_gate sub ex) (\<lambda>_.
      bindE (cpi_refresh_reserve rt (solend_program sub) (SolendWithdrawAccounts.reserve accounts)
        (SolendCpiSubstrate.pyth_oracle sub) (SolendCpiSubstrate.switchboard_oracle sub)
        (clock_sysvar sub) (SolendCpiSubstrate.extra_oracle sub) w) (\<lambda>w.
      bindE (cpi_refresh_obligation rt (solend_program sub)
        (SolendWithdrawAccounts.obligation accounts) deposit_reserves w) (\<lambda>w.
      cpi_withdraw_obligation_collateral_and_redeem_reserve_collateral rt (solend_program sub) accounts
        deposit_reserves amount w)))))))))"

section \<open>What the validators accept\<close>

text \<open>The checks of the validator as one predicate on the accounts and the decoded views.\<close>

definition shadow_spec ::
  "world \<Rightarrow> SolendWithdrawAccounts \<Rightarrow> AuthorizationRecord \<Rightarrow> SolendWithdrawShadowExpectations \<Rightarrow>
   SolendWithdrawShadowDecoded \<Rightarrow> bool" where
  "shadow_spec w a rec ex d \<longleftrightarrow>
     sysvar_clock_id \<notin> key ` set (withdraw_account_list a) \<and>
     sysvar_rent_id \<notin> key ` set (withdraw_account_list a) \<and>
     SolendWithdrawShadowExpectations.solend_program_id ex = SOLEND_PROGRAM_ID_MAINNET \<and>
     key (SolendWithdrawAccounts.obligation a) = expected_obligation ex \<and>
     account.owner (ledger w (expected_obligation ex)) = SOLEND_PROGRAM_ID_MAINNET \<and>
     decode_obligation (data (ledger w (expected_obligation ex))) = Inr (SolendWithdrawShadowDecoded.obligation d) \<and>
     DecodedSolendObligation.owner (SolendWithdrawShadowDecoded.obligation d) = delegated_wallet rec \<and>
     delegated_wallet rec \<noteq> user rec \<and>
     DecodedSolendObligation.lending_market (SolendWithdrawShadowDecoded.obligation d) = expected_lending_market ex \<and>
     key (SolendWithdrawAccounts.reserve a) = expected_reserve ex \<and>
     account.owner (ledger w (expected_reserve ex)) = SOLEND_PROGRAM_ID_MAINNET \<and>
     decode_reserve (data (ledger w (expected_reserve ex))) = Inr (SolendWithdrawShadowDecoded.reserve d) \<and>
     DecodedSolendReserve.lending_market (SolendWithdrawShadowDecoded.reserve d) = expected_lending_market ex \<and>
     key (SolendWithdrawAccounts.lending_market a) = expected_lending_market ex \<and>
     account.owner (account_of w (SolendWithdrawAccounts.delegated_ctoken a)) = SPL_TOKEN_PROGRAM_ID \<and>
     decode_spl_token_account_lite (data (account_of w (SolendWithdrawAccounts.delegated_ctoken a))) =
       Inr (SolendWithdrawShadowDecoded.delegated_ctoken d) \<and>
     DecodedSplTokenAccountLite.owner (SolendWithdrawShadowDecoded.delegated_ctoken d) = delegated_wallet rec \<and>
     mint (SolendWithdrawShadowDecoded.delegated_ctoken d) = expected_ctoken_mint ex \<and>
     key (SolendWithdrawAccounts.destination a) = AuthorizationRecord.destination rec \<and>
     account.owner (ledger w (AuthorizationRecord.destination rec)) = SPL_TOKEN_PROGRAM_ID \<and>
     decode_spl_token_account_lite (data (ledger w (AuthorizationRecord.destination rec))) =
       Inr (SolendWithdrawShadowDecoded.destination d) \<and>
     mint (SolendWithdrawShadowDecoded.destination d) = expected_liquidity_mint ex \<and>
     key (token_program a) = SPL_TOKEN_PROGRAM_ID \<and>
     key (obligation_owner a) = delegated_wallet rec \<and> is_signer (obligation_owner a) \<and>
     key (user_transfer_authority a) = delegated_wallet rec \<and> is_signer (user_transfer_authority a)"

lemma forbid_sysvars_Inr [ok_simps]:
  "forbid_canonical_sysvars_in_base_slots a = Inr u \<longleftrightarrow>
     sysvar_clock_id \<notin> key ` set (withdraw_account_list a) \<and>
     sysvar_rent_id \<notin> key ` set (withdraw_account_list a)"
  unfolding forbid_canonical_sysvars_in_base_slots_def list_ex_iff image_iff guard_Inr
  by (simp add: eq_commute [of _ "key _"]) blast

lemma shadow_parts_Inr [ok_simps]:
  "validate_shadow_obligation w a rec ex = Inr ob \<longleftrightarrow>
     key (SolendWithdrawAccounts.obligation a) = expected_obligation ex \<and>
     account.owner (ledger w (expected_obligation ex)) = SolendWithdrawShadowExpectations.solend_program_id ex \<and>
     decode_obligation (data (ledger w (expected_obligation ex))) = Inr ob \<and>
     DecodedSolendObligation.owner ob = delegated_wallet rec \<and> delegated_wallet rec \<noteq> user rec \<and>
     DecodedSolendObligation.lending_market ob = expected_lending_market ex"
  "validate_shadow_reserve w a ex = Inr rs \<longleftrightarrow>
     key (SolendWithdrawAccounts.reserve a) = expected_reserve ex \<and>
     account.owner (ledger w (expected_reserve ex)) = SolendWithdrawShadowExpectations.solend_program_id ex \<and>
     decode_reserve (data (ledger w (expected_reserve ex))) = Inr rs \<and>
     DecodedSolendReserve.lending_market rs = expected_lending_market ex \<and>
     key (SolendWithdrawAccounts.lending_market a) = expected_lending_market ex"
  "validate_shadow_ctoken w a rec ex = Inr t \<longleftrightarrow>
     account.owner (account_of w (SolendWithdrawAccounts.delegated_ctoken a)) = SPL_TOKEN_PROGRAM_ID \<and>
     decode_spl_token_account_lite (data (account_of w (SolendWithdrawAccounts.delegated_ctoken a))) = Inr t \<and>
     DecodedSplTokenAccountLite.owner t = delegated_wallet rec \<and> mint t = expected_ctoken_mint ex"
  "validate_shadow_destination w a rec ex = Inr t \<longleftrightarrow>
     key (SolendWithdrawAccounts.destination a) = AuthorizationRecord.destination rec \<and>
     account.owner (ledger w (AuthorizationRecord.destination rec)) = SPL_TOKEN_PROGRAM_ID \<and>
     decode_spl_token_account_lite (data (ledger w (AuthorizationRecord.destination rec))) = Inr t \<and>
     mint t = expected_liquidity_mint ex"
  "validate_shadow_signers a rec = Inr u \<longleftrightarrow>
     key (token_program a) = SPL_TOKEN_PROGRAM_ID \<and>
     key (obligation_owner a) = delegated_wallet rec \<and> is_signer (obligation_owner a) \<and>
     key (user_transfer_authority a) = delegated_wallet rec \<and> is_signer (user_transfer_authority a) \<and>
     delegated_wallet rec \<noteq> user rec"
  by (auto simp: validate_shadow_obligation_def validate_shadow_reserve_def validate_shadow_ctoken_def
      validate_shadow_destination_def validate_shadow_signers_def ok_simps account_of_def
      require_obligation_owned_by_delegated_wallet_def require_obligation_lending_market_def
      require_reserve_lending_market_def require_spl_token_authority_def require_spl_token_mint_def)

lemma shadow_mapping_Inr [ok_simps]:
  "validate_solend_withdraw_shadow_mapping w a rec ex = Inr d \<longleftrightarrow> shadow_spec w a rec ex d"
  by (cases d) (auto simp: validate_solend_withdraw_shadow_mapping_def shadow_spec_def ok_simps)

text \<open>
  The shadow-mapping validator succeeds with a decoded view exactly when every one of the
  listed checks holds on the live accounts and that view is what they decode to.
\<close>

theorem shadow_mapping_exact:
  "validate_solend_withdraw_shadow_mapping w a rec ex = Inr d \<longleftrightarrow> shadow_spec w a rec ex d"
  by (rule shadow_mapping_Inr)

section \<open>The oracle gate and the sequence of calls\<close>

definition demo_tuple_spec :: "SolendCpiSubstrate \<Rightarrow> SolendWithdrawShadowExpectations \<Rightarrow> bool" where
  "demo_tuple_spec sub ex \<longleftrightarrow>
     \<lparr>DemoOracleTuple.reserve = expected_reserve ex, lending_market = expected_lending_market ex,
      liquidity_mint = expected_liquidity_mint ex, ctoken_mint = expected_ctoken_mint ex,
      pyth_oracle = key (SolendCpiSubstrate.pyth_oracle sub),
      switchboard_oracle = key (SolendCpiSubstrate.switchboard_oracle sub),
      extra_oracle = (case SolendCpiSubstrate.extra_oracle sub of None \<Rightarrow> 0 | Some e \<Rightarrow> key e)\<rparr>
     = MAINNET_BETA_DEMO_USDC_TUPLE"

lemma demo_tuple_Inr:
  "verify_demo_pinned_oracle_tuple rsv mkt liq ctk pyth sb extra = Inr u \<longleftrightarrow>
     \<lparr>DemoOracleTuple.reserve = rsv, lending_market = mkt, liquidity_mint = liq, ctoken_mint = ctk,
      pyth_oracle = pyth, switchboard_oracle = sb,
      extra_oracle = (case extra of None \<Rightarrow> 0 | Some e \<Rightarrow> e)\<rparr> = MAINNET_BETA_DEMO_USDC_TUPLE"
  unfolding verify_demo_pinned_oracle_tuple_def Let_def MAINNET_BETA_DEMO_USDC_TUPLE_def
  by (auto simp: ok_simps)

lemma oracle_gate_eq:
  "oracle_gate sub ex =
     (if demo_tuple_spec sub ex then Inr ()
      else Inl (authority_err SolendCpiSuccessPathBlockedByOracleValidation))"
proof -
  let ?v = "verify_demo_pinned_oracle_tuple (expected_reserve ex) (expected_lending_market ex)
    (expected_liquidity_mint ex) (expected_ctoken_mint ex) (key (SolendCpiSubstrate.pyth_oracle sub))
    (key (SolendCpiSubstrate.switchboard_oracle sub)) (map_option key (SolendCpiSubstrate.extra_oracle sub))"
  have "demo_tuple_spec sub ex \<longleftrightarrow> ?v = Inr ()"
    by (cases "SolendCpiSubstrate.extra_oracle sub") (simp_all add: demo_tuple_Inr demo_tuple_spec_def)
  then show ?thesis
    by (cases ?v) (auto simp: oracle_gate_def select_oracle_mode_for_runtime_tuple_def)
qed

lemma signer_guards_Inr [ok_simps]:
  "require_external_delegated_wallet_signer a rec = Inr u \<longleftrightarrow>
     key a = delegated_wallet rec \<and> delegated_wallet rec \<noteq> user rec \<and> is_signer a"
  "require_canonical_clock_sysvar c = Inr u \<longleftrightarrow> key c = sysvar_clock_id"
  "require_canonical_token_program t = Inr u \<longleftrightarrow> key t = SPL_TOKEN_PROGRAM_ID"
  by (auto simp: require_external_delegated_wallet_signer_def require_canonical_clock_sysvar_def
      require_canonical_token_program_def)

lemma read_live_ctoken_Inr:
  assumes "shadow_spec w a rec ex d"
  shows "read_live_ctoken_amount_or_fail_closed w (SolendWithdrawAccounts.delegated_ctoken a) rec
      (expected_ctoken_mint ex) = Inr n \<longleftrightarrow>
    n = amount (SolendWithdrawShadowDecoded.delegated_ctoken d) \<and> n \<noteq> 0"
  using assms by (auto simp: shadow_spec_def read_live_ctoken_amount_or_fail_closed_def ok_simps
      require_spl_token_authority_def require_spl_token_mint_def)

text \<open>Everything the first phase establishes, with the amount it hands to the second.\<close>

definition phase1_spec ::
  "world \<Rightarrow> AuthorizationRecord \<Rightarrow> account_info \<Rightarrow> SolendCpiSubstrate \<Rightarrow> SolendWithdrawAccounts \<Rightarrow>
   SolendWithdrawShadowExpectations \<Rightarrow> SolendWithdrawShadowDecoded \<Rightarrow> bool" where
  "phase1_spec w rec dw sub a ex d \<longleftrightarrow>
     key (solend_program sub) = SOLEND_PROGRAM_ID_MAINNET \<and>
     key dw = delegated_wallet rec \<and> is_signer dw \<and> key (clock_sysvar sub) = sysvar_clock_id \<and>
     shadow_spec w a rec ex d \<and> amount (SolendWithdrawShadowDecoded.delegated_ctoken d) \<noteq> 0"

lemma try_solend_cpi_skeleton_Inr:
  "try_solend_cpi_skeleton rt rec dw sub a deps ex w = Inr w' \<longleftrightarrow>
     (\<exists>d w1 w2. phase1_spec w rec dw sub a ex d \<and> demo_tuple_spec sub ex \<and>
        cpi_refresh_reserve rt (solend_program sub) (SolendWithdrawAccounts.reserve a)
          (SolendCpiSubstrate.pyth_oracle sub) (SolendCpiSubstrate.switchboard_oracle sub)
          (clock_sysvar sub) (SolendCpiSubstrate.extra_oracle sub) w = Inr w1 \<and>
        cpi_refresh_obligation rt (solend_program sub) (SolendWithdrawAccounts.obligation a) deps w1 = Inr w2 \<and>
        cpi_withdraw_obligation_collateral_and_redeem_reserve_collateral rt (solend_program sub) a deps
          (amount (SolendWithdrawShadowDecoded.delegated_ctoken d)) w2 = Inr w')"
proof -
  have tok: "key (token_program a) = SPL_TOKEN_PROGRAM_ID \<and> delegated_wallet rec \<noteq> user rec"
    if "shadow_spec w a rec ex d" for d
    using that by (simp add: shadow_spec_def)
  show ?thesis
    unfolding try_solend_cpi_skeleton_def phase1_spec_def
    by (auto simp: ok_simps oracle_gate_eq read_live_ctoken_Inr dest: tok)
qed

lemma cpi_calls_Inr:
  "key sp = SOLEND_PROGRAM_ID_MAINNET \<Longrightarrow>
   cpi_refresh_reserve rt sp rsv pyth sb clk extra w = Inr w1 \<longleftrightarrow>
     invoke rt \<lparr>ix_program_id = SOLEND_PROGRAM_ID_MAINNET,
        ix_accounts = build_refresh_reserve_metas (key rsv) (key pyth) (key sb) (key clk) (map_option key extra),
        ix_data = [3]\<rparr> ([rsv, pyth, sb, clk] @ (case extra of None \<Rightarrow> [] | Some e \<Rightarrow> [e])) w = Inr w1"
  "key sp = SOLEND_PROGRAM_ID_MAINNET \<Longrightarrow>
   cpi_refresh_obligation rt sp ob deps w = Inr w1 \<longleftrightarrow>
     invoke rt \<lparr>ix_program_id = SOLEND_PROGRAM_ID_MAINNET,
        ix_accounts = build_refresh_obligation_metas (key ob) (map key deps), ix_data = [7]\<rparr>
       (ob # deps) w = Inr w1"
  "key sp = SOLEND_PROGRAM_ID_MAINNET \<Longrightarrow>
   cpi_withdraw_obligation_collateral_and_redeem_reserve_collateral rt sp a deps n w = Inr w1 \<longleftrightarrow>
     invoke rt (withdraw_instruction sp a deps n) (withdraw_account_list a @ deps) w = Inr w1"
  by (simp_all add: cpi_refresh_reserve_def cpi_refresh_obligation_def ok_simps
      cpi_withdraw_obligation_collateral_and_redeem_reserve_collateral_def
      build_refresh_reserve_data_def build_refresh_obligation_data_def
      SOLEND_VARIANT_REFRESH_RESERVE_def SOLEND_VARIANT_REFRESH_OBLIGATION_def)

text \<open>
  The orchestrator succeeds exactly when the whole first phase holds, the oracle tuple is the
  one pinned demo tuple, and the three Solend calls succeed in the order refresh reserve, refresh
  obligation, withdraw, with the instruction data, account lists and the live collateral amount as
  stated; the new world is what the third call returned.
\<close>

theorem cpi_sequence_exact:
  "try_solend_cpi_skeleton rt rec dw sub a deps ex w = Inr w' \<longleftrightarrow>
     (\<exists>d w1 w2. phase1_spec w rec dw sub a ex d \<and> demo_tuple_spec sub ex \<and>
        invoke rt
          \<lparr>ix_program_id = SOLEND_PROGRAM_ID_MAINNET,
           ix_accounts = build_refresh_reserve_metas (expected_reserve ex)
             (key (SolendCpiSubstrate.pyth_oracle sub)) (key (SolendCpiSubstrate.switchboard_oracle sub))
             sysvar_clock_id (map_option key (SolendCpiSubstrate.extra_oracle sub)),
           ix_data = [3]\<rparr>
          ([SolendWithdrawAccounts.reserve a, SolendCpiSubstrate.pyth_oracle sub,
            SolendCpiSubstrate.switchboard_oracle sub, clock_sysvar sub] @
           (case SolendCpiSubstrate.extra_oracle sub of None \<Rightarrow> [] | Some e \<Rightarrow> [e])) w = Inr w1 \<and>
        invoke rt
          \<lparr>ix_program_id = SOLEND_PROGRAM_ID_MAINNET,
           ix_accounts = build_refresh_obligation_metas (expected_obligation ex) (map key deps),
           ix_data = [7]\<rparr>
          (SolendWithdrawAccounts.obligation a # deps) w1 = Inr w2 \<and>
        invoke rt
          (withdraw_instruction (solend_program sub) a deps (amount (SolendWithdrawShadowDecoded.delegated_ctoken d)))
          (withdraw_account_list a @ deps) w2 = Inr w')"
  (is "?try = Inr w' \<longleftrightarrow> (\<exists>d w1 w2. ?calls d w1 w2)")
proof -
  have keys: "key (solend_program sub) = SOLEND_PROGRAM_ID_MAINNET" "key (clock_sysvar sub) = sysvar_clock_id"
    "key (SolendWithdrawAccounts.reserve a) = expected_reserve ex"
    "key (SolendWithdrawAccounts.obligation a) = expected_obligation ex"
    if "phase1_spec w rec dw sub a ex d" for d
    using that by (simp_all add: phase1_spec_def shadow_spec_def)
  show ?thesis
    unfolding try_solend_cpi_skeleton_Inr by (auto simp: keys cpi_calls_Inr)
qed

text \<open>
  Outside the pinned demo tuple the orchestrator fails closed: it returns an error, the
  fail-closed oracle error once the first phase holds, and it never reaches a cross-program call,
  since its answer does not depend on what such a call would do.
\<close>

theorem cpi_fail_closed:
  assumes "\<not> demo_tuple_spec sub ex"
  shows "(\<exists>e. try_solend_cpi_skeleton rt rec dw sub a deps ex w = Inl e) \<and>
    try_solend_cpi_skeleton (rt\<lparr>invoke := other\<rparr>) rec dw sub a deps ex w =
      try_solend_cpi_skeleton rt rec dw sub a deps ex w \<and>
    ((\<exists>d. phase1_spec w rec dw sub a ex d) \<longrightarrow>
      try_solend_cpi_skeleton rt rec dw sub a deps ex w =
        Inl (authority_err SolendCpiSuccessPathBlockedByOracleValidation))"
proof -
  let ?blocked = "Inl (authority_err SolendCpiSuccessPathBlockedByOracleValidation)"
  have gate: "oracle_gate sub ex = ?blocked" using assms by (simp add: oracle_gate_eq)
  have "try_solend_cpi_skeleton rt rec dw sub a deps ex w = ?blocked" if "phase1_spec w rec dw sub a ex d" for d
  proof -
    have "shadow_spec w a rec ex d" using that by (simp add: phase1_spec_def)
    then have "read_live_ctoken_amount_or_fail_closed w (SolendWithdrawAccounts.delegated_ctoken a) rec
        (expected_ctoken_mint ex) = Inr (amount (SolendWithdrawShadowDecoded.delegated_ctoken d))"
      "validate_solend_withdraw_shadow_mapping w a rec ex = Inr d"
      "require_external_delegated_wallet_signer dw rec = Inr ()"
      "require_canonical_clock_sysvar (clock_sysvar sub) = Inr ()"
      "require_canonical_token_program (token_program a) = Inr ()"
      using that by (simp_all add: phase1_spec_def read_live_ctoken_Inr ok_simps)
        (simp_all add: shadow_spec_def)
    then show ?thesis using that by (simp add: try_solend_cpi_skeleton_def gate phase1_spec_def)
  qed
  moreover have "\<exists>e. try_solend_cpi_skeleton rt rec dw sub a deps ex w = Inl e"
    using assms try_solend_cpi_skeleton_Inr [of rt rec dw sub a deps ex w]
    by (cases "try_solend_cpi_skeleton rt rec dw sub a deps ex w") auto
  ultimately show ?thesis by (auto simp: try_solend_cpi_skeleton_def gate)
qed

text \<open>Whatever the three calls do, they leave the accounts of this program alone.\<close>

lemma cpi_foreign_change:
  assumes "invoke_law rt pid" and "pid \<noteq> SOLEND_PROGRAM_ID_MAINNET"
    and "try_solend_cpi_skeleton rt rec dw sub a deps ex w = Inr w'"
  shows "foreign_change pid (ledger w) (ledger w')"
proof -
  have law: "foreign_change pid (ledger v) (ledger v')"
    if "invoke rt ix infos v = Inr v'" "ix_program_id ix = SOLEND_PROGRAM_ID_MAINNET" for ix infos v v'
    using assms(1,2) that by (auto simp: invoke_law_def)
  from assms(3) obtain w1 w2 and d :: SolendWithdrawShadowDecoded where sp: "key (solend_program sub) = SOLEND_PROGRAM_ID_MAINNET"
    and "cpi_refresh_reserve rt (solend_program sub) (SolendWithdrawAccounts.reserve a)
          (SolendCpiSubstrate.pyth_oracle sub) (SolendCpiSubstrate.switchboard_oracle sub)
          (clock_sysvar sub) (SolendCpiSubstrate.extra_oracle sub) w = Inr w1"
      "cpi_refresh_obligation rt (solend_program sub) (SolendWithdrawAccounts.obligation a) deps w1 = Inr w2"
      "cpi_withdraw_obligation_collateral_and_redeem_reserve_collateral rt (solend_program sub) a deps
          (amount (SolendWithdrawShadowDecoded.delegated_ctoken d)) w2 = Inr w'"
    by (auto simp: try_solend_cpi_skeleton_Inr phase1_spec_def)
  then have "foreign_change pid (ledger w) (ledger w1)" "foreign_change pid (ledger w1) (ledger w2)"
    "foreign_change pid (ledger w2) (ledger w')"
    by (auto simp: cpi_calls_Inr withdraw_instruction_def intro: law)
  then show ?thesis by (blast intro: foreign_change_trans)
qed

end
