(* ===== verification/Authority_Program.thy ===== *)
theory Authority_Program
  imports Authority_Instruction Solend_Cpi_Builder
begin

text \<open>
  \<^verbatim>\<open>programs/clawsol-authority/src/lib.rs\<close>: the dispatcher and the processors of the authority
  program. Each processor is a function from the runtime, the program id, the account views and the
  arguments to a world transformer that may fail; a failing processor leaves the world as it was,
  which is how the runtime treats a failed instruction. \<open>process_execute_action\<close> is composed of the
  blocks of the source, in their order.
\<close>

section \<open>Create, revoke, close\<close>

definition process_create_authorization ::
  "'z authority_env_scheme \<Rightarrow> pubkey \<Rightarrow> account_info list \<Rightarrow> u8 \<Rightarrow> 128 word \<Rightarrow> pubkey \<Rightarrow> pubkey \<Rightarrow>
   256 word \<Rightarrow> u8 \<Rightarrow> u64 \<Rightarrow> pubkey \<Rightarrow> u64 \<Rightarrow> world \<Rightarrow> program_error + world" where
  "process_create_authorization rt pid accounts schema rule exec delegated rule_hash action max_in
     dest expiry w =
     (if schema \<noteq> STAGE2_AUTHORITY_SCHEMA_VERSION
      then Inl (authority_err UnsupportedSchemaVersion)
      else if Stage2ActionType_from_u8 action = None then Inl (authority_err InvalidActionType)
      else if max_in = 0 then Inl (authority_err InvalidZeroMaxAmount)
      else bindE (next_account_info accounts) (\<lambda>(user_account, it).
      bindE (next_account_info it) (\<lambda>(authz_pda_account, it).
      bindE (next_account_info it) (\<lambda>(system_program_account, it).
      if \<not> is_signer user_account then Inl (authority_err UserMustSign)
      else if key system_program_account \<noteq> system_program_ID then Inl IncorrectProgramId
      else bindE (clock_get rt) (\<lambda>clk.
      if slot clk \<ge> expiry then Inl (authority_err AuthorizationExpired)
      else let (expected_pda, bump) =
             find_program_address rt [AUTHZ_SEED_PREFIX, [schema], array_bytes (key user_account),
               array_bytes rule] pid
      in if expected_pda \<noteq> key authz_pda_account then Inl (authority_err InvalidPda)
      else bindE (rent_get rt) (\<lambda>minimum_balance.
      let lam = minimum_balance AuthorizationRecord_LEN;
          create_ix = create_account rt (key user_account) (key authz_pda_account) lam
            (of_nat AuthorizationRecord_LEN) pid;
          signer_seeds = [AUTHZ_SEED_PREFIX, [schema], array_bytes (key user_account),
            array_bytes rule, [bump]]
      in bindE (invoke_signed rt create_ix
           [user_account, authz_pda_account, system_program_account] [signer_seeds] w) (\<lambda>w.
      bindE (serialize_account (authz_codec rt)
        \<lparr>AuthorizationRecord.schema_version = schema, rule_id = rule, user = key user_account,
         executor = exec, delegated_wallet = delegated, canonical_rule_hash = rule_hash,
         allowed_action_type = action, max_input_amount_raw = max_in, used_amount_raw = 0,
         destination = dest, expires_at_slot = expiry, revoked = False, completed = False,
         execution_nonce = 0, last_execution_slot = 0, bump = bump\<rparr> (key authz_pda_account) w) (\<lambda>w.
      Inr (sol_log_data
        [byte_literal ''authz_created_v1'', array_bytes rule, array_bytes (key user_account),
         array_bytes exec, array_bytes delegated, [action], array_bytes rule_hash,
         to_le_bytes max_in, to_le_bytes expiry, to_le_bytes (slot clk)] w)))))))))"

definition process_revoke ::
  "'z authority_env_scheme \<Rightarrow> pubkey \<Rightarrow> account_info list \<Rightarrow> world \<Rightarrow> program_error + world" where
  "process_revoke rt pid accounts w =
     bindE (next_account_info accounts) (\<lambda>(user_account, it).
     bindE (next_account_info it) (\<lambda>(authz_pda_account, it).
     if \<not> is_signer user_account then Inl (authority_err UserMustSign)
     else if account.owner (account_of w authz_pda_account) \<noteq> pid then Inl IncorrectProgramId
     else bindE (read_account (authz_codec rt) (key authz_pda_account) w) (\<lambda>rec.
     if user rec \<noteq> key user_account then Inl (authority_err RevokeWrongUser)
     else let (expected_pda, _) =
            find_program_address rt [AUTHZ_SEED_PREFIX, [AuthorizationRecord.schema_version rec],
              array_bytes (user rec), array_bytes (rule_id rec)] pid
     in if expected_pda \<noteq> key authz_pda_account then Inl (authority_err InvalidPda)
     else if revoked rec then Inr w
     else bindE (serialize_account (authz_codec rt) (rec\<lparr>revoked := True\<rparr>) (key authz_pda_account) w) (\<lambda>w.
     bindE (clock_get rt) (\<lambda>clk.
     Inr (sol_log_data
       [byte_literal ''authz_revoked_v1'', array_bytes (rule_id rec), array_bytes (user rec),
        to_le_bytes (slot clk)] w))))))"

definition process_close_authorization ::
  "'z authority_env_scheme \<Rightarrow> pubkey \<Rightarrow> account_info list \<Rightarrow> world \<Rightarrow> program_error + world" where
  "process_close_authorization rt pid accounts w =
     bindE (next_account_info accounts) (\<lambda>(user_account, it).
     bindE (next_account_info it) (\<lambda>(authz_pda_account, it).
     if \<not> is_signer user_account then Inl (authority_err UserMustSign)
     else if account.owner (account_of w authz_pda_account) \<noteq> pid then Inl IncorrectProgramId
     else bindE (read_account (authz_codec rt) (key authz_pda_account) w) (\<lambda>rec.
     if user rec \<noteq> key user_account then Inl (authority_err CloseWrongUser)
     else bindE (clock_get rt) (\<lambda>clk.
     let is_expired = (slot clk \<ge> expires_at_slot rec) in
     if \<not> revoked rec \<and> \<not> completed rec \<and> \<not> is_expired then Inl (authority_err NotCloseable)
     else let (expected_pda, _) =
            find_program_address rt [AUTHZ_SEED_PREFIX, [AuthorizationRecord.schema_version rec],
              array_bytes (user rec), array_bytes (rule_id rec)] pid
     in if expected_pda \<noteq> key authz_pda_account then Inl (authority_err InvalidPda)
     else let pda_lamports = lamports (account_of w authz_pda_account) in
     bindE (ok_or (checked_add (lamports (account_of w user_account)) pda_lamports) ArithmeticOverflow)
       (\<lambda>new_user_lamports.
     let w = update_account (key user_account) (\<lambda>a. a\<lparr>lamports := new_user_lamports\<rparr>) w;
         w = update_account (key authz_pda_account) (\<lambda>a. a\<lparr>lamports := 0\<rparr>) w;
         w = update_account (key authz_pda_account) (\<lambda>a. a\<lparr>account.owner := system_program_ID\<rparr>) w
     in bindE (map_err (\<lambda>_. InvalidAccountData)
          (realloc rt (data (ledger w (key authz_pda_account))) 0)) (\<lambda>bs.
     Inr (sol_log_data
       [byte_literal ''authz_closed_v1'', array_bytes (rule_id rec), array_bytes (user rec),
        to_le_bytes (slot clk)] (write_data (key authz_pda_account) bs w))))))))"

section \<open>Execute\<close>

primrec map_verifier_error_to_authority_error :: "VerifierError \<Rightarrow> program_error" where
  "map_verifier_error_to_authority_error VerifierError.PythFeedIdMismatch =
     authority_err AuthorityError.PythFeedIdMismatch"
| "map_verifier_error_to_authority_error PythPriceTooOld = authority_err PythSnapshotStale"
| "map_verifier_error_to_authority_error VerifierError.PythVerificationLevelInsufficient =
     authority_err AuthorityError.PythVerificationLevelInsufficient"
| "map_verifier_error_to_authority_error VerifierError.PythConfidenceTooWide =
     authority_err AuthorityError.PythConfidenceTooWide"
| "map_verifier_error_to_authority_error VerifierError.SolendFormulaVersionUnsupported =
     authority_err AuthorityError.SolendFormulaVersionUnsupported"
| "map_verifier_error_to_authority_error VerifierError.SolendReserveStale =
     authority_err AuthorityError.SolendReserveStale"
| "map_verifier_error_to_authority_error PythExponentOutOfRange = authority_err ConditionVerificationFailed"
| "map_verifier_error_to_authority_error PythComputeOverflow = authority_err ConditionVerificationFailed"
| "map_verifier_error_to_authority_error BoundDirectionMismatch = authority_err ConditionVerificationFailed"
| "map_verifier_error_to_authority_error UnsupportedComparison = authority_err ConditionVerificationFailed"
| "map_verifier_error_to_authority_error UnsupportedRateKind = authority_err ConditionVerificationFailed"
| "map_verifier_error_to_authority_error SolendInvalidReserveConfig = authority_err ConditionVerificationFailed"
| "map_verifier_error_to_authority_error SolendComputeOverflow = authority_err ConditionVerificationFailed"
| "map_verifier_error_to_authority_error SolendThresholdOverflow = authority_err ConditionVerificationFailed"

text \<open>Checks 4 to 9: the record against the arguments.\<close>

definition execute_record_checks ::
  "AuthorizationRecord \<Rightarrow> u8 \<Rightarrow> 128 word \<Rightarrow> pubkey \<Rightarrow> pubkey \<Rightarrow> 256 word \<Rightarrow> u8 \<Rightarrow> program_error + unit" where
  "execute_record_checks rec schema rule usr exec rule_hash action =
     (if AuthorizationRecord.schema_version rec \<noteq> schema
      then Inl (authority_err UnsupportedSchemaVersion)
      else if rule_id rec \<noteq> rule then Inl (authority_err InvalidAuthorizationPda)
      else if user rec \<noteq> usr then Inl (authority_err AuthorizationUserMismatch)
      else if executor rec \<noteq> exec then Inl (authority_err ExecutorMismatch)
      else if canonical_rule_hash rec \<noteq> rule_hash then Inl (authority_err RuleHashMismatch)
      else if allowed_action_type rec \<noteq> action then Inl (authority_err ActionTypeMismatch)
      else Inr ())"

text \<open>Checks 10 to 12: expiry, revoked, completed.\<close>

definition execute_lifecycle_checks :: "AuthorizationRecord \<Rightarrow> clock \<Rightarrow> program_error + unit" where
  "execute_lifecycle_checks rec clk =
     (if slot clk \<ge> expires_at_slot rec then Inl (authority_err AuthorizationExpired)
      else if revoked rec then Inl (authority_err AuthorizationRevoked)
      else if completed rec then Inl (authority_err AuthorizationCompleted)
      else Inr ())"

text \<open>Checks 13 to 16: amount, cap, nonce and same-slot replay; the result is the new used amount.\<close>

definition execute_cap_checks ::
  "AuthorizationRecord \<Rightarrow> clock \<Rightarrow> u64 \<Rightarrow> u64 \<Rightarrow> program_error + u64" where
  "execute_cap_checks rec clk amt nonce =
     (if amt = 0 then Inl (authority_err InputAmountZero)
      else bindE (ok_or (checked_add (used_amount_raw rec) amt) (authority_err InputAmountExceeded))
        (\<lambda>new_used.
      if new_used > max_input_amount_raw rec then Inl (authority_err InputAmountExceeded)
      else bindE (ok_or (checked_add (AuthorizationRecord.execution_nonce rec) 1)
        (authority_err ExecutionNonceMismatch)) (\<lambda>expected_next_nonce.
      if nonce \<noteq> expected_next_nonce then Inl (authority_err ExecutionNonceMismatch)
      else if last_execution_slot rec \<noteq> 0 \<and> slot clk = last_execution_slot rec
      then Inl (authority_err SameSlotReplay)
      else Inr new_used)))"

primrec proof_condition_operands :: "clock \<Rightarrow> ProofCondition \<Rightarrow> EvalCondition \<times> EvalSnapshot" where
  "proof_condition_operands clk (ProofCondition_Pyth c s) =
     (EvalCondition_Pyth c, EvalSnapshot_Pyth s \<lparr>current_unix_time = unix_timestamp clk\<rparr>)"
| "proof_condition_operands clk (ProofCondition_Solend c s) =
     (EvalCondition_Solend c, EvalSnapshot_Solend s \<lparr>current_slot = slot clk\<rparr>)"

definition evaluate_proof_condition :: "clock \<Rightarrow> ProofCondition \<Rightarrow> program_error + bool" where
  "evaluate_proof_condition clk pc =
     (let (eval_cond, eval_snap) = proof_condition_operands clk pc
      in map_err map_verifier_error_to_authority_error (evaluate_condition eval_cond eval_snap))"

definition condition_gate :: "clock \<Rightarrow> ConditionProofPayload \<Rightarrow> program_error + unit" where
  "condition_gate clk prf =
     (if conditions prf = [] then Inl (authority_err MissingConditionProof)
      else if length (conditions prf) > MAX_PROOF_CONDITIONS
      then Inl (authority_err ConditionCountMismatch)
      else bindE (foldE (\<lambda>results pc. bindE (evaluate_proof_condition clk pc) (\<lambda>outcome.
             Inr (results @ [outcome]))) [] (conditions prf)) (\<lambda>results.
      if \<not> evaluate_condition_logic (condition_logic prf) results
      then Inl (authority_err ConditionNotMet) else Inr ()))"

definition boundary_gates ::
  "AuthorizationRecord \<Rightarrow> SolendBoundaryProof option \<Rightarrow> JupiterBoundaryProof option \<Rightarrow> program_error + unit" where
  "boundary_gates rec sproof jproof =
     bindE (if allowed_action_type rec = Stage2ActionType_to_u8 SolendWithdrawAllDelegated
            then bindE (ok_or sproof (authority_err SolendBoundaryProofMissing)) (\<lambda>prf.
              verify_solend_delegated_boundary rec prf)
            else Inr ()) (\<lambda>_.
     if allowed_action_type rec = Stage2ActionType_to_u8 JupiterBuySolWithUsdc
     then bindE (ok_or jproof (authority_err JupiterBoundaryProofMissing)) (\<lambda>prf.
       verify_jupiter_boundary_skeleton rec prf)
     else Inr ())"

definition P5B2_MIN_ACCOUNTS :: nat where
  "P5B2_MIN_ACCOUNTS = 4 + WITHDRAW_BASE_ACCOUNTS_LEN + 4 + 1"

text \<open>The length-gated Solend call block.\<close>

definition solend_cpi_block ::
  "'z runtime_scheme \<Rightarrow> AuthorizationRecord \<Rightarrow> account_info \<Rightarrow> account_info list \<Rightarrow>
   SolendBoundaryProof option \<Rightarrow> world \<Rightarrow> program_error + world" where
  "solend_cpi_block rt rec delegated_wallet_account accounts sproof w =
     (if allowed_action_type rec = Stage2ActionType_to_u8 SolendWithdrawAllDelegated \<and>
         length accounts \<ge> P5B2_MIN_ACCOUNTS
      then bindE (SolendWithdrawAccounts_parse (take WITHDRAW_BASE_ACCOUNTS_LEN (drop 4 accounts)))
        (\<lambda>withdraw_accounts.
      let sub = \<lparr>solend_program = accounts ! (4 + WITHDRAW_BASE_ACCOUNTS_LEN),
                 pyth_oracle = accounts ! (4 + WITHDRAW_BASE_ACCOUNTS_LEN + 1),
                 switchboard_oracle = accounts ! (4 + WITHDRAW_BASE_ACCOUNTS_LEN + 2),
                 clock_sysvar = accounts ! (4 + WITHDRAW_BASE_ACCOUNTS_LEN + 3),
                 extra_oracle = None\<rparr>;
          deposit_reserves = drop (4 + WITHDRAW_BASE_ACCOUNTS_LEN + 4) accounts
      in bindE (ok_or sproof (authority_err SolendBoundaryProofMissing)) (\<lambda>solend_proof.
      if account.owner (account_of w (SolendWithdrawAccounts.destination withdraw_accounts)) \<noteq>
         SPL_TOKEN_PROGRAM_ID
      then Inl (authority_err SolendTokenAccountOwnerMismatch)
      else bindE (decode_spl_token_account_lite
        (data (account_of w (SolendWithdrawAccounts.destination withdraw_accounts)))) (\<lambda>decoded.
      try_solend_cpi_skeleton rt rec delegated_wallet_account sub withdraw_accounts deposit_reserves
        \<lparr>SolendWithdrawShadowExpectations.solend_program_id = SolendBoundaryProof.solend_program_id solend_proof,
         expected_obligation = obligation_pubkey solend_proof,
         expected_reserve = reserve_pubkey solend_proof,
         expected_lending_market = lending_market_pubkey solend_proof,
         expected_ctoken_mint = key (reserve_collateral_mint withdraw_accounts),
         expected_liquidity_mint = DecodedSplTokenAccountLite.mint decoded\<rparr> w)))
      else Inr w)"

definition process_execute_action ::
  "'z authority_env_scheme \<Rightarrow> pubkey \<Rightarrow> account_info list \<Rightarrow> u8 \<Rightarrow> 128 word \<Rightarrow> 256 word \<Rightarrow> u8 \<Rightarrow>
   u64 \<Rightarrow> u64 \<Rightarrow> ConditionProofPayload \<Rightarrow> SolendBoundaryProof option \<Rightarrow> JupiterBoundaryProof option \<Rightarrow>
   world \<Rightarrow> program_error + world" where
  "process_execute_action rt pid accounts schema rule rule_hash action amt nonce cproof sproof jproof w =
     bindE (next_account_info accounts) (\<lambda>(executor_account, it).
     bindE (next_account_info it) (\<lambda>(authz_pda_account, it).
     bindE (next_account_info it) (\<lambda>(user_account, it).
     bindE (next_account_info it) (\<lambda>(delegated_wallet_account, it).
     if \<not> is_signer executor_account then Inl (authority_err MissingExecutorSignature)
     else if account.owner (account_of w authz_pda_account) \<noteq> pid
     then Inl (authority_err AuthorizationOwnerMismatch)
     else let (expected_pda, _) =
            find_program_address rt [AUTHZ_SEED_PREFIX, [schema], array_bytes (key user_account),
              array_bytes rule] pid
     in if expected_pda \<noteq> key authz_pda_account then Inl (authority_err InvalidAuthorizationPda)
     else bindE (read_account (authz_codec rt) (key authz_pda_account) w) (\<lambda>rec.
     bindE (execute_record_checks rec schema rule (key user_account) (key executor_account)
       rule_hash action) (\<lambda>_.
     bindE (clock_get rt) (\<lambda>clk.
     bindE (execute_lifecycle_checks rec clk) (\<lambda>_.
     bindE (execute_cap_checks rec clk amt nonce) (\<lambda>new_used.
     bindE (condition_gate clk cproof) (\<lambda>_.
     bindE (boundary_gates rec sproof jproof) (\<lambda>_.
     bindE (solend_cpi_block rt rec delegated_wallet_account accounts sproof w) (\<lambda>w.
     let rec = rec\<lparr>used_amount_raw := new_used, completed := True,
                  AuthorizationRecord.execution_nonce := nonce, last_execution_slot := slot clk\<rparr>
     in bindE (serialize_account (authz_codec rt) rec (key authz_pda_account) w) (\<lambda>w.
     Inr (sol_log_data
       [byte_literal ''authz_executed_v1'', array_bytes rule, array_bytes (user rec),
        array_bytes (executor rec), [allowed_action_type rec], to_le_bytes amt,
        to_le_bytes (used_amount_raw rec), to_le_bytes nonce, to_le_bytes (slot clk)] w))))))))))))))"

section \<open>Dispatch\<close>

definition process_instruction ::
  "'z authority_runtime_scheme \<Rightarrow> pubkey \<Rightarrow> account_info list \<Rightarrow> u8 list \<Rightarrow> world \<Rightarrow> program_error + world" where
  "process_instruction rt pid accounts instruction_data w =
     bindE (ok_or (try_from_slice (instruction_codec rt) instruction_data) InvalidInstructionData)
       (\<lambda>ix. case ix of
         CreateAuthorization schema rule exec delegated rule_hash action max_in dest expiry \<Rightarrow>
           process_create_authorization rt pid accounts schema rule exec delegated rule_hash action
             max_in dest expiry w
       | Revoke \<Rightarrow> process_revoke rt pid accounts w
       | CloseAuthorization \<Rightarrow> process_close_authorization rt pid accounts w
       | ExecuteAction schema rule rule_hash action amt nonce cproof sproof jproof \<Rightarrow>
           process_execute_action rt pid accounts schema rule rule_hash action amt nonce cproof
             sproof jproof w
       | PreJupiterBracketCheck prf \<Rightarrow> process_pre_jupiter_bracket_check rt pid accounts prf w
       | PostJupiterBracketCheck prf \<Rightarrow> process_post_jupiter_bracket_check rt pid accounts prf w)"

end
