(* ===== verification/Authority_Effects.thy ===== *)
theory Authority_Effects
  imports Authority_Program
begin

text \<open>
  What the handlers of \<^verbatim>\<open>lib.rs\<close> accept and what they write. Every successful run is first taken
  apart into its checks and its effect on the ledger; the properties of single instructions
  (what an execution requires, who can change an authorization, what closing pays out) follow from
  these lemmas, and the run-level properties of the lifecycle build on them.
\<close>

section \<open>The platform a handler relies on\<close>

text \<open>
  The behaviour of the runtime and of the derived Borsh code that the theorems use: the system
  program's \<open>create_account\<close>, the write permissions of other programs, \<open>realloc\<close>, and lossless
  fixed-length record encodings.
\<close>

definition realloc_law :: "'z runtime_scheme \<Rightarrow> bool" where
  "realloc_law rt \<longleftrightarrow> (\<forall>bs n bs'. realloc rt bs n = Inr bs' \<longrightarrow> length bs' = n)"

definition platform_laws :: "'z authority_env_scheme \<Rightarrow> pubkey \<Rightarrow> bool" where
  "platform_laws rt pid \<longleftrightarrow>
     create_account_law rt \<and> invoke_law rt pid \<and> realloc_law rt \<and>
     pid \<noteq> SOLEND_PROGRAM_ID_MAINNET \<and>
     borsh_fixed (authz_codec rt) AuthorizationRecord_LEN \<and>
     borsh_fixed (checkpoint_codec rt) JupiterBracketCheckpoint_LEN"

lemma platform_lawsD:
  assumes "platform_laws rt pid"
  shows "create_account_law rt" "invoke_law rt pid" "realloc_law rt" "pid \<noteq> SOLEND_PROGRAM_ID_MAINNET"
    "borsh_fixed (authz_codec rt) AuthorizationRecord_LEN"
    "borsh_fixed (checkpoint_codec rt) JupiterBracketCheckpoint_LEN"
  using assms by (simp_all add: platform_laws_def)

section \<open>The gates of an execution as predicates\<close>

definition proof_condition_true :: "clock \<Rightarrow> ProofCondition \<Rightarrow> bool" where
  "proof_condition_true clk pc \<longleftrightarrow> evaluate_proof_condition clk pc = Inr True"

definition conditions_hold :: "clock \<Rightarrow> ConditionProofPayload \<Rightarrow> bool" where
  "conditions_hold clk prf \<longleftrightarrow>
     0 < length (conditions prf) \<and> length (conditions prf) \<le> 8 \<and>
     (\<forall>pc \<in> set (conditions prf). is_ok (evaluate_proof_condition clk pc)) \<and>
     (case condition_logic prf of
        All_logic \<Rightarrow> \<forall>pc \<in> set (conditions prf). proof_condition_true clk pc
      | Any_logic \<Rightarrow> \<exists>pc \<in> set (conditions prf). proof_condition_true clk pc)"

definition boundaries_hold ::
  "AuthorizationRecord \<Rightarrow> SolendBoundaryProof option \<Rightarrow> JupiterBoundaryProof option \<Rightarrow> bool" where
  "boundaries_hold rec sproof jproof \<longleftrightarrow>
     (allowed_action_type rec = 1 \<longrightarrow> (\<exists>prf. sproof = Some prf \<and> solend_boundary_spec rec prf)) \<and>
     (allowed_action_type rec = 2 \<longrightarrow> (\<exists>prf. jproof = Some prf \<and> jupiter_boundary_spec rec prf))"

definition record_matches ::
  "AuthorizationRecord \<Rightarrow> u8 \<Rightarrow> 128 word \<Rightarrow> pubkey \<Rightarrow> pubkey \<Rightarrow> 256 word \<Rightarrow> u8 \<Rightarrow> bool" where
  "record_matches rec schema rule usr exec rule_hash action \<longleftrightarrow>
     AuthorizationRecord.schema_version rec = schema \<and> rule_id rec = rule \<and> user rec = usr \<and>
     executor rec = exec \<and> canonical_rule_hash rec = rule_hash \<and> allowed_action_type rec = action"

definition spendable :: "AuthorizationRecord \<Rightarrow> clock \<Rightarrow> u64 \<Rightarrow> u64 \<Rightarrow> bool" where
  "spendable rec clk amt nonce \<longleftrightarrow>
     slot clk < expires_at_slot rec \<and> \<not> revoked rec \<and> \<not> completed rec \<and> 0 < amt \<and>
     unat (used_amount_raw rec) + unat amt \<le> unat (max_input_amount_raw rec) \<and>
     unat nonce = unat (AuthorizationRecord.execution_nonce rec) + 1 \<and>
     (last_execution_slot rec = 0 \<or> last_execution_slot rec \<noteq> slot clk)"

definition executed :: "AuthorizationRecord \<Rightarrow> clock \<Rightarrow> u64 \<Rightarrow> u64 \<Rightarrow> AuthorizationRecord" where
  "executed rec clk amt nonce =
     rec\<lparr>used_amount_raw := used_amount_raw rec + amt, completed := True,
        AuthorizationRecord.execution_nonce := nonce, last_execution_slot := slot clk\<rparr>"

lemma execute_record_checks_Inr [ok_simps]:
  "execute_record_checks rec schema rule usr exec rule_hash action = Inr u \<longleftrightarrow>
     record_matches rec schema rule usr exec rule_hash action"
  by (simp add: execute_record_checks_def record_matches_def)

lemma checked_cap:
  "checked_add a b = Some c \<and> \<not> m < c \<longleftrightarrow> c = a + b \<and> unat a + unat b \<le> unat m"
  for a b c m :: "'a::len word"
proof -
  have "unat a + unat b < 2 ^ LENGTH('a)" if "unat a + unat b \<le> unat m"
    using that unat_less_exp [of m] by (rule le_less_trans)
  then show ?thesis
    by (auto simp: checked_add_def not_less word_le_nat_alt unat_word_ariths split: if_splits)
qed

lemma execute_caps_Inr:
  "(execute_lifecycle_checks rec clk = Inr u \<and> execute_cap_checks rec clk amt nonce = Inr new) \<longleftrightarrow>
     spendable rec clk amt nonce \<and> new = used_amount_raw rec + amt"
proof -
  have "execute_cap_checks rec clk amt nonce = Inr new \<longleftrightarrow>
      amt \<noteq> 0 \<and> (checked_add (used_amount_raw rec) amt = Some new \<and> \<not> max_input_amount_raw rec < new) \<and>
      checked_add (AuthorizationRecord.execution_nonce rec) 1 = Some nonce \<and>
      \<not> (last_execution_slot rec \<noteq> 0 \<and> slot clk = last_execution_slot rec)"
    by (auto simp: execute_cap_checks_def ok_simps)
  then show ?thesis
    unfolding checked_cap
    by (auto simp: spendable_def execute_lifecycle_checks_def checked_add_Some word_neq_0_conv not_le)
qed

lemma foldE_collect:
  "foldE (\<lambda>rs x. bindE (g x) (\<lambda>r. Inr (rs @ [r]))) acc xs = Inr rs \<longleftrightarrow>
     (\<forall>x \<in> set xs. is_ok (g x)) \<and> rs = acc @ map (\<lambda>x. projr (g x)) xs"
proof (induction xs arbitrary: acc)
  case (Cons x xs)
  show ?case by (cases "g x") (auto simp: Cons.IH)
qed auto

lemma projr_true: "is_ok r \<Longrightarrow> projr r = True \<longleftrightarrow> r = Inr True"
  by (cases r) auto

lemma condition_gate_Inr [ok_simps]:
  "condition_gate clk prf = Inr u \<longleftrightarrow> conditions_hold clk prf"
proof -
  have "evaluate_condition_logic (condition_logic prf)
        (map (\<lambda>pc. projr (evaluate_proof_condition clk pc)) (conditions prf)) \<longleftrightarrow>
      (case condition_logic prf of
        All_logic \<Rightarrow> \<forall>pc \<in> set (conditions prf). proof_condition_true clk pc
      | Any_logic \<Rightarrow> \<exists>pc \<in> set (conditions prf). proof_condition_true clk pc)"
    if ok: "\<forall>pc \<in> set (conditions prf). is_ok (evaluate_proof_condition clk pc)"
    using ok projr_true
    by (cases "condition_logic prf") (auto simp: list_all_iff list_ex_iff proof_condition_true_def)
  then show ?thesis
    by (auto simp: condition_gate_def conditions_hold_def ok_simps foldE_collect MAX_PROOF_CONDITIONS_def)
qed

lemma boundary_gates_Inr [ok_simps]:
  "boundary_gates rec sproof jproof = Inr u \<longleftrightarrow> boundaries_hold rec sproof jproof"
  by (auto simp: boundary_gates_def boundaries_hold_def ok_simps)

section \<open>Execution\<close>

lemma solend_cpi_block_foreign:
  assumes "platform_laws rt pid" and "solend_cpi_block rt rec dw accounts sproof w = Inr w'"
  shows "foreign_change pid (ledger w) (ledger w')"
  using assms(2) cpi_foreign_change [OF platform_lawsD(2,4) [OF assms(1)]]
  by (auto simp: solend_cpi_block_def Let_def bindE_Inr foreign_change_refl split: if_splits)

definition execution_spec ::
  "'z authority_env_scheme \<Rightarrow> pubkey \<Rightarrow> account_info list \<Rightarrow> u8 \<Rightarrow> 128 word \<Rightarrow> 256 word \<Rightarrow> u8 \<Rightarrow>
   u64 \<Rightarrow> u64 \<Rightarrow> ConditionProofPayload \<Rightarrow> SolendBoundaryProof option \<Rightarrow> JupiterBoundaryProof option \<Rightarrow>
   world \<Rightarrow> world \<Rightarrow> account_info \<Rightarrow> AuthorizationRecord \<Rightarrow> clock \<Rightarrow> world \<Rightarrow> bool" where
  "execution_spec rt pid accounts schema rule rule_hash action amt nonce cproof sproof jproof w w' az rec clk w1 \<longleftrightarrow>
     (\<exists>ex us dw rest. accounts = ex # az # us # dw # rest \<and> is_signer ex \<and>
        account.owner (ledger w (key az)) = pid \<and>
        fst (derive_authorization_pda rt pid schema (key us) rule) = key az \<and>
        try_from_slice (authz_codec rt) (data (ledger w (key az))) = Some rec \<and>
        record_matches rec schema rule (key us) (key ex) rule_hash action \<and>
        clock_get rt = Inr clk \<and> spendable rec clk amt nonce \<and> conditions_hold clk cproof \<and>
        boundaries_hold rec sproof jproof \<and>
        solend_cpi_block rt rec dw accounts sproof w = Inr w1 \<and>
        w' = sol_log_data
          [byte_literal ''authz_executed_v1'', array_bytes rule, array_bytes (user rec),
           array_bytes (executor rec), [allowed_action_type rec], to_le_bytes amt,
           to_le_bytes (used_amount_raw rec + amt), to_le_bytes nonce, to_le_bytes (slot clk)]
          (write_data (key az) (to_bytes (authz_codec rt) (executed rec clk amt nonce)) w1))"

lemma execute_Inr:
  assumes laws: "platform_laws rt pid"
  shows "process_execute_action rt pid accounts schema rule rule_hash action amt nonce cproof sproof jproof w =
      Inr w' \<longleftrightarrow>
    (\<exists>az rec clk w1. execution_spec rt pid accounts schema rule rule_hash action amt nonce cproof sproof
       jproof w w' az rec clk w1)"
proof -
  have ser: "serialize_account (authz_codec rt) r k w1 = Inr (write_data k (to_bytes (authz_codec rt) r) w1)"
    if "try_from_slice (authz_codec rt) (data (ledger w k)) = Some rec" "account.owner (ledger w k) = pid"
      "solend_cpi_block rt rec dw accounts sproof w = Inr w1" for r rec k dw w1
  proof -
    have "data (ledger w1 k) = data (ledger w k)"
      using foreign_change_own [OF solend_cpi_block_foreign [OF laws that(3)] that(2)] by simp
    with that(1) show ?thesis by (simp add: borsh_fixed.serialize_account_over [OF platform_lawsD(5) [OF laws]])
  qed
  show ?thesis
  proof (intro iffI; (elim exE)?)
    assume run: "process_execute_action rt pid accounts schema rule rule_hash action amt nonce cproof
      sproof jproof w = Inr w'"
    show "\<exists>az rec clk w1. execution_spec rt pid accounts schema rule rule_hash action amt nonce cproof
      sproof jproof w w' az rec clk w1"
      using run [unfolded process_execute_action_def Let_def]
    proof (elim success_elims, goal_cases)
      case (1 p ex it1 p1 az it2 p2 us it3 p3 dw rest q bu rec u1 clk u2 new u3 u4 w1 w2)
      have caps: "spendable rec clk amt nonce" "new = used_amount_raw rec + amt"
        using 1 execute_caps_Inr by blast+
      have "execution_spec rt pid accounts schema rule rule_hash action amt nonce cproof
        sproof jproof w w' az rec clk w1"
        using 1 caps unfolding execution_spec_def
        by (auto simp: ok_simps account_of_def derive_authorization_pda_def authorization_seeds_def
            executed_def ser)
      then show ?case by blast
    qed
  next
    fix az rec clk w1
    assume "execution_spec rt pid accounts schema rule rule_hash action amt nonce cproof
      sproof jproof w w' az rec clk w1"
    then obtain ex us dw rest where spec: "accounts = ex # az # us # dw # rest" "is_signer ex"
        "account.owner (ledger w (key az)) = pid"
        "fst (find_program_address rt [AUTHZ_SEED_PREFIX, [schema], array_bytes (key us), array_bytes rule]
           pid) = key az"
        "read_account (authz_codec rt) (key az) w = Inr rec"
        "execute_record_checks rec schema rule (key us) (key ex) rule_hash action = Inr ()"
        "clock_get rt = Inr clk" "condition_gate clk cproof = Inr ()"
        "boundary_gates rec sproof jproof = Inr ()"
      and caps: "spendable rec clk amt nonce"
      and cpi: "solend_cpi_block rt rec dw accounts sproof w = Inr w1"
      and w': "w' = sol_log_data
          [byte_literal ''authz_executed_v1'', array_bytes rule, array_bytes (user rec),
           array_bytes (executor rec), [allowed_action_type rec], to_le_bytes amt,
           to_le_bytes (used_amount_raw rec + amt), to_le_bytes nonce, to_le_bytes (slot clk)]
          (write_data (key az) (to_bytes (authz_codec rt) (executed rec clk amt nonce)) w1)"
      by (auto simp: execution_spec_def ok_simps derive_authorization_pda_def authorization_seeds_def)
    have checks: "execute_lifecycle_checks rec clk = Inr ()"
        "execute_cap_checks rec clk amt nonce = Inr (used_amount_raw rec + amt)"
      using caps execute_caps_Inr by blast+
    show "process_execute_action rt pid accounts schema rule rule_hash action amt nonce cproof sproof
        jproof w = Inr w'"
      using spec(2-) checks cpi ser [OF _ spec(3) cpi] unfolding w' spec(1)
      by (simp add: process_execute_action_def case_prod_unfold account_of_def Let_def executed_def
          read_account_def ok_or_Inr)
  qed
qed

lemma execution_spec_foreign:
  assumes "platform_laws rt pid"
    and "execution_spec rt pid accounts schema rule rule_hash action amt nonce cproof sproof jproof w w' az rec clk w1"
  shows "foreign_change pid (ledger w) (ledger w1)"
  using assms(2) solend_cpi_block_foreign [OF assms(1)] unfolding execution_spec_def by blast

section \<open>Creation\<close>

definition fresh_authorization ::
  "u8 \<Rightarrow> 128 word \<Rightarrow> pubkey \<Rightarrow> pubkey \<Rightarrow> pubkey \<Rightarrow> 256 word \<Rightarrow> u8 \<Rightarrow> u64 \<Rightarrow> pubkey \<Rightarrow> u64 \<Rightarrow> u8 \<Rightarrow>
   AuthorizationRecord" where
  "fresh_authorization schema rule usr exec delegated rule_hash action max_in dest expiry bu =
     \<lparr>AuthorizationRecord.schema_version = schema, rule_id = rule, user = usr, executor = exec,
      delegated_wallet = delegated, canonical_rule_hash = rule_hash, allowed_action_type = action,
      max_input_amount_raw = max_in, used_amount_raw = 0, destination = dest, expires_at_slot = expiry,
      revoked = False, completed = False, execution_nonce = 0, last_execution_slot = 0, bump = bu\<rparr>"

lemma create_effect:
  assumes laws: "platform_laws rt pid"
    and run: "process_create_authorization rt pid accounts schema rule exec delegated rule_hash action
      max_in dest expiry w = Inr w'"
  obtains us az sy rest clk lam bu where
    "accounts = us # az # sy # rest" "is_signer us" "schema = 1" "action = 1 \<or> action = 2" "0 < max_in"
    "clock_get rt = Inr clk" "slot clk < expiry"
    "derive_authorization_pda rt pid schema (key us) rule = (key az, bu)"
    "unused_account (ledger w (key az))"
    "ledger w' = (ledger w)
       (key us := (ledger w (key us))\<lparr>lamports := lamports (ledger w (key us)) - lam\<rparr>,
        key az := \<lparr>lamports = lam, data = to_bytes (authz_codec rt)
          (fresh_authorization schema rule (key us) exec delegated rule_hash action max_in dest expiry bu),
          account.owner = pid\<rparr>)"
    "logs w' = logs w @ [[byte_literal ''authz_created_v1'', array_bytes rule, array_bytes (key us),
         array_bytes exec, array_bytes delegated, [action], array_bytes rule_hash,
         to_le_bytes max_in, to_le_bytes expiry, to_le_bytes (slot clk)]]"
proof -
  from run [unfolded process_create_authorization_def Let_def] show thesis
  proof (elim success_elims, goal_cases)
    case (1 p us it1 p1 az it2 p2 sy rest clk q bu mb w1 w2)
    note cr = create_account_effect [OF platform_lawsD(1) [OF laws] 1(17)]
    have "data (ledger w1 (key az)) = replicate AuthorizationRecord_LEN 0"
      by (simp add: cr(2) AuthorizationRecord_LEN_def)
    from borsh_fixed.serialize_account_new [OF platform_lawsD(5) [OF laws] this]
    show thesis
      using 1 cr
      by (intro that [of us az sy rest clk bu "mb AuthorizationRecord_LEN"])
        (auto simp: ok_simps from_u8_None derive_authorization_pda_def authorization_seeds_def
          STAGE2_AUTHORITY_SCHEMA_VERSION_def fresh_authorization_def word_neq_0_conv not_le)
  qed
qed

section \<open>Revocation\<close>

lemma revoke_effect:
  assumes laws: "platform_laws rt pid" and run: "process_revoke rt pid accounts w = Inr w'"
  obtains us az rest rec where
    "accounts = us # az # rest" "is_signer us" "account.owner (ledger w (key az)) = pid"
    "try_from_slice (authz_codec rt) (data (ledger w (key az))) = Some rec" "user rec = key us"
    "fst (derive_authorization_pda rt pid (AuthorizationRecord.schema_version rec) (user rec) (rule_id rec)) = key az"
    "ledger w' = (ledger w)(key az := (ledger w (key az))\<lparr>data := to_bytes (authz_codec rt) (rec\<lparr>revoked := True\<rparr>)\<rparr>)"
    "revoked rec \<Longrightarrow> w' = w"
proof -
  note codec = platform_lawsD(5) [OF laws]
  have same: "(ledger w)(k := (ledger w k)\<lparr>data := to_bytes (authz_codec rt) (rec\<lparr>revoked := True\<rparr>)\<rparr>) = ledger w"
    if "try_from_slice (authz_codec rt) (data (ledger w k)) = Some rec" "revoked rec" for k rec
  proof -
    have "rec\<lparr>revoked := True\<rparr> = rec" using that(2) by (cases rec) simp
    then show ?thesis using borsh_fixed.read_exact [OF codec that(1)] by (auto simp: fun_eq_iff)
  qed
  from run [unfolded process_revoke_def Let_def] show thesis
  proof (elim success_elims, goal_cases)
    case (1 p us it1 p1 az rest rec q bu)
    show thesis
      using 1 same borsh_fixed.serialize_account_over [OF codec]
      by (intro that [of us az rest rec])
        (auto simp: ok_simps account_of_def derive_authorization_pda_def authorization_seeds_def
          split: if_splits)
  qed
qed

lemma revoke_succeeds:
  assumes laws: "platform_laws rt pid" and clk: "clock_get rt = Inr clk"
    and "is_signer us" and "account.owner (ledger w (key az)) = pid"
    and rec: "try_from_slice (authz_codec rt) (data (ledger w (key az))) = Some rec" and "user rec = key us"
    and "fst (derive_authorization_pda rt pid (AuthorizationRecord.schema_version rec) (user rec) (rule_id rec)) = key az"
  shows "is_ok (process_revoke rt pid (us # az # rest) w)"
  using assms borsh_fixed.serialize_account_over [OF platform_lawsD(5) [OF laws] rec]
  by (simp add: process_revoke_def account_of_def read_account_def case_prod_unfold Let_def
      derive_authorization_pda_def authorization_seeds_def)

section \<open>Closing\<close>

definition closeable :: "AuthorizationRecord \<Rightarrow> clock \<Rightarrow> bool" where
  "closeable rec clk \<longleftrightarrow> revoked rec \<or> completed rec \<or> expires_at_slot rec \<le> slot clk"

lemma close_effect:
  assumes laws: "platform_laws rt pid" and run: "process_close_authorization rt pid accounts w = Inr w'"
  obtains us az rest rec clk total where
    "accounts = us # az # rest" "is_signer us" "account.owner (ledger w (key az)) = pid"
    "try_from_slice (authz_codec rt) (data (ledger w (key az))) = Some rec" "user rec = key us"
    "clock_get rt = Inr clk" "closeable rec clk"
    "fst (derive_authorization_pda rt pid (AuthorizationRecord.schema_version rec) (user rec) (rule_id rec)) = key az"
    "unat total = unat (lamports (ledger w (key us))) + unat (lamports (ledger w (key az)))"
    "ledger w' = (ledger w)
       (key us := (ledger w (key us))\<lparr>lamports := total\<rparr>,
        key az := \<lparr>lamports = 0, data = [], account.owner = system_program_ID\<rparr>)"
proof -
  from run [unfolded process_close_authorization_def Let_def] show thesis
  proof (elim success_elims, goal_cases)
    case (1 p us it1 p1 az rest rec clk q bu total bs)
    have "bs = []" using 1 platform_lawsD(3) [OF laws] by (auto simp: map_err_Inr realloc_law_def)
    then show thesis
      using 1 by (intro that [of us az rest rec clk total])
        (auto simp: ok_simps account_of_def derive_authorization_pda_def authorization_seeds_def
          closeable_def checked_add_Some fun_eq_iff)
  qed
qed

section \<open>Properties\<close>

text \<open>
  C1: an execution succeeds exactly when the executor recorded in the authorization signs, the
  account is the program's own at the derived address, every argument agrees with the record, the
  authorization is live, within its cap and next in nonce, the condition proof holds now, the
  boundary proof of its action type is accepted, and the Solend call block succeeds; it then writes
  the spent record and logs the event, and changes nothing else the program owns.
\<close>

theorem execute_action_exact:
  assumes "platform_laws rt pid"
  shows "process_execute_action rt pid accounts schema rule rule_hash action amt nonce cproof sproof jproof w =
      Inr w' \<longleftrightarrow>
    (\<exists>az rec clk w1. foreign_change pid (ledger w) (ledger w1) \<and>
       execution_spec rt pid accounts schema rule rule_hash action amt nonce cproof sproof
         jproof w w' az rec clk w1)"
  unfolding execute_Inr [OF assms] using execution_spec_foreign [OF assms] by blast

text \<open>
  The condition proof is not tied to the rule hash the user signed: an execution that succeeds
  with one proof succeeds, with the same outcome, with any other proof whose conditions hold at the
  time, whatever feeds, thresholds or logic it names.
\<close>

theorem condition_proof_interchangeable:
  assumes "platform_laws rt pid"
    and "process_execute_action rt pid accounts schema rule rule_hash action amt nonce cproof sproof jproof w = Inr w'"
    and "clock_get rt = Inr clk" and "conditions_hold clk cproof'"
  shows "process_execute_action rt pid accounts schema rule rule_hash action amt nonce cproof' sproof jproof w = Inr w'"
  using assms(2-4) unfolding execute_Inr [OF assms(1)] execution_spec_def by fastforce

text \<open>
  Creation: a successful call was signed by the user, names a supported action, a positive cap
  and a future expiry, found the derived address unused, and leaves there a program-owned account
  that reads as exactly the given terms with nothing spent, not revoked and not completed.
\<close>

theorem create_establishes_terms:
  assumes "platform_laws rt pid"
    and "process_create_authorization rt pid accounts schema rule exec delegated rule_hash action
      max_in dest expiry w = Inr w'"
  shows "\<exists>us az sy rest clk bu. accounts = us # az # sy # rest \<and> is_signer us \<and> schema = 1 \<and>
    (action = 1 \<or> action = 2) \<and> 0 < max_in \<and> clock_get rt = Inr clk \<and> slot clk < expiry \<and>
    derive_authorization_pda rt pid schema (key us) rule = (key az, bu) \<and>
    unused_account (ledger w (key az)) \<and> account.owner (ledger w' (key az)) = pid \<and>
    try_from_slice (authz_codec rt) (data (ledger w' (key az))) =
      Some (fresh_authorization schema rule (key us) exec delegated rule_hash action max_in dest expiry bu) \<and>
    (\<forall>k. k \<noteq> key az \<longrightarrow> data (ledger w' k) = data (ledger w k) \<and>
       account.owner (ledger w' k) = account.owner (ledger w k))"
  by (rule create_effect [OF assms])
    (auto simp: borsh_fixed.read_written [OF platform_lawsD(5) [OF assms(1)]])

text \<open>
  An address serves one authorization at a time: creation fails when the account at the derived
  address is in use, so a record can never be overwritten by creating it again.
\<close>

theorem create_rejects_duplicate:
  assumes "platform_laws rt pid" and "\<not> unused_account (ledger w (key (accounts ! 1)))"
  shows "\<not> is_ok (process_create_authorization rt pid accounts schema rule exec delegated rule_hash action
    max_in dest expiry w)"
proof
  assume "is_ok (process_create_authorization rt pid accounts schema rule exec delegated rule_hash action
    max_in dest expiry w)"
  then obtain w' where "process_create_authorization rt pid accounts schema rule exec delegated rule_hash
      action max_in dest expiry w = Inr w'"
    by (auto simp: is_ok_iff)
  from create_effect [OF assms(1) this] assms(2) show False by (metis nth_Cons_0 nth_Cons_Suc One_nat_def)
qed

text \<open>
  Closing: it takes the user's signature and an authorization that is revoked, completed or
  expired; every lamport of the closed account goes to the user, the account becomes unused, and no
  other account changes.
\<close>

theorem close_pays_user:
  assumes "platform_laws rt pid" and "process_close_authorization rt pid accounts w = Inr w'"
    and "key (accounts ! 0) \<noteq> key (accounts ! 1)"
  shows "\<exists>us az rest rec clk. accounts = us # az # rest \<and> is_signer us \<and>
    try_from_slice (authz_codec rt) (data (ledger w (key az))) = Some rec \<and> user rec = key us \<and>
    clock_get rt = Inr clk \<and> closeable rec clk \<and> unused_account (ledger w' (key az)) \<and>
    unat (lamports (ledger w' (key us))) =
      unat (lamports (ledger w (key us))) + unat (lamports (ledger w (key az))) \<and>
    (\<forall>k. k \<noteq> key az \<longrightarrow> k \<noteq> key us \<longrightarrow> ledger w' k = ledger w k)"
  by (rule close_effect [OF assms(1,2)]) (use assms(3) in \<open>auto simp: unused_account_def\<close>)

text \<open>
  Revoking twice is revoking once: on the world a successful revocation leaves, the same call
  succeeds again and changes nothing, not even the log.
\<close>

theorem revoke_idempotent:
  assumes "platform_laws rt pid" and "process_revoke rt pid accounts w = Inr w'"
  shows "process_revoke rt pid accounts w' = Inr w'"
  by (rule revoke_effect [OF assms])
    (simp add: process_revoke_def account_of_def read_account_def case_prod_unfold Let_def
      derive_authorization_pda_def authorization_seeds_def
      borsh_fixed.read_written [OF platform_lawsD(5) [OF assms(1)]])

text \<open>
  An execution that is given fewer than 21 accounts makes no call to Solend: apart from the
  record it marks as spent, every account keeps its lamports, data and owner.
\<close>

theorem execute_without_substrate:
  assumes "platform_laws rt pid"
    and "process_execute_action rt pid accounts schema rule rule_hash action amt nonce cproof sproof jproof w = Inr w'"
    and "length accounts < 21"
  shows "(\<forall>k. k \<noteq> key (accounts ! 1) \<longrightarrow> ledger w' k = ledger w k) \<and>
    lamports (ledger w' (key (accounts ! 1))) = lamports (ledger w (key (accounts ! 1))) \<and>
    account.owner (ledger w' (key (accounts ! 1))) = account.owner (ledger w (key (accounts ! 1)))"
proof -
  obtain az rec clk w1 where "execution_spec rt pid accounts schema rule rule_hash action amt nonce cproof
      sproof jproof w w' az rec clk w1"
    using assms(2) unfolding execute_Inr [OF assms(1)] by blast
  then have "accounts ! 1 = az" and "ledger w' = (ledger w1)(key az := (ledger w1 (key az))\<lparr>data :=
      to_bytes (authz_codec rt) (executed rec clk amt nonce)\<rparr>)" and "w1 = w"
    using assms(3) unfolding execution_spec_def
    by (auto simp: solend_cpi_block_def P5B2_MIN_ACCOUNTS_def WITHDRAW_BASE_ACCOUNTS_LEN_def)
  then show ?thesis by simp
qed

end
