(* ===== verification/State_Machine.thy ===== *)
theory State_Machine
  imports Main
begin

text \<open>
  Runs of a step relation: the states reachable from the initial ones, the interface of an
  inductive invariant, and the interface of a simulation of one machine by another along an
  abstraction function.
\<close>

inductive reach :: "('s \<Rightarrow> bool) \<Rightarrow> ('s \<Rightarrow> 's \<Rightarrow> bool) \<Rightarrow> 's \<Rightarrow> bool" for init step where
  reach_init: "init s \<Longrightarrow> reach init step s"
| reach_step: "reach init step s \<Longrightarrow> step s s' \<Longrightarrow> reach init step s'"

lemma reach_mono:
  "reach init step s \<Longrightarrow> (\<And>x. init x \<Longrightarrow> init' x) \<Longrightarrow> (\<And>x y. step x y \<Longrightarrow> step' x y) \<Longrightarrow> reach init' step' s"
  by (induction rule: reach.induct) (auto intro: reach.intros)

locale inductive_invariant =
  fixes init :: "'s \<Rightarrow> bool" and step :: "'s \<Rightarrow> 's \<Rightarrow> bool" and good :: "'s \<Rightarrow> bool"
  assumes good_init: "init s \<Longrightarrow> good s"
    and good_step: "good s \<Longrightarrow> step s s' \<Longrightarrow> good s'"
begin

lemma reach_good: "reach init step s \<Longrightarrow> good s"
  by (induction rule: reach.induct) (auto intro: good_init good_step)

end

locale simulation =
  fixes init :: "'s \<Rightarrow> bool" and step :: "'s \<Rightarrow> 's \<Rightarrow> bool"
    and ainit :: "'a \<Rightarrow> bool" and astep :: "'a \<Rightarrow> 'a \<Rightarrow> bool" and abs :: "'s \<Rightarrow> 'a"
  assumes abs_init: "init s \<Longrightarrow> ainit (abs s)"
    and abs_step: "step s s' \<Longrightarrow> astep (abs s) (abs s')"
begin

lemma reach_abs: "reach init step s \<Longrightarrow> reach ainit astep (abs s)"
  by (induction rule: reach.induct) (auto intro: abs_init abs_step reach.intros)

lemma steps_abs: "step\<^sup>*\<^sup>* s s' \<Longrightarrow> astep\<^sup>*\<^sup>* (abs s) (abs s')"
  by (induction rule: rtranclp_induct) (auto intro: abs_step rtranclp.rtrancl_into_rtrancl)

end

text \<open>A quantity that each step relates by a reflexive and transitive relation is so related along a run.\<close>

locale step_order =
  fixes step :: "'s \<Rightarrow> 's \<Rightarrow> bool" and le :: "'s \<Rightarrow> 's \<Rightarrow> bool"
  assumes le_refl: "le s s"
    and le_trans: "le s t \<Longrightarrow> le t u \<Longrightarrow> le s u"
    and step_le: "step s s' \<Longrightarrow> le s s'"
begin

lemma steps_le: "step\<^sup>*\<^sup>* s s' \<Longrightarrow> le s s'"
  by (induction rule: rtranclp_induct) (auto intro: le_refl le_trans step_le)

end

end
