(* ===== verification/Authority_Lifecycle.thy ===== *)
theory Authority_Lifecycle
  imports Authority_Effects State_Machine
begin

text \<open>
  The life of one authorization as an abstract machine (create, revoke, execute once, close), and
  the proof that the program run on a chain, where every other program does what the runtime lets
  it do in between, is a refinement of that machine at every address. The run-level guarantees
  (spending cap, one execution, immutable terms, final revocation, the user can always revoke) are
  proved on the machine or carried along the refinement.
\<close>

section \<open>The abstract machine\<close>

definition zero_authorization :: AuthorizationRecord where
  "zero_authorization = fresh_authorization 0 0 0 0 0 0 0 0 0 0 0"

text \<open>
  A state is the clock and the authorization at one address, if there is one; a step is labelled with
  the signers of the transaction. \<open>home\<close> says which schema version, user and rule the address belongs to. \<open>dormant\<close> is an account of zero bytes that another program hands
  to this one: it reads as a record that allows nothing.
\<close>

type_synonym lifecycle_state = "clock \<times> AuthorizationRecord option"

inductive lifecycle_step ::
  "(u8 \<Rightarrow> pubkey \<Rightarrow> 128 word \<Rightarrow> bool) \<Rightarrow> pubkey set \<Rightarrow> lifecycle_state \<Rightarrow> lifecycle_state \<Rightarrow> bool"
  for home signers where
  idle: "lifecycle_step home signers (clk, r) (clk, r)"
| tick: "slot clk \<le> slot clk' \<Longrightarrow> lifecycle_step home signers (clk, r) (clk', r)"
| create: "usr \<in> signers \<Longrightarrow> home 1 usr rule \<Longrightarrow> action = 1 \<or> action = 2 \<Longrightarrow> 0 < max_in \<Longrightarrow> slot clk < expiry \<Longrightarrow>
    lifecycle_step home signers (clk, None) (clk, Some
      (fresh_authorization 1 rule usr exec delegated rule_hash action max_in dest expiry bu))"
| dormant: "lifecycle_step home signers (clk, None) (clk, Some zero_authorization)"
| revoke: "user rec \<in> signers \<Longrightarrow>
    lifecycle_step home signers (clk, Some rec) (clk, Some (rec\<lparr>revoked := True\<rparr>))"
| execute: "executor rec \<in> signers \<Longrightarrow> spendable rec clk amt nonce \<Longrightarrow>
    lifecycle_step home signers (clk, Some rec) (clk, Some (executed rec clk amt nonce))"
| close: "user rec \<in> signers \<Longrightarrow> closeable rec clk \<Longrightarrow> lifecycle_step home signers (clk, Some rec) (clk, None)"

inductive_cases lifecycle_stepE: "lifecycle_step home signers (clk, r) (clk', r')"

text \<open>What is known of every record the machine can reach.\<close>

definition authorization_inv :: "AuthorizationRecord \<Rightarrow> bool" where
  "authorization_inv rec \<longleftrightarrow>
     used_amount_raw rec \<le> max_input_amount_raw rec \<and>
     (if completed rec
      then AuthorizationRecord.execution_nonce rec = 1 \<and> 0 < used_amount_raw rec \<and>
        last_execution_slot rec < expires_at_slot rec
      else AuthorizationRecord.execution_nonce rec = 0 \<and> used_amount_raw rec = 0 \<and>
        last_execution_slot rec = 0)"

lemmas authorization_defs = authorization_inv_def fresh_authorization_def zero_authorization_def
  executed_def spendable_def

lemma executed_inv:
  assumes "authorization_inv rec" and "spendable rec clk amt nonce"
  shows "authorization_inv (executed rec clk amt nonce)"
proof -
  have "AuthorizationRecord.execution_nonce rec = 0" "used_amount_raw rec = 0" "0 < amt"
    "unat nonce = 1" "unat amt \<le> unat (max_input_amount_raw rec)" "slot clk < expires_at_slot rec"
    using assms by (auto simp: authorization_inv_def spendable_def)
  moreover have "nonce = 1" using \<open>unat nonce = 1\<close> by (simp add: word_unat_eq_iff)
  ultimately show ?thesis by (simp add: authorization_inv_def executed_def word_le_nat_alt)
qed

definition located :: "(u8 \<Rightarrow> pubkey \<Rightarrow> 128 word \<Rightarrow> bool) \<Rightarrow> AuthorizationRecord \<Rightarrow> bool" where
  "located home rec \<longleftrightarrow>
     home (AuthorizationRecord.schema_version rec) (user rec) (rule_id rec) \<or> user rec = 0"

interpretation lifecycle: inductive_invariant "\<lambda>s. snd s = None"
  "\<lambda>s s'. \<exists>signers. lifecycle_step home signers s s'" "\<lambda>s. pred_option (\<lambda>r. authorization_inv r \<and> located home r) (snd s)"
proof
  fix s s' :: lifecycle_state
  assume "pred_option (\<lambda>r. authorization_inv r \<and> located home r) (snd s)"
    "\<exists>signers. lifecycle_step home signers s s'"
  then show "pred_option (\<lambda>r. authorization_inv r \<and> located home r) (snd s')"
    by (elim exE, elim lifecycle_step.cases)
      (auto simp: executed_inv, auto simp: authorization_defs located_def)
qed simp

text \<open>How the record may change while the authorization exists.\<close>

definition same_terms :: "AuthorizationRecord \<Rightarrow> AuthorizationRecord \<Rightarrow> bool" where
  "same_terms r r' \<longleftrightarrow>
     r' = r\<lparr>used_amount_raw := used_amount_raw r', revoked := revoked r', completed := completed r',
           AuthorizationRecord.execution_nonce := AuthorizationRecord.execution_nonce r',
           last_execution_slot := last_execution_slot r'\<rparr>"

definition evolves :: "AuthorizationRecord \<Rightarrow> AuthorizationRecord \<Rightarrow> bool" where
  "evolves r r' \<longleftrightarrow> same_terms r r' \<and> (revoked r \<longrightarrow> r' = r) \<and>
     (completed r \<longrightarrow> r' = r\<lparr>revoked := revoked r'\<rparr>)"

lemma evolves_refl: "evolves r r"
  by (cases r) (simp add: evolves_def same_terms_def)

lemma evolves_trans: "evolves r s \<Longrightarrow> evolves s t \<Longrightarrow> evolves r t"
  by (cases r; cases s; cases t) (auto simp: evolves_def same_terms_def)

lemma revoke_evolves: "evolves r (r\<lparr>revoked := True\<rparr>)"
  by (cases r) (simp add: evolves_def same_terms_def)

lemma executed_evolves: "spendable r clk amt nonce \<Longrightarrow> evolves r (executed r clk amt nonce)"
  by (cases r) (simp add: evolves_def same_terms_def executed_def spendable_def)

lemma lifecycle_evolves:
  "lifecycle_step home signers (clk, Some r) (clk', Some r') \<Longrightarrow> evolves r r'"
  by (erule lifecycle_stepE) (auto intro: evolves_refl revoke_evolves executed_evolves)

lemma lifecycle_time: "lifecycle_step home signers (clk, r) (clk', r') \<Longrightarrow> slot clk \<le> slot clk'"
  by (erule lifecycle_stepE) auto

section \<open>The chain\<close>

definition signers_of :: "account_info list \<Rightarrow> pubkey set" where
  "signers_of accounts = key ` set (filter is_signer accounts)"

text \<open>
  A chain state is the clock and the world. Time passes, other programs act within the runtime's
  permissions, and transactions call this program; a call that fails changes nothing.
\<close>

inductive chain_step ::
  "'z authority_runtime_scheme \<Rightarrow> pubkey \<Rightarrow> pubkey set \<Rightarrow> clock \<times> world \<Rightarrow> clock \<times> world \<Rightarrow> bool"
  for rt pid where
  time: "slot clk \<le> slot clk' \<Longrightarrow> chain_step rt pid signers (clk, w) (clk', w)"
| others: "foreign_change pid (ledger w) (ledger w') \<Longrightarrow> chain_step rt pid signers (clk, w) (clk, w')"
| call: "process_instruction (rt\<lparr>clock_get := Inr clk\<rparr>) pid accounts bytes w = Inr w' \<Longrightarrow>
    chain_step rt pid (signers_of accounts) (clk, w) (clk, w')"

inductive_cases chain_stepE: "chain_step rt pid signers (clk, w) (clk', w')"

definition chain_init :: "pubkey \<Rightarrow> clock \<times> world \<Rightarrow> bool" where
  "chain_init pid s \<longleftrightarrow> (\<forall>k. account.owner (ledger (snd s) k) \<noteq> pid)"

text \<open>The authorization the program would read at an address.\<close>

definition authz_state :: "'z authority_env_scheme \<Rightarrow> pubkey \<Rightarrow> pubkey \<Rightarrow> world \<Rightarrow> AuthorizationRecord option" where
  "authz_state rt pid k w =
     (if account.owner (ledger w k) = pid then try_from_slice (authz_codec rt) (data (ledger w k)) else None)"

definition home_of :: "'z runtime_scheme \<Rightarrow> pubkey \<Rightarrow> pubkey \<Rightarrow> u8 \<Rightarrow> pubkey \<Rightarrow> 128 word \<Rightarrow> bool" where
  "home_of rt pid k schema usr rule \<longleftrightarrow> fst (derive_authorization_pda rt pid schema usr rule) = k"

text \<open>Zero bytes read as the record whose every field is zero.\<close>

definition zero_law :: "'z authority_env_scheme \<Rightarrow> bool" where
  "zero_law rt \<longleftrightarrow>
     (\<forall>bs rec. set bs \<subseteq> {0} \<longrightarrow> try_from_slice (authz_codec rt) bs = Some rec \<longrightarrow> rec = zero_authorization)"

definition chain_laws :: "'z authority_env_scheme \<Rightarrow> pubkey \<Rightarrow> bool" where
  "chain_laws rt pid \<longleftrightarrow> platform_laws rt pid \<and> zero_law rt"

lemma chain_laws_clock [simp]:
  "platform_laws (rt\<lparr>clock_get := c\<rparr>) pid = platform_laws rt pid"
  "chain_laws (rt\<lparr>clock_get := c\<rparr>) pid = chain_laws rt pid"
  "authz_state (rt\<lparr>clock_get := c\<rparr>) = authz_state rt"
  "home_of (rt\<lparr>clock_get := c\<rparr>) = home_of rt"
  for rt :: "'z authority_env_scheme"
  by (simp_all add: chain_laws_def platform_laws_def zero_law_def create_account_law_def invoke_law_def
      realloc_law_def authz_state_def fun_eq_iff home_of_def derive_authorization_pda_def)

lemma authz_state_Some:
  "authz_state rt pid k w = Some rec \<longleftrightarrow>
     account.owner (ledger w k) = pid \<and> try_from_slice (authz_codec rt) (data (ledger w k)) = Some rec"
  by (simp add: authz_state_def)

lemma authz_state_cong:
  "account.owner (ledger w' k) = account.owner (ledger w k) \<Longrightarrow> data (ledger w' k) = data (ledger w k) \<Longrightarrow>
   authz_state rt pid k w' = authz_state rt pid k w"
  by (simp add: authz_state_def)

lemma wrong_length_unreadable:
  assumes "chain_laws rt pid" and "length (data (ledger w k)) \<noteq> AuthorizationRecord_LEN"
  shows "authz_state rt pid k w = None"
proof (cases "authz_state rt pid k w")
  case (Some rec)
  then have "length (data (ledger w k)) = AuthorizationRecord_LEN"
    using borsh_fixed.read_length [OF platform_lawsD(5)] assms(1)
    by (auto simp: authz_state_Some chain_laws_def)
  with assms(2) show ?thesis by simp
qed

lemma unused_unreadable:
  "chain_laws rt pid \<Longrightarrow> unused_account (ledger w k) \<Longrightarrow> authz_state rt pid k w = None"
  by (rule wrong_length_unreadable) (simp_all add: unused_account_def AuthorizationRecord_LEN_def)

lemma foreign_refines:
  assumes laws: "chain_laws rt pid" and change: "foreign_change pid (ledger w) (ledger w')"
  shows "lifecycle_step (home_of rt pid k) signers (clk, authz_state rt pid k w) (clk, authz_state rt pid k w')"
proof (cases "account.owner (ledger w k) = pid")
  case True
  then have "authz_state rt pid k w' = authz_state rt pid k w"
    using foreign_change_own [OF change True] by (simp add: authz_state_def)
  then show ?thesis by (simp add: lifecycle_step.idle)
next
  case False
  then have before: "authz_state rt pid k w = None" by (simp add: authz_state_def)
  show ?thesis
  proof (cases "authz_state rt pid k w'")
    case None
    then show ?thesis by (simp add: before lifecycle_step.idle)
  next
    case (Some rec)
    then have "account.owner (ledger w' k) = pid" "try_from_slice (authz_codec rt) (data (ledger w' k)) = Some rec"
      by (simp_all add: authz_state_Some)
    moreover from this False change have "set (data (ledger w' k)) \<subseteq> {0}" by (simp add: foreign_change_def)
    ultimately have "rec = zero_authorization" using laws unfolding chain_laws_def zero_law_def by blast
    then show ?thesis by (simp add: before Some lifecycle_step.dormant)
  qed
qed

section \<open>Each handler is a step of the machine\<close>

lemma signers_of_Cons [simp]: "is_signer a \<Longrightarrow> key a \<in> signers_of (a # rest)"
  by (simp add: signers_of_def)

lemma create_refines:
  assumes laws: "chain_laws rt pid" and clk: "clock_get rt = Inr clk"
    and run: "process_create_authorization rt pid accounts schema rule exec delegated rule_hash action
      max_in dest expiry w = Inr w'"
  shows "lifecycle_step (home_of rt pid k) (signers_of accounts) (clk, authz_state rt pid k w) (clk, authz_state rt pid k w')"
proof -
  have plat: "platform_laws rt pid" using laws by (simp add: chain_laws_def)
  obtain us az sy rest clk' lam bu where
      a: "accounts = us # az # sy # rest" "is_signer us" "schema = 1" "action = 1 \<or> action = 2" "0 < max_in"
      "clock_get rt = Inr clk'" "slot clk' < expiry" "unused_account (ledger w (key az))"
      "derive_authorization_pda rt pid schema (key us) rule = (key az, bu)"
    and led: "ledger w' = (ledger w)
       (key us := (ledger w (key us))\<lparr>lamports := lamports (ledger w (key us)) - lam\<rparr>,
        key az := \<lparr>lamports = lam, data = to_bytes (authz_codec rt)
          (fresh_authorization schema rule (key us) exec delegated rule_hash action max_in dest expiry bu),
          account.owner = pid\<rparr>)"
    by (rule create_effect [OF plat run])
  show ?thesis
  proof (cases "k = key az")
    case True
    have "authz_state rt pid k w = None" using unused_unreadable [OF laws a(8)] True by simp
    moreover have "authz_state rt pid k w' = Some (fresh_authorization 1 rule (key us) exec delegated
        rule_hash action max_in dest expiry bu)"
      by (simp add: True authz_state_def led a(3) borsh_fixed.read_written [OF platform_lawsD(5) [OF plat]])
    ultimately show ?thesis using a clk True by (auto simp: home_of_def intro!: lifecycle_step.create)
  next
    case False
    then have "authz_state rt pid k w' = authz_state rt pid k w"
      by (intro authz_state_cong) (simp_all add: led)
    then show ?thesis by (simp add: lifecycle_step.idle)
  qed
qed

lemma revoke_refines:
  assumes laws: "chain_laws rt pid" and run: "process_revoke rt pid accounts w = Inr w'"
  shows "lifecycle_step (home_of rt pid k) (signers_of accounts) (clk, authz_state rt pid k w) (clk, authz_state rt pid k w')"
proof -
  have plat: "platform_laws rt pid" using laws by (simp add: chain_laws_def)
  obtain us az rest rec where a: "accounts = us # az # rest" "is_signer us" "account.owner (ledger w (key az)) = pid"
      "try_from_slice (authz_codec rt) (data (ledger w (key az))) = Some rec" "user rec = key us"
    and led: "ledger w' = (ledger w)(key az := (ledger w (key az))\<lparr>data :=
        to_bytes (authz_codec rt) (rec\<lparr>revoked := True\<rparr>)\<rparr>)"
    by (rule revoke_effect [OF plat run])
  show ?thesis
  proof (cases "k = key az")
    case True
    then have "authz_state rt pid k w = Some rec" "authz_state rt pid k w' = Some (rec\<lparr>revoked := True\<rparr>)"
      using a by (simp_all add: authz_state_Some led borsh_fixed.read_written [OF platform_lawsD(5) [OF plat]])
    then show ?thesis using a by (auto intro!: lifecycle_step.revoke)
  next
    case False
    then have "authz_state rt pid k w' = authz_state rt pid k w"
      by (intro authz_state_cong) (simp_all add: led)
    then show ?thesis by (simp add: lifecycle_step.idle)
  qed
qed

lemma close_refines:
  assumes laws: "chain_laws rt pid" and clk: "clock_get rt = Inr clk"
    and run: "process_close_authorization rt pid accounts w = Inr w'"
  shows "lifecycle_step (home_of rt pid k) (signers_of accounts) (clk, authz_state rt pid k w) (clk, authz_state rt pid k w')"
proof -
  have plat: "platform_laws rt pid" using laws by (simp add: chain_laws_def)
  obtain us az rest rec clk' total where a: "accounts = us # az # rest" "is_signer us"
      "account.owner (ledger w (key az)) = pid"
      "try_from_slice (authz_codec rt) (data (ledger w (key az))) = Some rec" "user rec = key us"
      "clock_get rt = Inr clk'" "closeable rec clk'"
    and led: "ledger w' = (ledger w) (key us := (ledger w (key us))\<lparr>lamports := total\<rparr>,
        key az := \<lparr>lamports = 0, data = [], account.owner = system_program_ID\<rparr>)"
    by (rule close_effect [OF plat run])
  show ?thesis
  proof (cases "k = key az")
    case True
    then have "authz_state rt pid k w = Some rec" using a by (simp add: authz_state_Some)
    moreover have "authz_state rt pid k w' = None"
      by (rule wrong_length_unreadable [OF laws]) (simp add: True led AuthorizationRecord_LEN_def)
    ultimately show ?thesis using a clk by (auto intro!: lifecycle_step.close)
  next
    case False
    then have "authz_state rt pid k w' = authz_state rt pid k w"
      by (intro authz_state_cong) (simp_all add: led)
    then show ?thesis by (simp add: lifecycle_step.idle)
  qed
qed

lemma execute_refines:
  assumes laws: "chain_laws rt pid" and clk: "clock_get rt = Inr clk"
    and run: "process_execute_action rt pid accounts schema rule rule_hash action amt nonce cproof sproof
      jproof w = Inr w'"
  shows "lifecycle_step (home_of rt pid k) (signers_of accounts) (clk, authz_state rt pid k w) (clk, authz_state rt pid k w')"
proof -
  have plat: "platform_laws rt pid" using laws by (simp add: chain_laws_def)
  from run obtain az rec w1 ex us dw rest where a: "accounts = ex # az # us # dw # rest" "is_signer ex"
      "account.owner (ledger w (key az)) = pid"
      "try_from_slice (authz_codec rt) (data (ledger w (key az))) = Some rec" "executor rec = key ex"
      "spendable rec clk amt nonce"
    and cpi: "solend_cpi_block rt rec dw accounts sproof w = Inr w1"
    and led: "ledger w' = (ledger w1)(key az := (ledger w1 (key az))\<lparr>data :=
        to_bytes (authz_codec rt) (executed rec clk amt nonce)\<rparr>)"
    using clk by (auto simp: execute_Inr [OF plat] execution_spec_def record_matches_def)
  note change = solend_cpi_block_foreign [OF plat cpi]
  show ?thesis
  proof (cases "k = key az")
    case True
    then have "authz_state rt pid k w = Some rec" "authz_state rt pid k w' = Some (executed rec clk amt nonce)"
      using a foreign_change_own [OF change a(3)]
      by (simp_all add: authz_state_Some led borsh_fixed.read_written [OF platform_lawsD(5) [OF plat]])
    then show ?thesis using a by (auto intro!: lifecycle_step.execute)
  next
    case False
    then have "authz_state rt pid k w' = authz_state rt pid k w1"
      by (intro authz_state_cong) (simp_all add: led)
    then show ?thesis using foreign_refines [OF laws change] by simp
  qed
qed

lemma pre_check_refines:
  assumes laws: "chain_laws rt pid" and run: "process_pre_jupiter_bracket_check rt pid accounts prf w = Inr w'"
  shows "authz_state rt pid k w' = authz_state rt pid k w"
proof -
  have plat: "platform_laws rt pid" using laws by (simp add: chain_laws_def)
  obtain ck :: account_info and cp where ck: "unused_account (ledger w (key ck))"
      "try_from_slice (checkpoint_codec rt) (data (ledger w' (key ck))) = Some cp"
    and rest: "\<And>k. k \<noteq> key ck \<Longrightarrow> data (ledger w' k) = data (ledger w k) \<and>
       account.owner (ledger w' k) = account.owner (ledger w k)"
    by (rule pre_check_effect [OF platform_lawsD(1,6) [OF plat] run], rule that)
  show ?thesis
  proof (cases "k = key ck")
    case True
    have "authz_state rt pid k w' = None"
      using borsh_fixed.read_length [OF platform_lawsD(6) [OF plat] ck(2)]
      by (intro wrong_length_unreadable [OF laws])
        (simp add: True JupiterBracketCheckpoint_LEN_def AuthorizationRecord_LEN_def)
    then show ?thesis using unused_unreadable [OF laws ck(1)] True by simp
  qed (rule authz_state_cong; simp add: rest)
qed

lemma post_check_refines:
  assumes laws: "chain_laws rt pid" and run: "process_post_jupiter_bracket_check rt pid accounts prf w = Inr w'"
  shows "authz_state rt pid k w' = authz_state rt pid k w"
proof -
  have codec: "borsh_fixed (checkpoint_codec rt) JupiterBracketCheckpoint_LEN"
    using laws by (simp add: chain_laws_def platform_laws_def)
  obtain ck :: account_info and cp where cp: "try_from_slice (checkpoint_codec rt) (data (ledger w (key ck))) = Some cp"
    and w': "w' = write_data (key ck) (to_bytes (checkpoint_codec rt) (cp\<lparr>consumed := True\<rparr>)) w"
    by (rule post_check_effect [OF codec run], rule that)
  show ?thesis
  proof (cases "k = key ck")
    case True
    have "length (data (ledger w k)) = JupiterBracketCheckpoint_LEN"
      "length (data (ledger w' k)) = JupiterBracketCheckpoint_LEN"
      using borsh_fixed.read_length [OF codec cp]
      by (simp_all add: True w' borsh_fixed.written_length [OF codec])
    then show ?thesis
      using wrong_length_unreadable [OF laws, of w k] wrong_length_unreadable [OF laws, of w' k]
      by (simp add: JupiterBracketCheckpoint_LEN_def AuthorizationRecord_LEN_def)
  qed (rule authz_state_cong; simp add: w')
qed

lemma instruction_refines:
  assumes laws: "chain_laws rt pid" and clk: "clock_get rt = Inr clk"
    and run: "process_instruction rt pid accounts bytes w = Inr w'"
  shows "lifecycle_step (home_of rt pid k) (signers_of accounts) (clk, authz_state rt pid k w) (clk, authz_state rt pid k w')"
  using run unfolding process_instruction_def
  by (elim success_elims)
    (auto split: AuthorityInstruction.splits simp: lifecycle_step.idle pre_check_refines [OF laws]
      post_check_refines [OF laws] intro: create_refines [OF laws clk] revoke_refines [OF laws]
      close_refines [OF laws clk] execute_refines [OF laws clk])

lemma chain_refines:
  assumes laws: "chain_laws rt pid" and step: "chain_step rt pid signers (clk, w) (clk', w')"
  shows "lifecycle_step (home_of rt pid k) signers (clk, authz_state rt pid k w) (clk', authz_state rt pid k w')"
  using step
proof (cases rule: chain_step.cases)
  case time
  then show ?thesis by (simp add: lifecycle_step.tick)
next
  case others
  then show ?thesis by (simp add: foreign_refines [OF laws])
next
  case (call accounts bytes)
  then show ?thesis
    using instruction_refines [of "rt\<lparr>clock_get := Inr clk\<rparr>" pid clk accounts bytes w w' k] laws by simp
qed

section \<open>Runs\<close>

interpretation authority: simulation "chain_init pid"
  "\<lambda>s s'. chain_laws rt pid \<and> (\<exists>signers. chain_step rt pid signers s s')"
  "\<lambda>s. snd s = None" "\<lambda>s s'. \<exists>signers. lifecycle_step (home_of rt pid k) signers s s'"
  "\<lambda>s. (fst s, authz_state rt pid k (snd s))"
proof
  fix s :: "clock \<times> world"
  assume "chain_init pid s"
  then show "snd (fst s, authz_state rt pid k (snd s)) = None" by (simp add: chain_init_def authz_state_def)
next
  fix s s' :: "clock \<times> world"
  assume "chain_laws rt pid \<and> (\<exists>signers. chain_step rt pid signers s s')"
  then show "\<exists>signers. lifecycle_step (home_of rt pid k) signers (fst s, authz_state rt pid k (snd s))
      (fst s', authz_state rt pid k (snd s'))"
    using chain_refines by (metis prod.collapse)
qed

definition chain_reachable :: "'z authority_runtime_scheme \<Rightarrow> pubkey \<Rightarrow> clock \<times> world \<Rightarrow> bool" where
  "chain_reachable rt pid = reach (chain_init pid) (\<lambda>s s'. \<exists>signers. chain_step rt pid signers s s')"

lemma reachable_authorization:
  assumes laws: "chain_laws rt pid" and "chain_reachable rt pid (clk, w)" and "authz_state rt pid k w = Some rec"
  shows "authorization_inv rec" and "located (home_of rt pid k) rec"
proof -
  have "reach (chain_init pid) (\<lambda>s s'. chain_laws rt pid \<and> (\<exists>signers. chain_step rt pid signers s s')) (clk, w)"
    using assms by (simp add: chain_reachable_def)
  from lifecycle.reach_good [OF authority.reach_abs [OF this, of k]] assms(3)
  show "authorization_inv rec" "located (home_of rt pid k) rec" by simp_all
qed

text \<open>Runs along which the authorization at \<open>k\<close> keeps existing.\<close>

definition live_step ::
  "'z authority_runtime_scheme \<Rightarrow> pubkey \<Rightarrow> pubkey \<Rightarrow> clock \<times> world \<Rightarrow> clock \<times> world \<Rightarrow> bool" where
  "live_step rt pid k s s' \<longleftrightarrow>
     (\<exists>signers. chain_step rt pid signers s s') \<and> authz_state rt pid k (snd s) \<noteq> None \<and>
     authz_state rt pid k (snd s') \<noteq> None"

interpretation live: step_order "\<lambda>s s'. chain_laws rt pid \<and> live_step rt pid k s s'"
  "\<lambda>s s'. slot (fst s) \<le> slot (fst s') \<and> rel_option evolves (authz_state rt pid k (snd s)) (authz_state rt pid k (snd s'))"
proof
  fix s t u :: "clock \<times> world"
  show "slot (fst s) \<le> slot (fst s) \<and> rel_option evolves (authz_state rt pid k (snd s)) (authz_state rt pid k (snd s))"
    by (simp add: option.rel_refl evolves_refl)
  show "slot (fst s) \<le> slot (fst t) \<and> rel_option evolves (authz_state rt pid k (snd s)) (authz_state rt pid k (snd t)) \<Longrightarrow>
      slot (fst t) \<le> slot (fst u) \<and> rel_option evolves (authz_state rt pid k (snd t)) (authz_state rt pid k (snd u)) \<Longrightarrow>
      slot (fst s) \<le> slot (fst u) \<and> rel_option evolves (authz_state rt pid k (snd s)) (authz_state rt pid k (snd u))"
    by (auto simp: option_rel_Some1 elim!: option.rel_cases intro: evolves_trans)
  assume "chain_laws rt pid \<and> live_step rt pid k s t"
  then obtain signers r r' where "chain_step rt pid signers (fst s, snd s) (fst t, snd t)" "chain_laws rt pid"
    "authz_state rt pid k (snd s) = Some r" "authz_state rt pid k (snd t) = Some r'"
    by (auto simp: live_step_def)
  then have "lifecycle_step (home_of rt pid k) signers (fst s, Some r) (fst t, Some r')"
    using chain_refines by metis
  with \<open>_ = Some r\<close> \<open>_ = Some r'\<close>
  show "slot (fst s) \<le> slot (fst t) \<and> rel_option evolves (authz_state rt pid k (snd s)) (authz_state rt pid k (snd t))"
    using lifecycle_evolves lifecycle_time by (metis option.rel_intros(2))
qed

lemma live_run:
  assumes laws: "chain_laws rt pid" and run: "(live_step rt pid k)\<^sup>*\<^sup>* (clk, w) (clk', w')"
    and rec: "authz_state rt pid k w = Some rec"
  obtains rec' where "authz_state rt pid k w' = Some rec'" "evolves rec rec'" "slot clk \<le> slot clk'"
proof -
  have "(\<lambda>s s'. chain_laws rt pid \<and> live_step rt pid k s s')\<^sup>*\<^sup>* (clk, w) (clk', w')"
    using run laws by simp
  from live.steps_le [OF this] rec that show thesis by (auto simp: option_rel_Some1)
qed

section \<open>Properties\<close>

text \<open>
  C3: on every chain that can arise, an authorization the program would read has spent at most its
  maximum, has been executed at most once, and only before its expiry; one that has not been
  executed has spent nothing.
\<close>

theorem reachable_cap:
  assumes "chain_laws rt pid" and "chain_reachable rt pid (clk, w)" and "authz_state rt pid k w = Some rec"
  shows "used_amount_raw rec \<le> max_input_amount_raw rec \<and>
    (completed rec \<longrightarrow> AuthorizationRecord.execution_nonce rec = 1 \<and> 0 < used_amount_raw rec \<and>
       last_execution_slot rec < expires_at_slot rec) \<and>
    (\<not> completed rec \<longrightarrow> AuthorizationRecord.execution_nonce rec = 0 \<and> used_amount_raw rec = 0)"
  using reachable_authorization(1) [OF assms] by (auto simp: authorization_inv_def)

text \<open>
  C2: a successful call acts on the authorization at any address as one step of the abstract
  lifecycle machine, with the transaction's signers: nobody but the user can revoke or close it, and
  nobody but the recorded executor can execute it.
\<close>

theorem instruction_is_lifecycle_step:
  assumes "chain_laws rt pid" and "clock_get rt = Inr clk"
    and "process_instruction rt pid accounts bytes w = Inr w'"
  shows "lifecycle_step (home_of rt pid k) (signers_of accounts)
    (clk, authz_state rt pid k w) (clk, authz_state rt pid k w')"
  by (rule instruction_refines [OF assms])

text \<open>
  C7: while an authorization exists its terms never change, revocation freezes it, and execution
  freezes everything but the revocation flag, over any run of the chain.
\<close>

theorem authorization_terms_immutable:
  assumes "chain_laws rt pid" and "(live_step rt pid k)\<^sup>*\<^sup>* (clk, w) (clk', w')"
    and "authz_state rt pid k w = Some rec"
  shows "\<exists>rec'. authz_state rt pid k w' = Some rec' \<and> same_terms rec rec' \<and>
    (revoked rec \<longrightarrow> rec' = rec) \<and> (completed rec \<longrightarrow> rec' = rec\<lparr>revoked := revoked rec'\<rparr>)"
  by (rule live_run [OF assms]) (auto simp: evolves_def)

lemma execute_needs_spendable:
  assumes laws: "chain_laws rt pid" and rec: "authz_state rt pid k w = Some rec" and k: "key (accounts ! 1) = k"
    and run: "process_execute_action (rt\<lparr>clock_get := Inr clk\<rparr>) pid accounts schema rule rule_hash action amt nonce
      cproof sproof jproof w = Inr w'"
  shows "spendable rec clk amt nonce"
proof -
  have "platform_laws (rt\<lparr>clock_get := Inr clk\<rparr>) pid" using laws by (simp add: chain_laws_def)
  from run [unfolded execute_Inr [OF this]] obtain az rec' clk' w1 where
    "execution_spec (rt\<lparr>clock_get := Inr clk\<rparr>) pid accounts schema rule rule_hash action amt nonce
       cproof sproof jproof w w' az rec' clk' w1" by blast
  then have "spendable rec' clk amt nonce" "accounts ! 1 = az"
    "try_from_slice (authz_codec rt) (data (ledger w (key az))) = Some rec'"
    unfolding execution_spec_def by auto
  with rec k show ?thesis by (simp add: authz_state_Some)
qed

lemma spent_stays_spent:
  assumes laws: "chain_laws rt pid" and run: "(live_step rt pid k)\<^sup>*\<^sup>* (clk, w) (clk', w')"
    and rec: "authz_state rt pid k w = Some rec"
    and spent: "revoked rec \<or> completed rec \<or> expires_at_slot rec \<le> slot clk"
    and k: "key (accounts ! 1) = k"
  shows "\<not> is_ok (process_execute_action (rt\<lparr>clock_get := Inr clk'\<rparr>) pid accounts schema rule rule_hash action
    amt nonce cproof sproof jproof w')"
proof
  assume "is_ok (process_execute_action (rt\<lparr>clock_get := Inr clk'\<rparr>) pid accounts schema rule rule_hash action
    amt nonce cproof sproof jproof w')"
  then obtain w2 where again: "process_execute_action (rt\<lparr>clock_get := Inr clk'\<rparr>) pid accounts schema rule
      rule_hash action amt nonce cproof sproof jproof w' = Inr w2"
    by (auto simp: is_ok_iff)
  obtain rec' where rec': "authz_state rt pid k w' = Some rec'" "evolves rec rec'" "slot clk \<le> slot clk'"
    by (rule live_run [OF laws run rec])
  then have "spendable rec' clk' amt nonce" using execute_needs_spendable [OF laws _ k again] by blast
  moreover have "completed rec' \<or> revoked rec' \<or> expires_at_slot rec' \<le> slot clk'"
  proof -
    have "expires_at_slot rec' = expires_at_slot rec" "revoked rec \<Longrightarrow> revoked rec'" "completed rec \<Longrightarrow> completed rec'"
      using rec'(2) by (cases rec; cases rec'; auto simp: evolves_def same_terms_def)+
    then show ?thesis using spent rec'(3) order_trans [of "expires_at_slot rec'" "slot clk" "slot clk'"] by auto
  qed
  ultimately show False by (auto simp: spendable_def)
qed

text \<open>
  C4: an authorization executes once: after a successful execution, and however long the
  authorization goes on existing, no execution of it succeeds again, whoever signs and whatever
  proofs are attached.
\<close>

theorem execution_is_one_shot:
  assumes "chain_laws rt pid"
    and "process_execute_action (rt\<lparr>clock_get := Inr clk\<rparr>) pid accounts schema rule rule_hash action amt nonce
      cproof sproof jproof w = Inr w1"
    and "(live_step rt pid (key (accounts ! 1)))\<^sup>*\<^sup>* (clk, w1) (clk', w2)"
    and "key (accounts' ! 1) = key (accounts ! 1)"
  shows "\<not> is_ok (process_execute_action (rt\<lparr>clock_get := Inr clk'\<rparr>) pid accounts' schema' rule' rule_hash'
    action' amt' nonce' cproof' sproof' jproof' w2)"
proof -
  have plat: "platform_laws (rt\<lparr>clock_get := Inr clk\<rparr>) pid" using assms(1) by (simp add: chain_laws_def)
  obtain az rec w0 ex us dw rest where a: "accounts = ex # az # us # dw # rest"
      "account.owner (ledger w (key az)) = pid"
    and cpi: "solend_cpi_block (rt\<lparr>clock_get := Inr clk\<rparr>) rec dw accounts sproof w = Inr w0"
    and led: "ledger w1 = (ledger w0)(key az := (ledger w0 (key az))\<lparr>data :=
        to_bytes (authz_codec rt) (executed rec clk amt nonce)\<rparr>)"
    using assms(2) unfolding execute_Inr [OF plat] by (auto simp: execution_spec_def)
  have "authz_state rt pid (key (accounts ! 1)) w1 = Some (executed rec clk amt nonce)"
    using a foreign_change_own [OF solend_cpi_block_foreign [OF plat cpi] a(2)]
      borsh_fixed.read_written [OF platform_lawsD(5) [OF plat]]
    by (simp add: authz_state_Some led)
  then show ?thesis
    by (rule spent_stays_spent [OF assms(1,3) _ _ assms(4)]) (simp add: executed_def)
qed

text \<open>
  C5: after a successful revocation no execution of that authorization ever succeeds, for as long
  as it exists.
\<close>

theorem revocation_is_final:
  assumes "chain_laws rt pid" and "process_revoke rt pid accounts w = Inr w1"
    and "(live_step rt pid (key (accounts ! 1)))\<^sup>*\<^sup>* (clk, w1) (clk', w2)"
    and "key (accounts' ! 1) = key (accounts ! 1)"
  shows "\<not> is_ok (process_execute_action (rt\<lparr>clock_get := Inr clk'\<rparr>) pid accounts' schema rule rule_hash
    action amt nonce cproof sproof jproof w2)"
proof -
  have plat: "platform_laws rt pid" using assms(1) by (simp add: chain_laws_def)
  obtain us az rest rec where "accounts = us # az # rest" "account.owner (ledger w (key az)) = pid"
    "ledger w1 = (ledger w)(key az := (ledger w (key az))\<lparr>data :=
        to_bytes (authz_codec rt) (rec\<lparr>revoked := True\<rparr>)\<rparr>)"
    by (rule revoke_effect [OF plat assms(2)])
  then have "authz_state rt pid (key (accounts ! 1)) w1 = Some (rec\<lparr>revoked := True\<rparr>)"
    by (simp add: authz_state_Some borsh_fixed.read_written [OF platform_lawsD(5) [OF plat]])
  then show ?thesis by (rule spent_stays_spent [OF assms(1,3) _ _ assms(4)]) simp
qed

text \<open>
  C6: the user is never locked in: on every reachable chain, the instruction the client library
  builds for revoking an existing authorization succeeds when the user signs it, and leaves the
  authorization revoked.
\<close>

theorem user_can_always_revoke:
  assumes "chain_laws rt pid" and "chain_reachable rt pid (clk, w)"
    and "try_from_slice (instruction_codec rt) (to_bytes (instruction_codec rt) Revoke) = Some Revoke"
    and "authz_state rt pid k w = Some rec" and "user rec \<noteq> 0"
    and "ix = revoke_authorization_instruction rt pid (user rec) (AuthorizationRecord.schema_version rec) (rule_id rec)"
  shows "\<exists>w'. process_instruction (rt\<lparr>clock_get := Inr clk\<rparr>) pid (infos_of_metas (ix_accounts ix)) (ix_data ix) w
      = Inr w' \<and> authz_state rt pid k w' = Some (rec\<lparr>revoked := True\<rparr>)"
proof -
  let ?rt = "rt\<lparr>clock_get := Inr clk\<rparr>"
  let ?us = "\<lparr>key = user rec, is_signer = True, is_writable = False\<rparr>"
  let ?az = "\<lparr>key = k, is_signer = False, is_writable = True\<rparr>"
  have plat: "platform_laws ?rt pid" using assms(1) by (simp add: chain_laws_def)
  have home: "fst (derive_authorization_pda rt pid (AuthorizationRecord.schema_version rec) (user rec) (rule_id rec)) = k"
    using reachable_authorization(2) [OF assms(1,2,4)] assms(5) by (simp add: located_def home_of_def)
  have "is_ok (process_revoke ?rt pid [?us, ?az] w)"
    using assms(4) home by (intro revoke_succeeds [OF plat, of clk _ _ _ rec])
      (simp_all add: authz_state_Some derive_authorization_pda_def)
  then obtain w' where run: "process_revoke ?rt pid [?us, ?az] w = Inr w'" by (auto simp: is_ok_iff)
  have "authz_state rt pid k w' = Some (rec\<lparr>revoked := True\<rparr>)"
    using assms(4) by (rule_tac revoke_effect [OF plat run])
      (auto simp: authz_state_Some borsh_fixed.read_written [OF platform_lawsD(5) [OF plat], simplified])
  moreover have "process_instruction ?rt pid (infos_of_metas (ix_accounts ix)) (ix_data ix) w = Inr w'"
    using run assms(3,6) home
    by (simp add: process_instruction_def revoke_authorization_instruction_def builder_simps
        case_prod_unfold)
  ultimately show ?thesis by blast
qed

end
