(* ===== verification/Example_Chain.thy ===== *)
theory Example_Chain
  imports Authority_Lifecycle
begin

text \<open>
  A concrete platform and a concrete history on which the theorems about the authority program are
  applied: a system program that decodes the real layout of its \<open>CreateAccount\<close> instruction, the
  Borsh layouts of the two account types, and one authorization that is created, executed, revoked
  and closed, with a token account whose balance a bracket watches.
\<close>

section \<open>A platform\<close>

definition example_create_account :: "pubkey \<Rightarrow> pubkey \<Rightarrow> u64 \<Rightarrow> u64 \<Rightarrow> pubkey \<Rightarrow> instruction" where
  "example_create_account from to lam space own =
     \<lparr>ix_program_id = system_program_ID, ix_accounts = [AccountMeta_new from True, AccountMeta_new to True],
      ix_data = [0, 0, 0, 0] @ to_le_bytes lam @ to_le_bytes space @ array_bytes own\<rparr>"

definition example_invoke_signed ::
  "instruction \<Rightarrow> account_info list \<Rightarrow> u8 list list list \<Rightarrow> world \<Rightarrow> program_error + world" where
  "example_invoke_signed ix infos seeds w =
     (let from = meta_pubkey (ix_accounts ix ! 0); to = meta_pubkey (ix_accounts ix ! 1);
          lam = from_le_bytes (take 8 (drop 4 (ix_data ix)));
          space = from_le_bytes (take 8 (drop 12 (ix_data ix))) :: u64;
          own = array_of_bytes (drop 20 (ix_data ix))
      in if \<not> unused_account (ledger w to) \<or> lamports (ledger w from) < lam then Inl (Custom 0)
      else Inr (update_account to (\<lambda>_. \<lparr>lamports = lam, data = replicate (unat space) 0, account.owner = own\<rparr>)
        (update_account from (\<lambda>a. a\<lparr>lamports := lamports a - lam\<rparr>) w)))"

definition example_condition :: ProofCondition where
  "example_condition = ProofCondition_Pyth example_pyth_condition example_pyth_snapshot"

definition example_proof :: ConditionProofPayload where
  "example_proof = \<lparr>condition_logic = All_logic, conditions = [example_condition]\<rparr>"

definition example_fixture :: JupiterTokenAccountFixture where
  "example_fixture = \<lparr>address = 30, mint = 40, owner = 22, amount = 250\<rparr>"

definition example_jupiter_proof :: JupiterBoundaryProof where
  "example_jupiter_proof =
     \<lparr>jupiter_program_id = JUPITER_V6_PROGRAM_ID_MAINNET, expected_destination_token_account = 30,
      expected_destination_mint = 40, expected_input_mint = 41, delegated_input_token_account = 31,
      delegated_output_token_account = 32, destination_pre_snapshot = example_fixture,
      destination_post_snapshot = example_fixture, min_output_amount_raw = 5,
      sibling_instructions = [\<lparr>program_id = JUPITER_V6_PROGRAM_ID_MAINNET, variant_byte = 0,
        writable_accounts = [30, 31, 99]\<rparr>]\<rparr>"

definition example_create :: AuthorityInstruction where
  "example_create = CreateAuthorization 1 5 21 22 77 2 1000 30 200"

definition example_execute :: AuthorityInstruction where
  "example_execute = ExecuteAction 1 5 77 2 600 1 example_proof None (Some example_jupiter_proof)"

text \<open>The instructions of the history, told apart by Borsh's variant byte.\<close>

definition example_instruction_codec :: "AuthorityInstruction borsh" where
  "example_instruction_codec =
     \<lparr>to_bytes = (\<lambda>ix. case ix of CreateAuthorization _ _ _ _ _ _ _ _ _ \<Rightarrow> [0] | Revoke \<Rightarrow> [1]
        | CloseAuthorization \<Rightarrow> [2] | ExecuteAction _ _ _ _ _ _ _ _ _ \<Rightarrow> [3]
        | PreJupiterBracketCheck _ \<Rightarrow> [4] | PostJupiterBracketCheck _ \<Rightarrow> [5]),
      try_from_slice = (\<lambda>bs. if bs = [0] then Some example_create else if bs = [1] then Some Revoke
        else if bs = [2] then Some CloseAuthorization else if bs = [3] then Some example_execute else None)\<rparr>"

definition example_clock :: clock where
  "example_clock = \<lparr>slot = 100, unix_timestamp = 1010\<rparr>"

definition example_rt :: authority_runtime where
  "example_rt =
     \<lparr>find_program_address = (\<lambda>seeds pid. (word_of_nat (1000 + length (concat seeds)), 255)),
      clock_get = Inr example_clock, rent_get = Inr (\<lambda>n. word_of_nat (n * 10)),
      create_account = example_create_account,
      invoke = (\<lambda>ix infos w. Inr (sol_log_data [ix_data ix] w)),
      invoke_signed = example_invoke_signed,
      realloc = (\<lambda>bs n. Inr (take n bs @ replicate (n - length bs) 0)), hashv = (\<lambda>_. 0),
      authz_codec = borsh_of authorization_layout, checkpoint_codec = borsh_of checkpoint_layout,
      instruction_codec = example_instruction_codec\<rparr>"

lemma example_create_account_law: "create_account_law example_rt"
  unfolding create_account_law_def
proof (intro allI impI)
  fix src dst lam space own infos seeds and w w' :: world
  assume "invoke_signed example_rt (create_account example_rt src dst lam space own) infos seeds w = Inr w'"
  then have "unused_account (ledger w dst)" and
    "w' = update_account dst (\<lambda>_. \<lparr>lamports = lam, data = replicate (unat space) 0, account.owner = own\<rparr>)
        (update_account src (\<lambda>a. a\<lparr>lamports := lamports a - lam\<rparr>) w)"
    by (auto simp: example_rt_def example_invoke_signed_def example_create_account_def Let_def
        AccountMeta_new_def from_to_le_bytes array_of_array_bytes split: if_splits)
  then show "unused_account (ledger w dst) \<and> logs w' = logs w \<and>
        ledger w' = (ledger w)
          (src := (ledger w src)\<lparr>lamports := lamports (ledger w src) - lam\<rparr>,
           dst := \<lparr>lamports = lam, data = replicate (unat space) 0, account.owner = own\<rparr>)"
    by simp
qed

lemma le_digits_zero: "le_digits n 0 = replicate n 0"
  by (induction n) simp_all

lemma zeros_eq:
  fixes bs :: "u8 list"
  shows "length bs = n \<Longrightarrow> set bs \<subseteq> {0} \<Longrightarrow> bs = replicate n 0"
  by (auto intro: replicate_eqI)

lemma zero_authorization_bytes:
  "to_bytes (borsh_of authorization_layout) zero_authorization = replicate AuthorizationRecord_LEN 0"
proof (rule zeros_eq [OF authorization.fixed.written_length])
  show "set (to_bytes (borsh_of authorization_layout) zero_authorization) \<subseteq> {0}"
    by (simp add: borsh_of_def authorization_layout_def map_layout_def authorization_fields_layout_def
        pair_layout_def word_layout_def array_layout_def bool_layout_def fields_of_authorization_def
        zero_authorization_def fresh_authorization_def to_le_bytes_def array_bytes_def le_digits_zero)
qed

lemma example_zero_law: "zero_law example_rt"
  unfolding zero_law_def
proof (intro allI impI)
  fix bs rec
  assume zeros: "set bs \<subseteq> {0}" and "try_from_slice (authz_codec example_rt) bs = Some rec"
  then have bs: "bs = to_bytes (borsh_of authorization_layout) rec"
    by (simp add: example_rt_def authorization.fixed.read_iff)
  then have "bs = replicate AuthorizationRecord_LEN 0"
    using zeros zeros_eq [OF authorization.fixed.written_length] by blast
  then show "rec = zero_authorization"
    using bs zero_authorization_bytes authorization.fixed.to_bytes_inject by metis
qed

lemma example_chain_laws: "chain_laws example_rt 7"
proof -
  have "pid \<noteq> SOLEND_PROGRAM_ID_MAINNET" if "pid = 7" for pid
    using that by (simp add: SOLEND_PROGRAM_ID_MAINNET_def pubkey_literal)
  moreover have "invoke_law example_rt 7" by (auto simp: invoke_law_def example_rt_def foreign_change_refl)
  moreover have "realloc_law example_rt" by (auto simp: realloc_law_def example_rt_def)
  moreover have "borsh_fixed (authz_codec example_rt) AuthorizationRecord_LEN"
      "borsh_fixed (checkpoint_codec example_rt) JupiterBracketCheckpoint_LEN"
    using authorization.fixed.borsh_fixed_axioms checkpoint.fixed.borsh_fixed_axioms
    by (simp_all add: example_rt_def)
  ultimately show ?thesis
    using example_create_account_law example_zero_law by (simp add: chain_laws_def platform_laws_def)
qed

section \<open>A history\<close>

definition signer :: "pubkey \<Rightarrow> account_info" where
  "signer k = \<lparr>key = k, is_signer = True, is_writable = True\<rparr>"

definition writable :: "pubkey \<Rightarrow> account_info" where
  "writable k = \<lparr>key = k, is_signer = False, is_writable = True\<rparr>"

definition example_token_data :: "u64 \<Rightarrow> u8 list" where
  "example_token_data n = pack_token_prefix \<lparr>DecodedSplTokenAccountLite.mint = 40, owner = 22, amount = n\<rparr> @ replicate 93 0"

definition example_world :: world where
  "example_world = \<lparr>ledger = (\<lambda>k.
       if k = 20 \<or> k = 21 then \<lparr>lamports = 1000000, data = [], owner = system_program_ID\<rparr>
       else if k = 30 then \<lparr>lamports = 2000, data = example_token_data 250, owner = SPL_TOKEN_PROGRAM_ID\<rparr>
       else \<lparr>lamports = 0, data = [], owner = system_program_ID\<rparr>), logs = []\<rparr>"

definition example_record :: AuthorizationRecord where
  "example_record = fresh_authorization 1 5 20 21 22 77 2 1000 30 200 255"

definition with_record :: "AuthorizationRecord \<Rightarrow> world \<Rightarrow> world" where
  "with_record rec w = write_data 1054 (to_bytes (borsh_of authorization_layout) rec) w"

lemma example_pda:
  "find_program_address example_rt [AUTHZ_SEED_PREFIX, [a], array_bytes (b :: pubkey), array_bytes (c :: 128 word)] pid
   = (1054, 255)"
  "derive_authorization_pda example_rt pid a b c = (1054, 255)"
  by (simp_all add: derive_authorization_pda_def authorization_seeds_def example_rt_def AUTHZ_SEED_PREFIX_def
      byte_literal_def)

definition create_accounts :: "account_info list" where
  "create_accounts = [signer 20, writable 1054, writable system_program_ID]"

text \<open>The world after creation, execution, revocation and closing.\<close>

definition created_world :: world where
  "created_world = sol_log_data
     [byte_literal ''authz_created_v1'', array_bytes (5 :: 128 word), array_bytes (20 :: pubkey),
      array_bytes (21 :: pubkey), array_bytes (22 :: pubkey), [2], array_bytes (77 :: 256 word),
      to_le_bytes (1000 :: u64), to_le_bytes (200 :: u64), to_le_bytes (100 :: u64)]
     (with_record example_record
       (update_account 1054 (\<lambda>_. \<lparr>lamports = 2210, data = replicate 221 0, owner = 7\<rparr>)
         (update_account 20 (\<lambda>a. a\<lparr>lamports := lamports a - 2210\<rparr>) example_world)))"

definition executed_world :: world where
  "executed_world = sol_log_data
     [byte_literal ''authz_executed_v1'', array_bytes (5 :: 128 word), array_bytes (20 :: pubkey),
      array_bytes (21 :: pubkey), [2], to_le_bytes (600 :: u64), to_le_bytes (600 :: u64),
      to_le_bytes (1 :: u64), to_le_bytes (100 :: u64)]
     (with_record (executed example_record example_clock 600 1) created_world)"

definition revoked_world :: world where
  "revoked_world = sol_log_data
     [byte_literal ''authz_revoked_v1'', array_bytes (5 :: 128 word), array_bytes (20 :: pubkey),
      to_le_bytes (100 :: u64)]
     (with_record (example_record\<lparr>revoked := True\<rparr>) created_world)"

lemma example_rt_simps [simp]:
  "clock_get example_rt = Inr example_clock" "authz_codec example_rt = borsh_of authorization_layout"
  "checkpoint_codec example_rt = borsh_of checkpoint_layout"
  "instruction_codec example_rt = example_instruction_codec"
  "rent_get example_rt = Inr (\<lambda>n. word_of_nat (n * 10))"
  "slot example_clock = 100" "unix_timestamp example_clock = 1010"
  by (simp_all add: example_rt_def example_clock_def)

lemma example_create_call:
  "invoke_signed example_rt (create_account example_rt src dst lam space own) infos seeds w =
     (if \<not> unused_account (ledger w dst) \<or> lamports (ledger w src) < lam then Inl (Custom 0)
      else Inr (update_account dst (\<lambda>_. \<lparr>lamports = lam, data = replicate (unat space) 0, owner = own\<rparr>)
        (update_account src (\<lambda>a. a\<lparr>lamports := lamports a - lam\<rparr>) w)))"
  by (simp add: example_rt_def example_invoke_signed_def example_create_account_def Let_def
      AccountMeta_new_def from_to_le_bytes array_of_array_bytes)

lemma example_run_create:
  "process_create_authorization example_rt 7 create_accounts 1 5 21 22 77 2 1000 30 200 example_world =
     Inr created_world"
  by (simp add: process_create_authorization_def create_accounts_def signer_def writable_def example_pda
      STAGE2_AUTHORITY_SCHEMA_VERSION_def Stage2ActionType_from_u8_def example_create_call
      example_world_def unused_account_def AuthorizationRecord_LEN_def created_world_def with_record_def
      example_record_def fresh_authorization_def
      authorization.fixed.serialize_account_new [unfolded AuthorizationRecord_LEN_def, simplified])

lemma created_ledger:
  "ledger created_world = (ledger example_world)
     (20 := \<lparr>lamports = 997790, data = [], owner = system_program_ID\<rparr>,
      1054 := \<lparr>lamports = 2210, data = to_bytes (borsh_of authorization_layout) example_record, owner = 7\<rparr>)"
  by (simp add: created_world_def with_record_def example_world_def fun_eq_iff)

lemma example_platform_laws: "platform_laws example_rt 7"
  using example_chain_laws by (simp add: chain_laws_def)

lemma example_condition_true: "evaluate_proof_condition example_clock example_condition = Inr True"
  by (simp add: evaluate_proof_condition_def example_condition_def example_pyth_fires)

lemma example_conditions_hold: "conditions_hold example_clock example_proof"
  by (simp add: conditions_hold_def example_proof_def example_condition_true proof_condition_true_def)

lemma example_admitted:
  "admitted allowed \<lparr>program_id = JUPITER_V6_PROGRAM_ID_MAINNET, variant_byte = b, writable_accounts = ws\<rparr>"
  using jupiter_ids_distinct by (auto simp: admitted_def from_program_id_def)

lemma example_boundaries_hold: "boundaries_hold example_record None (Some example_jupiter_proof)"
proof -
  have "jupiter_boundary_spec example_record example_jupiter_proof"
    unfolding jupiter_boundary_spec_def example_jupiter_proof_def
    by (simp add: example_record_def fresh_authorization_def example_fixture_def is_swap_def example_admitted)
  then show ?thesis by (simp add: boundaries_hold_def example_record_def fresh_authorization_def)
qed

definition execute_accounts :: "account_info list" where
  "execute_accounts = [signer 21, writable 1054, writable 20, writable 22]"

lemma example_execution:
  "execution_spec example_rt 7 execute_accounts 1 5 77 2 600 1 example_proof None (Some example_jupiter_proof)
     created_world executed_world (writable 1054) example_record example_clock created_world"
  unfolding execution_spec_def
  using example_conditions_hold example_boundaries_hold
  by (simp add: execute_accounts_def signer_def writable_def created_ledger example_pda
      authorization.fixed.read_written)
    (simp add: example_record_def fresh_authorization_def record_matches_def spendable_def
      solend_cpi_block_def executed_world_def with_record_def)

lemma example_run_execute:
  "process_execute_action example_rt 7 execute_accounts 1 5 77 2 600 1 example_proof None
     (Some example_jupiter_proof) created_world = Inr executed_world"
  using example_execution by (auto simp: execute_Inr [OF example_platform_laws])

definition user_accounts :: "account_info list" where
  "user_accounts = [signer 20, writable 1054]"

lemma example_run_revoke: "process_revoke example_rt 7 user_accounts created_world = Inr revoked_world"
  by (simp add: process_revoke_def user_accounts_def signer_def writable_def account_of_def created_ledger
      read_account_def authorization.fixed.read_written example_pda
      authorization.fixed.serialize_account_over [of _ _ example_record] revoked_world_def with_record_def)
    (simp add: example_record_def fresh_authorization_def)

section \<open>The theorems on the history\<close>

lemma example_clock_update [simp]: "example_rt\<lparr>clock_get := Inr example_clock\<rparr> = example_rt"
  by (simp add: example_rt_def)

theorem execute_action_exact_witness:
  "\<exists>az rec clk w1. foreign_change 7 (ledger created_world) (ledger w1) \<and>
     execution_spec example_rt 7 execute_accounts 1 5 77 2 600 1 example_proof None
       (Some example_jupiter_proof) created_world executed_world az rec clk w1"
  using execute_action_exact [OF example_platform_laws] example_run_execute by blast

theorem execute_without_substrate_witness: "ledger executed_world 20 = ledger created_world 20"
  using execute_without_substrate [OF example_platform_laws example_run_execute]
  by (simp add: execute_accounts_def writable_def)

text \<open>A proof about another feed and another threshold serves as well.\<close>

definition other_proof :: ConditionProofPayload where
  "other_proof = \<lparr>condition_logic = Any_logic, conditions = [ProofCondition_Pyth
     (example_pyth_condition\<lparr>PythPriceCondition.feed_id := 8, threshold_mantissa := 1\<rparr>)
     (example_pyth_snapshot\<lparr>PythPriceSnapshot.feed_id := 8\<rparr>)]\<rparr>"

lemma other_conditions_hold: "conditions_hold example_clock other_proof"
proof -
  have "verify_pyth_price_condition
      (example_pyth_condition\<lparr>PythPriceCondition.feed_id := 8, threshold_mantissa := 1\<rparr>)
      (example_pyth_snapshot\<lparr>PythPriceSnapshot.feed_id := 8\<rparr>) \<lparr>current_unix_time = 1010\<rparr> = Inr True"
    by (simp add: verify_pyth_price_condition_eq example_pyth_condition_def example_pyth_snapshot_def
        bound_direction_ok_def adverse_price_def exponent_diff_def decimal_def power_int_minus Let_def)
  then show ?thesis
    by (simp add: conditions_hold_def other_proof_def proof_condition_true_def evaluate_proof_condition_def)
qed

theorem condition_proof_interchangeable_witness:
  "process_execute_action example_rt 7 execute_accounts 1 5 77 2 600 1 other_proof None
     (Some example_jupiter_proof) created_world = Inr executed_world"
  by (rule condition_proof_interchangeable [OF example_platform_laws example_run_execute _ other_conditions_hold])
    simp

theorem create_establishes_terms_witness:
  "account.owner (ledger created_world 1054) = 7 \<and>
   try_from_slice (borsh_of authorization_layout) (data (ledger created_world 1054)) = Some example_record"
  using create_establishes_terms [OF example_platform_laws example_run_create]
  by (auto simp: create_accounts_def writable_def signer_def example_pda example_record_def)

theorem create_rejects_duplicate_witness:
  "\<not> is_ok (process_create_authorization example_rt 7 create_accounts 1 5 21 22 77 2 5000 30 200 created_world)"
  by (rule create_rejects_duplicate [OF example_platform_laws])
    (simp add: create_accounts_def writable_def created_ledger unused_account_def)

theorem revoke_idempotent_witness: "process_revoke example_rt 7 user_accounts revoked_world = Inr revoked_world"
  by (rule revoke_idempotent [OF example_platform_laws example_run_revoke])

lemma revoked_ledger:
  "ledger revoked_world = (ledger created_world)(1054 := (ledger created_world 1054)\<lparr>data :=
     to_bytes (borsh_of authorization_layout) (example_record\<lparr>revoked := True\<rparr>)\<rparr>)"
  by (simp add: revoked_world_def with_record_def)

lemma example_run_close: "\<exists>w. process_close_authorization example_rt 7 user_accounts revoked_world = Inr w"
  by (simp add: process_close_authorization_def user_accounts_def signer_def writable_def account_of_def
      revoked_ledger created_ledger read_account_def authorization.fixed.read_written example_pda
      example_record_def fresh_authorization_def checked_add_def)
    (simp add: example_rt_def)

theorem close_pays_user_witness:
  "\<exists>w. process_close_authorization example_rt 7 user_accounts revoked_world = Inr w \<and>
     unat (lamports (ledger w 20)) = 1000000"
proof -
  obtain w where run: "process_close_authorization example_rt 7 user_accounts revoked_world = Inr w"
    using example_run_close by blast
  have "unat (lamports (ledger w 20)) =
      unat (lamports (ledger revoked_world 20)) + unat (lamports (ledger revoked_world 1054))"
    using close_pays_user [OF example_platform_laws run] by (auto simp: user_accounts_def signer_def writable_def)
  then show ?thesis using run by (simp add: revoked_ledger created_ledger)
qed

lemma example_codec [simp]:
  "try_from_slice example_instruction_codec [0] = Some example_create"
  "try_from_slice example_instruction_codec [1] = Some Revoke"
  "try_from_slice example_instruction_codec [3] = Some example_execute"
  "to_bytes example_instruction_codec Revoke = [1]"
  by (simp_all add: example_instruction_codec_def)

lemma example_calls:
  "process_instruction example_rt 7 create_accounts [0] example_world = Inr created_world"
  "process_instruction example_rt 7 execute_accounts [3] created_world = Inr executed_world"
  by (simp_all add: process_instruction_def example_create_def example_execute_def example_run_create
      example_run_execute)

lemma example_steps:
  "chain_step example_rt 7 (signers_of create_accounts) (example_clock, example_world) (example_clock, created_world)"
  "chain_step example_rt 7 (signers_of execute_accounts) (example_clock, created_world) (example_clock, executed_world)"
  using example_calls by (auto intro!: chain_step.call)

lemma example_reachable:
  "chain_reachable example_rt 7 (example_clock, created_world)"
  "chain_reachable example_rt 7 (example_clock, executed_world)"
proof -
  have "chain_init 7 (example_clock, example_world)"
    by (simp add: chain_init_def example_world_def system_program_ID_eq SPL_TOKEN_PROGRAM_ID_def pubkey_literal)
  then show created: "chain_reachable example_rt 7 (example_clock, created_world)"
    unfolding chain_reachable_def using example_steps(1) by (blast intro: reach.intros)
  then show "chain_reachable example_rt 7 (example_clock, executed_world)"
    unfolding chain_reachable_def using example_steps(2) by (blast intro: reach_step)
qed

lemma example_states:
  "authz_state example_rt 7 1054 created_world = Some example_record"
  "authz_state example_rt 7 1054 executed_world = Some (executed example_record example_clock 600 1)"
  by (simp_all add: authz_state_Some created_ledger executed_world_def with_record_def
      authorization.fixed.read_written)

theorem reachable_cap_witness:
  "used_amount_raw (executed example_record example_clock 600 1) \<le> 1000 \<and>
   AuthorizationRecord.execution_nonce (executed example_record example_clock 600 1) = 1"
  using reachable_cap [OF example_chain_laws example_reachable(2) example_states(2)]
  by (simp add: executed_def example_record_def fresh_authorization_def)

theorem instruction_is_lifecycle_step_witness:
  "lifecycle_step (home_of example_rt 7 1054) (signers_of execute_accounts)
     (example_clock, Some example_record) (example_clock, Some (executed example_record example_clock 600 1))"
  using instruction_is_lifecycle_step [OF example_chain_laws _ example_calls(2), of example_clock 1054]
  by (simp add: example_states)

lemma example_live_run: "(live_step example_rt 7 1054)\<^sup>*\<^sup>* (example_clock, created_world) (example_clock, executed_world)"
  using example_steps(2) by (intro r_into_rtranclp) (auto simp: live_step_def example_states)

theorem authorization_terms_immutable_witness:
  "same_terms example_record (executed example_record example_clock 600 1)"
  using authorization_terms_immutable [OF example_chain_laws example_live_run example_states(1)]
  by (simp add: example_states)

theorem execution_is_one_shot_witness:
  "\<not> is_ok (process_execute_action example_rt 7 execute_accounts 1 5 77 2 100 2 example_proof None
     (Some example_jupiter_proof) executed_world)"
  using execution_is_one_shot [OF example_chain_laws, of example_clock, unfolded example_clock_update,
      OF example_run_execute rtranclp.rtrancl_refl refl, of 1 5 77 2 100 2 example_proof None
      "Some example_jupiter_proof"]
  by simp

theorem revocation_is_final_witness:
  "\<not> is_ok (process_execute_action example_rt 7 execute_accounts 1 5 77 2 600 1 example_proof None
     (Some example_jupiter_proof) revoked_world)"
  using revocation_is_final [OF example_chain_laws example_run_revoke rtranclp.rtrancl_refl,
      of execute_accounts example_clock 1 5 77 2 600 1 example_proof None "Some example_jupiter_proof"]
  by (simp add: execute_accounts_def user_accounts_def)

theorem user_can_always_revoke_witness:
  "\<exists>w'. process_instruction example_rt 7
      (infos_of_metas (ix_accounts (revoke_authorization_instruction example_rt 7 20 1 5)))
      (ix_data (revoke_authorization_instruction example_rt 7 20 1 5)) created_world = Inr w' \<and>
    authz_state example_rt 7 1054 w' = Some (example_record\<lparr>revoked := True\<rparr>)"
  using user_can_always_revoke [OF example_chain_laws example_reachable(1) _ example_states(1) _ refl]
  by (simp add: example_record_def fresh_authorization_def)

section \<open>A bracket\<close>

definition example_pre :: "u64 \<Rightarrow> JupiterPreBracketProof" where
  "example_pre m = \<lparr>JupiterPreBracketProof.execution_nonce = 1, destination_token_account = 30,
     expected_destination_mint = 40, min_output_amount_raw = m\<rparr>"

definition example_post :: JupiterPostBracketProof where
  "example_post = \<lparr>JupiterPostBracketProof.execution_nonce = 1, destination_token_account = 30\<rparr>"

definition bracket_accounts :: "account_info list" where
  "bracket_accounts = [signer 21, writable 1054, writable 30, writable 1094, writable system_program_ID]"

definition example_checkpoint :: "u64 \<Rightarrow> JupiterBracketCheckpoint" where
  "example_checkpoint m = \<lparr>JupiterBracketCheckpoint.schema_version = 1, authorization_pda = 1054,
     execution_nonce = 1, destination_token_account = 30, destination_mint = 40, pre_balance = 250,
     min_output_amount_raw = m, consumed = False, bump = 255\<rparr>"

definition pre_world :: "u64 \<Rightarrow> world" where
  "pre_world m = write_data 1094 (to_bytes (borsh_of checkpoint_layout) (example_checkpoint m))
     (update_account 1094 (\<lambda>_. \<lparr>lamports = 1230, data = replicate 123 0, owner = 7\<rparr>)
       (update_account 21 (\<lambda>a. a\<lparr>lamports := lamports a - 1230\<rparr>) created_world))"

text \<open>The swap paid 600 into the destination.\<close>

definition swapped_world :: world where
  "swapped_world = write_data 30 (example_token_data 850) (pre_world 500)"

lemma example_token_decode:
  "decode_spl_token_account_lite (example_token_data n) =
     Inr \<lparr>DecodedSplTokenAccountLite.mint = 40, owner = 22, amount = n\<rparr>"
  unfolding example_token_data_def
  by (simp add: decode_spl_token_account_lite_eq pack_token_prefix_def)

lemma example_checkpoint_pda:
  "derive_jupiter_bracket_checkpoint_pda example_rt pid a n d = (1094, 255)"
  by (simp add: derive_jupiter_bracket_checkpoint_pda_def example_rt_def JUPITER_BRACKET_SEED_PREFIX_def
      byte_literal_def)

lemma example_run_pre:
  "process_pre_jupiter_bracket_check example_rt 7 bracket_accounts (example_pre m) created_world = Inr (pre_world m)"
  by (simp add: process_pre_jupiter_bracket_check_def bracket_accounts_def signer_def writable_def account_of_def
      created_ledger read_account_def authorization.fixed.read_written example_checkpoint_pda example_pre_def
      example_record_def fresh_authorization_def checked_add_def example_world_def example_token_decode
      example_create_call unused_account_def JupiterBracketCheckpoint_LEN_def pre_world_def
      example_checkpoint_def JUPITER_BRACKET_SCHEMA_VERSION_def
      checkpoint.fixed.serialize_account_new [unfolded JupiterBracketCheckpoint_LEN_def, simplified])

lemma swapped_ledger:
  "ledger swapped_world 30 = \<lparr>lamports = 2000, data = example_token_data 850, owner = SPL_TOKEN_PROGRAM_ID\<rparr>"
  "ledger swapped_world 1054 = ledger created_world 1054"
  "ledger swapped_world 1094 =
     \<lparr>lamports = 1230, data = to_bytes (borsh_of checkpoint_layout) (example_checkpoint 500), owner = 7\<rparr>"
  by (simp_all add: swapped_world_def pre_world_def created_ledger example_world_def)

lemma example_run_post:
  "process_post_jupiter_bracket_check example_rt 7 bracket_accounts example_post swapped_world =
     Inr (write_data 1094 (to_bytes (borsh_of checkpoint_layout) ((example_checkpoint 500)\<lparr>consumed := True\<rparr>))
       swapped_world)"
proof -
  have ser: "serialize_account (borsh_of checkpoint_layout) cp 1094 swapped_world =
      Inr (write_data 1094 (to_bytes (borsh_of checkpoint_layout) cp) swapped_world)" for cp
    by (rule checkpoint.fixed.serialize_account_over [of _ _ "example_checkpoint 500"])
      (simp add: swapped_ledger checkpoint.fixed.read_written)
  have rec: "executor example_record = 21" by (simp add: example_record_def fresh_authorization_def)
  have cp: "JupiterBracketCheckpoint.schema_version (example_checkpoint 500) = 1"
      "authorization_pda (example_checkpoint 500) = 1054" "\<not> consumed (example_checkpoint 500)"
      "JupiterBracketCheckpoint.execution_nonce (example_checkpoint 500) = 1"
      "JupiterBracketCheckpoint.destination_token_account (example_checkpoint 500) = 30"
      "destination_mint (example_checkpoint 500) = 40" "pre_balance (example_checkpoint 500) = 250"
      "JupiterBracketCheckpoint.min_output_amount_raw (example_checkpoint 500) = 500"
    by (simp_all add: example_checkpoint_def)
  show ?thesis
    by (simp add: process_post_jupiter_bracket_check_def bracket_accounts_def signer_def writable_def
        account_of_def swapped_ledger created_ledger read_account_def authorization.fixed.read_written
        checkpoint.fixed.read_written example_checkpoint_pda example_post_def example_token_decode
        ser rec cp JUPITER_BRACKET_SCHEMA_VERSION_def checked_sub_def)
qed

lemma bracket_keys: "key (bracket_accounts ! 2) = 30" "key (bracket_accounts ! 3) = 1094"
  by (simp_all add: bracket_accounts_def writable_def)

lemmas example_checkpoint_laws =
  platform_lawsD(1) [OF example_platform_laws] platform_lawsD(6) [OF example_platform_laws]

theorem bracket_guarantees_gain_witness:
  "\<exists>after. decode_spl_token_account_lite (data (ledger swapped_world 30)) = Inr after \<and>
     750 \<le> unat (DecodedSplTokenAccountLite.amount after)"
proof -
  have "data (ledger swapped_world (key (bracket_accounts ! 3))) =
      data (ledger (pre_world 500) (key (bracket_accounts ! 3)))"
    by (simp add: bracket_keys swapped_world_def)
  from bracket_guarantees_gain [OF example_checkpoint_laws example_run_pre [of 500] example_run_post refl this]
  show ?thesis
    by (auto simp: bracket_keys created_ledger example_world_def example_token_decode example_pre_def)
qed

theorem bracket_replay_rejected_witness:
  "\<not> is_ok (process_post_jupiter_bracket_check example_rt 7 bracket_accounts example_post
     (write_data 1094 (to_bytes (borsh_of checkpoint_layout) ((example_checkpoint 500)\<lparr>consumed := True\<rparr>))
       swapped_world))"
  by (rule bracket_replay_rejected [OF example_checkpoint_laws(2) example_run_post refl refl])

theorem bracket_minimum_unconstrained_witness:
  "\<exists>w. process_pre_jupiter_bracket_check example_rt 7 bracket_accounts
      ((example_pre 500)\<lparr>JupiterPreBracketProof.min_output_amount_raw := 0\<rparr>) created_world = Inr w"
  using bracket_minimum_unconstrained [OF example_checkpoint_laws example_run_pre [of 500], of 0] by blast

section \<open>The Solend orchestrator outside the demo tuple\<close>

definition example_substrate :: SolendCpiSubstrate where
  "example_substrate = \<lparr>solend_program = writable 1, pyth_oracle = writable 2, switchboard_oracle = writable 3,
     clock_sysvar = writable 4, extra_oracle = None\<rparr>"

theorem cpi_fail_closed_witness:
  "\<exists>e. try_solend_cpi_skeleton example_rt example_record (signer 22) example_substrate
     (SolendWithdrawAccounts.make (writable 1) (writable 2) (writable 3) (writable 4) (writable 5) (writable 6)
       (writable 7) (writable 8) (writable 9) (signer 22) (signer 22) (writable 12)) []
     \<lparr>SolendWithdrawShadowExpectations.solend_program_id = 0, expected_obligation = 0, expected_reserve = 0,
      expected_lending_market = 0, expected_ctoken_mint = 0, expected_liquidity_mint = 0\<rparr> created_world = Inl e"
proof -
  have "\<not> demo_tuple_spec example_substrate
     \<lparr>SolendWithdrawShadowExpectations.solend_program_id = 0, expected_obligation = 0, expected_reserve = 0,
      expected_lending_market = 0, expected_ctoken_mint = 0, expected_liquidity_mint = 0\<rparr>"
    by (simp add: demo_tuple_spec_def MAINNET_BETA_DEMO_USDC_TUPLE_def example_substrate_def writable_def
        pubkey_literal)
  from cpi_fail_closed [OF this] show ?thesis by blast
qed

end
