(* ===== verification/Intent_Program.thy ===== *)
theory Intent_Program
  imports Borsh State_Machine
begin

text \<open>
  \<^verbatim>\<open>programs/clawsol-intent/src\<close>: the tamper-evidence program. A user records the SHA-256 hash of a
  canonical intent, with an expiry, in an account derived from the user and the intent id; the program
  recomputes the hash over the submitted bytes. The theory models the record and its Borsh layout
  (\<^verbatim>\<open>state.rs\<close>), the errors, the instruction and its builder, and the processor, and proves what a
  recorded intent guarantees and that no instruction can ever change one.
\<close>

section \<open>The code\<close>

datatype IntentError =
    UserMustSign
  | HashMismatch
  | IntentExpired
  | InvalidPda
  | InvalidActionType
  | CanonicalIntentBytesTooLarge

primrec intent_error_code :: "IntentError \<Rightarrow> u32" where
  "intent_error_code UserMustSign = 0"
| "intent_error_code HashMismatch = 1"
| "intent_error_code IntentExpired = 2"
| "intent_error_code InvalidPda = 3"
| "intent_error_code InvalidActionType = 4"
| "intent_error_code CanonicalIntentBytesTooLarge = 5"

definition intent_err :: "IntentError \<Rightarrow> program_error" where
  "intent_err e = Custom (intent_error_code e)"

record IntentRecord =
  schema_version :: u8
  intent_id :: "128 word"
  user :: pubkey
  canonical_intent_hash :: "256 word"
  action_type :: u8
  expires_at_slot :: u64
  created_at_slot :: u64
  bump :: u8

definition IntentRecord_LEN :: nat where
  "IntentRecord_LEN = 1 + 16 + 32 + 32 + 1 + 8 + 8 + 1"

datatype ActionType = SolendDeposit | SolendWithdrawAll | JupiterSwap

definition ActionType_from_u8 :: "u8 \<Rightarrow> ActionType option" where
  "ActionType_from_u8 value =
     (if value = 1 then Some SolendDeposit
      else if value = 2 then Some SolendWithdrawAll
      else if value = 3 then Some JupiterSwap
      else None)"

primrec ActionType_to_u8 :: "ActionType \<Rightarrow> u8" where
  "ActionType_to_u8 SolendDeposit = 1"
| "ActionType_to_u8 SolendWithdrawAll = 2"
| "ActionType_to_u8 JupiterSwap = 3"

datatype IntentInstruction =
  RecordIntent u8 "128 word" "256 word" u8 u64 "u8 list"
    \<comment> \<open>schema version, intent id, hash, action type, expiry, canonical intent bytes\<close>

text \<open>The runtime with the Borsh code derived for the record and the instruction.\<close>

record intent_runtime = runtime +
  intent_codec :: "IntentRecord borsh"
  intent_instruction_codec :: "IntentInstruction borsh"

definition INTENT_SEED_PREFIX :: "u8 list" where
  "INTENT_SEED_PREFIX = byte_literal ''intent''"

definition MAX_CANONICAL_INTENT_BYTES :: nat where
  "MAX_CANONICAL_INTENT_BYTES = 1024"

definition derive_intent_pda :: "'z runtime_scheme \<Rightarrow> pubkey \<Rightarrow> u8 \<Rightarrow> pubkey \<Rightarrow> 128 word \<Rightarrow> pubkey \<times> u8" where
  "derive_intent_pda rt pid schema usr iid =
     find_program_address rt [INTENT_SEED_PREFIX, [schema], array_bytes usr, array_bytes iid] pid"

definition record_intent_instruction ::
  "'z intent_runtime_scheme \<Rightarrow> pubkey \<Rightarrow> pubkey \<Rightarrow> u8 \<Rightarrow> 128 word \<Rightarrow> 256 word \<Rightarrow> u8 \<Rightarrow> u64 \<Rightarrow> u8 list \<Rightarrow>
   instruction" where
  "record_intent_instruction rt pid usr schema iid h action expiry bytes =
     (let (intent_pda, _) = derive_intent_pda rt pid schema usr iid in
      \<lparr>ix_program_id = pid,
       ix_accounts = [AccountMeta_new usr True, AccountMeta_new intent_pda False,
         AccountMeta_new_readonly system_program_ID False],
       ix_data = to_bytes (intent_instruction_codec rt) (RecordIntent schema iid h action expiry bytes)\<rparr>)"

definition process_record_intent ::
  "'z intent_runtime_scheme \<Rightarrow> pubkey \<Rightarrow> account_info list \<Rightarrow> u8 \<Rightarrow> 128 word \<Rightarrow> 256 word \<Rightarrow> u8 \<Rightarrow> u64 \<Rightarrow>
   u8 list \<Rightarrow> world \<Rightarrow> program_error + world" where
  "process_record_intent rt pid accounts schema iid h action expiry bytes w =
     (if length bytes > MAX_CANONICAL_INTENT_BYTES then Inl (intent_err CanonicalIntentBytesTooLarge)
      else if ActionType_from_u8 action = None then Inl (intent_err InvalidActionType)
      else bindE (next_account_info accounts) (\<lambda>(user_account, it).
      bindE (next_account_info it) (\<lambda>(intent_pda_account, it).
      bindE (next_account_info it) (\<lambda>(system_program_account, it).
      if \<not> is_signer user_account then Inl (intent_err UserMustSign)
      else if key system_program_account \<noteq> system_program_ID then Inl IncorrectProgramId
      else let computed = hashv rt [bytes] in
      if computed \<noteq> h then Inl (intent_err HashMismatch)
      else bindE (clock_get rt) (\<lambda>clk.
      if slot clk \<ge> expiry then Inl (intent_err IntentExpired)
      else let (expected_pda, bump) =
             find_program_address rt [INTENT_SEED_PREFIX, [schema], array_bytes (key user_account),
               array_bytes iid] pid
      in if expected_pda \<noteq> key intent_pda_account then Inl (intent_err InvalidPda)
      else bindE (rent_get rt) (\<lambda>minimum_balance.
      let lam = minimum_balance IntentRecord_LEN;
          create_ix = create_account rt (key user_account) (key intent_pda_account) lam
            (of_nat IntentRecord_LEN) pid;
          signer_seeds = [INTENT_SEED_PREFIX, [schema], array_bytes (key user_account),
            array_bytes iid, [bump]]
      in bindE (invoke_signed rt create_ix
           [user_account, intent_pda_account, system_program_account] [signer_seeds] w) (\<lambda>w.
      bindE (serialize_account (intent_codec rt)
        \<lparr>IntentRecord.schema_version = schema, intent_id = iid, user = key user_account,
         canonical_intent_hash = h, action_type = action, expires_at_slot = expiry,
         created_at_slot = slot clk, bump = bump\<rparr> (key intent_pda_account) w) (\<lambda>w.
      Inr (sol_log_data
        [byte_literal ''intent_recorded_v1'', array_bytes iid, array_bytes (key user_account), [action],
         array_bytes h, to_le_bytes expiry, to_le_bytes (slot clk)] w)))))))))"

definition process_intent_instruction ::
  "'z intent_runtime_scheme \<Rightarrow> pubkey \<Rightarrow> account_info list \<Rightarrow> u8 list \<Rightarrow> world \<Rightarrow> program_error + world" where
  "process_intent_instruction rt pid accounts instruction_data w =
     bindE (ok_or (try_from_slice (intent_instruction_codec rt) instruction_data) InvalidInstructionData)
       (\<lambda>ix. case ix of RecordIntent schema iid h action expiry bytes \<Rightarrow>
          process_record_intent rt pid accounts schema iid h action expiry bytes w)"

section \<open>Borsh layout of the record\<close>

type_synonym intent_fields = "u8 \<times> 128 word \<times> pubkey \<times> 256 word \<times> u8 \<times> u64 \<times> u64 \<times> u8"

fun intent_of_fields :: "intent_fields \<Rightarrow> IntentRecord" where
  "intent_of_fields (sv, iid, us, h, act, ex, cr, bu) =
     \<lparr>IntentRecord.schema_version = sv, intent_id = iid, user = us, canonical_intent_hash = h,
      action_type = act, expires_at_slot = ex, created_at_slot = cr, bump = bu\<rparr>"

definition fields_of_intent :: "IntentRecord \<Rightarrow> intent_fields" where
  "fields_of_intent r =
     (schema_version r, intent_id r, user r, canonical_intent_hash r, action_type r, expires_at_slot r,
      created_at_slot r, bump r)"

definition intent_layout :: "IntentRecord layout" where
  "intent_layout = map_layout intent_of_fields fields_of_intent
     (pair_layout word_layout (pair_layout array_layout (pair_layout array_layout
     (pair_layout array_layout (pair_layout word_layout (pair_layout word_layout
     (pair_layout word_layout word_layout)))))))"

interpretation intent: fixed_layout intent_layout IntentRecord_LEN
proof (rule fixed_layout.intro)
  show "borsh_layout intent_layout (\<lambda>_. True)"
    unfolding intent_layout_def
    by (rule map_layout_total, (intro layout_intros; simp)) (auto simp: fields_of_intent_def)
  show "fixed_layout_axioms intent_layout IntentRecord_LEN"
    by unfold_locales (simp add: intent_layout_def fields_of_intent_def IntentRecord_LEN_def layout_lengths)
qed

section \<open>What a successful call did\<close>

definition intent_laws :: "'z intent_runtime_scheme \<Rightarrow> bool" where
  "intent_laws rt \<longleftrightarrow> create_account_law rt \<and> borsh_fixed (intent_codec rt) IntentRecord_LEN"

lemma action_known: "ActionType_from_u8 a \<noteq> None \<longleftrightarrow> a = 1 \<or> a = 2 \<or> a = 3"
  by (simp add: ActionType_from_u8_def)

text \<open>What is guaranteed of a recorded intent at address \<open>k\<close>.\<close>

definition intent_sound :: "'z runtime_scheme \<Rightarrow> pubkey \<Rightarrow> pubkey \<Rightarrow> IntentRecord \<Rightarrow> bool" where
  "intent_sound rt pid k rec \<longleftrightarrow>
     (\<exists>bytes. length bytes \<le> 1024 \<and> hashv rt [bytes] = canonical_intent_hash rec) \<and>
     action_type rec \<in> {1, 2, 3} \<and> created_at_slot rec < expires_at_slot rec \<and>
     derive_intent_pda rt pid (schema_version rec) (user rec) (intent_id rec) = (k, bump rec)"

lemma record_intent_effect:
  assumes laws: "intent_laws rt"
    and run: "process_record_intent rt pid accounts schema iid h action expiry bytes w = Inr w'"
  obtains us pda sy rest clk lam rec where
    "accounts = us # pda # sy # rest" "is_signer us" "clock_get rt = Inr clk"
    "hashv rt [bytes] = h" "length bytes \<le> 1024"
    "rec = \<lparr>IntentRecord.schema_version = schema, intent_id = iid, user = key us, canonical_intent_hash = h,
        action_type = action, expires_at_slot = expiry, created_at_slot = slot clk, bump = bump rec\<rparr>"
    "intent_sound rt pid (key pda) rec" "unused_account (ledger w (key pda))"
    "ledger w' = (ledger w)
       (key us := (ledger w (key us))\<lparr>lamports := lamports (ledger w (key us)) - lam\<rparr>,
        key pda := \<lparr>lamports = lam, data = to_bytes (intent_codec rt) rec, owner = pid\<rparr>)"
proof -
  from run [unfolded process_record_intent_def Let_def] show thesis
  proof (elim success_elims, goal_cases)
    case (1 p us it1 p1 pda it2 p2 sy rest clk q bu mb w1 w2)
    let ?rec = "\<lparr>IntentRecord.schema_version = schema, intent_id = iid, user = key us, canonical_intent_hash = h,
        action_type = action, expires_at_slot = expiry, created_at_slot = slot clk, bump = bu\<rparr>"
    have inv: "invoke_signed rt (create_account rt (key us) (key pda) (mb IntentRecord_LEN) (of_nat IntentRecord_LEN) pid)
        [us, pda, sy] [[INTENT_SEED_PREFIX, [schema], array_bytes (key us), array_bytes iid, [bu]]] w = Inr w1"
      using 1 by simp
    have law: "create_account_law rt" and codec: "borsh_fixed (intent_codec rt) IntentRecord_LEN"
      using laws by (simp_all add: intent_laws_def)
    note cr = create_account_effect [OF law inv]
    have "data (ledger w1 (key pda)) = replicate IntentRecord_LEN 0"
      by (simp add: cr(2) IntentRecord_LEN_def)
    from borsh_fixed.serialize_account_new [OF codec this] 1
    have w': "ledger w' = (ledger w1)(key pda := (ledger w1 (key pda))\<lparr>data := to_bytes (intent_codec rt) ?rec\<rparr>)"
      by auto
    have "intent_sound rt pid (key pda) ?rec"
      using 1 action_known [of action]
      by (auto simp: intent_sound_def derive_intent_pda_def MAX_CANONICAL_INTENT_BYTES_def not_le not_less)
    then show thesis
      using 1 cr(1,2) w'
      by (intro that [of us pda sy rest clk ?rec "mb IntentRecord_LEN"])
        (auto simp: next_account_info_Inr MAX_CANONICAL_INTENT_BYTES_def)
  qed
qed

section \<open>Runs\<close>

inductive intent_step :: "'z intent_runtime_scheme \<Rightarrow> pubkey \<Rightarrow> world \<Rightarrow> world \<Rightarrow> bool" for rt pid where
  others: "foreign_change pid (ledger w) (ledger w') \<Longrightarrow> intent_step rt pid w w'"
| call: "process_intent_instruction (rt\<lparr>clock_get := Inr clk\<rparr>) pid accounts bytes w = Inr w' \<Longrightarrow>
    intent_step rt pid w w'"

definition intent_init :: "pubkey \<Rightarrow> world \<Rightarrow> bool" where
  "intent_init pid w \<longleftrightarrow> (\<forall>k. account.owner (ledger w k) \<noteq> pid)"

definition intent_reachable :: "'z intent_runtime_scheme \<Rightarrow> pubkey \<Rightarrow> world \<Rightarrow> bool" where
  "intent_reachable rt pid = reach (intent_init pid) (intent_step rt pid)"

text \<open>
  A call adds one sound record at an unused address and leaves the data and owner of every other
  account alone.
\<close>

lemma intent_call_effect:
  assumes "intent_laws rt"
    and "process_intent_instruction (rt\<lparr>clock_get := Inr clk\<rparr>) pid accounts bytes w = Inr w'"
  obtains k rec where "intent_sound rt pid k rec" "unused_account (ledger w k)"
    "account.owner (ledger w' k) = pid" "data (ledger w' k) = to_bytes (intent_codec rt) rec"
    "\<And>j. j \<noteq> k \<Longrightarrow> data (ledger w' j) = data (ledger w j) \<and> account.owner (ledger w' j) = account.owner (ledger w j)"
proof -
  have laws: "intent_laws (rt\<lparr>clock_get := Inr clk\<rparr>)"
    using assms(1) by (simp add: intent_laws_def create_account_law_def)
  have sound: "intent_sound (rt\<lparr>clock_get := Inr clk\<rparr>) pid k rec = intent_sound rt pid k rec" for k rec
    by (simp add: intent_sound_def derive_intent_pda_def)
  obtain schema iid h action expiry msg where
    "process_record_intent (rt\<lparr>clock_get := Inr clk\<rparr>) pid accounts schema iid h action expiry msg w = Inr w'"
    using assms(2) unfolding process_intent_instruction_def
    by (elim success_elims) (auto split: IntentInstruction.splits)
  then show thesis
  proof (rule record_intent_effect [OF laws], goal_cases)
    case (1 us pda sy rest clk' lam rec)
    then show thesis using sound by (intro that [of "key pda" rec]) simp_all
  qed
qed

interpretation intent: inductive_invariant "intent_init pid" "intent_step rt pid"
  "\<lambda>w. intent_laws rt \<longrightarrow> (\<forall>k rec. account.owner (ledger w k) = pid \<longrightarrow>
     try_from_slice (intent_codec rt) (data (ledger w k)) = Some rec \<longrightarrow>
     set (data (ledger w k)) \<subseteq> {0} \<or> intent_sound rt pid k rec)"
proof (unfold_locales, goal_cases)
  case (1 w)
  then show ?case by (simp add: intent_init_def)
next
  case (2 w w')
  show ?case
  proof (intro impI allI)
    fix k rec
    assume laws: "intent_laws rt" and own: "account.owner (ledger w' k) = pid"
      and read: "try_from_slice (intent_codec rt) (data (ledger w' k)) = Some rec"
    from 2(2) show "set (data (ledger w' k)) \<subseteq> {0} \<or> intent_sound rt pid k rec"
    proof cases
      case others
      then show ?thesis using own read 2(1) laws by (simp add: foreign_change_def) metis
    next
      case (call clk accounts bytes)
      obtain k0 rec0 where c: "intent_sound rt pid k0 rec0" "data (ledger w' k0) = to_bytes (intent_codec rt) rec0"
        "\<And>j. j \<noteq> k0 \<Longrightarrow> data (ledger w' j) = data (ledger w j) \<and> account.owner (ledger w' j) = account.owner (ledger w j)"
        by (rule intent_call_effect [OF laws call], rule that)
      show ?thesis
      proof (cases "k = k0")
        case True
        have "borsh_fixed (intent_codec rt) IntentRecord_LEN" using laws by (simp add: intent_laws_def)
        then have "rec = rec0" using c(2) read True by (simp add: borsh_fixed.read_written)
        then show ?thesis using c(1) True by simp
      qed (use own read 2(1) laws c(3) in simp)
    qed
  qed
qed

interpretation intent: step_order "\<lambda>w w'. intent_laws rt \<and> intent_step rt pid w w'"
  "\<lambda>w w'. \<forall>k. account.owner (ledger w k) = pid \<and> data (ledger w k) \<noteq> [] \<longrightarrow>
     account.owner (ledger w' k) = pid \<and> data (ledger w' k) = data (ledger w k)"
proof (unfold_locales, goal_cases)
  case (3 w w')
  then have laws: "intent_laws rt" and step: "intent_step rt pid w w'" by simp_all
  show ?case
  proof (intro allI impI)
    fix k
    assume k: "account.owner (ledger w k) = pid \<and> data (ledger w k) \<noteq> []"
    from step show "account.owner (ledger w' k) = pid \<and> data (ledger w' k) = data (ledger w k)"
    proof cases
      case others
      then show ?thesis using k by (simp add: foreign_change_own)
    next
      case (call clk accounts bytes)
      obtain k0 where k0: "unused_account (ledger w k0)"
        "\<And>j. j \<noteq> k0 \<Longrightarrow> data (ledger w' j) = data (ledger w j) \<and> account.owner (ledger w' j) = account.owner (ledger w j)"
        by (rule intent_call_effect [OF laws call], rule that)
      then have "k \<noteq> k0" using k by (auto simp: unused_account_def)
      then show ?thesis using k k0(2) by simp
    qed
  qed
qed auto

section \<open>Properties\<close>

text \<open>
  Recording is tamper-evident: a successful call was signed by the user, the recorded hash is the
  hash of the submitted bytes, the action type is known and the expiry lies in the future, and the
  derived address, unused before, now holds exactly that record.
\<close>

theorem record_intent_tamper_evident:
  assumes "intent_laws rt"
    and "process_record_intent rt pid accounts schema iid h action expiry bytes w = Inr w'"
  shows "\<exists>us pda rest clk rec. accounts = us # pda # rest \<and> is_signer us \<and> clock_get rt = Inr clk \<and>
    hashv rt [bytes] = h \<and> length bytes \<le> 1024 \<and> action \<in> {1, 2, 3} \<and> slot clk < expiry \<and>
    derive_intent_pda rt pid schema (key us) iid = (key pda, bump rec) \<and>
    unused_account (ledger w (key pda)) \<and>
    try_from_slice (intent_codec rt) (data (ledger w' (key pda))) = Some rec \<and>
    canonical_intent_hash rec = h \<and> user rec = key us \<and> created_at_slot rec = slot clk"
proof -
  have codec: "borsh_fixed (intent_codec rt) IntentRecord_LEN" using assms(1) by (simp add: intent_laws_def)
  show ?thesis
  proof (rule record_intent_effect [OF assms], goal_cases)
    case (1 us pda sy rest clk lam rec)
    then have "schema_version rec = schema" "intent_id rec = iid" "user rec = key us" "canonical_intent_hash rec = h"
      "action_type rec = action" "expires_at_slot rec = expiry" "created_at_slot rec = slot clk"
      by (cases rec; simp)+
    with 1 show ?case by (auto simp: intent_sound_def borsh_fixed.read_written [OF codec])
  qed
qed

text \<open>
  A recorded intent is permanent: over any sequence of calls of this program and actions of other
  programs, an account the program owns keeps its owner and its bytes.
\<close>

theorem intents_permanent:
  assumes "intent_laws rt" and "(intent_step rt pid)\<^sup>*\<^sup>* w w'"
    and "account.owner (ledger w k) = pid" and "data (ledger w k) \<noteq> []"
  shows "account.owner (ledger w' k) = pid \<and> data (ledger w' k) = data (ledger w k)"
proof -
  have "(\<lambda>w w'. intent_laws rt \<and> intent_step rt pid w w')\<^sup>*\<^sup>* w w'" using assms(1,2) by simp
  from intent.steps_le [OF this] assms(3,4) show ?thesis by blast
qed

text \<open>
  C40: on every reachable chain, an account of the program that reads as an intent is either all zero
  bytes or holds the hash of some message of at most 1024 bytes, a known action type, an expiry after
  its creation, and sits at the address derived from its own fields.
\<close>

theorem reachable_intents_sound:
  assumes "intent_laws rt" and "intent_reachable rt pid w" and "account.owner (ledger w k) = pid"
    and "try_from_slice (intent_codec rt) (data (ledger w k)) = Some rec"
  shows "set (data (ledger w k)) \<subseteq> {0} \<or> intent_sound rt pid k rec"
  using intent.reach_good [of pid rt w] assms by (simp add: intent_reachable_def)

end
