(* ===== verification/Example_Intent.thy ===== *)
theory Example_Intent
  imports Example_Chain Intent_Program
begin

text \<open>
  One recorded intent on a concrete platform (the system program of \<open>Example_Chain\<close>, a hash that sums
  the bytes), on which the theorems about the intent program are applied.
\<close>

definition intent_rt :: intent_runtime where
  "intent_rt =
     \<lparr>find_program_address = (\<lambda>seeds pid. (word_of_nat (2000 + length (concat seeds)), 255)),
      clock_get = Inr example_clock, rent_get = Inr (\<lambda>n. word_of_nat (n * 10)),
      create_account = example_create_account,
      invoke = (\<lambda>ix infos w. Inr (sol_log_data [ix_data ix] w)),
      invoke_signed = example_invoke_signed,
      realloc = (\<lambda>bs n. Inr (take n bs @ replicate (n - length bs) 0)),
      hashv = (\<lambda>slices. word_of_nat (sum_list (map unat (concat slices)))),
      intent_codec = borsh_of intent_layout,
      intent_instruction_codec =
        \<lparr>to_bytes = (\<lambda>_. [0]),
         try_from_slice = (\<lambda>bs. if bs = [0] then Some (RecordIntent 1 5 60 3 200 [10, 20, 30]) else None)\<rparr>\<rparr>"

lemma intent_rt_simps [simp]:
  "clock_get intent_rt = Inr example_clock" "intent_codec intent_rt = borsh_of intent_layout"
  "rent_get intent_rt = Inr (\<lambda>n. word_of_nat (n * 10))" "hashv intent_rt [[10, 20, 30]] = 60"
  "intent_rt\<lparr>clock_get := Inr example_clock\<rparr> = intent_rt"
  by (simp_all add: intent_rt_def)

lemma intent_rt_laws: "intent_laws intent_rt"
proof -
  have "create_account_law intent_rt \<longleftrightarrow> create_account_law example_rt"
    by (simp add: create_account_law_def intent_rt_def example_rt_def)
  then show ?thesis
    using example_create_account_law intent.fixed.borsh_fixed_axioms by (simp add: intent_laws_def)
qed

lemma intent_create_call:
  "invoke_signed intent_rt (create_account intent_rt src dst lam space own) infos seeds w =
     invoke_signed example_rt (create_account example_rt src dst lam space own) infos seeds w"
  by (simp add: intent_rt_def example_rt_def)

lemma intent_pda:
  "find_program_address intent_rt [INTENT_SEED_PREFIX, [a], array_bytes (b :: pubkey), array_bytes (c :: 128 word)] pid
   = (2055, 255)"
  by (simp add: intent_rt_def INTENT_SEED_PREFIX_def byte_literal_def)

definition intent_accounts :: "account_info list" where
  "intent_accounts = [signer 20, writable 2055, writable system_program_ID]"

definition example_intent :: IntentRecord where
  "example_intent = \<lparr>IntentRecord.schema_version = 1, intent_id = 5, user = 20, canonical_intent_hash = 60,
     action_type = 3, expires_at_slot = 200, created_at_slot = 100, bump = 255\<rparr>"

definition recorded_world :: world where
  "recorded_world = sol_log_data
     [byte_literal ''intent_recorded_v1'', array_bytes (5 :: 128 word), array_bytes (20 :: pubkey), [3],
      array_bytes (60 :: 256 word), to_le_bytes (200 :: u64), to_le_bytes (100 :: u64)]
     (write_data 2055 (to_bytes (borsh_of intent_layout) example_intent)
       (update_account 2055 (\<lambda>_. \<lparr>lamports = 990, data = replicate 99 0, owner = 7\<rparr>)
         (update_account 20 (\<lambda>a. a\<lparr>lamports := lamports a - 990\<rparr>) example_world)))"

lemma intent_run:
  "process_record_intent intent_rt 7 intent_accounts 1 5 60 3 200 [10, 20, 30] example_world = Inr recorded_world"
  by (simp add: process_record_intent_def intent_accounts_def signer_def writable_def intent_pda
      MAX_CANONICAL_INTENT_BYTES_def ActionType_from_u8_def intent_create_call example_create_call
      example_world_def unused_account_def IntentRecord_LEN_def recorded_world_def example_intent_def
      intent.fixed.serialize_account_new [unfolded IntentRecord_LEN_def, simplified])

lemma intent_call:
  "process_intent_instruction intent_rt 7 intent_accounts [0] example_world = Inr recorded_world"
proof -
  have "try_from_slice (intent_instruction_codec intent_rt) [0] = Some (RecordIntent 1 5 60 3 200 [10, 20, 30])"
    by (simp add: intent_rt_def)
  then show ?thesis by (simp add: process_intent_instruction_def intent_run)
qed

lemma recorded_account:
  "ledger recorded_world 2055 =
     \<lparr>lamports = 990, data = to_bytes (borsh_of intent_layout) example_intent, owner = 7\<rparr>"
  by (simp add: recorded_world_def)

theorem record_intent_tamper_evident_witness:
  "\<exists>rec. try_from_slice (borsh_of intent_layout) (data (ledger recorded_world 2055)) = Some rec \<and>
     canonical_intent_hash rec = 60 \<and> IntentRecord.user rec = 20"
  using record_intent_tamper_evident [OF intent_rt_laws intent_run]
  by (auto simp: intent_accounts_def writable_def signer_def)

theorem reachable_intents_sound_witness: "intent_sound intent_rt 7 2055 example_intent"
proof -
  have "intent_init 7 example_world"
    by (simp add: intent_init_def example_world_def system_program_ID_eq SPL_TOKEN_PROGRAM_ID_def pubkey_literal)
  moreover have "intent_step intent_rt 7 example_world recorded_world"
    using intent_call by (intro intent_step.call [where clk = example_clock]) simp
  ultimately have "intent_reachable intent_rt 7 recorded_world"
    unfolding intent_reachable_def by (blast intro: reach.intros)
  from reachable_intents_sound [OF intent_rt_laws this, of 2055 example_intent]
  have "set (to_bytes (borsh_of intent_layout) example_intent) \<subseteq> {0} \<or> intent_sound intent_rt 7 2055 example_intent"
    by (simp add: recorded_account intent.fixed.read_written)
  moreover have "\<not> set (to_bytes (borsh_of intent_layout) example_intent) \<subseteq> {0}"
    by (simp add: borsh_of_def intent_layout_def map_layout_def pair_layout_def word_layout_def
        fields_of_intent_def example_intent_def to_le_bytes_def)
  ultimately show ?thesis by blast
qed

text \<open>Another program grants the user lamports; the record stays.\<close>

theorem intents_permanent_witness:
  "data (ledger (update_account 20 (\<lambda>a. a\<lparr>lamports := 5\<rparr>) recorded_world) 2055) =
     to_bytes (borsh_of intent_layout) example_intent"
proof -
  have "intent_step intent_rt 7 recorded_world (update_account 20 (\<lambda>a. a\<lparr>lamports := 5\<rparr>) recorded_world)"
    by (rule intent_step.others) (simp add: foreign_change_def)
  then have run: "(intent_step intent_rt 7)\<^sup>*\<^sup>* recorded_world (update_account 20 (\<lambda>a. a\<lparr>lamports := 5\<rparr>) recorded_world)"
    by (rule r_into_rtranclp)
  have "to_bytes (borsh_of intent_layout) example_intent \<noteq> []"
    using intent.fixed.written_length [of example_intent] by (auto simp: IntentRecord_LEN_def)
  then show ?thesis
    using intents_permanent [OF intent_rt_laws run, of 2055] by (simp add: recorded_account)
qed

end
