(* ===== verification/Sql_Table.thy ===== *)
theory Sql_Table
  imports Prelude
begin

text \<open>
  What the repositories of \<open>state-store\<close> use of SQLite. A table is the list of its rows in
  insertion order; one statement is atomic, so a statement that the driver reports as failed
  leaves the table as it was. Every statement takes the driver's verdict as an argument
  (\<open>None\<close>: it ran). An \<open>INTEGER\<close> column holds an \<open>i64\<close>, compared as a signed number.

  The locale \<open>cas_update\<close> is the interface of a compare-and-swap \<open>UPDATE\<close>: its \<open>WHERE\<close>
  clause names one primary key and its \<open>SET\<close> clause keeps the key. On a table with distinct
  keys such a statement hits at most one row and reports 1 exactly when it hit it.
\<close>

section \<open>Errors\<close>

text \<open>
  \<open>sqlx::Error\<close> is opaque but for the constraint violation of a duplicate primary key. The
  message of an integrity error is kept as the values it is formatted from.
\<close>

datatype sqlx_error = UniqueViolation | DriverError string

datatype integrity_failure =
    UnknownStatus string string
  | AmountOutOfRange i64
  | HexOddLength nat
  | InvalidHexChar u8
  | HashLength nat
  | CanonicalHashDrift string string string
  | RuleIdDrift string string
  | UnknownRuleStatus string
  | UnknownActionType string
  | UnknownConditionLogic string

datatype StoreError =
    Sqlx sqlx_error
  | Migration string
  | Serialization string
  | NotFound string string
  | IntegrityCheckFailed integrity_failure

type_synonym verdict = "sqlx_error option"

section \<open>Statements\<close>

definition sql_update ::
  "verdict \<Rightarrow> ('r \<Rightarrow> bool) \<Rightarrow> ('r \<Rightarrow> 'r) \<Rightarrow> 'r list \<Rightarrow> (StoreError + nat) \<times> 'r list" where
  "sql_update v w s t = (case v of
     Some e \<Rightarrow> (Inl (Sqlx e), t)
   | None \<Rightarrow> (Inr (length (filter w t)), map (\<lambda>r. if w r then s r else r) t))"

definition sql_insert ::
  "verdict \<Rightarrow> ('r \<Rightarrow> 'k) \<Rightarrow> 'r \<Rightarrow> 'r list \<Rightarrow> (StoreError + unit) \<times> 'r list" where
  "sql_insert v key r t = (case v of
     Some e \<Rightarrow> (Inl (Sqlx e), t)
   | None \<Rightarrow>
       (if key r \<in> key ` set t then (Inl (Sqlx UniqueViolation), t) else (Inr (), t @ [r])))"

text \<open>\<open>ORDER BY\<close> with equal keys keeps insertion order; the columns sorted by are \<open>i64\<close>.\<close>

definition sql_select_all ::
  "verdict \<Rightarrow> ('r \<Rightarrow> bool) \<Rightarrow> ('r \<Rightarrow> int) \<Rightarrow> nat \<Rightarrow> 'r list \<Rightarrow> StoreError + 'r list" where
  "sql_select_all v w ord cnt t = (case v of
     Some e \<Rightarrow> Inl (Sqlx e)
   | None \<Rightarrow> Inr (take cnt (sort_key ord (filter w t))))"

definition sql_select_optional ::
  "verdict \<Rightarrow> ('r \<Rightarrow> bool) \<Rightarrow> 'r list \<Rightarrow> StoreError + 'r option" where
  "sql_select_optional v w t = (case v of
     Some e \<Rightarrow> Inl (Sqlx e)
   | None \<Rightarrow> Inr (List.find w t))"

text \<open>\<open>rows.into_iter().map(f).collect::<Result<Vec<_>, _>>()\<close>: the first error wins.\<close>

fun collectE :: "('a \<Rightarrow> 'e + 'b) \<Rightarrow> 'a list \<Rightarrow> 'e + 'b list" where
  "collectE f [] = Inr []"
| "collectE f (x # xs) = bindE (f x) (\<lambda>y. bindE (collectE f xs) (\<lambda>ys. Inr (y # ys)))"

lemma collectE_Inr [ok_simps]:
  "collectE f xs = Inr ys \<longleftrightarrow> list_all2 (\<lambda>x y. f x = Inr y) xs ys"
proof (induction xs arbitrary: ys)
  case (Cons x xs)
  show ?case by (cases ys) (auto simp: bindE_Inr Cons.IH)
qed auto

lemma collectE_ok: "(\<And>x. x \<in> set xs \<Longrightarrow> is_ok (f x)) \<Longrightarrow> is_ok (collectE f xs)"
  by (induction xs) (auto simp: is_ok_iff bindE_Inr)

section \<open>What a statement does to a table\<close>

definition keyed :: "('r \<Rightarrow> 'k) \<Rightarrow> 'r list \<Rightarrow> bool" where
  "keyed key t \<longleftrightarrow> distinct (map key t)"

lemma keyed_Nil [simp]: "keyed key []"
  by (simp add: keyed_def)

lemma sql_update_table:
  "snd (sql_update v w s t) = (if v = None then map (\<lambda>r. if w r then s r else r) t else t)"
  by (simp add: sql_update_def split: option.split)

lemma sql_update_Inr:
  "fst (sql_update v w s t) = Inr n \<longleftrightarrow> v = None \<and> n = length (filter w t)"
  by (auto simp: sql_update_def split: option.split)

lemma sql_update_zero:
  assumes "fst (sql_update v w s t) = Inr 0"
  shows "snd (sql_update v w s t) = t"
proof -
  have "v = None" and "filter w t = []" using assms by (auto simp: sql_update_Inr)
  then show ?thesis
    by (auto simp: sql_update_table filter_empty_conv intro: map_idI)
qed

lemma sql_update_error:
  "fst (sql_update v w s t) = Inl e \<Longrightarrow> snd (sql_update v w s t) = t"
  by (auto simp: sql_update_def split: option.splits)

lemma sql_insert_table:
  "snd (sql_insert v key r t) = (if v = None \<and> key r \<notin> key ` set t then t @ [r] else t)"
  by (simp add: sql_insert_def split: option.split)

lemma sql_insert_keyed: "keyed key t \<Longrightarrow> keyed key (snd (sql_insert v key r t))"
  by (auto simp: sql_insert_table keyed_def)

lemma sql_select_all_Inr [ok_simps]:
  "sql_select_all v w ord cnt t = Inr rs \<longleftrightarrow> v = None \<and> rs = take cnt (sort_key ord (filter w t))"
  by (auto simp: sql_select_all_def split: option.splits)

lemma sql_select_all_rows:
  assumes "sql_select_all v w ord cnt t = Inr rs"
  shows "set rs \<subseteq> {r \<in> set t. w r}" and "length rs \<le> cnt" and "sorted (map ord rs)"
proof -
  have rs: "rs = take cnt (sort_key ord (filter w t))" using assms by (simp add: ok_simps)
  show "set rs \<subseteq> {r \<in> set t. w r}"
    unfolding rs using set_take_subset [of cnt "sort_key ord (filter w t)"] by auto
  show "length rs \<le> cnt" by (simp add: rs)
  show "sorted (map ord rs)" by (simp add: rs take_map [symmetric] sorted_wrt_take)
qed

lemma find_SomeD: "List.find P xs = Some x \<Longrightarrow> x \<in> set xs \<and> P x"
  by (auto simp: find_Some_iff)

lemma keyed_find:
  assumes "keyed key t" and "r \<in> set t"
  shows "List.find (\<lambda>x. key x = key r) t = Some r"
  using assms by (induction t) (auto simp: keyed_def)

lemma keyed_unique: "keyed key t \<Longrightarrow> r \<in> set t \<Longrightarrow> r' \<in> set t \<Longrightarrow> key r = key r' \<Longrightarrow> r = r'"
  unfolding keyed_def distinct_map by (auto dest: inj_onD)

lemma keyed_filter_le_1:
  assumes "keyed key t" and "\<And>r. w r \<Longrightarrow> key r = k"
  shows "length (filter w t) \<le> 1"
  using assms(1)
proof (induction t)
  case (Cons r t)
  have "filter w t = []" if "w r"
    using that Cons.prems assms(2) by (force simp: keyed_def filter_empty_conv)
  then show ?case using Cons by (auto simp: keyed_def)
qed simp

section \<open>Compare-and-swap\<close>

locale cas_update =
  fixes key :: "'r \<Rightarrow> 'k" and k :: 'k and w :: "'r \<Rightarrow> bool" and s :: "'r \<Rightarrow> 'r"
  assumes where_key: "w r \<Longrightarrow> key r = k"
    and set_key: "key (s r) = key r"
begin

lemma cas_keys: "map key (snd (sql_update v w s t)) = map key t"
  by (auto simp: sql_update_table set_key)

lemma cas_keyed: "keyed key (snd (sql_update v w s t)) \<longleftrightarrow> keyed key t"
  by (simp only: keyed_def cas_keys)

lemma cas_at_most_one: "keyed key t \<Longrightarrow> fst (sql_update v w s t) = Inr n \<Longrightarrow> n \<le> 1"
  using keyed_filter_le_1 [of key t w k] where_key by (auto simp: sql_update_Inr)

lemma cas_won:
  assumes "keyed key t"
  shows "fst (sql_update v w s t) = Inr 1 \<longleftrightarrow> v = None \<and> (\<exists>r \<in> set t. w r)"
proof -
  have "length (filter w t) = 1 \<longleftrightarrow> filter w t \<noteq> []"
    using keyed_filter_le_1 [of key t w k, OF assms where_key] by (cases "filter w t") auto
  then show ?thesis by (auto simp: sql_update_Inr filter_empty_conv)
qed

lemma cas_other_rows: "r \<in> set t \<Longrightarrow> key r \<noteq> k \<Longrightarrow> r \<in> set (snd (sql_update v w s t))"
  using where_key by (auto simp: sql_update_table image_iff intro!: bexI [of _ r])

text \<open>On a table written out around the row of the key.\<close>

lemma cas_split:
  assumes "\<forall>x \<in> set (xs @ ys). key x \<noteq> k"
  shows "sql_update None w s (xs @ r # ys) =
    (Inr (if w r then 1 else 0), xs @ (if w r then s r else r) # ys)"
proof -
  have idle: "\<not> w x" if "x \<in> set (xs @ ys)" for x using assms that where_key by blast
  then have "filter w xs = []" "filter w ys = []" by (auto simp: filter_empty_conv)
  moreover have "map (\<lambda>r. if w r then s r else r) xs = xs" "map (\<lambda>r. if w r then s r else r) ys = ys"
    using idle by (auto intro: map_idI)
  ultimately show ?thesis by (simp add: sql_update_def)
qed

lemma cas_find:
  "List.find (\<lambda>x. key x = j) (snd (sql_update v w s t)) =
   map_option (\<lambda>r. if v = None \<and> w r then s r else r) (List.find (\<lambda>x. key x = j) t)"
  by (induction t) (auto simp: sql_update_table set_key)

end

end
