(* ===== verification/Funding_Store.thy ===== *)
theory Funding_Store
  imports Sql_Table
begin

text \<open>
  \<open>crates/state-store/src/stage2_w5h_funding.rs\<close>: the durable table of chat-budget funding
  intents. A row has the columns of \<open>RowRaw\<close>; every transition is one \<open>UPDATE\<close> whose
  \<open>WHERE\<close> and \<open>SET\<close> clauses are definitions of their own (\<open>..._where\<close>, \<open>..._set\<close>).
  \<open>Utc::now()\<close> is the argument \<open>now\<close>. Each transition is an instance of the compare-and-swap
  interface.
\<close>

section \<open>Status strings\<close>

definition FUNDING_REQUIRED :: string where "FUNDING_REQUIRED = ''funding_required''"
definition FUNDING_SUBMITTED :: string where "FUNDING_SUBMITTED = ''funding_submitted''"
definition FUNDING_INVALID :: string where "FUNDING_INVALID = ''funding_invalid''"
definition BUDGET_RESERVED :: string where "BUDGET_RESERVED = ''budget_reserved''"
definition EXECUTING :: string where "EXECUTING = ''executing''"
definition COMPLETED :: string where "COMPLETED = ''completed''"
definition EXPIRED :: string where "EXPIRED = ''expired''"
definition REFUNDING :: string where "REFUNDING = ''refunding''"
definition REFUNDED :: string where "REFUNDED = ''refunded''"
definition FAILED :: string where "FAILED = ''failed''"

lemmas status_consts = FUNDING_REQUIRED_def FUNDING_SUBMITTED_def FUNDING_INVALID_def
  BUDGET_RESERVED_def EXECUTING_def COMPLETED_def EXPIRED_def REFUNDING_def REFUNDED_def FAILED_def

datatype W5hIntentStatus =
    FundingRequired | FundingSubmitted | FundingInvalid | BudgetReserved | Executing
  | Completed | Expired | Refunding | Refunded | Failed

fun status_as_str :: "W5hIntentStatus \<Rightarrow> string" where
  "status_as_str FundingRequired = FUNDING_REQUIRED"
| "status_as_str FundingSubmitted = FUNDING_SUBMITTED"
| "status_as_str FundingInvalid = FUNDING_INVALID"
| "status_as_str BudgetReserved = BUDGET_RESERVED"
| "status_as_str Executing = EXECUTING"
| "status_as_str Completed = COMPLETED"
| "status_as_str Expired = EXPIRED"
| "status_as_str Refunding = REFUNDING"
| "status_as_str Refunded = REFUNDED"
| "status_as_str Failed = FAILED"

definition status_parse :: "string \<Rightarrow> W5hIntentStatus option" where
  "status_parse s =
    (if s = FUNDING_REQUIRED then Some FundingRequired
     else if s = FUNDING_SUBMITTED then Some FundingSubmitted
     else if s = FUNDING_INVALID then Some FundingInvalid
     else if s = BUDGET_RESERVED then Some BudgetReserved
     else if s = EXECUTING then Some Executing
     else if s = COMPLETED then Some Completed
     else if s = EXPIRED then Some Expired
     else if s = REFUNDING then Some Refunding
     else if s = REFUNDED then Some Refunded
     else if s = FAILED then Some Failed
     else None)"

fun is_terminal :: "W5hIntentStatus \<Rightarrow> bool" where
  "is_terminal FundingInvalid = True"
| "is_terminal Completed = True"
| "is_terminal Refunded = True"
| "is_terminal Failed = True"
| "is_terminal _ = False"

lemma status_parse_as_str [simp]: "status_parse (status_as_str st) = Some st"
  by (cases st) (simp_all add: status_parse_def status_consts)

lemma status_parse_Some: "status_parse s = Some st \<longleftrightarrow> s = status_as_str st"
proof
  assume "status_parse s = Some st"
  then show "s = status_as_str st" by (auto simp: status_parse_def split: if_splits)
qed simp

lemma status_as_str_inj [simp]: "status_as_str a = status_as_str b \<longleftrightarrow> a = b"
  by (metis option.inject status_parse_as_str)

declare status_as_str.simps [simp del]

lemmas status_lits [simp] = status_as_str.simps [symmetric]

section \<open>Rows\<close>

record RowRaw =
  row_intent_id :: string
  row_rule_id_hex :: string
  row_canonical_rule_hash_hex :: string
  row_user_wallet :: string
  row_user_usdc_ata :: string
  row_controlled_wallet :: string
  row_controlled_usdc_ata :: string
  row_amount_raw :: i64
  row_threshold_bps :: i64
  row_save_display_apy_bps :: i64
  row_native_onchain_apr_bps :: i64
  row_created_at_ms :: i64
  row_expires_at_ms :: i64
  row_status :: string
  row_funding_signature :: "string option"
  row_funding_finalized_slot :: "i64 option"
  row_execution_signature :: "string option"
  row_refund_signature :: "string option"
  row_last_error :: "string option"
  row_updated_at_ms :: i64

record W5hFundingIntent =
  intent_id :: string
  rule_id_hex :: string
  canonical_rule_hash_hex :: string
  user_wallet :: string
  user_usdc_ata :: string
  controlled_wallet :: string
  controlled_usdc_ata :: string
  amount_raw :: u64
  threshold_bps :: u32
  save_display_apy_bps_at_creation :: u32
  native_onchain_apr_bps_at_creation :: u32
  created_at_ms :: i64
  expires_at_ms :: i64
  status :: W5hIntentStatus
  funding_signature :: "string option"
  funding_finalized_slot :: "u64 option"
  execution_signature :: "string option"
  refund_signature :: "string option"
  last_error :: "string option"
  updated_at_ms :: i64

record NewW5hFundingIntent =
  new_intent_id :: string
  new_rule_id_hex :: string
  new_canonical_rule_hash_hex :: string
  new_user_wallet :: string
  new_user_usdc_ata :: string
  new_controlled_wallet :: string
  new_controlled_usdc_ata :: string
  new_amount_raw :: u64
  new_threshold_bps :: u32
  new_save_display_apy_bps :: u32
  new_native_onchain_apr_bps :: u32
  new_created_at_ms :: i64
  new_expires_at_ms :: i64

type_synonym funding_db = "RowRaw list"

text \<open>\<open>amount_raw.try_into::<u64>()\<close> refuses a negative \<open>i64\<close>; \<open>as u32\<close> keeps the low bits.\<close>

definition row_to_intent :: "RowRaw \<Rightarrow> StoreError + W5hFundingIntent" where
  "row_to_intent r =
    bindE (ok_or (status_parse (row_status r))
             (IntegrityCheckFailed (UnknownStatus (row_status r) (row_intent_id r)))) (\<lambda>st.
    if sint (row_amount_raw r) < 0 then
      Inl (IntegrityCheckFailed (AmountOutOfRange (row_amount_raw r)))
    else Inr \<lparr>
      intent_id = row_intent_id r,
      rule_id_hex = row_rule_id_hex r,
      canonical_rule_hash_hex = row_canonical_rule_hash_hex r,
      user_wallet = row_user_wallet r,
      user_usdc_ata = row_user_usdc_ata r,
      controlled_wallet = row_controlled_wallet r,
      controlled_usdc_ata = row_controlled_usdc_ata r,
      amount_raw = row_amount_raw r,
      threshold_bps = ucast (row_threshold_bps r),
      save_display_apy_bps_at_creation = ucast (row_save_display_apy_bps r),
      native_onchain_apr_bps_at_creation = ucast (row_native_onchain_apr_bps r),
      created_at_ms = row_created_at_ms r,
      expires_at_ms = row_expires_at_ms r,
      status = st,
      funding_signature = row_funding_signature r,
      funding_finalized_slot = row_funding_finalized_slot r,
      execution_signature = row_execution_signature r,
      refund_signature = row_refund_signature r,
      last_error = row_last_error r,
      updated_at_ms = row_updated_at_ms r\<rparr>)"

section \<open>Insert and queries\<close>

definition new_row :: "i64 \<Rightarrow> NewW5hFundingIntent \<Rightarrow> RowRaw" where
  "new_row now i = \<lparr>
     row_intent_id = new_intent_id i,
     row_rule_id_hex = new_rule_id_hex i,
     row_canonical_rule_hash_hex = new_canonical_rule_hash_hex i,
     row_user_wallet = new_user_wallet i,
     row_user_usdc_ata = new_user_usdc_ata i,
     row_controlled_wallet = new_controlled_wallet i,
     row_controlled_usdc_ata = new_controlled_usdc_ata i,
     row_amount_raw = new_amount_raw i,
     row_threshold_bps = ucast (new_threshold_bps i),
     row_save_display_apy_bps = ucast (new_save_display_apy_bps i),
     row_native_onchain_apr_bps = ucast (new_native_onchain_apr_bps i),
     row_created_at_ms = new_created_at_ms i,
     row_expires_at_ms = new_expires_at_ms i,
     row_status = FUNDING_REQUIRED,
     row_funding_signature = None,
     row_funding_finalized_slot = None,
     row_execution_signature = None,
     row_refund_signature = None,
     row_last_error = None,
     row_updated_at_ms = now\<rparr>"

definition insert_intent ::
  "verdict \<Rightarrow> i64 \<Rightarrow> NewW5hFundingIntent \<Rightarrow> funding_db \<Rightarrow> (StoreError + unit) \<times> funding_db" where
  "insert_intent v now i db = sql_insert v row_intent_id (new_row now i) db"

definition get_intent ::
  "verdict \<Rightarrow> string \<Rightarrow> funding_db \<Rightarrow> StoreError + W5hFundingIntent option" where
  "get_intent v iid db =
    bindE (sql_select_optional v (\<lambda>r. row_intent_id r = iid) db) (\<lambda>row.
    case row of
      None \<Rightarrow> Inr None
    | Some r \<Rightarrow> bindE (row_to_intent r) (\<lambda>i. Inr (Some i)))"

definition list_eligible_for_refund ::
  "verdict \<Rightarrow> i64 \<Rightarrow> u32 \<Rightarrow> funding_db \<Rightarrow> StoreError + W5hFundingIntent list" where
  "list_eligible_for_refund v now limit db =
    (if limit = 0 then Inr []
     else bindE (sql_select_all v
       (\<lambda>r. sint (row_expires_at_ms r) \<le> sint now
          \<and> row_status r \<in> {BUDGET_RESERVED, EXPIRED})
       (\<lambda>r. sint (row_created_at_ms r)) (unat limit) db) (collectE row_to_intent))"

definition list_budget_reserved ::
  "verdict \<Rightarrow> u32 \<Rightarrow> funding_db \<Rightarrow> StoreError + W5hFundingIntent list" where
  "list_budget_reserved v limit db =
    (if limit = 0 then Inr []
     else bindE (sql_select_all v (\<lambda>r. row_status r = BUDGET_RESERVED)
       (\<lambda>r. sint (row_created_at_ms r)) (unat limit) db) (collectE row_to_intent))"

section \<open>Transitions\<close>

subsection \<open>The \<open>WHERE\<close> clauses\<close>

definition submitted_where :: "string \<Rightarrow> string \<Rightarrow> RowRaw \<Rightarrow> bool" where
  "submitted_where iid sig r \<longleftrightarrow> row_intent_id r = iid
     \<and> (row_status r = FUNDING_REQUIRED
        \<or> (row_status r = FUNDING_SUBMITTED
           \<and> (row_funding_signature r = None \<or> row_funding_signature r = Some sig)))"

definition verified_where :: "string \<Rightarrow> string \<Rightarrow> RowRaw \<Rightarrow> bool" where
  "verified_where iid sig r \<longleftrightarrow> row_intent_id r = iid
     \<and> row_status r = FUNDING_SUBMITTED \<and> row_funding_signature r = Some sig"

definition lease_execution_where :: "string \<Rightarrow> i64 \<Rightarrow> RowRaw \<Rightarrow> bool" where
  "lease_execution_where iid now r \<longleftrightarrow> row_intent_id r = iid
     \<and> row_status r = BUDGET_RESERVED \<and> sint (row_expires_at_ms r) > sint now"

definition executing_where :: "string \<Rightarrow> RowRaw \<Rightarrow> bool" where
  "executing_where iid r \<longleftrightarrow> row_intent_id r = iid \<and> row_status r = EXECUTING"

definition expired_where :: "string \<Rightarrow> i64 \<Rightarrow> RowRaw \<Rightarrow> bool" where
  "expired_where iid now r \<longleftrightarrow> row_intent_id r = iid
     \<and> row_status r = BUDGET_RESERVED \<and> sint (row_expires_at_ms r) \<le> sint now"

definition lease_refund_where :: "string \<Rightarrow> i64 \<Rightarrow> RowRaw \<Rightarrow> bool" where
  "lease_refund_where iid now r \<longleftrightarrow> row_intent_id r = iid
     \<and> row_status r \<in> {BUDGET_RESERVED, EXPIRED} \<and> sint (row_expires_at_ms r) \<le> sint now"

definition refunding_where :: "string \<Rightarrow> RowRaw \<Rightarrow> bool" where
  "refunding_where iid r \<longleftrightarrow> row_intent_id r = iid \<and> row_status r = REFUNDING"

definition failed_where :: "string \<Rightarrow> RowRaw \<Rightarrow> bool" where
  "failed_where iid r \<longleftrightarrow> row_intent_id r = iid
     \<and> row_status r \<notin> {COMPLETED, REFUNDED, FAILED, FUNDING_INVALID}"

lemmas where_defs = submitted_where_def verified_where_def lease_execution_where_def
  executing_where_def expired_where_def lease_refund_where_def refunding_where_def failed_where_def

subsection \<open>The \<open>SET\<close> clauses\<close>

definition submitted_set :: "i64 \<Rightarrow> string \<Rightarrow> RowRaw \<Rightarrow> RowRaw" where
  "submitted_set now sig r = r\<lparr>row_status := FUNDING_SUBMITTED,
     row_funding_signature := Some sig, row_updated_at_ms := now\<rparr>"

definition reserved_set :: "i64 \<Rightarrow> u64 \<Rightarrow> RowRaw \<Rightarrow> RowRaw" where
  "reserved_set now slot r = r\<lparr>row_status := BUDGET_RESERVED,
     row_funding_finalized_slot := Some slot, row_updated_at_ms := now\<rparr>"

definition status_set :: "string \<Rightarrow> i64 \<Rightarrow> RowRaw \<Rightarrow> RowRaw" where
  "status_set st now r = r\<lparr>row_status := st, row_updated_at_ms := now\<rparr>"

definition status_error_set :: "string \<Rightarrow> i64 \<Rightarrow> string \<Rightarrow> RowRaw \<Rightarrow> RowRaw" where
  "status_error_set st now reason r = r\<lparr>row_status := st,
     row_last_error := Some reason, row_updated_at_ms := now\<rparr>"

definition completed_set :: "i64 \<Rightarrow> string \<Rightarrow> RowRaw \<Rightarrow> RowRaw" where
  "completed_set now sig r = r\<lparr>row_status := COMPLETED,
     row_execution_signature := Some sig, row_updated_at_ms := now\<rparr>"

definition refunded_set :: "i64 \<Rightarrow> string \<Rightarrow> RowRaw \<Rightarrow> RowRaw" where
  "refunded_set now sig r = r\<lparr>row_status := REFUNDED,
     row_refund_signature := Some sig, row_updated_at_ms := now\<rparr>"

lemmas set_defs = submitted_set_def reserved_set_def status_set_def status_error_set_def
  completed_set_def refunded_set_def

subsection \<open>The calls\<close>

type_synonym cas_result = "(StoreError + nat) \<times> funding_db"

definition mark_funding_submitted_if_required ::
  "verdict \<Rightarrow> i64 \<Rightarrow> string \<Rightarrow> string \<Rightarrow> funding_db \<Rightarrow> cas_result" where
  "mark_funding_submitted_if_required v now iid sig =
     sql_update v (submitted_where iid sig) (submitted_set now sig)"

definition mark_budget_reserved_if_submitted ::
  "verdict \<Rightarrow> i64 \<Rightarrow> string \<Rightarrow> string \<Rightarrow> u64 \<Rightarrow> funding_db \<Rightarrow> cas_result" where
  "mark_budget_reserved_if_submitted v now iid expected slot =
     sql_update v (verified_where iid expected) (reserved_set now slot)"

definition mark_funding_invalid_if_submitted ::
  "verdict \<Rightarrow> i64 \<Rightarrow> string \<Rightarrow> string \<Rightarrow> string \<Rightarrow> funding_db \<Rightarrow> cas_result" where
  "mark_funding_invalid_if_submitted v now iid expected reason =
     sql_update v (verified_where iid expected) (status_error_set FUNDING_INVALID now reason)"

definition lease_execution_if_budget_reserved ::
  "verdict \<Rightarrow> i64 \<Rightarrow> string \<Rightarrow> funding_db \<Rightarrow> cas_result" where
  "lease_execution_if_budget_reserved v now iid =
     sql_update v (lease_execution_where iid now) (status_set EXECUTING now)"

definition mark_completed_if_executing ::
  "verdict \<Rightarrow> i64 \<Rightarrow> string \<Rightarrow> string \<Rightarrow> funding_db \<Rightarrow> cas_result" where
  "mark_completed_if_executing v now iid sig =
     sql_update v (executing_where iid) (completed_set now sig)"

definition release_execution_lease_to_budget_reserved ::
  "verdict \<Rightarrow> i64 \<Rightarrow> string \<Rightarrow> string \<Rightarrow> funding_db \<Rightarrow> cas_result" where
  "release_execution_lease_to_budget_reserved v now iid reason =
     sql_update v (executing_where iid) (status_error_set BUDGET_RESERVED now reason)"

definition mark_expired_if_past :: "verdict \<Rightarrow> i64 \<Rightarrow> string \<Rightarrow> funding_db \<Rightarrow> cas_result" where
  "mark_expired_if_past v now iid =
     sql_update v (expired_where iid now) (status_set EXPIRED now)"

definition lease_refund_if_expired_or_past ::
  "verdict \<Rightarrow> i64 \<Rightarrow> string \<Rightarrow> funding_db \<Rightarrow> cas_result" where
  "lease_refund_if_expired_or_past v now iid =
     sql_update v (lease_refund_where iid now) (status_set REFUNDING now)"

definition mark_refunded_if_refunding ::
  "verdict \<Rightarrow> i64 \<Rightarrow> string \<Rightarrow> string \<Rightarrow> funding_db \<Rightarrow> cas_result" where
  "mark_refunded_if_refunding v now iid sig =
     sql_update v (refunding_where iid) (refunded_set now sig)"

definition mark_failed :: "verdict \<Rightarrow> i64 \<Rightarrow> string \<Rightarrow> string \<Rightarrow> funding_db \<Rightarrow> cas_result" where
  "mark_failed v now iid reason =
     sql_update v (failed_where iid) (status_error_set FAILED now reason)"

lemmas call_defs = mark_funding_submitted_if_required_def mark_budget_reserved_if_submitted_def
  mark_funding_invalid_if_submitted_def lease_execution_if_budget_reserved_def
  mark_completed_if_executing_def release_execution_lease_to_budget_reserved_def
  mark_expired_if_past_def lease_refund_if_expired_or_past_def mark_refunded_if_refunding_def
  mark_failed_def

section \<open>Every transition is a compare-and-swap on the primary key\<close>

interpretation submit: cas_update row_intent_id iid "submitted_where iid sig" "submitted_set now sig"
  for iid sig now by unfold_locales (simp_all add: where_defs set_defs)

interpretation reserve: cas_update row_intent_id iid "verified_where iid sig" "reserved_set now slot"
  for iid sig now slot by unfold_locales (simp_all add: where_defs set_defs)

interpretation invalidate: cas_update row_intent_id iid "verified_where iid sig" "status_error_set st now reason"
  for iid sig st now reason by unfold_locales (simp_all add: where_defs set_defs)

interpretation exec_lease: cas_update row_intent_id iid "lease_execution_where iid now" "status_set st now"
  for iid now st by unfold_locales (simp_all add: where_defs set_defs)

interpretation complete: cas_update row_intent_id iid "executing_where iid" "completed_set now sig"
  for iid now sig by unfold_locales (simp_all add: where_defs set_defs)

interpretation exec_release: cas_update row_intent_id iid "executing_where iid" "status_error_set st now reason"
  for iid st now reason by unfold_locales (simp_all add: where_defs set_defs)

interpretation expire: cas_update row_intent_id iid "expired_where iid now" "status_set st now"
  for iid now st by unfold_locales (simp_all add: where_defs set_defs)

interpretation refund_lease: cas_update row_intent_id iid "lease_refund_where iid now" "status_set st now"
  for iid now st by unfold_locales (simp_all add: where_defs set_defs)

interpretation refunded: cas_update row_intent_id iid "refunding_where iid" "refunded_set now sig"
  for iid now sig by unfold_locales (simp_all add: where_defs set_defs)

interpretation failing: cas_update row_intent_id iid "failed_where iid" "status_error_set st now reason"
  for iid st now reason by unfold_locales (simp_all add: where_defs set_defs)

end
