(* ===== verification/Funding_Lifecycle.thy ===== *)
theory Funding_Lifecycle
  imports Funding_Store State_Machine
begin

text \<open>
  Runs of the funding-intent table. \<open>funding_step\<close> is one repository call, with any
  arguments, any clock reading and any verdict of the driver, so its runs are all the
  interleavings of concurrent callers. \<open>lifecycle\<close> is the documented state diagram, which the
  table refines row by row; \<open>row_ok\<close> is the invariant of a row.
\<close>

section \<open>Runs of the table\<close>

inductive funding_step :: "funding_db \<Rightarrow> funding_db \<Rightarrow> bool" where
  do_insert: "funding_step db (snd (insert_intent v now i db))"
| do_submit: "funding_step db (snd (mark_funding_submitted_if_required v now iid sig db))"
| do_reserve: "funding_step db (snd (mark_budget_reserved_if_submitted v now iid sig slot db))"
| do_invalidate: "funding_step db (snd (mark_funding_invalid_if_submitted v now iid sig reason db))"
| do_lease_execution: "funding_step db (snd (lease_execution_if_budget_reserved v now iid db))"
| do_complete: "funding_step db (snd (mark_completed_if_executing v now iid sig db))"
| do_release: "funding_step db (snd (release_execution_lease_to_budget_reserved v now iid reason db))"
| do_expire: "funding_step db (snd (mark_expired_if_past v now iid db))"
| do_lease_refund: "funding_step db (snd (lease_refund_if_expired_or_past v now iid db))"
| do_refunded: "funding_step db (snd (mark_refunded_if_refunding v now iid sig db))"
| do_fail: "funding_step db (snd (mark_failed v now iid reason db))"

text \<open>The \<open>WHERE\<close>/\<open>SET\<close> pairs that occur.\<close>

inductive funding_cas :: "(RowRaw \<Rightarrow> bool) \<Rightarrow> (RowRaw \<Rightarrow> RowRaw) \<Rightarrow> bool" where
  "funding_cas (submitted_where iid sig) (submitted_set now sig)"
| "funding_cas (verified_where iid sig) (reserved_set now slot)"
| "funding_cas (verified_where iid sig) (status_error_set FUNDING_INVALID now reason)"
| "funding_cas (lease_execution_where iid now) (status_set EXECUTING now)"
| "funding_cas (executing_where iid) (completed_set now sig)"
| "funding_cas (executing_where iid) (status_error_set BUDGET_RESERVED now reason)"
| "funding_cas (expired_where iid now) (status_set EXPIRED now)"
| "funding_cas (lease_refund_where iid now) (status_set REFUNDING now)"
| "funding_cas (refunding_where iid) (refunded_set now sig)"
| "funding_cas (failed_where iid) (status_error_set FAILED now reason)"

lemma funding_step_cases:
  assumes "funding_step db db'"
  obtains (same) "db' = db"
  | (fresh) now i where "db' = db @ [new_row now i]" "new_intent_id i \<notin> row_intent_id ` set db"
  | (cas) w s where "funding_cas w s" "db' = map (\<lambda>r. if w r then s r else r) db"
proof -
  have upd: thesis if "funding_cas w s" "db' = snd (sql_update v w s db)" for v w s
    using that same cas by (auto simp: sql_update_table split: if_splits)
  from assms show thesis
  proof cases
    case (do_insert v now i)
    then show thesis
      using same fresh [of now i]
      by (auto simp: insert_intent_def sql_insert_table new_row_def split: if_splits)
  qed (auto intro: upd funding_cas.intros simp: call_defs)
qed

subsection \<open>The documented life cycle of one intent\<close>

inductive lifecycle :: "W5hIntentStatus \<Rightarrow> W5hIntentStatus \<Rightarrow> bool" where
  submitted: "lifecycle FundingRequired FundingSubmitted"
| reserved: "lifecycle FundingSubmitted BudgetReserved"
| invalid: "lifecycle FundingSubmitted FundingInvalid"
| execution_leased: "lifecycle BudgetReserved Executing"
| executed: "lifecycle Executing Completed"
| execution_released: "lifecycle Executing BudgetReserved"
| expired: "lifecycle BudgetReserved Expired"
| refund_leased: "lifecycle BudgetReserved Refunding"
| refund_leased_expired: "lifecycle Expired Refunding"
| refunded: "lifecycle Refunding Refunded"
| failure: "\<not> is_terminal st \<Longrightarrow> lifecycle st Failed"

inductive_simps lifecycle_simps: "lifecycle a b"

lemma lifecycle_run_terminal: "lifecycle\<^sup>*\<^sup>* a b \<Longrightarrow> is_terminal a \<Longrightarrow> b = a"
  by (induction rule: rtranclp_induct) (auto simp: lifecycle_simps)

lemma lifecycle_run_refunding:
  "lifecycle\<^sup>*\<^sup>* a b \<Longrightarrow> a = Refunding \<Longrightarrow> b \<in> {Refunding, Refunded, Failed}"
  by (induction rule: rtranclp_induct) (auto simp: lifecycle_simps)

subsection \<open>Rows that occur\<close>

text \<open>The columns fixed at creation.\<close>

definition row_terms where
  "row_terms r = (row_intent_id r, row_rule_id_hex r, row_canonical_rule_hash_hex r,
     row_user_wallet r, row_user_usdc_ata r, row_controlled_wallet r, row_controlled_usdc_ata r,
     row_amount_raw r, row_threshold_bps r, row_save_display_apy_bps r,
     row_native_onchain_apr_bps r, row_created_at_ms r, row_expires_at_ms r)"

text \<open>
  Which columns are set in which status: a budget was funded (signature and slot) from
  \<open>budget_reserved\<close> on, the execution signature is there exactly in \<open>completed\<close> and the refund
  signature exactly in \<open>refunded\<close>.
\<close>

definition row_ok :: "RowRaw \<Rightarrow> bool" where
  "row_ok r \<longleftrightarrow> (\<exists>st. row_status r = status_as_str st
     \<and> (row_execution_signature r \<noteq> None \<longleftrightarrow> st = Completed)
     \<and> (row_refund_signature r \<noteq> None \<longleftrightarrow> st = Refunded)
     \<and> (st = FundingRequired \<longrightarrow> row_funding_signature r = None)
     \<and> (st \<notin> {FundingRequired, Failed} \<longrightarrow> row_funding_signature r \<noteq> None)
     \<and> (st \<in> {BudgetReserved, Executing, Completed, Expired, Refunding, Refunded}
          \<longrightarrow> row_funding_finalized_slot r \<noteq> None))"

definition store_ok :: "funding_db \<Rightarrow> bool" where
  "store_ok db \<longleftrightarrow> keyed row_intent_id db \<and> (\<forall>r \<in> set db. row_ok r)"

definition keeps :: "'a option \<Rightarrow> 'a option \<Rightarrow> bool" where
  "keeps a b \<longleftrightarrow> (a = None \<or> b = a)"

text \<open>What a row may become: the terms stay, the status follows the life cycle, a signature is written once.\<close>

definition row_le :: "RowRaw \<Rightarrow> RowRaw \<Rightarrow> bool" where
  "row_le r r' \<longleftrightarrow> row_terms r' = row_terms r
     \<and> (\<exists>st st'. row_status r = status_as_str st \<and> row_status r' = status_as_str st'
          \<and> lifecycle\<^sup>*\<^sup>* st st')
     \<and> keeps (row_funding_signature r) (row_funding_signature r')
     \<and> keeps (row_execution_signature r) (row_execution_signature r')
     \<and> keeps (row_refund_signature r) (row_refund_signature r')"

definition store_le :: "funding_db \<Rightarrow> funding_db \<Rightarrow> bool" where
  "store_le db db' \<longleftrightarrow> (\<forall>r \<in> set db. row_ok r \<longrightarrow> (\<exists>r' \<in> set db'. row_ok r' \<and> row_le r r'))"

lemma keeps_refl [simp]: "keeps a a" and keeps_None [simp]: "keeps None b"
  by (simp_all add: keeps_def)

lemma row_le_refl: "row_ok r \<Longrightarrow> row_le r r"
  by (auto simp: row_ok_def row_le_def)

lemma row_le_trans: "row_le a b \<Longrightarrow> row_le b c \<Longrightarrow> row_le a c"
  unfolding row_le_def keeps_def by (auto intro: rtranclp_trans)

lemma row_status_eqI:
  "row_status r = status_as_str a \<Longrightarrow> row_status r = status_as_str b \<Longrightarrow> a = b"
  by simp

lemma lifecycle_row_le:
  assumes "row_status r = status_as_str a" and "row_status r' = status_as_str b"
    and "lifecycle a b \<or> a = b" and "row_terms r' = row_terms r"
    and "keeps (row_funding_signature r) (row_funding_signature r')"
    and "keeps (row_execution_signature r) (row_execution_signature r')"
    and "keeps (row_refund_signature r) (row_refund_signature r')"
  shows "row_le r r'"
  using assms unfolding row_le_def by blast


lemma row_ok_status: "row_status r = status_as_str st \<Longrightarrow> row_ok r \<longleftrightarrow>
       (row_execution_signature r \<noteq> None \<longleftrightarrow> st = Completed)
     \<and> (row_refund_signature r \<noteq> None \<longleftrightarrow> st = Refunded)
     \<and> (st = FundingRequired \<longrightarrow> row_funding_signature r = None)
     \<and> (st \<notin> {FundingRequired, Failed} \<longrightarrow> row_funding_signature r \<noteq> None)
     \<and> (st \<in> {BudgetReserved, Executing, Completed, Expired, Refunding, Refunded}
          \<longrightarrow> row_funding_finalized_slot r \<noteq> None)"
  by (simp add: row_ok_def)

lemma funding_cas_row_ok:
  assumes "funding_cas w s" and "row_ok r" and "w r"
  shows "row_ok (s r)"
proof -
  from assms(2) obtain st where "row_status r = status_as_str st" by (auto simp: row_ok_def)
  with assms show ?thesis
    by (induction rule: funding_cas.induct) (auto simp: row_ok_status where_defs set_defs)
qed

lemma funding_cas_row_le:
  assumes "funding_cas w s" and "row_ok r" and "w r"
  shows "row_le r (s r)"
proof -
  from assms(2) obtain st where st: "row_status r = status_as_str st" by (auto simp: row_ok_def)
  have terms: "row_terms (s r) = row_terms r"
    using assms(1) by (induction rule: funding_cas.induct) (simp_all add: row_terms_def set_defs)
  have keep: "keeps (row_funding_signature r) (row_funding_signature (s r))
    \<and> keeps (row_execution_signature r) (row_execution_signature (s r))
    \<and> keeps (row_refund_signature r) (row_refund_signature (s r))"
    using assms st
    by (induction rule: funding_cas.induct) (auto simp: row_ok_status where_defs set_defs keeps_def)
  have "\<exists>st'. row_status (s r) = status_as_str st' \<and> (lifecycle st st' \<or> st = st')"
    using assms st
  proof (induction rule: funding_cas.induct)
    case (10 iid now reason)
    then show ?case by (cases st) (simp_all add: where_defs set_defs lifecycle_simps)
  qed (auto simp: where_defs set_defs lifecycle_simps)
  then show ?thesis using lifecycle_row_le [OF st] terms keep by blast
qed

section \<open>The table along a run\<close>

lemma new_row_ok: "row_ok (new_row now i)"
  by (simp add: row_ok_def new_row_def)

lemma funding_cas_key: "funding_cas w s \<Longrightarrow> row_intent_id (s r) = row_intent_id r"
  by (induction rule: funding_cas.induct) (simp_all add: set_defs)

lemma store_ok_step:
  assumes "store_ok db" and "funding_step db db'"
  shows "store_ok db'"
  using assms(2)
proof (cases rule: funding_step_cases)
  case (cas w s)
  have "map row_intent_id db' = map row_intent_id db"
    using cas(2) funding_cas_key [OF cas(1)] by simp
  then have "keyed row_intent_id db'" using assms(1) by (simp only: store_ok_def keyed_def)
  moreover have "\<forall>r \<in> set db'. row_ok r"
    using assms(1) cas(2) funding_cas_row_ok [OF cas(1)] by (auto simp: store_ok_def)
  ultimately show ?thesis by (simp add: store_ok_def)
qed (use assms(1) in \<open>auto simp: store_ok_def keyed_def new_row_ok, simp add: new_row_def\<close>)

lemma store_le_refl: "store_le db db"
  by (auto simp: store_le_def intro: row_le_refl)

lemma store_le_trans: "store_le a b \<Longrightarrow> store_le b c \<Longrightarrow> store_le a c"
  unfolding store_le_def by (meson row_le_trans)

lemma store_le_step:
  assumes "funding_step db db'"
  shows "store_le db db'"
  using assms
proof (cases rule: funding_step_cases)
  case (cas w s)
  show ?thesis
    unfolding store_le_def
  proof (intro ballI impI)
    fix r assume r: "r \<in> set db" "row_ok r"
    let ?r = "if w r then s r else r"
    have "?r \<in> set db'" using r(1) cas(2) by simp
    moreover have "row_ok ?r \<and> row_le r ?r"
      using r(2) funding_cas_row_ok [OF cas(1)] funding_cas_row_le [OF cas(1)] row_le_refl by simp
    ultimately show "\<exists>r' \<in> set db'. row_ok r' \<and> row_le r r'" by blast
  qed
qed (auto simp: store_le_def intro: row_le_refl)

interpretation fstore: inductive_invariant "\<lambda>db. db = []" funding_step store_ok
  by unfold_locales (simp add: store_ok_def, rule store_ok_step)

interpretation fstore_run: step_order funding_step store_le
  by unfold_locales (rule store_le_refl, rule store_le_trans, assumption+, rule store_le_step)

text \<open>The row of an intent after a run, and what has become of it.\<close>

lemma run_row:
  assumes "reach (\<lambda>db. db = []) funding_step db" and "funding_step\<^sup>*\<^sup>* db db'" and "r \<in> set db"
  obtains r' where "r' \<in> set db'" "row_ok r'" "row_le r r'"
  using assms fstore.reach_good [OF assms(1)] fstore_run.steps_le [OF assms(2)]
  by (auto simp: store_le_def store_ok_def)

lemma reach_run:
  "funding_step\<^sup>*\<^sup>* db db' \<Longrightarrow> reach (\<lambda>db. db = []) funding_step db \<Longrightarrow>
   reach (\<lambda>db. db = []) funding_step db'"
  by (induction rule: rtranclp_induct) (auto intro: reach_step)

text \<open>Leases.\<close>

lemma lease_execution_won:
  assumes "keyed row_intent_id db"
  shows "fst (lease_execution_if_budget_reserved v now iid db) = Inr 1 \<longleftrightarrow>
    v = None \<and> (\<exists>r \<in> set db. lease_execution_where iid now r)"
  unfolding lease_execution_if_budget_reserved_def by (rule exec_lease.cas_won [OF assms])

lemma lease_refund_won:
  assumes "keyed row_intent_id db"
  shows "fst (lease_refund_if_expired_or_past v now iid db) = Inr 1 \<longleftrightarrow>
    v = None \<and> (\<exists>r \<in> set db. lease_refund_where iid now r)"
  unfolding lease_refund_if_expired_or_past_def by (rule refund_lease.cas_won [OF assms])

lemma run_status:
  assumes "reach (\<lambda>db. db = []) funding_step db" and "funding_step\<^sup>*\<^sup>* db db'"
    and "r \<in> set db" and "row_status r = status_as_str st"
    and "r'' \<in> set db'" and "row_intent_id r'' = row_intent_id r"
  shows "row_ok r''" "row_le r r''"
    "\<exists>st'. row_status r'' = status_as_str st' \<and> lifecycle\<^sup>*\<^sup>* st st'"
proof -
  obtain r' where r': "r' \<in> set db'" "row_ok r'" "row_le r r'"
    using assms(1-3) by (rule run_row)
  have "keyed row_intent_id db'"
    using fstore.reach_good [OF reach_run [OF assms(2,1)]] by (simp add: store_ok_def)
  moreover have "row_intent_id r' = row_intent_id r''"
    using r'(3) assms(6) by (simp add: row_le_def row_terms_def)
  ultimately have "r'' = r'" using r'(1) assms(5) by (metis keyed_unique)
  with r' show "row_ok r''" "row_le r r''" by simp_all
  then show "\<exists>st'. row_status r'' = status_as_str st' \<and> lifecycle\<^sup>*\<^sup>* st st'"
    using assms(4) by (auto simp: row_le_def)
qed

lemma lease_refund_row:
  assumes "keyed row_intent_id db"
    and "fst (lease_refund_if_expired_or_past v now iid db) = Inr 1"
  obtains r where "r \<in> set (snd (lease_refund_if_expired_or_past v now iid db))"
    "row_intent_id r = iid" "row_status r = status_as_str Refunding"
proof -
  from assms(2) [unfolded lease_refund_won [OF assms(1)]]
  obtain r where v: "v = None" and r: "r \<in> set db" "lease_refund_where iid now r" by blast
  show thesis
  proof (rule that [of "status_set REFUNDING now r"])
    show "status_set REFUNDING now r \<in> set (snd (lease_refund_if_expired_or_past v now iid db))"
      using v r by (auto simp: lease_refund_if_expired_or_past_def sql_update_table image_iff)
  qed (use r in \<open>simp_all add: where_defs set_defs\<close>)
qed

lemma row_ok_exclusive:
  "row_ok r \<Longrightarrow> row_execution_signature r = None \<or> row_refund_signature r = None"
  by (auto simp: row_ok_def)

lemma refund_lease_ends_execution:
  assumes "reach (\<lambda>db. db = []) funding_step db"
    and "fst (lease_refund_if_expired_or_past v now iid db) = Inr 1"
    and "funding_step\<^sup>*\<^sup>* (snd (lease_refund_if_expired_or_past v now iid db)) db'"
  shows "fst (lease_execution_if_budget_reserved v' now' iid db') \<noteq> Inr 1
    \<and> fst (mark_completed_if_executing v' now' iid sig db') \<noteq> Inr 1
    \<and> (\<forall>r \<in> set db'. row_intent_id r = iid \<longrightarrow> row_execution_signature r = None
         \<and> status_parse (row_status r) \<in> {Some Refunding, Some Refunded, Some Failed})"
proof -
  let ?db = "snd (lease_refund_if_expired_or_past v now iid db)"
  have reach: "reach (\<lambda>db. db = []) funding_step ?db"
    using assms(1) by (rule reach_step) (rule do_lease_refund)
  have keyed: "keyed row_intent_id db" "keyed row_intent_id db'"
    using fstore.reach_good [OF assms(1)] fstore.reach_good [OF reach_run [OF assms(3) reach]]
    by (simp_all add: store_ok_def)
  obtain r where r: "r \<in> set ?db" "row_intent_id r = iid" "row_status r = status_as_str Refunding"
    using keyed(1) assms(2) by (rule lease_refund_row)
  have after: "row_ok r' \<and> (\<exists>st. row_status r' = status_as_str st \<and> st \<in> {Refunding, Refunded, Failed})"
    if "r' \<in> set db'" "row_intent_id r' = iid" for r'
    using run_status [OF reach assms(3) r(1,3) that(1)] that(2) r(2)
      lifecycle_run_refunding [OF _ refl] by metis
  then have idle: "row_status r' \<notin> {status_as_str BudgetReserved, status_as_str Executing}"
    if "r' \<in> set db'" "row_intent_id r' = iid" for r'
    using that by fastforce
  have "fst (lease_execution_if_budget_reserved v' now' iid db') \<noteq> Inr 1"
    using idle unfolding lease_execution_won [OF keyed(2)] by (auto simp: lease_execution_where_def)
  moreover have "fst (mark_completed_if_executing v' now' iid sig db') \<noteq> Inr 1"
    using idle unfolding mark_completed_if_executing_def complete.cas_won [OF keyed(2)]
    by (auto simp: executing_where_def)
  moreover have "\<forall>r \<in> set db'. row_intent_id r = iid \<longrightarrow> row_execution_signature r = None
         \<and> status_parse (row_status r) \<in> {Some Refunding, Some Refunded, Some Failed}"
  proof (intro ballI impI)
    fix r' assume "r' \<in> set db'" "row_intent_id r' = iid"
    then obtain st where "row_ok r'" "row_status r' = status_as_str st"
      "st \<in> {Refunding, Refunded, Failed}" using after by blast
    then show "row_execution_signature r' = None
         \<and> status_parse (row_status r') \<in> {Some Refunding, Some Refunded, Some Failed}"
      by (auto simp: row_ok_status)
  qed
  ultimately show ?thesis by blast
qed

section \<open>Properties\<close>

text \<open>
  A won refund lease ends execution for good. From any table that the repository's calls can
  produce, once the refund lease of an intent has been won, then after any further calls of any
  concurrent callers nobody wins its execution lease or records its completion, the intent's
  row has no execution signature, and it is refunding, refunded or failed.\<close>

theorem refund_lease_excludes_execution:
  assumes "reach (\<lambda>db. db = []) funding_step db"
    and "fst (lease_refund_if_expired_or_past v now iid db) = Inr 1"
    and "funding_step\<^sup>*\<^sup>* (snd (lease_refund_if_expired_or_past v now iid db)) db'"
  shows "fst (lease_execution_if_budget_reserved v' now' iid db') \<noteq> Inr 1
    \<and> fst (mark_completed_if_executing v' now' iid sig db') \<noteq> Inr 1
    \<and> (\<forall>r \<in> set db'. row_intent_id r = iid \<longrightarrow> row_execution_signature r = None
         \<and> status_parse (row_status r) \<in> {Some Refunding, Some Refunded, Some Failed})"
  by (rule refund_lease_ends_execution [OF assms])

text \<open>
  C20: an intent's history. Whatever calls are made, the row of an intent stays in the table under
  its id and is the only one with it; the terms fixed at creation never change, the status follows
  the documented life cycle, a terminal status is final, a signature once written stays, and
  the row never carries both an execution and a refund signature.\<close>

theorem funding_intent_history:
  assumes "reach (\<lambda>db. db = []) funding_step db" and "funding_step\<^sup>*\<^sup>* db db'" and "r \<in> set db"
  shows "\<exists>!r'. r' \<in> set db' \<and> row_intent_id r' = row_intent_id r
    \<and> row_terms r' = row_terms r
    \<and> (\<exists>st st'. status_parse (row_status r) = Some st \<and> status_parse (row_status r') = Some st'
        \<and> lifecycle\<^sup>*\<^sup>* st st' \<and> (is_terminal st \<longrightarrow> st' = st))
    \<and> keeps (row_funding_signature r) (row_funding_signature r')
    \<and> keeps (row_execution_signature r) (row_execution_signature r')
    \<and> keeps (row_refund_signature r) (row_refund_signature r')
    \<and> (row_execution_signature r' = None \<or> row_refund_signature r' = None)"
proof -
  obtain r' where r': "r' \<in> set db'" "row_ok r'" "row_le r r'"
    using assms by (rule run_row)
  have keyed: "keyed row_intent_id db'"
    using fstore.reach_good [OF reach_run [OF assms(2,1)]] by (simp add: store_ok_def)
  from r'(3) obtain st st' where st: "row_status r = status_as_str st"
    "row_status r' = status_as_str st'" "lifecycle\<^sup>*\<^sup>* st st'"
    by (auto simp: row_le_def)
  have fin: "is_terminal st \<Longrightarrow> st' = st" using st(3) by (rule lifecycle_run_terminal)
  have key: "row_intent_id r' = row_intent_id r"
    using r'(3) by (simp add: row_le_def row_terms_def)
  show ?thesis
  proof (rule ex1I [of _ r'], goal_cases)
    case 1
    show ?case
      using r' st fin key row_ok_exclusive [OF r'(2)] by (auto simp: row_le_def)
  next
    case (2 x)
    then show ?case using r'(1) key keyed by (metis keyed_unique)
  qed
qed

text \<open>
  A funded budget is never stuck and its two exits never overlap. While an intent of a
  reachable table is \<open>budget_reserved\<close>, at every clock reading exactly one of the two leases can
  be won: the execution lease before the expiry, the refund lease from the expiry on.\<close>

theorem reserved_budget_one_lease:
  assumes "reach (\<lambda>db. db = []) funding_step db" and "r \<in> set db"
    and "row_intent_id r = iid" and "status_parse (row_status r) = Some BudgetReserved"
  shows "(fst (lease_execution_if_budget_reserved None now iid db) = Inr 1
            \<longleftrightarrow> sint now < sint (row_expires_at_ms r))
    \<and> (fst (lease_refund_if_expired_or_past None now iid db) = Inr 1
            \<longleftrightarrow> sint (row_expires_at_ms r) \<le> sint now)"
proof -
  have keyed: "keyed row_intent_id db"
    using fstore.reach_good [OF assms(1)] by (simp add: store_ok_def)
  have only: "x = r" if "x \<in> set db" "row_intent_id x = iid" for x
    using keyed that assms(2,3) by (metis keyed_unique)
  have st: "row_status r = status_as_str BudgetReserved"
    using assms(4) by (simp add: status_parse_Some)
  have "(\<exists>x \<in> set db. lease_execution_where iid now x) \<longleftrightarrow> lease_execution_where iid now r"
    using only assms(2) by (auto simp: lease_execution_where_def)
  moreover have "(\<exists>x \<in> set db. lease_refund_where iid now x) \<longleftrightarrow> lease_refund_where iid now r"
    using only assms(2) by (auto simp: lease_refund_where_def)
  ultimately show ?thesis
    unfolding lease_execution_won [OF keyed] lease_refund_won [OF keyed]
    using st assms(3) by (simp add: lease_execution_where_def lease_refund_where_def)
qed

lemma u32_as_i64: "(ucast (ucast (w :: u32) :: i64) :: u32) = w"
  by (rule ucast_up_ucast_id) (simp add: is_up)

lemma sint_negative_iff: "sint (w :: i64) < 0 \<longleftrightarrow> \<not> unat w < 2 ^ 63"
proof -
  define u where "u = uint w"
  have u: "0 \<le> u" "u < 2 ^ 64" using uint_lt2p [of w] by (simp_all add: u_def)
  have w: "sint w = (u + 2 ^ 63) mod 2 ^ 64 - 2 ^ 63"
    by (simp add: u_def sint_uint signed_take_bit_eq_take_bit_shift take_bit_eq_mod)
  have "sint w < 0 \<longleftrightarrow> \<not> u < 2 ^ 63"
  proof (cases "u < 2 ^ 63")
    case True
    then have "(u + 2 ^ 63) mod 2 ^ 64 = u + 2 ^ 63" using u by simp
    then show ?thesis using True u w by simp
  next
    case False
    have "(u + 2 ^ 63) mod 2 ^ 64 = (u + 2 ^ 63 - 2 ^ 64) mod 2 ^ 64"
      by (simp only: minus_mod_self2)
    also have "\<dots> = u + 2 ^ 63 - 2 ^ 64" using False u by simp
    finally show ?thesis using False u w by simp
  qed
  moreover have "u = int (unat w)" by (simp add: u_def)
  ultimately show ?thesis by (simp only: of_nat_less_numeral_power_cancel_iff)
qed

lemma row_to_intent_Inr:
  "row_to_intent r = Inr i \<Longrightarrow> row_status r = status_as_str (status i)
     \<and> expires_at_ms i = row_expires_at_ms r \<and> intent_id i = row_intent_id r"
  unfolding row_to_intent_def
  by (elim success_elims) (auto simp: status_parse_Some)

lemma row_to_intent_ok:
  assumes "row_ok r" and "0 \<le> sint (row_amount_raw r)"
  shows "is_ok (row_to_intent r)"
proof -
  from assms(1) obtain st where "row_status r = status_as_str st" by (auto simp: row_ok_def)
  then show ?thesis using assms(2) by (simp add: row_to_intent_def)
qed

lemma sweep_ok:
  assumes "store_ok db" and "\<forall>r \<in> set db. 0 \<le> sint (row_amount_raw r)"
  obtains ms where "bindE (sql_select_all None w ord n db) (collectE row_to_intent) = Inr ms"
    "length ms \<le> n" "\<forall>i \<in> set ms. \<exists>r \<in> set db. w r \<and> row_status r = status_as_str (status i)
         \<and> row_expires_at_ms r = expires_at_ms i"
proof -
  obtain rs where rs: "sql_select_all None w ord n db = Inr rs" by (simp add: ok_simps)
  note rows = sql_select_all_rows [OF rs]
  have "is_ok (collectE row_to_intent rs)"
    using assms rows(1) by (intro collectE_ok row_to_intent_ok) (auto simp: store_ok_def)
  then obtain ms where ms: "collectE row_to_intent rs = Inr ms" by (auto simp: is_ok_iff)
  then have all: "list_all2 (\<lambda>r i. row_to_intent r = Inr i) rs ms" by (simp add: ok_simps)
  show thesis
  proof (rule that [of ms])
    show "length ms \<le> n" using all rows(2) by (auto dest: list_all2_lengthD)
    show "\<forall>i \<in> set ms. \<exists>r \<in> set db. w r \<and> row_status r = status_as_str (status i)
         \<and> row_expires_at_ms r = expires_at_ms i"
    proof
      fix i assume "i \<in> set ms"
      then obtain k where k: "k < length ms" "ms ! k = i" by (auto simp: in_set_conv_nth)
      define r where "r = rs ! k"
      have "r \<in> set rs" "row_to_intent r = Inr i"
        using k all by (auto simp: r_def list_all2_conv_all_nth)
      then have "r \<in> set db \<and> w r \<and> row_status r = status_as_str (status i)
          \<and> row_expires_at_ms r = expires_at_ms i"
        using rows(1) row_to_intent_Inr [of r i] by auto
      then show "\<exists>r \<in> set db. w r \<and> row_status r = status_as_str (status i)
          \<and> row_expires_at_ms r = expires_at_ms i" by blast
    qed
  qed (simp add: rs ms)
qed

text \<open>
  Stored rows always read back as typed intents. In every reachable table whose amounts fit
  a signed 64-bit column, no query fails its integrity check: a lookup returns the intent or
  nothing, and both sweeps return at most \<open>limit\<close> intents, all in the statuses they ask for.\<close>

theorem reachable_rows_decode:
  assumes "reach (\<lambda>db. db = []) funding_step db"
    and "\<forall>r \<in> set db. 0 \<le> sint (row_amount_raw r)"
  shows "is_ok (get_intent None iid db)
    \<and> (\<exists>ms. list_budget_reserved None limit db = Inr ms \<and> length ms \<le> unat limit
          \<and> (\<forall>i \<in> set ms. status i = BudgetReserved))
    \<and> (\<exists>ms. list_eligible_for_refund None now limit db = Inr ms \<and> length ms \<le> unat limit
          \<and> (\<forall>i \<in> set ms. status i \<in> {BudgetReserved, Expired} \<and> sint (expires_at_ms i) \<le> sint now))"
    (is "?get \<and> ?reserved \<and> ?refund")
proof (intro conjI)
  have ok: "store_ok db" by (rule fstore.reach_good [OF assms(1)])
  show ?get
  proof (cases "List.find (\<lambda>r. row_intent_id r = iid) db")
    case (Some r)
    then have "r \<in> set db" by (blast dest: find_SomeD)
    then have "is_ok (row_to_intent r)"
      using ok assms(2) by (intro row_to_intent_ok) (auto simp: store_ok_def)
    then show ?thesis using Some by (auto simp: get_intent_def sql_select_optional_def is_ok_iff)
  qed (simp add: get_intent_def sql_select_optional_def)
  show ?reserved
  proof (cases "limit = 0")
    case False
    obtain ms where "list_budget_reserved None limit db = Inr ms" "length ms \<le> unat limit"
      and "\<forall>i \<in> set ms. \<exists>r \<in> set db. row_status r = BUDGET_RESERVED
        \<and> row_status r = status_as_str (status i) \<and> row_expires_at_ms r = expires_at_ms i"
      unfolding list_budget_reserved_def if_not_P [OF False] by (rule sweep_ok [OF ok assms(2)])
    then show ?thesis by force
  qed (simp add: list_budget_reserved_def)
  show ?refund
  proof (cases "limit = 0")
    case False
    obtain ms where "list_eligible_for_refund None now limit db = Inr ms" "length ms \<le> unat limit"
      and "\<forall>i \<in> set ms. \<exists>r \<in> set db. (sint (row_expires_at_ms r) \<le> sint now
          \<and> row_status r \<in> {BUDGET_RESERVED, EXPIRED})
        \<and> row_status r = status_as_str (status i) \<and> row_expires_at_ms r = expires_at_ms i"
      unfolding list_eligible_for_refund_def if_not_P [OF False] by (rule sweep_ok [OF ok assms(2)])
    then show ?thesis by force
  qed (simp add: list_eligible_for_refund_def)
qed

text \<open>
  What is inserted is what is read. After a successful insert, the lookup of the id returns
  the intent with the terms of the request, \<open>funding_required\<close> and no signature, when the amount
  is below \<open>2^63\<close>; from there on the \<open>as i64\<close> cast wraps and the lookup fails its integrity
  check instead of returning another amount.\<close>

theorem insert_then_get:
  assumes "fst (insert_intent None now i db) = Inr ()"
  shows "get_intent None (new_intent_id i) (snd (insert_intent None now i db)) =
    (if unat (new_amount_raw i) < 2 ^ 63 then
       Inr (Some \<lparr>intent_id = new_intent_id i, rule_id_hex = new_rule_id_hex i,
         canonical_rule_hash_hex = new_canonical_rule_hash_hex i,
         user_wallet = new_user_wallet i, user_usdc_ata = new_user_usdc_ata i,
         controlled_wallet = new_controlled_wallet i,
         controlled_usdc_ata = new_controlled_usdc_ata i,
         amount_raw = new_amount_raw i, threshold_bps = new_threshold_bps i,
         save_display_apy_bps_at_creation = new_save_display_apy_bps i,
         native_onchain_apr_bps_at_creation = new_native_onchain_apr_bps i,
         created_at_ms = new_created_at_ms i, expires_at_ms = new_expires_at_ms i,
         status = FundingRequired, funding_signature = None, funding_finalized_slot = None,
         execution_signature = None, refund_signature = None, last_error = None,
         updated_at_ms = now\<rparr>)
     else Inl (IntegrityCheckFailed (AmountOutOfRange (new_amount_raw i))))"
proof -
  have "new_intent_id i \<notin> row_intent_id ` set db"
    using assms by (auto simp: insert_intent_def sql_insert_def new_row_def split: if_splits)
  then have "List.find (\<lambda>r. row_intent_id r = new_intent_id i) (snd (insert_intent None now i db))
      = Some (new_row now i)"
    by (induction db) (auto simp: insert_intent_def sql_insert_table new_row_def)
  then show ?thesis
    by (simp add: get_intent_def sql_select_optional_def row_to_intent_def sint_negative_iff)
      (simp add: new_row_def u32_as_i64)
qed

end
