(* ===== verification/Rust_Text.thy ===== *)
theory Rust_Text
  imports Prelude
begin

text \<open>
  What the off-chain crates use of Rust's strings. A \<open>String\<close> is the HOL string of its UTF-8
  bytes. \<open>from_utf8\<close> is the validation of the standard library (no overlong forms, no
  surrogates, nothing above \<open>U+10FFFF\<close>); \<open>parse_u64\<close> is \<open><u64 as FromStr>::from_str\<close>, digit
  by digit with the two overflow checks in the order the library makes them.
\<close>

section \<open>Bytes\<close>

definition byte_of_char :: "char \<Rightarrow> u8" where
  "byte_of_char c = word_of_nat (of_char c)"

definition char_of_byte :: "u8 \<Rightarrow> char" where
  "char_of_byte b = char_of (unat b)"

definition as_bytes :: "string \<Rightarrow> u8 list" where
  "as_bytes = map byte_of_char"

lemma char_of_byte_of_char [simp]: "char_of_byte (byte_of_char c) = c"
proof -
  have "(of_char c :: nat) < 256"
    using mod_less_divisor [of 256 "of_char c :: nat"] by (simp only: of_char_mod_256)
  then show ?thesis by (simp add: char_of_byte_def byte_of_char_def unat_of_nat)
qed

lemma byte_of_char_of_byte [simp]: "byte_of_char (char_of_byte b) = b"
  using unat_less_exp [of b] by (simp add: byte_of_char_def char_of_byte_def)

definition is_cont :: "u8 \<Rightarrow> bool" where
  "is_cont b \<longleftrightarrow> 0x80 \<le> b \<and> b \<le> 0xBF"

fun utf8_valid :: "u8 list \<Rightarrow> bool" where
  "utf8_valid [] = True"
| "utf8_valid (a # bs) =
    (if a < 0x80 then utf8_valid bs
     else if 0xC2 \<le> a \<and> a \<le> 0xDF then
       (case bs of b # cs \<Rightarrow> is_cont b \<and> utf8_valid cs | _ \<Rightarrow> False)
     else if 0xE0 \<le> a \<and> a \<le> 0xEF then
       (case bs of b # c # cs \<Rightarrow> is_cont b \<and> (a = 0xE0 \<longrightarrow> 0xA0 \<le> b) \<and> (a = 0xED \<longrightarrow> b \<le> 0x9F)
            \<and> is_cont c \<and> utf8_valid cs
        | _ \<Rightarrow> False)
     else if 0xF0 \<le> a \<and> a \<le> 0xF4 then
       (case bs of b # c # d # cs \<Rightarrow> is_cont b \<and> (a = 0xF0 \<longrightarrow> 0x90 \<le> b) \<and> (a = 0xF4 \<longrightarrow> b \<le> 0x8F)
            \<and> is_cont c \<and> is_cont d \<and> utf8_valid cs
        | _ \<Rightarrow> False)
     else False)"

definition is_char_boundary :: "string \<Rightarrow> nat \<Rightarrow> bool" where
  "is_char_boundary s i \<longleftrightarrow> i = length s \<or> i < length s \<and> \<not> is_cont (byte_of_char (s ! i))"

definition from_utf8 :: "u8 list \<Rightarrow> string option" where
  "from_utf8 bs = (if utf8_valid bs then Some (map char_of_byte bs) else None)"

lemma from_utf8_Some: "from_utf8 bs = Some s \<longleftrightarrow> utf8_valid bs \<and> bs = as_bytes s"
proof -
  have "map char_of_byte bs = s \<longleftrightarrow> bs = as_bytes s"
    by (auto simp: as_bytes_def comp_def)
  then show ?thesis by (auto simp: from_utf8_def)
qed

section \<open>Integers\<close>

datatype ParseIntError = EmptyString | InvalidDigit | PosOverflow

definition digit_value :: "char \<Rightarrow> nat option" where
  "digit_value c =
    (let n = of_char c in if 48 \<le> n \<and> n \<le> 57 then Some (n - 48) else None)"

fun parse_digits :: "'a::len word \<Rightarrow> string \<Rightarrow> ParseIntError + 'a word" where
  "parse_digits acc [] = Inr acc"
| "parse_digits acc (c # cs) =
    bindE (ok_or (digit_value c) InvalidDigit) (\<lambda>d.
    bindE (ok_or (checked_mul acc 10) PosOverflow) (\<lambda>m.
    bindE (ok_or (checked_add m (word_of_nat d)) PosOverflow) (\<lambda>acc'.
    parse_digits acc' cs)))"

definition parse_u64 :: "string \<Rightarrow> ParseIntError + u64" where
  "parse_u64 s = (case s of
     [] \<Rightarrow> Inl EmptyString
   | c # cs \<Rightarrow>
      (if cs = [] \<and> (c = CHR ''+'' \<or> c = CHR ''-'') then Inl InvalidDigit
       else if c = CHR ''+'' then parse_digits 0 cs
       else parse_digits 0 s))"

text \<open>The number a digit string denotes, and a number's decimal digits.\<close>

fun decimal_value :: "nat \<Rightarrow> string \<Rightarrow> nat option" where
  "decimal_value acc [] = Some acc"
| "decimal_value acc (c # cs) = (case digit_value c of
     None \<Rightarrow> None
   | Some d \<Rightarrow> decimal_value (acc * 10 + d) cs)"

fun show_nat :: "nat \<Rightarrow> string" where
  "show_nat n = (if n < 10 then [char_of (48 + n)]
                 else show_nat (n div 10) @ [char_of (48 + n mod 10)])"

declare show_nat.simps [simp del]

lemma digit_value_bound: "digit_value c = Some d \<Longrightarrow> d < 10"
  by (auto simp: digit_value_def Let_def split: if_splits)

lemma digit_value_char_of: "d < 10 \<Longrightarrow> digit_value (char_of (48 + d)) = Some d"
  by (simp add: digit_value_def)

lemma decimal_value_append:
  "decimal_value acc (xs @ ys) =
   (case decimal_value acc xs of None \<Rightarrow> None | Some v \<Rightarrow> decimal_value v ys)"
  by (induction acc xs rule: decimal_value.induct) (auto split: option.splits)

lemma decimal_value_mono: "decimal_value acc s = Some n \<Longrightarrow> acc \<le> n"
proof (induction acc s rule: decimal_value.induct)
  case (2 acc c cs)
  then obtain d where "digit_value c = Some d" "decimal_value (acc * 10 + d) cs = Some n"
    by (auto split: option.splits)
  with 2 show ?case by fastforce
qed simp

lemma parse_digits_decimal:
  fixes acc v :: "'a::len word"
  assumes "4 \<le> LENGTH('a)"
  shows "parse_digits acc s = Inr v \<longleftrightarrow> decimal_value (unat acc) s = Some (unat v)"
proof (induction s arbitrary: acc)
  case Nil
  show ?case by (auto simp: word_unat_eq_iff)
next
  case (Cons c cs)
  have "(2 :: nat) ^ 4 \<le> 2 ^ LENGTH('a)" using assms by (rule power_increasing) simp
  then have wide: "16 \<le> (2 :: nat) ^ LENGTH('a)" by simp
  then have ten: "unat (10 :: 'a word) = 10" by (simp add: take_bit_eq_mod)
  show ?case
  proof (cases "digit_value c")
    case (Some d)
    have d: "unat (word_of_nat d :: 'a word) = d"
      using digit_value_bound [OF Some] wide by (simp add: unat_of_nat)
    show ?thesis
    proof
      assume "parse_digits acc (c # cs) = Inr v"
      then obtain m a where "checked_mul acc 10 = Some m" "checked_add m (word_of_nat d) = Some a"
        "parse_digits a cs = Inr v" using Some by (auto simp: ok_simps)
      then show "decimal_value (unat acc) (c # cs) = Some (unat v)"
        using Some Cons.IH [of a] d ten by (simp add: unat_simps)
    next
      assume v: "decimal_value (unat acc) (c # cs) = Some (unat v)"
      then have le: "unat acc * 10 + d \<le> unat v" using Some decimal_value_mono by simp
      define a :: "'a word" where "a = word_of_nat (unat acc * 10 + d)"
      define m :: "'a word" where "m = word_of_nat (unat acc * 10)"
      have small: "unat acc * 10 + d < 2 ^ LENGTH('a)" by (rule le_less_trans [OF le unat_less_exp])
      then have "unat a = unat acc * 10 + d" "unat m = unat acc * 10"
        unfolding a_def m_def unat_of_nat by simp_all
      then have "checked_mul acc 10 = Some m" "checked_add m (word_of_nat d) = Some a"
        using d ten by (simp_all add: unat_simps)
      moreover have "parse_digits a cs = Inr v"
        using v Some Cons.IH [of a] \<open>unat a = _\<close> by simp
      ultimately show "parse_digits acc (c # cs) = Inr v" using Some by simp
    qed
  qed simp
qed

lemma parse_digits_Inr [ok_simps]:
  "parse_digits (acc :: u64) s = Inr v \<longleftrightarrow> decimal_value (unat acc) s = Some (unat v)"
  by (rule parse_digits_decimal) simp

lemma decimal_show_nat: "decimal_value 0 (show_nat n) = Some n"
proof (induction n rule: show_nat.induct)
  case (1 n)
  show ?case
  proof (cases "n < 10")
    case True
    then show ?thesis by (simp add: show_nat.simps digit_value_char_of)
  next
    case False
    then have "decimal_value 0 (show_nat (n div 10)) = Some (n div 10)" by (rule 1)
    then show ?thesis
      using False
      by (subst show_nat.simps) (simp add: decimal_value_append digit_value_char_of)
  qed
qed

lemma show_nat_Cons: "\<exists>c cs. show_nat n = c # cs \<and> digit_value c \<noteq> None"
proof (induction n rule: show_nat.induct)
  case (1 n)
  show ?case
  proof (cases "n < 10")
    case True
    then show ?thesis by (simp add: show_nat.simps digit_value_char_of)
  next
    case False
    with 1 obtain c cs where "show_nat (n div 10) = c # cs" "digit_value c \<noteq> None" by blast
    then show ?thesis using False by (subst show_nat.simps) simp
  qed
qed

lemma parse_u64_show_nat: "parse_u64 (show_nat (unat v)) = Inr v"
proof -
  obtain c cs where s: "show_nat (unat v) = c # cs" "digit_value c \<noteq> None"
    using show_nat_Cons by blast
  then have "c \<noteq> CHR ''+''" "c \<noteq> CHR ''-''" by (auto simp: digit_value_def)
  then have "parse_u64 (show_nat (unat v)) = parse_digits 0 (show_nat (unat v))"
    by (simp add: parse_u64_def s)
  also have "\<dots> = Inr v" by (simp add: ok_simps decimal_show_nat)
  finally show ?thesis .
qed

text \<open>\<open>parse::<u64>()\<close> accepts exactly the decimal numerals of 64-bit numbers, with an optional plus.\<close>

definition numeral_of :: "string \<Rightarrow> string" where
  "numeral_of s = (case s of c # cs \<Rightarrow> if c = CHR ''+'' then cs else s | [] \<Rightarrow> [])"

lemma parse_u64_Inr:
  "parse_u64 s = Inr v \<longleftrightarrow> numeral_of s \<noteq> [] \<and> decimal_value 0 (numeral_of s) = Some (unat v)"
proof (cases s)
  case (Cons c cs)
  have "digit_value CHR ''-'' = None" by (simp add: digit_value_def)
  then show ?thesis
    using Cons by (auto simp: parse_u64_def numeral_of_def parse_digits_Inr
        simp del: parse_digits.simps)
qed (simp add: parse_u64_def numeral_of_def)

section \<open>Searching and case\<close>

definition to_ascii_lowercase :: "string \<Rightarrow> string" where
  "to_ascii_lowercase = map (\<lambda>c.
     let n = of_char c :: nat in if 65 \<le> n \<and> n \<le> 90 then char_of (n + 32) else c)"

fun str_contains :: "string \<Rightarrow> string \<Rightarrow> bool" where
  "str_contains [] p = (p = [])"
| "str_contains (c # cs) p = (take (length p) (c # cs) = p \<or> str_contains cs p)"

lemma str_contains_iff: "str_contains s p \<longleftrightarrow> (\<exists>a b. s = a @ p @ b)"
proof (induction s)
  case (Cons c cs)
  show ?case
  proof
    assume "str_contains (c # cs) p"
    then consider "take (length p) (c # cs) = p" | "str_contains cs p" by auto
    then show "\<exists>a b. c # cs = a @ p @ b"
    proof cases
      case 1
      then have "c # cs = [] @ p @ drop (length p) (c # cs)"
        by (metis append_Nil append_take_drop_id)
      then show ?thesis by blast
    next
      case 2
      then obtain a b where "cs = a @ p @ b" using Cons.IH by blast
      then have "c # cs = (c # a) @ p @ b" by simp
      then show ?thesis by blast
    qed
  next
    assume "\<exists>a b. c # cs = a @ p @ b"
    then obtain a b where ab: "c # cs = a @ p @ b" by blast
    show "str_contains (c # cs) p"
    proof (cases a)
      case Nil
      then have "take (length p) (c # cs) = p" using ab by (metis append_Nil append_eq_conv_conj)
      then show ?thesis by simp
    next
      case (Cons x a')
      then have "str_contains cs p" using ab Cons.IH \<open>_ = _ @ p @ b\<close> by auto
      then show ?thesis by simp
    qed
  qed
qed auto

text \<open>\<open>find\<close>: the byte offset of the first occurrence.\<close>

fun str_find :: "string \<Rightarrow> string \<Rightarrow> nat option" where
  "str_find s p =
    (if take (length p) s = p then Some 0
     else (case s of [] \<Rightarrow> None | c # cs \<Rightarrow> map_option Suc (str_find cs p)))"

declare str_find.simps [simp del]

definition eq_ignore_ascii_case :: "string \<Rightarrow> string \<Rightarrow> bool" where
  "eq_ignore_ascii_case a b \<longleftrightarrow> to_ascii_lowercase a = to_ascii_lowercase b"

fun join_comma :: "string list \<Rightarrow> string" where
  "join_comma [] = []"
| "join_comma [s] = s"
| "join_comma (s # ss) = s @ '', '' @ join_comma ss"

definition is_ascii_hexdigit :: "char \<Rightarrow> bool" where
  "is_ascii_hexdigit c \<longleftrightarrow> (let n = of_char c :: nat in
     48 \<le> n \<and> n \<le> 57 \<or> 65 \<le> n \<and> n \<le> 70 \<or> 97 \<le> n \<and> n \<le> 102)"

section \<open>Whitespace\<close>

text \<open>
  The characters with Unicode's \<open>White_Space\<close> property, as UTF-8: the length in bytes of such a
  character at the front of a byte string, zero when there is none.
\<close>

definition ascii_ws :: "nat \<Rightarrow> bool" where
  "ascii_ws n \<longleftrightarrow> n = 32 \<or> 9 \<le> n \<and> n \<le> 13"

fun ws_front :: "nat list \<Rightarrow> nat" where
  "ws_front (a # b # c # _) =
    (if ascii_ws a then 1
     else if a = 0xC2 \<and> (b = 0x85 \<or> b = 0xA0) then 2
     else if a = 0xE1 \<and> b = 0x9A \<and> c = 0x80
          \<or> a = 0xE2 \<and> b = 0x80 \<and> (0x80 \<le> c \<and> c \<le> 0x8A \<or> c = 0xA8 \<or> c = 0xA9 \<or> c = 0xAF)
          \<or> a = 0xE2 \<and> b = 0x81 \<and> c = 0x9F
          \<or> a = 0xE3 \<and> b = 0x80 \<and> c = 0x80 then 3
     else 0)"
| "ws_front [a, b] = (if ascii_ws a then 1 else if a = 0xC2 \<and> (b = 0x85 \<or> b = 0xA0) then 2 else 0)"
| "ws_front [a] = (if ascii_ws a then 1 else 0)"
| "ws_front [] = 0"

definition str_bytes :: "string \<Rightarrow> nat list" where
  "str_bytes = map of_char"

function trim_start :: "string \<Rightarrow> string" where
  "trim_start s =
    (let n = ws_front (str_bytes s) in if n = 0 then s else trim_start (drop n s))"
  by pat_completeness auto

lemma ws_front_length: "ws_front bs \<le> length bs"
  by (induction bs rule: ws_front.induct) auto

termination trim_start
proof (relation "measure length")
  show "wf (measure length)" by simp
next
  fix s :: string and n
  assume n: "n = ws_front (str_bytes s)" "n \<noteq> 0"
  have "n \<le> length s" using ws_front_length [of "str_bytes s"] n by (simp add: str_bytes_def)
  with n show "(drop n s, s) \<in> measure length" by simp
qed

declare trim_start.simps [simp del]

text \<open>The last character of a valid string is found from the end; its bytes are read forwards.\<close>

definition ws_back :: "string \<Rightarrow> nat" where
  "ws_back s =
    (let bs = str_bytes s; n = length bs in
     if bs = [] then 0
     else if ascii_ws (last bs) then 1
     else if 2 \<le> n \<and> ws_front (drop (n - 2) bs) = 2 then 2
     else if 3 \<le> n \<and> ws_front (drop (n - 3) bs) = 3 then 3
     else 0)"

function trim_end :: "string \<Rightarrow> string" where
  "trim_end s =
    (let n = ws_back s in if n = 0 then s else trim_end (take (length s - n) s))"
  by pat_completeness auto

termination trim_end
proof (relation "measure length")
  fix s :: string and n
  assume n: "n = ws_back s" "n \<noteq> 0"
  then have "s \<noteq> []" by (auto simp: ws_back_def str_bytes_def)
  with n show "(take (length s - n) s, s) \<in> measure length" by simp
qed simp

declare trim_end.simps [simp del]

definition str_trim :: "string \<Rightarrow> string" where
  "str_trim s = trim_end (trim_start s)"

text \<open>\<open>split_whitespace\<close>: the maximal runs without whitespace.\<close>

function take_token :: "string \<Rightarrow> string \<times> string" where
  "take_token s =
    (if s = [] \<or> ws_front (str_bytes s) \<noteq> 0 then ([], s)
     else (let (t, rest) = take_token (tl s) in (hd s # t, rest)))"
  by pat_completeness auto

termination take_token
  by (relation "measure length") auto

declare take_token.simps [simp del]

lemma take_token_length: "length (snd (take_token s)) \<le> length s"
proof (induction s rule: take_token.induct)
  case (1 s)
  show ?case
  proof (cases "s = [] \<or> ws_front (str_bytes s) \<noteq> 0")
    case False
    then have "length (snd (take_token (tl s))) \<le> length (tl s)" using 1 by blast
    then show ?thesis using False by (subst take_token.simps) (simp add: case_prod_beta)
  qed (subst take_token.simps, simp)
qed

lemma trim_start_length: "length (trim_start s) \<le> length s"
proof (induction s rule: trim_start.induct)
  case (1 s)
  then show ?case by (subst trim_start.simps) (auto simp: Let_def intro: le_trans)
qed

lemma trim_start_front: "ws_front (str_bytes (trim_start s)) = 0"
proof (induction s rule: trim_start.induct)
  case (1 s)
  then show ?case by (subst trim_start.simps) (simp add: Let_def)
qed

function split_whitespace :: "string \<Rightarrow> string list" where
  "split_whitespace s =
    (let s' = trim_start s in
     if s' = [] then []
     else (let (t, rest) = take_token s' in t # split_whitespace rest))"
  by pat_completeness auto

termination split_whitespace
proof (relation "measure length")
  fix s s' p t rest
  assume s': "s' = trim_start s" "s' \<noteq> []" and p: "p = take_token s'" "(t, rest) = p"
  then have t: "(t, rest) = take_token s'" by simp
  have "rest = snd (take_token (tl s'))"
    using t s' trim_start_front [of s] by (subst (asm) take_token.simps) (simp add: case_prod_beta)
  then have "length rest \<le> length (tl s')" using take_token_length [of "tl s'"] by simp
  also have "\<dots> < length s'" using s'(2) by simp
  also have "\<dots> \<le> length s" using s'(1) trim_start_length by simp
  finally show "(rest, s) \<in> measure length" by simp
qed simp

declare split_whitespace.simps [simp del]

end
