(* ===== verification/Funding_Confirm.thy ===== *)
theory Funding_Confirm
  imports Funding_Lifecycle Rust_Text
begin

text \<open>
  \<open>crates/gateway/src/stage2_w5h_funding_confirm.rs\<close>: the verification chain behind
  \<open>POST /sessions/:id/stage2/w5h/funding/confirm\<close>. \<open>confirm_env\<close> holds what one execution meets:
  the driver's verdict and the clock at its k-th repository call, what other tasks did to the
  table before that call, the injected \<open>TxFetcher\<close> and the two optional metric fetchers. The
  message of an error is kept as the values it is formatted from (\<open>confirm_reason\<close>); \<open>render\<close>
  is the text that \<open>format!\<close> makes of it.
\<close>

definition USDC_MINT_BS58 :: string where
  "USDC_MINT_BS58 = ''EPjFWdd5AufqSSqeM2qN1xzybapC8G4wEGGkZwyTDt1v''"

definition MEMO_PROGRAM_BS58 :: string where
  "MEMO_PROGRAM_BS58 = ''MemoSq4gqABAXKb96qnH8TysNcWxMyWCqXgDLGmfcHr''"

definition MEMO_PAYLOAD_PREFIX :: string where
  "MEMO_PAYLOAD_PREFIX = ''claw:w5h:''"

section \<open>Fetched transactions\<close>

record FetchedTokenBalance =
  account_index :: u32
  pubkey :: string
  mint :: string
  owner :: string
  amount_raw_str :: string

record FetchedInstruction =
  ix_program_id :: string
  ix_data :: "u8 list"

record FetchedTx =
  slot :: u64
  tx_err :: "string option"
  pre_token_balances :: "FetchedTokenBalance list"
  post_token_balances :: "FetchedTokenBalance list"
  instructions :: "FetchedInstruction list"

datatype TxFetchOutcome =
    NotYetAvailable
  | Available FetchedTx
  | VerifierUnsupported string

section \<open>Outcomes\<close>

datatype W5hFundingConfirmStatus =
    CfBudgetReserved | CfFundingPending | CfFundingInvalid | CfAlreadyTerminal
  | CfIntentNotFound | CfRequestMismatch | CfRepoFailed

datatype W5hFundingConfirmErrorCode =
    EcTxNotYetAvailable | EcOnChainError | EcWrongMint | EcDestinationNotControlledUsdcAta
  | EcAmountDeltaMismatch | EcRequestMismatch | EcIntentNotFound | EcIntentAlreadyTerminal
  | EcRepoFailed | EcVerifierUnsupported | EcMemoMissingOrMismatch

datatype confirm_reason =
    OnChainErr string
  | PreParse ParseIntError
  | PostParse ParseIntError
  | NoPostRow string
  | WentDown u64 u64
  | DeltaNot u64 u64 u64 u64
  | NoMemo string
  | MemoMismatch string "string list"
  | MintNot string
  | OwnerNot string string
  | IdNotFound string
  | GetFailed StoreError
  | CasFailed StoreError
  | FieldsMismatch
  | OtherSignature
  | Unsupported string
  | FetcherFailed string

record W5hFundingConfirmOutcome =
  out_status :: W5hFundingConfirmStatus
  out_rule_id_hex :: string
  out_canonical_rule_hash_hex :: string
  out_funding_signature :: string
  out_funding_finalized_slot :: "u64 option"
  out_expires_at_ms :: i64
  out_threshold_bps :: u32
  out_save_display_apy_bps :: "u32 option"
  out_native_onchain_apr_bps :: "u32 option"
  out_amount_raw :: u64
  out_user_wallet :: string
  out_user_usdc_ata :: string
  out_controlled_wallet :: string
  out_controlled_usdc_ata :: string
  out_error :: "W5hFundingConfirmErrorCode option"
  out_error_reason :: "confirm_reason option"

record W5hFundingConfirmRequest =
  req_rule_id_hex :: string
  req_funding_signature :: string
  req_user_wallet :: string
  req_user_usdc_ata :: string
  req_controlled_wallet :: string
  req_controlled_usdc_ata :: string
  req_amount_raw :: u64

section \<open>Verifying a fetched transaction\<close>

type_synonym confirm_err = "W5hFundingConfirmErrorCode \<times> confirm_reason"

definition assert_balance_identity :: "FetchedTokenBalance \<Rightarrow> string \<Rightarrow> confirm_err + unit" where
  "assert_balance_identity b wallet =
    (if mint b \<noteq> USDC_MINT_BS58 then Inl (EcWrongMint, MintNot (mint b))
     else if owner b \<noteq> wallet then
       Inl (EcDestinationNotControlledUsdcAta, OwnerNot (owner b) wallet)
     else Inr ())"

definition parse_raw_amount :: "string \<Rightarrow> ParseIntError + u64" where
  "parse_raw_amount s = parse_u64 s"

definition verify_funding_delta ::
  "FetchedTx \<Rightarrow> string \<Rightarrow> string \<Rightarrow> u64 \<Rightarrow> confirm_err + u64" where
  "verify_funding_delta tx ata wallet amount =
    (case tx_err tx of
      Some err \<Rightarrow> Inl (EcOnChainError, OnChainErr err)
    | None \<Rightarrow>
       let pre = List.find (\<lambda>b. pubkey b = ata) (pre_token_balances tx);
           post = List.find (\<lambda>b. pubkey b = ata) (post_token_balances tx)
       in
       bindE (case pre of
           Some b \<Rightarrow> bindE (assert_balance_identity b wallet) (\<lambda>_.
             map_err (\<lambda>e. (EcAmountDeltaMismatch, PreParse e)) (parse_raw_amount (amount_raw_str b)))
         | None \<Rightarrow> Inr 0) (\<lambda>pre_raw.
       bindE (case post of
           Some b \<Rightarrow> bindE (assert_balance_identity b wallet) (\<lambda>_.
             map_err (\<lambda>e. (EcAmountDeltaMismatch, PostParse e)) (parse_raw_amount (amount_raw_str b)))
         | None \<Rightarrow> Inl (EcDestinationNotControlledUsdcAta, NoPostRow ata)) (\<lambda>post_raw.
       if post_raw < pre_raw then Inl (EcAmountDeltaMismatch, WentDown pre_raw post_raw)
       else let delta = post_raw - pre_raw in
       if delta \<noteq> amount then Inl (EcAmountDeltaMismatch, DeltaNot delta amount pre_raw post_raw)
       else Inr (slot tx))))"

definition memo_text :: "FetchedInstruction \<Rightarrow> string" where
  "memo_text m = (case from_utf8 (ix_data m) of
     Some s \<Rightarrow> s
   | None \<Rightarrow> ''<'' @ show_nat (length (ix_data m)) @ '' non-utf8 bytes>'')"

definition expected_memo :: "string \<Rightarrow> string \<Rightarrow> string" where
  "expected_memo rule_id hash = MEMO_PAYLOAD_PREFIX @ rule_id @ '':'' @ hash"

definition verify_funding_memo :: "FetchedTx \<Rightarrow> string \<Rightarrow> string \<Rightarrow> confirm_err + unit" where
  "verify_funding_memo tx rule_id hash =
    (let expected = expected_memo rule_id hash;
         memos = filter (\<lambda>ix. ix_program_id ix = MEMO_PROGRAM_BS58) (instructions tx)
     in if memos = [] then Inl (EcMemoMissingOrMismatch, NoMemo expected)
     else if list_ex (\<lambda>m. (case from_utf8 (ix_data m) of Some s \<Rightarrow> s | None \<Rightarrow> []) = expected) memos
     then Inr ()
     else Inl (EcMemoMissingOrMismatch, MemoMismatch expected (map memo_text memos)))"

section \<open>The orchestrator\<close>

record confirm_env =
  verdict_at :: "nat \<Rightarrow> verdict"
  clock_at :: "nat \<Rightarrow> i64"
  others :: "nat \<Rightarrow> funding_db \<Rightarrow> funding_db"
  tx_fetcher :: "string \<Rightarrow> string + TxFetchOutcome"
  save_apy_fetcher :: "(string + u32) option"
  apr_fetcher :: "(string + u32) option"
  render :: "confirm_reason \<Rightarrow> string"

definition result_ok :: "'e + 'a \<Rightarrow> 'a option" where
  "result_ok m = (case m of Inl _ \<Rightarrow> None | Inr x \<Rightarrow> Some x)"

definition refresh_live_metrics :: "confirm_env \<Rightarrow> u32 option \<times> u32 option" where
  "refresh_live_metrics env =
    (Option.bind (save_apy_fetcher env) result_ok, Option.bind (apr_fetcher env) result_ok)"

definition success_outcome_with_status ::
  "confirm_env \<Rightarrow> W5hFundingIntent \<Rightarrow> string \<Rightarrow> W5hFundingConfirmStatus \<Rightarrow>
   W5hFundingConfirmErrorCode option \<Rightarrow> W5hFundingConfirmOutcome" where
  "success_outcome_with_status env stored sig st err = \<lparr>
     out_status = st,
     out_rule_id_hex = rule_id_hex stored,
     out_canonical_rule_hash_hex = canonical_rule_hash_hex stored,
     out_funding_signature = sig,
     out_funding_finalized_slot = funding_finalized_slot stored,
     out_expires_at_ms = expires_at_ms stored,
     out_threshold_bps = threshold_bps stored,
     out_save_display_apy_bps = fst (refresh_live_metrics env),
     out_native_onchain_apr_bps = snd (refresh_live_metrics env),
     out_amount_raw = amount_raw stored,
     out_user_wallet = user_wallet stored,
     out_user_usdc_ata = user_usdc_ata stored,
     out_controlled_wallet = controlled_wallet stored,
     out_controlled_usdc_ata = controlled_usdc_ata stored,
     out_error = err,
     out_error_reason = None\<rparr>"

definition with_reason ::
  "W5hFundingConfirmOutcome \<Rightarrow> confirm_reason \<Rightarrow> W5hFundingConfirmOutcome" where
  "with_reason out r = out\<lparr>out_error_reason := Some r\<rparr>"

definition terminal_outcome ::
  "confirm_env \<Rightarrow> W5hFundingIntent \<Rightarrow> string \<Rightarrow> W5hFundingConfirmStatus \<Rightarrow>
   W5hFundingConfirmErrorCode \<Rightarrow> confirm_reason \<Rightarrow> W5hFundingConfirmOutcome" where
  "terminal_outcome env stored sig st code reason = \<lparr>
     out_status = st,
     out_rule_id_hex = rule_id_hex stored,
     out_canonical_rule_hash_hex = canonical_rule_hash_hex stored,
     out_funding_signature = sig,
     out_funding_finalized_slot = funding_finalized_slot stored,
     out_expires_at_ms = expires_at_ms stored,
     out_threshold_bps = threshold_bps stored,
     out_save_display_apy_bps = fst (refresh_live_metrics env),
     out_native_onchain_apr_bps = snd (refresh_live_metrics env),
     out_amount_raw = amount_raw stored,
     out_user_wallet = user_wallet stored,
     out_user_usdc_ata = user_usdc_ata stored,
     out_controlled_wallet = controlled_wallet stored,
     out_controlled_usdc_ata = controlled_usdc_ata stored,
     out_error = Some code,
     out_error_reason = Some reason\<rparr>"

text \<open>The two outcomes built when there is no stored intent to echo.\<close>

definition unstored_outcome ::
  "W5hFundingConfirmRequest \<Rightarrow> W5hFundingConfirmStatus \<Rightarrow> W5hFundingConfirmErrorCode \<Rightarrow>
   confirm_reason \<Rightarrow> W5hFundingConfirmOutcome" where
  "unstored_outcome req st code reason = \<lparr>
     out_status = st,
     out_rule_id_hex = req_rule_id_hex req,
     out_canonical_rule_hash_hex = [],
     out_funding_signature = req_funding_signature req,
     out_funding_finalized_slot = None,
     out_expires_at_ms = 0,
     out_threshold_bps = 0,
     out_save_display_apy_bps = None,
     out_native_onchain_apr_bps = None,
     out_amount_raw = req_amount_raw req,
     out_user_wallet = req_user_wallet req,
     out_user_usdc_ata = req_user_usdc_ata req,
     out_controlled_wallet = req_controlled_wallet req,
     out_controlled_usdc_ata = req_controlled_usdc_ata req,
     out_error = Some code,
     out_error_reason = Some reason\<rparr>"

definition request_matches :: "W5hFundingIntent \<Rightarrow> W5hFundingConfirmRequest \<Rightarrow> bool" where
  "request_matches stored req \<longleftrightarrow>
     \<not> (user_wallet stored \<noteq> req_user_wallet req
        \<or> user_usdc_ata stored \<noteq> req_user_usdc_ata req
        \<or> controlled_wallet stored \<noteq> req_controlled_wallet req
        \<or> controlled_usdc_ata stored \<noteq> req_controlled_usdc_ata req
        \<or> amount_raw stored \<noteq> req_amount_raw req)"

text \<open>Step 3: the status to echo when the intent is past funding; \<open>None\<close> when confirm may proceed.\<close>

fun echo_status :: "W5hIntentStatus \<Rightarrow> W5hFundingConfirmStatus option" where
  "echo_status FundingRequired = None"
| "echo_status FundingSubmitted = None"
| "echo_status BudgetReserved = Some CfBudgetReserved"
| "echo_status FundingInvalid = Some CfFundingInvalid"
| "echo_status _ = Some CfAlreadyTerminal"

text \<open>Terminal \<open>funding_invalid\<close>: the repository's result is dropped (\<open>let _ = ...\<close>).\<close>

definition reject_funding ::
  "confirm_env \<Rightarrow> W5hFundingIntent \<Rightarrow> W5hFundingConfirmRequest \<Rightarrow> confirm_err \<Rightarrow> funding_db \<Rightarrow>
   W5hFundingConfirmOutcome \<times> funding_db" where
  "reject_funding env stored req err db =
    (terminal_outcome env stored (req_funding_signature req) CfFundingInvalid (fst err) (snd err),
     snd (mark_funding_invalid_if_submitted (verdict_at env 3) (clock_at env 3)
            (req_rule_id_hex req) (req_funding_signature req) (render env (snd err))
            (others env 3 db)))"

text \<open>Step 7 and the outcome read back from the table.\<close>

definition reserve_budget ::
  "confirm_env \<Rightarrow> W5hFundingIntent \<Rightarrow> W5hFundingConfirmRequest \<Rightarrow> u64 \<Rightarrow> funding_db \<Rightarrow>
   W5hFundingConfirmOutcome \<times> funding_db" where
  "reserve_budget env stored req finalized db =
    (let (n, db3) = mark_budget_reserved_if_submitted (verdict_at env 3) (clock_at env 3)
           (req_rule_id_hex req) (req_funding_signature req) finalized (others env 3 db)
     in case n of
       Inl e \<Rightarrow> (terminal_outcome env stored (req_funding_signature req) CfRepoFailed EcRepoFailed
                  (CasFailed e), db3)
     | Inr _ \<Rightarrow>
        let db4 = others env 4 db3;
            refreshed = (case get_intent (verdict_at env 4) (req_rule_id_hex req) db4 of
              Inr (Some i) \<Rightarrow> i | _ \<Rightarrow> stored);
            live = refresh_live_metrics env
        in (\<lparr>out_status = (if status refreshed = BudgetReserved then CfBudgetReserved
                            else CfFundingPending),
             out_rule_id_hex = rule_id_hex refreshed,
             out_canonical_rule_hash_hex = canonical_rule_hash_hex refreshed,
             out_funding_signature = req_funding_signature req,
             out_funding_finalized_slot = Some finalized,
             out_expires_at_ms = expires_at_ms refreshed,
             out_threshold_bps = threshold_bps refreshed,
             out_save_display_apy_bps = fst live,
             out_native_onchain_apr_bps = snd live,
             out_amount_raw = amount_raw refreshed,
             out_user_wallet = user_wallet refreshed,
             out_user_usdc_ata = user_usdc_ata refreshed,
             out_controlled_wallet = controlled_wallet refreshed,
             out_controlled_usdc_ata = controlled_usdc_ata refreshed,
             out_error = None,
             out_error_reason = None\<rparr>, db4))"

text \<open>Steps 5 to 7: fetch, verify memo and delta, reserve.\<close>

definition settle_funding ::
  "confirm_env \<Rightarrow> W5hFundingIntent \<Rightarrow> W5hFundingConfirmRequest \<Rightarrow> funding_db \<Rightarrow>
   W5hFundingConfirmOutcome \<times> funding_db" where
  "settle_funding env stored req db =
    (let sig = req_funding_signature req;
         pending = (\<lambda>code. success_outcome_with_status env stored sig CfFundingPending (Some code))
     in case tx_fetcher env sig of
       Inr NotYetAvailable \<Rightarrow> (pending EcTxNotYetAvailable, db)
     | Inr (VerifierUnsupported reason) \<Rightarrow>
         (with_reason (pending EcVerifierUnsupported) (Unsupported reason), db)
     | Inl e \<Rightarrow> (with_reason (pending EcTxNotYetAvailable) (FetcherFailed e), db)
     | Inr (Available tx) \<Rightarrow>
        (case verify_funding_memo tx (rule_id_hex stored) (canonical_rule_hash_hex stored) of
          Inl err \<Rightarrow> reject_funding env stored req err db
        | Inr _ \<Rightarrow>
           (case verify_funding_delta tx (req_controlled_usdc_ata req) (req_controlled_wallet req)
                  (req_amount_raw req) of
             Inl err \<Rightarrow> reject_funding env stored req err db
           | Inr finalized \<Rightarrow> reserve_budget env stored req finalized db)))"

definition confirm_execute ::
  "confirm_env \<Rightarrow> W5hFundingConfirmRequest \<Rightarrow> funding_db \<Rightarrow>
   W5hFundingConfirmOutcome \<times> funding_db" where
  "confirm_execute env req db =
    (let db1 = others env 1 db; sig = req_funding_signature req
     in case get_intent (verdict_at env 1) (req_rule_id_hex req) db1 of
       Inr None \<Rightarrow>
         (unstored_outcome req CfIntentNotFound EcIntentNotFound (IdNotFound (req_rule_id_hex req)), db1)
     | Inl e \<Rightarrow> (unstored_outcome req CfRepoFailed EcRepoFailed (GetFailed e), db1)
     | Inr (Some stored) \<Rightarrow>
        if \<not> request_matches stored req then
          (terminal_outcome env stored sig CfRequestMismatch EcRequestMismatch FieldsMismatch, db1)
        else (case echo_status (status stored) of
          Some st \<Rightarrow>
            (success_outcome_with_status env stored
               (case funding_signature stored of Some s \<Rightarrow> s | None \<Rightarrow> sig) st
               (if st = CfAlreadyTerminal then Some EcIntentAlreadyTerminal else None), db1)
        | None \<Rightarrow>
           let (rows, db2) = mark_funding_submitted_if_required (verdict_at env 2) (clock_at env 2)
                 (req_rule_id_hex req) sig (others env 2 db1)
           in (case rows of
             Inl e \<Rightarrow> (terminal_outcome env stored sig CfRepoFailed EcRepoFailed (CasFailed e), db2)
           | Inr n \<Rightarrow>
              if n = 0 then
                (terminal_outcome env stored sig CfRequestMismatch EcRequestMismatch OtherSignature, db2)
              else settle_funding env stored req db2)))"

end
