(* ===== verification/Funding_Evidence.thy ===== *)
theory Funding_Evidence
  imports Funding_Confirm
begin

text \<open>
  Why a reserved budget is money received. \<open>credits\<close> and \<open>anchors\<close> say, in numbers and bytes,
  what the two verifiers accept; \<open>ledger_step\<close> is a repository call of the running gateway,
  where the reservation of a budget is made only for a transaction of the ledger that both
  verifiers accept for the terms of the row. Every execution of the confirm route, interleaved
  with any other calls, is a run of \<open>ledger_step\<close>, and in every run each funded row has its
  transaction on the ledger.
\<close>

section \<open>What the verifiers accept\<close>

definition ata_balance :: "FetchedTokenBalance list \<Rightarrow> string \<Rightarrow> nat option" where
  "ata_balance bs ata = (case List.find (\<lambda>b. pubkey b = ata) bs of
     None \<Rightarrow> Some 0
   | Some b \<Rightarrow> (if numeral_of (amount_raw_str b) = [] then None
               else decimal_value 0 (numeral_of (amount_raw_str b))))"

definition usdc_of :: "FetchedTokenBalance list \<Rightarrow> string \<Rightarrow> string \<Rightarrow> bool" where
  "usdc_of bs ata wallet \<longleftrightarrow>
     (\<forall>b. List.find (\<lambda>b. pubkey b = ata) bs = Some b \<longrightarrow> mint b = USDC_MINT_BS58 \<and> owner b = wallet)"

definition credits :: "FetchedTx \<Rightarrow> string \<Rightarrow> string \<Rightarrow> u64 \<Rightarrow> bool" where
  "credits tx ata wallet amount \<longleftrightarrow> tx_err tx = None
     \<and> usdc_of (pre_token_balances tx) ata wallet \<and> usdc_of (post_token_balances tx) ata wallet
     \<and> ata \<in> pubkey ` set (post_token_balances tx)
     \<and> (\<exists>pre. ata_balance (pre_token_balances tx) ata = Some pre
          \<and> ata_balance (post_token_balances tx) ata = Some (pre + unat amount)
          \<and> pre + unat amount < 2 ^ 64)"

definition anchors :: "FetchedTx \<Rightarrow> string \<Rightarrow> string \<Rightarrow> bool" where
  "anchors tx rule_id hash \<longleftrightarrow> (\<exists>ix \<in> set (instructions tx). ix_program_id ix = MEMO_PROGRAM_BS58
     \<and> utf8_valid (ix_data ix) \<and> ix_data ix = as_bytes (expected_memo rule_id hash))"

lemma balance_Inr:
  "(case List.find (\<lambda>b. pubkey b = ata) bs of
      Some b \<Rightarrow> bindE (assert_balance_identity b wallet) (\<lambda>_. map_err f (parse_raw_amount (amount_raw_str b)))
    | None \<Rightarrow> m) = Inr v \<longleftrightarrow>
   (if ata \<in> pubkey ` set bs then usdc_of bs ata wallet \<and> ata_balance bs ata = Some (unat v)
    else m = Inr v)"
proof (cases "List.find (\<lambda>b. pubkey b = ata) bs")
  case None
  then have "ata \<notin> pubkey ` set bs" by (auto simp: find_None_iff)
  then show ?thesis using None by simp
next
  case (Some b)
  then have "ata \<in> pubkey ` set bs" by (force simp: find_Some_iff image_iff)
  then show ?thesis
    using Some
    by (auto simp: assert_balance_identity_def usdc_of_def ata_balance_def parse_raw_amount_def
        map_err_Inr parse_u64_Inr)
qed

lemma ata_balance_absent: "ata \<notin> pubkey ` set bs \<Longrightarrow> ata_balance bs ata = Some 0 \<and> usdc_of bs ata wallet"
proof -
  assume "ata \<notin> pubkey ` set bs"
  then have "List.find (\<lambda>b. pubkey b = ata) bs = None" by (auto simp: find_None_iff)
  then show ?thesis by (simp add: ata_balance_def usdc_of_def)
qed

lemma word_difference_iff: "p \<le> q \<and> q - p = d \<longleftrightarrow> unat q = unat p + unat d" for p q d :: u64
  using checked_sub_Some [of q p d] by (auto simp: checked_sub_def split: if_splits)

lemma unat_surj: "m < 2 ^ 64 \<Longrightarrow> \<exists>p :: u64. unat p = m"
  by (rule exI [of _ "word_of_nat m"]) (simp only: unat_of_nat, simp)

lemma credits_words:
  "credits tx ata wallet amount \<longleftrightarrow> tx_err tx = None
     \<and> usdc_of (pre_token_balances tx) ata wallet \<and> usdc_of (post_token_balances tx) ata wallet
     \<and> ata \<in> pubkey ` set (post_token_balances tx)
     \<and> (\<exists>(p :: u64) (q :: u64). ata_balance (pre_token_balances tx) ata = Some (unat p)
          \<and> ata_balance (post_token_balances tx) ata = Some (unat q)
          \<and> unat q = unat p + unat amount)"
proof -
  have "(\<exists>n. x = Some n \<and> y = Some (n + unat amount) \<and> n + unat amount < 2 ^ 64) \<longleftrightarrow>
    (\<exists>(p :: u64) (q :: u64). x = Some (unat p) \<and> y = Some (unat q) \<and> unat q = unat p + unat amount)"
    for x y :: "nat option"
  proof
    assume "\<exists>n. x = Some n \<and> y = Some (n + unat amount) \<and> n + unat amount < 2 ^ 64"
    then obtain n where n: "x = Some n" "y = Some (n + unat amount)" "n + unat amount < 2 ^ 64" by blast
    obtain p q :: u64 where "unat p = n" "unat q = n + unat amount"
      using unat_surj [OF n(3)] unat_surj [OF add_lessD1 [OF n(3)]] by blast
    then show "\<exists>(p :: u64) (q :: u64). x = Some (unat p) \<and> y = Some (unat q) \<and> unat q = unat p + unat amount"
      using n by (intro exI [of _ q] exI [of _ p]) simp
  next
    assume "\<exists>(p :: u64) (q :: u64). x = Some (unat p) \<and> y = Some (unat q) \<and> unat q = unat p + unat amount"
    then obtain p q :: u64 where "x = Some (unat p)" "y = Some (unat q)" "unat q = unat p + unat amount"
      by blast
    then show "\<exists>n. x = Some n \<and> y = Some (n + unat amount) \<and> n + unat amount < 2 ^ 64"
      using unat_less_exp [of q] by auto
  qed
  then show ?thesis unfolding credits_def by simp
qed

lemma verify_funding_delta_Inr:
  "verify_funding_delta tx ata wallet amount = Inr s \<longleftrightarrow> credits tx ata wallet amount \<and> s = slot tx"
proof (cases "tx_err tx")
  case None
  let ?pre = "pre_token_balances tx" and ?post = "post_token_balances tx"
  have zero: "(if ata \<in> pubkey ` set ?pre then usdc_of ?pre ata wallet \<and> ata_balance ?pre ata = Some (unat p)
      else (Inr 0 :: confirm_err + u64) = Inr p)
      \<longleftrightarrow> usdc_of ?pre ata wallet \<and> ata_balance ?pre ata = Some (unat p)" for p :: u64
    using ata_balance_absent [of ata ?pre wallet] by (auto simp: unat_eq_0)
  have "verify_funding_delta tx ata wallet amount = Inr s \<longleftrightarrow>
    (\<exists>p. (usdc_of ?pre ata wallet \<and> ata_balance ?pre ata = Some (unat p)) \<and>
      (\<exists>q. (ata \<in> pubkey ` set ?post \<and> usdc_of ?post ata wallet \<and> ata_balance ?post ata = Some (unat q))
        \<and> (p \<le> q \<and> q - p = amount) \<and> s = slot tx))"
    unfolding verify_funding_delta_def None Let_def option.case bindE_Inr balance_Inr zero
    by (simp add: not_less) blast
  then show ?thesis unfolding word_difference_iff credits_words None by blast
qed (simp add: verify_funding_delta_def credits_def)

lemma verify_funding_memo_Inr: "verify_funding_memo tx rid h = Inr u \<longleftrightarrow> anchors tx rid h"
proof -
  have ne: "expected_memo rid h \<noteq> []"
    by (simp add: expected_memo_def MEMO_PAYLOAD_PREFIX_def)
  have one: "(case from_utf8 bs of Some s \<Rightarrow> s | None \<Rightarrow> []) = expected_memo rid h \<longleftrightarrow>
      utf8_valid bs \<and> bs = as_bytes (expected_memo rid h)" for bs
    using ne from_utf8_Some [of bs "expected_memo rid h"] by (cases "from_utf8 bs") auto
  show ?thesis
    unfolding verify_funding_memo_def Let_def one anchors_def
    by (auto simp: list_ex_iff filter_empty_conv)
qed

section \<open>The running gateway\<close>

type_synonym ledger = "string \<Rightarrow> FetchedTx option"

inductive ledger_step :: "ledger \<Rightarrow> funding_db \<Rightarrow> funding_db \<Rightarrow> bool" for ledger where
  ls_insert: "ledger_step ledger db (snd (insert_intent v now i db))"
| ls_submit: "ledger_step ledger db (snd (mark_funding_submitted_if_required v now iid sig db))"
| ls_reserve: "ledger sig = Some tx \<Longrightarrow> r \<in> set db \<Longrightarrow> row_intent_id r = iid \<Longrightarrow>
    verify_funding_memo tx (row_rule_id_hex r) (row_canonical_rule_hash_hex r) = Inr () \<Longrightarrow>
    verify_funding_delta tx (row_controlled_usdc_ata r) (row_controlled_wallet r) (row_amount_raw r)
      = Inr finalized \<Longrightarrow>
    ledger_step ledger db (snd (mark_budget_reserved_if_submitted v now iid sig finalized db))"
| ls_invalidate: "ledger_step ledger db (snd (mark_funding_invalid_if_submitted v now iid sig reason db))"
| ls_lease_execution: "ledger_step ledger db (snd (lease_execution_if_budget_reserved v now iid db))"
| ls_complete: "ledger_step ledger db (snd (mark_completed_if_executing v now iid sig db))"
| ls_release: "ledger_step ledger db (snd (release_execution_lease_to_budget_reserved v now iid reason db))"
| ls_expire: "ledger_step ledger db (snd (mark_expired_if_past v now iid db))"
| ls_lease_refund: "ledger_step ledger db (snd (lease_refund_if_expired_or_past v now iid db))"
| ls_refunded: "ledger_step ledger db (snd (mark_refunded_if_refunding v now iid sig db))"
| ls_fail: "ledger_step ledger db (snd (mark_failed v now iid reason db))"

lemma ledger_funding_step: "ledger_step ledger db db' \<Longrightarrow> funding_step db db'"
  by (induction rule: ledger_step.induct) (auto intro: funding_step.intros)

lemma ledger_reach: "reach init (ledger_step ledger) db \<Longrightarrow> reach init funding_step db"
  by (erule reach_mono) (auto intro: ledger_funding_step)

lemma ledger_run: "(ledger_step ledger)\<^sup>*\<^sup>* db db' \<Longrightarrow> funding_step\<^sup>*\<^sup>* db db'"
  by (erule rtranclp_mono [THEN predicate2D, rotated]) (auto intro: ledger_funding_step)

text \<open>The row's money: its funding signature names a ledger transaction that pays for its terms.\<close>

definition evidenced :: "ledger \<Rightarrow> RowRaw \<Rightarrow> bool" where
  "evidenced ledger r \<longleftrightarrow> (\<exists>sig tx. row_funding_signature r = Some sig \<and> ledger sig = Some tx
     \<and> anchors tx (row_rule_id_hex r) (row_canonical_rule_hash_hex r)
     \<and> credits tx (row_controlled_usdc_ata r) (row_controlled_wallet r) (row_amount_raw r)
     \<and> row_funding_finalized_slot r = Some (slot tx))"

definition evidence_ok :: "ledger \<Rightarrow> funding_db \<Rightarrow> bool" where
  "evidence_ok ledger db \<longleftrightarrow> store_ok db
     \<and> (\<forall>r \<in> set db. row_funding_finalized_slot r \<noteq> None \<longrightarrow> evidenced ledger r)"

lemma evidenced_row_le:
  assumes "evidenced ledger r" and "row_le r r'"
    and "row_funding_finalized_slot r' = row_funding_finalized_slot r"
  shows "evidenced ledger r'"
  using assms by (auto simp: evidenced_def row_le_def row_terms_def keeps_def)

lemma evidence_cas:
  assumes "evidence_ok ledger db" and "funding_cas w s"
    and "\<And>r. row_funding_finalized_slot (s r) = row_funding_finalized_slot r"
  shows "\<forall>r \<in> set (snd (sql_update v w s db)). row_funding_finalized_slot r \<noteq> None \<longrightarrow> evidenced ledger r"
proof
  fix r' assume "r' \<in> set (snd (sql_update v w s db))"
  then obtain r where r: "r \<in> set db" "r' = (if v = None \<and> w r then s r else r)"
    by (auto simp: sql_update_table split: if_splits)
  have ok: "row_ok r" "row_funding_finalized_slot r \<noteq> None \<longrightarrow> evidenced ledger r"
    using assms(1) r(1) by (auto simp: evidence_ok_def store_ok_def)
  have "row_le r r'"
    using r(2) ok(1) funding_cas_row_le [OF assms(2)] row_le_refl by auto
  then show "row_funding_finalized_slot r' \<noteq> None \<longrightarrow> evidenced ledger r'"
    using ok(2) r(2) assms(3) evidenced_row_le by (metis (full_types))
qed

lemma evidence_reserve:
  assumes "evidence_ok ledger db" and "ledger sig = Some tx" and "r \<in> set db" and "row_intent_id r = iid"
    and "anchors tx (row_rule_id_hex r) (row_canonical_rule_hash_hex r)"
    and "credits tx (row_controlled_usdc_ata r) (row_controlled_wallet r) (row_amount_raw r)"
  shows "\<forall>r \<in> set (snd (mark_budget_reserved_if_submitted v now iid sig (slot tx) db)).
    row_funding_finalized_slot r \<noteq> None \<longrightarrow> evidenced ledger r"
proof
  fix r' assume "r' \<in> set (snd (mark_budget_reserved_if_submitted v now iid sig (slot tx) db))"
  then obtain x where x: "x \<in> set db"
    "r' = (if v = None \<and> verified_where iid sig x then reserved_set now (slot tx) x else x)"
    by (auto simp: mark_budget_reserved_if_submitted_def sql_update_table split: if_splits)
  show "row_funding_finalized_slot r' \<noteq> None \<longrightarrow> evidenced ledger r'"
  proof (cases "v = None \<and> verified_where iid sig x")
    case True
    then have "x = r"
      using assms(1,3,4) x(1) keyed_unique [of row_intent_id db x r]
      by (simp add: evidence_ok_def store_ok_def verified_where_def)
    then show ?thesis
      using True x(2) assms(2,5,6) by (simp add: evidenced_def reserved_set_def verified_where_def)
  next
    case False
    then show ?thesis using x assms(1) by (auto simp: evidence_ok_def)
  qed
qed

lemma evidence_step:
  assumes "evidence_ok ledger db" and "ledger_step ledger db db'"
  shows "evidence_ok ledger db'"
proof -
  have "\<forall>r \<in> set db'. row_funding_finalized_slot r \<noteq> None \<longrightarrow> evidenced ledger r"
    using assms(2)
  proof cases
    case (ls_insert v now i)
    then show ?thesis
      using assms(1) by (auto simp: insert_intent_def sql_insert_table evidence_ok_def new_row_def)
  next
    case (ls_reserve sig tx r iid finalized v now)
    then show ?thesis
      using evidence_reserve [OF assms(1)]
      by (auto simp: verify_funding_delta_Inr verify_funding_memo_Inr)
  qed (unfold call_defs,
      (hypsubst, rule evidence_cas [OF assms(1)], rule funding_cas.intros, simp add: set_defs)+)
  moreover have "store_ok db'"
    using assms store_ok_step ledger_funding_step by (auto simp: evidence_ok_def)
  ultimately show ?thesis by (simp add: evidence_ok_def)
qed

interpretation evidence: inductive_invariant "\<lambda>db. db = []" "ledger_step ledger" "evidence_ok ledger"
  for ledger
  by unfold_locales (simp add: evidence_ok_def store_ok_def, rule evidence_step)

section \<open>Every confirm execution is a run of the gateway\<close>

definition fair_env :: "ledger \<Rightarrow> confirm_env \<Rightarrow> bool" where
  "fair_env ledger env \<longleftrightarrow> (\<forall>k d. (ledger_step ledger)\<^sup>*\<^sup>* d (others env k d))
     \<and> (\<forall>sig tx. tx_fetcher env sig = Inr (Available tx) \<longrightarrow> ledger sig = Some tx)"

lemma get_intent_row:
  assumes "get_intent v iid db = Inr (Some i)"
  obtains r where "r \<in> set db" "row_intent_id r = iid" "row_to_intent r = Inr i"
proof -
  from assms obtain r where "List.find (\<lambda>r. row_intent_id r = iid) db = Some r" "row_to_intent r = Inr i"
    by (auto simp: get_intent_def sql_select_optional_def ok_simps split: option.splits)
  then show thesis using that by (blast dest: find_SomeD)
qed

lemma row_to_intent_terms:
  assumes "row_to_intent r = Inr i"
  shows "rule_id_hex i = row_rule_id_hex r" "canonical_rule_hash_hex i = row_canonical_rule_hash_hex r"
    "controlled_wallet i = row_controlled_wallet r" "controlled_usdc_ata i = row_controlled_usdc_ata r"
    "amount_raw i = row_amount_raw r"
  using assms unfolding row_to_intent_def by (elim success_elims; auto)+

text \<open>The row read at the start is still there, with its terms, when the budget is reserved.\<close>

lemma ledger_terms_kept:
  assumes "reach (\<lambda>db. db = []) (ledger_step ledger) db" and "(ledger_step ledger)\<^sup>*\<^sup>* db db'"
    and "r \<in> set db"
  obtains r' where "r' \<in> set db'" "row_terms r' = row_terms r"
  using run_row [OF ledger_reach [OF assms(1)] ledger_run [OF assms(2)] assms(3)]
  by (auto simp: row_le_def)

lemma run_then: "R\<^sup>*\<^sup>* a b \<Longrightarrow> R b c \<Longrightarrow> R\<^sup>*\<^sup>* a c"
  by (rule rtranclp.rtrancl_into_rtrancl)

lemma reject_funding_run:
  "fair_env ledger env \<Longrightarrow> (ledger_step ledger)\<^sup>*\<^sup>* db (snd (reject_funding env stored req err db))"
  unfolding reject_funding_def fair_env_def snd_conv by (blast intro: run_then ls_invalidate)

lemma reserve_budget_run:
  assumes "fair_env ledger env" and "reach (\<lambda>db. db = []) (ledger_step ledger) db"
    and "r \<in> set db" and "row_intent_id r = req_rule_id_hex req" and "row_to_intent r0 = Inr stored"
    and "row_terms r = row_terms r0" and "request_matches stored req"
    and "ledger (req_funding_signature req) = Some tx"
    and "verify_funding_memo tx (rule_id_hex stored) (canonical_rule_hash_hex stored) = Inr ()"
    and "verify_funding_delta tx (req_controlled_usdc_ata req) (req_controlled_wallet req)
           (req_amount_raw req) = Inr finalized"
  shows "(ledger_step ledger)\<^sup>*\<^sup>* db (snd (reserve_budget env stored req finalized db))"
proof -
  let ?db = "others env 3 db"
  let ?res = "mark_budget_reserved_if_submitted (verdict_at env 3) (clock_at env 3)
           (req_rule_id_hex req) (req_funding_signature req) finalized ?db"
  have run: "(ledger_step ledger)\<^sup>*\<^sup>* d (others env k d)" for k d
    using assms(1) by (simp add: fair_env_def)
  obtain r' where r': "r' \<in> set ?db" "row_terms r' = row_terms r"
    using ledger_terms_kept [OF assms(2) run assms(3)] .
  then have "ledger_step ledger ?db (snd ?res)"
    using assms(4-10) row_to_intent_terms [OF assms(5)]
    by (intro ls_reserve [of ledger _ tx r']) (auto simp: row_terms_def request_matches_def)
  then have db3: "(ledger_step ledger)\<^sup>*\<^sup>* db (snd ?res)" by (rule run_then [OF run])
  then have "(ledger_step ledger)\<^sup>*\<^sup>* db (others env 4 (snd ?res))"
    using run by (rule rtranclp_trans)
  with db3 show ?thesis
    unfolding reserve_budget_def Let_def by (simp add: case_prod_beta split: sum.split)
qed

lemma settle_funding_run:
  assumes "fair_env ledger env" and "reach (\<lambda>db. db = []) (ledger_step ledger) db"
    and "r \<in> set db" and "row_intent_id r = req_rule_id_hex req" and "row_to_intent r0 = Inr stored"
    and "row_terms r = row_terms r0" and "request_matches stored req"
  shows "(ledger_step ledger)\<^sup>*\<^sup>* db (snd (settle_funding env stored req db))"
proof (cases "\<exists>tx. tx_fetcher env (req_funding_signature req) = Inr (Available tx)")
  case True
  then obtain tx where tx: "tx_fetcher env (req_funding_signature req) = Inr (Available tx)" by blast
  then have "ledger (req_funding_signature req) = Some tx"
    using assms(1) by (simp add: fair_env_def)
  then show ?thesis
    using reject_funding_run [OF assms(1)] reserve_budget_run [OF assms]
    by (simp add: settle_funding_def Let_def tx split: sum.split)
next
  case False
  then show ?thesis
    by (auto simp: settle_funding_def Let_def split: sum.split TxFetchOutcome.split)
qed

lemma confirm_execute_run:
  assumes "fair_env ledger env" and "reach (\<lambda>db. db = []) (ledger_step ledger) db"
  shows "(ledger_step ledger)\<^sup>*\<^sup>* db (snd (confirm_execute env req db))"
proof -
  let ?db1 = "others env 1 db" and ?db2 = "others env 2 (others env 1 db)"
  let ?sub = "mark_funding_submitted_if_required (verdict_at env 2) (clock_at env 2)
      (req_rule_id_hex req) (req_funding_signature req) ?db2"
  have run: "(ledger_step ledger)\<^sup>*\<^sup>* d (others env k d)" for k d
    using assms(1) by (simp add: fair_env_def)
  have reach1: "reach (\<lambda>db. db = []) (ledger_step ledger) d'"
    if "reach (\<lambda>db. db = []) (ledger_step ledger) d" "(ledger_step ledger)\<^sup>*\<^sup>* d d'" for d d'
    using that(2,1) by (induction rule: rtranclp_induct) (auto intro: reach_step)
  have sub: "(ledger_step ledger)\<^sup>*\<^sup>* ?db1 (snd ?sub)" by (rule run_then [OF run ls_submit])
  have settle: "(ledger_step ledger)\<^sup>*\<^sup>* (snd ?sub) (snd (settle_funding env stored req (snd ?sub)))"
    if get: "get_intent (verdict_at env 1) (req_rule_id_hex req) ?db1 = Inr (Some stored)"
      and match: "request_matches stored req" for stored
  proof -
    from get obtain r0 where r0: "r0 \<in> set ?db1" "row_intent_id r0 = req_rule_id_hex req"
      "row_to_intent r0 = Inr stored" by (rule get_intent_row)
    obtain r where "r \<in> set (snd ?sub)" "row_terms r = row_terms r0"
      using ledger_terms_kept [OF reach1 [OF assms(2) run] sub r0(1)] .
    moreover from this have "row_intent_id r = req_rule_id_hex req"
      using r0(2) by (simp add: row_terms_def)
    ultimately show ?thesis
      using settle_funding_run [OF assms(1) reach1 [OF reach1 [OF assms(2) run] sub]] r0(3) match
      by blast
  qed
  have "(ledger_step ledger)\<^sup>*\<^sup>* ?db1 (snd (confirm_execute env req db))"
    using sub settle rtranclp_trans [OF sub settle]
    by (auto simp: confirm_execute_def Let_def case_prod_beta split: sum.split option.split)
  then show ?thesis using run rtranclp_trans by metis
qed

text \<open>A reported \<open>budget_reserved\<close> is read from the table.\<close>

lemma reserve_budget_status:
  assumes "out_status (fst (reserve_budget env stored req finalized db)) = CfBudgetReserved"
    and "status stored \<noteq> BudgetReserved"
  obtains v i where "get_intent v (req_rule_id_hex req) (snd (reserve_budget env stored req finalized db))
      = Inr (Some i)" "status i = BudgetReserved"
  using assms
  by (auto simp: reserve_budget_def Let_def case_prod_beta terminal_outcome_def
      split: sum.splits option.splits if_splits)

lemma settle_funding_status:
  assumes "out_status (fst (settle_funding env stored req db)) = CfBudgetReserved"
    and "status stored \<noteq> BudgetReserved"
  obtains v i where "get_intent v (req_rule_id_hex req) (snd (settle_funding env stored req db))
      = Inr (Some i)" "status i = BudgetReserved"
proof -
  from assms(1) obtain fin where
    fin: "settle_funding env stored req db = reserve_budget env stored req fin db"
    by (auto simp: settle_funding_def Let_def reject_funding_def terminal_outcome_def
        success_outcome_with_status_def with_reason_def
        split: sum.splits TxFetchOutcome.splits)
  show thesis
    using reserve_budget_status [OF assms(1) [unfolded fin] assms(2)] that unfolding fin by blast
qed

lemma confirm_execute_status:
  assumes "out_status (fst (confirm_execute env req db)) = CfBudgetReserved"
  obtains v i where "get_intent v (req_rule_id_hex req) (snd (confirm_execute env req db))
      = Inr (Some i)" "status i = BudgetReserved"
proof -
  let ?db1 = "others env 1 db"
  from assms obtain stored where
    get: "get_intent (verdict_at env 1) (req_rule_id_hex req) ?db1 = Inr (Some stored)"
    and match: "request_matches stored req"
    by (auto simp: confirm_execute_def Let_def unstored_outcome_def terminal_outcome_def
        split: sum.splits option.splits if_splits)
  show thesis
  proof (cases "echo_status (status stored)")
    case None
    then have "status stored \<noteq> BudgetReserved" by auto
    moreover obtain d where "confirm_execute env req db = settle_funding env stored req d"
      using assms None get match
      by (auto simp: confirm_execute_def Let_def case_prod_beta terminal_outcome_def
          split: sum.splits if_splits)
    ultimately show thesis using assms that by (metis settle_funding_status)
  next
    case (Some st)
    then have "snd (confirm_execute env req db) = ?db1"
      "out_status (fst (confirm_execute env req db)) = st"
      using get match by (simp_all add: confirm_execute_def success_outcome_with_status_def)
    moreover have "status stored = BudgetReserved" if "st = CfBudgetReserved"
      using that Some by (cases "status stored") auto
    ultimately show thesis using assms get that by metis
  qed
qed

section \<open>Properties\<close>

text \<open>
  C21: the two verifiers decide exactly what they document. The memo check accepts a transaction
  iff one of its memo-program instructions carries, byte for byte, the memo of the rule; the
  delta check accepts iff the transaction succeeded, every balance row it reads for the account is
  USDC owned by the controlled wallet, and the account's decimal post balance is its pre balance
  plus the amount, with no wrap-around and an absent pre row counting as zero; it returns the slot.\<close>

theorem funding_verifiers_exact:
  "(verify_funding_memo tx rule_id hash = Inr u \<longleftrightarrow> anchors tx rule_id hash)
   \<and> (verify_funding_delta tx ata wallet amount = Inr s \<longleftrightarrow> credits tx ata wallet amount \<and> s = slot tx)"
  using verify_funding_memo_Inr verify_funding_delta_Inr by blast

text \<open>
  C22: no budget without money. When the confirm route runs over a table the gateway can have
  produced, interleaved with any other repository calls, with any database failures and any fetch
  results that do not misreport the ledger, the table it leaves is again one the gateway can
  produce; every row in it that was ever funded has a ledger transaction anchored to its
  rule and crediting exactly its amount; and a reported \<open>budget_reserved\<close> is the status of the
  requested intent's row.\<close>

theorem confirmed_budget_evidenced:
  assumes "fair_env ledger env" and "reach (\<lambda>db. db = []) (ledger_step ledger) db"
    and "confirm_execute env req db = (out, db')"
  shows "(ledger_step ledger)\<^sup>*\<^sup>* db db'
    \<and> (\<forall>r \<in> set db'. status_parse (row_status r) \<in>
         {Some BudgetReserved, Some Executing, Some Completed, Some Expired, Some Refunding, Some Refunded}
         \<longrightarrow> evidenced ledger r)
    \<and> (out_status out = CfBudgetReserved \<longrightarrow>
         (\<exists>r \<in> set db'. row_intent_id r = req_rule_id_hex req
            \<and> status_parse (row_status r) = Some BudgetReserved \<and> evidenced ledger r))"
    (is "?run \<and> ?all \<and> ?reported")
proof (intro conjI)
  have db': "db' = snd (confirm_execute env req db)" and out: "out = fst (confirm_execute env req db)"
    using assms(3) by simp_all
  show ?run unfolding db' by (rule confirm_execute_run [OF assms(1,2)])
  have "reach (\<lambda>db. db = []) (ledger_step ledger) db'"
    using \<open>?run\<close> assms(2) by (induction rule: rtranclp_induct) (auto intro: reach_step)
  then have good: "evidence_ok ledger db'" by (rule evidence.reach_good)
  have ev: "evidenced ledger r" if "r \<in> set db'" and "status_parse (row_status r) \<in>
         {Some BudgetReserved, Some Executing, Some Completed, Some Expired, Some Refunding, Some Refunded}" for r
  proof -
    from good that(1) have "row_ok r" by (simp add: evidence_ok_def store_ok_def)
    with that(2) have "row_funding_finalized_slot r \<noteq> None"
      by (auto simp: row_ok_def status_parse_Some)
    with good that(1) show ?thesis by (simp add: evidence_ok_def)
  qed
  then show ?all by blast
  show ?reported
  proof
    assume "out_status out = CfBudgetReserved"
    then obtain v i where "get_intent v (req_rule_id_hex req) db' = Inr (Some i)" "status i = BudgetReserved"
      unfolding out db' by (rule confirm_execute_status)
    then obtain r where "r \<in> set db'" "row_intent_id r = req_rule_id_hex req"
      "status_parse (row_status r) = Some BudgetReserved"
      by (metis get_intent_row row_to_intent_Inr status_parse_as_str)
    then show "\<exists>r \<in> set db'. row_intent_id r = req_rule_id_hex req
            \<and> status_parse (row_status r) = Some BudgetReserved \<and> evidenced ledger r"
      using ev by blast
  qed
qed

end
