(* ===== verification/Json.thy ===== *)
theory Json
  imports Rust_Text
begin

text \<open>
  \<open>serde_json::Value\<close> as the gateway reads it: a number is an unsigned, a negative or a
  floating one (the latter kept as its text), an object is the association list of its
  entries, and the accessors return \<open>None\<close> on a value of another shape.
\<close>

datatype json_number = PosInt u64 | NegInt i64 | Float string

datatype json =
    JNull
  | JBool bool
  | JNumber json_number
  | JString string
  | JArray "json list"
  | JObject "(string \<times> json) list"

fun json_get :: "json \<Rightarrow> string \<Rightarrow> json option" where
  "json_get (JObject kvs) k = map_of kvs k"
| "json_get _ k = None"

fun as_u64 :: "json \<Rightarrow> u64 option" where
  "as_u64 (JNumber (PosInt n)) = Some n"
| "as_u64 _ = None"

fun as_str :: "json \<Rightarrow> string option" where
  "as_str (JString s) = Some s"
| "as_str _ = None"

fun as_array :: "json \<Rightarrow> json list option" where
  "as_array (JArray xs) = Some xs"
| "as_array _ = None"

text \<open>\<open>v.get(a).and_then(|x| x.get(b))...\<close>\<close>

fun json_path :: "json \<Rightarrow> string list \<Rightarrow> json option" where
  "json_path v [] = Some v"
| "json_path v (k # ks) = Option.bind (json_get v k) (\<lambda>x. json_path x ks)"

end
