(* ===== verification/Tx_Fetcher.thy ===== *)
theory Tx_Fetcher
  imports Funding_Confirm Json
begin

text \<open>
  The production \<open>TxFetcher\<close> of \<open>stage2_w5h_funding_confirm.rs\<close>: one \<open>getTransaction\<close> call and
  the parsing of its JSON result. The HTTP client, serde's printer and the base58 decoder are
  third-party code and so parameters, collected in \<open>rpc_env\<close>: \<open>http_post\<close> is the transport
  error, or the status code with the decoded body.
\<close>

record rpc_env =
  http_post :: "json \<Rightarrow> string + nat \<times> (string + json)"
  json_to_string :: "json \<Rightarrow> string option"
  bs58_decode :: "string \<Rightarrow> string + u8 list"

definition build_get_transaction_request_body :: "string \<Rightarrow> json" where
  "build_get_transaction_request_body sig = JObject [
     (''jsonrpc'', JString ''2.0''),
     (''id'', JNumber (PosInt 1)),
     (''method'', JString ''getTransaction''),
     (''params'', JArray [
        JString sig,
        JObject [
          (''encoding'', JString ''json''),
          (''commitment'', JString ''confirmed''),
          (''maxSupportedTransactionVersion'', JNumber (PosInt 0))]])]"

definition key_strings :: "json list \<Rightarrow> string list" where
  "key_strings arr = List.map_filter as_str arr"

definition array_at :: "json option \<Rightarrow> json list option" where
  "array_at v = Option.bind v as_array"

text \<open>Account keys in the runtime's order: message keys, then loaded writable, then loaded readonly.\<close>

definition message_keys :: "json \<Rightarrow> string list" where
  "message_keys result =
    (case array_at (json_path result [''transaction'', ''message'', ''accountKeys'']) of
      Some arr \<Rightarrow> key_strings arr | None \<Rightarrow> [])"

definition loaded_array :: "json \<Rightarrow> string \<Rightarrow> json list" where
  "loaded_array meta field =
    (case array_at (json_path meta [''loadedAddresses'', field]) of Some arr \<Rightarrow> arr | None \<Rightarrow> [])"

definition resolved_keys :: "json \<Rightarrow> json \<Rightarrow> string list" where
  "resolved_keys result meta = message_keys result
     @ key_strings (loaded_array meta ''writable'') @ key_strings (loaded_array meta ''readonly'')"

definition alt_present :: "json \<Rightarrow> bool" where
  "alt_present meta \<longleftrightarrow> loaded_array meta ''writable'' \<noteq> [] \<or> loaded_array meta ''readonly'' \<noteq> []"

definition out_of_range_msg :: "string \<Rightarrow> u64 \<Rightarrow> string list \<Rightarrow> string" where
  "out_of_range_msg what idx keys = what @ '' '' @ show_nat (unat idx)
     @ '' out of resolved-keys range (len='' @ show_nat (length keys)
     @ ''); unresolved address-table-lookup entry''"

definition parse_instruction :: "rpc_env \<Rightarrow> string list \<Rightarrow> json \<Rightarrow> string + FetchedInstruction" where
  "parse_instruction rpc keys entry =
    bindE (ok_or (Option.bind (json_get entry ''programIdIndex'') as_u64)
             ''instruction missing programIdIndex'') (\<lambda>idx.
    bindE (ok_or (get_index keys (unat idx)) (out_of_range_msg ''programIdIndex'' idx keys)) (\<lambda>program.
    let data_str = (case Option.bind (json_get entry ''data'') as_str of Some s \<Rightarrow> s | None \<Rightarrow> [])
    in bindE (if data_str = [] then Inr []
              else map_err (\<lambda>e. ''instruction data base58 decode: '' @ e) (bs58_decode rpc data_str)) (\<lambda>data.
    Inr \<lparr>ix_program_id = program, ix_data = data\<rparr>)))"

definition push_each :: "('a \<Rightarrow> 'e + 'b) \<Rightarrow> 'b list \<Rightarrow> 'a \<Rightarrow> 'e + 'b list" where
  "push_each f out x = bindE (f x) (\<lambda>y. Inr (out @ [y]))"

definition parse_instructions_array ::
  "rpc_env \<Rightarrow> json \<Rightarrow> string list \<Rightarrow> string + FetchedInstruction list" where
  "parse_instructions_array rpc result keys =
    (case array_at (json_path result [''transaction'', ''message'', ''instructions'']) of
      None \<Rightarrow> Inr []
    | Some arr \<Rightarrow> foldE (push_each (parse_instruction rpc keys)) [] arr)"

definition parse_token_balance :: "string list \<Rightarrow> json \<Rightarrow> string + FetchedTokenBalance" where
  "parse_token_balance keys entry =
    bindE (ok_or (Option.bind (json_get entry ''accountIndex'') as_u64)
             ''tokenBalance entry missing accountIndex'') (\<lambda>idx.
    bindE (ok_or (get_index keys (unat idx)) (out_of_range_msg ''accountIndex'' idx keys)) (\<lambda>key.
    bindE (ok_or (Option.bind (json_get entry ''mint'') as_str)
             ''tokenBalance entry missing mint'') (\<lambda>m.
    bindE (ok_or (Option.bind (json_get entry ''owner'') as_str)
             ''tokenBalance entry missing owner'') (\<lambda>o'.
    bindE (ok_or (Option.bind (json_path entry [''uiTokenAmount'', ''amount'']) as_str)
             ''tokenBalance entry missing uiTokenAmount.amount'') (\<lambda>a.
    Inr \<lparr>account_index = ucast idx, pubkey = key, mint = m, owner = o', amount_raw_str = a\<rparr>)))))"

definition parse_token_balance_array ::
  "json option \<Rightarrow> string list \<Rightarrow> string + FetchedTokenBalance list" where
  "parse_token_balance_array arr keys = (case array_at arr of
     None \<Rightarrow> Inr []
   | Some es \<Rightarrow> foldE (push_each (parse_token_balance keys)) [] es)"

definition unresolved_msg :: "string \<Rightarrow> json \<Rightarrow> string \<Rightarrow> string" where
  "unresolved_msg what meta e = ''unresolved '' @ what @ '' (alt_present=''
     @ (if alt_present meta then ''true'' else ''false'') @ ''): '' @ e"

definition meta_err :: "rpc_env \<Rightarrow> json \<Rightarrow> string option" where
  "meta_err rpc meta = Option.bind (json_get meta ''err'') (\<lambda>e.
     if e = JNull then None
     else Some (case json_to_string rpc e of Some s \<Rightarrow> s | None \<Rightarrow> ''<unserializable>''))"

definition parse_get_transaction_result :: "rpc_env \<Rightarrow> json \<Rightarrow> string + TxFetchOutcome" where
  "parse_get_transaction_result rpc result =
    bindE (ok_or (Option.bind (json_get result ''slot'') as_u64) ''missing/non-u64 slot'') (\<lambda>sl.
    bindE (ok_or (json_get result ''meta'') ''missing meta'') (\<lambda>meta.
    let keys = resolved_keys result meta in
    case parse_token_balance_array (json_get meta ''preTokenBalances'') keys of
      Inl e \<Rightarrow> Inr (VerifierUnsupported (unresolved_msg ''preTokenBalances'' meta e))
    | Inr pre \<Rightarrow>
     (case parse_token_balance_array (json_get meta ''postTokenBalances'') keys of
        Inl e \<Rightarrow> Inr (VerifierUnsupported (unresolved_msg ''postTokenBalances'' meta e))
      | Inr post \<Rightarrow>
       (case parse_instructions_array rpc result keys of
          Inl e \<Rightarrow> Inr (VerifierUnsupported (unresolved_msg ''instructions'' meta e))
        | Inr ixs \<Rightarrow>
           Inr (Available \<lparr>slot = sl, tx_err = meta_err rpc meta, pre_token_balances = pre,
                  post_token_balances = post, instructions = ixs\<rparr>)))))"

definition live_fetch :: "rpc_env \<Rightarrow> string \<Rightarrow> string + TxFetchOutcome" where
  "live_fetch rpc sig =
    bindE (map_err (\<lambda>e. ''transport: '' @ e)
             (http_post rpc (build_get_transaction_request_body sig))) (\<lambda>(code, body).
    if 400 \<le> code then Inl (''http '' @ show_nat code)
    else bindE (map_err (\<lambda>e. ''body decode: '' @ e) body) (\<lambda>v.
    case json_get v ''error'' of
      Some err \<Rightarrow>
       (let msg = (case json_to_string rpc err of Some s \<Rightarrow> s | None \<Rightarrow> ''{}'');
            lower = to_ascii_lowercase msg
        in if str_contains lower ''version'' \<and> str_contains lower ''unsupported''
           then Inr (VerifierUnsupported (''rpc rejected as unsupported version: '' @ msg))
           else Inl (''rpc error: '' @ msg))
    | None \<Rightarrow>
       (let result = (case json_get v ''result'' of Some r \<Rightarrow> r | None \<Rightarrow> JNull)
        in if result = JNull then Inr NotYetAvailable
           else map_err (\<lambda>e. ''getTransaction parse: '' @ e)
                  (parse_get_transaction_result rpc result))))"

section \<open>What an available transaction is\<close>

interpretation push: walk "push_each f" "[]" "\<lambda>xs. result_ok (collectE f xs)" for f
proof
  show "result_ok (collectE f []) = Some []" by (simp add: result_ok_def)
next
  have snoc: "collectE f (xs @ [x]) = bindE (collectE f xs) (\<lambda>ys. bindE (f x) (\<lambda>y. Inr (ys @ [y])))" for xs x
  proof (induction xs)
    case (Cons a xs)
    then show ?case by (auto simp: bindE_def split: sum.splits)
  qed (auto simp: bindE_def split: sum.splits)
  show "result_ok (collectE f (xs @ [x])) =
      (case push_each f s x of Inl _ \<Rightarrow> None | Inr s' \<Rightarrow> Some s')"
    if "result_ok (collectE f xs) = Some s" for xs s x
    using that by (auto simp: result_ok_def snoc push_each_def bindE_def split: sum.splits)
  show "result_ok (collectE f (xs @ [x])) = None" if "result_ok (collectE f xs) = None" for xs x
    using that by (auto simp: result_ok_def snoc bindE_def split: sum.splits)
qed

lemma push_each_Inr:
  "foldE (push_each f) [] xs = Inr ys \<longleftrightarrow> list_all2 (\<lambda>x y. f x = Inr y) xs ys"
  unfolding push.walk_eq collectE_Inr [symmetric] by (auto simp: result_ok_def split: sum.splits)

text \<open>One balance row read from one entry, its key by position in the merged list.\<close>

definition balance_reads :: "string list \<Rightarrow> json \<Rightarrow> FetchedTokenBalance \<Rightarrow> bool" where
  "balance_reads keys e b \<longleftrightarrow>
    (\<exists>idx. json_get e ''accountIndex'' = Some (JNumber (PosInt idx)) \<and> unat idx < length keys
       \<and> pubkey b = keys ! unat idx)
    \<and> json_get e ''mint'' = Some (JString (mint b)) \<and> json_get e ''owner'' = Some (JString (owner b))
    \<and> json_path e [''uiTokenAmount'', ''amount''] = Some (JString (amount_raw_str b))"

definition instruction_reads :: "rpc_env \<Rightarrow> string list \<Rightarrow> json \<Rightarrow> FetchedInstruction \<Rightarrow> bool" where
  "instruction_reads rpc keys e ix \<longleftrightarrow>
    (\<exists>idx. json_get e ''programIdIndex'' = Some (JNumber (PosInt idx)) \<and> unat idx < length keys
       \<and> ix_program_id ix = keys ! unat idx)
    \<and> (ix_data ix = [] \<or> (\<exists>s. json_get e ''data'' = Some (JString s) \<and> bs58_decode rpc s = Inr (ix_data ix)))"

definition entries :: "json option \<Rightarrow> json list" where
  "entries v = (case array_at v of Some es \<Rightarrow> es | None \<Rightarrow> [])"

lemma as_u64_Some: "as_u64 v = Some n \<longleftrightarrow> v = JNumber (PosInt n)"
  by (induction v rule: as_u64.induct) auto

lemma as_str_Some: "as_str v = Some s \<longleftrightarrow> v = JString s"
  by (induction v rule: as_str.induct) auto

lemmas json_simps = as_u64_Some as_str_Some bind_eq_Some_conv get_index_def

lemma parse_token_balance_reads: "parse_token_balance keys e = Inr b \<Longrightarrow> balance_reads keys e b"
  unfolding parse_token_balance_def
  by (elim success_elims) (auto simp: json_simps balance_reads_def split: if_splits)

lemma parse_instruction_reads: "parse_instruction rpc keys e = Inr ix \<Longrightarrow> instruction_reads rpc keys e ix"
  unfolding parse_instruction_def Let_def
  by (elim success_elims)
    (auto simp: json_simps instruction_reads_def ok_simps split: if_splits option.splits)

lemma parse_token_balance_array_reads:
  "parse_token_balance_array arr keys = Inr bs \<Longrightarrow> list_all2 (balance_reads keys) (entries arr) bs"
  by (auto simp: parse_token_balance_array_def entries_def push_each_Inr
      elim: list_all2_mono intro: parse_token_balance_reads split: option.splits)

lemma parse_instructions_array_reads:
  "parse_instructions_array rpc result keys = Inr ixs \<Longrightarrow>
   list_all2 (instruction_reads rpc keys)
     (entries (json_path result [''transaction'', ''message'', ''instructions''])) ixs"
  by (auto simp: parse_instructions_array_def entries_def push_each_Inr
      elim: list_all2_mono intro: parse_instruction_reads split: option.splits)

definition result_reads :: "rpc_env \<Rightarrow> json \<Rightarrow> FetchedTx \<Rightarrow> bool" where
  "result_reads rpc result tx \<longleftrightarrow> (\<exists>meta. json_get result ''meta'' = Some meta
     \<and> json_get result ''slot'' = Some (JNumber (PosInt (slot tx)))
     \<and> (tx_err tx = None \<longleftrightarrow> json_get meta ''err'' \<in> {None, Some JNull})
     \<and> list_all2 (balance_reads (resolved_keys result meta))
         (entries (json_get meta ''preTokenBalances'')) (pre_token_balances tx)
     \<and> list_all2 (balance_reads (resolved_keys result meta))
         (entries (json_get meta ''postTokenBalances'')) (post_token_balances tx)
     \<and> list_all2 (instruction_reads rpc (resolved_keys result meta))
         (entries (json_path result [''transaction'', ''message'', ''instructions''])) (instructions tx))"

lemma meta_err_None: "meta_err rpc meta = None \<longleftrightarrow> json_get meta ''err'' \<in> {None, Some JNull}"
  by (cases "json_get meta ''err''") (auto simp: meta_err_def)

lemma parse_result_reads:
  assumes "parse_get_transaction_result rpc result = Inr (Available tx)"
  shows "result_reads rpc result tx"
  using assms unfolding parse_get_transaction_result_def
  by (elim success_elims)
    (auto simp: Let_def result_reads_def json_simps meta_err_None split: sum.splits
      intro: parse_token_balance_array_reads parse_instructions_array_reads
      simp del: json_path.simps)

text \<open>
  An available transaction is what the RPC answered. When the production fetcher reports a
  transaction, the response had a status below 400, no \<open>error\<close> member and a non-null result; slot
  and error flag are its own, every token-balance row and every instruction of the result is
  there in order, and each row's account and each instruction's program is the merged key list
  (message keys, loaded writable, loaded readonly) at the index the entry names; an index outside
  the list never yields a transaction.\<close>

theorem live_fetch_reads_result:
  assumes "live_fetch rpc sig = Inr (Available tx)"
  shows "\<exists>code v result. http_post rpc (build_get_transaction_request_body sig) = Inr (code, Inr v)
    \<and> code < 400 \<and> json_get v ''error'' = None \<and> json_get v ''result'' = Some result
    \<and> result \<noteq> JNull \<and> result_reads rpc result tx"
  using assms unfolding live_fetch_def
  by (elim success_elims)
    (auto simp: Let_def ok_simps not_le split: option.splits if_splits intro: parse_result_reads)

end
