(* ===== verification/Example_Funding.thy ===== *)
theory Example_Funding
  imports Funding_Evidence Tx_Fetcher
begin

text \<open>
  A concrete run of the funding path: two intents, one ledger transaction, and the executions of
  the confirm route on them. The theorems of the funding theories are applied to it, and the
  last section shows that one payment can reserve two budgets.
\<close>

definition ex_intent :: "string \<Rightarrow> NewW5hFundingIntent" where
  "ex_intent iid = \<lparr>new_intent_id = iid, new_rule_id_hex = iid,
     new_canonical_rule_hash_hex = ''h'' @ iid,
     new_user_wallet = ''U'', new_user_usdc_ata = ''UA'', new_controlled_wallet = ''W'',
     new_controlled_usdc_ata = ''WA'', new_amount_raw = 250000, new_threshold_bps = 500,
     new_save_display_apy_bps = 300, new_native_onchain_apr_bps = 290,
     new_created_at_ms = 1000, new_expires_at_ms = 181000\<rparr>"

definition ex_balance :: "string \<Rightarrow> FetchedTokenBalance" where
  "ex_balance n = \<lparr>account_index = 1, pubkey = ''WA'', mint = USDC_MINT_BS58, owner = ''W'',
     amount_raw_str = n\<rparr>"

definition ex_memo :: "string \<Rightarrow> FetchedInstruction" where
  "ex_memo iid = \<lparr>ix_program_id = MEMO_PROGRAM_BS58, ix_data = as_bytes (expected_memo iid (''h'' @ iid))\<rparr>"

text \<open>One transfer of 250000 to the controlled account, with a memo for each of two rules.\<close>

definition ex_tx :: FetchedTx where
  "ex_tx = \<lparr>slot = 77, tx_err = None, pre_token_balances = [ex_balance ''0''],
     post_token_balances = [ex_balance ''250000''], instructions = [ex_memo ''a'', ex_memo ''b'']\<rparr>"

definition ex_ledger :: ledger where
  "ex_ledger sig = (if sig = ''S'' then Some ex_tx else None)"

definition ex_env :: confirm_env where
  "ex_env = \<lparr>verdict_at = (\<lambda>_. None), clock_at = (\<lambda>k. 2000), others = (\<lambda>_ d. d),
     tx_fetcher = (\<lambda>sig. case ex_ledger sig of Some tx \<Rightarrow> Inr (Available tx) | None \<Rightarrow> Inr NotYetAvailable),
     save_apy_fetcher = None, apr_fetcher = Some (Inr 290), render = (\<lambda>_. ''rejected'')\<rparr>"

definition ex_request :: "string \<Rightarrow> W5hFundingConfirmRequest" where
  "ex_request iid = \<lparr>req_rule_id_hex = iid, req_funding_signature = ''S'', req_user_wallet = ''U'',
     req_user_usdc_ata = ''UA'', req_controlled_wallet = ''W'', req_controlled_usdc_ata = ''WA'',
     req_amount_raw = 250000\<rparr>"

definition ex_db :: funding_db where
  "ex_db = snd (insert_intent None 1000 (ex_intent ''b'') (snd (insert_intent None 1000 (ex_intent ''a'') [])))"

definition ex_first :: "W5hFundingConfirmOutcome \<times> funding_db" where
  "ex_first = confirm_execute ex_env (ex_request ''a'') ex_db"

definition ex_second :: "W5hFundingConfirmOutcome \<times> funding_db" where
  "ex_second = confirm_execute ex_env (ex_request ''b'') (snd ex_first)"

lemma utf8_valid_ascii: "(\<And>b. b \<in> set bs \<Longrightarrow> b < 0x80) \<Longrightarrow> utf8_valid bs"
  by (induction bs) auto

lemma ex_memo_ok: "iid \<in> {''a'', ''b''} \<Longrightarrow> verify_funding_memo ex_tx iid (''h'' @ iid) = Inr ()"
proof -
  assume "iid \<in> {''a'', ''b''}"
  moreover from this have "utf8_valid (as_bytes (expected_memo iid (''h'' @ iid)))"
    by (intro utf8_valid_ascii)
      (auto simp: as_bytes_def expected_memo_def MEMO_PAYLOAD_PREFIX_def byte_of_char_def)
  ultimately show ?thesis
    by (auto simp: verify_funding_memo_Inr anchors_def ex_tx_def ex_memo_def)
qed

lemma ex_delta_ok: "verify_funding_delta ex_tx ''WA'' ''W'' 250000 = Inr 77"
  by (simp add: verify_funding_delta_Inr credits_def usdc_of_def ata_balance_def numeral_of_def
      digit_value_def ex_tx_def ex_balance_def)

text \<open>The row of an intent before and after its budget is reserved.\<close>

definition ex_row :: "string \<Rightarrow> RowRaw" where
  "ex_row iid = new_row 1000 (ex_intent iid)"

definition ex_reserved :: "string \<Rightarrow> RowRaw" where
  "ex_reserved iid = reserved_set 2000 77 (submitted_set 2000 ''S'' (ex_row iid))"

lemma ex_db_rows: "ex_db = [ex_row ''a'', ex_row ''b'']"
  by (simp add: ex_db_def insert_intent_def sql_insert_table ex_row_def new_row_def ex_intent_def)

lemma ex_fields:
  "verdict_at ex_env k = None" "clock_at ex_env k = 2000" "others ex_env k d = d"
  "tx_fetcher ex_env ''S'' = Inr (Available ex_tx)"
  "req_rule_id_hex (ex_request iid) = iid" "req_funding_signature (ex_request iid) = ''S''"
  "req_controlled_wallet (ex_request iid) = ''W''" "req_controlled_usdc_ata (ex_request iid) = ''WA''"
  "req_amount_raw (ex_request iid) = 250000"
  by (simp_all add: ex_env_def ex_request_def ex_ledger_def)

lemma ex_confirm:
  assumes "iid \<in> {''a'', ''b''}"
    and "db = xs @ ex_row iid # ys" and "\<forall>r \<in> set (xs @ ys). row_intent_id r \<noteq> iid"
  shows "out_status (fst (confirm_execute ex_env (ex_request iid) db)) = CfBudgetReserved"
    and "snd (confirm_execute ex_env (ex_request iid) db) = xs @ ex_reserved iid # ys"
proof -
  have find: "List.find (\<lambda>r. row_intent_id r = iid) (xs @ r # ys) = Some r" if "row_intent_id r = iid" for r
    using assms(3) that by (induction xs) auto
  have key: "row_intent_id (ex_row iid) = iid" by (simp add: ex_row_def new_row_def ex_intent_def)
  have key_reserved: "row_intent_id (ex_reserved iid) = iid"
    by (simp add: ex_reserved_def reserved_set_def submitted_set_def key)
  obtain stored where stored: "row_to_intent (ex_row iid) = Inr stored"
    "request_matches stored (ex_request iid)" "status stored = FundingRequired"
    "rule_id_hex stored = iid" "canonical_rule_hash_hex stored = ''h'' @ iid"
    by (simp add: row_to_intent_def ex_row_def new_row_def ex_intent_def ex_request_def
        request_matches_def status_parse_def sint_negative_iff)
  have get: "get_intent None iid db = Inr (Some stored)"
    unfolding get_intent_def sql_select_optional_def assms(2)
    by (simp add: find [OF key] stored)
  let ?sub = "submitted_set 2000 ''S'' (ex_row iid)"
  have submit: "mark_funding_submitted_if_required None 2000 iid ''S'' db = (Inr 1, xs @ ?sub # ys)"
    unfolding mark_funding_submitted_if_required_def assms(2) submit.cas_split [OF assms(3)]
    by (simp add: submitted_where_def key, simp add: ex_row_def new_row_def)
  have reserve: "mark_budget_reserved_if_submitted None 2000 iid ''S'' 77 (xs @ ?sub # ys)
      = (Inr 1, xs @ ex_reserved iid # ys)"
    unfolding mark_budget_reserved_if_submitted_def reserve.cas_split [OF assms(3)]
    by (simp add: verified_where_def submitted_set_def ex_reserved_def key)
  obtain final where final: "row_to_intent (ex_reserved iid) = Inr final" "status final = BudgetReserved"
    by (simp add: row_to_intent_def ex_reserved_def reserved_set_def submitted_set_def ex_row_def
        new_row_def ex_intent_def sint_negative_iff)
  have reread: "get_intent None iid (xs @ ex_reserved iid # ys) = Inr (Some final)"
    unfolding get_intent_def sql_select_optional_def
    by (simp add: find [OF key_reserved] final)
  have settle: "settle_funding ex_env stored (ex_request iid) d = reserve_budget ex_env stored (ex_request iid) 77 d" for d
    using ex_memo_ok [OF assms(1)] ex_delta_ok stored
    by (simp add: settle_funding_def ex_fields Let_def)
  have "confirm_execute ex_env (ex_request iid) db = reserve_budget ex_env stored (ex_request iid) 77 (xs @ ?sub # ys)"
    using get submit stored settle
    by (simp add: confirm_execute_def ex_fields Let_def)
  then show "out_status (fst (confirm_execute ex_env (ex_request iid) db)) = CfBudgetReserved"
    and "snd (confirm_execute ex_env (ex_request iid) db) = xs @ ex_reserved iid # ys"
    using reserve reread final
    by (simp_all add: reserve_budget_def ex_fields Let_def)
qed

section \<open>One payment, two budgets\<close>

text \<open>
  C23: one payment can reserve two budgets. The memo check accepts a transaction when any of its
  memos matches and a funding signature is not unique across intents, so a single transfer of
  250000 that carries the memos of two rules takes two intents of 250000 to
  \<open>budget_reserved\<close> under the same signature, although the account received the amount once
  and the source documents exactly one memo per funding transaction.\<close>

theorem one_payment_two_budgets:
  "out_status (fst ex_first) = CfBudgetReserved \<and> out_status (fst ex_second) = CfBudgetReserved
   \<and> map (\<lambda>r. (row_intent_id r, row_amount_raw r, row_funding_signature r, status_parse (row_status r)))
        (snd ex_second)
      = [(''a'', 250000, Some ''S'', Some BudgetReserved), (''b'', 250000, Some ''S'', Some BudgetReserved)]
   \<and> ata_balance (pre_token_balances ex_tx) ''WA'' = Some 0
   \<and> ata_balance (post_token_balances ex_tx) ''WA'' = Some 250000"
proof -
  have first: "out_status (fst ex_first) = CfBudgetReserved"
    "snd ex_first = [ex_reserved ''a'', ex_row ''b'']"
    using ex_confirm [of "''a''" ex_db "[]" "[ex_row ''b'']"]
    by (simp_all add: ex_first_def ex_db_rows, simp_all add: ex_row_def new_row_def ex_intent_def)
  have second: "out_status (fst ex_second) = CfBudgetReserved"
    "snd ex_second = [ex_reserved ''a'', ex_reserved ''b'']"
    using ex_confirm [of "''b''" "snd ex_first" "[ex_reserved ''a'']" "[]"]
    by (simp_all add: ex_second_def first(2),
        simp_all add: ex_reserved_def reserved_set_def submitted_set_def ex_row_def new_row_def ex_intent_def)
  show ?thesis
    using first(1) second
    by (simp add: ex_reserved_def reserved_set_def submitted_set_def ex_row_def new_row_def ex_intent_def
        ata_balance_def ex_tx_def ex_balance_def numeral_of_def digit_value_def)
qed

section \<open>The theorems at work\<close>

lemma ex_db_reach: "reach (\<lambda>db. db = []) (ledger_step ex_ledger) ex_db"
  unfolding ex_db_def
  by (rule reach_step, rule reach_step, rule reach_init, rule refl, rule ls_insert, rule ls_insert)

lemma ex_fair: "fair_env ex_ledger ex_env"
  by (auto simp: fair_env_def ex_env_def split: option.splits)

text \<open>The budget of the first intent is reserved; its refund is leased after the expiry.\<close>

definition ex_funded :: funding_db where
  "ex_funded = snd ex_first"

definition ex_refunding :: funding_db where
  "ex_refunding = snd (lease_refund_if_expired_or_past None 200000 ''a'' ex_funded)"

lemma ex_funded_rows: "ex_funded = [ex_reserved ''a'', ex_row ''b'']"
  using ex_confirm(2) [of "''a''" ex_db "[]" "[ex_row ''b'']"]
  by (simp add: ex_funded_def ex_first_def ex_db_rows, simp add: ex_row_def new_row_def ex_intent_def)

lemma ex_funded_reach: "reach (\<lambda>db. db = []) funding_step ex_funded"
  unfolding ex_funded_def ex_first_def
  by (rule reach_run [OF ledger_run [OF confirm_execute_run [OF ex_fair ex_db_reach]] ledger_reach [OF ex_db_reach]])

lemma ex_reserved_cols:
  "row_intent_id (ex_reserved iid) = iid" "row_status (ex_reserved iid) = status_as_str BudgetReserved"
  "row_expires_at_ms (ex_reserved iid) = 181000" "row_amount_raw (ex_reserved iid) = 250000"
  "row_intent_id (ex_row iid) = iid" "row_amount_raw (ex_row iid) = 250000"
  by (simp_all add: ex_reserved_def reserved_set_def submitted_set_def ex_row_def new_row_def ex_intent_def)

lemma ex_refund_won: "fst (lease_refund_if_expired_or_past None 200000 ''a'' ex_funded) = Inr 1"
proof -
  have "keyed row_intent_id ex_funded"
    using fstore.reach_good [OF ex_funded_reach] by (simp add: store_ok_def)
  then show ?thesis
    unfolding lease_refund_won [OF \<open>keyed row_intent_id ex_funded\<close>]
    by (simp add: ex_funded_rows lease_refund_where_def ex_reserved_cols)
qed

theorem refund_lease_excludes_execution_witness:
  "fst (lease_execution_if_budget_reserved None 1 ''a'' ex_refunding) \<noteq> Inr 1
   \<and> fst (mark_completed_if_executing None 1 ''a'' ''X'' ex_refunding) \<noteq> Inr 1"
  using refund_lease_excludes_execution [OF ex_funded_reach ex_refund_won rtranclp.rtrancl_refl,
      of None 1 "''X''"]
  unfolding ex_refunding_def by blast

theorem funding_intent_history_witness:
  "\<exists>r'. r' \<in> set ex_refunding \<and> row_intent_id r' = ''a'' \<and> row_terms r' = row_terms (ex_reserved ''a'')"
proof -
  have "funding_step\<^sup>*\<^sup>* ex_funded ex_refunding"
    unfolding ex_refunding_def by (rule r_into_rtranclp) (rule do_lease_refund)
  from funding_intent_history [OF ex_funded_reach this, of "ex_reserved ''a''"]
  show ?thesis unfolding ex_funded_rows ex_reserved_cols by (auto dest!: ex1_implies_ex)
qed

theorem reserved_budget_one_lease_witness:
  "fst (lease_execution_if_budget_reserved None 180999 ''a'' ex_funded) = Inr 1
   \<and> fst (lease_refund_if_expired_or_past None 180999 ''a'' ex_funded) \<noteq> Inr 1"
  using reserved_budget_one_lease [OF ex_funded_reach, of "ex_reserved ''a''" "''a''" 180999]
  by (simp add: ex_funded_rows ex_reserved_cols)

theorem reachable_rows_decode_witness: "is_ok (get_intent None ''a'' ex_funded)"
  using reachable_rows_decode [OF ex_funded_reach, of "''a''" 1 0]
  by (simp add: ex_funded_rows ex_reserved_cols)

theorem insert_then_get_witness:
  "is_ok (get_intent None ''a'' (snd (insert_intent None 1000 (ex_intent ''a'') [])))"
  using insert_then_get [of 1000 "ex_intent ''a''" "[]"]
  by (simp add: insert_intent_def sql_insert_def, simp add: ex_intent_def)

theorem confirmed_budget_evidenced_witness:
  "\<exists>r \<in> set (snd ex_first). row_intent_id r = ''a'' \<and> evidenced ex_ledger r"
proof -
  have "confirm_execute ex_env (ex_request ''a'') ex_db = (fst ex_first, snd ex_first)"
    by (simp add: ex_first_def)
  from confirmed_budget_evidenced [OF ex_fair ex_db_reach this]
  show ?thesis using ex_confirm(1) [of "''a''" ex_db "[]" "[ex_row ''b'']"]
    by (auto simp: ex_first_def ex_db_rows ex_request_def ex_reserved_cols)
qed

text \<open>A response of the node with one balance row on a loaded address.\<close>

definition ex_result :: json where
  "ex_result = JObject [
     (''slot'', JNumber (PosInt 77)),
     (''meta'', JObject [
        (''err'', JNull),
        (''loadedAddresses'', JObject [(''writable'', JArray [JString ''WA'']), (''readonly'', JArray [])]),
        (''postTokenBalances'', JArray [JObject [
           (''accountIndex'', JNumber (PosInt 1)), (''mint'', JString ''M''), (''owner'', JString ''W''),
           (''uiTokenAmount'', JObject [(''amount'', JString ''250000'')])]])]),
     (''transaction'', JObject [(''message'', JObject [(''accountKeys'', JArray [JString ''U''])])])]"

definition ex_rpc :: rpc_env where
  "ex_rpc = \<lparr>http_post = (\<lambda>_. Inr (200, Inr (JObject [(''result'', ex_result)]))),
     json_to_string = (\<lambda>_. None), bs58_decode = (\<lambda>_. Inl ''bad'')\<rparr>"

definition ex_fetched :: FetchedTx where
  "ex_fetched = \<lparr>slot = 77, tx_err = None, pre_token_balances = [],
     post_token_balances = [\<lparr>account_index = 1, pubkey = ''WA'', mint = ''M'', owner = ''W'',
        amount_raw_str = ''250000''\<rparr>], instructions = []\<rparr>"

lemma ex_live_fetch: "live_fetch ex_rpc ''S'' = Inr (Available ex_fetched)"
  by (simp add: live_fetch_def ex_rpc_def parse_get_transaction_result_def ex_result_def
      parse_token_balance_array_def parse_instructions_array_def array_at_def resolved_keys_def
      message_keys_def loaded_array_def key_strings_def map_filter_simps push_each_def
      parse_token_balance_def get_index_def meta_err_def ex_fetched_def)

theorem live_fetch_reads_result_witness: "result_reads ex_rpc ex_result ex_fetched"
  using live_fetch_reads_result [OF ex_live_fetch] by (auto simp: ex_rpc_def)

end
