(* ===== verification/Prefix_Code.thy ===== *)
theory Prefix_Code
  imports Prelude
begin

text \<open>
  Encodings from which a value can be read off the front of a byte string: the interface
  \<open>prefix_code\<close> says that two encodings followed by anything agree only when the values and the
  rests agree. Borsh's pieces (little-endian integers, raw arrays, booleans, tagged unions,
  options and length-prefixed vectors) are such codes, and so is anything built from them by
  writing one after the other; the simplifier peels them off one at a time with \<open>peel\<close>.
\<close>

locale prefix_code =
  fixes enc :: "'a \<Rightarrow> u8 list" and ok :: "'a \<Rightarrow> bool"
  assumes cancel: "ok x \<Longrightarrow> ok y \<Longrightarrow> enc x @ r = enc y @ s \<Longrightarrow> x = y \<and> r = s"
begin

lemma peel [simp]: "ok x \<Longrightarrow> ok y \<Longrightarrow> enc x @ r = enc y @ s \<longleftrightarrow> x = y \<and> r = s"
  using cancel by blast

lemma peel_end: "ok x \<Longrightarrow> ok y \<Longrightarrow> enc x = enc y \<longleftrightarrow> x = y"
  using peel [of x y "[]" "[]"] by simp

end

section \<open>The pieces\<close>

lemma prefix_code_fixed:
  assumes "\<And>x y. length (enc x) = length (enc y)" and "\<And>x y. enc x = enc y \<Longrightarrow> x = y"
  shows "prefix_code enc (\<lambda>_. True)"
  using assms by unfold_locales (metis append_eq_append_conv)

definition enc_bool :: "bool \<Rightarrow> u8 list" where
  "enc_bool b = [if b then 1 else 0]"

definition enc_option :: "('a \<Rightarrow> u8 list) \<Rightarrow> 'a option \<Rightarrow> u8 list" where
  "enc_option e x = (case x of None \<Rightarrow> [0] | Some v \<Rightarrow> 1 # e v)"

definition enc_vec :: "('a \<Rightarrow> u8 list) \<Rightarrow> 'a list \<Rightarrow> u8 list" where
  "enc_vec e xs = to_le_bytes (word_of_nat (length xs) :: u32) @ concat (map e xs)"

lemma to_le_bytes_inject [simp]:
  "8 dvd LENGTH('a) \<Longrightarrow> to_le_bytes x = to_le_bytes y \<longleftrightarrow> x = (y :: 'a::len word)"
  by (metis from_to_le_bytes)

lemma array_bytes_inject [simp]:
  "8 dvd LENGTH('a) \<Longrightarrow> array_bytes x = array_bytes y \<longleftrightarrow> x = (y :: 'a::len word)"
  by (metis array_of_array_bytes)

interpretation le_u8: prefix_code "to_le_bytes :: u8 \<Rightarrow> u8 list" "\<lambda>_. True"
  by (rule prefix_code_fixed) simp_all

interpretation le_u16: prefix_code "to_le_bytes :: u16 \<Rightarrow> u8 list" "\<lambda>_. True"
  by (rule prefix_code_fixed) simp_all

interpretation le_u32: prefix_code "to_le_bytes :: u32 \<Rightarrow> u8 list" "\<lambda>_. True"
  by (rule prefix_code_fixed) simp_all

interpretation le_u64: prefix_code "to_le_bytes :: u64 \<Rightarrow> u8 list" "\<lambda>_. True"
  by (rule prefix_code_fixed) simp_all

interpretation array_16: prefix_code "array_bytes :: 128 word \<Rightarrow> u8 list" "\<lambda>_. True"
  by (rule prefix_code_fixed) simp_all

interpretation array_32: prefix_code "array_bytes :: 256 word \<Rightarrow> u8 list" "\<lambda>_. True"
  by (rule prefix_code_fixed) simp_all

interpretation bool_code: prefix_code enc_bool "\<lambda>_. True"
  by (rule prefix_code_fixed) (auto simp: enc_bool_def split: if_splits)

lemma prefix_code_option:
  assumes "prefix_code e ok"
  shows "prefix_code (enc_option e) (\<lambda>x. case x of None \<Rightarrow> True | Some v \<Rightarrow> ok v)"
proof
  fix x y r s
  assume "case x of None \<Rightarrow> True | Some v \<Rightarrow> ok v" "case y of None \<Rightarrow> True | Some v \<Rightarrow> ok v"
    and "enc_option e x @ r = enc_option e y @ s"
  then show "x = y \<and> r = s"
    by (cases x; cases y) (auto simp: enc_option_def dest: prefix_code.cancel [OF assms, rotated 2])
qed

lemma prefix_code_concat:
  assumes "prefix_code e ok" and "length xs = length ys"
    and "\<forall>x \<in> set xs. ok x" and "\<forall>y \<in> set ys. ok y"
    and "concat (map e xs) @ r = concat (map e ys) @ s"
  shows "xs = ys \<and> r = s"
  using assms(2-5)
proof (induction xs ys rule: list_induct2)
  case (Cons x xs y ys)
  have "x = y \<and> concat (map e xs) @ r = concat (map e ys) @ s"
    by (rule prefix_code.cancel [OF assms(1)]) (use Cons.prems in simp_all)
  then show ?case using Cons.IH Cons.prems by simp
qed simp

lemma prefix_code_vec:
  assumes "prefix_code e ok"
  shows "prefix_code (enc_vec e) (\<lambda>xs. length xs < 2 ^ 32 \<and> (\<forall>x \<in> set xs. ok x))"
proof
  fix xs ys r s
  assume xs: "length xs < 2 ^ 32 \<and> (\<forall>x \<in> set xs. ok x)" and ys: "length ys < 2 ^ 32 \<and> (\<forall>x \<in> set ys. ok x)"
    and eq: "enc_vec e xs @ r = enc_vec e ys @ s"
  then have len: "(word_of_nat (length xs) :: u32) = word_of_nat (length ys)"
    and rest: "concat (map e xs) @ r = concat (map e ys) @ s"
    by (simp_all add: enc_vec_def)
  have "length xs = length ys"
    using arg_cong [OF len, of unat] xs ys unfolding unat_of_nat by simp
  then show "xs = ys \<and> r = s"
    using prefix_code_concat [OF assms] xs ys rest by blast
qed

interpretation option_u64: prefix_code "enc_option (to_le_bytes :: u64 \<Rightarrow> u8 list)" "\<lambda>_. True"
  using prefix_code_option [OF le_u64.prefix_code_axioms] by (simp add: option.case_eq_if)

end
