(* ===== verification/Canonical_Intent.thy ===== *)
theory Canonical_Intent
  imports Prefix_Code Solana_Runtime
begin

text \<open>
  \<open>crates/types/src/canonical_intent.rs\<close>: the canonical intent a user reviews and signs, its
  Borsh bytes (fields in declared order, enums with a tag byte), its hash, the expiry check and
  the metadata snapshot. SHA-256 and base58 are third-party code and so parameters.
\<close>

definition STAGE1_TAIL_SCHEMA_VERSION :: u8 where
  "STAGE1_TAIL_SCHEMA_VERSION = 1"

datatype PubkeyParseError = InvalidBase58 string | WrongLength nat

definition pubkey_from_base58 ::
  "(string \<Rightarrow> string + u8 list) \<Rightarrow> string \<Rightarrow> PubkeyParseError + pubkey" where
  "pubkey_from_base58 decode s =
    bindE (map_err InvalidBase58 (decode s)) (\<lambda>v.
    if length v = 32 then Inr (array_of_bytes v) else Inl (WrongLength (length v)))"

definition pubkey_to_base58 :: "(u8 list \<Rightarrow> string) \<Rightarrow> pubkey \<Rightarrow> string" where
  "pubkey_to_base58 encode k = encode (array_bytes k)"

datatype IntentAction =
    SolendDeposit pubkey pubkey pubkey pubkey u64 u8
  | SolendWithdrawAll pubkey pubkey pubkey pubkey
  | JupiterSwap pubkey pubkey pubkey u64 u16

record CanonicalIntent =
  ci_schema_version :: u8
  ci_intent_id :: "128 word"
  ci_user :: pubkey
  ci_action :: IntentAction
  ci_expires_at_slot :: u64

fun intent_action_bytes :: "IntentAction \<Rightarrow> u8 list" where
  "intent_action_bytes (SolendDeposit wallet input_mint reserve market amount decimals) =
     0 # array_bytes wallet @ array_bytes input_mint @ array_bytes reserve @ array_bytes market
     @ to_le_bytes amount @ to_le_bytes decimals"
| "intent_action_bytes (SolendWithdrawAll wallet obligation reserve market) =
     1 # array_bytes wallet @ array_bytes obligation @ array_bytes reserve @ array_bytes market"
| "intent_action_bytes (JupiterSwap wallet input_mint output_mint amount slippage) =
     2 # array_bytes wallet @ array_bytes input_mint @ array_bytes output_mint
     @ to_le_bytes amount @ to_le_bytes slippage"

definition canonical_bytes :: "CanonicalIntent \<Rightarrow> u8 list" where
  "canonical_bytes i = to_le_bytes (ci_schema_version i) @ array_bytes (ci_intent_id i)
     @ array_bytes (ci_user i) @ intent_action_bytes (ci_action i) @ to_le_bytes (ci_expires_at_slot i)"

definition canonical_hash :: "(u8 list \<Rightarrow> 256 word) \<Rightarrow> CanonicalIntent \<Rightarrow> 256 word" where
  "canonical_hash sha256 i = sha256 (canonical_bytes i)"

datatype IntentValidationError = IntentExpired u64 u64

definition intent_validate_not_expired ::
  "CanonicalIntent \<Rightarrow> u64 \<Rightarrow> IntentValidationError + unit" where
  "intent_validate_not_expired i current =
    (if current < ci_expires_at_slot i then Inr () else Inl (IntentExpired current (ci_expires_at_slot i)))"

datatype CanonicalIntentActionType = CaSolendDeposit | CaSolendWithdrawAll | CaJupiterSwap

fun intent_action_label :: "CanonicalIntentActionType \<Rightarrow> string" where
  "intent_action_label CaSolendDeposit = ''solend_deposit''"
| "intent_action_label CaSolendWithdrawAll = ''solend_withdraw_all''"
| "intent_action_label CaJupiterSwap = ''jupiter_swap''"

fun intent_action_type :: "IntentAction \<Rightarrow> CanonicalIntentActionType" where
  "intent_action_type (SolendDeposit _ _ _ _ _ _) = CaSolendDeposit"
| "intent_action_type (SolendWithdrawAll _ _ _ _) = CaSolendWithdrawAll"
| "intent_action_type (JupiterSwap _ _ _ _ _) = CaJupiterSwap"

record CanonicalIntentMetadata =
  cm_schema_version :: u8
  cm_intent_id :: "128 word"
  cm_canonical_intent_hash :: "256 word"
  cm_expires_at_slot :: u64
  cm_action_type :: CanonicalIntentActionType

definition metadata_from_intent ::
  "(u8 list \<Rightarrow> 256 word) \<Rightarrow> CanonicalIntent \<Rightarrow> CanonicalIntentMetadata" where
  "metadata_from_intent sha256 i = \<lparr>
     cm_schema_version = ci_schema_version i,
     cm_intent_id = ci_intent_id i,
     cm_canonical_intent_hash = canonical_hash sha256 i,
     cm_expires_at_slot = ci_expires_at_slot i,
     cm_action_type = intent_action_type (ci_action i)\<rparr>"

definition metadata_validate_not_expired ::
  "CanonicalIntentMetadata \<Rightarrow> u64 \<Rightarrow> IntentValidationError + unit" where
  "metadata_validate_not_expired m current =
    (if current < cm_expires_at_slot m then Inr () else Inl (IntentExpired current (cm_expires_at_slot m)))"

section \<open>The bytes determine the intent\<close>

interpretation intent_action_code: prefix_code intent_action_bytes "\<lambda>_. True"
proof
  fix x y r s
  assume "intent_action_bytes x @ r = intent_action_bytes y @ s"
  then show "x = y \<and> r = s" by (cases x; cases y) simp_all
qed

interpretation intent_code: prefix_code canonical_bytes "\<lambda>_. True"
  by unfold_locales (simp add: canonical_bytes_def)

lemma canonical_bytes_length: "length (canonical_bytes i) \<in> {164, 186, 195}"
  by (cases "ci_action i") (simp_all add: canonical_bytes_def)

text \<open>The snapshot expires exactly when the intent does.\<close>

lemma metadata_expiry_agrees:
  "metadata_validate_not_expired (metadata_from_intent sha256 i) = intent_validate_not_expired i"
  by (rule ext) (simp add: metadata_validate_not_expired_def metadata_from_intent_def
      intent_validate_not_expired_def)

end
