(* ===== verification/Watch_Rule.thy ===== *)
theory Watch_Rule
  imports Canonical_Intent Condition_Types
begin

text \<open>
  \<open>crates/types/src/stage2_watch_rule.rs\<close>: the watch rule a user signs for later execution, its
  Borsh bytes and hash, the validation functions and the metadata snapshot. The discriminator
  enums are those of \<open>Condition_Types\<close>, which the program's verifier mirrors. The bytes of a rule
  are defined for every rule; Borsh itself refuses a vector of \<open>2^32\<close> or more conditions.
\<close>

definition STAGE2_WATCH_RULE_SCHEMA_VERSION :: u8 where
  "STAGE2_WATCH_RULE_SCHEMA_VERSION = 1"

definition MAX_CONDITIONS :: nat where "MAX_CONDITIONS = 8"

definition MIN_CONDITIONS :: nat where "MIN_CONDITIONS = 1"

datatype Condition =
    PythPrice "256 word" pubkey Comparison i64 i32 u32 u16 VerificationLevel BoundMode
  | SolendReserveSupplyRate pubkey pubkey pubkey Comparison u32 RateKind u8 u32 bool

datatype ConditionKind = CkPythPrice | CkSolendReserveSupplyRate

fun condition_kind :: "Condition \<Rightarrow> ConditionKind" where
  "condition_kind (PythPrice _ _ _ _ _ _ _ _ _) = CkPythPrice"
| "condition_kind (SolendReserveSupplyRate _ _ _ _ _ _ _ _ _) = CkSolendReserveSupplyRate"

datatype WithdrawMode = WithdrawAllDelegatedPosition

datatype JupiterApiVersion = V1 | V2

datatype ActionSpec =
    SolendWithdrawAllDelegated pubkey pubkey pubkey pubkey WithdrawMode
  | JupiterBuySolWithUsdc pubkey pubkey u64 "u64 option" JupiterApiVersion u8 bool

datatype WatchRuleActionType = WaSolendWithdrawAllDelegated | WaJupiterBuySolWithUsdc

fun rule_action_type :: "ActionSpec \<Rightarrow> WatchRuleActionType" where
  "rule_action_type (SolendWithdrawAllDelegated _ _ _ _ _) = WaSolendWithdrawAllDelegated"
| "rule_action_type (JupiterBuySolWithUsdc _ _ _ _ _ _ _) = WaJupiterBuySolWithUsdc"

fun rule_action_label :: "WatchRuleActionType \<Rightarrow> string" where
  "rule_action_label WaSolendWithdrawAllDelegated = ''solend_withdraw_all_delegated''"
| "rule_action_label WaJupiterBuySolWithUsdc = ''jupiter_buy_sol_with_usdc''"

fun rule_action_to_u8 :: "WatchRuleActionType \<Rightarrow> u8" where
  "rule_action_to_u8 WaSolendWithdrawAllDelegated = 1"
| "rule_action_to_u8 WaJupiterBuySolWithUsdc = 2"

definition rule_action_from_u8 :: "u8 \<Rightarrow> WatchRuleActionType option" where
  "rule_action_from_u8 v = (if v = 1 then Some WaSolendWithdrawAllDelegated
     else if v = 2 then Some WaJupiterBuySolWithUsdc else None)"

record WatchRule =
  wr_schema_version :: u8
  wr_rule_id :: "128 word"
  wr_user :: pubkey
  wr_executor :: pubkey
  wr_delegated_wallet :: pubkey
  wr_created_at_slot :: u64
  wr_expires_at_slot :: u64
  wr_one_shot :: bool
  wr_condition_logic :: ConditionLogic
  wr_conditions :: "Condition list"
  wr_action :: ActionSpec
  wr_max_input_amount_raw :: u64
  wr_used_amount_raw :: u64
  wr_destination :: pubkey
  wr_slippage_bps :: u16

section \<open>Canonical bytes\<close>

fun comparison_byte :: "Comparison \<Rightarrow> u8" where
  "comparison_byte Lt = 0" | "comparison_byte Lte = 1" | "comparison_byte Gt = 2" | "comparison_byte Gte = 3"

fun level_byte :: "VerificationLevel \<Rightarrow> u8" where
  "level_byte Full = 0"

fun bound_byte :: "BoundMode \<Rightarrow> u8" where
  "bound_byte AdverseLowerForGt = 0" | "bound_byte AdverseUpperForLt = 1" | "bound_byte Midpoint = 2"

fun rate_byte :: "RateKind \<Rightarrow> u8" where
  "rate_byte Apr = 0" | "rate_byte Apy = 1"

fun logic_byte :: "ConditionLogic \<Rightarrow> u8" where
  "logic_byte All_logic = 0" | "logic_byte Any_logic = 1"

fun withdraw_mode_byte :: "WithdrawMode \<Rightarrow> u8" where
  "withdraw_mode_byte WithdrawAllDelegatedPosition = 0"

fun jupiter_version_byte :: "JupiterApiVersion \<Rightarrow> u8" where
  "jupiter_version_byte V1 = 0" | "jupiter_version_byte V2 = 1"

fun condition_bytes :: "Condition \<Rightarrow> u8 list" where
  "condition_bytes (PythPrice feed account cmp mantissa expo age conf_bps level bound) =
     0 # array_bytes feed @ array_bytes account @ comparison_byte cmp # to_le_bytes mantissa
     @ to_le_bytes expo @ to_le_bytes age @ to_le_bytes conf_bps
     @ [level_byte level, bound_byte bound]"
| "condition_bytes (SolendReserveSupplyRate reserve market program cmp bps kind version staleness refresh) =
     1 # array_bytes reserve @ array_bytes market @ array_bytes program @ comparison_byte cmp
     # to_le_bytes bps @ rate_byte kind # to_le_bytes version @ to_le_bytes staleness @ enc_bool refresh"

fun action_bytes :: "ActionSpec \<Rightarrow> u8 list" where
  "action_bytes (SolendWithdrawAllDelegated obligation reserve market destination mode) =
     0 # array_bytes obligation @ array_bytes reserve @ array_bytes market @ array_bytes destination
     @ [withdraw_mode_byte mode]"
| "action_bytes (JupiterBuySolWithUsdc input_mint output_mint amount min_out version hint bracket) =
     1 # array_bytes input_mint @ array_bytes output_mint @ to_le_bytes amount
     @ enc_option to_le_bytes min_out @ jupiter_version_byte version # to_le_bytes hint @ enc_bool bracket"

definition canonical_rule_bytes :: "WatchRule \<Rightarrow> u8 list" where
  "canonical_rule_bytes r =
     to_le_bytes (wr_schema_version r) @ array_bytes (wr_rule_id r) @ array_bytes (wr_user r)
     @ array_bytes (wr_executor r) @ array_bytes (wr_delegated_wallet r)
     @ to_le_bytes (wr_created_at_slot r) @ to_le_bytes (wr_expires_at_slot r)
     @ enc_bool (wr_one_shot r) @ logic_byte (wr_condition_logic r)
     # enc_vec condition_bytes (wr_conditions r) @ action_bytes (wr_action r)
     @ to_le_bytes (wr_max_input_amount_raw r) @ to_le_bytes (wr_used_amount_raw r)
     @ array_bytes (wr_destination r) @ to_le_bytes (wr_slippage_bps r)"

definition canonical_rule_hash :: "(u8 list \<Rightarrow> 256 word) \<Rightarrow> WatchRule \<Rightarrow> 256 word" where
  "canonical_rule_hash sha256 r = sha256 (canonical_rule_bytes r)"

section \<open>Validation and metadata\<close>

datatype WatchRuleValidationError =
    Expired u64 u64
  | NoConditions nat
  | TooManyConditions nat nat
  | UsedAmountOverMax u64 u64
  | OneShotPartialAmount u64 u64

definition validate_not_expired :: "WatchRule \<Rightarrow> u64 \<Rightarrow> WatchRuleValidationError + unit" where
  "validate_not_expired r current =
    (if current < wr_expires_at_slot r then Inr () else Inl (Expired current (wr_expires_at_slot r)))"

definition validate_conditions_bounded :: "WatchRule \<Rightarrow> WatchRuleValidationError + unit" where
  "validate_conditions_bounded r =
    (let n = length (wr_conditions r) in
     if n < MIN_CONDITIONS then Inl (NoConditions MIN_CONDITIONS)
     else if n > MAX_CONDITIONS then Inl (TooManyConditions n MAX_CONDITIONS)
     else Inr ())"

definition validate_used_amount :: "WatchRule \<Rightarrow> WatchRuleValidationError + unit" where
  "validate_used_amount r =
    (if wr_used_amount_raw r > wr_max_input_amount_raw r then
       Inl (UsedAmountOverMax (wr_used_amount_raw r) (wr_max_input_amount_raw r))
     else if wr_one_shot r \<and> wr_used_amount_raw r \<noteq> 0 \<and> wr_used_amount_raw r \<noteq> wr_max_input_amount_raw r then
       Inl (OneShotPartialAmount (wr_used_amount_raw r) (wr_max_input_amount_raw r))
     else Inr ())"

record WatchRuleMetadata =
  wm_schema_version :: u8
  wm_rule_id :: "128 word"
  wm_user :: pubkey
  wm_executor :: pubkey
  wm_expires_at_slot :: u64
  wm_action_type :: WatchRuleActionType
  wm_canonical_rule_hash :: "256 word"

definition metadata_from_rule :: "(u8 list \<Rightarrow> 256 word) \<Rightarrow> WatchRule \<Rightarrow> WatchRuleMetadata" where
  "metadata_from_rule sha256 r = \<lparr>
     wm_schema_version = wr_schema_version r,
     wm_rule_id = wr_rule_id r,
     wm_user = wr_user r,
     wm_executor = wr_executor r,
     wm_expires_at_slot = wr_expires_at_slot r,
     wm_action_type = rule_action_type (wr_action r),
     wm_canonical_rule_hash = canonical_rule_hash sha256 r\<rparr>"

definition rule_metadata_validate_not_expired ::
  "WatchRuleMetadata \<Rightarrow> u64 \<Rightarrow> WatchRuleValidationError + unit" where
  "rule_metadata_validate_not_expired m current =
    (if current < wm_expires_at_slot m then Inr () else Inl (Expired current (wm_expires_at_slot m)))"

section \<open>The bytes determine the rule\<close>

lemma comparison_byte_inject [simp]: "comparison_byte a = comparison_byte b \<longleftrightarrow> a = b"
  by (cases a; cases b) simp_all

lemma level_byte_inject [simp]: "level_byte a = level_byte b \<longleftrightarrow> a = b"
  by (cases a; cases b) simp_all

lemma bound_byte_inject [simp]: "bound_byte a = bound_byte b \<longleftrightarrow> a = b"
  by (cases a; cases b) simp_all

lemma rate_byte_inject [simp]: "rate_byte a = rate_byte b \<longleftrightarrow> a = b"
  by (cases a; cases b) simp_all

lemma logic_byte_inject [simp]: "logic_byte a = logic_byte b \<longleftrightarrow> a = b"
  by (cases a; cases b) simp_all

lemma withdraw_mode_byte_inject [simp]: "withdraw_mode_byte a = withdraw_mode_byte b \<longleftrightarrow> a = b"
  by (cases a; cases b) simp_all

lemma jupiter_version_byte_inject [simp]: "jupiter_version_byte a = jupiter_version_byte b \<longleftrightarrow> a = b"
  by (cases a; cases b) simp_all

interpretation condition_code: prefix_code condition_bytes "\<lambda>_. True"
proof
  fix x y r s
  assume "condition_bytes x @ r = condition_bytes y @ s"
  then show "x = y \<and> r = s" by (cases x; cases y) simp_all
qed

interpretation action_code: prefix_code action_bytes "\<lambda>_. True"
proof
  fix x y r s
  assume "action_bytes x @ r = action_bytes y @ s"
  then show "x = y \<and> r = s" by (cases x; cases y) simp_all
qed

interpretation conditions_code: prefix_code "enc_vec condition_bytes" "\<lambda>cs. length cs < 2 ^ 32"
  using prefix_code_vec [OF condition_code.prefix_code_axioms] by simp

interpretation rule_code: prefix_code canonical_rule_bytes "\<lambda>r. length (wr_conditions r) < 2 ^ 32"
  by unfold_locales (simp add: canonical_rule_bytes_def)

lemma canonical_rule_bytes_length: "262 \<le> length (canonical_rule_bytes r)"
proof -
  have "77 \<le> length (action_bytes (wr_action r))"
    by (cases "wr_action r") (simp_all add: enc_option_def enc_bool_def split: option.split)
  then show ?thesis by (simp add: canonical_rule_bytes_def enc_bool_def enc_vec_def)
qed

section \<open>Properties\<close>

text \<open>
  C24: canonical bytes commit to their object. Two watch rules of fewer than \<open>2^32\<close> conditions
  have the same canonical bytes only when they are equal, two canonical intents likewise, and no
  intent has the bytes of a rule, although both begin with schema version 1: the preimages of
  the two hashes never meet.\<close>

theorem canonical_bytes_bind:
  assumes "length (wr_conditions r) < 2 ^ 32" and "length (wr_conditions r') < 2 ^ 32"
  shows "(canonical_rule_bytes r = canonical_rule_bytes r' \<longleftrightarrow> r = r')
    \<and> (canonical_bytes i = canonical_bytes i' \<longleftrightarrow> i = i')
    \<and> canonical_bytes i \<noteq> canonical_rule_bytes r"
proof -
  have "canonical_bytes i \<noteq> canonical_rule_bytes r"
    using canonical_bytes_length [of i] canonical_rule_bytes_length [of r] by auto
  then show ?thesis
    using rule_code.peel_end [OF assms] intent_code.peel_end [of i i'] by simp
qed

end
