(* ===== verification/Watch_Rule_Store.thy ===== *)
theory Watch_Rule_Store
  imports Watch_Rule Sql_Table Rust_Text State_Machine
begin

text \<open>
  \<open>crates/state-store/src/stage2_watch_rules.rs\<close>: the durable table of watch rules. A row
  carries the rule as JSON, its canonical bytes and hash in hex, and its life cycle. The JSON of
  a rule (serde), SHA-256 and base58 are third-party code, collected in \<open>rule_codec\<close>.
\<close>

record rule_codec =
  sha256 :: "u8 list \<Rightarrow> 256 word"
  rule_to_json :: "WatchRule \<Rightarrow> string + string"
  rule_from_json :: "string \<Rightarrow> string + WatchRule"
  base58 :: "u8 list \<Rightarrow> string"

section \<open>Status\<close>

definition RS_ACTIVE :: string where "RS_ACTIVE = ''active''"
definition RS_CONDITION_MET :: string where "RS_CONDITION_MET = ''condition_met''"
definition RS_EXECUTING :: string where "RS_EXECUTING = ''executing''"
definition RS_COMPLETED :: string where "RS_COMPLETED = ''completed''"
definition RS_EXPIRED :: string where "RS_EXPIRED = ''expired''"
definition RS_REVOKED :: string where "RS_REVOKED = ''revoked''"
definition RS_FAILED :: string where "RS_FAILED = ''failed''"

lemmas rule_status_consts = RS_ACTIVE_def RS_CONDITION_MET_def RS_EXECUTING_def RS_COMPLETED_def
  RS_EXPIRED_def RS_REVOKED_def RS_FAILED_def

datatype WatchRuleStatus =
    WsActive | WsConditionMet | WsExecuting | WsCompleted | WsExpired | WsRevoked | WsFailed

fun rule_status_as_str :: "WatchRuleStatus \<Rightarrow> string" where
  "rule_status_as_str WsActive = RS_ACTIVE"
| "rule_status_as_str WsConditionMet = RS_CONDITION_MET"
| "rule_status_as_str WsExecuting = RS_EXECUTING"
| "rule_status_as_str WsCompleted = RS_COMPLETED"
| "rule_status_as_str WsExpired = RS_EXPIRED"
| "rule_status_as_str WsRevoked = RS_REVOKED"
| "rule_status_as_str WsFailed = RS_FAILED"

definition rule_status_parse :: "string \<Rightarrow> WatchRuleStatus option" where
  "rule_status_parse s =
    (if s = RS_ACTIVE then Some WsActive
     else if s = RS_CONDITION_MET then Some WsConditionMet
     else if s = RS_EXECUTING then Some WsExecuting
     else if s = RS_COMPLETED then Some WsCompleted
     else if s = RS_EXPIRED then Some WsExpired
     else if s = RS_REVOKED then Some WsRevoked
     else if s = RS_FAILED then Some WsFailed
     else None)"

lemma rule_status_parse_as_str [simp]: "rule_status_parse (rule_status_as_str st) = Some st"
  by (cases st) (simp_all add: rule_status_parse_def rule_status_consts)

lemma rule_status_as_str_inj [simp]: "rule_status_as_str a = rule_status_as_str b \<longleftrightarrow> a = b"
  by (metis option.inject rule_status_parse_as_str)

declare rule_status_as_str.simps [simp del]

lemmas rule_status_lits [simp] = rule_status_as_str.simps [symmetric]

section \<open>Hexadecimal\<close>

definition hex_digit :: "nat \<Rightarrow> char" where
  "hex_digit n = char_of (if n < 10 then 48 + n else 87 + n)"

definition hex_encode :: "u8 list \<Rightarrow> string" where
  "hex_encode bs = concat (map (\<lambda>b. [hex_digit (unat b div 16), hex_digit (unat b mod 16)]) bs)"

definition hex_nibble :: "u8 \<Rightarrow> StoreError + u8" where
  "hex_nibble b =
    (if 48 \<le> b \<and> b \<le> 57 then Inr (b - 48)
     else if 97 \<le> b \<and> b \<le> 102 then Inr (b - 97 + 10)
     else if 65 \<le> b \<and> b \<le> 70 then Inr (b - 65 + 10)
     else Inl (IntegrityCheckFailed (InvalidHexChar b)))"

fun hex_chunks :: "u8 list \<Rightarrow> StoreError + u8 list" where
  "hex_chunks (a # b # bs) =
    bindE (hex_nibble a) (\<lambda>hi. bindE (hex_nibble b) (\<lambda>lo.
    bindE (hex_chunks bs) (\<lambda>out. Inr ((push_bit 4 hi OR lo) # out))))"
| "hex_chunks _ = Inr []"

definition hex_decode :: "string \<Rightarrow> StoreError + u8 list" where
  "hex_decode s =
    (if length s mod 2 \<noteq> 0 then Inl (IntegrityCheckFailed (HexOddLength (length s)))
     else hex_chunks (as_bytes s))"

definition rule_id_hex :: "128 word \<Rightarrow> string" where
  "rule_id_hex rid = hex_encode (array_bytes rid)"

fun condition_logic_str :: "ConditionLogic \<Rightarrow> string" where
  "condition_logic_str All_logic = ''all''"
| "condition_logic_str Any_logic = ''any''"

definition parse_condition_logic :: "string \<Rightarrow> StoreError + ConditionLogic" where
  "parse_condition_logic s =
    (if s = ''all'' then Inr All_logic else if s = ''any'' then Inr Any_logic
     else Inl (IntegrityCheckFailed (UnknownConditionLogic s)))"

definition parse_action_type :: "string \<Rightarrow> StoreError + WatchRuleActionType" where
  "parse_action_type s =
    (if s = ''solend_withdraw_all_delegated'' then Inr WaSolendWithdrawAllDelegated
     else if s = ''jupiter_buy_sol_with_usdc'' then Inr WaJupiterBuySolWithUsdc
     else Inl (IntegrityCheckFailed (UnknownActionType s)))"

section \<open>Rows\<close>

record RuleRow =
  rr_rule_id :: string
  rr_user_pubkey :: string
  rr_executor_pubkey :: string
  rr_delegated_wallet_pubkey :: string
  rr_canonical_rule_hash :: string
  rr_canonical_rule_bytes_hex :: string
  rr_rule_json :: string
  rr_action_type :: string
  rr_condition_logic :: string
  rr_status :: string
  rr_max_input_amount_raw :: i64
  rr_used_amount_raw :: i64
  rr_destination_pubkey :: string
  rr_expires_at_slot :: i64
  rr_created_at_slot :: i64
  rr_last_checked_slot :: "i64 option"
  rr_last_successful_tick_at_ms :: "i64 option"
  rr_last_error :: "string option"
  rr_execution_nonce :: i64
  rr_completed :: i64
  rr_revoked :: i64
  rr_created_at_ms :: i64
  rr_updated_at_ms :: i64

record StoredWatchRule =
  sw_rule :: WatchRule
  sw_canonical_rule_hash :: "256 word"
  sw_canonical_rule_bytes :: "u8 list"
  sw_status :: WatchRuleStatus
  sw_action_type :: WatchRuleActionType
  sw_condition_logic :: ConditionLogic
  sw_last_checked_slot :: "u64 option"
  sw_last_successful_tick_at_ms :: "i64 option"
  sw_last_error :: "string option"
  sw_execution_nonce :: u64
  sw_completed :: bool
  sw_revoked :: bool
  sw_created_at_ms :: i64
  sw_updated_at_ms :: i64

type_synonym rule_db = "RuleRow list"

text \<open>\<open>to_lowercase\<close> is applied to a string that has just decoded as hex, so it is ASCII lowering.\<close>

definition row_to_stored :: "rule_codec \<Rightarrow> RuleRow \<Rightarrow> StoreError + StoredWatchRule" where
  "row_to_stored codec row =
    bindE (hex_decode (rr_rule_id row)) (\<lambda>_.
    bindE (hex_decode (rr_canonical_rule_hash row)) (\<lambda>hash_vec.
    if length hash_vec \<noteq> 32 then Inl (IntegrityCheckFailed (HashLength (length hash_vec)))
    else let stored_hash = array_of_bytes hash_vec in
    bindE (hex_decode (rr_canonical_rule_bytes_hex row)) (\<lambda>bytes.
    bindE (map_err Serialization (rule_from_json codec (rr_rule_json row))) (\<lambda>rule.
    let recomputed = canonical_rule_hash (sha256 codec) rule in
    if recomputed \<noteq> stored_hash then
      Inl (IntegrityCheckFailed (CanonicalHashDrift (rr_rule_id row)
             (hex_encode (array_bytes stored_hash)) (hex_encode (array_bytes recomputed))))
    else let stored_id_lower = to_ascii_lowercase (rr_rule_id row);
             rule_id_lower = rule_id_hex (wr_rule_id rule) in
    if stored_id_lower \<noteq> rule_id_lower then
      Inl (IntegrityCheckFailed (RuleIdDrift stored_id_lower rule_id_lower))
    else
    bindE (ok_or (rule_status_parse (rr_status row))
             (IntegrityCheckFailed (UnknownRuleStatus (rr_status row)))) (\<lambda>st.
    bindE (parse_action_type (rr_action_type row)) (\<lambda>atype.
    bindE (parse_condition_logic (rr_condition_logic row)) (\<lambda>logic.
    Inr \<lparr>sw_rule = rule,
         sw_canonical_rule_hash = stored_hash,
         sw_canonical_rule_bytes = bytes,
         sw_status = st,
         sw_action_type = atype,
         sw_condition_logic = logic,
         sw_last_checked_slot = rr_last_checked_slot row,
         sw_last_successful_tick_at_ms = rr_last_successful_tick_at_ms row,
         sw_last_error = rr_last_error row,
         sw_execution_nonce = rr_execution_nonce row,
         sw_completed = (rr_completed row \<noteq> 0),
         sw_revoked = (rr_revoked row \<noteq> 0),
         sw_created_at_ms = rr_created_at_ms row,
         sw_updated_at_ms = rr_updated_at_ms row\<rparr>)))))))"

section \<open>Insert and queries\<close>

definition rule_row :: "rule_codec \<Rightarrow> i64 \<Rightarrow> string \<Rightarrow> WatchRule \<Rightarrow> RuleRow" where
  "rule_row codec now rule_json r = \<lparr>
     rr_rule_id = rule_id_hex (wr_rule_id r),
     rr_user_pubkey = pubkey_to_base58 (base58 codec) (wr_user r),
     rr_executor_pubkey = pubkey_to_base58 (base58 codec) (wr_executor r),
     rr_delegated_wallet_pubkey = pubkey_to_base58 (base58 codec) (wr_delegated_wallet r),
     rr_canonical_rule_hash = hex_encode (array_bytes (canonical_rule_hash (sha256 codec) r)),
     rr_canonical_rule_bytes_hex = hex_encode (canonical_rule_bytes r),
     rr_rule_json = rule_json,
     rr_action_type = rule_action_label (rule_action_type (wr_action r)),
     rr_condition_logic = condition_logic_str (wr_condition_logic r),
     rr_status = RS_ACTIVE,
     rr_max_input_amount_raw = wr_max_input_amount_raw r,
     rr_used_amount_raw = wr_used_amount_raw r,
     rr_destination_pubkey = pubkey_to_base58 (base58 codec) (wr_destination r),
     rr_expires_at_slot = wr_expires_at_slot r,
     rr_created_at_slot = wr_created_at_slot r,
     rr_last_checked_slot = None,
     rr_last_successful_tick_at_ms = None,
     rr_last_error = None,
     rr_execution_nonce = 0,
     rr_completed = 0,
     rr_revoked = 0,
     rr_created_at_ms = now,
     rr_updated_at_ms = now\<rparr>"

definition insert_rule ::
  "rule_codec \<Rightarrow> verdict \<Rightarrow> i64 \<Rightarrow> WatchRule \<Rightarrow> rule_db \<Rightarrow> (StoreError + unit) \<times> rule_db" where
  "insert_rule codec v now r db = (case rule_to_json codec r of
     Inl e \<Rightarrow> (Inl (Serialization e), db)
   | Inr j \<Rightarrow> sql_insert v rr_rule_id (rule_row codec now j r) db)"

definition get_rule ::
  "rule_codec \<Rightarrow> verdict \<Rightarrow> 128 word \<Rightarrow> rule_db \<Rightarrow> StoreError + StoredWatchRule option" where
  "get_rule codec v rid db =
    bindE (sql_select_optional v (\<lambda>r. rr_rule_id r = rule_id_hex rid) db) (\<lambda>row.
    case row of
      None \<Rightarrow> Inr None
    | Some r \<Rightarrow> bindE (row_to_stored codec r) (\<lambda>s. Inr (Some s)))"

definition pending_where :: "RuleRow \<Rightarrow> bool" where
  "pending_where r \<longleftrightarrow> rr_completed r = 0 \<and> rr_revoked r = 0
     \<and> rr_status r \<notin> {''completed'', ''expired'', ''revoked'', ''failed''}"

definition active_where :: "u64 \<Rightarrow> RuleRow \<Rightarrow> bool" where
  "active_where current r \<longleftrightarrow> sint (rr_expires_at_slot r) > sint current \<and> pending_where r"

definition oldest_first :: "RuleRow \<Rightarrow> int" where
  "oldest_first r = sint (rr_created_at_ms r)"

definition list_active ::
  "rule_codec \<Rightarrow> verdict \<Rightarrow> u64 \<Rightarrow> rule_db \<Rightarrow> StoreError + StoredWatchRule list" where
  "list_active codec v current db =
    bindE (sql_select_all v (active_where current) oldest_first (length db) db)
      (collectE (row_to_stored codec))"

definition list_active_limit ::
  "rule_codec \<Rightarrow> verdict \<Rightarrow> u64 \<Rightarrow> u32 \<Rightarrow> rule_db \<Rightarrow> StoreError + StoredWatchRule list" where
  "list_active_limit codec v current limit db =
    (if limit = 0 then Inr []
     else bindE (sql_select_all v (active_where current) oldest_first (unat limit) db)
       (collectE (row_to_stored codec)))"

definition list_pending_lifecycle_limit ::
  "rule_codec \<Rightarrow> verdict \<Rightarrow> u32 \<Rightarrow> rule_db \<Rightarrow> StoreError + StoredWatchRule list" where
  "list_pending_lifecycle_limit codec v limit db =
    (if limit = 0 then Inr []
     else bindE (sql_select_all v pending_where oldest_first (unat limit) db)
       (collectE (row_to_stored codec)))"

definition list_by_user ::
  "rule_codec \<Rightarrow> verdict \<Rightarrow> string \<Rightarrow> rule_db \<Rightarrow> StoreError + StoredWatchRule list" where
  "list_by_user codec v user db =
    bindE (sql_select_all v (\<lambda>r. rr_user_pubkey r = user) oldest_first (length db) db)
      (collectE (row_to_stored codec))"

section \<open>Transitions\<close>

type_synonym rule_cas = "(StoreError + nat) \<times> rule_db"

definition rule_where :: "128 word \<Rightarrow> WatchRuleStatus set \<Rightarrow> RuleRow \<Rightarrow> bool" where
  "rule_where rid sts r \<longleftrightarrow> rr_rule_id r = rule_id_hex rid \<and> (\<exists>st \<in> sts. rr_status r = rule_status_as_str st)"

definition id_where :: "128 word \<Rightarrow> RuleRow \<Rightarrow> bool" where
  "id_where rid r \<longleftrightarrow> rr_rule_id r = rule_id_hex rid"

definition rule_status_set :: "string \<Rightarrow> i64 \<Rightarrow> RuleRow \<Rightarrow> RuleRow" where
  "rule_status_set st now r = r\<lparr>rr_status := st, rr_updated_at_ms := now\<rparr>"

definition rule_executing_set :: "i64 \<Rightarrow> u64 \<Rightarrow> RuleRow \<Rightarrow> RuleRow" where
  "rule_executing_set now nonce r =
     r\<lparr>rr_status := RS_EXECUTING, rr_execution_nonce := nonce, rr_updated_at_ms := now\<rparr>"

definition rule_completed_set :: "i64 \<Rightarrow> u64 \<Rightarrow> u64 \<Rightarrow> RuleRow \<Rightarrow> RuleRow" where
  "rule_completed_set now used sl r =
     r\<lparr>rr_status := RS_COMPLETED, rr_completed := 1, rr_used_amount_raw := used,
       rr_last_checked_slot := Some sl, rr_updated_at_ms := now\<rparr>"

definition rule_failed_set :: "i64 \<Rightarrow> string \<Rightarrow> RuleRow \<Rightarrow> RuleRow" where
  "rule_failed_set now err r =
     r\<lparr>rr_status := RS_FAILED, rr_last_error := Some err, rr_updated_at_ms := now\<rparr>"

definition rule_revoked_set :: "i64 \<Rightarrow> RuleRow \<Rightarrow> RuleRow" where
  "rule_revoked_set now r = r\<lparr>rr_status := RS_REVOKED, rr_revoked := 1, rr_updated_at_ms := now\<rparr>"

definition rule_checked_set :: "i64 \<Rightarrow> u64 \<Rightarrow> i64 \<Rightarrow> RuleRow \<Rightarrow> RuleRow" where
  "rule_checked_set now sl ts r =
     r\<lparr>rr_last_checked_slot := Some sl, rr_last_successful_tick_at_ms := Some ts,
       rr_updated_at_ms := now\<rparr>"

definition rule_error_set :: "i64 \<Rightarrow> string \<Rightarrow> RuleRow \<Rightarrow> RuleRow" where
  "rule_error_set now err r = r\<lparr>rr_last_error := Some err, rr_updated_at_ms := now\<rparr>"

definition rule_tick_set :: "i64 \<Rightarrow> i64 \<Rightarrow> RuleRow \<Rightarrow> RuleRow" where
  "rule_tick_set now ts r = r\<lparr>rr_last_successful_tick_at_ms := Some ts, rr_updated_at_ms := now\<rparr>"

lemmas rule_sets = rule_status_set_def rule_executing_set_def rule_completed_set_def
  rule_failed_set_def rule_revoked_set_def rule_checked_set_def rule_error_set_def rule_tick_set_def

definition mark_checked :: "verdict \<Rightarrow> i64 \<Rightarrow> 128 word \<Rightarrow> u64 \<Rightarrow> i64 \<Rightarrow> rule_db \<Rightarrow> rule_cas" where
  "mark_checked v now rid sl ts = sql_update v (id_where rid) (rule_checked_set now sl ts)"

definition set_status :: "verdict \<Rightarrow> i64 \<Rightarrow> 128 word \<Rightarrow> string \<Rightarrow> rule_db \<Rightarrow> rule_cas" where
  "set_status v now rid st = sql_update v (id_where rid) (rule_status_set st now)"

definition mark_condition_met :: "verdict \<Rightarrow> i64 \<Rightarrow> 128 word \<Rightarrow> rule_db \<Rightarrow> rule_cas" where
  "mark_condition_met v now rid = set_status v now rid RS_CONDITION_MET"

definition mark_condition_met_if_active :: "verdict \<Rightarrow> i64 \<Rightarrow> 128 word \<Rightarrow> rule_db \<Rightarrow> rule_cas" where
  "mark_condition_met_if_active v now rid =
     sql_update v (rule_where rid {WsActive}) (rule_status_set RS_CONDITION_MET now)"

definition mark_executing :: "verdict \<Rightarrow> i64 \<Rightarrow> 128 word \<Rightarrow> u64 \<Rightarrow> rule_db \<Rightarrow> rule_cas" where
  "mark_executing v now rid nonce = sql_update v (id_where rid) (rule_executing_set now nonce)"

definition mark_executing_if_condition_met ::
  "verdict \<Rightarrow> i64 \<Rightarrow> 128 word \<Rightarrow> u64 \<Rightarrow> rule_db \<Rightarrow> rule_cas" where
  "mark_executing_if_condition_met v now rid nonce =
     sql_update v (rule_where rid {WsConditionMet}) (rule_executing_set now nonce)"

definition mark_completed :: "verdict \<Rightarrow> i64 \<Rightarrow> 128 word \<Rightarrow> u64 \<Rightarrow> u64 \<Rightarrow> rule_db \<Rightarrow> rule_cas" where
  "mark_completed v now rid used sl = sql_update v (id_where rid) (rule_completed_set now used sl)"

definition rule_mark_failed :: "verdict \<Rightarrow> i64 \<Rightarrow> 128 word \<Rightarrow> string \<Rightarrow> rule_db \<Rightarrow> rule_cas" where
  "rule_mark_failed v now rid err = sql_update v (id_where rid) (rule_failed_set now err)"

definition mark_failed_if_not_terminal ::
  "verdict \<Rightarrow> i64 \<Rightarrow> 128 word \<Rightarrow> string \<Rightarrow> rule_db \<Rightarrow> rule_cas" where
  "mark_failed_if_not_terminal v now rid err =
     sql_update v (rule_where rid {WsActive, WsConditionMet}) (rule_failed_set now err)"

definition record_last_error :: "verdict \<Rightarrow> i64 \<Rightarrow> 128 word \<Rightarrow> string \<Rightarrow> rule_db \<Rightarrow> rule_cas" where
  "record_last_error v now rid err = sql_update v (id_where rid) (rule_error_set now err)"

definition mark_expired :: "verdict \<Rightarrow> i64 \<Rightarrow> 128 word \<Rightarrow> rule_db \<Rightarrow> rule_cas" where
  "mark_expired v now rid = set_status v now rid RS_EXPIRED"

definition mark_expired_if_not_terminal :: "verdict \<Rightarrow> i64 \<Rightarrow> 128 word \<Rightarrow> rule_db \<Rightarrow> rule_cas" where
  "mark_expired_if_not_terminal v now rid =
     sql_update v (rule_where rid {WsActive, WsConditionMet}) (rule_status_set RS_EXPIRED now)"

definition mark_revoked :: "verdict \<Rightarrow> i64 \<Rightarrow> 128 word \<Rightarrow> rule_db \<Rightarrow> rule_cas" where
  "mark_revoked v now rid = sql_update v (id_where rid) (rule_revoked_set now)"

definition update_health_tick :: "verdict \<Rightarrow> i64 \<Rightarrow> 128 word \<Rightarrow> i64 \<Rightarrow> rule_db \<Rightarrow> rule_cas" where
  "update_health_tick v now rid ts = sql_update v (id_where rid) (rule_tick_set now ts)"

end
