(* ===== verification/Chat_Execute.thy ===== *)
theory Chat_Execute
  imports Funding_Lifecycle Watch_Rule_Store
begin

text \<open>
  \<open>crates/gateway/src/stage2_chat_execute.rs\<close>: the operator-approved deposit of a funded
  conditional order. \<open>exec_env\<close> holds what one execution meets: the configuration, the driver's
  verdict and the clock at its k-th repository call, what other tasks did to the two tables
  before that call, the live metrics, the sender and \<open>Pubkey::from_str\<close> on the pinned addresses.
  A result \<open>None\<close> is a panic; otherwise it is the outcome, the request handed to the sender (if
  it was called) and the tables. Error texts are kept as the values they are formatted from.
\<close>

section \<open>Constants\<close>

definition W5G_TARGET_OBLIGATION_BS58 :: string where
  "W5G_TARGET_OBLIGATION_BS58 = ''BdFLjCcP9mCy557vNNGVbTUuvHxXsh8hc6jXzaPra1wN''"

definition DEMO_RESERVE_BS58 :: string where
  "DEMO_RESERVE_BS58 = ''BgxfHJDzm44T7XG68MYKx7YisTjZu73tVovyZSjJMpmw''"

definition PHASE5C_MIN_AMOUNT_RAW :: u64 where "PHASE5C_MIN_AMOUNT_RAW = 100000"

definition PHASE5C_MAX_AMOUNT_RAW :: u64 where "PHASE5C_MAX_AMOUNT_RAW = 1000000"

definition W5G_SERIALIZED_TX_HARD_LIMIT_BYTES :: nat where "W5G_SERIALIZED_TX_HARD_LIMIT_BYTES = 1232"

definition W5G_ENV_MASTER_GATE :: string where
  "W5G_ENV_MASTER_GATE = ''CLAW_STAGE2_LIVE_CHAT_EXECUTION''"

definition W5G_ENV_APPROVAL_PHRASE_OWNER :: string where
  "W5G_ENV_APPROVAL_PHRASE_OWNER = ''CLAW_STAGE2_CHAT_EXECUTION_APPROVED''"

definition W5G_REQUIRED_APPROVAL_PHRASE :: string where
  "W5G_REQUIRED_APPROVAL_PHRASE = ''W5G LIVE CHAT CONDITIONAL DEPOSIT APPROVED''"

definition W5G_ENV_DELEGATED_KEYPAIR_PATH :: string where
  "W5G_ENV_DELEGATED_KEYPAIR_PATH = ''CLAW_STAGE2_DELEGATED_KEYPAIR_PATH''"

definition W5G_ENV_CLUSTER :: string where "W5G_ENV_CLUSTER = ''CLAW_STAGE2_CLUSTER''"

definition W5G_CLUSTER_MAINNET :: string where "W5G_CLUSTER_MAINNET = ''mainnet-beta''"

section \<open>Requests and the chat command\<close>

record ChatExecuteRequest =
  cr_rule_id_hex :: string
  cr_canonical_rule_hash_hex :: string
  cr_approval_phrase :: string

datatype W5gChatCommandParseError =
    MissingPrefix
  | MissingRuleIdHex
  | InvalidRuleIdHex string
  | MissingCanonicalHashHex
  | InvalidCanonicalHashHex string
  | MissingApprovalPhraseMarker
  | EmptyApprovalPhrase

definition looks_like_w5g_chat_command :: "string \<Rightarrow> bool" where
  "looks_like_w5g_chat_command text =
    (let lower = to_ascii_lowercase text in
     str_contains lower ''execute w5g conditional deposit'' \<and> str_contains lower ''approval phrase'')"

definition hex_token :: "nat \<Rightarrow> string \<Rightarrow> bool" where
  "hex_token n t \<longleftrightarrow> length t = n \<and> list_all is_ascii_hexdigit t"

text \<open>Lowering keeps byte offsets, so a match in the lowered text is sliced out of the original.\<close>

definition parse_w5g_chat_command :: "string \<Rightarrow> W5gChatCommandParseError + ChatExecuteRequest" where
  "parse_w5g_chat_command text =
    (let lower = to_ascii_lowercase text;
         prefix = ''execute w5g conditional deposit'';
         marker = ''approval phrase''
     in bindE (ok_or (str_find lower prefix) MissingPrefix) (\<lambda>prefix_idx.
     let scan_from = prefix_idx + length prefix;
         tokens = split_whitespace (drop scan_from text)
     in bindE (ok_or (get_index tokens 0) MissingRuleIdHex) (\<lambda>rule_id_token.
     if \<not> hex_token 32 rule_id_token then Inl (InvalidRuleIdHex rule_id_token)
     else bindE (ok_or (get_index tokens 1) MissingCanonicalHashHex) (\<lambda>hash_token.
     if \<not> hex_token 64 hash_token then Inl (InvalidCanonicalHashHex hash_token)
     else bindE (ok_or (str_find (drop scan_from lower) marker) MissingApprovalPhraseMarker) (\<lambda>i.
     let approval_phrase = str_trim (drop (scan_from + i + length marker) text)
     in if approval_phrase = [] then Inl EmptyApprovalPhrase
        else Inr \<lparr>cr_rule_id_hex = rule_id_token, cr_canonical_rule_hash_hex = hash_token,
                  cr_approval_phrase = approval_phrase\<rparr>)))))"

section \<open>Outcomes\<close>

datatype ChatExecuteStatus = CxCompleted | CxBroadcastedTimeout | CxPrechecksFailed | CxExecutionFailed

datatype ChatExecuteErrorCode =
    MasterGateMissing | EnvApprovalMismatch | RequestApprovalMismatch | ClusterMismatch
  | KeypairPathMissing | KeypairLoadFailed | RpcUrlMissing | RuleNotFound | CanonicalHashMismatch
  | RuleNotExecutable | BudgetInsufficient | SaveApyBelowThreshold | MarketDataUnavailable
  | NativeAprFetchFailed | AmountMismatch | EcTxBuildFailed | EcTxSizeExceeded | EcBroadcastFailed
  | EcOnChainFailure | PollExhausted | PostTxFetchFailed | RepoUpdateFailed

datatype exec_reason =
    EnvNotOne string | EnvNotSet string | EnvDiffers string | PhraseDiffers | ClusterIs string
  | NoRpcUrl | NotRuleIdHex string | RuleMissing string | RuleGetFailed StoreError
  | HashDiffers string string | StatusNotExecutable WatchRuleStatus | NoSupplyRateCondition
  | OutsideBand u64 | SaveFetchFailed string | ApyNotAbove u32 u32 | NativeFetchFailed string
  | BalanceBelow u64 u64 | LeaseErr StoreError | LeaseNotAcquired | RuleRowNotUpdated
  | PollDeadline "string option" | TxTooLarge nat | SenderReason string

record ChatExecuteOutcome =
  co_status :: ChatExecuteStatus
  co_rule_id_hex :: string
  co_canonical_rule_hash_hex :: string
  co_tx_signature :: "string option"
  co_solscan_url :: "string option"
  co_confirmation_slot :: "u64 option"
  co_used_save_display_apy_bps :: "u32 option"
  co_used_native_onchain_apr_bps :: "u32 option"
  co_used_threshold_bps :: "u32 option"
  co_before_usdc_raw :: "u64 option"
  co_after_usdc_raw :: "u64 option"
  co_usdc_delta_raw :: "i64 option"
  co_before_ctoken_amount :: "u64 option"
  co_after_ctoken_amount :: "u64 option"
  co_ctoken_delta_raw :: "i64 option"
  co_serialized_tx_bytes :: "nat option"
  co_instruction_count :: "nat option"
  co_ctoken_ata_create_included :: "bool option"
  co_error :: "ChatExecuteErrorCode option"
  co_error_reason :: "exec_reason option"

record ChatExecuteSendRequest =
  sr_controlled_wallet :: pubkey
  sr_amount_raw :: u64
  sr_target_obligation :: pubkey
  sr_reserve_pubkey :: pubkey

datatype ChatExecuteSendOutcome =
    Finalized string u64 nat nat bool u64 u64 u64 u64
  | BroadcastedTimeout string nat nat bool "string option"
  | TxBuildFailed string
  | TxSizeExceeded nat nat bool
  | BroadcastFailed string
  | OnChainFailure string string nat nat bool

section \<open>Configuration\<close>

record Stage2ChatExecuteConfig =
  master_gate_on :: bool
  env_approval_phrase :: "string option"
  cluster :: "string option"
  rpc_url_present :: bool
  keypair_path_present :: bool

definition non_blank :: "string \<Rightarrow> bool" where
  "non_blank s \<longleftrightarrow> str_trim s \<noteq> []"

definition config_from_std_env :: "(string \<Rightarrow> string option) \<Rightarrow> Stage2ChatExecuteConfig" where
  "config_from_std_env var = \<lparr>
     master_gate_on = (var W5G_ENV_MASTER_GATE = Some ''1''),
     env_approval_phrase = var W5G_ENV_APPROVAL_PHRASE_OWNER,
     cluster = var W5G_ENV_CLUSTER,
     rpc_url_present =
       (case (case var ''HELIUS_RPC_URL'' of Some u \<Rightarrow> Some u | None \<Rightarrow> var ''CLAW_RPC_URL'') of
          Some u \<Rightarrow> non_blank u | None \<Rightarrow> False),
     keypair_path_present =
       (case var W5G_ENV_DELEGATED_KEYPAIR_PATH of Some u \<Rightarrow> non_blank u | None \<Rightarrow> False)\<rparr>"

section \<open>Helpers\<close>

definition precheck_failure ::
  "ChatExecuteRequest \<Rightarrow> ChatExecuteErrorCode \<times> exec_reason \<Rightarrow> ChatExecuteOutcome" where
  "precheck_failure req err = \<lparr>
     co_status = CxPrechecksFailed,
     co_rule_id_hex = cr_rule_id_hex req,
     co_canonical_rule_hash_hex = cr_canonical_rule_hash_hex req,
     co_tx_signature = None, co_solscan_url = None, co_confirmation_slot = None,
     co_used_save_display_apy_bps = None, co_used_native_onchain_apr_bps = None,
     co_used_threshold_bps = None,
     co_before_usdc_raw = None, co_after_usdc_raw = None, co_usdc_delta_raw = None,
     co_before_ctoken_amount = None, co_after_ctoken_amount = None, co_ctoken_delta_raw = None,
     co_serialized_tx_bytes = None, co_instruction_count = None,
     co_ctoken_ata_create_included = None,
     co_error = Some (fst err), co_error_reason = Some (snd err)\<rparr>"

text \<open>
  \<open>u8::from_str_radix(s, 16)\<close> on two bytes: a leading plus is allowed, so one digit may follow it.
  Slicing a string at a byte that is inside a character panics.
\<close>

definition hex_value :: "char \<Rightarrow> u8 option" where
  "hex_value c = (let n = of_char c in
     if 48 \<le> n \<and> n \<le> 57 then Some (word_of_nat (n - 48))
     else if 97 \<le> n \<and> n \<le> 102 then Some (word_of_nat (n - 87))
     else if 65 \<le> n \<and> n \<le> 70 then Some (word_of_nat (n - 55))
     else None)"

definition radix16_pair :: "char \<Rightarrow> char \<Rightarrow> u8 option" where
  "radix16_pair a b =
    (if a = CHR ''+'' then hex_value b
     else Option.bind (hex_value a) (\<lambda>x. Option.bind (hex_value b) (\<lambda>y. Some (16 * x + y))))"

datatype 'a panicking = Panics | Returns 'a

fun decode_pairs :: "string \<Rightarrow> nat \<Rightarrow> nat \<Rightarrow> u8 list option panicking" where
  "decode_pairs s i 0 = Returns (Some [])"
| "decode_pairs s i (Suc k) =
    (if \<not> is_char_boundary s (2 * i) \<or> \<not> is_char_boundary s (2 * i + 2) then Panics
     else case radix16_pair (s ! (2 * i)) (s ! (2 * i + 1)) of
       None \<Rightarrow> Returns None
     | Some b \<Rightarrow> (case decode_pairs s (Suc i) k of
         Panics \<Rightarrow> Panics
       | Returns r \<Rightarrow> Returns (map_option (\<lambda>bs. b # bs) r)))"

definition decode_rule_id_hex :: "string \<Rightarrow> 128 word option panicking" where
  "decode_rule_id_hex hex_str =
    (let s = str_trim hex_str in
     if length s \<noteq> 32 then Returns None
     else case decode_pairs s 0 16 of
       Panics \<Rightarrow> Panics
     | Returns r \<Rightarrow> Returns (map_option array_of_bytes r))"

definition rule_status_is_executable :: "WatchRuleStatus \<Rightarrow> bool" where
  "rule_status_is_executable st \<longleftrightarrow> st \<in> {WsActive, WsConditionMet}"

fun extract_threshold :: "Condition list \<Rightarrow> u32 option" where
  "extract_threshold [] = None"
| "extract_threshold (SolendReserveSupplyRate _ _ _ _ bps _ _ _ _ # _) = Some bps"
| "extract_threshold (_ # cs) = extract_threshold cs"

definition extract_threshold_bps :: "WatchRule \<Rightarrow> u32 option" where
  "extract_threshold_bps r = extract_threshold (wr_conditions r)"

definition bps_to_pct_label :: "u32 \<Rightarrow> string" where
  "bps_to_pct_label bps =
    (let frac = unat (bps mod 100) in
     show_nat (unat (bps div 100)) @ ''.'' @ (if frac < 10 then ''0'' else []) @ show_nat frac)"

definition signed_delta :: "u64 \<Rightarrow> u64 \<Rightarrow> i64" where
  "signed_delta before after = word_of_int (int (unat after) - int (unat before))"

section \<open>The executor\<close>

record exec_state =
  st_rules :: rule_db
  st_intents :: funding_db

record DemoParsed =
  dp_threshold_bps :: u32
  dp_threshold_pct_label :: string
  dp_amount_raw :: u64

record exec_env =
  config :: Stage2ChatExecuteConfig
  codec :: rule_codec
  w5h_intent_repo :: bool
  call_verdict :: "nat \<Rightarrow> verdict"
  call_clock :: "nat \<Rightarrow> i64"
  other_tasks :: "nat \<Rightarrow> exec_state \<Rightarrow> exec_state"
  fetch_main_pool_usdc :: "string + u32"
  evaluate_apr :: "DemoParsed \<Rightarrow> string + u32 \<times> u64"
  build_sign_send_poll :: "ChatExecuteSendRequest \<Rightarrow> ChatExecuteSendOutcome"
  pubkey_from_str :: "string \<Rightarrow> pubkey"

type_synonym exec_err = "ChatExecuteErrorCode \<times> exec_reason"

text \<open>Steps 1 to 5: the gates of the environment and the request's phrase.\<close>

definition check_gates :: "Stage2ChatExecuteConfig \<Rightarrow> ChatExecuteRequest \<Rightarrow> exec_err + unit" where
  "check_gates cfg req =
    (if \<not> master_gate_on cfg then Inl (MasterGateMissing, EnvNotOne W5G_ENV_MASTER_GATE)
     else bindE (ok_or (env_approval_phrase cfg)
             (EnvApprovalMismatch, EnvNotSet W5G_ENV_APPROVAL_PHRASE_OWNER)) (\<lambda>env_phrase.
     if env_phrase \<noteq> W5G_REQUIRED_APPROVAL_PHRASE then
       Inl (EnvApprovalMismatch, EnvDiffers W5G_ENV_APPROVAL_PHRASE_OWNER)
     else if cr_approval_phrase req \<noteq> W5G_REQUIRED_APPROVAL_PHRASE then
       Inl (RequestApprovalMismatch, PhraseDiffers)
     else bindE (ok_or (cluster cfg) (ClusterMismatch, EnvNotSet W5G_ENV_CLUSTER)) (\<lambda>cl.
     if cl \<noteq> W5G_CLUSTER_MAINNET then Inl (ClusterMismatch, ClusterIs cl)
     else if \<not> keypair_path_present cfg then
       Inl (KeypairPathMissing, EnvNotSet W5G_ENV_DELEGATED_KEYPAIR_PATH)
     else if \<not> rpc_url_present cfg then Inl (RpcUrlMissing, NoRpcUrl)
     else Inr ())))"

text \<open>Steps 6 to 9 on the looked-up rule: hash, status, threshold and amount band.\<close>

definition lookup_rule ::
  "exec_env \<Rightarrow> ChatExecuteRequest \<Rightarrow> 128 word \<Rightarrow> rule_db \<Rightarrow> exec_err + StoredWatchRule" where
  "lookup_rule env req rid db = (case get_rule (codec env) (call_verdict env 1) rid db of
     Inr (Some r) \<Rightarrow> Inr r
   | Inr None \<Rightarrow> Inl (RuleNotFound, RuleMissing (cr_rule_id_hex req))
   | Inl e \<Rightarrow> Inl (RuleNotFound, RuleGetFailed e))"

definition check_rule ::
  "exec_env \<Rightarrow> ChatExecuteRequest \<Rightarrow> StoredWatchRule \<Rightarrow> exec_err + string \<times> u32" where
  "check_rule env req stored =
    (let rule = sw_rule stored;
         canonical_actual = hex_encode (array_bytes (canonical_rule_hash (sha256 (codec env)) rule))
     in if \<not> eq_ignore_ascii_case canonical_actual (cr_canonical_rule_hash_hex req) then
       Inl (CanonicalHashMismatch, HashDiffers (cr_canonical_rule_hash_hex req) canonical_actual)
     else if \<not> rule_status_is_executable (sw_status stored) then
       Inl (RuleNotExecutable, StatusNotExecutable (sw_status stored))
     else bindE (ok_or (extract_threshold_bps rule) (RuleNotExecutable, NoSupplyRateCondition)) (\<lambda>threshold.
     if \<not> (PHASE5C_MIN_AMOUNT_RAW \<le> wr_max_input_amount_raw rule
            \<and> wr_max_input_amount_raw rule \<le> PHASE5C_MAX_AMOUNT_RAW) then
       Inl (AmountMismatch, OutsideBand (wr_max_input_amount_raw rule))
     else Inr (canonical_actual, threshold)))"

text \<open>Step 10: live re-check of the Save APY and of the wallet's balance.\<close>

definition check_live :: "exec_env \<Rightarrow> u32 \<Rightarrow> u64 \<Rightarrow> exec_err + u32 \<times> u32" where
  "check_live env threshold amount =
    bindE (map_err (\<lambda>e. (MarketDataUnavailable, SaveFetchFailed e)) (fetch_main_pool_usdc env)) (\<lambda>save.
    if save \<le> threshold then Inl (SaveApyBelowThreshold, ApyNotAbove save threshold)
    else bindE (map_err (\<lambda>e. (NativeAprFetchFailed, NativeFetchFailed e))
           (evaluate_apr env \<lparr>dp_threshold_bps = threshold,
              dp_threshold_pct_label = bps_to_pct_label threshold, dp_amount_raw = amount\<rparr>)) (\<lambda>(apr, budget).
    if budget < amount then Inl (BudgetInsufficient, BalanceBelow budget amount)
    else Inr (save, apr)))"

text \<open>Step 11a: the execution lease on the funding intent.\<close>

definition acquire_lease ::
  "exec_env \<Rightarrow> ChatExecuteRequest \<Rightarrow> exec_state \<Rightarrow> (exec_err + unit) \<times> exec_state" where
  "acquire_lease env req st =
    (if \<not> w5h_intent_repo env then (Inr (), st)
     else let st2 = other_tasks env 2 st;
              (n, db) = lease_execution_if_budget_reserved (call_verdict env 2) (call_clock env 2)
                          (cr_rule_id_hex req) (st_intents st2);
              st3 = st2\<lparr>st_intents := db\<rparr>
     in (case n of
           Inl e \<Rightarrow> (Inl (RepoUpdateFailed, LeaseErr e), st3)
         | Inr k \<Rightarrow> (if k = 1 then Inr () else Inl (RuleNotExecutable, LeaseNotAcquired), st3)))"

definition solscan :: "string \<Rightarrow> string" where
  "solscan sig = ''https://solscan.io/tx/'' @ sig"

text \<open>The write-back on the funding intent after the sender returned; its result is dropped.\<close>

definition update_intent ::
  "exec_env \<Rightarrow> (verdict \<Rightarrow> i64 \<Rightarrow> funding_db \<Rightarrow> cas_result) \<Rightarrow> exec_state \<Rightarrow> exec_state" where
  "update_intent env call st =
    (if \<not> w5h_intent_repo env then st
     else let st4 = other_tasks env 4 st
          in st4\<lparr>st_intents := snd (call (call_verdict env 4) (call_clock env 4) (st_intents st4))\<rparr>)"

text \<open>Step 12: the outcome of each result of the sender, with its write-backs.\<close>

definition finish_send ::
  "exec_env \<Rightarrow> ChatExecuteRequest \<Rightarrow> 128 word \<Rightarrow> u64 \<Rightarrow> ChatExecuteOutcome \<Rightarrow> ChatExecuteSendOutcome \<Rightarrow>
   exec_state \<Rightarrow> ChatExecuteOutcome \<times> exec_state" where
  "finish_send env req rid amount base out st =
    (let iid = cr_rule_id_hex req;
         release = (\<lambda>reason. update_intent env (\<lambda>v now. release_execution_lease_to_budget_reserved v now iid reason) st)
     in case out of
       Finalized sig slt bytes ixs ata before_usdc after_usdc before_ct after_ct \<Rightarrow>
        (let st3 = other_tasks env 3 st;
             (n, rules) = mark_completed (call_verdict env 3) (call_clock env 3) rid amount slt (st_rules st3);
             st' = update_intent env (\<lambda>v now. mark_completed_if_executing v now iid sig) (st3\<lparr>st_rules := rules\<rparr>);
             o' = base\<lparr>co_status := CxCompleted, co_tx_signature := Some sig,
                 co_solscan_url := Some (solscan sig), co_confirmation_slot := Some slt,
                 co_serialized_tx_bytes := Some bytes, co_instruction_count := Some ixs,
                 co_ctoken_ata_create_included := Some ata,
                 co_before_usdc_raw := Some before_usdc, co_after_usdc_raw := Some after_usdc,
                 co_usdc_delta_raw := Some (signed_delta before_usdc after_usdc),
                 co_before_ctoken_amount := Some before_ct, co_after_ctoken_amount := Some after_ct,
                 co_ctoken_delta_raw := Some (signed_delta before_ct after_ct)\<rparr>
         in (if n = Inr 1 then o'
             else o'\<lparr>co_error := Some RepoUpdateFailed, co_error_reason := Some RuleRowNotUpdated\<rparr>, st'))
     | BroadcastedTimeout sig bytes ixs ata last_status \<Rightarrow>
        (base\<lparr>co_status := CxBroadcastedTimeout, co_tx_signature := Some sig,
           co_solscan_url := Some (solscan sig), co_serialized_tx_bytes := Some bytes,
           co_instruction_count := Some ixs, co_ctoken_ata_create_included := Some ata,
           co_error := Some PollExhausted, co_error_reason := Some (PollDeadline last_status)\<rparr>, st)
     | TxBuildFailed reason \<Rightarrow>
        (base\<lparr>co_status := CxExecutionFailed, co_error := Some EcTxBuildFailed,
           co_error_reason := Some (SenderReason reason)\<rparr>, release (''tx build failed: '' @ reason))
     | TxSizeExceeded bytes ixs ata \<Rightarrow>
        (base\<lparr>co_status := CxExecutionFailed, co_serialized_tx_bytes := Some bytes,
           co_instruction_count := Some ixs, co_ctoken_ata_create_included := Some ata,
           co_error := Some EcTxSizeExceeded, co_error_reason := Some (TxTooLarge bytes)\<rparr>,
         release (''tx size '' @ show_nat bytes @ '' > 1232 limit''))
     | BroadcastFailed reason \<Rightarrow>
        (base\<lparr>co_status := CxExecutionFailed, co_error := Some EcBroadcastFailed,
           co_error_reason := Some (SenderReason reason)\<rparr>, release (''broadcast failed: '' @ reason))
     | OnChainFailure sig reason bytes ixs ata \<Rightarrow>
        (base\<lparr>co_status := CxExecutionFailed, co_tx_signature := Some sig,
           co_solscan_url := Some (solscan sig), co_serialized_tx_bytes := Some bytes,
           co_instruction_count := Some ixs, co_ctoken_ata_create_included := Some ata,
           co_error := Some EcOnChainFailure, co_error_reason := Some (SenderReason reason)\<rparr>,
         update_intent env (\<lambda>v now. mark_failed v now iid (''on-chain failure: '' @ reason)) st))"

definition base_outcome ::
  "ChatExecuteRequest \<Rightarrow> string \<Rightarrow> u32 \<Rightarrow> u32 \<Rightarrow> u32 \<Rightarrow> ChatExecuteOutcome" where
  "base_outcome req canonical_actual save apr threshold = \<lparr>
     co_status = CxExecutionFailed,
     co_rule_id_hex = cr_rule_id_hex req,
     co_canonical_rule_hash_hex = canonical_actual,
     co_tx_signature = None, co_solscan_url = None, co_confirmation_slot = None,
     co_used_save_display_apy_bps = Some save, co_used_native_onchain_apr_bps = Some apr,
     co_used_threshold_bps = Some threshold,
     co_before_usdc_raw = None, co_after_usdc_raw = None, co_usdc_delta_raw = None,
     co_before_ctoken_amount = None, co_after_ctoken_amount = None, co_ctoken_delta_raw = None,
     co_serialized_tx_bytes = None, co_instruction_count = None,
     co_ctoken_ata_create_included = None, co_error = None, co_error_reason = None\<rparr>"

type_synonym exec_result = "ChatExecuteOutcome \<times> ChatExecuteSendRequest option \<times> exec_state"

text \<open>Steps 10 to 12 for a rule that passed its checks.\<close>

definition execute_rule ::
  "exec_env \<Rightarrow> ChatExecuteRequest \<Rightarrow> 128 word \<Rightarrow> WatchRule \<Rightarrow> string \<Rightarrow> u32 \<Rightarrow> exec_state \<Rightarrow> exec_result" where
  "execute_rule env req rid rule canonical_actual threshold st =
    (let amount = wr_max_input_amount_raw rule in
     case check_live env threshold amount of
       Inl err \<Rightarrow> (precheck_failure req err, None, st)
     | Inr (save, apr) \<Rightarrow>
        (case acquire_lease env req st of
           (Inl err, st') \<Rightarrow> (precheck_failure req err, None, st')
         | (Inr _, st') \<Rightarrow>
            (let sreq = \<lparr>sr_controlled_wallet = wr_delegated_wallet rule, sr_amount_raw = amount,
                   sr_target_obligation = pubkey_from_str env W5G_TARGET_OBLIGATION_BS58,
                   sr_reserve_pubkey = pubkey_from_str env DEMO_RESERVE_BS58\<rparr>;
                 (out, st'') = finish_send env req rid amount
                   (base_outcome req canonical_actual save apr threshold)
                   (build_sign_send_poll env sreq) st'
             in (out, Some sreq, st''))))"

definition chat_execute :: "exec_env \<Rightarrow> ChatExecuteRequest \<Rightarrow> exec_state \<Rightarrow> exec_result option" where
  "chat_execute env req st =
    (case check_gates (config env) req of
       Inl err \<Rightarrow> Some (precheck_failure req err, None, st)
     | Inr _ \<Rightarrow>
        (case decode_rule_id_hex (cr_rule_id_hex req) of
           Panics \<Rightarrow> None
         | Returns None \<Rightarrow>
             Some (precheck_failure req (RuleNotFound, NotRuleIdHex (cr_rule_id_hex req)), None, st)
         | Returns (Some rid) \<Rightarrow>
            (let st1 = other_tasks env 1 st in
             case lookup_rule env req rid (st_rules st1) of
               Inl err \<Rightarrow> Some (precheck_failure req err, None, st1)
             | Inr stored \<Rightarrow>
                (case check_rule env req stored of
                   Inl err \<Rightarrow> Some (precheck_failure req err, None, st1)
                 | Inr (canonical_actual, threshold) \<Rightarrow>
                     Some (execute_rule env req rid (sw_rule stored) canonical_actual threshold st1)))))"

end
