(* ===== verification/Watch_Rule_Lifecycle.thy ===== *)
theory Watch_Rule_Lifecycle
  imports Watch_Rule_Store
begin

text \<open>
  What the watch-rule table guarantees: hex columns read back, a loaded rule is the rule that was
  hashed, an inserted rule is found again, and along every run of the calls that the watcher,
  the executors and the user make, the execution lease of a rule is won at most once.
\<close>

section \<open>Hex columns\<close>

lemma hex_digit_cases:
  assumes "n < 16"
  shows "hex_nibble (byte_of_char (hex_digit n)) = Inr (word_of_nat n)"
    and "to_ascii_lowercase [hex_digit n] = [hex_digit n]"
proof -
  have "n \<in> {0, 1, 2, 3, 4, 5, 6, 7, 8, 9, 10, 11, 12, 13, 14, 15}"
    using assms by (simp, arith)
  then show "hex_nibble (byte_of_char (hex_digit n)) = Inr (word_of_nat n)"
    by (elim insertE emptyE) (simp_all add: hex_digit_def byte_of_char_def hex_nibble_def)
  show "to_ascii_lowercase [hex_digit n] = [hex_digit n]"
    using assms by (simp add: to_ascii_lowercase_def hex_digit_def Let_def)
qed

lemma nibbles_of_byte: "push_bit 4 (word_of_nat (unat b div 16)) OR word_of_nat (unat b mod 16) = (b :: u8)"
proof -
  have "unat b div 16 = drop_bit 4 (unat b)" by (simp add: drop_bit_eq_div)
  then have "unat b div 16 = unat (drop_bit 4 b)" by (simp only: unat_drop_bit_eq)
  moreover have "unat b mod 16 = take_bit 4 (unat b)" by (simp add: take_bit_eq_mod)
  then have "unat b mod 16 = unat (take_bit 4 b)" by (simp only: unsigned_take_bit_eq)
  ultimately have "push_bit 4 (word_of_nat (unat b div 16)) OR word_of_nat (unat b mod 16)
      = push_bit 4 (drop_bit 4 b) OR take_bit 4 b" by simp
  also have "\<dots> = b"
    by (rule bit_eqI) (auto simp: bit_or_iff bit_push_bit_iff bit_drop_bit_eq bit_take_bit_iff)
  finally show ?thesis .
qed

lemma hex_chunks_encode: "hex_chunks (as_bytes (hex_encode bs)) = Inr bs"
proof (induction bs)
  case (Cons b bs)
  have "unat b < 256" using unat_less_exp [of b] by simp
  then have "unat b div 16 < 16" "unat b mod 16 < 16" by simp_all
  then show ?case
    using Cons nibbles_of_byte [of b]
    by (simp add: hex_encode_def as_bytes_def hex_digit_cases(1))
qed (simp add: hex_encode_def as_bytes_def)

lemma length_hex_encode [simp]: "length (hex_encode bs) = 2 * length bs"
  by (induction bs) (simp_all add: hex_encode_def)

lemma hex_decode_encode [simp]: "hex_decode (hex_encode bs) = Inr bs"
  by (simp add: hex_decode_def hex_chunks_encode)

lemma hex_encode_inject [simp]: "hex_encode a = hex_encode b \<longleftrightarrow> a = b"
  by (metis hex_decode_encode sum.inject(2))

lemma hex_encode_lower [simp]: "to_ascii_lowercase (hex_encode bs) = hex_encode bs"
proof (induction bs)
  case (Cons b bs)
  have "unat b < 256" using unat_less_exp [of b] by simp
  then have "unat b div 16 < 16" "unat b mod 16 < 16" by simp_all
  then show ?case
    using Cons hex_digit_cases(2) [of "unat b div 16"] hex_digit_cases(2) [of "unat b mod 16"]
    by (simp add: hex_encode_def to_ascii_lowercase_def)
qed (simp add: hex_encode_def to_ascii_lowercase_def)

lemma rule_id_hex_inject [simp]: "rule_id_hex a = rule_id_hex b \<longleftrightarrow> a = b"
  by (simp add: rule_id_hex_def)

section \<open>A loaded rule is the rule that was hashed\<close>

lemma row_to_stored_Inr:
  assumes "row_to_stored codec row = Inr s"
  shows "canonical_rule_hash (sha256 codec) (sw_rule s) = sw_canonical_rule_hash s"
    and "to_ascii_lowercase (rr_rule_id row) = rule_id_hex (wr_rule_id (sw_rule s))"
    and "hex_decode (rr_canonical_rule_hash row) = Inr (array_bytes (sw_canonical_rule_hash s))"
    and "rule_from_json codec (rr_rule_json row) = Inr (sw_rule s)"
    and "rr_status row = rule_status_as_str (sw_status s)"
proof -
  have parse: "rule_status_parse t = Some st \<Longrightarrow> t = rule_status_as_str st" for t st
    by (auto simp: rule_status_parse_def split: if_splits)
  from assms have "canonical_rule_hash (sha256 codec) (sw_rule s) = sw_canonical_rule_hash s
    \<and> to_ascii_lowercase (rr_rule_id row) = rule_id_hex (wr_rule_id (sw_rule s))
    \<and> hex_decode (rr_canonical_rule_hash row) = Inr (array_bytes (sw_canonical_rule_hash s))
    \<and> rule_from_json codec (rr_rule_json row) = Inr (sw_rule s)
    \<and> rr_status row = rule_status_as_str (sw_status s)"
    unfolding row_to_stored_def Let_def
    by (elim success_elims) (auto simp: map_err_Inr array_bytes_of_array dest: parse)
  then show "canonical_rule_hash (sha256 codec) (sw_rule s) = sw_canonical_rule_hash s"
    and "to_ascii_lowercase (rr_rule_id row) = rule_id_hex (wr_rule_id (sw_rule s))"
    and "hex_decode (rr_canonical_rule_hash row) = Inr (array_bytes (sw_canonical_rule_hash s))"
    and "rule_from_json codec (rr_rule_json row) = Inr (sw_rule s)"
    and "rr_status row = rule_status_as_str (sw_status s)" by blast+
qed

lemma get_rule_row:
  assumes "get_rule codec v rid db = Inr (Some s)"
  obtains r where "r \<in> set db" "rr_rule_id r = rule_id_hex rid" "row_to_stored codec r = Inr s"
proof -
  from assms obtain r where "List.find (\<lambda>r. rr_rule_id r = rule_id_hex rid) db = Some r"
      "row_to_stored codec r = Inr s"
    by (auto simp: get_rule_def sql_select_optional_def ok_simps split: option.splits)
  then show thesis using that by (blast dest: find_SomeD)
qed

section \<open>Runs\<close>

text \<open>
  The calls of the running system: inserts, the watcher's bookkeeping and guarded transitions,
  the executors' lease and write-backs, and the user's revocation. The unguarded
  \<open>mark_condition_met\<close>, \<open>mark_executing\<close> and \<open>mark_expired\<close> have no caller outside tests.
\<close>

inductive rule_step :: "rule_codec \<Rightarrow> rule_db \<Rightarrow> rule_db \<Rightarrow> bool" for codec where
  rs_insert: "rule_step codec db (snd (insert_rule codec v now r db))"
| rs_checked: "rule_step codec db (snd (mark_checked v now rid sl ts db))"
| rs_health: "rule_step codec db (snd (update_health_tick v now rid ts db))"
| rs_error: "rule_step codec db (snd (record_last_error v now rid err db))"
| rs_condition_met: "rule_step codec db (snd (mark_condition_met_if_active v now rid db))"
| rs_fail_pending: "rule_step codec db (snd (mark_failed_if_not_terminal v now rid err db))"
| rs_expire: "rule_step codec db (snd (mark_expired_if_not_terminal v now rid db))"
| rs_lease: "rule_step codec db (snd (mark_executing_if_condition_met v now rid nonce db))"
| rs_complete: "rule_step codec db (snd (mark_completed v now rid used sl db))"
| rs_fail: "rule_step codec db (snd (rule_mark_failed v now rid err db))"
| rs_revoke: "rule_step codec db (snd (mark_revoked v now rid db))"

lemmas rule_calls = mark_checked_def update_health_tick_def record_last_error_def
  mark_condition_met_if_active_def mark_failed_if_not_terminal_def mark_expired_if_not_terminal_def
  mark_executing_if_condition_met_def mark_completed_def rule_mark_failed_def mark_revoked_def

interpretation rule_lease: cas_update rr_rule_id "rule_id_hex rid" "rule_where rid sts" "rule_executing_set now nonce"
  for rid sts now nonce by unfold_locales (simp_all add: rule_where_def rule_executing_set_def)

text \<open>Once leased, a rule is never waiting for execution again.\<close>

definition past_lease :: "RuleRow \<Rightarrow> bool" where
  "past_lease r \<longleftrightarrow> (\<exists>st \<in> {WsExecuting, WsCompleted, WsExpired, WsRevoked, WsFailed}.
     rr_status r = rule_status_as_str st)"

inductive rule_cas_pair :: "(RuleRow \<Rightarrow> bool) \<Rightarrow> (RuleRow \<Rightarrow> RuleRow) \<Rightarrow> bool" where
  "rule_cas_pair (id_where rid) (rule_checked_set now sl ts)"
| "rule_cas_pair (id_where rid) (rule_tick_set now ts)"
| "rule_cas_pair (id_where rid) (rule_error_set now err)"
| "rule_cas_pair (rule_where rid {WsActive}) (rule_status_set RS_CONDITION_MET now)"
| "rule_cas_pair (rule_where rid {WsActive, WsConditionMet}) (rule_failed_set now err)"
| "rule_cas_pair (rule_where rid {WsActive, WsConditionMet}) (rule_status_set RS_EXPIRED now)"
| "rule_cas_pair (rule_where rid {WsConditionMet}) (rule_executing_set now nonce)"
| "rule_cas_pair (id_where rid) (rule_completed_set now used sl)"
| "rule_cas_pair (id_where rid) (rule_failed_set now err)"
| "rule_cas_pair (id_where rid) (rule_revoked_set now)"

lemma rule_step_cases:
  assumes "rule_step codec db db'"
  obtains (same) "db' = db"
  | (fresh) r where "db' = db @ [r]" "rr_rule_id r \<notin> rr_rule_id ` set db"
  | (cas) w s where "rule_cas_pair w s" "db' = map (\<lambda>r. if w r then s r else r) db"
proof -
  have upd: thesis if "rule_cas_pair w s" "db' = snd (sql_update v w s db)" for v w s
    using that same cas by (auto simp: sql_update_table split: if_splits)
  from assms show thesis
  proof cases
    case (rs_insert v now r)
    then show thesis
      using same fresh by (auto simp: insert_rule_def sql_insert_table split: sum.splits if_splits)
  qed (auto intro: upd rule_cas_pair.intros simp: rule_calls)
qed

lemma rule_cas_row:
  assumes "rule_cas_pair w s"
  shows "rr_rule_id (s r) = rr_rule_id r" and "past_lease r \<Longrightarrow> w r \<Longrightarrow> past_lease (s r)"
proof -
  show "rr_rule_id (s r) = rr_rule_id r"
    using assms by (induction rule: rule_cas_pair.induct) (simp_all add: rule_sets)
  show "past_lease (s r)" if "past_lease r" "w r"
    using assms that
    by (induction rule: rule_cas_pair.induct) (auto simp: rule_sets past_lease_def rule_where_def)
qed

definition leased_le :: "rule_db \<Rightarrow> rule_db \<Rightarrow> bool" where
  "leased_le db db' \<longleftrightarrow> (keyed rr_rule_id db \<longrightarrow> keyed rr_rule_id db') \<and>
     (\<forall>r \<in> set db. past_lease r \<longrightarrow> (\<exists>r' \<in> set db'. rr_rule_id r' = rr_rule_id r \<and> past_lease r'))"

lemma leased_le_step:
  assumes "rule_step codec db db'"
  shows "leased_le db db'"
  using assms
proof (cases rule: rule_step_cases)
  case (cas w s)
  have "map rr_rule_id db' = map rr_rule_id db"
    using cas(2) rule_cas_row(1) [OF cas(1)] by simp
  then have "keyed rr_rule_id db' \<longleftrightarrow> keyed rr_rule_id db" by (simp only: keyed_def)
  moreover have "\<exists>r' \<in> set db'. rr_rule_id r' = rr_rule_id r \<and> past_lease r'"
    if "r \<in> set db" "past_lease r" for r
    using that cas(2) rule_cas_row [OF cas(1)] by (intro bexI [of _ "if w r then s r else r"]) auto
  ultimately show ?thesis by (simp add: leased_le_def)
qed (auto simp: leased_le_def keyed_def)

interpretation rule_run: step_order "rule_step codec" leased_le for codec
proof
  show "leased_le db db" for db by (auto simp: leased_le_def)
  show "leased_le a c" if "leased_le a b" "leased_le b c" for a b c
    using that unfolding leased_le_def by metis
qed (rule leased_le_step)

section \<open>Properties\<close>

text \<open>
  A rule is leased for execution at most once. From any table with unique rule ids, once a
  call has won the execution lease of a rule, then after any further calls of the running
  system no call wins it again, so no two executors dispatch the same rule.\<close>

theorem rule_lease_once:
  assumes "keyed rr_rule_id db"
    and "fst (mark_executing_if_condition_met v now rid nonce db) = Inr 1"
    and "(rule_step codec)\<^sup>*\<^sup>* (snd (mark_executing_if_condition_met v now rid nonce db)) db'"
  shows "fst (mark_executing_if_condition_met v' now' rid nonce' db') \<noteq> Inr 1"
proof -
  let ?db = "snd (mark_executing_if_condition_met v now rid nonce db)"
  have keyed: "keyed rr_rule_id ?db"
    unfolding mark_executing_if_condition_met_def rule_lease.cas_keyed by (rule assms(1))
  from assms(2) obtain r where r: "v = None" "r \<in> set db" "rule_where rid {WsConditionMet} r"
    unfolding mark_executing_if_condition_met_def rule_lease.cas_won [OF assms(1)] by blast
  let ?r = "rule_executing_set now nonce r"
  have "?r \<in> set ?db"
    using r by (auto simp: mark_executing_if_condition_met_def sql_update_table image_iff)
  moreover have "past_lease ?r" by (simp add: past_lease_def rule_executing_set_def)
  ultimately obtain r' where r': "r' \<in> set db'" "rr_rule_id r' = rr_rule_id ?r" "past_lease r'"
    and keyed': "keyed rr_rule_id db'"
    using rule_run.steps_le [OF assms(3)] keyed unfolding leased_le_def by blast
  have id': "rr_rule_id r' = rule_id_hex rid"
    using r'(2) r(3) by (simp add: rule_executing_set_def rule_where_def)
  have "\<not> (\<exists>x \<in> set db'. rule_where rid {WsConditionMet} x)"
  proof
    assume "\<exists>x \<in> set db'. rule_where rid {WsConditionMet} x"
    then obtain x where x: "x \<in> set db'" "rule_where rid {WsConditionMet} x" by blast
    then have "x = r'" using keyed_unique [OF keyed' x(1) r'(1)] id' by (simp add: rule_where_def)
    then show False using x(2) r'(3) by (auto simp: rule_where_def past_lease_def)
  qed
  then show ?thesis
    unfolding mark_executing_if_condition_met_def rule_lease.cas_won [OF keyed'] by blast
qed

text \<open>
  A loaded rule is authentic. Whatever the table contains, a lookup that returns a rule
  returns one whose id is the requested id and whose canonical bytes hash to the hash stored in
  its row; a row whose JSON and hash disagree is never returned.\<close>

theorem loaded_rule_authentic:
  assumes "get_rule codec v rid db = Inr (Some s)"
  shows "wr_rule_id (sw_rule s) = rid
    \<and> sha256 codec (canonical_rule_bytes (sw_rule s)) = sw_canonical_rule_hash s
    \<and> (\<exists>row \<in> set db. rr_rule_id row = rule_id_hex rid
          \<and> hex_decode (rr_canonical_rule_hash row) = Inr (array_bytes (sw_canonical_rule_hash s))
          \<and> rule_from_json codec (rr_rule_json row) = Inr (sw_rule s))"
proof -
  from assms obtain r where r: "r \<in> set db" "rr_rule_id r = rule_id_hex rid" "row_to_stored codec r = Inr s"
    by (rule get_rule_row)
  note stored = row_to_stored_Inr [OF r(3)]
  have "rule_id_hex rid = rule_id_hex (wr_rule_id (sw_rule s))"
    using stored(2) r(2) by (simp add: rule_id_hex_def)
  then have "wr_rule_id (sw_rule s) = rid" by simp
  then show ?thesis using stored r(1,2) by (auto simp: canonical_rule_hash_def)
qed

lemma inserted_rule:
  assumes "rule_to_json codec r = Inr j" and "rule_from_json codec j = Inr r"
    and "fst (insert_rule codec None now r db) = Inr ()"
  shows "\<exists>s. get_rule codec None (wr_rule_id r) (snd (insert_rule codec None now r db)) = Inr (Some s)
    \<and> sw_rule s = r \<and> sw_canonical_rule_hash s = canonical_rule_hash (sha256 codec) r
    \<and> sw_canonical_rule_bytes s = canonical_rule_bytes r \<and> sw_status s = WsActive
    \<and> sw_action_type s = rule_action_type (wr_action r)
    \<and> \<not> sw_completed s \<and> \<not> sw_revoked s"
proof -
  let ?row = "rule_row codec now j r"
  have "rr_rule_id ?row \<notin> rr_rule_id ` set db"
    using assms by (auto simp: insert_rule_def sql_insert_def split: if_splits)
  then have find: "List.find (\<lambda>x. rr_rule_id x = rr_rule_id ?row) (snd (insert_rule codec None now r db)) = Some ?row"
    using assms(1) by (induction db) (auto simp: insert_rule_def sql_insert_table)
  have atype: "parse_action_type (rule_action_label t) = Inr t" for t
    by (cases t) (simp_all add: parse_action_type_def)
  have logic: "parse_condition_logic (condition_logic_str l) = Inr l" for l
    by (cases l) (simp_all add: parse_condition_logic_def)
  have row: "\<exists>s. row_to_stored codec ?row = Inr s
    \<and> sw_rule s = r \<and> sw_canonical_rule_hash s = canonical_rule_hash (sha256 codec) r
    \<and> sw_canonical_rule_bytes s = canonical_rule_bytes r \<and> sw_status s = WsActive
    \<and> sw_action_type s = rule_action_type (wr_action r)
    \<and> \<not> sw_completed s \<and> \<not> sw_revoked s"
    using assms(2) atype logic
    by (simp add: row_to_stored_def rule_row_def array_of_array_bytes rule_id_hex_def)
  moreover have "rr_rule_id ?row = rule_id_hex (wr_rule_id r)" by (simp add: rule_row_def)
  ultimately show ?thesis
    using find by (auto simp: get_rule_def sql_select_optional_def)
qed

text \<open>
  An inserted rule is found again. When serde reads back the JSON it wrote, a rule inserted
  into a table loads as the same rule with its hash, active, unexecuted and unrevoked.\<close>

theorem inserted_rule_loads:
  assumes "rule_to_json codec r = Inr j" and "rule_from_json codec j = Inr r"
    and "fst (insert_rule codec None now r db) = Inr ()"
  shows "\<exists>s. get_rule codec None (wr_rule_id r) (snd (insert_rule codec None now r db)) = Inr (Some s)
    \<and> sw_rule s = r \<and> sw_canonical_rule_hash s = canonical_rule_hash (sha256 codec) r
    \<and> sw_canonical_rule_bytes s = canonical_rule_bytes r \<and> sw_status s = WsActive
    \<and> sw_action_type s = rule_action_type (wr_action r)
    \<and> \<not> sw_completed s \<and> \<not> sw_revoked s"
  using assms by (rule inserted_rule)

end
