(* ===== verification/Chat_Execute_Safety.thy ===== *)
theory Chat_Execute_Safety
  imports Chat_Execute Watch_Rule_Lifecycle
begin

text \<open>
  What the executor guarantees before and after it hands a deposit to the sender, with other
  tasks writing to both tables between its calls.
\<close>

section \<open>Reaching the sender\<close>

lemma check_gates_Inr [ok_simps]:
  "check_gates cfg req = Inr u \<longleftrightarrow> master_gate_on cfg
     \<and> env_approval_phrase cfg = Some W5G_REQUIRED_APPROVAL_PHRASE
     \<and> cr_approval_phrase req = W5G_REQUIRED_APPROVAL_PHRASE
     \<and> cluster cfg = Some W5G_CLUSTER_MAINNET \<and> keypair_path_present cfg \<and> rpc_url_present cfg"
  by (auto simp: check_gates_def bindE_Inr ok_or_Inr)

lemma check_rule_Inr [ok_simps]:
  "check_rule env req stored = Inr (canonical, threshold) \<longleftrightarrow>
     canonical = hex_encode (array_bytes (canonical_rule_hash (sha256 (codec env)) (sw_rule stored)))
     \<and> eq_ignore_ascii_case canonical (cr_canonical_rule_hash_hex req)
     \<and> sw_status stored \<in> {WsActive, WsConditionMet}
     \<and> extract_threshold_bps (sw_rule stored) = Some threshold
     \<and> PHASE5C_MIN_AMOUNT_RAW \<le> wr_max_input_amount_raw (sw_rule stored)
     \<and> wr_max_input_amount_raw (sw_rule stored) \<le> PHASE5C_MAX_AMOUNT_RAW"
  unfolding check_rule_def Let_def rule_status_is_executable_def
  by (auto simp: bindE_Inr ok_or_Inr)

lemma check_live_Inr [ok_simps]:
  "check_live env threshold amount = Inr (save, apr) \<longleftrightarrow>
     fetch_main_pool_usdc env = Inr save \<and> threshold < save
     \<and> (\<exists>budget. evaluate_apr env \<lparr>dp_threshold_bps = threshold,
            dp_threshold_pct_label = bps_to_pct_label threshold, dp_amount_raw = amount\<rparr> = Inr (apr, budget)
          \<and> amount \<le> budget)"
  by (auto simp: check_live_def bindE_Inr map_err_Inr not_le not_less split: if_splits)

text \<open>The table at the moment of the lease, and what the lease does to it.\<close>

definition lease_table :: "exec_env \<Rightarrow> exec_state \<Rightarrow> funding_db" where
  "lease_table env st = st_intents (other_tasks env 2 (other_tasks env 1 st))"

lemma acquire_lease_Inr:
  assumes "acquire_lease env req st = (Inr u, st')" and "w5h_intent_repo env"
  shows "fst (lease_execution_if_budget_reserved (call_verdict env 2) (call_clock env 2)
           (cr_rule_id_hex req) (st_intents (other_tasks env 2 st))) = Inr 1"
    and "st_intents st' = snd (lease_execution_if_budget_reserved (call_verdict env 2) (call_clock env 2)
           (cr_rule_id_hex req) (st_intents (other_tasks env 2 st)))"
  using assms by (auto simp: acquire_lease_def Let_def case_prod_beta split: sum.splits if_splits)

lemma chat_execute_sends:
  assumes "chat_execute env req st = Some (out, Some sreq, st')"
  obtains rid stored threshold save apr stL where
    "check_gates (config env) req = Inr ()"
    "decode_rule_id_hex (cr_rule_id_hex req) = Returns (Some rid)"
    "get_rule (codec env) (call_verdict env 1) rid (st_rules (other_tasks env 1 st)) = Inr (Some stored)"
    "check_rule env req stored = Inr
       (hex_encode (array_bytes (canonical_rule_hash (sha256 (codec env)) (sw_rule stored))), threshold)"
    "check_live env threshold (wr_max_input_amount_raw (sw_rule stored)) = Inr (save, apr)"
    "acquire_lease env req (other_tasks env 1 st) = (Inr (), stL)"
    "sreq = \<lparr>sr_controlled_wallet = wr_delegated_wallet (sw_rule stored),
       sr_amount_raw = wr_max_input_amount_raw (sw_rule stored),
       sr_target_obligation = pubkey_from_str env W5G_TARGET_OBLIGATION_BS58,
       sr_reserve_pubkey = pubkey_from_str env DEMO_RESERVE_BS58\<rparr>"
    "(out, st') = finish_send env req rid (wr_max_input_amount_raw (sw_rule stored))
       (base_outcome req (hex_encode (array_bytes (canonical_rule_hash (sha256 (codec env)) (sw_rule stored))))
          save apr threshold) (build_sign_send_poll env sreq) stL"
proof -
  from assms obtain rid stored canonical threshold where
    gates: "check_gates (config env) req = Inr ()"
    and rid: "decode_rule_id_hex (cr_rule_id_hex req) = Returns (Some rid)"
    and stored: "get_rule (codec env) (call_verdict env 1) rid (st_rules (other_tasks env 1 st)) = Inr (Some stored)"
    and rule: "check_rule env req stored = Inr (canonical, threshold)"
    and exec: "execute_rule env req rid (sw_rule stored) canonical threshold (other_tasks env 1 st)
       = (out, Some sreq, st')"
    by (auto simp: chat_execute_def lookup_rule_def Let_def
        split: sum.splits option.splits panicking.splits)
  have canonical: "canonical = hex_encode (array_bytes (canonical_rule_hash (sha256 (codec env)) (sw_rule stored)))"
    using rule by (simp add: check_rule_Inr)
  from exec obtain save apr stL where
    live: "check_live env threshold (wr_max_input_amount_raw (sw_rule stored)) = Inr (save, apr)"
    and lease: "acquire_lease env req (other_tasks env 1 st) = (Inr (), stL)"
    by (auto simp: execute_rule_def Let_def split: sum.splits prod.splits)
  show thesis
    using that [OF gates rid stored rule [unfolded canonical] live lease] exec live lease
    by (auto simp: execute_rule_def Let_def canonical case_prod_beta)
qed

section \<open>The funding table along an execution\<close>

definition fair_tasks :: "exec_env \<Rightarrow> bool" where
  "fair_tasks env \<longleftrightarrow> (\<forall>k s. funding_step\<^sup>*\<^sup>* (st_intents s) (st_intents (other_tasks env k s)))"

lemma fair_step:
  "fair_tasks env \<Longrightarrow> funding_step (st_intents (other_tasks env k s)) db \<Longrightarrow> funding_step\<^sup>*\<^sup>* (st_intents s) db"
  unfolding fair_tasks_def by (blast intro: rtranclp.rtrancl_into_rtrancl)

lemma acquire_lease_run:
  "fair_tasks env \<Longrightarrow> funding_step\<^sup>*\<^sup>* (st_intents st) (st_intents (snd (acquire_lease env req st)))"
  by (auto simp: acquire_lease_def Let_def case_prod_beta split: sum.split
      intro: fair_step do_lease_execution)

lemma update_intent_run:
  assumes "fair_tasks env" and "\<And>v now db. funding_step db (snd (call v now db))"
  shows "funding_step\<^sup>*\<^sup>* (st_intents st) (st_intents (update_intent env call st))"
  using assms by (auto simp: update_intent_def Let_def intro: fair_step)

lemma finish_send_run:
  assumes "fair_tasks env"
  shows "funding_step\<^sup>*\<^sup>* (st_intents st) (st_intents (snd (finish_send env req rid amount base out st)))"
proof (cases out)
  case (Finalized sig slt bytes ixs ata bu au bc ac)
  let ?st3 = "other_tasks env 3 st"
  let ?rules = "snd (mark_completed (call_verdict env 3) (call_clock env 3) rid amount slt (st_rules ?st3))"
  have "funding_step\<^sup>*\<^sup>* (st_intents st) (st_intents (?st3\<lparr>st_rules := ?rules\<rparr>))"
    using assms by (simp add: fair_tasks_def)
  also have "funding_step\<^sup>*\<^sup>* (st_intents (?st3\<lparr>st_rules := ?rules\<rparr>))
     (st_intents (snd (finish_send env req rid amount base out st)))"
  proof -
    have "funding_step\<^sup>*\<^sup>* (st_intents (?st3\<lparr>st_rules := ?rules\<rparr>)) (st_intents (update_intent env
        (\<lambda>v now. mark_completed_if_executing v now (cr_rule_id_hex req) sig) (?st3\<lparr>st_rules := ?rules\<rparr>)))"
      by (rule update_intent_run [OF assms do_complete])
    then show ?thesis by (simp add: finish_send_def Let_def Finalized case_prod_beta)
  qed
  finally show ?thesis .
qed (simp_all add: finish_send_def Let_def update_intent_run [OF assms] do_release do_fail)

lemma execute_rule_run:
  assumes "fair_tasks env"
  shows "funding_step\<^sup>*\<^sup>* (st_intents s)
           (st_intents (snd (snd (execute_rule env req rid rule canonical threshold s))))"
proof (cases "check_live env threshold (wr_max_input_amount_raw rule)")
  case (Inr live)
  obtain r s' where lease: "acquire_lease env req s = (r, s')" by (cases "acquire_lease env req s")
  have run: "funding_step\<^sup>*\<^sup>* (st_intents s) (st_intents s')"
    using acquire_lease_run [OF assms, of s req] lease by simp
  show ?thesis
    using run rtranclp_trans [OF run finish_send_run [OF assms]]
    by (cases r) (simp_all add: execute_rule_def Let_def Inr lease case_prod_beta)
qed (simp add: execute_rule_def)

lemma chat_execute_cases:
  assumes "chat_execute env req st = Some (out, sent, st')"
  obtains err where "st' = st" "sent = None" "out = precheck_failure req err"
  | err where "st' = other_tasks env 1 st" "sent = None" "out = precheck_failure req err"
  | rid rule canonical threshold where
      "execute_rule env req rid rule canonical threshold (other_tasks env 1 st) = (out, sent, st')"
proof -
  have "(\<exists>err. st' = st \<and> sent = None \<and> out = precheck_failure req err)
    \<or> (\<exists>err. st' = other_tasks env 1 st \<and> sent = None \<and> out = precheck_failure req err)
    \<or> (\<exists>rid rule canonical threshold.
      execute_rule env req rid rule canonical threshold (other_tasks env 1 st) = (out, sent, st'))"
    using assms unfolding chat_execute_def Let_def
    by (simp del: split_paired_Ex split: sum.split_asm option.split_asm panicking.split_asm prod.split_asm)
      blast+
  then show thesis using that by blast
qed

lemma chat_execute_run:
  assumes "fair_tasks env" and "chat_execute env req st = Some (out, sent, st')"
  shows "funding_step\<^sup>*\<^sup>* (st_intents st) (st_intents st')"
proof -
  have first: "funding_step\<^sup>*\<^sup>* (st_intents st) (st_intents (other_tasks env 1 st))"
    using assms(1) by (simp add: fair_tasks_def)
  have rule: "funding_step\<^sup>*\<^sup>* (st_intents st) (st_intents st')"
    if "execute_rule env req rid rule canonical threshold (other_tasks env 1 st) = (out, sent, st')"
    for rid rule canonical threshold
    using rtranclp_trans [OF first execute_rule_run [OF assms(1)]] that by (metis snd_conv)
  from assms(2) show ?thesis
    by (cases rule: chat_execute_cases) (use first rule in auto)
qed

lemma lease_row:
  assumes "fst (lease_execution_if_budget_reserved v now iid db) = Inr 1"
  obtains r where "r \<in> set db" "lease_execution_where iid now r"
proof -
  have "filter (lease_execution_where iid now) db \<noteq> []"
    using assms by (auto simp: lease_execution_if_budget_reserved_def sql_update_Inr)
  then show thesis using that by (auto simp: filter_empty_conv)
qed

section \<open>Properties\<close>

text \<open>
  C10: a deposit is handed to the sender only when every gate holds. Whenever the executor calls
  the sender, all gates of the environment hold (the master gate is on, the cluster is mainnet, the
  owner's approval phrase is the required one, the path of the delegated keypair and an RPC URL are
  configured) and so does the request's own phrase; the stored rule has the requested id, hashes to
  the requested hash and is active or met; the Save APY just fetched exceeds the rule's threshold and
  the wallet holds the amount; the amount is the rule's cap, inside the band, the wallet the rule's
  delegated wallet, obligation and reserve the pinned ones; and with the funding store wired, the
  execution lease of the intent was won, on a row that was \<open>budget_reserved\<close> and unexpired.\<close>

theorem deposit_gated:
  assumes "chat_execute env req st = Some (out, Some sreq, st')"
  shows "master_gate_on (config env) \<and> cluster (config env) = Some W5G_CLUSTER_MAINNET
    \<and> env_approval_phrase (config env) = Some W5G_REQUIRED_APPROVAL_PHRASE
    \<and> cr_approval_phrase req = W5G_REQUIRED_APPROVAL_PHRASE
    \<and> keypair_path_present (config env) \<and> rpc_url_present (config env)
    \<and> sr_target_obligation sreq = pubkey_from_str env W5G_TARGET_OBLIGATION_BS58
    \<and> sr_reserve_pubkey sreq = pubkey_from_str env DEMO_RESERVE_BS58
    \<and> (\<exists>rid stored threshold save apr budget.
        decode_rule_id_hex (cr_rule_id_hex req) = Returns (Some rid)
      \<and> get_rule (codec env) (call_verdict env 1) rid (st_rules (other_tasks env 1 st)) = Inr (Some stored)
      \<and> eq_ignore_ascii_case
          (hex_encode (array_bytes (canonical_rule_hash (sha256 (codec env)) (sw_rule stored))))
          (cr_canonical_rule_hash_hex req)
      \<and> sw_status stored \<in> {WsActive, WsConditionMet}
      \<and> extract_threshold_bps (sw_rule stored) = Some threshold
      \<and> fetch_main_pool_usdc env = Inr save \<and> threshold < save
      \<and> evaluate_apr env \<lparr>dp_threshold_bps = threshold,
          dp_threshold_pct_label = bps_to_pct_label threshold,
          dp_amount_raw = sr_amount_raw sreq\<rparr> = Inr (apr, budget) \<and> sr_amount_raw sreq \<le> budget
      \<and> sr_amount_raw sreq = wr_max_input_amount_raw (sw_rule stored)
      \<and> 100000 \<le> sr_amount_raw sreq \<and> sr_amount_raw sreq \<le> 1000000
      \<and> sr_controlled_wallet sreq = wr_delegated_wallet (sw_rule stored))
    \<and> (w5h_intent_repo env \<longrightarrow>
        fst (lease_execution_if_budget_reserved (call_verdict env 2) (call_clock env 2)
          (cr_rule_id_hex req) (lease_table env st)) = Inr 1
        \<and> (\<exists>r \<in> set (lease_table env st). row_intent_id r = cr_rule_id_hex req
           \<and> status_parse (row_status r) = Some BudgetReserved
           \<and> sint (call_clock env 2) < sint (row_expires_at_ms r)))"
  using assms
proof (rule chat_execute_sends)
  fix rid stored threshold save apr stL
  assume facts: "check_gates (config env) req = Inr ()"
    "decode_rule_id_hex (cr_rule_id_hex req) = Returns (Some rid)"
    "get_rule (codec env) (call_verdict env 1) rid (st_rules (other_tasks env 1 st)) = Inr (Some stored)"
    "check_rule env req stored = Inr
       (hex_encode (array_bytes (canonical_rule_hash (sha256 (codec env)) (sw_rule stored))), threshold)"
    "check_live env threshold (wr_max_input_amount_raw (sw_rule stored)) = Inr (save, apr)"
    "sreq = \<lparr>sr_controlled_wallet = wr_delegated_wallet (sw_rule stored),
       sr_amount_raw = wr_max_input_amount_raw (sw_rule stored),
       sr_target_obligation = pubkey_from_str env W5G_TARGET_OBLIGATION_BS58,
       sr_reserve_pubkey = pubkey_from_str env DEMO_RESERVE_BS58\<rparr>"
    and lease: "acquire_lease env req (other_tasks env 1 st) = (Inr (), stL)"
  have won: "\<exists>r \<in> set (lease_table env st). row_intent_id r = cr_rule_id_hex req
           \<and> status_parse (row_status r) = Some BudgetReserved
           \<and> sint (call_clock env 2) < sint (row_expires_at_ms r)" if "w5h_intent_repo env"
    using acquire_lease_Inr(1) [OF lease that]
    by (rule lease_row) (auto simp: lease_table_def lease_execution_where_def)
  have leased: "fst (lease_execution_if_budget_reserved (call_verdict env 2) (call_clock env 2)
      (cr_rule_id_hex req) (lease_table env st)) = Inr 1" if "w5h_intent_repo env"
    unfolding lease_table_def by (rule acquire_lease_Inr(1) [OF lease that])
  show ?thesis
    using facts won leased unfolding check_gates_Inr check_rule_Inr check_live_Inr
    by (auto simp: PHASE5C_MIN_AMOUNT_RAW_def PHASE5C_MAX_AMOUNT_RAW_def)
qed

text \<open>
  No deposit after a refund lease. Once the refund lease of an intent has been won in a
  reachable table, then after any further calls and with any other tasks interleaved, the
  executor with the funding store wired never hands a deposit of that intent to the sender.\<close>

theorem no_deposit_after_refund_lease:
  assumes "reach (\<lambda>db. db = []) funding_step db"
    and "fst (lease_refund_if_expired_or_past v now iid db) = Inr 1"
    and "funding_step\<^sup>*\<^sup>* (snd (lease_refund_if_expired_or_past v now iid db)) (st_intents st)"
    and "fair_tasks env" and "w5h_intent_repo env" and "cr_rule_id_hex req = iid"
  shows "chat_execute env req st \<noteq> Some (out, Some sreq, st')"
proof
  assume "chat_execute env req st = Some (out, Some sreq, st')"
  then show False
  proof (rule chat_execute_sends)
    fix stL
    assume lease: "acquire_lease env req (other_tasks env 1 st) = (Inr (), stL)"
    have won: "fst (lease_execution_if_budget_reserved (call_verdict env 2) (call_clock env 2) iid
        (lease_table env st)) = Inr 1"
      unfolding lease_table_def assms(6) [symmetric] by (rule acquire_lease_Inr(1) [OF lease assms(5)])
    have "funding_step\<^sup>*\<^sup>* (st_intents st) (lease_table env st)"
      using assms(4) unfolding lease_table_def fair_tasks_def by (meson rtranclp_trans)
    then have "funding_step\<^sup>*\<^sup>* (snd (lease_refund_if_expired_or_past v now iid db)) (lease_table env st)"
      using assms(3) by simp
    then show False
      using refund_lease_ends_execution [OF assms(1,2)] won by blast
  qed
qed

section \<open>Retrying\<close>

lemma lease_after_release:
  assumes "keyed row_intent_id db" and "fst (lease_execution_if_budget_reserved None now iid db) = Inr 1"
  shows "fst (lease_execution_if_budget_reserved None now iid
    (snd (release_execution_lease_to_budget_reserved None t iid reason
      (snd (lease_execution_if_budget_reserved None now iid db))))) = Inr 1"
proof -
  let ?leased = "snd (lease_execution_if_budget_reserved None now iid db)"
  let ?released = "snd (release_execution_lease_to_budget_reserved None t iid reason ?leased)"
  have leased: "keyed row_intent_id ?leased"
    using assms(1) by (simp add: lease_execution_if_budget_reserved_def exec_lease.cas_keyed)
  then have released: "keyed row_intent_id ?released"
    by (simp add: release_execution_lease_to_budget_reserved_def exec_release.cas_keyed)
  obtain r where r: "r \<in> set db" "lease_execution_where iid now r"
    using lease_row [OF assms(2)] .
  then have "status_set EXECUTING now r \<in> set ?leased"
    by (auto simp: lease_execution_if_budget_reserved_def sql_update_table image_iff)
  moreover have "executing_where iid (status_set EXECUTING now r)"
    using r(2) by (simp add: where_defs set_defs)
  ultimately have "status_error_set BUDGET_RESERVED t reason (status_set EXECUTING now r) \<in> set ?released"
    by (auto simp: release_execution_lease_to_budget_reserved_def sql_update_table image_iff
        intro!: bexI [of _ "status_set EXECUTING now r"])
  moreover have "lease_execution_where iid now
      (status_error_set BUDGET_RESERVED t reason (status_set EXECUTING now r))"
    using r(2) by (simp add: where_defs set_defs)
  ultimately show ?thesis
    unfolding lease_execution_if_budget_reserved_def [of None now iid]
      exec_lease.cas_won [OF released [unfolded lease_execution_if_budget_reserved_def [of None now iid]]]
    by blast
qed

text \<open>
  A failed broadcast is retried as the same deposit. When the sender reports
  \<open>BroadcastFailed\<close> -- which the live sender also does when the RPC answer to
  \<open>sendTransaction\<close> was lost -- the lease is released, and with nothing else writing in between
  the same request at the same readings hands the same deposit to the sender again.\<close>

theorem resend_after_broadcast_failure:
  assumes "chat_execute env req st = Some (out, Some sreq, st')"
    and "build_sign_send_poll env sreq = BroadcastFailed reason"
    and "other_tasks env = (\<lambda>_ s. s)" and "call_verdict env = (\<lambda>_. None)"
    and "keyed row_intent_id (st_intents st)"
  shows "co_error out = Some EcBroadcastFailed
    \<and> (\<exists>out2 st2. chat_execute env req st' = Some (out2, Some sreq, st2))"
  using assms(1)
proof (rule chat_execute_sends)
  fix rid stored threshold save apr stL
  assume facts: "check_gates (config env) req = Inr ()"
    "decode_rule_id_hex (cr_rule_id_hex req) = Returns (Some rid)"
    and get: "get_rule (codec env) (call_verdict env 1) rid (st_rules (other_tasks env 1 st)) = Inr (Some stored)"
    and rule: "check_rule env req stored = Inr
       (hex_encode (array_bytes (canonical_rule_hash (sha256 (codec env)) (sw_rule stored))), threshold)"
    and live: "check_live env threshold (wr_max_input_amount_raw (sw_rule stored)) = Inr (save, apr)"
    and lease: "acquire_lease env req (other_tasks env 1 st) = (Inr (), stL)"
    and sreq: "sreq = \<lparr>sr_controlled_wallet = wr_delegated_wallet (sw_rule stored),
       sr_amount_raw = wr_max_input_amount_raw (sw_rule stored),
       sr_target_obligation = pubkey_from_str env W5G_TARGET_OBLIGATION_BS58,
       sr_reserve_pubkey = pubkey_from_str env DEMO_RESERVE_BS58\<rparr>"
    and fin: "(out, st') = finish_send env req rid (wr_max_input_amount_raw (sw_rule stored))
       (base_outcome req (hex_encode (array_bytes (canonical_rule_hash (sha256 (codec env)) (sw_rule stored))))
          save apr threshold) (build_sign_send_poll env sreq) stL"
  have rules: "st_rules st' = st_rules st"
    using lease fin
    by (auto simp: acquire_lease_def finish_send_def update_intent_def Let_def assms(2,3)
        case_prod_beta split: sum.splits if_splits)
  have "\<exists>stM. acquire_lease env req st' = (Inr (), stM)"
  proof (cases "w5h_intent_repo env")
    case wired: True
    let ?iid = "cr_rule_id_hex req" and ?now = "call_clock env 2"
    have won: "fst (lease_execution_if_budget_reserved None ?now ?iid (st_intents st)) = Inr 1"
      and stL: "st_intents stL = snd (lease_execution_if_budget_reserved None ?now ?iid (st_intents st))"
      using acquire_lease_Inr [OF lease wired] unfolding assms(3,4) by this+
    have "st_intents st' = snd (release_execution_lease_to_budget_reserved None (call_clock env 4) ?iid
        (''broadcast failed: '' @ reason) (st_intents stL))"
      using fin by (simp add: finish_send_def update_intent_def Let_def assms(2,3,4) wired)
    then have "fst (lease_execution_if_budget_reserved None ?now ?iid (st_intents st')) = Inr 1"
      using lease_after_release [OF assms(5) won] stL by simp
    then show ?thesis
      by (auto simp: acquire_lease_def wired Let_def assms(3,4) case_prod_beta)
  qed (simp add: acquire_lease_def)
  then obtain stM where again: "acquire_lease env req st' = (Inr (), stM)" ..
  have "co_error out = Some EcBroadcastFailed"
    using fin by (simp add: finish_send_def Let_def assms(2))
  moreover have "\<exists>out2 st2. chat_execute env req st' = Some (out2, Some sreq, st2)"
    using get rule live again
    by (simp add: chat_execute_def facts lookup_rule_def Let_def assms(3) rules execute_rule_def
        case_prod_beta sreq)
  ultimately show ?thesis ..
qed

section \<open>Panics\<close>

lemma decode_pairs_panics:
  "decode_pairs s i k = Panics \<longleftrightarrow>
    (\<exists>m < k. (\<not> is_char_boundary s (2 * (i + m)) \<or> \<not> is_char_boundary s (2 * (i + m) + 2))
      \<and> (\<forall>j < m. radix16_pair (s ! (2 * (i + j))) (s ! (2 * (i + j) + 1)) \<noteq> None))"
proof (induction s i k rule: decode_pairs.induct)
  case (2 s i k)
  let ?bad = "\<not> is_char_boundary s (2 * i) \<or> \<not> is_char_boundary s (2 * i + 2)"
  let ?pair = "radix16_pair (s ! (2 * i)) (s ! (2 * i + 1))"
  have "decode_pairs s i (Suc k) = Panics \<longleftrightarrow> ?bad \<or> ?pair \<noteq> None \<and> decode_pairs s (Suc i) k = Panics"
    by (auto split: option.split panicking.split)
  also have "\<dots> \<longleftrightarrow> ?bad \<or> ?pair \<noteq> None
      \<and> (\<exists>m < k. (\<not> is_char_boundary s (2 * (Suc i + m)) \<or> \<not> is_char_boundary s (2 * (Suc i + m) + 2))
        \<and> (\<forall>j < m. radix16_pair (s ! (2 * (Suc i + j))) (s ! (2 * (Suc i + j) + 1)) \<noteq> None))"
    using "2.IH" by blast
  finally show ?case
    unfolding Ex_less_Suc2 All_less_Suc2 by (simp only: add_Suc_right add_Suc add_0_right) blast
qed simp

text \<open>
  When the executor panics. The doc comments promise that it never does; it does exactly when
  the gates are open and the trimmed rule id has 32 bytes and, after pairs of hexadecimal digits,
  a character that is split by an even byte offset.\<close>

theorem chat_execute_panics:
  "chat_execute env req st = None \<longleftrightarrow>
    check_gates (config env) req = Inr ()
    \<and> length (str_trim (cr_rule_id_hex req)) = 32
    \<and> (\<exists>m < 16. (\<not> is_char_boundary (str_trim (cr_rule_id_hex req)) (2 * m)
             \<or> \<not> is_char_boundary (str_trim (cr_rule_id_hex req)) (2 * m + 2))
        \<and> (\<forall>j < m. radix16_pair (str_trim (cr_rule_id_hex req) ! (2 * j))
                      (str_trim (cr_rule_id_hex req) ! (2 * j + 1)) \<noteq> None))"
proof -
  let ?s = "str_trim (cr_rule_id_hex req)"
  have "chat_execute env req st = None \<longleftrightarrow>
      check_gates (config env) req = Inr () \<and> decode_rule_id_hex (cr_rule_id_hex req) = Panics"
    by (auto simp: chat_execute_def Let_def split: sum.split panicking.split option.split)
      (metis prod_cases3)
  also have "decode_rule_id_hex (cr_rule_id_hex req) = Panics \<longleftrightarrow> length ?s = 32 \<and> decode_pairs ?s 0 16 = Panics"
    by (simp add: decode_rule_id_hex_def Let_def split: panicking.split)
  finally show ?thesis by (simp only: decode_pairs_panics add_0)
qed

end
