(* ===== verification/Deposit_Once.thy ===== *)
theory Deposit_Once
  imports Chat_Execute_Safety
begin

text \<open>
  A funded intent is deposited once: after a deposit that may be on the chain, the executor never
  hands another one of the same intent to the sender, as long as nobody gives back the lease that
  the execution holds. The release is only called by the execution that owns the lease, which is
  what \<open>kept_step\<close> asks of every other task.
\<close>

section \<open>Intents whose budget is spent\<close>

definition spent :: "string \<Rightarrow> funding_db \<Rightarrow> bool" where
  "spent iid db \<longleftrightarrow> (\<exists>r \<in> set db. row_intent_id r = iid
     \<and> row_status r \<notin> {FUNDING_REQUIRED, FUNDING_SUBMITTED, BUDGET_RESERVED})"

definition gives_back :: "string \<Rightarrow> funding_db \<Rightarrow> funding_db \<Rightarrow> bool" where
  "gives_back iid db db' \<longleftrightarrow> (\<exists>r \<in> set db. \<exists>r' \<in> set db'. row_intent_id r = iid \<and> row_intent_id r' = iid
     \<and> row_status r = EXECUTING \<and> row_status r' = BUDGET_RESERVED)"

definition kept_step :: "string \<Rightarrow> funding_db \<Rightarrow> funding_db \<Rightarrow> bool" where
  "kept_step iid db db' \<longleftrightarrow> funding_step db db' \<and> \<not> gives_back iid db db'"

definition keeping_tasks :: "string \<Rightarrow> exec_env \<Rightarrow> bool" where
  "keeping_tasks iid env \<longleftrightarrow>
     (\<forall>k s. (kept_step iid)\<^sup>*\<^sup>* (st_intents s) (st_intents (other_tasks env k s)))"

lemma kept_run_funding: "(kept_step iid)\<^sup>*\<^sup>* db db' \<Longrightarrow> funding_step\<^sup>*\<^sup>* db db'"
  by (erule rtranclp_mono [THEN predicate2D, rotated]) (auto simp: kept_step_def)

lemma keeping_fair: "keeping_tasks iid env \<Longrightarrow> fair_tasks env"
  unfolding keeping_tasks_def fair_tasks_def by (blast intro: kept_run_funding)

lemma spent_cas:
  assumes "funding_cas w s" and "r \<in> set db" and "row_intent_id r = iid"
    and "row_status r \<notin> {FUNDING_REQUIRED, FUNDING_SUBMITTED, BUDGET_RESERVED}"
    and "w r" and "row_status r = EXECUTING \<Longrightarrow> row_status (s r) \<noteq> BUDGET_RESERVED"
  shows "row_status (s r) \<notin> {FUNDING_REQUIRED, FUNDING_SUBMITTED, BUDGET_RESERVED}"
  using assms
  by (induction rule: funding_cas.induct) (auto simp: where_defs set_defs)

lemma spent_kept_step:
  assumes "kept_step iid db db'" and "spent iid db"
  shows "spent iid db'"
proof -
  from assms(2) obtain r where r: "r \<in> set db" "row_intent_id r = iid"
    "row_status r \<notin> {FUNDING_REQUIRED, FUNDING_SUBMITTED, BUDGET_RESERVED}"
    by (auto simp: spent_def)
  have step: "funding_step db db'" and kept: "\<not> gives_back iid db db'"
    using assms(1) by (simp_all add: kept_step_def)
  from step show ?thesis
  proof (cases rule: funding_step_cases)
    case (cas w s)
    have in': "(if w r then s r else r) \<in> set db'" using cas(2) r(1) by simp
    have key: "row_intent_id (s r) = iid" using funding_cas_key [OF cas(1)] r(2) by simp
    show ?thesis
    proof (cases "w r")
      case True
      then have sr: "s r \<in> set db'" using in' by simp
      have "row_status (s r) \<notin> {FUNDING_REQUIRED, FUNDING_SUBMITTED, BUDGET_RESERVED}"
        using kept sr key r(1,2) by (intro spent_cas [OF cas(1) r True]) (auto simp: gives_back_def)
      then show ?thesis using sr key by (auto simp: spent_def)
    qed (use in' r in \<open>auto simp: spent_def\<close>)
  qed (use r in \<open>auto simp: spent_def\<close>)
qed

lemma spent_run: "(kept_step iid)\<^sup>*\<^sup>* db db' \<Longrightarrow> spent iid db \<Longrightarrow> spent iid db'"
  by (induction rule: rtranclp_induct) (auto intro: spent_kept_step)

lemma spent_tasks: "keeping_tasks iid env \<Longrightarrow> spent iid (st_intents s) \<Longrightarrow> spent iid (st_intents (other_tasks env k s))"
  unfolding keeping_tasks_def by (blast intro: spent_run)

lemma spent_update:
  assumes "funding_cas w s" and "\<And>r. w r \<Longrightarrow> row_intent_id r = iid \<Longrightarrow> row_status (s r) \<noteq> BUDGET_RESERVED"
    and "spent iid db"
  shows "spent iid (snd (sql_update v w s db))"
proof -
  from assms(3) obtain r where r: "r \<in> set db" "row_intent_id r = iid"
    "row_status r \<notin> {FUNDING_REQUIRED, FUNDING_SUBMITTED, BUDGET_RESERVED}"
    by (auto simp: spent_def)
  show ?thesis
  proof (cases "v = None \<and> w r")
    case True
    have "row_status (s r) \<notin> {FUNDING_REQUIRED, FUNDING_SUBMITTED, BUDGET_RESERVED}"
      using True assms(2) r(2) by (intro spent_cas [OF assms(1) r]) auto
    moreover have "s r \<in> set (snd (sql_update v w s db))"
      using True r(1) by (auto simp: sql_update_table image_iff)
    ultimately show ?thesis
      using funding_cas_key [OF assms(1), of r] r(2) by (auto simp: spent_def)
  next
    case False
    then have "r \<in> set (snd (sql_update v w s db))"
      using r(1) by (auto simp: sql_update_table image_iff)
    then show ?thesis using r by (auto simp: spent_def)
  qed
qed

lemma spent_lease: "spent iid db \<Longrightarrow> spent iid (snd (lease_execution_if_budget_reserved v now iid' db))"
  unfolding lease_execution_if_budget_reserved_def
  by (rule spent_update [OF funding_cas.intros(4)]) (simp add: set_defs)

lemma spent_complete: "spent iid db \<Longrightarrow> spent iid (snd (mark_completed_if_executing v now iid' sig db))"
  unfolding mark_completed_if_executing_def
  by (rule spent_update [OF funding_cas.intros(5)]) (simp add: set_defs)

lemma spent_fail: "spent iid db \<Longrightarrow> spent iid (snd (mark_failed v now iid' reason db))"
  unfolding mark_failed_def by (rule spent_update [OF funding_cas.intros(10)]) (simp add: set_defs)

lemma spent_release:
  "spent iid db \<Longrightarrow> iid' \<noteq> iid \<Longrightarrow> spent iid (snd (release_execution_lease_to_budget_reserved v now iid' reason db))"
  unfolding release_execution_lease_to_budget_reserved_def
  by (rule spent_update [OF funding_cas.intros(6)]) (simp add: where_defs)

lemma lease_spends:
  assumes "fst (lease_execution_if_budget_reserved v now iid db) = Inr 1"
  shows "spent iid (snd (lease_execution_if_budget_reserved v now iid db))"
proof -
  obtain r where r: "r \<in> set db" "lease_execution_where iid now r" using lease_row [OF assms] .
  have "v = None" using assms by (simp add: lease_execution_if_budget_reserved_def sql_update_Inr)
  then have "status_set EXECUTING now r \<in> set (snd (lease_execution_if_budget_reserved v now iid db))"
    using r by (auto simp: lease_execution_if_budget_reserved_def sql_update_table image_iff)
  moreover have "row_intent_id (status_set EXECUTING now r) = iid"
    "row_status (status_set EXECUTING now r) \<notin> {FUNDING_REQUIRED, FUNDING_SUBMITTED, BUDGET_RESERVED}"
    using r(2) by (simp_all add: where_defs set_defs)
  ultimately show ?thesis unfolding spent_def by blast
qed

lemma spent_no_lease:
  assumes "keyed row_intent_id db" and "spent iid db"
  shows "fst (lease_execution_if_budget_reserved v now iid db) \<noteq> Inr 1"
proof
  assume "fst (lease_execution_if_budget_reserved v now iid db) = Inr 1"
  then obtain r where "r \<in> set db" "lease_execution_where iid now r" by (rule lease_row)
  moreover obtain r' where "r' \<in> set db" "row_intent_id r' = iid" "row_status r' \<noteq> BUDGET_RESERVED"
    using assms(2) by (auto simp: spent_def)
  ultimately show False using keyed_unique [OF assms(1)] by (metis lease_execution_where_def)
qed

section \<open>Executions\<close>

lemma spent_finish:
  assumes "keeping_tasks iid env" and "spent iid (st_intents st)"
    and "cr_rule_id_hex req \<noteq> iid \<or> co_tx_signature (fst (finish_send env req rid amount base out st)) \<noteq> None"
    and "co_tx_signature base = None"
  shows "spent iid (st_intents (snd (finish_send env req rid amount base out st)))"
proof -
  have task: "spent iid (st_intents (other_tasks env k s))" if "spent iid (st_intents s)" for k s
    using spent_tasks [OF assms(1) that] .
  show ?thesis
    using assms(2-4)
    by (cases out)
      (auto simp: finish_send_def update_intent_def Let_def case_prod_beta
        intro!: task spent_complete spent_fail spent_release)
qed

text \<open>One execution on a table where the intent is spent.\<close>

lemma store_ok_run: "funding_step\<^sup>*\<^sup>* db db' \<Longrightarrow> store_ok db \<Longrightarrow> store_ok db'"
  by (induction rule: rtranclp_induct) (auto intro: store_ok_step)

lemma acquire_lease_table:
  assumes "w5h_intent_repo env"
  shows "st_intents (snd (acquire_lease env req st)) = snd (lease_execution_if_budget_reserved
    (call_verdict env 2) (call_clock env 2) (cr_rule_id_hex req) (st_intents (other_tasks env 2 st)))"
  using assms by (auto simp: acquire_lease_def Let_def case_prod_beta split: sum.split)

lemma base_outcome_sig [simp]: "co_tx_signature (base_outcome req c s a t) = None"
  by (simp add: base_outcome_def)

lemma spent_execute_rule:
  assumes keeping: "keeping_tasks iid env" and ok: "store_ok (st_intents st)" and sp: "spent iid (st_intents st)"
    and wired: "w5h_intent_repo env"
    and exec: "execute_rule env req rid rule canonical threshold st = (out, sent, st')"
  shows "spent iid (st_intents st') \<and> (cr_rule_id_hex req = iid \<longrightarrow> sent = None)"
proof (cases "check_live env threshold (wr_max_input_amount_raw rule)")
  case (Inr live)
  obtain save apr where l: "live = (save, apr)" by (cases live)
  obtain r stL where lease: "acquire_lease env req st = (r, stL)" by (cases "acquire_lease env req st")
  have sp2: "spent iid (st_intents (other_tasks env 2 st))" by (rule spent_tasks [OF keeping sp])
  then have spL: "spent iid (st_intents stL)"
    using acquire_lease_table [OF wired, of req st] lease by (simp add: spent_lease)
  have "store_ok (st_intents (other_tasks env 2 st))"
    using keeping_fair [OF keeping] ok by (auto simp: fair_tasks_def intro: store_ok_run)
  then have lost: "r \<noteq> Inr ()" if "cr_rule_id_hex req = iid"
    using acquire_lease_Inr(1) [of env req st "()" stL] lease wired that spent_no_lease sp2
    by (auto simp: store_ok_def)
  show ?thesis
  proof (cases r)
    case (Inl e)
    then show ?thesis using exec spL by (simp add: execute_rule_def Let_def Inr l lease)
  next
    case r: (Inr u)
    then have other: "cr_rule_id_hex req \<noteq> iid" using lost by auto
    then show ?thesis
      using exec spent_finish [OF keeping spL disjI1 [OF other] base_outcome_sig]
      by (auto simp: execute_rule_def Let_def Inr l lease r case_prod_beta)
  qed
qed (use exec sp in \<open>simp add: execute_rule_def\<close>)

lemma spent_execution:
  assumes keeping: "keeping_tasks iid env" and ok: "store_ok (st_intents st)" and sp: "spent iid (st_intents st)"
    and wired: "w5h_intent_repo env"
    and exec: "chat_execute env req st = Some (out, sent, st')"
  shows "spent iid (st_intents st') \<and> (cr_rule_id_hex req = iid \<longrightarrow> sent = None)"
proof -
  have sp1: "spent iid (st_intents (other_tasks env 1 st))" by (rule spent_tasks [OF keeping sp])
  have ok1: "store_ok (st_intents (other_tasks env 1 st))"
    using keeping_fair [OF keeping] ok by (auto simp: fair_tasks_def intro: store_ok_run)
  from exec show ?thesis
    by (cases rule: chat_execute_cases)
      (use sp sp1 spent_execute_rule [OF keeping ok1 sp1 wired] in auto)
qed

text \<open>An execution that reports a transaction signature has spent its intent.\<close>

lemma execution_spends:
  assumes "keeping_tasks (cr_rule_id_hex req) env" and "w5h_intent_repo env"
    and "chat_execute env req st = Some (out, sent, st')" and "co_tx_signature out \<noteq> None"
  shows "spent (cr_rule_id_hex req) (st_intents st')"
proof -
  from assms(3,4) obtain sreq where "sent = Some sreq"
    by (cases rule: chat_execute_cases)
      (auto simp: precheck_failure_def execute_rule_def Let_def split: sum.splits prod.splits)
  from assms(3) [unfolded this] show ?thesis
  proof (rule chat_execute_sends)
    fix rid and stored :: StoredWatchRule and threshold save apr stL
    assume lease: "acquire_lease env req (other_tasks env 1 st) = (Inr (), stL)"
      and fin: "(out, st') = finish_send env req rid (wr_max_input_amount_raw (sw_rule stored))
         (base_outcome req (hex_encode (array_bytes (canonical_rule_hash (sha256 (codec env)) (sw_rule stored))))
            save apr threshold) (build_sign_send_poll env sreq) stL"
    have "spent (cr_rule_id_hex req) (st_intents stL)"
      unfolding acquire_lease_Inr(2) [OF lease assms(2)]
      by (rule lease_spends [OF acquire_lease_Inr(1) [OF lease assms(2)]])
    from spent_finish [OF assms(1) this _ base_outcome_sig] show ?thesis
      using fin assms(4) by (metis fst_conv snd_conv)
  qed
qed

section \<open>Properties\<close>

text \<open>
  C8: one deposit per funded intent. Once an execution has reported a transaction signature for
  an intent -- completed, timed out waiting for finality, or failed on chain -- no later execution
  of that intent, after any calls on the table and with any tasks interleaved that do not give the
  held lease back, hands a deposit to the sender.\<close>

theorem deposit_sent_once:
  assumes "reach (\<lambda>db. db = []) funding_step (st_intents st)"
    and "w5h_intent_repo env" and "w5h_intent_repo env2"
    and "keeping_tasks iid env" and "keeping_tasks iid env2"
    and "cr_rule_id_hex req = iid" and "cr_rule_id_hex req2 = iid"
    and "chat_execute env req st = Some (out, sent, st1)" and "co_tx_signature out = Some sig"
    and "(kept_step iid)\<^sup>*\<^sup>* (st_intents st1) (st_intents st2)"
  shows "chat_execute env2 req2 st2 \<noteq> Some (out2, Some sreq, st3)"
proof
  assume again: "chat_execute env2 req2 st2 = Some (out2, Some sreq, st3)"
  have "spent iid (st_intents st1)"
    using execution_spends [of req env st out sent st1] assms by simp
  then have sp: "spent iid (st_intents st2)" by (rule spent_run [OF assms(10)])
  have "funding_step\<^sup>*\<^sup>* (st_intents st) (st_intents st2)"
    using chat_execute_run [OF keeping_fair [OF assms(4)] assms(8)] kept_run_funding [OF assms(10)]
    by simp
  then have "store_ok (st_intents st2)"
    using fstore.reach_good [OF assms(1)] store_ok_run by blast
  from spent_execution [OF assms(5) this sp assms(3) again] show False using assms(7) by simp
qed

end
