(* ===== verification/Auto_Execute.thy ===== *)
theory Auto_Execute
  imports Deposit_Once
begin

text \<open>
  \<open>crates/gateway/src/stage2_w5i_auto_execute.rs\<close>: the background watcher that dispatches funded
  intents through the chat executor when the Save APY is above their threshold. A tick lists the
  reserved intents, reads the APY once and runs the executor for each that qualifies; its
  production dispatcher is \<open>chat_execute\<close>, with the environment of the k-th dispatch given by
  \<open>te_exec\<close>. A panic inside the executor ends the tick (\<open>None\<close>).
\<close>

section \<open>Constants, configuration and reports\<close>

definition PINNED_CONTROLLED_WALLET :: string where
  "PINNED_CONTROLLED_WALLET = ''BPfDMmeMBmCbMC1rWh7hwigMBoKGBrKwXxSeUu9hhs5L''"

definition PINNED_CONTROLLED_USDC_ATA :: string where
  "PINNED_CONTROLLED_USDC_ATA = ''7LFdKcSV7JQYi3or5y9phHVPjhGigu5DDjUakAFbBmk3''"

definition MAX_INTENTS_PER_TICK :: u32 where "MAX_INTENTS_PER_TICK = 16"

definition W5I_ENV_MASTER_GATE :: string where
  "W5I_ENV_MASTER_GATE = ''CLAW_STAGE2_W5I_AUTO_EXECUTION''"

datatype TickError = RepoListFailed StoreError | SaveApyFailed string

record Stage2W5iAutoExecuteConfig =
  w5i_master_gate_on :: bool
  w5g_master_gate_on :: bool
  w5g_env_approval_matches :: bool
  w5g_cluster_mainnet_beta :: bool
  w5g_keypair_path_present :: bool
  w5i_rpc_url_present :: bool

definition env_non_blank :: "(string \<Rightarrow> string option) \<Rightarrow> string \<Rightarrow> string option" where
  "env_non_blank var name = Option.bind (var name) (\<lambda>s. if non_blank s then Some s else None)"

definition w5i_from_std_env :: "(string \<Rightarrow> string option) \<Rightarrow> Stage2W5iAutoExecuteConfig" where
  "w5i_from_std_env var = (let env = env_non_blank var in \<lparr>
     w5i_master_gate_on = (env W5I_ENV_MASTER_GATE = Some ''1''),
     w5g_master_gate_on = (env W5G_ENV_MASTER_GATE = Some ''1''),
     w5g_env_approval_matches = (env W5G_ENV_APPROVAL_PHRASE_OWNER = Some W5G_REQUIRED_APPROVAL_PHRASE),
     w5g_cluster_mainnet_beta = (env W5G_ENV_CLUSTER = Some ''mainnet-beta''),
     w5g_keypair_path_present = (env W5G_ENV_DELEGATED_KEYPAIR_PATH \<noteq> None),
     w5i_rpc_url_present = (env ''HELIUS_RPC_URL'' \<noteq> None \<or> env ''CLAW_RPC_URL'' \<noteq> None)\<rparr>)"

definition fully_enabled :: "Stage2W5iAutoExecuteConfig \<Rightarrow> bool" where
  "fully_enabled c \<longleftrightarrow> w5i_master_gate_on c \<and> w5g_master_gate_on c \<and> w5g_env_approval_matches c
     \<and> w5g_cluster_mainnet_beta c \<and> w5g_keypair_path_present c \<and> w5i_rpc_url_present c"

definition disabled_reason :: "Stage2W5iAutoExecuteConfig \<Rightarrow> string" where
  "disabled_reason c =
    (let missing =
       (if \<not> w5i_master_gate_on c then [''CLAW_STAGE2_W5I_AUTO_EXECUTION''] else [])
       @ (if \<not> w5g_master_gate_on c then [''CLAW_STAGE2_LIVE_CHAT_EXECUTION''] else [])
       @ (if \<not> w5g_env_approval_matches c then [''CLAW_STAGE2_CHAT_EXECUTION_APPROVED''] else [])
       @ (if \<not> w5g_cluster_mainnet_beta c then [''CLAW_STAGE2_CLUSTER (must be mainnet-beta)''] else [])
       @ (if \<not> w5g_keypair_path_present c then [''CLAW_STAGE2_DELEGATED_KEYPAIR_PATH''] else [])
       @ (if \<not> w5i_rpc_url_present c then [''HELIUS_RPC_URL or CLAW_RPC_URL''] else [])
     in if missing = [] then ''all gates satisfied'' else ''missing: '' @ join_comma missing)"

record TickReport =
  scanned :: nat
  skipped_not_pinned_shape :: nat
  skipped_condition_false :: nat
  dispatched :: nat
  completed :: nat
  broadcasted_timeout :: nat
  prechecks_failed :: nat
  execution_failed :: nat

definition empty_report :: TickReport where
  "empty_report = \<lparr>scanned = 0, skipped_not_pinned_shape = 0, skipped_condition_false = 0,
     dispatched = 0, completed = 0, broadcasted_timeout = 0, prechecks_failed = 0, execution_failed = 0\<rparr>"

section \<open>A tick\<close>

definition is_pinned_demo_shape :: "W5hFundingIntent \<Rightarrow> bool" where
  "is_pinned_demo_shape i \<longleftrightarrow> PHASE5C_MIN_AMOUNT_RAW \<le> amount_raw i \<and> amount_raw i \<le> PHASE5C_MAX_AMOUNT_RAW
     \<and> controlled_wallet i = PINNED_CONTROLLED_WALLET
     \<and> controlled_usdc_ata i = PINNED_CONTROLLED_USDC_ATA"

record tick_env =
  te_list_verdict :: verdict
  te_save_apy :: "string + u32"
  te_exec :: "nat \<Rightarrow> exec_env"

text \<open>What a tick dispatched: the request, its outcome and what reached the sender.\<close>

type_synonym dispatch = "ChatExecuteRequest \<times> ChatExecuteOutcome \<times> ChatExecuteSendRequest option"

definition auto_request :: "W5hFundingIntent \<Rightarrow> ChatExecuteRequest" where
  "auto_request i = \<lparr>cr_rule_id_hex = W5hFundingIntent.rule_id_hex i,
     cr_canonical_rule_hash_hex = canonical_rule_hash_hex i,
     cr_approval_phrase = W5G_REQUIRED_APPROVAL_PHRASE\<rparr>"

fun count_status :: "ChatExecuteStatus \<Rightarrow> TickReport \<Rightarrow> TickReport" where
  "count_status CxCompleted rep = rep\<lparr>completed := completed rep + 1\<rparr>"
| "count_status CxBroadcastedTimeout rep = rep\<lparr>broadcasted_timeout := broadcasted_timeout rep + 1\<rparr>"
| "count_status CxPrechecksFailed rep = rep\<lparr>prechecks_failed := prechecks_failed rep + 1\<rparr>"
| "count_status CxExecutionFailed rep = rep\<lparr>execution_failed := execution_failed rep + 1\<rparr>"

fun tick_loop ::
  "(nat \<Rightarrow> exec_env) \<Rightarrow> u32 \<Rightarrow> W5hFundingIntent list \<Rightarrow> TickReport \<Rightarrow> exec_state \<Rightarrow>
   (TickReport \<times> dispatch list \<times> exec_state) option" where
  "tick_loop exec save [] rep st = Some (rep, [], st)"
| "tick_loop exec save (i # is) rep st =
    (if \<not> is_pinned_demo_shape i then
       tick_loop exec save is (rep\<lparr>skipped_not_pinned_shape := skipped_not_pinned_shape rep + 1\<rparr>) st
     else if save \<le> W5hFundingIntent.threshold_bps i then
       tick_loop exec save is (rep\<lparr>skipped_condition_false := skipped_condition_false rep + 1\<rparr>) st
     else case chat_execute (exec (dispatched rep)) (auto_request i) st of
       None \<Rightarrow> None
     | Some (out, sent, st') \<Rightarrow>
         map_option (\<lambda>(rep', ds, st''). (rep', (auto_request i, out, sent) # ds, st''))
           (tick_loop exec save is
              (count_status (co_status out) (rep\<lparr>dispatched := dispatched rep + 1\<rparr>)) st'))"

definition tick ::
  "tick_env \<Rightarrow> exec_state \<Rightarrow> ((TickError + TickReport) \<times> dispatch list \<times> exec_state) option" where
  "tick te st =
    (case list_budget_reserved (te_list_verdict te) MAX_INTENTS_PER_TICK (st_intents st) of
       Inl e \<Rightarrow> Some (Inl (RepoListFailed e), [], st)
     | Inr intents \<Rightarrow>
        (let rep = empty_report\<lparr>scanned := length intents\<rparr> in
         if intents = [] then Some (Inr rep, [], st)
         else (case te_save_apy te of
            Inl e \<Rightarrow> Some (Inl (SaveApyFailed e), [], st)
          | Inr save \<Rightarrow> map_option (\<lambda>(rep', ds, st'). (Inr rep', ds, st'))
              (tick_loop (te_exec te) save intents rep st))))"

text \<open>
  The loop of \<open>run\<close>, for the given ticks and with what other tasks did before each: the result of
  a tick is only logged, so an error does not end it.
\<close>

fun run_ticks ::
  "((exec_state \<Rightarrow> exec_state) \<times> tick_env) list \<Rightarrow> exec_state \<Rightarrow> (dispatch list \<times> exec_state) option" where
  "run_ticks [] st = Some ([], st)"
| "run_ticks ((before, te) # ticks) st =
    (case tick te (before st) of
       None \<Rightarrow> None
     | Some (_, ds, st') \<Rightarrow> map_option (\<lambda>(ds', st''). (ds @ ds', st'')) (run_ticks ticks st'))"

section \<open>Reports\<close>

lemma env_non_blank_Some: "env_non_blank var name = Some s \<longleftrightarrow> var name = Some s \<and> non_blank s"
  by (auto simp: env_non_blank_def bind_eq_Some_conv)

definition report_adds_up :: "TickReport \<Rightarrow> dispatch list \<Rightarrow> bool" where
  "report_adds_up rep ds \<longleftrightarrow>
     scanned rep = skipped_not_pinned_shape rep + skipped_condition_false rep + dispatched rep
     \<and> dispatched rep = completed rep + broadcasted_timeout rep + prechecks_failed rep + execution_failed rep
     \<and> dispatched rep = length ds
     \<and> completed rep = length (filter (\<lambda>(_, out, _). co_status out = CxCompleted) ds)
     \<and> broadcasted_timeout rep = length (filter (\<lambda>(_, out, _). co_status out = CxBroadcastedTimeout) ds)
     \<and> execution_failed rep = length (filter (\<lambda>(_, out, _). co_status out = CxExecutionFailed) ds)"

lemma count_status_fields [simp]:
  "scanned (count_status s rep) = scanned rep"
  "dispatched (count_status s rep) = dispatched rep"
  "skipped_not_pinned_shape (count_status s rep) = skipped_not_pinned_shape rep"
  "skipped_condition_false (count_status s rep) = skipped_condition_false rep"
  by (cases s; simp)+

lemma tick_loop_cases:
  assumes "tick_loop exec save (i # is) rep st = Some (rep', ds, st')"
  obtains (shape) "\<not> is_pinned_demo_shape i"
      "tick_loop exec save is (rep\<lparr>skipped_not_pinned_shape := skipped_not_pinned_shape rep + 1\<rparr>) st
        = Some (rep', ds, st')"
  | (condition) "save \<le> W5hFundingIntent.threshold_bps i"
      "tick_loop exec save is (rep\<lparr>skipped_condition_false := skipped_condition_false rep + 1\<rparr>) st
        = Some (rep', ds, st')"
  | (dispatch) out sent st1 ds1 where
      "is_pinned_demo_shape i" "W5hFundingIntent.threshold_bps i < save"
      "chat_execute (exec (dispatched rep)) (auto_request i) st = Some (out, sent, st1)"
      "tick_loop exec save is
        (count_status (co_status out) (rep\<lparr>dispatched := dispatched rep + 1\<rparr>)) st1 = Some (rep', ds1, st')"
      "ds = (auto_request i, out, sent) # ds1"
  using assms by (auto simp: not_le not_less split: if_split_asm option.split_asm)

lemma tick_loop_counts:
  assumes "tick_loop exec save is rep st = Some (rep', ds, st')"
    and "dispatched rep = completed rep + broadcasted_timeout rep + prechecks_failed rep + execution_failed rep"
  shows "scanned rep' = scanned rep
    \<and> skipped_not_pinned_shape rep' + skipped_condition_false rep' + dispatched rep'
        = skipped_not_pinned_shape rep + skipped_condition_false rep + dispatched rep + length is
    \<and> dispatched rep' = completed rep' + broadcasted_timeout rep' + prechecks_failed rep' + execution_failed rep'
    \<and> dispatched rep' = dispatched rep + length ds
    \<and> completed rep' = completed rep + length (filter (\<lambda>(_, out, _). co_status out = CxCompleted) ds)
    \<and> broadcasted_timeout rep' = broadcasted_timeout rep
        + length (filter (\<lambda>(_, out, _). co_status out = CxBroadcastedTimeout) ds)
    \<and> execution_failed rep' = execution_failed rep
        + length (filter (\<lambda>(_, out, _). co_status out = CxExecutionFailed) ds)"
  using assms
proof (induction "is" arbitrary: rep st ds)
  case (Cons i "is")
  from Cons.prems(1) show ?case
  proof (cases rule: tick_loop_cases)
    case (dispatch out sent st1 ds1)
    let ?rep = "count_status (co_status out) (rep\<lparr>dispatched := dispatched rep + 1\<rparr>)"
    have "dispatched ?rep
        = completed ?rep + broadcasted_timeout ?rep + prechecks_failed ?rep + execution_failed ?rep"
      using Cons.prems(2) by (cases "co_status out") simp_all
    from Cons.IH [OF dispatch(4) this] show ?thesis
      unfolding dispatch(5) by (cases "co_status out") simp_all
  next
    case condition
    from Cons.IH [OF condition(2)] Cons.prems(2) show ?thesis by simp
  next
    case shape
    from Cons.IH [OF shape(2)] Cons.prems(2) show ?thesis by simp
  qed
qed simp

text \<open>Which dispatches reach the sender.\<close>

lemma execution_sent_iff:
  assumes "chat_execute env req st = Some (out, sent, st')"
  shows "sent = None \<longleftrightarrow> co_status out = CxPrechecksFailed"
  using assms
proof (cases rule: chat_execute_cases)
  case (3 rid rule canonical threshold)
  have "co_status (fst (finish_send env req rid a (base_outcome req c sv ap th) o' s)) \<noteq> CxPrechecksFailed"
    for a c sv ap th o' s
    by (cases o') (simp_all add: finish_send_def Let_def case_prod_beta base_outcome_def)
  then show ?thesis
    using 3 by (auto simp: execute_rule_def precheck_failure_def Let_def case_prod_beta
        split: sum.splits prod.splits)
qed (simp_all add: precheck_failure_def)

lemma tick_loop_dispatches:
  "tick_loop exec save is rep st = Some (rep', ds, st') \<Longrightarrow> (req, out, sent) \<in> set ds \<Longrightarrow>
   (sent = None \<longleftrightarrow> co_status out = CxPrechecksFailed)
   \<and> (\<exists>i \<in> set is. req = auto_request i \<and> is_pinned_demo_shape i \<and> W5hFundingIntent.threshold_bps i < save)"
proof (induction "is" arbitrary: rep st ds)
  case (Cons i "is")
  from Cons.prems(1) show ?case
  proof (cases rule: tick_loop_cases)
    case (dispatch out1 sent1 st1 ds1)
    show ?thesis
      using Cons.IH [OF dispatch(4)] Cons.prems(2) execution_sent_iff [OF dispatch(3)] dispatch(1,2,5)
      by auto
  qed (use Cons in auto)
qed simp

text \<open>A dispatch that reached the sender and reports no signature ended as failed.\<close>

lemma execution_unsigned_failed:
  assumes "chat_execute env req st = Some (out, Some sreq, st')" and "co_tx_signature out = None"
  shows "co_status out = CxExecutionFailed"
  using assms(1)
proof (cases rule: chat_execute_cases)
  case (3 rid rule canonical threshold)
  have "co_tx_signature (fst (finish_send env req rid a (base_outcome req c sv ap th) o' s)) = None \<longrightarrow>
      co_status (fst (finish_send env req rid a (base_outcome req c sv ap th) o' s)) = CxExecutionFailed"
    for a c sv ap th o' s
    by (cases o') (simp_all add: finish_send_def Let_def case_prod_beta base_outcome_def)
  then show ?thesis
    using 3 assms(2) by (auto simp: execute_rule_def Let_def case_prod_beta split: sum.splits prod.splits)
qed simp_all

section \<open>Sequences of dispatches\<close>

inductive dispatches :: "exec_state \<Rightarrow> dispatch list \<Rightarrow> exec_state \<Rightarrow> bool" where
  no_dispatch: "dispatches st [] st"
| tasks: "(\<And>iid. (kept_step iid)\<^sup>*\<^sup>* (st_intents st) (st_intents st1)) \<Longrightarrow>
    dispatches st1 ds st' \<Longrightarrow> dispatches st ds st'"
| execute: "w5h_intent_repo env \<Longrightarrow> (\<And>iid. keeping_tasks iid env) \<Longrightarrow>
    chat_execute env req st = Some (out, sent, st1) \<Longrightarrow>
    dispatches st1 ds st' \<Longrightarrow> dispatches st ((req, out, sent) # ds) st'"

lemma dispatches_append: "dispatches st ds st1 \<Longrightarrow> dispatches st1 ds' st' \<Longrightarrow> dispatches st (ds @ ds') st'"
  by (induction rule: dispatches.induct) (auto intro: dispatches.intros)

lemma dispatches_spent:
  "dispatches st ds st' \<Longrightarrow> store_ok (st_intents st) \<Longrightarrow> spent iid (st_intents st) \<Longrightarrow>
   \<forall>(req, out, sent) \<in> set ds. cr_rule_id_hex req = iid \<longrightarrow> sent = None"
proof (induction rule: dispatches.induct)
  case (tasks st st1 ds st')
  have "store_ok (st_intents st1)" using kept_run_funding [OF tasks.hyps(1)] tasks.prems(1) by (rule store_ok_run)
  then show ?case using tasks.IH spent_run [OF tasks.hyps(1) tasks.prems(2)] by blast
next
  case (execute env req st out sent st1 ds st')
  have "store_ok (st_intents st1)"
    using chat_execute_run [OF keeping_fair [OF execute.hyps(2)] execute.hyps(3)] execute.prems(1)
    by (rule store_ok_run)
  then show ?case
    using execute.IH spent_execution [OF execute.hyps(2) execute.prems execute.hyps(1,3)] by auto
qed simp

text \<open>Of two dispatches of a rule, the later one reaches the sender only if the earlier one reported no signature; and
  if both reached it, the earlier one ended as failed.\<close>

definition once :: "dispatch \<Rightarrow> dispatch \<Rightarrow> bool" where
  "once d d' \<longleftrightarrow> (case d of (req, out, sent) \<Rightarrow> case d' of (req', _, sent') \<Rightarrow>
     cr_rule_id_hex req' = cr_rule_id_hex req \<longrightarrow> sent' \<noteq> None \<longrightarrow>
       co_tx_signature out = None \<and> (sent \<noteq> None \<longrightarrow> co_status out = CxExecutionFailed))"

lemma dispatches_once: "dispatches st ds st' \<Longrightarrow> store_ok (st_intents st) \<Longrightarrow> sorted_wrt once ds"
proof (induction rule: dispatches.induct)
  case (tasks st st1 ds st')
  show ?case by (rule tasks.IH) (rule store_ok_run [OF kept_run_funding [OF tasks.hyps(1)] tasks.prems])
next
  case (execute env req st out sent st1 ds st')
  have ok: "store_ok (st_intents st1)"
    using chat_execute_run [OF keeping_fair [OF execute.hyps(2)] execute.hyps(3)] execute.prems
    by (rule store_ok_run)
  have "once (req, out, sent) d" if "d \<in> set ds" for d
    using that dispatches_spent [OF execute.hyps(4) ok execution_spends [OF execute.hyps(2,1,3)]]
      execution_unsigned_failed execute.hyps(3)
    by (fastforce simp: once_def)
  then show ?case using execute.IH [OF ok] by simp
qed simp

text \<open>The environments a run of the watcher needs: repository wired, no lease given back by others.\<close>

definition keeping_env :: "exec_env \<Rightarrow> bool" where
  "keeping_env env \<longleftrightarrow> w5h_intent_repo env \<and> (\<forall>iid. keeping_tasks iid env)"

definition keeping_tick :: "(exec_state \<Rightarrow> exec_state) \<times> tick_env \<Rightarrow> bool" where
  "keeping_tick t \<longleftrightarrow>
     (\<forall>iid s. (kept_step iid)\<^sup>*\<^sup>* (st_intents s) (st_intents (fst t s)))
     \<and> (\<forall>k. keeping_env (te_exec (snd t) k))"

lemma tick_loop_run:
  assumes "\<forall>k. keeping_env (exec k)"
  shows "tick_loop exec save is rep st = Some (rep', ds, st') \<Longrightarrow> dispatches st ds st'"
proof (induction "is" arbitrary: rep st ds)
  case (Cons i "is")
  from Cons.prems show ?case
  proof (cases rule: tick_loop_cases)
    case (dispatch out sent st1 ds1)
    then show ?thesis
      using assms unfolding dispatch(5) keeping_env_def
      by (intro dispatches.execute [OF _ _ dispatch(3)]) (auto intro: Cons.IH)
  qed (auto intro: Cons.IH)
qed (simp add: dispatches.no_dispatch)

lemma tick_dispatches:
  "\<forall>k. keeping_env (te_exec te k) \<Longrightarrow> tick te st = Some (res, ds, st') \<Longrightarrow> dispatches st ds st'"
  by (auto simp: tick_def Let_def intro: dispatches.no_dispatch tick_loop_run
      split: sum.splits if_splits)

lemma run_ticks_dispatches:
  "list_all keeping_tick ticks \<Longrightarrow> run_ticks ticks st = Some (ds, st') \<Longrightarrow> dispatches st ds st'"
proof (induction ticks st arbitrary: ds rule: run_ticks.induct)
  case (2 before te ticks st)
  then obtain res ds1 st1 ds2 where t: "tick te (before st) = Some (res, ds1, st1)"
    and r: "run_ticks ticks st1 = Some (ds2, st')" and ds: "ds = ds1 @ ds2"
    by (auto split: option.splits)
  have "dispatches (before st) ds1 st1"
    using 2(2) by (intro tick_dispatches [OF _ t]) (simp add: keeping_tick_def)
  moreover have "dispatches st1 ds2 st'" using 2 t r by auto
  ultimately have "dispatches (before st) ds st'" unfolding ds by (rule dispatches_append)
  then show ?case by (rule dispatches.tasks [rotated]) (use 2(2) in \<open>simp add: keeping_tick_def\<close>)
qed (simp add: dispatches.no_dispatch)

lemma list_budget_reserved_bound:
  assumes "list_budget_reserved v limit db = Inr intents"
  shows "length intents \<le> unat limit"
proof (cases "limit = 0")
  case False
  with assms obtain rows where "sql_select_all v (\<lambda>r. row_status r = BUDGET_RESERVED)
      (\<lambda>r. sint (row_created_at_ms r)) (unat limit) db = Inr rows" and "collectE row_to_intent rows = Inr intents"
    unfolding list_budget_reserved_def if_not_P [OF False] bindE_Inr by blast
  then show ?thesis
    using sql_select_all_rows(2) list_all2_lengthD collectE_Inr by metis
qed (use assms in \<open>simp add: list_budget_reserved_def\<close>)

section \<open>Properties\<close>

text \<open>
  A tick's report adds up. Every scanned intent is counted once, as skipped or dispatched,
  and every dispatch once by its status; at most 16 intents are scanned; and each dispatch is the
  request of a listed intent of the pinned shape whose threshold the APY read in this tick
  exceeds, and reached the sender exactly when its prechecks passed.\<close>

theorem tick_report_exact:
  assumes "tick te st = Some (Inr rep, ds, st')"
  shows "report_adds_up rep ds \<and> scanned rep \<le> 16
    \<and> (\<forall>(req, out, sent) \<in> set ds.
        (sent = None \<longleftrightarrow> co_status out = CxPrechecksFailed)
        \<and> (\<exists>intents save. list_budget_reserved (te_list_verdict te) 16 (st_intents st) = Inr intents
            \<and> te_save_apy te = Inr save
            \<and> (\<exists>i \<in> set intents. req = auto_request i \<and> is_pinned_demo_shape i
                  \<and> W5hFundingIntent.threshold_bps i < save)))"
proof -
  from assms obtain intents where
    intents: "list_budget_reserved (te_list_verdict te) 16 (st_intents st) = Inr intents"
    by (auto simp: tick_def MAX_INTENTS_PER_TICK_def split: sum.splits)
  have le: "length intents \<le> 16" using list_budget_reserved_bound [OF intents] by simp
  show ?thesis
  proof (cases "intents = []")
    case True
    then show ?thesis
      using assms intents
      by (auto simp: tick_def MAX_INTENTS_PER_TICK_def Let_def report_adds_up_def empty_report_def)
  next
    case False
    with assms intents obtain save where save: "te_save_apy te = Inr save"
      and loop: "tick_loop (te_exec te) save intents (empty_report\<lparr>scanned := length intents\<rparr>) st
        = Some (rep, ds, st')"
      by (auto simp: tick_def MAX_INTENTS_PER_TICK_def Let_def split: sum.splits)
    have "report_adds_up rep ds \<and> scanned rep \<le> 16"
      using tick_loop_counts [OF loop] le by (auto simp: report_adds_up_def empty_report_def)
    then show ?thesis
      using tick_loop_dispatches [OF loop] intents save by auto
  qed
qed

text \<open>
  C9: no dispatch after a reported signature. Over any number of ticks, with any calls on the
  tables by other tasks before and during each of them that do not give a held lease back, once a
  dispatch of a rule has reported a transaction signature no later dispatch of that rule reaches
  the sender; a rule is handed to the sender again only after each earlier dispatch that reached it
  ended as failed without a signature. (Such a failure gives the lease back, also when the broadcast
  was accepted and only its answer was lost.)\<close>

theorem no_dispatch_after_signature:
  assumes "reach (\<lambda>db. db = []) funding_step (st_intents st)"
    and "list_all keeping_tick ticks"
    and "run_ticks ticks st = Some (ds, st')"
  shows "sorted_wrt once ds"
  using dispatches_once [OF run_ticks_dispatches [OF assms(2,3)] fstore.reach_good [OF assms(1)]] .

text \<open>
  The watcher's gates and the executor's. When the watcher is enabled by the environment, the
  executor's own gates accept its requests, except when \<open>HELIUS_RPC_URL\<close> is set but blank: then
  the watcher runs on \<open>CLAW_RPC_URL\<close> and every dispatch is refused.\<close>

theorem watcher_gates_agree:
  assumes "fully_enabled (w5i_from_std_env var)"
  shows "check_gates (config_from_std_env var) (auto_request i) =
    (if \<exists>u. var ''HELIUS_RPC_URL'' = Some u \<and> \<not> non_blank u then Inl (RpcUrlMissing, NoRpcUrl) else Inr ())"
  using assms
  by (auto simp: fully_enabled_def w5i_from_std_env_def Let_def env_non_blank_Some check_gates_def
      config_from_std_env_def auto_request_def ok_or_def W5G_CLUSTER_MAINNET_def
      split: option.split)

end
