(* ===== verification/Rule_Ids.thy ===== *)
theory Rule_Ids
  imports Chat_Execute_Safety
begin

text \<open>
  The executor reads the rule ids that the store prints: the two hexadecimal codecs, of
  \<open>stage2_watch_rules.rs\<close> and \<open>stage2_chat_execute.rs\<close>, fit together.
\<close>

definition graphic :: "char \<Rightarrow> bool" where
  "graphic c \<longleftrightarrow> 32 < (of_char c :: nat) \<and> (of_char c :: nat) < 127"

lemma ws_front_graphic:
  assumes "\<And>n. n \<in> set bs \<Longrightarrow> 32 < n \<and> n < 127"
  shows "ws_front bs = 0"
proof (cases bs)
  case (Cons a as)
  then have "32 < a \<and> a < 127" using assms by simp
  then have "\<not> ascii_ws a" "a \<noteq> 0xC2" "a \<noteq> 0xE1" "a \<noteq> 0xE2" "a \<noteq> 0xE3" by (auto simp: ascii_ws_def)
  then show ?thesis unfolding Cons by (cases "a # as" rule: ws_front.cases) simp_all
qed simp

lemma str_trim_graphic:
  assumes "\<And>c. c \<in> set s \<Longrightarrow> graphic c"
  shows "str_trim s = s"
proof -
  have bytes: "32 < n \<and> n < 127" if "n \<in> set (str_bytes s)" for n
    using that assms by (auto simp: str_bytes_def graphic_def)
  have front: "ws_front (str_bytes s) = 0" by (rule ws_front_graphic) (rule bytes)
  have tail: "ws_front (drop k (str_bytes s)) = 0" for k
    by (rule ws_front_graphic) (meson bytes in_set_dropD)
  have "ws_back s = 0"
  proof (cases "str_bytes s = []")
    case False
    then have "last (str_bytes s) \<in> set (str_bytes s)" by simp
    from bytes [OF this] have "\<not> ascii_ws (last (str_bytes s))" by (auto simp: ascii_ws_def)
    then show ?thesis using tail by (simp add: ws_back_def Let_def)
  qed (simp add: ws_back_def Let_def)
  then show ?thesis
    unfolding str_trim_def
    by (subst trim_start.simps, subst trim_end.simps) (simp add: front Let_def)
qed

lemma hex_digit_graphic: "n < 16 \<Longrightarrow> graphic (hex_digit n)"
  by (auto simp: graphic_def hex_digit_def)

lemma hex_value_digit: "n < 16 \<Longrightarrow> hex_value (hex_digit n) = Some (word_of_nat n)"
  by (auto simp: hex_value_def hex_digit_def Let_def)

lemma hex_digit_plus: "n < 16 \<Longrightarrow> hex_digit n \<noteq> CHR ''+''"
  using hex_value_digit [of n] by (auto simp: hex_value_def)

lemma nibble_bounds: "unat (b :: u8) div 16 < 16" "unat b mod 16 < 16"
  using unat_less_exp [of b] by simp_all

lemma radix16_digits:
  "radix16_pair (hex_digit (unat b div 16)) (hex_digit (unat b mod 16)) = Some (b :: u8)"
proof -
  have "16 * word_of_nat x + word_of_nat y = (word_of_nat (16 * x + y) :: u8)" for x y by simp
  also have "16 * (unat b div 16) + unat b mod 16 = unat b" by simp
  finally have "16 * word_of_nat (unat b div 16) + word_of_nat (unat b mod 16) = (b :: u8)" by simp
  then show ?thesis
    using nibble_bounds [of b] by (simp add: radix16_pair_def hex_value_digit hex_digit_plus)
qed

lemma hex_encode_nth:
  "i < length bs \<Longrightarrow> hex_encode bs ! (2 * i) = hex_digit (unat (bs ! i) div 16)
    \<and> hex_encode bs ! (2 * i + 1) = hex_digit (unat (bs ! i) mod 16)"
proof (induction bs arbitrary: i)
  case (Cons b bs)
  have "hex_encode (b # bs) = hex_digit (unat b div 16) # hex_digit (unat b mod 16) # hex_encode bs"
    by (simp add: hex_encode_def)
  then show ?case using Cons by (cases i) auto
qed simp

lemma hex_encode_graphic: "c \<in> set (hex_encode bs) \<Longrightarrow> graphic c"
  using nibble_bounds by (auto simp: hex_encode_def intro: hex_digit_graphic)

lemma graphic_boundary:
  assumes "\<And>c. c \<in> set s \<Longrightarrow> graphic c" and "j \<le> length s"
  shows "is_char_boundary s j"
proof (cases "j = length s")
  case False
  then have "graphic (s ! j)" using assms by simp
  then have "byte_of_char (s ! j) < 0x80"
    by (simp add: graphic_def byte_of_char_def word_less_nat_alt unat_of_nat)
  then show ?thesis using False assms(2) by (auto simp: is_char_boundary_def is_cont_def)
qed (simp add: is_char_boundary_def)

lemma decode_pairs_hex:
  "i + k \<le> length bs \<Longrightarrow> decode_pairs (hex_encode bs) i k = Returns (Some (take k (drop i bs)))"
proof (induction k arbitrary: i)
  case (Suc k)
  have bd: "is_char_boundary (hex_encode bs) (2 * i)" "is_char_boundary (hex_encode bs) (2 * i + 2)"
    using Suc.prems by (auto intro!: graphic_boundary hex_encode_graphic)
  have "drop i bs = bs ! i # drop (Suc i) bs" using Suc.prems by (simp add: Cons_nth_drop_Suc)
  then show ?case
    using Suc bd hex_encode_nth [of i bs] by (simp add: radix16_digits)
qed simp

lemma rule_id_decoded: "decode_rule_id_hex (rule_id_hex rid) = Returns (Some rid)"
proof -
  have len: "length (array_bytes rid) = 16" by (simp add: array_bytes_def)
  have "str_trim (rule_id_hex rid) = rule_id_hex rid"
    by (rule str_trim_graphic) (auto simp: rule_id_hex_def intro: hex_encode_graphic)
  then show ?thesis
    using decode_pairs_hex [of 0 16 "array_bytes rid"] len
    by (simp add: decode_rule_id_hex_def rule_id_hex_def array_of_array_bytes)
qed

end
