(* ===== verification/Chat_Rpc.thy ===== *)
theory Chat_Rpc
  imports Chat_Execute Json
begin

text \<open>
  The RPC layer of \<open>crates/gateway/src/stage2_chat_execute.rs\<close>: the JSON-RPC calls of the live
  sender and the bounded polling of a signature. An HTTP exchange is a parameter
  \<open>post\<close> (the transport error, or the status code with the decoded body), as are serde's printer,
  the base64 decoder and the printers and parsers of addresses and block hashes.
\<close>

section \<open>Calls\<close>

type_synonym http = "json \<Rightarrow> string + nat \<times> (string + json)"

record rpc_codec =
  show_json :: "json \<Rightarrow> string"
  base64_decode :: "string \<Rightarrow> string + u8 list"
  base64_encode :: "u8 list \<Rightarrow> string"
  show_pubkey :: "pubkey \<Rightarrow> string"
  hash_from_str :: "string \<Rightarrow> string + 256 word"

datatype RpcErr = Transport string | Status nat | Body string

fun rpc_err_display :: "RpcErr \<Rightarrow> string" where
  "rpc_err_display (Transport s) = ''transport: '' @ s"
| "rpc_err_display (Status c) = ''http '' @ show_nat c"
| "rpc_err_display (Body s) = ''body: '' @ s"

text \<open>\<open>v[k]\<close> and \<open>v[i]\<close> are \<open>Null\<close> on a value of another shape.\<close>

definition json_at :: "json \<Rightarrow> string \<Rightarrow> json" where
  "json_at v k = (case json_get v k of Some x \<Rightarrow> x | None \<Rightarrow> JNull)"

definition json_nth :: "json \<Rightarrow> nat \<Rightarrow> json" where
  "json_nth v i = (case Option.bind (as_array v) (\<lambda>xs. get_index xs i) of Some x \<Rightarrow> x | None \<Rightarrow> JNull)"

definition rpc_post :: "rpc_codec \<Rightarrow> http \<Rightarrow> json \<Rightarrow> RpcErr + json" where
  "rpc_post cd post body =
    bindE (map_err Transport (post body)) (\<lambda>(code, resp).
    if 400 \<le> code then Inl (Status code)
    else bindE (map_err Body resp) (\<lambda>v.
    case json_get v ''error'' of
      Some err \<Rightarrow> Inl (Body (show_json cd err))
    | None \<Rightarrow> Inr v))"

definition rpc_request :: "string \<Rightarrow> json list \<Rightarrow> json" where
  "rpc_request m ps = JObject [(''jsonrpc'', JString ''2.0''), (''id'', JNumber (PosInt 1)),
     (''method'', JString m), (''params'', JArray ps)]"

definition account_info_request :: "rpc_codec \<Rightarrow> pubkey \<Rightarrow> json" where
  "account_info_request cd pk = rpc_request ''getAccountInfo''
     [JString (show_pubkey cd pk),
      JObject [(''encoding'', JString ''base64''), (''commitment'', JString ''confirmed'')]]"

definition rpc_get_account_data :: "rpc_codec \<Rightarrow> http \<Rightarrow> pubkey \<Rightarrow> RpcErr + u8 list option" where
  "rpc_get_account_data cd post pk =
    bindE (rpc_post cd post (account_info_request cd pk)) (\<lambda>v.
    let val = json_at (json_at v ''result'') ''value'' in
    if val = JNull then Inr None
    else bindE (ok_or (Option.bind (json_get val ''data'') as_array) (Body ''missing data[]'')) (\<lambda>arr.
    bindE (ok_or (Option.bind (get_index arr 0) as_str) (Body ''missing data[0]'')) (\<lambda>b64.
    bindE (map_err (\<lambda>e. Body (''base64: '' @ e)) (base64_decode cd b64)) (\<lambda>bytes.
    Inr (Some bytes)))))"

definition rpc_get_account_exists :: "rpc_codec \<Rightarrow> http \<Rightarrow> pubkey \<Rightarrow> RpcErr + bool" where
  "rpc_get_account_exists cd post pk =
    bindE (rpc_post cd post (account_info_request cd pk)) (\<lambda>v.
    Inr (json_at (json_at v ''result'') ''value'' \<noteq> JNull))"

record LatestBlockhash =
  lb_hash :: "256 word"
  last_valid_block_height :: u64

definition rpc_get_latest_blockhash :: "rpc_codec \<Rightarrow> http \<Rightarrow> RpcErr + LatestBlockhash" where
  "rpc_get_latest_blockhash cd post =
    bindE (rpc_post cd post (rpc_request ''getLatestBlockhash''
             [JObject [(''commitment'', JString ''finalized'')]])) (\<lambda>v.
    let val = json_at (json_at v ''result'') ''value'' in
    bindE (ok_or (as_str (json_at val ''blockhash'')) (Body ''missing blockhash'')) (\<lambda>bh_str.
    bindE (ok_or (as_u64 (json_at val ''lastValidBlockHeight'')) (Body ''missing lastValidBlockHeight'')) (\<lambda>lvbh.
    bindE (map_err (\<lambda>e. Body (''hash: '' @ e)) (hash_from_str cd bh_str)) (\<lambda>h.
    Inr \<lparr>lb_hash = h, last_valid_block_height = lvbh\<rparr>))))"

definition W5G_USDC_DECIMALS :: u8 where "W5G_USDC_DECIMALS = 6"

record TokenAmount =
  ta_raw :: u64
  ta_decimals :: u8

fun parse_int_display :: "ParseIntError \<Rightarrow> string" where
  "parse_int_display EmptyString = ''cannot parse integer from empty string''"
| "parse_int_display InvalidDigit = ''invalid digit found in string''"
| "parse_int_display PosOverflow = ''number too large to fit in target type''"

definition account_missing :: "string \<Rightarrow> bool" where
  "account_missing s \<longleftrightarrow> str_contains s ''could not find account'' \<or> str_contains s ''Invalid param''
     \<or> str_contains s ''not found''"

definition rpc_get_token_account_balance ::
  "rpc_codec \<Rightarrow> http \<Rightarrow> pubkey \<Rightarrow> RpcErr + TokenAmount option" where
  "rpc_get_token_account_balance cd post ata =
    (case rpc_post cd post (rpc_request ''getTokenAccountBalance''
            [JString (show_pubkey cd ata), JObject [(''commitment'', JString ''confirmed'')]]) of
       Inr v \<Rightarrow>
        (let val = json_at (json_at v ''result'') ''value'' in
         bindE (ok_or (as_str (json_at val ''amount'')) (Body ''missing amount'')) (\<lambda>raw_str.
         bindE (map_err (\<lambda>e. Body (''amount: '' @ parse_int_display e)) (parse_u64 raw_str)) (\<lambda>raw.
         Inr (Some \<lparr>ta_raw = raw, ta_decimals =
                (case as_u64 (json_at val ''decimals'') of Some d \<Rightarrow> ucast d | None \<Rightarrow> W5G_USDC_DECIMALS)\<rparr>))))
     | Inl (Body s) \<Rightarrow> if account_missing s then Inr None else Inl (Body s)
     | Inl e \<Rightarrow> Inl e)"

definition rpc_send_transaction_base64 :: "rpc_codec \<Rightarrow> http \<Rightarrow> string \<Rightarrow> RpcErr + string" where
  "rpc_send_transaction_base64 cd post tx_b64 =
    bindE (rpc_post cd post (rpc_request ''sendTransaction''
      [JString tx_b64, JObject [(''encoding'', JString ''base64''), (''skipPreflight'', JBool False),
         (''preflightCommitment'', JString ''confirmed''), (''maxRetries'', JNumber (PosInt 0))]])) (\<lambda>v.
    ok_or (as_str (json_at v ''result'')) (Body ''missing signature in sendTransaction result''))"

datatype SigStatus = NotFound | Pending string | SigFailed string | Succeeded u64 string

definition status_of :: "json \<Rightarrow> SigStatus" where
  "status_of val =
    (let conf = (case Option.bind (json_get val ''confirmationStatus'') as_str of
                   Some c \<Rightarrow> c | None \<Rightarrow> ''processed'')
     in if conf = ''finalized'' then
       Succeeded (case Option.bind (json_get val ''slot'') as_u64 of Some n \<Rightarrow> n | None \<Rightarrow> 0) conf
     else Pending conf)"

definition rpc_get_signature_status :: "rpc_codec \<Rightarrow> http \<Rightarrow> string \<Rightarrow> RpcErr + SigStatus" where
  "rpc_get_signature_status cd post sig =
    bindE (rpc_post cd post (rpc_request ''getSignatureStatuses''
      [JArray [JString sig], JObject [(''searchTransactionHistory'', JBool True)]])) (\<lambda>v.
    let val = json_nth (json_at (json_at v ''result'') ''value'') 0 in
    if val = JNull then Inr NotFound
    else case json_get val ''err'' of
      Some err \<Rightarrow> if err \<noteq> JNull then Inr (SigFailed (show_json cd err)) else Inr (status_of val)
    | None \<Rightarrow> Inr (status_of val))"

section \<open>Polling a signature\<close>

record PollSchedule =
  initial_backoff_ms :: u64
  backoff_cap_ms :: u64
  total_timeout_ms :: u64
  transient_err_tolerance :: u32

datatype PollOutcome = PollFinalized u64 | Timeout "string option" | PollOnChainFailure string

definition W5G_SCHEDULE :: PollSchedule where
  "W5G_SCHEDULE = \<lparr>initial_backoff_ms = 2000, backoff_cap_ms = 8000, total_timeout_ms = 120000,
     transient_err_tolerance = 3\<rparr>"

text \<open>
  What one polling meets: the k-th status call, how much longer than asked the k-th sleep took
  and how long the k-th call took, in nanoseconds of the monotonic clock.
\<close>

record poll_env =
  poll_status :: "nat \<Rightarrow> RpcErr + SigStatus"
  sleep_extra :: "nat \<Rightarrow> nat"
  call_time :: "nat \<Rightarrow> nat"

definition of_millis :: "u64 \<Rightarrow> nat" where
  "of_millis n = unat n * 1000000"

definition sat_mul2 :: "u64 \<Rightarrow> u64" where
  "sat_mul2 b = (if unat b * 2 < 2 ^ 64 then b * 2 else - 1)"

definition sat_add1 :: "u32 \<Rightarrow> u32" where
  "sat_add1 e = (if e = - 1 then e else e + 1)"

definition next_backoff :: "PollSchedule \<Rightarrow> u64 \<Rightarrow> u64" where
  "next_backoff sched b = min (sat_mul2 b) (backoff_cap_ms sched)"

text \<open>
  What a status reply decides: the poll ends, or the next round starts with the reported status
  and the number of consecutive errors.
\<close>

definition poll_reply ::
  "PollSchedule \<Rightarrow> u32 \<Rightarrow> RpcErr + SigStatus \<Rightarrow> PollOutcome + string option \<times> u32" where
  "poll_reply sched errs reply = (case reply of
     Inr NotFound \<Rightarrow> Inr (Some ''not_found'', 0)
   | Inr (Pending c) \<Rightarrow> Inr (Some (''pending('' @ c @ '')''), 0)
   | Inr (SigFailed err) \<Rightarrow> Inl (PollOnChainFailure (''tx failed on chain: '' @ err))
   | Inr (Succeeded sl c) \<Rightarrow>
       if c = ''finalized'' then Inl (PollFinalized sl) else Inr (Some (''succeeded('' @ c @ '')''), errs)
   | Inl e \<Rightarrow>
      (let errs' = sat_add1 errs; st = Some (''transient_err('' @ rpc_err_display e @ '')'') in
       if errs' > transient_err_tolerance sched then Inl (Timeout st) else Inr (st, errs')))"

partial_function (option) poll_loop ::
  "poll_env \<Rightarrow> PollSchedule \<Rightarrow> nat \<Rightarrow> u64 \<Rightarrow> string option \<Rightarrow> u32 \<Rightarrow> nat \<Rightarrow> nat \<Rightarrow> (PollOutcome \<times> nat) option" where
  "poll_loop env sched deadline backoff last_status errs k now =
    (if deadline \<le> now then Some (Timeout last_status, k)
     else let now1 = now + of_millis (min backoff (backoff_cap_ms sched)) + sleep_extra env k
     in if deadline \<le> now1 then Some (Timeout last_status, k)
     else case poll_reply sched errs (poll_status env k) of
       Inl out \<Rightarrow> Some (out, Suc k)
     | Inr (status', errs') \<Rightarrow>
         poll_loop env sched deadline (next_backoff sched backoff) status' errs' (Suc k) (now1 + call_time env k))"

definition poll_signature_with_backoff :: "poll_env \<Rightarrow> PollSchedule \<Rightarrow> (PollOutcome \<times> nat) option" where
  "poll_signature_with_backoff env sched =
     poll_loop env sched (of_millis (total_timeout_ms sched)) (initial_backoff_ms sched) None 0 0 0"

text \<open>The sleep before the k-th call.\<close>

fun backoff_at :: "PollSchedule \<Rightarrow> nat \<Rightarrow> u64" where
  "backoff_at sched 0 = initial_backoff_ms sched"
| "backoff_at sched (Suc k) = next_backoff sched (backoff_at sched k)"

definition sleep_ms :: "PollSchedule \<Rightarrow> nat \<Rightarrow> nat" where
  "sleep_ms sched k = unat (min (backoff_at sched k) (backoff_cap_ms sched))"

lemma next_backoff_pos: "1 \<le> b \<Longrightarrow> 1 \<le> backoff_cap_ms sched \<Longrightarrow> 1 \<le> next_backoff sched b"
proof -
  assume b: "1 \<le> b" and cap: "1 \<le> backoff_cap_ms sched"
  have "1 \<le> sat_mul2 b"
  proof (cases "unat b * 2 < 2 ^ 64")
    case True
    then have "unat (b * 2) = unat b * 2" by (subst unat_mult_lem [THEN iffD1]) simp_all
    then show ?thesis using True b by (simp add: sat_mul2_def word_le_nat_alt)
  qed (simp add: sat_mul2_def)
  then show ?thesis using cap by (simp add: next_backoff_def)
qed

lemma backoff_at_pos:
  "1 \<le> initial_backoff_ms sched \<Longrightarrow> 1 \<le> backoff_cap_ms sched \<Longrightarrow> 1 \<le> backoff_at sched k"
  by (induction k) (simp_all add: next_backoff_pos)

lemma poll_loop_returns:
  assumes "1 \<le> initial_backoff_ms sched" and "1 \<le> backoff_cap_ms sched"
    and "(\<Sum>j<k. sleep_ms sched j) * 1000000 \<le> now"
  shows "\<exists>out n. poll_loop env sched deadline (backoff_at sched k) last_status errs k now = Some (out, n)
    \<and> k \<le> n \<and> (n = k \<or> (\<Sum>j<n. sleep_ms sched j) * 1000000 < deadline)"
  using assms(3)
proof (induction "deadline - now" arbitrary: k now last_status errs rule: less_induct)
  case less
  let ?b = "backoff_at sched k"
  let ?now1 = "now + of_millis (min ?b (backoff_cap_ms sched)) + sleep_extra env k"
  have pos: "1 \<le> unat (min ?b (backoff_cap_ms sched))"
    using backoff_at_pos [OF assms(1,2), of k] assms(2) by (simp add: word_le_nat_alt min_def)
  have slept: "(\<Sum>j<Suc k. sleep_ms sched j) * 1000000 \<le> ?now1"
    using less.prems by (simp add: sleep_ms_def of_millis_def algebra_simps)
  show ?case
  proof (cases "deadline \<le> ?now1")
    case True
    then show ?thesis by (subst poll_loop.simps) (auto simp: Let_def)
  next
    case False
    then have now: "\<not> deadline \<le> now" by (simp add: of_millis_def)
    show ?thesis
    proof (cases "poll_reply sched errs (poll_status env k)")
      case (Inl out)
      then show ?thesis
        using False now slept by (subst poll_loop.simps) (auto simp: Let_def)
    next
      case (Inr st)
      obtain status' errs' where st: "st = (status', errs')" by (cases st)
      have "deadline - (?now1 + call_time env k) < deadline - now"
        using now pos by (auto simp: of_millis_def intro!: diff_less_mono2)
      moreover have "(\<Sum>j<Suc k. sleep_ms sched j) * 1000000 \<le> ?now1 + call_time env k"
        using slept by simp
      ultimately obtain out n where
        "poll_loop env sched deadline (backoff_at sched (Suc k)) status' errs' (Suc k)
           (?now1 + call_time env k) = Some (out, n)"
        "Suc k \<le> n" "n = Suc k \<or> (\<Sum>j<n. sleep_ms sched j) * 1000000 < deadline"
        using less.hyps by blast
      then show ?thesis
        using False now Inr st slept by (subst poll_loop.simps) (auto simp: Let_def)
    qed
  qed
qed

text \<open>How a poll ends: with the reply of its last call, or at the deadline with nothing decided.\<close>

definition decided_by :: "poll_env \<Rightarrow> PollSchedule \<Rightarrow> PollOutcome \<Rightarrow> nat \<Rightarrow> bool" where
  "decided_by env sched out n \<longleftrightarrow> (case out of
     PollFinalized sl \<Rightarrow> 0 < n \<and> poll_status env (n - 1) = Inr (Succeeded sl ''finalized'')
   | PollOnChainFailure r \<Rightarrow> 0 < n
       \<and> (\<exists>err. poll_status env (n - 1) = Inr (SigFailed err) \<and> r = ''tx failed on chain: '' @ err)
   | Timeout st \<Rightarrow> True)"

definition undecided :: "RpcErr + SigStatus \<Rightarrow> bool" where
  "undecided reply \<longleftrightarrow> (case reply of
     Inr (SigFailed _) \<Rightarrow> False | Inr (Succeeded _ c) \<Rightarrow> c \<noteq> ''finalized'' | _ \<Rightarrow> True)"

lemma poll_reply_Inr: "poll_reply sched errs reply = Inr st \<Longrightarrow> undecided reply"
  by (auto simp: poll_reply_def undecided_def Let_def split: sum.splits SigStatus.splits if_splits)

lemma poll_reply_Inl:
  "poll_reply sched errs reply = Inl out \<Longrightarrow> (case out of
     PollFinalized sl \<Rightarrow> reply = Inr (Succeeded sl ''finalized'')
   | PollOnChainFailure r \<Rightarrow> (\<exists>err. reply = Inr (SigFailed err) \<and> r = ''tx failed on chain: '' @ err)
   | Timeout st \<Rightarrow> undecided reply)"
  by (auto simp: poll_reply_def undecided_def Let_def split: sum.splits SigStatus.splits if_splits)

definition poll_ends :: "poll_env \<Rightarrow> PollSchedule \<Rightarrow> nat \<Rightarrow> PollOutcome \<times> nat \<Rightarrow> bool" where
  "poll_ends env sched k res \<longleftrightarrow> (\<forall>j < k. undecided (poll_status env j)) \<longrightarrow>
     (case res of (out, n) \<Rightarrow> decided_by env sched out n
       \<and> (\<forall>j < n. j \<noteq> n - 1 \<or> (\<exists>st. out = Timeout st) \<longrightarrow> undecided (poll_status env j)))"

lemma poll_loop_decided:
  assumes "poll_loop env sched deadline b last_status errs k now = Some res"
  shows "poll_ends env sched k res"
proof (rule poll_loop.raw_induct [where P = "\<lambda>env sched d b l e k now res. poll_ends env sched k res", OF _ assms])
  fix poll env sched deadline b last_status errs k now res
  assume IH: "\<And>env sched d b l e k now res. poll env sched d b l e k now = Some res \<Longrightarrow> poll_ends env sched k res"
    and body: "(if deadline \<le> now then Some (Timeout last_status, k)
     else let now1 = now + of_millis (min b (backoff_cap_ms sched)) + sleep_extra env k
     in if deadline \<le> now1 then Some (Timeout last_status, k)
     else case poll_reply sched errs (poll_status env k) of
       Inl out \<Rightarrow> Some (out, Suc k)
     | Inr (status', errs') \<Rightarrow>
         poll env sched deadline (next_backoff sched b) status' errs' (Suc k) (now1 + call_time env k)) = Some res"
  show "poll_ends env sched k res"
  proof (cases "poll_reply sched errs (poll_status env k)")
    case (Inl out)
    then show ?thesis
      using body poll_reply_Inl [OF Inl]
      by (auto simp: poll_ends_def decided_by_def Let_def less_Suc_eq split: if_splits PollOutcome.splits)
  next
    case (Inr st)
    obtain status' errs' where st: "st = (status', errs')" by (cases st)
    have "undecided (poll_status env k)" by (rule poll_reply_Inr [OF Inr])
    then have next_round: "poll_ends env sched k res" if "poll_ends env sched (Suc k) res"
      using that by (auto simp: poll_ends_def less_Suc_eq)
    show ?thesis
    proof (cases "res = (Timeout last_status, k)")
      case True
      then show ?thesis by (auto simp: poll_ends_def decided_by_def)
    next
      case False
      then show ?thesis
        using body Inr st by (auto simp: Let_def split: if_splits intro: next_round IH)
    qed
  qed
qed

lemma backoff_w5g: "backoff_at W5G_SCHEDULE (Suc (Suc k)) = 8000"
  by (induction k) (simp_all add: W5G_SCHEDULE_def next_backoff_def sat_mul2_def)

lemma slept_w5g: "(\<Sum>j<Suc (Suc m). sleep_ms W5G_SCHEDULE j) = 6000 + 8000 * m"
proof (induction m)
  case 0
  show ?case by (simp add: sleep_ms_def W5G_SCHEDULE_def next_backoff_def sat_mul2_def)
next
  case (Suc m)
  have "sleep_ms W5G_SCHEDULE (Suc (Suc m)) = 8000"
    unfolding sleep_ms_def backoff_w5g by (simp add: W5G_SCHEDULE_def)
  then show ?case using Suc by simp
qed

section \<open>Properties\<close>

text \<open>
  C13: polling ends. With a positive first backoff and cap the loop returns whatever the node
  answers and however long calls and sleeps take, and the sleeps before its status calls add up
  to less than the timeout; with the live schedule that is at most 16 calls.\<close>

theorem poll_returns:
  assumes "1 \<le> initial_backoff_ms sched" and "1 \<le> backoff_cap_ms sched"
  shows "\<exists>out n. poll_signature_with_backoff env sched = Some (out, n)
    \<and> (n = 0 \<or> (\<Sum>j<n. sleep_ms sched j) < unat (total_timeout_ms sched))
    \<and> (sched = W5G_SCHEDULE \<longrightarrow> n \<le> 16)"
proof -
  obtain out n where ret: "poll_signature_with_backoff env sched = Some (out, n)"
    and slept: "n = 0 \<or> (\<Sum>j<n. sleep_ms sched j) < unat (total_timeout_ms sched)"
    using poll_loop_returns [OF assms, of 0 0 env "of_millis (total_timeout_ms sched)" None 0]
    unfolding poll_signature_with_backoff_def by (auto simp: of_millis_def)
  have "n \<le> 16" if w5g: "sched = W5G_SCHEDULE"
  proof (rule ccontr)
    assume "\<not> n \<le> 16"
    then have "(\<Sum>j<17. sleep_ms sched j) \<le> (\<Sum>j<n. sleep_ms sched j)"
      by (intro sum_mono2) auto
    moreover have "(\<Sum>j<17. sleep_ms W5G_SCHEDULE j) = 126000"
      using slept_w5g [of 15] by simp
    ultimately show False using slept w5g \<open>\<not> n \<le> 16\<close> by (simp add: W5G_SCHEDULE_def)
  qed
  then show ?thesis using ret slept by blast
qed

text \<open>
  What a poll's outcome means. \<open>Finalized\<close> and \<open>OnChainFailure\<close> report the reply to the last
  status call, which said so, and every earlier reply was neither; after a timeout none was, so the
  fate of the transaction is unknown.\<close>

theorem poll_outcome_exact:
  assumes "poll_signature_with_backoff env sched = Some (out, n)"
  shows "(\<forall>sl. out = PollFinalized sl \<longrightarrow> 0 < n \<and> poll_status env (n - 1) = Inr (Succeeded sl ''finalized''))
    \<and> (\<forall>r. out = PollOnChainFailure r \<longrightarrow> 0 < n
        \<and> (\<exists>err. poll_status env (n - 1) = Inr (SigFailed err) \<and> r = ''tx failed on chain: '' @ err))
    \<and> (\<forall>j < n. j \<noteq> n - 1 \<or> (\<exists>st. out = Timeout st) \<longrightarrow> undecided (poll_status env j))"
  using poll_loop_decided [OF assms [unfolded poll_signature_with_backoff_def]]
  by (simp add: poll_ends_def decided_by_def split: PollOutcome.splits)

end
