(* ===== verification/Example_Execution.thy ===== *)
theory Example_Execution
  imports Auto_Execute Rule_Ids Example_Funding Chat_Rpc
begin

text \<open>
  A concrete rule, its row, its funded intent and executions on them: the theorems on stores,
  executor and watcher applied to one history.
\<close>

section \<open>The rule and its tables\<close>

definition xr_rule :: WatchRule where
  "xr_rule = \<lparr>wr_schema_version = 1, wr_rule_id = 7, wr_user = 3, wr_executor = 4,
     wr_delegated_wallet = 5, wr_created_at_slot = 10, wr_expires_at_slot = 9000, wr_one_shot = True,
     wr_condition_logic = All_logic,
     wr_conditions = [SolendReserveSupplyRate 1 2 3 Gt 300 Apr 10 25 True],
     wr_action = JupiterBuySolWithUsdc 1 2 3 None V1 4 True,
     wr_max_input_amount_raw = 250000, wr_used_amount_raw = 0, wr_destination = 6, wr_slippage_bps = 50\<rparr>"

definition xr_codec :: rule_codec where
  "xr_codec = \<lparr>sha256 = (\<lambda>_. 9), rule_to_json = (\<lambda>_. Inr ''J''), rule_from_json = (\<lambda>_. Inr xr_rule),
     base58 = (\<lambda>_. ''P'')\<rparr>"

definition xr_hash :: string where "xr_hash = hex_encode (array_bytes (9 :: 256 word))"

definition xr_id :: string where "xr_id = rule_id_hex 7"

definition xr_rules :: rule_db where
  "xr_rules = snd (insert_rule xr_codec None 1000 xr_rule [])"

definition xr_intent :: NewW5hFundingIntent where
  "xr_intent = \<lparr>new_intent_id = xr_id, new_rule_id_hex = xr_id, new_canonical_rule_hash_hex = xr_hash,
     new_user_wallet = ''U'', new_user_usdc_ata = ''UA'', new_controlled_wallet = PINNED_CONTROLLED_WALLET,
     new_controlled_usdc_ata = PINNED_CONTROLLED_USDC_ATA, new_amount_raw = 250000, new_threshold_bps = 300,
     new_save_display_apy_bps = 200, new_native_onchain_apr_bps = 190,
     new_created_at_ms = 1000, new_expires_at_ms = 181000\<rparr>"

definition xr_row :: RowRaw where
  "xr_row = reserved_set 1500 77 (submitted_set 1200 ''S'' (new_row 1000 xr_intent))"

definition xr_state :: exec_state where
  "xr_state = \<lparr>st_rules = xr_rules, st_intents = [xr_row]\<rparr>"

definition xr_config :: Stage2ChatExecuteConfig where
  "xr_config = \<lparr>master_gate_on = True, env_approval_phrase = Some W5G_REQUIRED_APPROVAL_PHRASE,
     cluster = Some W5G_CLUSTER_MAINNET, rpc_url_present = True, keypair_path_present = True\<rparr>"

definition xr_env :: "ChatExecuteSendOutcome \<Rightarrow> exec_env" where
  "xr_env out = \<lparr>config = xr_config, codec = xr_codec, w5h_intent_repo = True,
     call_verdict = (\<lambda>_. None), call_clock = (\<lambda>_. 2000), other_tasks = (\<lambda>_ s. s),
     fetch_main_pool_usdc = Inr 400, evaluate_apr = (\<lambda>_. Inr (390, 1000000)),
     build_sign_send_poll = (\<lambda>_. out), pubkey_from_str = (\<lambda>_. 0)\<rparr>"

definition xr_req :: ChatExecuteRequest where
  "xr_req = \<lparr>cr_rule_id_hex = xr_id, cr_canonical_rule_hash_hex = xr_hash,
     cr_approval_phrase = W5G_REQUIRED_APPROVAL_PHRASE\<rparr>"

definition xr_sreq :: ChatExecuteSendRequest where
  "xr_sreq = \<lparr>sr_controlled_wallet = 5, sr_amount_raw = 250000, sr_target_obligation = 0, sr_reserve_pubkey = 0\<rparr>"

definition xr_finalized :: ChatExecuteSendOutcome where
  "xr_finalized = Finalized ''SIG'' 500 700 4 False 300000 50000 0 240000"

section \<open>The histories behind the tables\<close>

lemma xr_row_cols:
  "row_intent_id xr_row = xr_id" "row_status xr_row = status_as_str BudgetReserved"
  "row_expires_at_ms xr_row = 181000"
  by (simp_all add: xr_row_def set_defs new_row_def xr_intent_def)

lemma xr_reach: "reach (\<lambda>db. db = []) funding_step [xr_row]"
proof -
  let ?new = "new_row 1000 xr_intent" and ?sub = "submitted_set 1200 ''S'' (new_row 1000 xr_intent)"
  have "funding_step [] [?new]"
    using do_insert [of "[]" None 1000 xr_intent] by (simp add: insert_intent_def sql_insert_table)
  moreover have "funding_step [?new] [?sub]"
    using do_submit [of "[?new]" None 1200 xr_id "''S''"]
    by (simp add: mark_funding_submitted_if_required_def sql_update_table where_defs new_row_def xr_intent_def)
  moreover have "funding_step [?sub] [xr_row]"
    using do_reserve [of "[?sub]" None 1500 xr_id "''S''" 77]
    by (simp add: mark_budget_reserved_if_submitted_def sql_update_table where_defs xr_row_def set_defs
        new_row_def xr_intent_def)
  ultimately show ?thesis using reach_init [of "\<lambda>db. db = []" "[]" funding_step] by (metis reach_step)
qed

lemma xr_get: "\<exists>s. get_rule xr_codec None 7 xr_rules = Inr (Some s) \<and> sw_rule s = xr_rule \<and> sw_status s = WsActive
    \<and> sw_canonical_rule_hash s = 9"
proof -
  have "wr_rule_id xr_rule = 7" by (simp add: xr_rule_def)
  then show ?thesis
    using inserted_rule [of xr_codec xr_rule "''J''" 1000 "[]"]
    by (auto simp: xr_rules_def xr_codec_def insert_rule_def sql_insert_def canonical_rule_hash_def)
qed

lemma xr_gates: "check_gates (config (xr_env out)) xr_req = Inr ()"
  by (simp add: check_gates_Inr xr_env_def xr_config_def xr_req_def)

lemma xr_check_rule:
  assumes "sw_rule s = xr_rule" and "sw_status s = WsActive"
  shows "check_rule (xr_env out) xr_req s = Inr (xr_hash, 300)"
  unfolding check_rule_Inr
  by (simp add: assms xr_env_def xr_codec_def canonical_rule_hash_def xr_hash_def xr_req_def
      eq_ignore_ascii_case_def extract_threshold_bps_def xr_rule_def PHASE5C_MIN_AMOUNT_RAW_def
      PHASE5C_MAX_AMOUNT_RAW_def)

lemma xr_check_live: "check_live (xr_env out) 300 250000 = Inr (400, 390)"
  by (simp add: check_live_Inr xr_env_def)

lemma xr_lease:
  "acquire_lease (xr_env out) xr_req \<lparr>st_rules = rs, st_intents = [xr_row]\<rparr>
    = (Inr (), \<lparr>st_rules = rs, st_intents = [status_set EXECUTING 2000 xr_row]\<rparr>)"
  by (simp add: acquire_lease_def xr_env_def xr_req_def Let_def lease_execution_if_budget_reserved_def
      sql_update_def lease_execution_where_def xr_row_cols)

lemma xr_executes:
  "chat_execute (xr_env out) xr_req xr_state =
    (let fin = finish_send (xr_env out) xr_req 7 250000 (base_outcome xr_req xr_hash 400 390 300) out
       \<lparr>st_rules = xr_rules, st_intents = [status_set EXECUTING 2000 xr_row]\<rparr>
     in Some (fst fin, Some xr_sreq, snd fin))"
proof -
  obtain s where s: "get_rule xr_codec None 7 xr_rules = Inr (Some s)" "sw_rule s = xr_rule" "sw_status s = WsActive"
    using xr_get by blast
  have rid: "decode_rule_id_hex (cr_rule_id_hex xr_req) = Returns (Some 7)"
    by (simp add: xr_req_def xr_id_def rule_id_decoded)
  have env: "other_tasks (xr_env out) k st = st" "codec (xr_env out) = xr_codec" "call_verdict (xr_env out) k = None"
    "build_sign_send_poll (xr_env out) q = out" "pubkey_from_str (xr_env out) a = 0" for k st q a
    by (simp_all add: xr_env_def)
  have rule: "wr_max_input_amount_raw xr_rule = 250000" "wr_delegated_wallet xr_rule = 5"
    by (simp_all add: xr_rule_def)
  show ?thesis
    using s xr_check_rule [OF s(2,3), of out]
    by (simp add: chat_execute_def xr_gates rid env lookup_rule_def xr_state_def execute_rule_def rule
        xr_check_live xr_lease Let_def case_prod_beta xr_sreq_def)
qed

section \<open>Rules\<close>

theorem canonical_bytes_bind_witness:
  "canonical_rule_bytes xr_rule \<noteq> canonical_rule_bytes (xr_rule\<lparr>wr_max_input_amount_raw := 250001\<rparr>)"
  using canonical_bytes_bind [of xr_rule "xr_rule\<lparr>wr_max_input_amount_raw := 250001\<rparr>"]
  by (simp add: xr_rule_def)

definition xr_met :: rule_db where
  "xr_met = snd (mark_condition_met_if_active None 1100 7 xr_rules)"

lemma xr_rules_row: "\<exists>r. xr_rules = [r] \<and> rr_rule_id r = rule_id_hex 7 \<and> rr_status r = rule_status_as_str WsActive"
  by (simp add: xr_rules_def insert_rule_def xr_codec_def sql_insert_def rule_row_def xr_rule_def)

lemma xr_met_row:
  "\<exists>r. xr_met = [r] \<and> rr_rule_id r = rule_id_hex 7 \<and> rr_status r = rule_status_as_str WsConditionMet"
proof -
  obtain r where r: "xr_rules = [r]" and "rr_rule_id r = rule_id_hex 7" "rr_status r = rule_status_as_str WsActive"
    using xr_rules_row by blast
  then show ?thesis
    unfolding xr_met_def r by (simp add: xr_met_def mark_condition_met_if_active_def sql_update_def rule_where_def rule_sets)
qed

theorem rule_lease_once_witness:
  "fst (mark_executing_if_condition_met None 1200 7 1 xr_met) = Inr 1
   \<and> fst (mark_executing_if_condition_met None 1300 7 2 (snd (mark_executing_if_condition_met None 1200 7 1 xr_met)))
     \<noteq> Inr 1"
proof -
  obtain r where r: "xr_met = [r]" "rr_rule_id r = rule_id_hex 7" "rr_status r = rule_status_as_str WsConditionMet"
    using xr_met_row by blast
  have keyed: "keyed rr_rule_id xr_met" by (simp add: keyed_def r(1))
  have won: "fst (mark_executing_if_condition_met None 1200 7 1 xr_met) = Inr 1"
    unfolding mark_executing_if_condition_met_def rule_lease.cas_won [OF keyed]
    unfolding r(1) using r(2,3) by (simp add: rule_where_def)
  from won rule_lease_once [OF keyed won rtranclp.rtrancl_refl, of None 1300 2] show ?thesis by blast
qed

theorem loaded_rule_authentic_witness:
  "\<exists>s. get_rule xr_codec None 7 xr_rules = Inr (Some s) \<and> wr_rule_id (sw_rule s) = 7
     \<and> sha256 xr_codec (canonical_rule_bytes (sw_rule s)) = sw_canonical_rule_hash s"
proof -
  obtain s where s: "get_rule xr_codec None 7 xr_rules = Inr (Some s)" using xr_get by blast
  from loaded_rule_authentic [OF s] s show ?thesis by blast
qed

theorem inserted_rule_loads_witness:
  "\<exists>s. get_rule xr_codec None (wr_rule_id xr_rule) (snd (insert_rule xr_codec None 1000 xr_rule [])) = Inr (Some s)
     \<and> sw_rule s = xr_rule"
  using inserted_rule_loads [of xr_codec xr_rule "''J''" 1000 "[]"]
  by (auto simp: xr_codec_def insert_rule_def sql_insert_def)

section \<open>Executions\<close>

lemma xr_sent:
  obtains out st' where "chat_execute (xr_env o') xr_req xr_state = Some (out, Some xr_sreq, st')"
  using xr_executes [of o'] by (simp add: Let_def)

theorem deposit_gated_witness:
  "sr_amount_raw xr_sreq = 250000
   \<and> (\<exists>r \<in> set (lease_table (xr_env xr_finalized) xr_state). row_intent_id r = cr_rule_id_hex xr_req
        \<and> status_parse (row_status r) = Some BudgetReserved)"
proof -
  obtain out st' where "chat_execute (xr_env xr_finalized) xr_req xr_state = Some (out, Some xr_sreq, st')"
    by (rule xr_sent)
  from deposit_gated [OF this] show ?thesis by (auto simp: xr_sreq_def xr_env_def)
qed

definition xr_after :: exec_state where
  "xr_after = snd (finish_send (xr_env xr_finalized) xr_req 7 250000 (base_outcome xr_req xr_hash 400 390 300)
     xr_finalized \<lparr>st_rules = xr_rules, st_intents = [status_set EXECUTING 2000 xr_row]\<rparr>)"

lemma xr_keeping: "keeping_tasks iid (xr_env o')"
  by (simp add: keeping_tasks_def xr_env_def)

lemma xr_completes:
  obtains out where "chat_execute (xr_env xr_finalized) xr_req xr_state = Some (out, Some xr_sreq, xr_after)"
    "co_tx_signature out = Some ''SIG''" "co_status out = CxCompleted"
proof -
  let ?out = "fst (finish_send (xr_env xr_finalized) xr_req 7 250000 (base_outcome xr_req xr_hash 400 390 300)
     xr_finalized \<lparr>st_rules = xr_rules, st_intents = [status_set EXECUTING 2000 xr_row]\<rparr>)"
  have "co_tx_signature ?out = Some ''SIG''" "co_status ?out = CxCompleted"
    by (simp_all add: finish_send_def xr_finalized_def Let_def case_prod_beta)
  then show thesis
    using that xr_executes [of xr_finalized] by (simp add: Let_def xr_after_def)
qed

theorem deposit_sent_once_witness:
  "\<forall>out2 sreq st3. chat_execute (xr_env xr_finalized) xr_req xr_after \<noteq> Some (out2, Some sreq, st3)"
proof (intro allI)
  fix out2 sreq st3
  obtain out where exec: "chat_execute (xr_env xr_finalized) xr_req xr_state = Some (out, Some xr_sreq, xr_after)"
    and sig: "co_tx_signature out = Some ''SIG''" by (rule xr_completes)
  show "chat_execute (xr_env xr_finalized) xr_req xr_after \<noteq> Some (out2, Some sreq, st3)"
    by (rule deposit_sent_once [OF _ _ _ xr_keeping xr_keeping refl refl exec sig rtranclp.rtrancl_refl])
      (simp_all add: xr_env_def xr_state_def xr_reach)
qed

theorem resend_after_broadcast_failure_witness:
  "\<exists>out st' out2 st2. chat_execute (xr_env (BroadcastFailed ''timeout'')) xr_req xr_state = Some (out, Some xr_sreq, st')
     \<and> chat_execute (xr_env (BroadcastFailed ''timeout'')) xr_req st' = Some (out2, Some xr_sreq, st2)"
proof -
  obtain out st' where exec: "chat_execute (xr_env (BroadcastFailed ''timeout'')) xr_req xr_state = Some (out, Some xr_sreq, st')"
    by (rule xr_sent)
  have "\<exists>out2 st2. chat_execute (xr_env (BroadcastFailed ''timeout'')) xr_req st' = Some (out2, Some xr_sreq, st2)"
    using resend_after_broadcast_failure [OF exec, of "''timeout''"]
    by (simp add: xr_env_def xr_state_def keyed_def)
  with exec show ?thesis by blast
qed

text \<open>A rule id of 32 bytes whose second character takes the bytes 1 and 2.\<close>

definition xr_bad_id :: string where
  "xr_bad_id = CHR ''a'' # CHR 0xC3 # CHR 0xA9 # replicate 29 CHR ''a''"

lemma xr_bad_trim: "str_trim xr_bad_id = xr_bad_id"
proof -
  have "ws_front (str_bytes xr_bad_id) = 0"
    by (simp add: xr_bad_id_def str_bytes_def ascii_ws_def)
  moreover have "ws_back xr_bad_id = 0"
    by (simp add: xr_bad_id_def ws_back_def str_bytes_def ascii_ws_def Let_def eval_nat_numeral)
  ultimately show ?thesis
    unfolding str_trim_def by (subst trim_start.simps, subst trim_end.simps) (simp add: Let_def)
qed

lemma xr_bad_len: "length xr_bad_id = 32"
  by (simp add: xr_bad_id_def)

theorem chat_execute_panics_witness:
  "utf8_valid (as_bytes xr_bad_id)
   \<and> chat_execute (xr_env xr_finalized) (xr_req\<lparr>cr_rule_id_hex := xr_bad_id\<rparr>) xr_state = None"
proof
  show "utf8_valid (as_bytes xr_bad_id)"
  proof -
    have "utf8_valid (replicate 29 0x61)" by (rule utf8_valid_ascii) simp
    then show ?thesis by (simp add: xr_bad_id_def as_bytes_def byte_of_char_def is_cont_def)
  qed
  have "check_gates (config (xr_env xr_finalized)) (xr_req\<lparr>cr_rule_id_hex := xr_bad_id\<rparr>) = Inr ()"
    using xr_gates by (simp add: check_gates_Inr)
  moreover have "\<not> is_char_boundary xr_bad_id 2"
    by (simp add: is_char_boundary_def xr_bad_id_def is_cont_def byte_of_char_def)
  ultimately show "chat_execute (xr_env xr_finalized) (xr_req\<lparr>cr_rule_id_hex := xr_bad_id\<rparr>) xr_state = None"
    unfolding chat_execute_panics
    by (auto simp: xr_bad_trim xr_bad_len numeral_2_eq_2 intro!: exI [of _ 0])
qed

section \<open>The watcher\<close>

definition xr_tick :: tick_env where
  "xr_tick = \<lparr>te_list_verdict = None, te_save_apy = Inr 400, te_exec = (\<lambda>_. xr_env xr_finalized)\<rparr>"

lemma xr_listed: "\<exists>i. list_budget_reserved None 16 [xr_row] = Inr [i] \<and> is_pinned_demo_shape i
    \<and> W5hFundingIntent.threshold_bps i = 300 \<and> auto_request i = xr_req"
  by (simp add: list_budget_reserved_def sql_select_all_def xr_row_cols row_to_intent_def)
    (simp add: xr_row_def set_defs new_row_def xr_intent_def is_pinned_demo_shape_def sint_negative_iff
      PHASE5C_MIN_AMOUNT_RAW_def PHASE5C_MAX_AMOUNT_RAW_def auto_request_def xr_req_def)

lemma xr_after_row: "\<exists>r. st_intents xr_after = [r] \<and> row_status r = status_as_str Completed"
  by (simp add: xr_after_def finish_send_def xr_finalized_def Let_def case_prod_beta update_intent_def
      xr_env_def mark_completed_if_executing_def sql_update_def where_defs set_defs xr_row_cols xr_req_def)

lemma xr_ticks:
  obtains rep d where "tick xr_tick xr_state = Some (Inr rep, [d], xr_after)"
    and "fst d = xr_req" and "\<exists>rep'. tick xr_tick xr_after = Some (Inr rep', [], xr_after)"
proof -
  obtain i where i: "list_budget_reserved None 16 [xr_row] = Inr [i]" "is_pinned_demo_shape i"
    "W5hFundingIntent.threshold_bps i = 300" "auto_request i = xr_req" using xr_listed by blast
  obtain out where exec: "chat_execute (xr_env xr_finalized) xr_req xr_state = Some (out, Some xr_sreq, xr_after)"
    by (rule xr_completes)
  have st: "st_intents xr_state = [xr_row]" by (simp add: xr_state_def)
  have "\<exists>rep. tick xr_tick xr_state = Some (Inr rep, [(xr_req, out, Some xr_sreq)], xr_after)"
    by (simp add: tick_def xr_tick_def MAX_INTENTS_PER_TICK_def st i exec Let_def)
  moreover obtain r where r: "st_intents xr_after = [r]" "row_status r = status_as_str Completed"
    using xr_after_row by blast
  have "list_budget_reserved None 16 (st_intents xr_after) = Inr []"
    unfolding r(1) by (simp add: list_budget_reserved_def sql_select_all_def r(2))
  then have "\<exists>rep'. tick xr_tick xr_after = Some (Inr rep', [], xr_after)"
    by (simp add: tick_def xr_tick_def MAX_INTENTS_PER_TICK_def Let_def)
  ultimately show thesis using that by (metis fst_conv)
qed

theorem tick_report_exact_witness:
  "\<exists>rep ds st'. tick xr_tick xr_state = Some (Inr rep, ds, st') \<and> length ds = 1 \<and> report_adds_up rep ds"
proof -
  obtain rep d where "tick xr_tick xr_state = Some (Inr rep, [d], xr_after)" by (rule xr_ticks)
  from tick_report_exact [OF this] this show ?thesis by auto
qed

theorem no_dispatch_after_signature_witness:
  "\<exists>ds st'. run_ticks [(\<lambda>s. s, xr_tick), (\<lambda>s. s, xr_tick)] xr_state = Some (ds, st')
     \<and> length ds = 1 \<and> sorted_wrt once ds"
proof -
  obtain rep d where d: "tick xr_tick xr_state = Some (Inr rep, [d], xr_after)"
    and idle: "\<exists>rep'. tick xr_tick xr_after = Some (Inr rep', [], xr_after)" by (rule xr_ticks)
  have run: "run_ticks [(\<lambda>s. s, xr_tick), (\<lambda>s. s, xr_tick)] xr_state = Some ([d], xr_after)"
    using d idle by auto
  have keep: "list_all keeping_tick [(\<lambda>s. s, xr_tick), (\<lambda>s. s, xr_tick)]"
    using xr_keeping by (simp add: keeping_tick_def keeping_env_def xr_tick_def, simp add: xr_env_def)
  have "reach (\<lambda>db. db = []) funding_step (st_intents xr_state)" by (simp add: xr_state_def xr_reach)
  from no_dispatch_after_signature [OF this keep run] run show ?thesis by auto
qed

section \<open>Polling\<close>

definition xr_poll :: poll_env where
  "xr_poll = \<lparr>poll_status = (\<lambda>k. if k < 2 then Inr NotFound else Inr (Succeeded 500 ''finalized'')),
     sleep_extra = (\<lambda>_. 5), call_time = (\<lambda>_. 7)\<rparr>"

theorem poll_returns_witness:
  "\<exists>out n. poll_signature_with_backoff xr_poll W5G_SCHEDULE = Some (out, n) \<and> n \<le> 16"
  using poll_returns [of W5G_SCHEDULE xr_poll] by (auto simp: W5G_SCHEDULE_def)

end
