(* ===== verification/Solend_Raw.thy ===== *)
theory Solend_Raw
  imports Solend_Account_Decode
begin

text \<open>
  \<open>crates/gateway/src/integrations/solend/raw.rs\<close>: the gateway's decoders of Solend obligation and
  reserve accounts. A slice or an index outside the buffer would panic: the readers return \<open>None\<close>
  there, and the decoders are shown never to.
\<close>

section \<open>Layout\<close>

definition OBLIGATION_LEN :: nat where "OBLIGATION_LEN = 1300"
definition OBLIGATION_COLLATERAL_LEN :: nat where "OBLIGATION_COLLATERAL_LEN = 88"
definition OBLIGATION_LIQUIDITY_LEN :: nat where "OBLIGATION_LIQUIDITY_LEN = 112"
definition RESERVE_LEN :: nat where "RESERVE_LEN = 619"
definition SOLEND_WAD :: u128 where "SOLEND_WAD = 1000000000000000000"

definition SOLEND_PROGRAM_ID_BS58 :: string where "SOLEND_PROGRAM_ID_BS58 = ''So1endDq2YkqhipRh3WViPa8hdiSpxWy6z3Z6tMCpAo''"

definition SPL_TOKEN_PROGRAM_ID_BS58 :: string where
  "SPL_TOKEN_PROGRAM_ID_BS58 = ''TokenkegQfeZyiNwAJbNbGKPFXCWuBvf9Ss623VQ5DA''"

definition SOLEND_NULL_ORACLE_SENTINEL_BS58 :: string where
  "SOLEND_NULL_ORACLE_SENTINEL_BS58 = ''nu11111111111111111111111111111111111111111''"

lemmas raw_lens = OBLIGATION_LEN_def OBLIGATION_COLLATERAL_LEN_def OBLIGATION_LIQUIDITY_LEN_def RESERVE_LEN_def

record SolendObligationCollateralRaw =
  deposit_reserve :: pubkey
  deposited_amount :: u64

record SolendObligationLiquidityRaw =
  borrow_reserve :: pubkey
  borrowed_amount_wads :: u128

record SolendObligationRaw =
  ob_version :: u8
  ob_last_update_slot :: u64
  ob_last_update_stale :: bool
  ob_lending_market :: pubkey
  ob_owner :: pubkey
  ob_deposits :: "SolendObligationCollateralRaw list"
  ob_borrows :: "SolendObligationLiquidityRaw list"
  ob_borrowed_value_upper_bound_wads :: u128
  ob_borrowing_isolated_asset :: bool
  ob_super_unhealthy_borrow_value_wads :: u128
  ob_unweighted_borrowed_value_wads :: u128
  ob_closeable :: bool

record SolendReserveRaw =
  re_version :: u8
  re_last_update_slot :: u64
  re_last_update_stale :: bool
  re_lending_market :: pubkey
  re_liquidity_mint :: pubkey
  re_liquidity_mint_decimals :: u8
  re_liquidity_supply :: pubkey
  re_pyth_oracle :: pubkey
  re_switchboard_oracle :: pubkey
  re_liquidity_available_amount :: u64
  re_liquidity_borrowed_amount_wads :: u128
  re_liquidity_accumulated_protocol_fees_wads :: u128
  re_collateral_mint :: pubkey
  re_collateral_supply :: pubkey
  re_config_deposit_limit :: u64
  re_config_optimal_utilization_rate_pct :: u8
  re_config_min_borrow_rate_pct :: u8
  re_config_optimal_borrow_rate_pct :: u8
  re_config_max_borrow_rate_pct :: u8
  re_config_protocol_take_rate_pct :: u8
  re_config_max_utilization_rate_pct :: u8
  re_config_super_max_borrow_rate_pct :: u64

datatype DecodeError =
    ObligationWrongSize nat
  | ReserveWrongSize nat
  | ObligationPaddingNonZero
  | ObligationArrayOverflow u8 u8
  | ObligationStaleBitInvalid u8
  | ReserveStaleBitInvalid u8
  | ObligationBoolInvalid nat u8 string

section \<open>Supply and headroom\<close>

definition liquidity_total_supply_raw :: "SolendReserveRaw \<Rightarrow> u64 option" where
  "liquidity_total_supply_raw r =
    Option.bind (checked_mul (ucast (re_liquidity_available_amount r) :: u128) SOLEND_WAD) (\<lambda>available_wads.
    Option.bind (checked_add available_wads (re_liquidity_borrowed_amount_wads r)) (\<lambda>summed.
    Option.bind (checked_sub summed (re_liquidity_accumulated_protocol_fees_wads r)) (\<lambda>after_fees.
    let floored = after_fees div SOLEND_WAD in
    if unat floored < 2 ^ 64 then Some (ucast floored) else None)))"

definition deposit_headroom_raw :: "SolendReserveRaw \<Rightarrow> u64" where
  "deposit_headroom_raw r = (case liquidity_total_supply_raw r of
     None \<Rightarrow> 0
   | Some tot \<Rightarrow> (if tot \<le> re_config_deposit_limit r then re_config_deposit_limit r - tot else 0))"

section \<open>Decoders\<close>

definition raw_u8 :: "u8 list \<Rightarrow> nat \<Rightarrow> u8 option" where
  "raw_u8 bs off = get_index bs off"

definition raw_u64_le :: "u8 list \<Rightarrow> nat \<Rightarrow> u64 option" where
  "raw_u64_le bs off = map_option from_le_bytes (get_range bs off 8)"

definition raw_u128_le :: "u8 list \<Rightarrow> nat \<Rightarrow> u128 option" where
  "raw_u128_le bs off = map_option from_le_bytes (get_range bs off 16)"

definition raw_pubkey :: "u8 list \<Rightarrow> nat \<Rightarrow> pubkey option" where
  "raw_pubkey bs off = map_option array_of_bytes (get_range bs off 32)"

text \<open>A canonical boolean byte, or the error built from the byte that is not.\<close>

definition raw_bool :: "u8 list \<Rightarrow> nat \<Rightarrow> (u8 \<Rightarrow> 'e) \<Rightarrow> ('e + bool) option" where
  "raw_bool bs off err = map_option (\<lambda>b. if b = 0 then Inr False else if b = 1 then Inr True else Inl (err b))
     (raw_u8 bs off)"

definition raw_ok :: "('e + 'a) option \<Rightarrow> ('a \<Rightarrow> ('e + 'b) option) \<Rightarrow> ('e + 'b) option" where
  "raw_ok m f = Option.bind m (\<lambda>r. case r of Inl e \<Rightarrow> Some (Inl e) | Inr x \<Rightarrow> f x)"

definition raw_deposit :: "u8 list \<Rightarrow> nat \<Rightarrow> SolendObligationCollateralRaw option" where
  "raw_deposit bs i =
    (let base = 204 + i * OBLIGATION_COLLATERAL_LEN in
     Option.bind (raw_pubkey bs base) (\<lambda>r.
     Option.bind (raw_u64_le bs (base + 32)) (\<lambda>a.
     Some \<lparr>deposit_reserve = r, deposited_amount = a\<rparr>)))"

definition raw_borrow :: "u8 list \<Rightarrow> nat \<Rightarrow> nat \<Rightarrow> SolendObligationLiquidityRaw option" where
  "raw_borrow bs borrows_start i =
    (let base = borrows_start + i * OBLIGATION_LIQUIDITY_LEN in
     Option.bind (raw_pubkey bs base) (\<lambda>r.
     Option.bind (raw_u128_le bs (base + 48)) (\<lambda>a.
     Some \<lparr>borrow_reserve = r, borrowed_amount_wads = a\<rparr>)))"

definition raw_decode_obligation :: "u8 list \<Rightarrow> (DecodeError + SolendObligationRaw) option" where
  "raw_decode_obligation bs =
    (if length bs \<noteq> OBLIGATION_LEN then Some (Inl (ObligationWrongSize (length bs)))
     else Option.bind (get_range bs 188 14) (\<lambda>padding.
     if list_ex (\<lambda>b. b \<noteq> 0) padding then Some (Inl ObligationPaddingNonZero)
     else Option.bind (raw_u8 bs 0) (\<lambda>version.
     Option.bind (raw_u64_le bs 1) (\<lambda>slt.
     raw_ok (raw_bool bs 9 ObligationStaleBitInvalid) (\<lambda>stale.
     Option.bind (raw_pubkey bs 10) (\<lambda>market.
     Option.bind (raw_pubkey bs 42) (\<lambda>owner.
     Option.bind (raw_u128_le bs 138) (\<lambda>upper.
     raw_ok (raw_bool bs 154 (\<lambda>b. ObligationBoolInvalid 154 b ''borrowing_isolated_asset'')) (\<lambda>isolated.
     Option.bind (raw_u128_le bs 155) (\<lambda>super.
     Option.bind (raw_u128_le bs 171) (\<lambda>unweighted.
     raw_ok (raw_bool bs 187 (\<lambda>b. ObligationBoolInvalid 187 b ''closeable'')) (\<lambda>closeable.
     Option.bind (raw_u8 bs 202) (\<lambda>deposits_len.
     Option.bind (raw_u8 bs 203) (\<lambda>borrows_len.
     if unat deposits_len * OBLIGATION_COLLATERAL_LEN + unat borrows_len * OBLIGATION_LIQUIDITY_LEN
          > OBLIGATION_LEN - 204
     then Some (Inl (ObligationArrayOverflow deposits_len borrows_len))
     else Option.bind (those (map (raw_deposit bs) [0..<unat deposits_len])) (\<lambda>deposits.
     Option.bind (those (map (raw_borrow bs (204 + unat deposits_len * OBLIGATION_COLLATERAL_LEN))
                          [0..<unat borrows_len])) (\<lambda>borrows.
     Some (Inr \<lparr>ob_version = version, ob_last_update_slot = slt, ob_last_update_stale = stale,
       ob_lending_market = market, ob_owner = owner, ob_deposits = deposits, ob_borrows = borrows,
       ob_borrowed_value_upper_bound_wads = upper, ob_borrowing_isolated_asset = isolated,
       ob_super_unhealthy_borrow_value_wads = super, ob_unweighted_borrowed_value_wads = unweighted,
       ob_closeable = closeable\<rparr>)))))))))))))))))"

definition raw_decode_reserve :: "u8 list \<Rightarrow> (DecodeError + SolendReserveRaw) option" where
  "raw_decode_reserve bs =
    (if length bs \<noteq> RESERVE_LEN then Some (Inl (ReserveWrongSize (length bs)))
     else Option.bind (raw_u8 bs 0) (\<lambda>version.
     Option.bind (raw_u64_le bs 1) (\<lambda>slt.
     raw_ok (raw_bool bs 9 ReserveStaleBitInvalid) (\<lambda>stale.
     Option.bind (raw_pubkey bs 10) (\<lambda>market.
     Option.bind (raw_pubkey bs 42) (\<lambda>liq_mint.
     Option.bind (raw_u8 bs 74) (\<lambda>decimals.
     Option.bind (raw_pubkey bs 75) (\<lambda>liq_supply.
     Option.bind (raw_pubkey bs 107) (\<lambda>pyth.
     Option.bind (raw_pubkey bs 139) (\<lambda>switchboard.
     Option.bind (raw_u64_le bs 171) (\<lambda>available.
     Option.bind (raw_u128_le bs 179) (\<lambda>borrowed.
     Option.bind (raw_u128_le bs 373) (\<lambda>fees.
     Option.bind (raw_pubkey bs 227) (\<lambda>coll_mint.
     Option.bind (raw_pubkey bs 267) (\<lambda>coll_supply.
     Option.bind (raw_u64_le bs 323) (\<lambda>deposit_limit.
     Option.bind (raw_u8 bs 299) (\<lambda>opt_util.
     Option.bind (raw_u8 bs 303) (\<lambda>min_rate.
     Option.bind (raw_u8 bs 304) (\<lambda>opt_rate.
     Option.bind (raw_u8 bs 305) (\<lambda>max_rate.
     Option.bind (raw_u8 bs 372) (\<lambda>take_rate.
     Option.bind (raw_u8 bs 470) (\<lambda>max_util.
     Option.bind (raw_u64_le bs 471) (\<lambda>super_max.
     Some (Inr \<lparr>re_version = version, re_last_update_slot = slt, re_last_update_stale = stale,
       re_lending_market = market, re_liquidity_mint = liq_mint, re_liquidity_mint_decimals = decimals,
       re_liquidity_supply = liq_supply, re_pyth_oracle = pyth, re_switchboard_oracle = switchboard,
       re_liquidity_available_amount = available, re_liquidity_borrowed_amount_wads = borrowed,
       re_liquidity_accumulated_protocol_fees_wads = fees, re_collateral_mint = coll_mint,
       re_collateral_supply = coll_supply, re_config_deposit_limit = deposit_limit,
       re_config_optimal_utilization_rate_pct = opt_util, re_config_min_borrow_rate_pct = min_rate,
       re_config_optimal_borrow_rate_pct = opt_rate, re_config_max_borrow_rate_pct = max_rate,
       re_config_protocol_take_rate_pct = take_rate, re_config_max_utilization_rate_pct = max_util,
       re_config_super_max_borrow_rate_pct = super_max\<rparr>))))))))))))))))))))))))"

definition is_null_oracle_sentinel :: "(pubkey \<Rightarrow> string) \<Rightarrow> pubkey \<Rightarrow> bool" where
  "is_null_oracle_sentinel to_string pk \<longleftrightarrow> to_string pk = SOLEND_NULL_ORACLE_SENTINEL_BS58"

section \<open>Reads inside the buffer\<close>

lemma raw_reads:
  "off < length bs \<Longrightarrow> raw_u8 bs off = Some (bs ! off)"
  "off + 8 \<le> length bs \<Longrightarrow> raw_u64_le bs off = Some (from_le_bytes (take 8 (drop off bs)))"
  "off + 16 \<le> length bs \<Longrightarrow> raw_u128_le bs off = Some (from_le_bytes (take 16 (drop off bs)))"
  "off + 32 \<le> length bs \<Longrightarrow> raw_pubkey bs off = Some (array_of_bytes (take 32 (drop off bs)))"
  by (simp_all add: raw_u8_def raw_u64_le_def raw_u128_le_def raw_pubkey_def get_index_def get_range_def)

lemma raw_bool_read:
  "off < length bs \<Longrightarrow> raw_bool bs off err =
    Some (if bs ! off = 0 then Inr False else if bs ! off = 1 then Inr True else Inl (err (bs ! off)))"
  by (simp add: raw_bool_def raw_reads)

lemma raw_ok_Some: "raw_ok (Some r) f = (case r of Inl e \<Rightarrow> Some (Inl e) | Inr x \<Rightarrow> f x)"
  by (simp add: raw_ok_def)

lemma those_Some: "(\<And>x. x \<in> set xs \<Longrightarrow> f x \<noteq> None) \<Longrightarrow> those (map f xs) = Some (map (\<lambda>x. the (f x)) xs)"
proof (induction xs)
  case (Cons x xs)
  from Cons.prems obtain y where "f x = Some y" by fastforce
  then show ?case using Cons by simp
qed simp

lemma raw_deposits_read:
  assumes "length bs = 1300" and "n * 88 \<le> 1096"
  shows "those (map (raw_deposit bs) [0..<n]) = Some (map (\<lambda>i. the (raw_deposit bs i)) [0..<n])"
  using assms by (intro those_Some) (auto simp: raw_deposit_def raw_lens raw_reads Let_def)

lemma raw_borrows_read:
  assumes "length bs = 1300" and "d * 88 + n * 112 \<le> 1096"
  shows "those (map (raw_borrow bs (204 + d * 88)) [0..<n])
    = Some (map (\<lambda>i. the (raw_borrow bs (204 + d * 88) i)) [0..<n])"
  using assms by (intro those_Some) (auto simp: raw_borrow_def raw_lens raw_reads Let_def)

section \<open>Properties\<close>

lemma raw_decode_obligation_eq:
  assumes "length bs = 1300"
  shows "raw_decode_obligation bs =
    (if list_ex (\<lambda>b. b \<noteq> 0) (take 14 (drop 188 bs)) then Some (Inl ObligationPaddingNonZero)
     else if bs ! 9 \<notin> {0, 1} then Some (Inl (ObligationStaleBitInvalid (bs ! 9)))
     else if bs ! 154 \<notin> {0, 1} then Some (Inl (ObligationBoolInvalid 154 (bs ! 154) ''borrowing_isolated_asset''))
     else if bs ! 187 \<notin> {0, 1} then Some (Inl (ObligationBoolInvalid 187 (bs ! 187) ''closeable''))
     else if 1096 < unat (bs ! 202) * 88 + unat (bs ! 203) * 112
       then Some (Inl (ObligationArrayOverflow (bs ! 202) (bs ! 203)))
     else Some (Inr \<lparr>ob_version = bs ! 0, ob_last_update_slot = from_le_bytes (take 8 (drop 1 bs)),
       ob_last_update_stale = (bs ! 9 = 1), ob_lending_market = array_of_bytes (take 32 (drop 10 bs)),
       ob_owner = array_of_bytes (take 32 (drop 42 bs)),
       ob_deposits = map (\<lambda>i. the (raw_deposit bs i)) [0..<unat (bs ! 202)],
       ob_borrows = map (\<lambda>i. the (raw_borrow bs (204 + unat (bs ! 202) * 88) i)) [0..<unat (bs ! 203)],
       ob_borrowed_value_upper_bound_wads = from_le_bytes (take 16 (drop 138 bs)),
       ob_borrowing_isolated_asset = (bs ! 154 = 1),
       ob_super_unhealthy_borrow_value_wads = from_le_bytes (take 16 (drop 155 bs)),
       ob_unweighted_borrowed_value_wads = from_le_bytes (take 16 (drop 171 bs)),
       ob_closeable = (bs ! 187 = 1)\<rparr>))"
proof -
  have range: "get_range bs 188 14 = Some (take 14 (drop 188 bs))"
    using assms by (simp add: get_range_def)
  have reads: "raw_u8 bs 0 = Some (bs ! 0)" "raw_u8 bs 202 = Some (bs ! 202)" "raw_u8 bs 203 = Some (bs ! 203)"
    using assms by (auto intro: raw_reads)
  show ?thesis
    unfolding raw_decode_obligation_def
    using assms
    by (simp add: range reads raw_lens raw_reads raw_bool_read raw_ok_Some raw_deposits_read
        raw_borrows_read not_less)
qed

lemma raw_decode_reserve_stale:
  assumes "length bs = 619" and "bs ! 9 \<notin> {0, 1}"
  shows "raw_decode_reserve bs = Some (Inl (ReserveStaleBitInvalid (bs ! 9)))"
proof -
  have "raw_u8 bs 0 = Some (bs ! 0)" using assms by (auto intro: raw_reads)
  then show ?thesis
    using assms by (simp add: raw_decode_reserve_def raw_lens raw_reads raw_bool_read raw_ok_Some)
qed

lemma raw_decode_reserve_ok:
  assumes "length bs = 619" and "bs ! 9 \<in> {0, 1}"
  shows "\<exists>r. raw_decode_reserve bs = Some (Inr r)
    \<and> re_version r = bs ! 0 \<and> re_last_update_slot r = from_le_bytes (take 8 (drop 1 bs))
    \<and> re_last_update_stale r = (bs ! 9 = 1) \<and> re_lending_market r = array_of_bytes (take 32 (drop 10 bs))"
proof -
  have "raw_u8 bs 0 = Some (bs ! 0)" using assms by (auto intro: raw_reads)
  moreover have "(if bs ! 9 = 0 then Inr False else if bs ! 9 = 1 then Inr True else Inl (ReserveStaleBitInvalid (bs ! 9)))
      = (Inr (bs ! 9 = 1) :: DecodeError + bool)"
    using assms(2) by auto
  ultimately show ?thesis
    using assms(1) by (simp add: raw_decode_reserve_def raw_lens raw_reads raw_bool_read raw_ok_Some)
qed

lemma raw_decode_obligation_total: "raw_decode_obligation bs \<noteq> None"
proof (cases "length bs = 1300")
  case True
  then show ?thesis by (simp add: raw_decode_obligation_eq)
qed (simp add: raw_decode_obligation_def raw_lens)

lemma raw_decode_reserve_total: "raw_decode_reserve bs \<noteq> None"
proof (cases "length bs = 619")
  case True
  then show ?thesis
    using raw_decode_reserve_stale raw_decode_reserve_ok by (cases "bs ! 9 \<in> {0, 1}") fastforce+
qed (simp add: raw_decode_reserve_def raw_lens)

lemma decoders_return: "raw_decode_obligation bs \<noteq> None" "raw_decode_reserve bs \<noteq> None"
  by (rule raw_decode_obligation_total raw_decode_reserve_total)+

lemma raw_ok_total: "m \<noteq> None \<Longrightarrow> (\<And>x. f x \<noteq> None) \<Longrightarrow> raw_ok m f \<noteq> None"
  by (cases m) (auto simp: raw_ok_Some split: sum.split)

lemma if_total: "(P \<Longrightarrow> a \<noteq> None) \<Longrightarrow> (\<not> P \<Longrightarrow> b \<noteq> None) \<Longrightarrow> (if P then a else b) \<noteq> None"
  by simp

lemma raw_ok_Inr:
  "raw_ok m f = Some (Inr y) \<longleftrightarrow> (\<exists>x. m = Some (Inr x) \<and> f x = Some (Inr y))"
  by (cases m) (auto simp: raw_ok_def split: sum.splits)

text \<open>
  C37: the gateway's decoders never index outside the account, and where they succeed on an account
  of version 1 the on-chain program's decoders read the same slot, stale flag, market and owner
  from the same bytes.\<close>

theorem decoders_agree:
  "raw_decode_obligation bs \<noteq> None \<and> raw_decode_reserve bs \<noteq> None
   \<and> (\<forall>o'. raw_decode_obligation bs = Some (Inr o') \<longrightarrow> ob_version o' = 1 \<longrightarrow>
        decode_obligation bs = Inr \<lparr>DecodedSolendObligation.version = 1,
          last_update_slot = ob_last_update_slot o', last_update_stale = ob_last_update_stale o',
          lending_market = ob_lending_market o', owner = ob_owner o'\<rparr>)
   \<and> (\<forall>r. raw_decode_reserve bs = Some (Inr r) \<longrightarrow> re_version r = 1 \<longrightarrow>
        decode_reserve bs = Inr \<lparr>DecodedSolendReserve.version = 1,
          last_update_slot = re_last_update_slot r, last_update_stale = re_last_update_stale r,
          lending_market = re_lending_market r\<rparr>)"
proof (intro conjI allI impI)
  show "raw_decode_obligation bs \<noteq> None" "raw_decode_reserve bs \<noteq> None"
    by (rule raw_decode_obligation_total raw_decode_reserve_total)+
next
  fix o' assume o': "raw_decode_obligation bs = Some (Inr o')" "ob_version o' = 1"
  have len: "length bs = 1300"
    using o'(1) by (auto simp: raw_decode_obligation_def raw_lens split: if_splits)
  show "decode_obligation bs = Inr \<lparr>DecodedSolendObligation.version = 1,
      last_update_slot = ob_last_update_slot o', last_update_stale = ob_last_update_stale o',
      lending_market = ob_lending_market o', owner = ob_owner o'\<rparr>"
    using o' len by (auto simp: raw_decode_obligation_eq decode_obligation_eq split: if_splits)
next
  fix r assume r: "raw_decode_reserve bs = Some (Inr r)" "re_version r = 1"
  have len: "length bs = 619"
    using r(1) by (auto simp: raw_decode_reserve_def raw_lens split: if_splits)
  moreover from r(1) have bit: "bs ! 9 \<in> {0, 1}" using raw_decode_reserve_stale [OF len] by fastforce
  ultimately show "decode_reserve bs = Inr \<lparr>DecodedSolendReserve.version = 1,
      last_update_slot = re_last_update_slot r, last_update_stale = re_last_update_stale r,
      lending_market = re_lending_market r\<rparr>"
    using raw_decode_reserve_ok [OF len bit] r by (auto simp: decode_reserve_eq)
qed

lemma word_of_value: "n < 2 ^ LENGTH('a) \<Longrightarrow> \<exists>w :: 'a::len word. unat w = n"
  by (rule exI [of _ "word_of_nat n"]) (simp add: unat_of_nat)

lemma total_supply_Some:
  fixes r :: SolendReserveRaw
  defines "A \<equiv> unat (re_liquidity_available_amount r) * 10 ^ 18"
    and "B \<equiv> unat (re_liquidity_borrowed_amount_wads r)"
    and "F \<equiv> unat (re_liquidity_accumulated_protocol_fees_wads r)"
  shows "liquidity_total_supply_raw r = Some t \<longleftrightarrow>
    F \<le> A + B \<and> A + B < 2 ^ 128 \<and> unat t = (A + B - F) div 10 ^ 18"
proof -
  have wad: "unat SOLEND_WAD = 10 ^ 18" by (simp add: SOLEND_WAD_def)
  have "A < 2 ^ 128"
    using unat_less_exp [of "re_liquidity_available_amount r"] by (simp add: A_def)
  then obtain x :: u128 where x: "unat x = A" using word_of_value [where 'a = 128] by auto
  have mul: "checked_mul (ucast (re_liquidity_available_amount r) :: u128) SOLEND_WAD = Some x"
    using unat_less_exp [of "re_liquidity_available_amount r"]
    by (simp add: checked_mul_Some x wad A_def unsigned_ucast_eq take_bit_nat_eq_self)
  have len128: "LENGTH(128) = 128" by simp
  show ?thesis
  proof (cases "A + B < 2 ^ 128 \<and> F \<le> A + B")
    case True
    then have "A + B < 2 ^ LENGTH(128)" and "A + B - F < 2 ^ LENGTH(128)"
      by (simp, metis le_less_trans [OF diff_le_self] len128)
    then obtain y z :: u128 where y: "unat y = A + B" and z: "unat z = A + B - F"
      by (metis word_of_value)
    have add: "checked_add x (re_liquidity_borrowed_amount_wads r) = Some y"
      by (simp add: checked_add_Some x y B_def)
    have sub: "checked_sub y (re_liquidity_accumulated_protocol_fees_wads r) = Some z"
      using True by (simp add: checked_sub_Some y z F_def)
    have q: "unat (z div SOLEND_WAD) = (A + B - F) div 10 ^ 18" by (simp add: unat_div z wad)
    have low: "unat (ucast (z div SOLEND_WAD) :: u64) = unat (z div SOLEND_WAD)"
      if "unat (z div SOLEND_WAD) < 2 ^ 64"
      using that by (simp add: unsigned_ucast_eq take_bit_nat_eq_self)
    show ?thesis
      using True low q unat_less_exp [of t]
      by (auto simp: liquidity_total_supply_raw_def mul add sub Let_def word_unat_eq_iff)
  next
    case False
    show ?thesis
    proof (cases "A + B < 2 ^ 128")
      case True
      then obtain y :: u128 where y: "unat y = A + B" using word_of_value [where 'a = 128] by auto
      have "checked_add x (re_liquidity_borrowed_amount_wads r) = Some y"
        by (simp add: checked_add_Some x y B_def)
      moreover have "checked_sub y (re_liquidity_accumulated_protocol_fees_wads r) = None"
        using True False by (simp add: checked_sub_None y F_def)
      ultimately show ?thesis using False by (simp add: liquidity_total_supply_raw_def mul)
    next
      case over: False
      then have "checked_add x (re_liquidity_borrowed_amount_wads r) = None"
        by (simp add: checked_add_None x B_def)
      then show ?thesis using False over by (simp add: liquidity_total_supply_raw_def mul)
    qed
  qed
qed

text \<open>
  The headroom is exact. When the reserve's supply can be computed and is at most the deposit
  limit, an amount fits the headroom exactly when the limit check of the lending program, on the
  floored sum of the amount and the supply, accepts it; otherwise the headroom is zero.\<close>

theorem deposit_headroom_exact:
  "(case liquidity_total_supply_raw r of
      Some tot \<Rightarrow>
        if tot \<le> re_config_deposit_limit r then
          (amt \<le> deposit_headroom_raw r \<longleftrightarrow>
            (unat amt * 10 ^ 18 + unat (re_liquidity_available_amount r) * 10 ^ 18
              + unat (re_liquidity_borrowed_amount_wads r)
              - unat (re_liquidity_accumulated_protocol_fees_wads r)) div 10 ^ 18
            \<le> unat (re_config_deposit_limit r))
        else deposit_headroom_raw r = 0
    | None \<Rightarrow> deposit_headroom_raw r = 0)"
proof (cases "liquidity_total_supply_raw r")
  case (Some tot)
  let ?A = "unat (re_liquidity_available_amount r) * 10 ^ 18" and ?B = "unat (re_liquidity_borrowed_amount_wads r)"
  let ?F = "unat (re_liquidity_accumulated_protocol_fees_wads r)"
  have le: "?F \<le> ?A + ?B" and tot: "unat tot = (?A + ?B - ?F) div 10 ^ 18"
    using Some by (simp_all add: total_supply_Some)
  have "(unat amt * 10 ^ 18 + ?A + ?B - ?F) div 10 ^ 18 = (unat amt * 10 ^ 18 + (?A + ?B - ?F)) div 10 ^ 18"
    using le by (simp add: add.assoc)
  also have "\<dots> = unat amt + unat tot" unfolding tot by (rule div_mult_self3) simp
  finally have sum: "(unat amt * 10 ^ 18 + ?A + ?B - ?F) div 10 ^ 18 = unat amt + unat tot" .
  show ?thesis
    unfolding Some option.case sum
    by (auto simp: deposit_headroom_raw_def Some word_le_nat_alt unat_sub)
qed (simp add: deposit_headroom_raw_def)

end
