(* ===== verification/Solend_Tx.thy ===== *)
theory Solend_Tx
  imports Solend_Raw Solend_Cpi_Builder
begin

text \<open>
  \<open>crates/gateway/src/integrations/solend\<close>: the gateway's builders of Solend instructions
  (\<open>refresh.rs\<close>, \<open>deposit.rs\<close>, \<open>withdraw.rs\<close>, \<open>init_obligation.rs\<close>). The derivation of program
  addresses and the system program's \<open>create_account\<close> are the runtime's.
\<close>

section \<open>Refresh\<close>

definition SOLEND_IX_TAG_REFRESH_RESERVE :: u8 where "SOLEND_IX_TAG_REFRESH_RESERVE = 3"
definition SOLEND_IX_TAG_REFRESH_OBLIGATION :: u8 where "SOLEND_IX_TAG_REFRESH_OBLIGATION = 7"

record ReserveRefreshInput =
  rr_reserve_pubkey :: pubkey
  rr_pyth_oracle :: pubkey
  rr_switchboard_oracle :: pubkey

record ObligationRefreshInput =
  or_obligation_pubkey :: pubkey
  or_referenced_reserves_in_order :: "pubkey list"

record RefreshPlanInputs =
  rp_solend_program_id :: pubkey
  rp_reserves :: "ReserveRefreshInput list"
  rp_obligation :: "ObligationRefreshInput option"

record RefreshPlan =
  plan_instructions :: "instruction list"
  plan_reserves_refreshed :: "pubkey list"
  plan_obligation_refreshed :: "pubkey option"

definition refresh_reserve_ix :: "pubkey \<Rightarrow> ReserveRefreshInput \<Rightarrow> instruction" where
  "refresh_reserve_ix program r = \<lparr>ix_program_id = program,
     ix_accounts = [AccountMeta_new (rr_reserve_pubkey r) False,
       AccountMeta_new_readonly (rr_pyth_oracle r) False,
       AccountMeta_new_readonly (rr_switchboard_oracle r) False,
       AccountMeta_new_readonly sysvar_clock_id False],
     ix_data = [SOLEND_IX_TAG_REFRESH_RESERVE]\<rparr>"

definition refresh_obligation_ix :: "pubkey \<Rightarrow> ObligationRefreshInput \<Rightarrow> instruction" where
  "refresh_obligation_ix program ob = \<lparr>ix_program_id = program,
     ix_accounts = AccountMeta_new (or_obligation_pubkey ob) False
       # map (\<lambda>r. AccountMeta_new r False) (or_referenced_reserves_in_order ob),
     ix_data = [SOLEND_IX_TAG_REFRESH_OBLIGATION]\<rparr>"

definition build_refresh_instructions :: "RefreshPlanInputs \<Rightarrow> RefreshPlan" where
  "build_refresh_instructions inputs = \<lparr>
     plan_instructions = map (refresh_reserve_ix (rp_solend_program_id inputs)) (rp_reserves inputs)
       @ (case rp_obligation inputs of None \<Rightarrow> []
          | Some ob \<Rightarrow> [refresh_obligation_ix (rp_solend_program_id inputs) ob]),
     plan_reserves_refreshed = map rr_reserve_pubkey (rp_reserves inputs),
     plan_obligation_refreshed = map_option or_obligation_pubkey (rp_obligation inputs)\<rparr>"

section \<open>Deposit\<close>

definition SOLEND_IX_TAG_DEPOSIT_RESERVE_LIQUIDITY_AND_OBLIGATION_COLLATERAL :: u8 where
  "SOLEND_IX_TAG_DEPOSIT_RESERVE_LIQUIDITY_AND_OBLIGATION_COLLATERAL = 14"

record DepositInstructionInputs =
  di_solend_program_id :: pubkey
  di_amount :: u64
  di_source_liquidity :: pubkey
  di_user_collateral :: pubkey
  di_reserve :: pubkey
  di_reserve_liquidity_supply :: pubkey
  di_reserve_collateral_mint :: pubkey
  di_lending_market :: pubkey
  di_destination_deposit_collateral :: pubkey
  di_obligation :: pubkey
  di_obligation_owner :: pubkey
  di_pyth_oracle :: pubkey
  di_switchboard_oracle :: pubkey
  di_user_transfer_authority :: pubkey

datatype SolendBuildError = ZeroAmount

type_synonym pda_finder = "u8 list list \<Rightarrow> pubkey \<Rightarrow> pubkey \<times> u8"

definition build_deposit_instruction ::
  "pda_finder \<Rightarrow> DepositInstructionInputs \<Rightarrow> SolendBuildError + instruction" where
  "build_deposit_instruction find_pda inputs =
    (if di_amount inputs = 0 then Inl ZeroAmount
     else let authority = fst (find_pda [array_bytes (di_lending_market inputs)] (di_solend_program_id inputs))
     in Inr \<lparr>ix_program_id = di_solend_program_id inputs,
       ix_accounts = [
         AccountMeta_new (di_source_liquidity inputs) False,
         AccountMeta_new (di_user_collateral inputs) False,
         AccountMeta_new (di_reserve inputs) False,
         AccountMeta_new (di_reserve_liquidity_supply inputs) False,
         AccountMeta_new (di_reserve_collateral_mint inputs) False,
         AccountMeta_new_readonly (di_lending_market inputs) False,
         AccountMeta_new_readonly authority False,
         AccountMeta_new (di_destination_deposit_collateral inputs) False,
         AccountMeta_new (di_obligation inputs) False,
         AccountMeta_new (di_obligation_owner inputs) True,
         AccountMeta_new_readonly (di_pyth_oracle inputs) False,
         AccountMeta_new_readonly (di_switchboard_oracle inputs) False,
         AccountMeta_new_readonly (di_user_transfer_authority inputs) True,
         AccountMeta_new_readonly (pubkey_of SPL_TOKEN_PROGRAM_ID_BS58) False],
       ix_data = SOLEND_IX_TAG_DEPOSIT_RESERVE_LIQUIDITY_AND_OBLIGATION_COLLATERAL
         # to_le_bytes (di_amount inputs)\<rparr>)"

section \<open>Withdraw\<close>

definition SOLEND_IX_TAG_WITHDRAW_AND_REDEEM :: u8 where "SOLEND_IX_TAG_WITHDRAW_AND_REDEEM = 15"

definition WITHDRAW_ALL_COLLATERAL_AMOUNT_SENTINEL_RAW :: u64 where
  "WITHDRAW_ALL_COLLATERAL_AMOUNT_SENTINEL_RAW = - 1"

record WithdrawInstructionInputs =
  wi_solend_program_id :: pubkey
  wi_collateral_amount :: u64
  wi_source_collateral :: pubkey
  wi_destination_collateral :: pubkey
  wi_reserve :: pubkey
  wi_obligation :: pubkey
  wi_lending_market :: pubkey
  wi_destination_liquidity :: pubkey
  wi_reserve_collateral_mint :: pubkey
  wi_reserve_liquidity_supply :: pubkey
  wi_obligation_owner :: pubkey
  wi_user_transfer_authority :: pubkey
  wi_deposit_reserves_in_order :: "pubkey list"

definition build_withdraw_instruction ::
  "pda_finder \<Rightarrow> WithdrawInstructionInputs \<Rightarrow> SolendBuildError + instruction" where
  "build_withdraw_instruction find_pda inputs =
    (if wi_collateral_amount inputs = 0 then Inl ZeroAmount
     else let authority = fst (find_pda [array_bytes (wi_lending_market inputs)] (wi_solend_program_id inputs))
     in Inr \<lparr>ix_program_id = wi_solend_program_id inputs,
       ix_accounts = [
         AccountMeta_new (wi_source_collateral inputs) False,
         AccountMeta_new (wi_destination_collateral inputs) False,
         AccountMeta_new (wi_reserve inputs) False,
         AccountMeta_new (wi_obligation inputs) False,
         AccountMeta_new (wi_lending_market inputs) False,
         AccountMeta_new_readonly authority False,
         AccountMeta_new (wi_destination_liquidity inputs) False,
         AccountMeta_new (wi_reserve_collateral_mint inputs) False,
         AccountMeta_new (wi_reserve_liquidity_supply inputs) False,
         AccountMeta_new_readonly (wi_obligation_owner inputs) True,
         AccountMeta_new_readonly (wi_user_transfer_authority inputs) True,
         AccountMeta_new_readonly (pubkey_of SPL_TOKEN_PROGRAM_ID_BS58) False]
         @ map (\<lambda>r. AccountMeta_new r False) (wi_deposit_reserves_in_order inputs),
       ix_data = SOLEND_IX_TAG_WITHDRAW_AND_REDEEM # to_le_bytes (wi_collateral_amount inputs)\<rparr>)"

section \<open>Obligation creation\<close>

definition SOLEND_IX_TAG_INIT_OBLIGATION :: u8 where "SOLEND_IX_TAG_INIT_OBLIGATION = 6"

record InitObligationInputs =
  io_solend_program_id :: pubkey
  io_obligation :: pubkey
  io_lending_market :: pubkey
  io_obligation_owner :: pubkey

definition build_init_obligation_instruction :: "InitObligationInputs \<Rightarrow> instruction" where
  "build_init_obligation_instruction inputs = \<lparr>ix_program_id = io_solend_program_id inputs,
     ix_accounts = [
       AccountMeta_new (io_obligation inputs) False,
       AccountMeta_new_readonly (io_lending_market inputs) False,
       AccountMeta_new_readonly (io_obligation_owner inputs) True,
       AccountMeta_new_readonly sysvar_rent_id False,
       AccountMeta_new_readonly (pubkey_of SPL_TOKEN_PROGRAM_ID_BS58) False],
     ix_data = [SOLEND_IX_TAG_INIT_OBLIGATION]\<rparr>"

record CreateObligationAccountInputs =
  co_funder :: pubkey
  co_new_obligation :: pubkey
  co_rent_exempt_lamports :: u64
  co_solend_program_id :: pubkey

definition build_create_obligation_account_instruction ::
  "(pubkey \<Rightarrow> pubkey \<Rightarrow> u64 \<Rightarrow> u64 \<Rightarrow> pubkey \<Rightarrow> instruction) \<Rightarrow> CreateObligationAccountInputs \<Rightarrow> instruction" where
  "build_create_obligation_account_instruction system_create inputs =
     system_create (co_funder inputs) (co_new_obligation inputs) (co_rent_exempt_lamports inputs)
       (word_of_nat OBLIGATION_LEN) (co_solend_program_id inputs)"

section \<open>Properties\<close>

text \<open>
  The gateway and the on-chain program build the same Solend instructions. The gateway's
  refreshes and withdrawal, byte for byte and account for account, are the ones the authority
  program sends in its cross-program calls for the same accounts; only a withdrawal of zero
  collateral is refused.\<close>

theorem solend_builders_agree:
  "refresh_reserve_ix (key prog)
      \<lparr>rr_reserve_pubkey = rsv, rr_pyth_oracle = pyth, rr_switchboard_oracle = sb\<rparr> =
    \<lparr>ix_program_id = key prog,
     ix_accounts = build_refresh_reserve_metas rsv pyth sb sysvar_clock_id None,
     ix_data = build_refresh_reserve_data\<rparr>
   \<and> refresh_obligation_ix (key prog)
      \<lparr>or_obligation_pubkey = ob, or_referenced_reserves_in_order = reserves\<rparr> =
    \<lparr>ix_program_id = key prog, ix_accounts = build_refresh_obligation_metas ob reserves,
     ix_data = build_refresh_obligation_data\<rparr>
   \<and> (key (token_program accounts) = SPL_TOKEN_PROGRAM_ID
      \<and> key (lending_market_authority accounts)
          = fst (find_pda [array_bytes (key (SolendWithdrawAccounts.lending_market accounts))] (key prog))
      \<longrightarrow> build_withdraw_instruction find_pda
         \<lparr>wi_solend_program_id = key prog, wi_collateral_amount = amt,
          wi_source_collateral = key (source_collateral accounts),
          wi_destination_collateral = key (SolendWithdrawAccounts.delegated_ctoken accounts),
          wi_reserve = key (SolendWithdrawAccounts.reserve accounts),
          wi_obligation = key (SolendWithdrawAccounts.obligation accounts),
          wi_lending_market = key (SolendWithdrawAccounts.lending_market accounts),
          wi_destination_liquidity = key (SolendWithdrawAccounts.destination accounts),
          wi_reserve_collateral_mint = key (reserve_collateral_mint accounts),
          wi_reserve_liquidity_supply = key (reserve_liquidity_supply accounts),
          wi_obligation_owner = key (obligation_owner accounts),
          wi_user_transfer_authority = key (user_transfer_authority accounts),
          wi_deposit_reserves_in_order = map key deposit_reserves\<rparr> =
        (if amt = 0 then Inl ZeroAmount
         else Inr (withdraw_instruction prog accounts deposit_reserves amt)))"
  by (simp add: refresh_reserve_ix_def refresh_obligation_ix_def build_withdraw_instruction_def Let_def
      build_refresh_reserve_metas_def build_refresh_reserve_data_def build_refresh_obligation_metas_def
      build_refresh_obligation_data_def withdraw_instruction_def
      build_withdraw_obligation_collateral_and_redeem_reserve_collateral_metas_def
      build_withdraw_obligation_collateral_and_redeem_reserve_collateral_data_def
      SOLEND_VARIANT_REFRESH_RESERVE_def SOLEND_VARIANT_REFRESH_OBLIGATION_def
      SOLEND_VARIANT_WITHDRAW_OBLIGATION_COLLATERAL_AND_REDEEM_def SOLEND_IX_TAG_REFRESH_RESERVE_def
      SOLEND_IX_TAG_REFRESH_OBLIGATION_def SOLEND_IX_TAG_WITHDRAW_AND_REDEEM_def
      SPL_TOKEN_PROGRAM_ID_def SPL_TOKEN_PROGRAM_ID_BS58_def)

end
