(* ===== verification/Live_Sender.thy ===== *)
theory Live_Sender
  imports Chat_Rpc Solend_Tx
begin

text \<open>
  \<open>LiveStage2ChatExecuteSender\<close> of \<open>crates/gateway/src/stage2_chat_execute.rs\<close>: read the reserve and
  the obligation, build, sign and broadcast one deposit transaction, poll its signature. What is
  not the gateway's own code is a field of \<open>sender_env\<close>: the HTTP exchange of each call, the
  derivations of token accounts and program addresses, message assembly and signing. A result
  \<open>None\<close> is a panic or a loop that does not end; otherwise it is the outcome and the transactions
  that were handed to \<open>sendTransaction\<close>.
\<close>

section \<open>Constants and the environment of one call\<close>

definition DEMO_LENDING_MARKET_BS58 :: string where
  "DEMO_LENDING_MARKET_BS58 = ''4UpD2fh7xH3VP9QQaXtsS1YY3bxzWhtfpks7FatyKvdY''"
definition DEMO_LIQUIDITY_MINT_BS58 :: string where
  "DEMO_LIQUIDITY_MINT_BS58 = ''EPjFWdd5AufqSSqeM2qN1xzybapC8G4wEGGkZwyTDt1v''"
definition DEMO_CTOKEN_MINT_BS58 :: string where
  "DEMO_CTOKEN_MINT_BS58 = ''993dVFL2uXWYeoXuEBFXR4BijeXdTv4s6BzsCjJZuwqk''"
definition DEMO_PYTH_ORACLE_BS58 :: string where
  "DEMO_PYTH_ORACLE_BS58 = ''Dpw1EAVrSB1ibxiDQyTAW6Zip3J4Btk2x4SgApQCeFbX''"
definition W5G_SOLEND_PROGRAM_ID_BS58 :: string where
  "W5G_SOLEND_PROGRAM_ID_BS58 = ''So1endDq2YkqhipRh3WViPa8hdiSpxWy6z3Z6tMCpAo''"
definition W5G_SPL_TOKEN_PROGRAM_BS58 :: string where
  "W5G_SPL_TOKEN_PROGRAM_BS58 = ''TokenkegQfeZyiNwAJbNbGKPFXCWuBvf9Ss623VQ5DA''"
definition W5G_COMPUTE_BUDGET_PROGRAM_BS58 :: string where
  "W5G_COMPUTE_BUDGET_PROGRAM_BS58 = ''ComputeBudget111111111111111111111111111111''"
definition W5G_COMPUTE_BUDGET_IX_TAG_SET_UNIT_LIMIT :: u8 where
  "W5G_COMPUTE_BUDGET_IX_TAG_SET_UNIT_LIMIT = 2"
definition W5G_COMPUTE_BUDGET_IX_TAG_SET_UNIT_PRICE :: u8 where
  "W5G_COMPUTE_BUDGET_IX_TAG_SET_UNIT_PRICE = 3"
definition W5G_COMPUTE_UNIT_LIMIT :: u32 where "W5G_COMPUTE_UNIT_LIMIT = 400000"
definition W5G_COMPUTE_UNIT_PRICE_MICRO_LAMPORTS :: u64 where
  "W5G_COMPUTE_UNIT_PRICE_MICRO_LAMPORTS = 50000"

record sender_env =
  se_codec :: rpc_codec
  se_debug_decode_error :: "DecodeError \<Rightarrow> string"
  se_keypair :: pubkey
  se_pda :: pda_finder
  se_ata :: "pubkey \<Rightarrow> pubkey \<Rightarrow> pubkey"
  se_create_ata :: "pubkey \<Rightarrow> pubkey \<Rightarrow> pubkey \<Rightarrow> pubkey \<Rightarrow> instruction"
  se_sign :: "instruction list \<Rightarrow> 256 word \<Rightarrow> string + u8 list"
  http_reserve :: http
  http_obligation :: http
  http_ctoken_ata :: http
  http_balance :: http
  http_blockhash :: http
  http_send :: http
  http_status :: "nat \<Rightarrow> http"
  http_after_balance :: http
  http_after_obligation :: http
  se_sleep_extra :: "nat \<Rightarrow> nat"
  se_call_time :: "nat \<Rightarrow> nat"

section \<open>Helpers\<close>

definition compute_budget_set_unit_limit :: "u32 \<Rightarrow> instruction" where
  "compute_budget_set_unit_limit units = \<lparr>ix_program_id = pubkey_of W5G_COMPUTE_BUDGET_PROGRAM_BS58,
     ix_accounts = [], ix_data = W5G_COMPUTE_BUDGET_IX_TAG_SET_UNIT_LIMIT # to_le_bytes units\<rparr>"

definition compute_budget_set_unit_price :: "u64 \<Rightarrow> instruction" where
  "compute_budget_set_unit_price price = \<lparr>ix_program_id = pubkey_of W5G_COMPUTE_BUDGET_PROGRAM_BS58,
     ix_accounts = [], ix_data = W5G_COMPUTE_BUDGET_IX_TAG_SET_UNIT_PRICE # to_le_bytes price\<rparr>"

definition pin_mismatch :: "sender_env \<Rightarrow> string \<Rightarrow> pubkey \<Rightarrow> pubkey \<Rightarrow> string" where
  "pin_mismatch env field actual pin =
     field @ '' '' @ show_pubkey (se_codec env) actual @ '' != pinned '' @ show_pubkey (se_codec env) pin"

definition verify_main_pool_reserve :: "sender_env \<Rightarrow> SolendReserveRaw \<Rightarrow> string + unit" where
  "verify_main_pool_reserve env r =
    (let pin_lm = pubkey_of DEMO_LENDING_MARKET_BS58; pin_liq = pubkey_of DEMO_LIQUIDITY_MINT_BS58;
         pin_coll = pubkey_of DEMO_CTOKEN_MINT_BS58; pin_pyth = pubkey_of DEMO_PYTH_ORACLE_BS58
     in if re_lending_market r \<noteq> pin_lm then
       Inl (pin_mismatch env ''reserve.lending_market'' (re_lending_market r) pin_lm)
     else if re_liquidity_mint r \<noteq> pin_liq then
       Inl (pin_mismatch env ''reserve.liquidity_mint'' (re_liquidity_mint r) pin_liq)
     else if re_collateral_mint r \<noteq> pin_coll then
       Inl (pin_mismatch env ''reserve.collateral_mint'' (re_collateral_mint r) pin_coll)
     else if re_pyth_oracle r \<noteq> pin_pyth then
       Inl (pin_mismatch env ''reserve.pyth_oracle'' (re_pyth_oracle r) pin_pyth)
     else if re_liquidity_mint_decimals r \<noteq> W5G_USDC_DECIMALS then
       Inl (''reserve.liquidity_mint_decimals '' @ show_nat (unat (re_liquidity_mint_decimals r)) @ '' != 6'')
     else Inr ())"

definition verify_main_pool_obligation :: "sender_env \<Rightarrow> SolendObligationRaw \<Rightarrow> pubkey \<Rightarrow> string + unit" where
  "verify_main_pool_obligation env ob controlled =
    (let pin_lm = pubkey_of DEMO_LENDING_MARKET_BS58 in
     if ob_owner ob \<noteq> controlled then
       Inl (''obligation.owner '' @ show_pubkey (se_codec env) (ob_owner ob) @ '' != controlled wallet ''
            @ show_pubkey (se_codec env) controlled)
     else if ob_lending_market ob \<noteq> pin_lm then
       Inl (pin_mismatch env ''obligation.lending_market'' (ob_lending_market ob) pin_lm)
     else Inr ())"

text \<open>The sum wraps in a release build.\<close>

definition obligation_pinned_reserve_collateral :: "SolendObligationRaw \<Rightarrow> pubkey \<Rightarrow> u64" where
  "obligation_pinned_reserve_collateral ob rsv =
     sum_list (map deposited_amount (filter (\<lambda>d. deposit_reserve d = rsv) (ob_deposits ob)))"

definition assemble_and_sign :: "sender_env \<Rightarrow> instruction list \<Rightarrow> 256 word \<Rightarrow> string + string \<times> nat" where
  "assemble_and_sign env ixs blockhash =
    bindE (map_err (\<lambda>e. ''bincode: '' @ e) (se_sign env ixs blockhash)) (\<lambda>bytes.
    Inr (base64_encode (se_codec env) bytes, length bytes))"

section \<open>Building the transaction\<close>

record built_tx =
  bt_b64 :: string
  bt_bytes :: nat
  bt_ixs :: "instruction list"
  bt_ata_create :: bool
  bt_source_ata :: pubkey
  bt_before_usdc :: u64
  bt_before_ctoken :: u64

text \<open>The account behind a \<open>getAccountInfo\<close> call, decoded; \<open>None\<close> when the decoder panics.\<close>

definition read_account ::
  "sender_env \<Rightarrow> http \<Rightarrow> pubkey \<Rightarrow> string \<Rightarrow> (u8 list \<Rightarrow> (DecodeError + 'a) option) \<Rightarrow> string \<Rightarrow>
   (string + 'a) option" where
  "read_account env post pk name decode decode_name =
    (case rpc_get_account_data (se_codec env) post pk of
       Inl e \<Rightarrow> Some (Inl (''getAccountInfo('' @ name @ ''): '' @ rpc_err_display e))
     | Inr None \<Rightarrow> Some (Inl (name @ '' account '' @ show_pubkey (se_codec env) pk @ '' does not exist''))
     | Inr (Some bytes) \<Rightarrow>
         map_option (map_err (\<lambda>e. decode_name @ '': '' @ se_debug_decode_error env e)) (decode bytes))"

definition deposit_inputs ::
  "sender_env \<Rightarrow> ChatExecuteSendRequest \<Rightarrow> SolendReserveRaw \<Rightarrow> DepositInstructionInputs" where
  "deposit_inputs env req r = \<lparr>di_solend_program_id = pubkey_of W5G_SOLEND_PROGRAM_ID_BS58,
     di_amount = sr_amount_raw req,
     di_source_liquidity = se_ata env (se_keypair env) (pubkey_of DEMO_LIQUIDITY_MINT_BS58),
     di_user_collateral = se_ata env (se_keypair env) (pubkey_of DEMO_CTOKEN_MINT_BS58),
     di_reserve = sr_reserve_pubkey req,
     di_reserve_liquidity_supply = re_liquidity_supply r,
     di_reserve_collateral_mint = re_collateral_mint r,
     di_lending_market = re_lending_market r,
     di_destination_deposit_collateral = re_collateral_supply r,
     di_obligation = sr_target_obligation req,
     di_obligation_owner = se_keypair env,
     di_pyth_oracle = re_pyth_oracle r,
     di_switchboard_oracle = re_switchboard_oracle r,
     di_user_transfer_authority = se_keypair env\<rparr>"

definition deposit_transaction ::
  "sender_env \<Rightarrow> ChatExecuteSendRequest \<Rightarrow> SolendReserveRaw \<Rightarrow> bool \<Rightarrow> instruction \<Rightarrow> instruction list" where
  "deposit_transaction env req r ata_create deposit_ix =
     [compute_budget_set_unit_limit W5G_COMPUTE_UNIT_LIMIT,
      compute_budget_set_unit_price W5G_COMPUTE_UNIT_PRICE_MICRO_LAMPORTS]
     @ (if ata_create then [se_create_ata env (se_keypair env) (se_keypair env)
          (pubkey_of DEMO_CTOKEN_MINT_BS58) (pubkey_of W5G_SPL_TOKEN_PROGRAM_BS58)] else [])
     @ plan_instructions (build_refresh_instructions
         \<lparr>rp_solend_program_id = pubkey_of W5G_SOLEND_PROGRAM_ID_BS58,
          rp_reserves = [\<lparr>rr_reserve_pubkey = sr_reserve_pubkey req, rr_pyth_oracle = re_pyth_oracle r,
            rr_switchboard_oracle = re_switchboard_oracle r\<rparr>],
          rp_obligation = None\<rparr>)
     @ [deposit_ix]"

definition outside_band_msg :: "u64 \<Rightarrow> string" where
  "outside_band_msg amt = ''amount '' @ show_nat (unat amt) @ '' outside Phase 5c-lite band [''
     @ show_nat (unat PHASE5C_MIN_AMOUNT_RAW) @ '', '' @ show_nat (unat PHASE5C_MAX_AMOUNT_RAW) @ '']''"

text \<open>Everything before the size guard; an error is the reason of a \<open>TxBuildFailed\<close>.\<close>

definition build_tx :: "sender_env \<Rightarrow> ChatExecuteSendRequest \<Rightarrow> (string + built_tx) option" where
  "build_tx env req =
    (let cd = se_codec env; kp = se_keypair env in
     if kp \<noteq> sr_controlled_wallet req then
       Some (Inl (''keypair pubkey '' @ show_pubkey cd kp @ '' != requested controlled_wallet ''
                  @ show_pubkey cd (sr_controlled_wallet req)))
     else if \<not> (PHASE5C_MIN_AMOUNT_RAW \<le> sr_amount_raw req \<and> sr_amount_raw req \<le> PHASE5C_MAX_AMOUNT_RAW) then
       Some (Inl (outside_band_msg (sr_amount_raw req)))
     else raw_ok (read_account env (http_reserve env) (sr_reserve_pubkey req) ''reserve''
                    raw_decode_reserve ''decode_reserve'') (\<lambda>r.
     raw_ok (Some (verify_main_pool_reserve env r)) (\<lambda>_.
     raw_ok (read_account env (http_obligation env) (sr_target_obligation req) ''obligation''
               raw_decode_obligation ''decode_obligation'') (\<lambda>ob.
     raw_ok (Some (verify_main_pool_obligation env ob kp)) (\<lambda>_.
     let source_ata = se_ata env kp (pubkey_of DEMO_LIQUIDITY_MINT_BS58);
         ctoken_ata = se_ata env kp (pubkey_of DEMO_CTOKEN_MINT_BS58)
     in raw_ok (Some (map_err (\<lambda>e. ''getAccountInfo(cToken ATA): '' @ rpc_err_display e)
                  (rpc_get_account_exists cd (http_ctoken_ata env) ctoken_ata))) (\<lambda>ata_exists.
     raw_ok (Some (map_err (\<lambda>e. ''before getTokenAccountBalance(usdc): '' @ rpc_err_display e)
               (rpc_get_token_account_balance cd (http_balance env) source_ata))) (\<lambda>bal.
     let before_usdc = (case bal of Some t \<Rightarrow> ta_raw t | None \<Rightarrow> 0) in
     if before_usdc < sr_amount_raw req then
       Some (Inl (''before USDC balance '' @ show_nat (unat before_usdc) @ '' raw < amount ''
                  @ show_nat (unat (sr_amount_raw req)) @ '' raw''))
     else raw_ok (Some (map_err (\<lambda>_. ''build deposit ix: deposit amount must be greater than zero'')
                    (build_deposit_instruction (se_pda env) (deposit_inputs env req r)))) (\<lambda>deposit_ix.
     let ixs = deposit_transaction env req r (\<not> ata_exists) deposit_ix
     in raw_ok (Some (map_err (\<lambda>e. ''getLatestBlockhash: '' @ rpc_err_display e)
                  (rpc_get_latest_blockhash cd (http_blockhash env)))) (\<lambda>latest.
     raw_ok (Some (map_err (\<lambda>e. ''assemble/sign: '' @ e) (assemble_and_sign env ixs (lb_hash latest)))) (\<lambda>(b64, n).
     Some (Inr \<lparr>bt_b64 = b64, bt_bytes = n, bt_ixs = ixs, bt_ata_create = \<not> ata_exists,
       bt_source_ata = source_ata, bt_before_usdc = before_usdc,
       bt_before_ctoken = obligation_pinned_reserve_collateral ob (sr_reserve_pubkey req)\<rparr>)))))))))))"

section \<open>Sending and polling\<close>

definition sender_poll_env :: "sender_env \<Rightarrow> string \<Rightarrow> poll_env" where
  "sender_poll_env env sig = \<lparr>poll_status = (\<lambda>k. rpc_get_signature_status (se_codec env) (http_status env k) sig),
     sleep_extra = se_sleep_extra env, call_time = se_call_time env\<rparr>"

definition after_usdc :: "sender_env \<Rightarrow> built_tx \<Rightarrow> u64" where
  "after_usdc env tx =
    (case rpc_get_token_account_balance (se_codec env) (http_after_balance env) (bt_source_ata tx) of
       Inr (Some t) \<Rightarrow> ta_raw t | _ \<Rightarrow> bt_before_usdc tx)"

definition after_ctoken :: "sender_env \<Rightarrow> ChatExecuteSendRequest \<Rightarrow> built_tx \<Rightarrow> u64 option" where
  "after_ctoken env req tx =
    (case rpc_get_account_data (se_codec env) (http_after_obligation env) (sr_target_obligation req) of
       Inr (Some bytes) \<Rightarrow> map_option (\<lambda>d. case d of
           Inr ob \<Rightarrow> obligation_pinned_reserve_collateral ob (sr_reserve_pubkey req)
         | Inl _ \<Rightarrow> bt_before_ctoken tx) (raw_decode_obligation bytes)
     | _ \<Rightarrow> Some (bt_before_ctoken tx))"

definition sender_outcome ::
  "sender_env \<Rightarrow> ChatExecuteSendRequest \<Rightarrow> built_tx \<Rightarrow> string \<Rightarrow> PollOutcome \<Rightarrow> ChatExecuteSendOutcome option" where
  "sender_outcome env req tx sig out = (case out of
     PollFinalized slt \<Rightarrow> map_option (\<lambda>ct. Finalized sig slt (bt_bytes tx) (length (bt_ixs tx)) (bt_ata_create tx)
       (bt_before_usdc tx) (after_usdc env tx) (bt_before_ctoken tx) ct) (after_ctoken env req tx)
   | Timeout last_status \<Rightarrow>
       Some (BroadcastedTimeout sig (bt_bytes tx) (length (bt_ixs tx)) (bt_ata_create tx) last_status)
   | PollOnChainFailure reason \<Rightarrow>
       Some (OnChainFailure sig reason (bt_bytes tx) (length (bt_ixs tx)) (bt_ata_create tx)))"

definition live_build_sign_send_poll ::
  "sender_env \<Rightarrow> ChatExecuteSendRequest \<Rightarrow> (ChatExecuteSendOutcome \<times> string list) option" where
  "live_build_sign_send_poll env req =
    Option.bind (build_tx env req) (\<lambda>built. case built of
      Inl reason \<Rightarrow> Some (TxBuildFailed reason, [])
    | Inr tx \<Rightarrow>
       (if W5G_SERIALIZED_TX_HARD_LIMIT_BYTES < bt_bytes tx then
          Some (TxSizeExceeded (bt_bytes tx) (length (bt_ixs tx)) (bt_ata_create tx), [])
        else case rpc_send_transaction_base64 (se_codec env) (http_send env) (bt_b64 tx) of
          Inl e \<Rightarrow> Some (BroadcastFailed (''sendTransaction: '' @ rpc_err_display e), [bt_b64 tx])
        | Inr sig \<Rightarrow>
            Option.bind (poll_signature_with_backoff (sender_poll_env env sig) W5G_SCHEDULE) (\<lambda>(out, _).
            map_option (\<lambda>res. (res, [bt_b64 tx])) (sender_outcome env req tx sig out))))"

section \<open>Totality\<close>

lemma read_account_total: "(\<And>bs. decode bs \<noteq> None) \<Longrightarrow> read_account env post pk nm decode dn \<noteq> None"
  by (auto simp: read_account_def split: sum.split option.split)

lemma build_tx_total: "build_tx env req \<noteq> None"
  unfolding build_tx_def Let_def
  by (intro if_total raw_ok_total read_account_total decoders_return) (simp_all split: prod.split)

lemma after_ctoken_total: "after_ctoken env req tx \<noteq> None"
  using decoders_return(1) by (auto simp: after_ctoken_def split: sum.split option.split)

lemma poll_w5g: "\<exists>out n. poll_signature_with_backoff env W5G_SCHEDULE = Some (out, n)"
proof -
  have "1 \<le> initial_backoff_ms W5G_SCHEDULE" "1 \<le> backoff_cap_ms W5G_SCHEDULE"
    by (simp_all add: W5G_SCHEDULE_def)
  from poll_loop_returns [OF this, of 0 0] show ?thesis
    unfolding poll_signature_with_backoff_def by (metis backoff_at.simps(1) lessThan_0 sum.empty mult_0 le0)
qed

lemma sender_outcome_total: "sender_outcome env req tx sig out \<noteq> None"
  using after_ctoken_total by (auto simp: sender_outcome_def split: PollOutcome.split)

section \<open>What is broadcast\<close>

definition pinned_reserve :: "SolendReserveRaw \<Rightarrow> bool" where
  "pinned_reserve r \<longleftrightarrow> re_lending_market r = pubkey_of DEMO_LENDING_MARKET_BS58
     \<and> re_liquidity_mint r = pubkey_of DEMO_LIQUIDITY_MINT_BS58
     \<and> re_collateral_mint r = pubkey_of DEMO_CTOKEN_MINT_BS58
     \<and> re_pyth_oracle r = pubkey_of DEMO_PYTH_ORACLE_BS58 \<and> re_liquidity_mint_decimals r = 6"

lemma verify_main_pool_reserve_Inr [ok_simps]:
  "verify_main_pool_reserve env r = Inr u \<longleftrightarrow> pinned_reserve r"
  by (auto simp: verify_main_pool_reserve_def pinned_reserve_def Let_def W5G_USDC_DECIMALS_def)

lemma verify_main_pool_obligation_Inr [ok_simps]:
  "verify_main_pool_obligation env ob k = Inr u \<longleftrightarrow>
     ob_owner ob = k \<and> ob_lending_market ob = pubkey_of DEMO_LENDING_MARKET_BS58"
  by (auto simp: verify_main_pool_obligation_def Let_def)

lemma build_tx_Inr:
  assumes "build_tx env req = Some (Inr tx)"
  obtains r ob bal ata ix hash bytes where
    "se_keypair env = sr_controlled_wallet req"
    "PHASE5C_MIN_AMOUNT_RAW \<le> sr_amount_raw req" "sr_amount_raw req \<le> PHASE5C_MAX_AMOUNT_RAW"
    "read_account env (http_reserve env) (sr_reserve_pubkey req) ''reserve'' raw_decode_reserve ''decode_reserve''
      = Some (Inr r)"
    "pinned_reserve r"
    "read_account env (http_obligation env) (sr_target_obligation req) ''obligation'' raw_decode_obligation
      ''decode_obligation'' = Some (Inr ob)"
    "ob_owner ob = se_keypair env" "ob_lending_market ob = pubkey_of DEMO_LENDING_MARKET_BS58"
    "rpc_get_token_account_balance (se_codec env) (http_balance env)
      (se_ata env (se_keypair env) (pubkey_of DEMO_LIQUIDITY_MINT_BS58)) = Inr bal"
    "sr_amount_raw req \<le> (case bal of Some t \<Rightarrow> ta_raw t | None \<Rightarrow> 0)"
    "build_deposit_instruction (se_pda env) (deposit_inputs env req r) = Inr ix"
    "bt_ixs tx = deposit_transaction env req r ata ix"
    "se_sign env (bt_ixs tx) hash = Inr bytes"
    "bt_b64 tx = base64_encode (se_codec env) bytes" "bt_bytes tx = length bytes"
proof -
  show thesis
    using assms unfolding build_tx_def Let_def
    by (auto simp: raw_ok_Inr ok_simps map_err_Inr assemble_and_sign_def bindE_Inr not_less
        split: if_splits intro: that)
qed

section \<open>Properties\<close>

text \<open>
  C12: the live sender always returns, having broadcast at most one transaction: none exactly when
  the build failed or the transaction is too large. It reports \<open>Finalized\<close> or \<open>OnChainFailure\<close>
  only for a signature the node returned for that transaction and whose status the node reported
  as such.\<close>

theorem live_sender_returns:
  "\<exists>out txs. live_build_sign_send_poll env req = Some (out, txs) \<and> length txs \<le> 1
    \<and> (txs = [] \<longleftrightarrow> (case out of TxBuildFailed _ \<Rightarrow> True | TxSizeExceeded _ _ _ \<Rightarrow> True | _ \<Rightarrow> False))
    \<and> (\<forall>sig slt n m a bu au bc ac. out = Finalized sig slt n m a bu au bc ac \<longrightarrow>
        (\<exists>k. rpc_get_signature_status (se_codec env) (http_status env k) sig = Inr (Succeeded slt ''finalized''))
        \<and> (\<exists>b64. txs = [b64] \<and> rpc_send_transaction_base64 (se_codec env) (http_send env) b64 = Inr sig))
    \<and> (\<forall>sig r n m a. out = OnChainFailure sig r n m a \<longrightarrow>
        (\<exists>k err. rpc_get_signature_status (se_codec env) (http_status env k) sig = Inr (SigFailed err)
           \<and> r = ''tx failed on chain: '' @ err)
        \<and> (\<exists>b64. txs = [b64] \<and> rpc_send_transaction_base64 (se_codec env) (http_send env) b64 = Inr sig))"
proof -
  obtain built where built: "build_tx env req = Some built" using build_tx_total by blast
  show ?thesis
  proof (cases built)
    case (Inl reason)
    then show ?thesis by (simp add: live_build_sign_send_poll_def built)
  next
    case (Inr tx)
    show ?thesis
    proof (cases "W5G_SERIALIZED_TX_HARD_LIMIT_BYTES < bt_bytes tx")
      case True
      then show ?thesis by (simp add: live_build_sign_send_poll_def built Inr)
    next
      case small: False
      show ?thesis
      proof (cases "rpc_send_transaction_base64 (se_codec env) (http_send env) (bt_b64 tx)")
        case (Inl e)
        then show ?thesis using small by (simp add: live_build_sign_send_poll_def built Inr)
      next
        case sent: (Inr sig)
        obtain out n where poll: "poll_signature_with_backoff (sender_poll_env env sig) W5G_SCHEDULE = Some (out, n)"
          using poll_w5g by blast
        obtain res where res: "sender_outcome env req tx sig out = Some res"
          using sender_outcome_total by blast
        have "poll_ends (sender_poll_env env sig) W5G_SCHEDULE 0 (out, n)"
          using poll_loop_decided poll unfolding poll_signature_with_backoff_def by blast
        then have "decided_by (sender_poll_env env sig) W5G_SCHEDULE out n" by (simp add: poll_ends_def)
        then show ?thesis
          using small sent poll res
          by (cases out) (auto simp: live_build_sign_send_poll_def built Inr sender_outcome_def
              decided_by_def sender_poll_env_def)
      qed
    qed
  qed
qed

text \<open>
  C11: what the live sender broadcasts. A transaction it hands to the node is signed by the
  requested wallet's key, has at most 1232 bytes and consists of the two compute-budget
  instructions, the account creation if needed, the reserve's refresh and one Solend deposit of
  exactly the requested amount, inside the band and covered by the balance just read, from that
  wallet into its own obligation on the pinned market and reserve.\<close>

theorem live_sender_broadcasts:
  assumes "live_build_sign_send_poll env req = Some (out, txs)" and "b64 \<in> set txs"
  shows "se_keypair env = sr_controlled_wallet req
    \<and> 100000 \<le> sr_amount_raw req \<and> sr_amount_raw req \<le> 1000000
    \<and> (\<exists>r ob bal ata ix hash bytes.
        read_account env (http_reserve env) (sr_reserve_pubkey req) ''reserve'' raw_decode_reserve ''decode_reserve''
          = Some (Inr r) \<and> pinned_reserve r
      \<and> read_account env (http_obligation env) (sr_target_obligation req) ''obligation'' raw_decode_obligation
          ''decode_obligation'' = Some (Inr ob)
      \<and> ob_owner ob = sr_controlled_wallet req \<and> ob_lending_market ob = re_lending_market r
      \<and> rpc_get_token_account_balance (se_codec env) (http_balance env)
          (se_ata env (sr_controlled_wallet req) (pubkey_of DEMO_LIQUIDITY_MINT_BS58)) = Inr bal
      \<and> sr_amount_raw req \<le> (case bal of Some t \<Rightarrow> ta_raw t | None \<Rightarrow> 0)
      \<and> ix_data ix = 14 # to_le_bytes (sr_amount_raw req)
      \<and> ix_program_id ix = pubkey_of W5G_SOLEND_PROGRAM_ID_BS58
      \<and> get_index (ix_accounts ix) 0
          = Some (AccountMeta_new (se_ata env (sr_controlled_wallet req) (pubkey_of DEMO_LIQUIDITY_MINT_BS58)) False)
      \<and> get_index (ix_accounts ix) 8 = Some (AccountMeta_new (sr_target_obligation req) False)
      \<and> get_index (ix_accounts ix) 9 = Some (AccountMeta_new (sr_controlled_wallet req) True)
      \<and> se_sign env (deposit_transaction env req r ata ix) hash = Inr bytes
      \<and> b64 = base64_encode (se_codec env) bytes \<and> length bytes \<le> 1232)"
proof -
  from assms(1) obtain built where built: "build_tx env req = Some built"
    by (auto simp: live_build_sign_send_poll_def bind_eq_Some_conv)
  from assms obtain tx where Inr: "built = Inr tx"
    by (cases built) (auto simp: live_build_sign_send_poll_def built)
  have small: "\<not> W5G_SERIALIZED_TX_HARD_LIMIT_BYTES < bt_bytes tx"
    using assms by (auto simp: live_build_sign_send_poll_def built Inr)
  have b64: "b64 = bt_b64 tx"
    using assms small
    by (cases "rpc_send_transaction_base64 (se_codec env) (http_send env) (bt_b64 tx)")
      (auto simp: live_build_sign_send_poll_def built Inr bind_eq_Some_conv)
  from built [unfolded Inr] show ?thesis
  proof (rule build_tx_Inr)
    fix r ob bal ata ix hash bytes
    assume f: "se_keypair env = sr_controlled_wallet req"
      "PHASE5C_MIN_AMOUNT_RAW \<le> sr_amount_raw req" "sr_amount_raw req \<le> PHASE5C_MAX_AMOUNT_RAW"
      "read_account env (http_reserve env) (sr_reserve_pubkey req) ''reserve'' raw_decode_reserve ''decode_reserve''
        = Some (Inr r)" "pinned_reserve r"
      "read_account env (http_obligation env) (sr_target_obligation req) ''obligation'' raw_decode_obligation
        ''decode_obligation'' = Some (Inr ob)"
      "ob_owner ob = se_keypair env" "ob_lending_market ob = pubkey_of DEMO_LENDING_MARKET_BS58"
      "rpc_get_token_account_balance (se_codec env) (http_balance env)
        (se_ata env (se_keypair env) (pubkey_of DEMO_LIQUIDITY_MINT_BS58)) = Inr bal"
      "sr_amount_raw req \<le> (case bal of Some t \<Rightarrow> ta_raw t | None \<Rightarrow> 0)"
      and ix: "build_deposit_instruction (se_pda env) (deposit_inputs env req r) = Inr ix"
      and tx: "bt_ixs tx = deposit_transaction env req r ata ix" "se_sign env (bt_ixs tx) hash = Inr bytes"
        "bt_b64 tx = base64_encode (se_codec env) bytes" "bt_bytes tx = length bytes"
    have "ix_data ix = 14 # to_le_bytes (sr_amount_raw req)
        \<and> ix_program_id ix = pubkey_of W5G_SOLEND_PROGRAM_ID_BS58
        \<and> get_index (ix_accounts ix) 0
          = Some (AccountMeta_new (se_ata env (sr_controlled_wallet req) (pubkey_of DEMO_LIQUIDITY_MINT_BS58)) False)
        \<and> get_index (ix_accounts ix) 8 = Some (AccountMeta_new (sr_target_obligation req) False)
        \<and> get_index (ix_accounts ix) 9 = Some (AccountMeta_new (sr_controlled_wallet req) True)"
      using ix f(1)
      by (auto simp: build_deposit_instruction_def deposit_inputs_def Let_def get_index_def
          SOLEND_IX_TAG_DEPOSIT_RESERVE_LIQUIDITY_AND_OBLIGATION_COLLATERAL_def split: if_splits)
    moreover have "ob_lending_market ob = re_lending_market r" using f(5,8) by (simp add: pinned_reserve_def)
    moreover have "length bytes \<le> 1232" using small tx(4) by (simp add: W5G_SERIALIZED_TX_HARD_LIMIT_BYTES_def)
    moreover have "100000 \<le> sr_amount_raw req" "sr_amount_raw req \<le> 1000000"
      using f(2,3) by (simp_all add: PHASE5C_MIN_AMOUNT_RAW_def PHASE5C_MAX_AMOUNT_RAW_def)
    moreover have "se_sign env (deposit_transaction env req r ata ix) hash = Inr bytes" using tx(1,2) by simp
    moreover have "b64 = base64_encode (se_codec env) bytes" using b64 tx(3) by simp
    ultimately show ?thesis using f(1,4-7,9,10) unfolding f(1) by blast
  qed
qed

end
