(* ===== verification/Example_Sender.thy ===== *)
theory Example_Sender
  imports Live_Sender
begin

text \<open>
  The live sender on a concrete node: a reserve of the pinned market, an obligation of the wallet,
  a balance that covers the deposit and a status that is final at once. The properties of
  \<open>Solend_Raw\<close>, \<open>Solend_Tx\<close> and \<open>Live_Sender\<close> are applied here.
\<close>

section \<open>Accounts\<close>

definition xs_reserve :: "u8 list" where
  "xs_reserve = 1 # replicate 9 0 @ array_bytes (pubkey_of DEMO_LENDING_MARKET_BS58)
     @ array_bytes (pubkey_of DEMO_LIQUIDITY_MINT_BS58) @ 6 # replicate 32 0
     @ array_bytes (pubkey_of DEMO_PYTH_ORACLE_BS58) @ replicate 88 0
     @ array_bytes (pubkey_of DEMO_CTOKEN_MINT_BS58) @ replicate 360 0"

definition xs_obligation :: "u8 list" where
  "xs_obligation = 1 # replicate 9 0 @ array_bytes (pubkey_of DEMO_LENDING_MARKET_BS58)
     @ replicate 1258 0"

lemma xs_lengths: "length xs_reserve = 619" "length xs_obligation = 1300"
  by (simp_all add: xs_reserve_def xs_obligation_def)

lemma xs_obligation_bytes:
  "xs_obligation ! 9 = 0" "xs_obligation ! 154 = 0" "xs_obligation ! 187 = 0" "xs_obligation ! 0 = 1"
  "xs_obligation ! 202 = 0" "xs_obligation ! 203 = 0" "take 14 (drop 188 xs_obligation) = replicate 14 0"
  "take 32 (drop 10 xs_obligation) = array_bytes (pubkey_of DEMO_LENDING_MARKET_BS58)"
  "take 32 (drop 42 xs_obligation) = replicate 32 0"
  by (simp_all add: xs_obligation_def nth_append nth_Cons' drop_Cons')

lemma zero_array: "array_of_bytes (replicate 32 0) = (0 :: pubkey)"
proof -
  have "le_value (replicate n 0) = 0" for n by (induction n) simp_all
  then show ?thesis by (simp add: array_of_bytes_def from_le_bytes_def)
qed

lemma xs_obligation_decodes: "\<exists>ob. raw_decode_obligation xs_obligation = Some (Inr ob)
    \<and> ob_version ob = 1 \<and> ob_owner ob = 0 \<and> ob_lending_market ob = pubkey_of DEMO_LENDING_MARKET_BS58
    \<and> ob_deposits ob = []"
  by (simp add: raw_decode_obligation_eq xs_lengths xs_obligation_bytes zero_array array_of_array_bytes
      list_ex_iff)

lemma xs_reserve_bytes:
  "xs_reserve ! 9 = 0" "xs_reserve ! 0 = 1" "xs_reserve ! 74 = 6"
  "take 32 (drop 10 xs_reserve) = array_bytes (pubkey_of DEMO_LENDING_MARKET_BS58)"
  "take 32 (drop 42 xs_reserve) = array_bytes (pubkey_of DEMO_LIQUIDITY_MINT_BS58)"
  "take 32 (drop 107 xs_reserve) = array_bytes (pubkey_of DEMO_PYTH_ORACLE_BS58)"
  "take 32 (drop 227 xs_reserve) = array_bytes (pubkey_of DEMO_CTOKEN_MINT_BS58)"
  by (simp_all add: xs_reserve_def nth_append nth_Cons' drop_Cons')

lemma xs_reserve_decodes:
  "\<exists>r. raw_decode_reserve xs_reserve = Some (Inr r) \<and> re_version r = 1 \<and> pinned_reserve r"
proof -
  have "raw_u8 xs_reserve 0 = Some (xs_reserve ! 0)" by (rule raw_reads) (simp add: xs_lengths)
  then show ?thesis
    by (simp add: raw_decode_reserve_def raw_lens raw_reads raw_bool_read raw_ok_Some xs_lengths
        xs_reserve_bytes array_of_array_bytes pinned_reserve_def)
qed

theorem decoders_agree_witness:
  "(\<exists>ob. decode_obligation xs_obligation = Inr ob \<and> DecodedSolendObligation.owner ob = 0)
   \<and> (\<exists>r. decode_reserve xs_reserve = Inr r
        \<and> DecodedSolendReserve.lending_market r = pubkey_of DEMO_LENDING_MARKET_BS58)"
proof -
  obtain ob where ob: "raw_decode_obligation xs_obligation = Some (Inr ob)" "ob_version ob = 1" "ob_owner ob = 0"
    using xs_obligation_decodes by blast
  obtain r where r: "raw_decode_reserve xs_reserve = Some (Inr r)" "re_version r = 1" "pinned_reserve r"
    using xs_reserve_decodes by blast
  show ?thesis
    using decoders_agree [of xs_obligation] decoders_agree [of xs_reserve] ob r
    by (simp add: pinned_reserve_def)
qed

section \<open>The node\<close>

definition xs_value :: "json \<Rightarrow> http" where
  "xs_value v = (\<lambda>_. Inr (200, Inr (JObject [(''result'', JObject [(''value'', v)])])))"

definition xs_env :: sender_env where
  "xs_env = \<lparr>se_codec = \<lparr>show_json = (\<lambda>_. []),
       base64_decode = (\<lambda>s. Inr (if s = ''R'' then xs_reserve else xs_obligation)),
       base64_encode = (\<lambda>_. ''TX''), show_pubkey = (\<lambda>_. ''K''), hash_from_str = (\<lambda>_. Inr 5)\<rparr>,
     se_debug_decode_error = (\<lambda>_. []), se_keypair = 0, se_pda = (\<lambda>_ _. (9, 255)),
     se_ata = (\<lambda>owner mint. owner + mint),
     se_create_ata = (\<lambda>_ _ _ p. \<lparr>ix_program_id = p, ix_accounts = [], ix_data = []\<rparr>),
     se_sign = (\<lambda>ixs _. Inr (replicate (100 + length ixs) 0)),
     http_reserve = xs_value (JObject [(''data'', JArray [JString ''R''])]),
     http_obligation = xs_value (JObject [(''data'', JArray [JString ''O''])]),
     http_ctoken_ata = xs_value JNull,
     http_balance = xs_value (JObject [(''amount'', JString (show_nat (unat (400000 :: u64))))]),
     http_blockhash = xs_value (JObject [(''blockhash'', JString ''H''),
       (''lastValidBlockHeight'', JNumber (PosInt 77))]),
     http_send = (\<lambda>_. Inr (200, Inr (JObject [(''result'', JString ''SIG'')]))),
     http_status = (\<lambda>_. xs_value (JArray [JObject [(''confirmationStatus'', JString ''finalized''),
       (''slot'', JNumber (PosInt 12))]])),
     http_after_balance = xs_value (JObject [(''amount'', JString (show_nat (unat (150000 :: u64))))]),
     http_after_obligation = xs_value JNull,
     se_sleep_extra = (\<lambda>_. 0), se_call_time = (\<lambda>_. 0)\<rparr>"

definition xs_req :: ChatExecuteSendRequest where
  "xs_req = \<lparr>sr_controlled_wallet = 0, sr_amount_raw = 250000, sr_target_obligation = 8, sr_reserve_pubkey = 7\<rparr>"

lemma xs_post: "rpc_post cd (xs_value v) body = Inr (JObject [(''result'', JObject [(''value'', v)])])"
  by (simp add: rpc_post_def xs_value_def)

lemmas xs_calls = rpc_get_account_data_def rpc_get_account_exists_def rpc_get_token_account_balance_def
  rpc_get_latest_blockhash_def rpc_get_signature_status_def xs_post json_at_def json_nth_def Let_def

lemma xs_builds: "\<exists>tx. build_tx xs_env xs_req = Some (Inr tx) \<and> bt_b64 tx = ''TX'' \<and> bt_bytes tx = 105"
proof -
  obtain r where r: "raw_decode_reserve xs_reserve = Some (Inr r)" "pinned_reserve r"
    using xs_reserve_decodes by blast
  obtain ob where ob: "raw_decode_obligation xs_obligation = Some (Inr ob)" "ob_owner ob = 0"
    "ob_lending_market ob = pubkey_of DEMO_LENDING_MARKET_BS58"
    using xs_obligation_decodes by blast
  have "verify_main_pool_reserve xs_env r = Inr ()" "verify_main_pool_obligation xs_env ob 0 = Inr ()"
    using r(2) ob(2,3) by (simp_all add: ok_simps)
  moreover have "read_account xs_env (http_reserve xs_env) 7 ''reserve'' raw_decode_reserve ''decode_reserve''
      = Some (Inr r)"
    "read_account xs_env (http_obligation xs_env) 8 ''obligation'' raw_decode_obligation ''decode_obligation''
      = Some (Inr ob)"
    by (simp_all add: read_account_def xs_env_def xs_calls get_index_def r(1) ob(1))
  moreover note parse_u64_show_nat [of 400000]
  ultimately show ?thesis
    by (simp add: build_tx_def xs_req_def raw_ok_Some)
      (simp add: xs_env_def xs_calls raw_ok_Some build_deposit_instruction_def deposit_inputs_def
        deposit_transaction_def build_refresh_instructions_def assemble_and_sign_def
        PHASE5C_MIN_AMOUNT_RAW_def PHASE5C_MAX_AMOUNT_RAW_def)
qed

lemma xs_poll: "\<exists>n. poll_signature_with_backoff (sender_poll_env xs_env ''SIG'') W5G_SCHEDULE = Some (PollFinalized 12, n)"
  by (simp add: poll_signature_with_backoff_def W5G_SCHEDULE_def, subst poll_loop.simps)
    (simp add: sender_poll_env_def xs_env_def xs_calls of_millis_def get_index_def status_of_def poll_reply_def)

lemma xs_sends:
  "\<exists>n m a bu au bc ac. live_build_sign_send_poll xs_env xs_req = Some (Finalized ''SIG'' 12 n m a bu au bc ac, [''TX''])"
proof -
  obtain tx where tx: "build_tx xs_env xs_req = Some (Inr tx)" "bt_b64 tx = ''TX''" "bt_bytes tx = 105"
    using xs_builds by blast
  obtain n where "poll_signature_with_backoff (sender_poll_env xs_env ''SIG'') W5G_SCHEDULE = Some (PollFinalized 12, n)"
    using xs_poll by blast
  moreover have "rpc_send_transaction_base64 (se_codec xs_env) (http_send xs_env) ''TX'' = Inr ''SIG''"
    by (simp add: rpc_send_transaction_base64_def rpc_post_def xs_env_def json_at_def)
  moreover obtain ct where "after_ctoken xs_env xs_req tx = Some ct" using after_ctoken_total by blast
  ultimately show ?thesis
    by (simp add: live_build_sign_send_poll_def tx sender_outcome_def W5G_SERIALIZED_TX_HARD_LIMIT_BYTES_def)
qed

theorem live_sender_returns_witness:
  "\<exists>n m a bu au bc ac. live_build_sign_send_poll xs_env xs_req = Some (Finalized ''SIG'' 12 n m a bu au bc ac, [''TX''])
    \<and> (\<exists>k. rpc_get_signature_status (se_codec xs_env) (http_status xs_env k) ''SIG'' = Inr (Succeeded 12 ''finalized''))"
  using live_sender_returns [of xs_env xs_req] xs_sends by auto

theorem live_sender_broadcasts_witness:
  "(\<exists>out. live_build_sign_send_poll xs_env xs_req = Some (out, [''TX'']))
   \<and> (\<exists>ix :: instruction. ix_data ix = 14 # to_le_bytes (250000 :: u64)
        \<and> get_index (ix_accounts ix) 8 = Some (AccountMeta_new 8 False)
        \<and> get_index (ix_accounts ix) 9 = Some (AccountMeta_new 0 True))"
proof -
  obtain out where out: "live_build_sign_send_poll xs_env xs_req = Some (out, [''TX''])" using xs_sends by blast
  have "\<exists>ix :: instruction. ix_data ix = 14 # to_le_bytes (250000 :: u64)
        \<and> get_index (ix_accounts ix) 8 = Some (AccountMeta_new 8 False)
        \<and> get_index (ix_accounts ix) 9 = Some (AccountMeta_new 0 True)"
    using live_sender_broadcasts [OF out, of "''TX''"] by (simp add: xs_req_def) blast
  with out show ?thesis by blast
qed

section \<open>Builders\<close>

definition xs_view :: "pubkey \<Rightarrow> account_info" where
  "xs_view k = \<lparr>key = k, is_signer = False, is_writable = False\<rparr>"

definition xs_withdraw :: SolendWithdrawAccounts where
  "xs_withdraw = \<lparr>source_collateral = xs_view 1, delegated_ctoken = xs_view 2, reserve = xs_view 3,
     obligation = xs_view 4, lending_market = xs_view 5, lending_market_authority = xs_view 9,
     destination = xs_view 6, reserve_collateral_mint = xs_view 7, reserve_liquidity_supply = xs_view 8,
     obligation_owner = xs_view 10, user_transfer_authority = xs_view 11,
     token_program = xs_view SPL_TOKEN_PROGRAM_ID\<rparr>"

theorem solend_builders_agree_witness:
  "build_withdraw_instruction (\<lambda>_ _. (9, 255))
     \<lparr>wi_solend_program_id = 12, wi_collateral_amount = 40, wi_source_collateral = 1,
      wi_destination_collateral = 2, wi_reserve = 3, wi_obligation = 4, wi_lending_market = 5,
      wi_destination_liquidity = 6, wi_reserve_collateral_mint = 7, wi_reserve_liquidity_supply = 8,
      wi_obligation_owner = 10, wi_user_transfer_authority = 11, wi_deposit_reserves_in_order = [3]\<rparr>
   = Inr (withdraw_instruction (xs_view 12) xs_withdraw [xs_view 3] 40)"
  using solend_builders_agree [of "xs_view 12" 0 0 0 0 "[]" xs_withdraw "\<lambda>_ _. (9, 255)" 40 "[xs_view 3]"]
  by (simp add: xs_withdraw_def xs_view_def)

end
