(* ===== verification/Watcher_Types.thy ===== *)
theory Watcher_Types
  imports Watch_Rule Rust_Text
begin

text \<open>
  What the stage-2 watcher (\<open>crates/gateway/src/stage2_watcher.rs\<close>), its condition evaluator and the
  rule executor share: the error classes with their printing, and the context of a tick.
\<close>

datatype Stage2WatcherError = Transient string | Terminal string | Internal string

fun is_transient :: "Stage2WatcherError \<Rightarrow> bool" where
  "is_transient (Transient _) = True"
| "is_transient _ = False"

fun is_terminal_error :: "Stage2WatcherError \<Rightarrow> bool" where
  "is_terminal_error (Terminal _) = True"
| "is_terminal_error _ = False"

fun watcher_error_display :: "Stage2WatcherError \<Rightarrow> string" where
  "watcher_error_display (Transient m) = ''transient: '' @ m"
| "watcher_error_display (Terminal m) = ''terminal: '' @ m"
| "watcher_error_display (Internal m) = ''internal: '' @ m"

record Stage2TickContext =
  tc_current_slot :: u64
  tc_current_unix_timestamp :: i64
  tc_now_ms :: i64

definition show_int :: "int \<Rightarrow> string" where
  "show_int z = (if z < 0 then ''-'' @ show_nat (nat (- z)) else show_nat (nat z))"

text \<open>The value of a result, without the reason of a failure.\<close>

definition value_of :: "'e + 'a \<Rightarrow> 'a option" where
  "value_of m = (case m of Inl _ \<Rightarrow> None | Inr x \<Rightarrow> Some x)"

lemma value_of_simps [simp]: "value_of (Inl e) = None" "value_of (Inr x) = Some x"
  by (simp_all add: value_of_def)

lemma value_of_bindE [simp]: "value_of (bindE m f) = Option.bind (value_of m) (\<lambda>x. value_of (f x))"
  by (cases m) simp_all

lemma value_of_ok_or [simp]: "value_of (ok_or x e) = x"
  by (cases x) simp_all

lemma value_of_map_err [simp]: "value_of (map_err f m) = value_of m"
  by (cases m) simp_all

lemma value_of_if [simp]: "value_of (if c then a else b) = (if c then value_of a else value_of b)"
  by simp

lemma value_of_case_prod: "value_of (case p of (a, b) \<Rightarrow> f a b) = (case p of (a, b) \<Rightarrow> value_of (f a b))"
  by (cases p) simp

lemma value_of_Some: "value_of m = Some x \<longleftrightarrow> m = Inr x"
  by (cases m) simp_all

end
