(* ===== verification/Rule_Watcher.thy ===== *)
theory Rule_Watcher
  imports Watcher_Types Watch_Rule_Lifecycle
begin

text \<open>
  \<open>Stage2Watcher\<close> of \<open>crates/gateway/src/stage2_watcher.rs\<close>: one tick over the pending rules, the
  forced ticks and the health snapshot. Shared with concurrent tasks are the rule table and the set
  of rules in flight; before each database call of a tick an arbitrary function of the environment
  stands for what other tasks did to them. Evaluator and simulator are the injected components.
\<close>

section \<open>Configuration, results and reports\<close>

record Stage2WatcherConfig =
  max_rules_per_tick :: u32
  tick_interval_ms :: u64
  offline_threshold_ms :: i64
  stale_threshold_ms :: i64
  force_tick_enabled :: bool

definition default_watcher_config :: Stage2WatcherConfig where
  "default_watcher_config = \<lparr>max_rules_per_tick = 500, tick_interval_ms = 5000,
     offline_threshold_ms = 300000, stale_threshold_ms = 120000, force_tick_enabled = False\<rparr>"

datatype Stage2RuleTickResult =
    SkippedNonActive (result_rule_id: "128 word")
  | SkippedInFlight (result_rule_id: "128 word")
  | SkippedRaceLost (result_rule_id: "128 word")
  | TickExpired (result_rule_id: "128 word")
  | ConditionFalse (result_rule_id: "128 word")
  | ConditionMet (result_rule_id: "128 word")
  | EvaluatorTransientError (result_rule_id: "128 word") string
  | EvaluatorTerminalError (result_rule_id: "128 word") string
  | SimulatorTransientError (result_rule_id: "128 word") string
  | SimulatorTerminalError (result_rule_id: "128 word") string

text \<open>The counters are \<open>u32\<close> in the source; a tick handles at most \<open>u32::MAX\<close> rules, so none overflows.\<close>

record Stage2TickReport =
  started_at_ms :: i64
  finished_at_ms :: i64
  duration_ms :: i64
  rules_loaded :: nat
  rules_processed :: nat
  rules_loaded_at_limit :: bool
  expired_count :: nat
  condition_met_count :: nat
  transient_error_count :: nat
  terminal_error_count :: nat
  failed_count :: nat
  skipped_non_active_count :: nat
  in_flight_skip_count :: nat
  race_lost_count :: nat
  internal_errors :: "string list"
  per_rule :: "Stage2RuleTickResult list"
  force_tick :: bool
  force_tick_target :: "128 word option"
  force_tick_target_not_found :: bool

definition report_started :: "i64 \<Rightarrow> Stage2TickReport" where
  "report_started now = \<lparr>started_at_ms = now, finished_at_ms = 0, duration_ms = 0, rules_loaded = 0,
     rules_processed = 0, rules_loaded_at_limit = False, expired_count = 0, condition_met_count = 0,
     transient_error_count = 0, terminal_error_count = 0, failed_count = 0, skipped_non_active_count = 0,
     in_flight_skip_count = 0, race_lost_count = 0, internal_errors = [], per_rule = [],
     force_tick = False, force_tick_target = None, force_tick_target_not_found = False\<rparr>"

definition i64_saturating_sub :: "i64 \<Rightarrow> i64 \<Rightarrow> i64" where
  "i64_saturating_sub a b = word_of_int (max (- (2 ^ 63)) (min (2 ^ 63 - 1) (sint a - sint b)))"

definition report_finish :: "i64 \<Rightarrow> Stage2TickReport \<Rightarrow> Stage2TickReport" where
  "report_finish now rep =
     rep\<lparr>finished_at_ms := now, duration_ms := i64_saturating_sub now (started_at_ms rep)\<rparr>"

definition add_internal_error :: "string \<Rightarrow> Stage2TickReport \<Rightarrow> Stage2TickReport" where
  "add_internal_error m rep = rep\<lparr>internal_errors := internal_errors rep @ [m]\<rparr>"

definition add_result :: "Stage2RuleTickResult \<Rightarrow> Stage2TickReport \<Rightarrow> Stage2TickReport" where
  "add_result r rep = rep\<lparr>per_rule := per_rule rep @ [r]\<rparr>"

definition was_successful :: "Stage2TickReport \<Rightarrow> bool" where
  "was_successful rep \<longleftrightarrow> internal_errors rep = []"

record WatcherCachedState =
  ca_last_successful_tick_at_ms :: "i64 option"
  ca_last_tick_started_at_ms :: "i64 option"
  ca_last_tick_finished_at_ms :: "i64 option"
  ca_last_tick_duration_ms :: "i64 option"
  ca_last_error :: "string option"
  ca_expired_count_last_tick :: nat
  ca_condition_met_count_last_tick :: nat
  ca_transient_error_count_last_tick :: nat
  ca_terminal_error_count_last_tick :: nat
  ca_failed_count_last_tick :: nat

section \<open>Processing a rule\<close>

record shared =
  sh_rules :: rule_db
  sh_in_flight :: "128 word set"

text \<open>
  What the processing of one rule meets: verdict and clock of its first and second database call,
  its own clock reading, the other tasks before each call, and the two injected components.
\<close>

record process_env =
  pe_verdict :: "nat \<Rightarrow> verdict"
  pe_now :: "nat \<Rightarrow> i64"
  pe_clock :: i64
  pe_tasks :: "nat \<Rightarrow> shared \<Rightarrow> shared"
  pe_evaluate :: "WatchRule \<Rightarrow> Stage2TickContext \<Rightarrow> Stage2WatcherError + bool"
  pe_simulate :: "WatchRule \<Rightarrow> Stage2TickContext \<Rightarrow> Stage2WatcherError + unit"
  pe_show :: "StoreError \<Rightarrow> string"

text \<open>The components of a default watcher.\<close>

definition noop_evaluate :: "WatchRule \<Rightarrow> Stage2TickContext \<Rightarrow> Stage2WatcherError + bool" where
  "noop_evaluate rule ctx = Inr False"

definition noop_simulate :: "WatchRule \<Rightarrow> Stage2TickContext \<Rightarrow> Stage2WatcherError + unit" where
  "noop_simulate rule ctx = Inr ()"

text \<open>A database call of the tick, after whatever other tasks did.\<close>

definition rule_call ::
  "process_env \<Rightarrow> nat \<Rightarrow> (verdict \<Rightarrow> i64 \<Rightarrow> rule_db \<Rightarrow> rule_cas) \<Rightarrow> shared \<Rightarrow> (StoreError + nat) \<times> shared" where
  "rule_call env i call sh =
    (let sh1 = pe_tasks env i sh;
         (n, db) = call (pe_verdict env i) (pe_now env i) (sh_rules sh1)
     in (n, sh1\<lparr>sh_rules := db\<rparr>))"

type_synonym progress = "Stage2TickReport \<times> shared"

definition call_failed :: "process_env \<Rightarrow> string \<Rightarrow> 128 word \<Rightarrow> StoreError \<Rightarrow> Stage2TickReport \<Rightarrow> Stage2TickReport" where
  "call_failed env name rid e = add_internal_error (name @ '' '' @ rule_id_hex rid @ '': '' @ pe_show env e)"

definition record_transient :: "process_env \<Rightarrow> 128 word \<Rightarrow> string \<Rightarrow> progress \<Rightarrow> progress" where
  "record_transient env rid msg = (\<lambda>(rep, sh).
    let (n, sh1) = rule_call env 1 (\<lambda>v now. record_last_error v now rid msg) sh;
        rep1 = (case n of Inl e \<Rightarrow> call_failed env ''record_last_error'' rid e rep | Inr _ \<Rightarrow> rep)
    in (rep1\<lparr>transient_error_count := transient_error_count rep1 + 1\<rparr>, sh1))"

definition record_terminal :: "process_env \<Rightarrow> 128 word \<Rightarrow> string \<Rightarrow> progress \<Rightarrow> progress" where
  "record_terminal env rid msg = (\<lambda>(rep, sh).
    let (n, sh1) = rule_call env 1 (\<lambda>v now. mark_failed_if_not_terminal v now rid msg) sh
    in (case n of
          Inr k \<Rightarrow> if k = 1
            then rep\<lparr>terminal_error_count := terminal_error_count rep + 1, failed_count := failed_count rep + 1\<rparr>
            else rep\<lparr>race_lost_count := race_lost_count rep + 1\<rparr>
        | Inl e \<Rightarrow> call_failed env ''mark_failed_if_not_terminal'' rid e rep, sh1))"

definition handle_condition_true ::
  "process_env \<Rightarrow> WatchRule \<Rightarrow> Stage2TickContext \<Rightarrow> progress \<Rightarrow> progress" where
  "handle_condition_true env rule ctx = (\<lambda>(rep, sh).
    let rid = wr_rule_id rule in
    case pe_simulate env rule ctx of
      Inr _ \<Rightarrow>
       (let (n, sh1) = rule_call env 1 (\<lambda>v now. mark_condition_met_if_active v now rid) sh
        in (case n of
              Inr k \<Rightarrow> if k = 1
                then add_result (ConditionMet rid) (rep\<lparr>condition_met_count := condition_met_count rep + 1\<rparr>)
                else add_result (SkippedRaceLost rid) (rep\<lparr>race_lost_count := race_lost_count rep + 1\<rparr>)
            | Inl e \<Rightarrow> call_failed env ''mark_condition_met_if_active'' rid e rep, sh1))
    | Inl e \<Rightarrow>
       (let msg = watcher_error_display e in
        if is_transient e then
          apfst (add_result (SimulatorTransientError rid msg)) (record_transient env rid msg (rep, sh))
        else if is_terminal_error e then
          apfst (add_result (SimulatorTerminalError rid msg)) (record_terminal env rid msg (rep, sh))
        else (add_internal_error (''simulator internal error for '' @ rule_id_hex rid @ '': '' @ msg) rep, sh)))"

text \<open>Steps 4 and 5, with the rule in flight.\<close>

definition check_and_evaluate ::
  "process_env \<Rightarrow> WatchRule \<Rightarrow> Stage2TickContext \<Rightarrow> progress \<Rightarrow> progress" where
  "check_and_evaluate env rule ctx = (\<lambda>(rep, sh).
    let rid = wr_rule_id rule;
        (n, sh1) = rule_call env 0 (\<lambda>v now. mark_checked v now rid (tc_current_slot ctx) (pe_clock env)) sh
    in case n of
      Inl e \<Rightarrow> (call_failed env ''mark_checked'' rid e rep, sh1)
    | Inr _ \<Rightarrow>
       (let rep1 = rep\<lparr>rules_processed := rules_processed rep + 1\<rparr> in
        case pe_evaluate env rule ctx of
          Inr False \<Rightarrow> (add_result (ConditionFalse rid) rep1, sh1)
        | Inr True \<Rightarrow> handle_condition_true env rule ctx (rep1, sh1)
        | Inl e \<Rightarrow>
           (let msg = watcher_error_display e in
            if is_transient e then
              apfst (add_result (EvaluatorTransientError rid msg)) (record_transient env rid msg (rep1, sh1))
            else if is_terminal_error e then
              apfst (add_result (EvaluatorTerminalError rid msg)) (record_terminal env rid msg (rep1, sh1))
            else (add_internal_error (''evaluator internal error for '' @ rule_id_hex rid @ '': '' @ msg) rep1, sh1))))"

definition process_rule ::
  "process_env \<Rightarrow> StoredWatchRule \<Rightarrow> Stage2TickContext \<Rightarrow> progress \<Rightarrow> progress" where
  "process_rule env stored ctx = (\<lambda>(rep, sh).
    let rule = sw_rule stored; rid = wr_rule_id rule in
    if sw_status stored \<noteq> WsActive then
      (add_result (SkippedNonActive rid) (rep\<lparr>skipped_non_active_count := skipped_non_active_count rep + 1\<rparr>), sh)
    else if wr_expires_at_slot rule \<le> tc_current_slot ctx then
      (let (n, sh1) = rule_call env 0 (\<lambda>v now. mark_expired_if_not_terminal v now rid) sh
       in (case n of
             Inr _ \<Rightarrow> add_result (TickExpired rid) (rep\<lparr>expired_count := expired_count rep + 1\<rparr>)
           | Inl e \<Rightarrow> call_failed env ''mark_expired_if_not_terminal'' rid e rep, sh1))
    else if rid \<in> sh_in_flight sh then
      (add_result (SkippedInFlight rid) (rep\<lparr>in_flight_skip_count := in_flight_skip_count rep + 1\<rparr>), sh)
    else
      (let (rep1, sh1) = check_and_evaluate env rule ctx (rep, sh\<lparr>sh_in_flight := insert rid (sh_in_flight sh)\<rparr>)
       in (rep1, sh1\<lparr>sh_in_flight := sh_in_flight sh1 - {rid}\<rparr>)))"

fun process_rules ::
  "(nat \<Rightarrow> process_env) \<Rightarrow> Stage2TickContext \<Rightarrow> nat \<Rightarrow> StoredWatchRule list \<Rightarrow> progress \<Rightarrow> progress" where
  "process_rules env ctx k [] p = p"
| "process_rules env ctx k (s # ss) p = process_rules env ctx (Suc k) ss (process_rule (env k) s ctx p)"

section \<open>Ticks\<close>

record watcher_env =
  wt_config :: Stage2WatcherConfig
  wt_codec :: rule_codec
  wt_list_verdict :: verdict
  wt_get_verdict :: verdict
  wt_tasks :: "shared \<Rightarrow> shared"
  wt_rule :: "nat \<Rightarrow> process_env"
  wt_finish_clock :: i64
  wt_show :: "StoreError \<Rightarrow> string"

definition finalise_report ::
  "i64 \<Rightarrow> Stage2TickReport \<times> WatcherCachedState \<Rightarrow> Stage2TickReport \<times> WatcherCachedState" where
  "finalise_report now = (\<lambda>(rep, st).
    let rep1 = report_finish now rep;
        st1 = st\<lparr>ca_last_tick_finished_at_ms := Some now, ca_last_tick_duration_ms := Some (duration_ms rep1),
          ca_expired_count_last_tick := expired_count rep1,
          ca_condition_met_count_last_tick := condition_met_count rep1,
          ca_transient_error_count_last_tick := transient_error_count rep1,
          ca_terminal_error_count_last_tick := terminal_error_count rep1,
          ca_failed_count_last_tick := failed_count rep1\<rparr>
    in (rep1, if was_successful rep1
         then st1\<lparr>ca_last_successful_tick_at_ms := Some now, ca_last_error := None\<rparr>
         else st1\<lparr>ca_last_error := Some (last (internal_errors rep1))\<rparr>))"

definition watcher_tick ::
  "watcher_env \<Rightarrow> Stage2TickContext \<Rightarrow> shared \<times> WatcherCachedState \<Rightarrow>
   Stage2TickReport \<times> shared \<times> WatcherCachedState" where
  "watcher_tick env ctx = (\<lambda>(sh, st).
    let rep = report_started (tc_now_ms ctx);
        st1 = st\<lparr>ca_last_tick_started_at_ms := Some (tc_now_ms ctx)\<rparr>;
        limit = max_rules_per_tick (wt_config env);
        sh1 = wt_tasks env sh;
        (rep1, sh2) =
          (case list_pending_lifecycle_limit (wt_codec env) (wt_list_verdict env) limit (sh_rules sh1) of
             Inl e \<Rightarrow> (add_internal_error (''list_pending_lifecycle_limit: '' @ wt_show env e) rep, sh1)
           | Inr rules \<Rightarrow> process_rules (wt_rule env) ctx 0 rules
               (rep\<lparr>rules_loaded := length rules,
                    rules_loaded_at_limit := (length rules = unat limit \<and> 0 < limit)\<rparr>, sh1));
        (rep2, st2) = finalise_report (wt_finish_clock env) (rep1, st1)
    in (rep2, sh2, st2))"

definition force_disabled :: "string \<Rightarrow> Stage2WatcherError" where
  "force_disabled name = Terminal (name @
     '' disabled: enable Stage2WatcherConfig::force_tick_enabled (demo/dev only)'')"

definition watcher_force_tick ::
  "watcher_env \<Rightarrow> Stage2TickContext \<Rightarrow> shared \<times> WatcherCachedState \<Rightarrow>
   (Stage2WatcherError + Stage2TickReport) \<times> shared \<times> WatcherCachedState" where
  "watcher_force_tick env ctx p =
    (if \<not> force_tick_enabled (wt_config env) then (Inl (force_disabled ''force_tick''), p)
     else let (rep, q) = watcher_tick env ctx p in (Inr (rep\<lparr>force_tick := True\<rparr>), q))"

definition watcher_force_tick_rule ::
  "watcher_env \<Rightarrow> 128 word \<Rightarrow> Stage2TickContext \<Rightarrow> shared \<times> WatcherCachedState \<Rightarrow>
   (Stage2WatcherError + Stage2TickReport) \<times> shared \<times> WatcherCachedState" where
  "watcher_force_tick_rule env rid ctx = (\<lambda>(sh, st).
    if \<not> force_tick_enabled (wt_config env) then (Inl (force_disabled ''force_tick_rule''), sh, st)
    else let
        rep = (report_started (tc_now_ms ctx))\<lparr>force_tick := True, force_tick_target := Some rid\<rparr>;
        st1 = st\<lparr>ca_last_tick_started_at_ms := Some (tc_now_ms ctx)\<rparr>;
        sh1 = wt_tasks env sh;
        (rep1, sh2) =
          (case get_rule (wt_codec env) (wt_get_verdict env) rid (sh_rules sh1) of
             Inl e \<Rightarrow> (add_internal_error (''repo.get: '' @ wt_show env e) rep, sh1)
           | Inr None \<Rightarrow> (rep\<lparr>force_tick_target_not_found := True\<rparr>, sh1)
           | Inr (Some stored) \<Rightarrow>
               if sw_status stored \<in> {WsCompleted, WsExpired, WsRevoked, WsFailed}
               then (rep\<lparr>force_tick_target_not_found := True\<rparr>, sh1)
               else process_rule (wt_rule env 0) stored ctx (rep\<lparr>rules_loaded := 1\<rparr>, sh1));
        (rep2, st2) = finalise_report (wt_finish_clock env) (rep1, st1)
      in (Inr rep2, sh2, st2))"

section \<open>Health\<close>

record Stage2WatcherHealth =
  he_enabled :: bool
  he_cached :: WatcherCachedState
  he_active_rule_count :: nat
  he_stale_rule_count :: nat
  he_in_flight_rule_count :: nat
  he_offline_threshold_ms :: i64
  he_stale_threshold_ms :: i64
  he_is_offline :: bool

text \<open>The differences are plain \<open>i64\<close> subtractions: they wrap in a release build.\<close>

definition is_rule_stale :: "Stage2WatcherConfig \<Rightarrow> StoredWatchRule \<Rightarrow> i64 \<Rightarrow> bool" where
  "is_rule_stale cfg s now = (case sw_last_successful_tick_at_ms s of
     Some t \<Rightarrow> sint (now - t) > sint (stale_threshold_ms cfg)
   | None \<Rightarrow> sint (now - sw_created_at_ms s) > sint (stale_threshold_ms cfg))"

definition watcher_health ::
  "watcher_env \<Rightarrow> bool \<Rightarrow> u64 \<Rightarrow> i64 \<Rightarrow> shared \<times> WatcherCachedState \<Rightarrow> Stage2WatcherError + Stage2WatcherHealth" where
  "watcher_health env enabled current now = (\<lambda>(sh, st).
    bindE (map_err (\<lambda>e. Internal (''state-store: '' @ wt_show env e))
      (list_active_limit (wt_codec env) (wt_list_verdict env) current (- 1) (sh_rules sh))) (\<lambda>actives.
    Inr \<lparr>he_enabled = enabled, he_cached = st, he_active_rule_count = length actives,
      he_stale_rule_count = length (filter (\<lambda>s. sw_status s = WsActive \<and> is_rule_stale (wt_config env) s now) actives),
      he_in_flight_rule_count = card (sh_in_flight sh),
      he_offline_threshold_ms = offline_threshold_ms (wt_config env),
      he_stale_threshold_ms = stale_threshold_ms (wt_config env),
      he_is_offline = (case ca_last_successful_tick_at_ms st of
        Some t \<Rightarrow> sint (now - t) > sint (offline_threshold_ms (wt_config env)) | None \<Rightarrow> True)\<rparr>))"

section \<open>Effects on the table\<close>

definition fair_process :: "rule_codec \<Rightarrow> process_env \<Rightarrow> bool" where
  "fair_process codec env \<longleftrightarrow> (\<forall>i sh. (rule_step codec)\<^sup>*\<^sup>* (sh_rules sh) (sh_rules (pe_tasks env i sh)))"

lemma rule_call_run:
  assumes "fair_process codec env" and "\<And>v now db. rule_step codec db (snd (call v now db))"
    and "rule_call env i call sh = (n, sh')"
  shows "(rule_step codec)\<^sup>*\<^sup>* (sh_rules sh) (sh_rules sh')"
proof -
  have "(rule_step codec)\<^sup>*\<^sup>* (sh_rules sh) (sh_rules (pe_tasks env i sh))"
    using assms(1) by (simp add: fair_process_def)
  moreover have "sh_rules sh' = snd (call (pe_verdict env i) (pe_now env i) (sh_rules (pe_tasks env i sh)))"
    using assms(3) by (auto simp: rule_call_def Let_def split: prod.splits)
  ultimately show ?thesis using assms(2) by (metis rtranclp.rtrancl_into_rtrancl)
qed

lemma record_transient_run:
  "fair_process codec env \<Longrightarrow> record_transient env rid m (rep, sh) = (rep', sh') \<Longrightarrow>
   (rule_step codec)\<^sup>*\<^sup>* (sh_rules sh) (sh_rules sh')"
  by (auto simp: record_transient_def Let_def split: prod.splits elim!: rule_call_run [rotated 2] intro: rs_error)

lemma record_terminal_run:
  "fair_process codec env \<Longrightarrow> record_terminal env rid m (rep, sh) = (rep', sh') \<Longrightarrow>
   (rule_step codec)\<^sup>*\<^sup>* (sh_rules sh) (sh_rules sh')"
  by (auto simp: record_terminal_def Let_def split: prod.splits elim!: rule_call_run [rotated 2] intro: rs_fail_pending)

lemma handle_condition_true_run:
  assumes "fair_process codec env" and "handle_condition_true env rule ctx (rep, sh) = (rep', sh')"
  shows "(rule_step codec)\<^sup>*\<^sup>* (sh_rules sh) (sh_rules sh')"
proof (cases "pe_simulate env rule ctx")
  case (Inr u)
  obtain n sh1 where call: "rule_call env 1 (\<lambda>v now. mark_condition_met_if_active v now (wr_rule_id rule)) sh = (n, sh1)"
    by force
  then have "sh' = sh1" using assms(2) Inr by (simp add: handle_condition_true_def Let_def)
  then show ?thesis using rule_call_run [OF assms(1) _ call] by (blast intro: rs_condition_met)
next
  case (Inl e)
  then show ?thesis
    using assms record_transient_run [OF assms(1)] record_terminal_run [OF assms(1)]
    by (auto simp: handle_condition_true_def Let_def apfst_def map_prod_def split: if_splits prod.splits)
qed

lemma check_and_evaluate_run:
  assumes "fair_process codec env" and "check_and_evaluate env rule ctx (rep, sh) = (rep', sh')"
  shows "(rule_step codec)\<^sup>*\<^sup>* (sh_rules sh) (sh_rules sh')"
proof -
  obtain n sh1 where call: "rule_call env 0
      (\<lambda>v now. mark_checked v now (wr_rule_id rule) (tc_current_slot ctx) (pe_clock env)) sh = (n, sh1)" by force
  have first: "(rule_step codec)\<^sup>*\<^sup>* (sh_rules sh) (sh_rules sh1)"
    using rule_call_run [OF assms(1) _ call] by (blast intro: rs_checked)
  have "(rule_step codec)\<^sup>*\<^sup>* (sh_rules sh1) (sh_rules sh')"
    using assms(2) record_transient_run [OF assms(1)] record_terminal_run [OF assms(1)]
      handle_condition_true_run [OF assms(1)]
    by (auto simp: check_and_evaluate_def call Let_def apfst_def map_prod_def
        split: sum.splits bool.splits if_splits prod.splits)
  then show ?thesis using first by simp
qed

lemma process_rule_run:
  assumes "fair_process codec env" and "process_rule env stored ctx (rep, sh) = (rep', sh')"
  shows "(rule_step codec)\<^sup>*\<^sup>* (sh_rules sh) (sh_rules sh')"
proof -
  obtain n sh1 where call: "rule_call env 0
      (\<lambda>v now. mark_expired_if_not_terminal v now (wr_rule_id (sw_rule stored))) sh = (n, sh1)" by force
  have expire: "(rule_step codec)\<^sup>*\<^sup>* (sh_rules sh) (sh_rules sh1)"
    using rule_call_run [OF assms(1) _ call] by (blast intro: rs_expire)
  show ?thesis
    using assms(2) expire check_and_evaluate_run [OF assms(1)]
    by (fastforce simp: process_rule_def call Let_def split: if_splits prod.splits)
qed

lemma process_rules_run:
  assumes "\<And>k. fair_process codec (env k)" and "process_rules env ctx k ss (rep, sh) = (rep', sh')"
  shows "(rule_step codec)\<^sup>*\<^sup>* (sh_rules sh) (sh_rules sh')"
  using assms(2)
proof (induction ss arbitrary: k rep sh)
  case (Cons s ss)
  obtain rep1 sh1 where one: "process_rule (env k) s ctx (rep, sh) = (rep1, sh1)" by force
  have "(rule_step codec)\<^sup>*\<^sup>* (sh_rules sh) (sh_rules sh1)" by (rule process_rule_run [OF assms(1) one])
  moreover have "(rule_step codec)\<^sup>*\<^sup>* (sh_rules sh1) (sh_rules sh')" using Cons one by simp
  ultimately show ?case by simp
qed simp

section \<open>What a report says\<close>

text \<open>What a result claims about its rule, the tick and the answers of the injected components.\<close>

definition due :: "StoredWatchRule \<Rightarrow> Stage2TickContext \<Rightarrow> bool" where
  "due s ctx \<longleftrightarrow> sw_status s = WsActive \<and> tc_current_slot ctx < wr_expires_at_slot (sw_rule s)"

text \<open>
  The database calls made for a rule that is due, from the shared state \<open>sh\<close> in which its processing starts: the
  mark of the check, and the compare-and-set that settles a rule whose condition held or that failed for good.
\<close>

definition checked_call :: "process_env \<Rightarrow> StoredWatchRule \<Rightarrow> Stage2TickContext \<Rightarrow> shared \<Rightarrow> (StoreError + nat) \<times> shared" where
  "checked_call env s ctx sh = (let rid = wr_rule_id (sw_rule s) in
     rule_call env 0 (\<lambda>v now. mark_checked v now rid (tc_current_slot ctx) (pe_clock env))
       (sh\<lparr>sh_in_flight := insert rid (sh_in_flight sh)\<rparr>))"

definition expire_answer :: "process_env \<Rightarrow> StoredWatchRule \<Rightarrow> shared \<Rightarrow> StoreError + nat" where
  "expire_answer env s sh =
     fst (rule_call env 0 (\<lambda>v now. mark_expired_if_not_terminal v now (wr_rule_id (sw_rule s))) sh)"

definition met_answer :: "process_env \<Rightarrow> StoredWatchRule \<Rightarrow> Stage2TickContext \<Rightarrow> shared \<Rightarrow> StoreError + nat" where
  "met_answer env s ctx sh =
     fst (rule_call env 1 (\<lambda>v now. mark_condition_met_if_active v now (wr_rule_id (sw_rule s)))
       (snd (checked_call env s ctx sh)))"

definition failed_answer :: "process_env \<Rightarrow> StoredWatchRule \<Rightarrow> Stage2TickContext \<Rightarrow> string \<Rightarrow> shared \<Rightarrow> StoreError + nat" where
  "failed_answer env s ctx m sh =
     fst (rule_call env 1 (\<lambda>v now. mark_failed_if_not_terminal v now (wr_rule_id (sw_rule s)) m)
       (snd (checked_call env s ctx sh)))"

text \<open>The rule is evaluated: due, not in another tick's hands, and its check was recorded.\<close>

definition attempted :: "process_env \<Rightarrow> StoredWatchRule \<Rightarrow> Stage2TickContext \<Rightarrow> shared \<Rightarrow> bool" where
  "attempted env s ctx sh \<longleftrightarrow> due s ctx \<and> wr_rule_id (sw_rule s) \<notin> sh_in_flight sh
     \<and> (\<exists>k. fst (checked_call env s ctx sh) = Inr k)"

definition triggered :: "process_env \<Rightarrow> StoredWatchRule \<Rightarrow> Stage2TickContext \<Rightarrow> shared \<Rightarrow> bool" where
  "triggered env s ctx sh \<longleftrightarrow> attempted env s ctx sh
     \<and> pe_evaluate env (sw_rule s) ctx = Inr True \<and> pe_simulate env (sw_rule s) ctx = Inr ()"

definition failed_with :: "process_env \<Rightarrow> StoredWatchRule \<Rightarrow> Stage2TickContext \<Rightarrow> shared \<Rightarrow> string \<Rightarrow> bool" where
  "failed_with env s ctx sh e \<longleftrightarrow> attempted env s ctx sh
     \<and> (pe_evaluate env (sw_rule s) ctx = Inl (Terminal e)
        \<or> pe_evaluate env (sw_rule s) ctx = Inr True \<and> pe_simulate env (sw_rule s) ctx = Inl (Terminal e))"

text \<open>This task moved the rule to failed; it came too late to settle the rule.\<close>

definition marked_failed :: "process_env \<Rightarrow> StoredWatchRule \<Rightarrow> Stage2TickContext \<Rightarrow> shared \<Rightarrow> bool" where
  "marked_failed env s ctx sh \<longleftrightarrow>
     (\<exists>e. failed_with env s ctx sh e \<and> failed_answer env s ctx (''terminal: '' @ e) sh = Inr 1)"

definition lost_race :: "process_env \<Rightarrow> StoredWatchRule \<Rightarrow> Stage2TickContext \<Rightarrow> shared \<Rightarrow> bool" where
  "lost_race env s ctx sh \<longleftrightarrow>
     triggered env s ctx sh \<and> (\<exists>k. k \<noteq> 1 \<and> met_answer env s ctx sh = Inr k)
     \<or> (\<exists>e k. failed_with env s ctx sh e \<and> k \<noteq> 1 \<and> failed_answer env s ctx (''terminal: '' @ e) sh = Inr k)"

fun claim_holds :: "process_env \<Rightarrow> StoredWatchRule \<Rightarrow> Stage2TickContext \<Rightarrow> shared \<Rightarrow> Stage2RuleTickResult \<Rightarrow> bool" where
  "claim_holds env s ctx sh (SkippedNonActive _) = (sw_status s \<noteq> WsActive)"
| "claim_holds env s ctx sh (TickExpired _) =
     (sw_status s = WsActive \<and> wr_expires_at_slot (sw_rule s) \<le> tc_current_slot ctx
      \<and> (\<exists>k. expire_answer env s sh = Inr k))"
| "claim_holds env s ctx sh (SkippedInFlight _) = (due s ctx \<and> wr_rule_id (sw_rule s) \<in> sh_in_flight sh)"
| "claim_holds env s ctx sh (ConditionFalse _) =
     (attempted env s ctx sh \<and> pe_evaluate env (sw_rule s) ctx = Inr False)"
| "claim_holds env s ctx sh (ConditionMet _) = (triggered env s ctx sh \<and> met_answer env s ctx sh = Inr 1)"
| "claim_holds env s ctx sh (SkippedRaceLost _) =
     (triggered env s ctx sh \<and> (\<exists>k. k \<noteq> 1 \<and> met_answer env s ctx sh = Inr k))"
| "claim_holds env s ctx sh (EvaluatorTransientError _ m) =
     (attempted env s ctx sh \<and> (\<exists>e. pe_evaluate env (sw_rule s) ctx = Inl (Transient e) \<and> m = ''transient: '' @ e))"
| "claim_holds env s ctx sh (EvaluatorTerminalError _ m) =
     (attempted env s ctx sh \<and> (\<exists>e. pe_evaluate env (sw_rule s) ctx = Inl (Terminal e) \<and> m = ''terminal: '' @ e))"
| "claim_holds env s ctx sh (SimulatorTransientError _ m) =
     (attempted env s ctx sh \<and> pe_evaluate env (sw_rule s) ctx = Inr True
      \<and> (\<exists>e. pe_simulate env (sw_rule s) ctx = Inl (Transient e) \<and> m = ''transient: '' @ e))"
| "claim_holds env s ctx sh (SimulatorTerminalError _ m) =
     (attempted env s ctx sh \<and> pe_evaluate env (sw_rule s) ctx = Inr True
      \<and> (\<exists>e. pe_simulate env (sw_rule s) ctx = Inl (Terminal e) \<and> m = ''terminal: '' @ e))"

fun is_transient_result :: "Stage2RuleTickResult \<Rightarrow> bool" where
  "is_transient_result (EvaluatorTransientError _ _) = True"
| "is_transient_result (SimulatorTransientError _ _) = True"
| "is_transient_result _ = False"

definition tally :: "(Stage2RuleTickResult \<Rightarrow> bool) \<Rightarrow> Stage2TickReport \<Rightarrow> nat" where
  "tally P rep = length (filter P (per_rule rep))"

text \<open>After \<open>n\<close> rules: the counters are those of the results, and a rule without a result left an
  internal error.\<close>

definition report_ok :: "nat \<Rightarrow> Stage2TickReport \<Rightarrow> bool" where
  "report_ok n rep \<longleftrightarrow>
     expired_count rep = tally is_TickExpired rep \<and> condition_met_count rep = tally is_ConditionMet rep
     \<and> skipped_non_active_count rep = tally is_SkippedNonActive rep
     \<and> in_flight_skip_count rep = tally is_SkippedInFlight rep
     \<and> transient_error_count rep = tally is_transient_result rep
     \<and> failed_count rep = terminal_error_count rep
     \<and> length (per_rule rep) \<le> n \<and> n \<le> length (per_rule rep) + length (internal_errors rep)
     \<and> skipped_non_active_count rep + expired_count rep + in_flight_skip_count rep + rules_processed rep \<le> n
     \<and> n \<le> skipped_non_active_count rep + expired_count rep + in_flight_skip_count rep + rules_processed rep
            + length (internal_errors rep)"

definition one_result ::
  "process_env \<Rightarrow> StoredWatchRule \<Rightarrow> Stage2TickContext \<Rightarrow> shared \<Rightarrow> Stage2TickReport \<Rightarrow> Stage2TickReport \<Rightarrow> bool" where
  "one_result env s ctx sh rep rep' \<longleftrightarrow>
     (\<exists>rs es. per_rule rep' = per_rule rep @ rs \<and> internal_errors rep' = internal_errors rep @ es
        \<and> (rs = [] \<and> es \<noteq> [] \<or>
           (\<exists>r. rs = [r] \<and> result_rule_id r = wr_rule_id (sw_rule s) \<and> claim_holds env s ctx sh r)))
     \<and> rules_loaded rep' = rules_loaded rep \<and> (\<forall>n. report_ok n rep \<longrightarrow> report_ok (Suc n) rep')
     \<and> failed_count rep' = failed_count rep + of_bool (marked_failed env s ctx sh)
     \<and> race_lost_count rep' = race_lost_count rep + of_bool (lost_race env s ctx sh)"

lemma record_transient_report:
  "record_transient env rid m (rep, sh) = (rep', sh') \<Longrightarrow>
   \<exists>es. rep' = rep\<lparr>internal_errors := internal_errors rep @ es,
     transient_error_count := transient_error_count rep + 1\<rparr>"
  by (cases rep) (auto simp: record_transient_def call_failed_def add_internal_error_def Let_def
      split: prod.splits sum.splits intro: exI [of _ "[]"])

lemma record_terminal_report:
  assumes "record_terminal env rid m (rep, sh) = (rep', sh')"
  shows "case fst (rule_call env 1 (\<lambda>v now. mark_failed_if_not_terminal v now rid m) sh) of
      Inl e \<Rightarrow> \<exists>e. rep' = rep\<lparr>internal_errors := internal_errors rep @ [e]\<rparr>
    | Inr k \<Rightarrow> rep' = (if k = 1
        then rep\<lparr>terminal_error_count := terminal_error_count rep + 1, failed_count := failed_count rep + 1\<rparr>
        else rep\<lparr>race_lost_count := race_lost_count rep + 1\<rparr>)"
  using assms by (auto simp: record_terminal_def call_failed_def add_internal_error_def Let_def
      split: prod.splits sum.splits)

lemmas report_simps = one_result_def report_ok_def tally_def add_result_def add_internal_error_def call_failed_def

lemmas outcome_defs = marked_failed_def lost_race_def triggered_def failed_with_def

lemma transient_one_result:
  assumes "record_transient env rid m (rep\<lparr>rules_processed := rules_processed rep + 1\<rparr>, sh1) = (rep', sh')"
    and "is_transient_result r" and "result_rule_id r = wr_rule_id (sw_rule s)" and "claim_holds env s ctx sh r"
  shows "one_result env s ctx sh rep (add_result r rep')"
proof -
  have "\<not> marked_failed env s ctx sh" "\<not> lost_race env s ctx sh"
    using assms(2,4) by (cases r; auto simp: outcome_defs)+
  then show ?thesis
    using record_transient_report [OF assms(1)] assms(2-) by (cases r) (auto simp: report_simps)
qed

lemma terminal_one_result:
  assumes run: "record_terminal env (wr_rule_id (sw_rule s)) (''terminal: '' @ e)
      (rep\<lparr>rules_processed := rules_processed rep + 1\<rparr>, snd (checked_call env s ctx sh)) = (rep', sh')"
    and r: "is_EvaluatorTerminalError r \<or> is_SimulatorTerminalError r"
      "result_rule_id r = wr_rule_id (sw_rule s)" "claim_holds env s ctx sh r"
    and failed: "failed_with env s ctx sh e"
  shows "one_result env s ctx sh rep (add_result r rep')"
proof -
  have only: "failed_with env s ctx sh e' \<longleftrightarrow> e' = e" "\<not> triggered env s ctx sh" for e'
    using failed by (auto simp: failed_with_def triggered_def)
  have "marked_failed env s ctx sh \<longleftrightarrow> failed_answer env s ctx (''terminal: '' @ e) sh = Inr 1"
    "lost_race env s ctx sh \<longleftrightarrow> (\<exists>k. k \<noteq> 1 \<and> failed_answer env s ctx (''terminal: '' @ e) sh = Inr k)"
    by (simp_all add: marked_failed_def lost_race_def only)
  then show ?thesis
    using record_terminal_report [OF run] r
    by (cases r; cases "failed_answer env s ctx (''terminal: '' @ e) sh")
      (auto simp: report_simps failed_answer_def)
qed

lemma handle_condition_true_report:
  assumes at: "attempted env s ctx sh" and ev: "pe_evaluate env (sw_rule s) ctx = Inr True"
    and run: "handle_condition_true env (sw_rule s) ctx
      (rep\<lparr>rules_processed := rules_processed rep + 1\<rparr>, snd (checked_call env s ctx sh)) = (rep', sh')"
  shows "one_result env s ctx sh rep rep'"
proof (cases "pe_simulate env (sw_rule s) ctx")
  case (Inr u)
  then have t: "triggered env s ctx sh" "\<And>e. \<not> failed_with env s ctx sh e"
    using at ev by (auto simp: triggered_def failed_with_def)
  then show ?thesis
    using run Inr
    by (cases "met_answer env s ctx sh")
      (auto simp: handle_condition_true_def Let_def report_simps marked_failed_def lost_race_def met_answer_def
        split: prod.splits if_splits)
next
  case (Inl e)
  let ?rep = "rep\<lparr>rules_processed := rules_processed rep + 1\<rparr>" and ?m = "watcher_error_display e"
    and ?sh = "snd (checked_call env s ctx sh)"
  consider (transient) m where "e = Transient m" | (terminal) m where "e = Terminal m" | (internal) m where "e = Internal m"
    by (cases e)
  then show ?thesis
  proof cases
    case transient
    then obtain rep1 where "record_transient env (wr_rule_id (sw_rule s)) ?m (?rep, ?sh) = (rep1, sh')"
      "rep' = add_result (SimulatorTransientError (wr_rule_id (sw_rule s)) ?m) rep1"
      using run Inl by (auto simp: handle_condition_true_def Let_def apfst_def map_prod_def split: prod.splits)
    then show ?thesis using transient_one_result at ev Inl transient by simp
  next
    case terminal
    then obtain rep1 where "record_terminal env (wr_rule_id (sw_rule s)) ?m (?rep, ?sh) = (rep1, sh')"
      "rep' = add_result (SimulatorTerminalError (wr_rule_id (sw_rule s)) ?m) rep1"
      using run Inl by (auto simp: handle_condition_true_def Let_def apfst_def map_prod_def split: prod.splits)
    then show ?thesis using terminal_one_result at ev Inl terminal by (simp add: failed_with_def)
  next
    case internal
    then show ?thesis
      using run Inl ev by (auto simp: handle_condition_true_def Let_def report_simps outcome_defs)
  qed
qed

lemma check_and_evaluate_report:
  assumes "due s ctx" and free: "wr_rule_id (sw_rule s) \<notin> sh_in_flight sh"
    and run: "check_and_evaluate env (sw_rule s) ctx
      (rep, sh\<lparr>sh_in_flight := insert (wr_rule_id (sw_rule s)) (sh_in_flight sh)\<rparr>) = (rep', sh')"
  shows "one_result env s ctx sh rep rep'"
proof -
  let ?rid = "wr_rule_id (sw_rule s)" and ?rep = "rep\<lparr>rules_processed := rules_processed rep + 1\<rparr>"
  obtain n sh1 where checked: "checked_call env s ctx sh = (n, sh1)" by force
  then have call: "rule_call env 0 (\<lambda>v now. mark_checked v now ?rid (tc_current_slot ctx) (pe_clock env))
      (sh\<lparr>sh_in_flight := insert ?rid (sh_in_flight sh)\<rparr>) = (n, sh1)" by (simp add: checked_call_def Let_def)
  show ?thesis
  proof (cases n)
    case (Inl e)
    then show ?thesis
      using run by (auto simp: check_and_evaluate_def call Let_def report_simps outcome_defs attempted_def checked)
  next
    case (Inr k)
    then have at: "attempted env s ctx sh" using assms(1) free checked by (simp add: attempted_def)
    show ?thesis
    proof (cases "pe_evaluate env (sw_rule s) ctx")
      case ok: (Inr b)
      show ?thesis
      proof (cases b)
        case True
        then show ?thesis
          using run ok Inr handle_condition_true_report [OF at] checked
          by (simp add: check_and_evaluate_def call Let_def)
      next
        case False
        then show ?thesis
          using run ok Inr at by (auto simp: check_and_evaluate_def call Let_def report_simps outcome_defs)
      qed
    next
      case err: (Inl e)
      let ?m = "watcher_error_display e"
      consider (transient) m where "e = Transient m" | (terminal) m where "e = Terminal m" | (internal) m where "e = Internal m"
        by (cases e)
      then show ?thesis
      proof cases
        case transient
        then obtain rep1 where "record_transient env ?rid ?m (?rep, sh1) = (rep1, sh')"
          "rep' = add_result (EvaluatorTransientError ?rid ?m) rep1"
          using run err Inr
          by (auto simp: check_and_evaluate_def call Let_def apfst_def map_prod_def split: prod.splits)
        then show ?thesis using transient_one_result at err transient by simp
      next
        case terminal
        then obtain rep1 where "record_terminal env ?rid ?m (?rep, sh1) = (rep1, sh')"
          "rep' = add_result (EvaluatorTerminalError ?rid ?m) rep1"
          using run err Inr
          by (auto simp: check_and_evaluate_def call Let_def apfst_def map_prod_def split: prod.splits)
        then show ?thesis using terminal_one_result at err terminal checked by (simp add: failed_with_def)
      next
        case internal
        then show ?thesis
          using run err Inr by (auto simp: check_and_evaluate_def call Let_def report_simps outcome_defs)
      qed
    qed
  qed
qed

lemma process_rule_report:
  assumes "process_rule env s ctx (rep, sh) = (rep', sh')"
  shows "one_result env s ctx sh rep rep'"
proof (cases "due s ctx \<and> wr_rule_id (sw_rule s) \<notin> sh_in_flight sh")
  case True
  obtain rep1 sh1 where one: "check_and_evaluate env (sw_rule s) ctx
      (rep, sh\<lparr>sh_in_flight := insert (wr_rule_id (sw_rule s)) (sh_in_flight sh)\<rparr>) = (rep1, sh1)"
    by force
  have "\<not> wr_expires_at_slot (sw_rule s) \<le> tc_current_slot ctx" using True by (simp add: due_def not_le)
  then have "rep' = rep1" using assms True one by (simp add: process_rule_def due_def Let_def)
  then show ?thesis using check_and_evaluate_report True one by blast
next
  case False
  then have "\<not> attempted env s ctx sh" by (auto simp: attempted_def)
  then have "\<not> marked_failed env s ctx sh" "\<not> lost_race env s ctx sh" by (auto simp: outcome_defs)
  then show ?thesis
    using assms False
    by (auto simp: process_rule_def due_def Let_def not_le report_simps expire_answer_def
        split: prod.splits sum.splits if_splits)
qed

text \<open>The shared state does not depend on the report, so the state in which the processing of rule \<open>i\<close> starts is a
  function of the state before the run.\<close>

lemma record_state:
  "snd (record_transient env rid m (rep, sh)) = snd (record_transient env rid m (rep0, sh))"
  "snd (record_terminal env rid m (rep, sh)) = snd (record_terminal env rid m (rep0, sh))"
  by (simp_all add: record_transient_def record_terminal_def Let_def split: prod.splits)

lemma handle_condition_true_state:
  "snd (handle_condition_true env rule ctx (rep, sh)) = snd (handle_condition_true env rule ctx (rep0, sh))"
  using record_state [of env _ _ rep sh rep0]
  by (simp add: handle_condition_true_def Let_def split: prod.splits sum.splits)

lemma check_and_evaluate_state:
  "snd (check_and_evaluate env rule ctx (rep, sh)) = snd (check_and_evaluate env rule ctx (rep0, sh))"
  using record_state [of env _ _ "rep\<lparr>rules_processed := rules_processed rep + 1\<rparr>" _
      "rep0\<lparr>rules_processed := rules_processed rep0 + 1\<rparr>"]
    handle_condition_true_state [of env rule ctx "rep\<lparr>rules_processed := rules_processed rep + 1\<rparr>" _
      "rep0\<lparr>rules_processed := rules_processed rep0 + 1\<rparr>"]
  by (simp add: check_and_evaluate_def Let_def split: prod.splits sum.splits bool.splits)

lemma process_rule_state:
  "snd (process_rule env s ctx (rep, sh)) = snd (process_rule env s ctx (rep0, sh))"
  using check_and_evaluate_state [of env "sw_rule s" ctx rep _ rep0]
  by (auto simp: process_rule_def Let_def split: prod.splits) (metis snd_conv)+

lemma process_rules_state:
  "snd (process_rules env ctx k ss (rep, sh)) = snd (process_rules env ctx k ss (rep0, sh))"
proof (induction ss arbitrary: k rep rep0 sh)
  case (Cons s ss)
  then show ?case
    using process_rule_state [of "env k" s ctx rep sh rep0]
    by (cases "process_rule (env k) s ctx (rep, sh)"; cases "process_rule (env k) s ctx (rep0, sh)") simp
qed simp

definition state_before ::
  "(nat \<Rightarrow> process_env) \<Rightarrow> Stage2TickContext \<Rightarrow> nat \<Rightarrow> StoredWatchRule list \<Rightarrow> shared \<Rightarrow> nat \<Rightarrow> shared" where
  "state_before env ctx k ss sh i = snd (process_rules env ctx k (take i ss) (report_started 0, sh))"

lemma state_before_0 [simp]: "state_before env ctx k ss sh 0 = sh"
  by (simp add: state_before_def)

lemma state_before_Suc:
  assumes "process_rule (env k) s ctx (rep, sh) = (rep1, sh1)"
  shows "state_before env ctx k (s # ss) sh (Suc i) = state_before env ctx (Suc k) ss sh1 i"
proof -
  obtain rep2 where "process_rule (env k) s ctx (report_started 0, sh) = (rep2, sh1)"
    using process_rule_state [of "env k" s ctx rep sh "report_started 0"] assms
    by (cases "process_rule (env k) s ctx (report_started 0, sh)") simp
  then show ?thesis using process_rules_state by (simp add: state_before_def)
qed

definition count_below :: "nat \<Rightarrow> (nat \<Rightarrow> bool) \<Rightarrow> nat" where
  "count_below n P = length (filter P [0..<n])"

lemma count_below_0 [simp]: "count_below 0 P = 0"
  by (simp add: count_below_def)

lemma count_below_Suc: "count_below (Suc n) P = of_bool (P 0) + count_below n (\<lambda>i. P (Suc i))"
proof -
  have "[0..<Suc n] = 0 # map Suc [0..<n]" by (simp add: upt_conv_Cons map_Suc_upt del: upt_Suc)
  then show ?thesis by (simp add: count_below_def filter_map comp_def del: upt_Suc)
qed

text \<open>The results added by a run over the rules from number \<open>k\<close> on.\<close>

definition sound_results ::
  "(nat \<Rightarrow> process_env) \<Rightarrow> Stage2TickContext \<Rightarrow> nat \<Rightarrow> StoredWatchRule list \<Rightarrow> shared \<Rightarrow> Stage2RuleTickResult list \<Rightarrow> bool" where
  "sound_results env ctx k ss sh rs \<longleftrightarrow>
     (\<forall>r \<in> set rs. \<exists>i < length ss. result_rule_id r = wr_rule_id (sw_rule (ss ! i))
        \<and> claim_holds (env (k + i)) (ss ! i) ctx (state_before env ctx k ss sh i) r)"

lemma sound_results_Cons:
  assumes "process_rule (env k) s ctx (rep, sh) = (rep1, sh1)" and "sound_results env ctx (Suc k) ss sh1 rs"
  shows "sound_results env ctx k (s # ss) sh rs"
  unfolding sound_results_def
proof
  fix r assume "r \<in> set rs"
  then obtain i where "i < length ss" "result_rule_id r = wr_rule_id (sw_rule (ss ! i))"
    "claim_holds (env (Suc k + i)) (ss ! i) ctx (state_before env ctx (Suc k) ss sh1 i) r"
    using assms(2) unfolding sound_results_def by blast
  then show "\<exists>i < length (s # ss). result_rule_id r = wr_rule_id (sw_rule ((s # ss) ! i))
      \<and> claim_holds (env (k + i)) ((s # ss) ! i) ctx (state_before env ctx k (s # ss) sh i) r"
    using state_before_Suc [of env k s ctx rep sh rep1 sh1 ss i] assms(1) by (intro exI [of _ "Suc i"]) simp
qed

lemma process_rules_report:
  assumes "process_rules env ctx k ss (rep, sh) = (rep', sh')" and "report_ok n rep"
  shows "report_ok (n + length ss) rep' \<and> rules_loaded rep' = rules_loaded rep
    \<and> (\<exists>rs es. per_rule rep' = per_rule rep @ rs \<and> internal_errors rep' = internal_errors rep @ es
        \<and> sound_results env ctx k ss sh rs
        \<and> (es = [] \<longrightarrow> map result_rule_id rs = map (\<lambda>s. wr_rule_id (sw_rule s)) ss))
    \<and> failed_count rep' = failed_count rep
        + count_below (length ss) (\<lambda>i. marked_failed (env (k + i)) (ss ! i) ctx (state_before env ctx k ss sh i))
    \<and> race_lost_count rep' = race_lost_count rep
        + count_below (length ss) (\<lambda>i. lost_race (env (k + i)) (ss ! i) ctx (state_before env ctx k ss sh i))"
  using assms
proof (induction ss arbitrary: k rep sh n)
  case Nil
  then show ?case by (simp add: sound_results_def)
next
  case (Cons s ss)
  obtain rep1 sh1 where one: "process_rule (env k) s ctx (rep, sh) = (rep1, sh1)" by force
  then have res: "one_result (env k) s ctx sh rep rep1" by (rule process_rule_report)
  then have ok: "report_ok (Suc n) rep1" "rules_loaded rep1 = rules_loaded rep"
    using Cons.prems(2) by (auto simp: one_result_def)
  obtain r1 e1 where r1: "per_rule rep1 = per_rule rep @ r1" "internal_errors rep1 = internal_errors rep @ e1"
    "r1 = [] \<and> e1 \<noteq> [] \<or> (\<exists>r. r1 = [r] \<and> result_rule_id r = wr_rule_id (sw_rule s) \<and> claim_holds (env k) s ctx sh r)"
    using res unfolding one_result_def by blast
  have "process_rules env ctx (Suc k) ss (rep1, sh1) = (rep', sh')" using Cons.prems(1) one by simp
  note IH = Cons.IH [OF this ok(1)]
  then obtain rs es where rest: "report_ok (Suc n + length ss) rep'" "rules_loaded rep' = rules_loaded rep1"
    "per_rule rep' = per_rule rep1 @ rs" "internal_errors rep' = internal_errors rep1 @ es"
    "sound_results env ctx (Suc k) ss sh1 rs"
    "es = [] \<longrightarrow> map result_rule_id rs = map (\<lambda>s. wr_rule_id (sw_rule s)) ss" by blast
  have "sound_results env ctx k (s # ss) sh rs" using one rest(5) by (rule sound_results_Cons)
  moreover have "sound_results env ctx k (s # ss) sh r1"
    using r1(3) by (auto simp: sound_results_def intro!: exI [of _ 0])
  ultimately have "sound_results env ctx k (s # ss) sh (r1 @ rs)" by (auto simp: sound_results_def)
  then show ?case
    using rest ok(2) r1 IH res
    by (intro conjI exI [of _ "r1 @ rs"] exI [of _ "e1 @ es"])
      (auto simp: one_result_def count_below_Suc state_before_Suc [of env k s ctx rep sh, OF one])
qed

section \<open>Properties\<close>

lemma report_ok_started: "report_ok 0 ((report_started now)\<lparr>rules_loaded := n, rules_loaded_at_limit := b\<rparr>)"
  by (simp add: report_ok_def report_started_def tally_def)

lemma report_ok_finish [simp]:
  "report_ok n (report_finish now rep) = report_ok n rep"
  "per_rule (report_finish now rep) = per_rule rep"
  "internal_errors (report_finish now rep) = internal_errors rep"
  "rules_loaded (report_finish now rep) = rules_loaded rep"
  "failed_count (report_finish now rep) = failed_count rep"
  "race_lost_count (report_finish now rep) = race_lost_count rep"
  by (simp_all add: report_ok_def report_finish_def tally_def)

lemma finalise_report_fst: "fst (finalise_report now (rep, st)) = report_finish now rep"
  by (simp add: finalise_report_def Let_def)

lemma watcher_tick_rules:
  assumes "list_pending_lifecycle_limit (wt_codec env) (wt_list_verdict env) (max_rules_per_tick (wt_config env))
      (sh_rules (wt_tasks env sh)) = Inr rules"
    and "watcher_tick env ctx (sh, st) = (rep, sh', st')"
  obtains rep0 rep1 where "process_rules (wt_rule env) ctx 0 rules (rep0, wt_tasks env sh) = (rep1, sh')"
    and "rep = report_finish (wt_finish_clock env) rep1" and "report_ok 0 rep0" and "rules_loaded rep0 = length rules"
    and "per_rule rep0 = []" and "internal_errors rep0 = []"
    and "failed_count rep0 = 0" and "race_lost_count rep0 = 0"
proof -
  let ?rep0 = "(report_started (tc_now_ms ctx))\<lparr>rules_loaded := length rules, rules_loaded_at_limit :=
      (length rules = unat (max_rules_per_tick (wt_config env)) \<and> 0 < max_rules_per_tick (wt_config env))\<rparr>"
  obtain rep1 sh1 where run: "process_rules (wt_rule env) ctx 0 rules (?rep0, wt_tasks env sh) = (rep1, sh1)"
    by force
  have same: "sh' = sh1" "rep = report_finish (wt_finish_clock env) rep1"
    using assms run finalise_report_fst [of "wt_finish_clock env" rep1 "st\<lparr>ca_last_tick_started_at_ms := Some (tc_now_ms ctx)\<rparr>"]
    by (auto simp: watcher_tick_def Let_def split: prod.splits)
  have "rules_loaded ?rep0 = length rules \<and> per_rule ?rep0 = [] \<and> internal_errors ?rep0 = []
    \<and> failed_count ?rep0 = 0 \<and> race_lost_count ?rep0 = 0"
    by (simp add: report_started_def)
  then show thesis using that [OF run [folded same(1)] same(2) report_ok_started] by blast
qed

lemma watcher_tick_report:
  assumes "list_pending_lifecycle_limit (wt_codec env) (wt_list_verdict env) (max_rules_per_tick (wt_config env))
      (sh_rules (wt_tasks env sh)) = Inr rules"
    and "watcher_tick env ctx (sh, st) = (rep, sh', st')"
  shows "report_ok (length rules) rep \<and> rules_loaded rep = length rules
    \<and> (\<forall>r \<in> set (per_rule rep). \<exists>i < length rules. result_rule_id r = wr_rule_id (sw_rule (rules ! i))
        \<and> claim_holds (wt_rule env i) (rules ! i) ctx (state_before (wt_rule env) ctx 0 rules (wt_tasks env sh) i) r)
    \<and> failed_count rep = count_below (length rules) (\<lambda>i.
        marked_failed (wt_rule env i) (rules ! i) ctx (state_before (wt_rule env) ctx 0 rules (wt_tasks env sh) i))
    \<and> race_lost_count rep = count_below (length rules) (\<lambda>i.
        lost_race (wt_rule env i) (rules ! i) ctx (state_before (wt_rule env) ctx 0 rules (wt_tasks env sh) i))
    \<and> (internal_errors rep = [] \<longrightarrow>
        map result_rule_id (per_rule rep) = map (\<lambda>s. wr_rule_id (sw_rule s)) rules)
    \<and> ((\<forall>k. fair_process (wt_codec env) (wt_rule env k)) \<longrightarrow>
        (rule_step (wt_codec env))\<^sup>*\<^sup>* (sh_rules (wt_tasks env sh)) (sh_rules sh'))"
proof -
  from watcher_tick_rules [OF assms] obtain rep0 rep1
    where run: "process_rules (wt_rule env) ctx 0 rules (rep0, wt_tasks env sh) = (rep1, sh')"
      and rep: "rep = report_finish (wt_finish_clock env) rep1"
      and start: "report_ok 0 rep0" "rules_loaded rep0 = length rules" "per_rule rep0 = []" "internal_errors rep0 = []"
        "failed_count rep0 = 0" "race_lost_count rep0 = 0"
    by blast
  let ?at = "state_before (wt_rule env) ctx 0 rules (wt_tasks env sh)"
  from process_rules_report [OF run start(1)] rep start
  have "report_ok (length rules) rep" "rules_loaded rep = length rules"
    "sound_results (wt_rule env) ctx 0 rules (wt_tasks env sh) (per_rule rep)"
    "failed_count rep = count_below (length rules) (\<lambda>i. marked_failed (wt_rule env i) (rules ! i) ctx (?at i))"
    "race_lost_count rep = count_below (length rules) (\<lambda>i. lost_race (wt_rule env i) (rules ! i) ctx (?at i))"
    "internal_errors rep = [] \<longrightarrow> map result_rule_id (per_rule rep) = map (\<lambda>s. wr_rule_id (sw_rule s)) rules"
    by auto
  then show ?thesis using process_rules_run [OF _ run] by (simp add: sound_results_def)
qed


end
