(* ===== verification/Gateway_Rate.thy ===== *)
theory Gateway_Rate
  imports Solend_Rate Watcher_Types
begin

text \<open>
  The Solend rate arithmetic of \<open>crates/gateway/src/stage2_evaluator.rs\<close>: the gateway's own copy of
  the on-chain formula, with a watcher error and a message of its own at every step that can fail.
  It computes what the on-chain copy computes and fails exactly when that one does.
\<close>

section \<open>The code\<close>

record SolendSnapshotValue = SolendReserveSnapshot +
  snap_reserve_pubkey :: pubkey

definition gw_mul_div_floor_u128 :: "u128 \<Rightarrow> u128 \<Rightarrow> u128 \<Rightarrow> Stage2WatcherError + u128" where
  "gw_mul_div_floor_u128 a b c =
    (if c = 0 then Inl (Terminal ''solend mul_div by zero'')
     else case checked_mul a b of
       Some product \<Rightarrow> Inr (product div c)
     | None \<Rightarrow>
       let a_lo = ucast (ucast a :: u64) :: u128;
           a_hi = drop_bit 64 a;
           b_lo = ucast (ucast b :: u64) :: u128;
           b_hi = drop_bit 64 b;
           ll = a_lo * b_lo;
           lh = a_lo * b_hi;
           hl = a_hi * b_lo;
           hh = a_hi * b_hi;
           mid = lh + hl;
           mid_carry = (if mid < lh then push_bit 64 1 else 0);
           mid_lo = push_bit 64 mid;
           mid_hi = drop_bit 64 mid;
           (lo, c1) = overflowing_add ll mid_lo
       in bindE (ok_or (checked_add hh mid_hi) (Terminal ''solend mul_div mid_hi overflow'')) (\<lambda>hi.
          bindE (ok_or (checked_add hi (if c1 then 1 else 0)) (Terminal ''solend mul_div carry overflow'')) (\<lambda>hi.
          bindE (ok_or (checked_add hi mid_carry) (Terminal ''solend mul_div mid_carry overflow'')) (\<lambda>hi.
          case long_division_loop hi lo c 256 (0, False, 0) of (quot, quot_overflow, rem) \<Rightarrow>
            if quot_overflow then Inl (Terminal ''solend mul_div quotient overflow'') else Inr quot))))"

definition gw_mul_wad :: "u128 \<Rightarrow> u128 \<Rightarrow> Stage2WatcherError + u128" where
  "gw_mul_wad a b = gw_mul_div_floor_u128 a b SOLEND_WAD"

definition gw_div_wad :: "u128 \<Rightarrow> u128 \<Rightarrow> Stage2WatcherError + u128" where
  "gw_div_wad a b = (if b = 0 then Inl (Terminal ''solend div_wad by zero'')
     else gw_mul_div_floor_u128 a SOLEND_WAD b)"

definition gw_pct_to_wad :: "u64 \<Rightarrow> Stage2WatcherError + u128" where
  "gw_pct_to_wad p = ok_or (checked_mul (ucast p) (10 ^ 16)) (Terminal ''solend pct -> wad overflow'')"

definition gw_is_reserve_config_valid :: "'z SolendReserveSnapshot_scheme \<Rightarrow> bool" where
  "gw_is_reserve_config_valid s =
     (let min = ucast (min_borrow_rate_pct s) :: u64;
          opt = ucast (optimal_borrow_rate_pct s) :: u64;
          max = ucast (max_borrow_rate_pct s) :: u64;
          super_max = super_max_borrow_rate_pct s
      in if \<not> (min \<le> opt \<and> opt \<le> max \<and> max \<le> super_max) then False
         else if \<not> (optimal_utilization_rate_pct s \<le> max_utilization_rate_pct s \<and>
                    max_utilization_rate_pct s \<le> 100) then False
         else if protocol_take_rate_pct s > 100 then False
         else True)"

definition gw_utilization_wad :: "'z SolendReserveSnapshot_scheme \<Rightarrow> Stage2WatcherError + u128" where
  "gw_utilization_wad s =
     (if borrowed_amount_wads s = 0 then Inr 0
      else bindE (ok_or (checked_mul (ucast (available_amount s)) SOLEND_WAD)
             (Terminal ''solend available_amount * WAD overflow'')) (\<lambda>available_wads.
      bindE (ok_or (checked_add (borrowed_amount_wads s) available_wads)
             (Terminal ''solend borrowed + available denom overflow'')) (\<lambda>denom.
      if denom = 0 then Inr 0 else gw_div_wad (borrowed_amount_wads s) denom)))"

text \<open>The three regions of \<open>current_borrow_rate_wad\<close>, in the order of the source.\<close>

definition gw_borrow_rate_region_1 ::
  "'z SolendReserveSnapshot_scheme \<Rightarrow> u128 \<Rightarrow> u128 \<Rightarrow> Stage2WatcherError + u128" where
  "gw_borrow_rate_region_1 s utilisation optimal_util =
     bindE (gw_pct_to_wad (ucast (min_borrow_rate_pct s))) (\<lambda>min_rate.
     if optimal_util = 0 then Inr min_rate
     else bindE (gw_div_wad utilisation optimal_util) (\<lambda>normalised.
     bindE (ok_or (checked_sub (ucast (optimal_borrow_rate_pct s) :: u64)
       (ucast (min_borrow_rate_pct s))) (Terminal ''solend optimal - min underflow'')) (\<lambda>opt_minus_min.
     bindE (gw_pct_to_wad opt_minus_min) (\<lambda>rate_range.
     bindE (gw_mul_wad normalised rate_range) (\<lambda>scaled.
     ok_or (checked_add scaled min_rate) (Terminal ''solend region 1 add overflow''))))))"

definition gw_borrow_rate_region_2 ::
  "'z SolendReserveSnapshot_scheme \<Rightarrow> u128 \<Rightarrow> u128 \<Rightarrow> u128 \<Rightarrow> Stage2WatcherError + u128" where
  "gw_borrow_rate_region_2 s utilisation optimal_util max_util =
     bindE (ok_or (checked_sub utilisation optimal_util)
       (Terminal ''solend region 2 weight_num underflow'')) (\<lambda>weight_num.
     bindE (ok_or (checked_sub max_util optimal_util)
       (Terminal ''solend region 2 weight_den underflow'')) (\<lambda>weight_den.
     if weight_den = 0 then gw_pct_to_wad (ucast (optimal_borrow_rate_pct s))
     else bindE (gw_div_wad weight_num weight_den) (\<lambda>weight.
     bindE (gw_pct_to_wad (ucast (optimal_borrow_rate_pct s))) (\<lambda>optimal_rate.
     bindE (gw_pct_to_wad (ucast (max_borrow_rate_pct s))) (\<lambda>max_rate.
     bindE (ok_or (checked_sub max_rate optimal_rate)
       (Terminal ''solend region 2 rate_range underflow'')) (\<lambda>rate_range.
     bindE (gw_mul_wad weight rate_range) (\<lambda>scaled.
     ok_or (checked_add scaled optimal_rate) (Terminal ''solend region 2 add overflow''))))))))"

definition gw_borrow_rate_region_3 ::
  "'z SolendReserveSnapshot_scheme \<Rightarrow> u128 \<Rightarrow> u128 \<Rightarrow> Stage2WatcherError + u128" where
  "gw_borrow_rate_region_3 s utilisation max_util =
     bindE (ok_or (checked_sub utilisation max_util)
       (Terminal ''solend region 3 weight_num underflow'')) (\<lambda>weight_num.
     bindE (ok_or (checked_sub SOLEND_WAD max_util)
       (Terminal ''solend region 3 weight_den underflow'')) (\<lambda>weight_den.
     if weight_den = 0 then gw_pct_to_wad (super_max_borrow_rate_pct s)
     else bindE (gw_div_wad weight_num weight_den) (\<lambda>weight.
     bindE (gw_pct_to_wad (ucast (max_borrow_rate_pct s))) (\<lambda>max_rate.
     bindE (gw_pct_to_wad (super_max_borrow_rate_pct s)) (\<lambda>super_max_rate.
     bindE (ok_or (checked_sub super_max_rate max_rate)
       (Terminal ''solend region 3 rate_range underflow'')) (\<lambda>rate_range.
     bindE (gw_mul_wad weight rate_range) (\<lambda>scaled.
     ok_or (checked_add scaled max_rate) (Terminal ''solend region 3 add overflow''))))))))"

definition gw_current_borrow_rate_wad :: "'z SolendReserveSnapshot_scheme \<Rightarrow> Stage2WatcherError + u128" where
  "gw_current_borrow_rate_wad s =
     bindE (gw_utilization_wad s) (\<lambda>utilisation.
     bindE (gw_pct_to_wad (ucast (optimal_utilization_rate_pct s))) (\<lambda>optimal_util.
     bindE (gw_pct_to_wad (ucast (max_utilization_rate_pct s))) (\<lambda>max_util.
     if utilisation \<le> optimal_util then gw_borrow_rate_region_1 s utilisation optimal_util
     else if utilisation \<le> max_util then gw_borrow_rate_region_2 s utilisation optimal_util max_util
     else gw_borrow_rate_region_3 s utilisation max_util)))"

definition gw_supply_apr_wad :: "'z SolendReserveSnapshot_scheme \<Rightarrow> Stage2WatcherError + u128" where
  "gw_supply_apr_wad s =
     bindE (gw_utilization_wad s) (\<lambda>utilisation.
     bindE (gw_current_borrow_rate_wad s) (\<lambda>borrow_rate.
     bindE (gw_pct_to_wad (ucast (protocol_take_rate_pct s))) (\<lambda>take_rate.
     bindE (ok_or (checked_sub SOLEND_WAD take_rate) (Terminal ''solend (1 - take) underflow'')) (\<lambda>one_minus_take.
     bindE (gw_mul_wad utilisation one_minus_take) (\<lambda>inner.
     gw_mul_wad borrow_rate inner)))))"

definition solend_supply_apr_wad_for_snapshot ::
  "'z SolendReserveSnapshot_scheme \<Rightarrow> Stage2WatcherError + u128" where
  "solend_supply_apr_wad_for_snapshot s =
     (if \<not> gw_is_reserve_config_valid s then Inl (Transient ''solend reserve config invariants violated'')
      else gw_supply_apr_wad s)"

definition solend_supply_apr_bps_from_wad :: "u128 \<Rightarrow> u64" where
  "solend_supply_apr_bps_from_wad wad =
     (let bps = wad div 10 ^ 14 in if unat bps < 2 ^ 64 then ucast bps else - 1)"

section \<open>Agreement with the on-chain copy\<close>

lemma gw_mul_div_value [simp]: "value_of (gw_mul_div_floor_u128 a b c) = value_of (mul_div_floor_u128 a b c)"
  unfolding gw_mul_div_floor_u128_def mul_div_floor_u128_def
  by (simp add: Let_def value_of_case_prod split: option.split cong: if_cong)

lemma gw_mul_wad_value [simp]: "value_of (gw_mul_wad a b) = value_of (mul_wad a b)"
  by (simp add: gw_mul_wad_def mul_wad_def)

lemma gw_div_wad_value [simp]: "value_of (gw_div_wad a b) = value_of (div_wad a b)"
  by (simp add: gw_div_wad_def div_wad_def)

lemma gw_pct_value [simp]: "value_of (gw_pct_to_wad p) = value_of (pct_to_wad p)"
  by (simp add: gw_pct_to_wad_def pct_to_wad_def)

abbreviation onchain :: "'z SolendReserveSnapshot_scheme \<Rightarrow> SolendReserveSnapshot" where
  "onchain s \<equiv> SolendReserveSnapshot.truncate s"

lemma onchain_fields [simp]:
  "available_amount (onchain s) = available_amount s"
  "borrowed_amount_wads (onchain s) = borrowed_amount_wads s"
  "min_borrow_rate_pct (onchain s) = min_borrow_rate_pct s"
  "optimal_borrow_rate_pct (onchain s) = optimal_borrow_rate_pct s"
  "max_borrow_rate_pct (onchain s) = max_borrow_rate_pct s"
  "super_max_borrow_rate_pct (onchain s) = super_max_borrow_rate_pct s"
  "optimal_utilization_rate_pct (onchain s) = optimal_utilization_rate_pct s"
  "max_utilization_rate_pct (onchain s) = max_utilization_rate_pct s"
  "protocol_take_rate_pct (onchain s) = protocol_take_rate_pct s"
  "last_update_slot (onchain s) = last_update_slot s" "stale_flag (onchain s) = stale_flag s"
  by (simp_all add: SolendReserveSnapshot.truncate_def)

lemma gw_config_valid: "gw_is_reserve_config_valid s = is_reserve_config_valid (onchain s)"
  by (simp add: gw_is_reserve_config_valid_def is_reserve_config_valid_def Let_def)

lemma gw_utilization_value [simp]: "value_of (gw_utilization_wad s) = value_of (utilization_wad (onchain s))"
  by (simp add: gw_utilization_wad_def utilization_wad_def cong: if_cong)

lemma gw_region_values:
  "value_of (gw_borrow_rate_region_1 s u o') = value_of (borrow_rate_region_1 (onchain s) u o')"
  "value_of (gw_borrow_rate_region_2 s u o' m) = value_of (borrow_rate_region_2 (onchain s) u o' m)"
  "value_of (gw_borrow_rate_region_3 s u m) = value_of (borrow_rate_region_3 (onchain s) u m)"
  by (simp_all add: gw_borrow_rate_region_1_def borrow_rate_region_1_def gw_borrow_rate_region_2_def
      borrow_rate_region_2_def gw_borrow_rate_region_3_def borrow_rate_region_3_def
      pct_to_wad_u64_super_max_def cong: if_cong)

lemma gw_borrow_rate_value [simp]:
  "value_of (gw_current_borrow_rate_wad s) = value_of (current_borrow_rate_wad (onchain s))"
  by (simp add: gw_current_borrow_rate_wad_def current_borrow_rate_wad_def gw_region_values cong: if_cong)

lemma gw_supply_apr_value:
  "value_of (solend_supply_apr_wad_for_snapshot s) = value_of (supply_apr_wad (onchain s))"
  by (simp add: solend_supply_apr_wad_for_snapshot_def gw_supply_apr_wad_def supply_apr_wad_def
      gw_config_valid cong: if_cong)

end
