(* ===== verification/Rule_Evaluator.thy ===== *)
theory Rule_Evaluator
  imports Watch_Rule_Store Solend_Raw Authority_Effects Gateway_Rate
begin

text \<open>
  \<open>crates/gateway/src/stage2_evaluator.rs\<close>: the evaluation of a watch rule's conditions against a
  batch of snapshots. A snapshot is keyed by feed or reserve and may be missing or an error on its
  own; \<open>base58\<close> is the encoder behind the \<open>Display\<close> of an address.
\<close>

section \<open>Snapshots\<close>

text \<open>\<open>PythSnapshotValue\<close> has the fields of the on-chain verifier's snapshot.\<close>

type_synonym PythSnapshotValue = PythPriceSnapshot

datatype Stage2SnapshotError = SnapshotTransient string | SnapshotTerminal string

fun into_watcher_error :: "Stage2SnapshotError \<Rightarrow> Stage2WatcherError" where
  "into_watcher_error (SnapshotTransient m) = Transient (''snapshot provider: '' @ m)"
| "into_watcher_error (SnapshotTerminal m) = Terminal (''snapshot provider: '' @ m)"

record Stage2SnapshotRequest =
  pyth_feeds :: "256 word list"
  solend_reserves :: "pubkey list"

definition empty_request :: Stage2SnapshotRequest where
  "empty_request = \<lparr>pyth_feeds = [], solend_reserves = []\<rparr>"

definition add_pyth :: "256 word \<Rightarrow> Stage2SnapshotRequest \<Rightarrow> Stage2SnapshotRequest" where
  "add_pyth k req = (if k \<in> set (pyth_feeds req) then req else req\<lparr>pyth_feeds := pyth_feeds req @ [k]\<rparr>)"

definition add_solend :: "pubkey \<Rightarrow> Stage2SnapshotRequest \<Rightarrow> Stage2SnapshotRequest" where
  "add_solend k req =
     (if k \<in> set (solend_reserves req) then req else req\<lparr>solend_reserves := solend_reserves req @ [k]\<rparr>)"

definition request_is_empty :: "Stage2SnapshotRequest \<Rightarrow> bool" where
  "request_is_empty req \<longleftrightarrow> pyth_feeds req = [] \<and> solend_reserves req = []"

record Stage2SnapshotBatch =
  batch_pyth :: "256 word \<rightharpoonup> Stage2SnapshotError + PythSnapshotValue"
  batch_solend :: "pubkey \<rightharpoonup> Stage2SnapshotError + SolendSnapshotValue"

definition empty_batch :: Stage2SnapshotBatch where
  "empty_batch = \<lparr>batch_pyth = Map.empty, batch_solend = Map.empty\<rparr>"

fun extend_request_with_condition :: "Condition \<Rightarrow> Stage2SnapshotRequest \<Rightarrow> Stage2SnapshotRequest" where
  "extend_request_with_condition (PythPrice feed _ _ _ _ _ _ _ _) req = add_pyth feed req"
| "extend_request_with_condition (SolendReserveSupplyRate rsv _ _ _ _ _ _ _ _) req = add_solend rsv req"

definition extend_request_with_rule :: "WatchRule \<Rightarrow> Stage2SnapshotRequest \<Rightarrow> Stage2SnapshotRequest" where
  "extend_request_with_rule rule req = fold extend_request_with_condition (wr_conditions rule) req"

definition plan_request_for_rule :: "WatchRule \<Rightarrow> Stage2SnapshotRequest" where
  "plan_request_for_rule rule = extend_request_with_rule rule empty_request"

definition solend_snapshot_value_from_reserve_raw :: "pubkey \<Rightarrow> SolendReserveRaw \<Rightarrow> SolendSnapshotValue" where
  "solend_snapshot_value_from_reserve_raw pk raw = \<lparr>
     available_amount = re_liquidity_available_amount raw,
     borrowed_amount_wads = re_liquidity_borrowed_amount_wads raw,
     min_borrow_rate_pct = re_config_min_borrow_rate_pct raw,
     optimal_borrow_rate_pct = re_config_optimal_borrow_rate_pct raw,
     max_borrow_rate_pct = re_config_max_borrow_rate_pct raw,
     super_max_borrow_rate_pct = re_config_super_max_borrow_rate_pct raw,
     optimal_utilization_rate_pct = re_config_optimal_utilization_rate_pct raw,
     max_utilization_rate_pct = re_config_max_utilization_rate_pct raw,
     protocol_take_rate_pct = re_config_protocol_take_rate_pct raw,
     last_update_slot = re_last_update_slot raw,
     stale_flag = re_last_update_stale raw,
     snap_reserve_pubkey = pk\<rparr>"

section \<open>One condition\<close>

definition ellipsis :: string where
  "ellipsis = [CHR 0xE2, CHR 0x80, CHR 0xA6]"

definition show_bool :: "bool \<Rightarrow> string" where
  "show_bool b = (if b then ''true'' else ''false'')"

primrec gw_pow10_loop :: "nat \<Rightarrow> int \<Rightarrow> Stage2WatcherError + int" where
  "gw_pow10_loop 0 acc = Inr acc"
| "gw_pow10_loop (Suc n) acc =
     bindE (ok_or (checked_i128 (acc * 10)) (Terminal ''pyth pow10 overflow'')) (\<lambda>acc. gw_pow10_loop n acc)"

definition gw_pow10_i128 :: "nat \<Rightarrow> Stage2WatcherError + int" where
  "gw_pow10_i128 n = gw_pow10_loop n 1"

definition gw_confidence_gate :: "PythPriceCondition \<Rightarrow> PythSnapshotValue \<Rightarrow> Stage2WatcherError + unit" where
  "gw_confidence_gate c snap =
     bindE (ok_or (checked_i128 \<bar>sint (price_mantissa snap)\<bar>) (Terminal ''pyth abs(price) overflow'')) (\<lambda>price_abs.
     let price_abs_u128 = word_of_int price_abs :: u128 in
     if price_abs_u128 = 0 then Inl (Transient ''pyth price is zero; confidence-bps undefined'')
     else bindE (ok_or (checked_mul (ucast (conf snap)) BPS_DENOM)
            (Terminal ''pyth confidence * BPS_DENOM overflow'')) (\<lambda>conf_bps_num.
     let conf_bps = conf_bps_num div price_abs_u128 in
     if conf_bps > ucast (max_confidence_bps c) then
       Inl (Transient (''pyth confidence too wide: '' @ show_nat (unat conf_bps) @ '' bps > max ''
                       @ show_nat (unat (max_confidence_bps c)) @ '' bps''))
     else Inr ()))"

definition gw_bound :: "PythPriceCondition \<Rightarrow> PythSnapshotValue \<Rightarrow> Stage2WatcherError + int" where
  "gw_bound c snap = (case bound_mode c of
     AdverseLowerForGt \<Rightarrow> ok_or (checked_i128 (sint (price_mantissa snap) - int (unat (conf snap))))
       (Terminal ''pyth bound subtract overflow'')
   | AdverseUpperForLt \<Rightarrow> ok_or (checked_i128 (sint (price_mantissa snap) + int (unat (conf snap))))
       (Terminal ''pyth bound add overflow'')
   | Midpoint \<Rightarrow> Inr (sint (price_mantissa snap)))"

definition gw_operands ::
  "PythPriceCondition \<Rightarrow> PythSnapshotValue \<Rightarrow> int \<Rightarrow> Stage2WatcherError + int \<times> int" where
  "gw_operands c snap bound =
     bindE (ok_or (checked_i64 (sint (price_exponent snap) - sint (threshold_exponent c)))
       (Terminal ''pyth exponent diff overflow'')) (\<lambda>diff.
     if \<not> (- PYTH_MAX_EXPONENT_DIFF \<le> diff \<and> diff \<le> PYTH_MAX_EXPONENT_DIFF) then
       Inl (Terminal (''pyth exponent diff '' @ show_int diff @ '' out of supported range [-18, 18]''))
     else if diff = 0 then Inr (bound, sint (threshold_mantissa c))
     else if diff > 0 then
       bindE (gw_pow10_i128 (nat diff)) (\<lambda>m.
       bindE (ok_or (checked_i128 (bound * m)) (Terminal ''pyth lhs * 10^diff overflow'')) (\<lambda>lhs.
       Inr (lhs, sint (threshold_mantissa c))))
     else
       bindE (gw_pow10_i128 (nat (- diff))) (\<lambda>m.
       bindE (ok_or (checked_i128 (sint (threshold_mantissa c) * m))
         (Terminal ''pyth threshold * 10^(-diff) overflow'')) (\<lambda>rhs.
       Inr (bound, rhs))))"

definition eval_pyth ::
  "PythPriceCondition \<Rightarrow> PythSnapshotValue \<Rightarrow> Stage2TickContext \<Rightarrow> Stage2WatcherError + bool" where
  "eval_pyth c snap ctx =
    (if PythPriceSnapshot.feed_id snap \<noteq> PythPriceCondition.feed_id c then
       Inl (Terminal (''pyth feed id mismatch: snapshot vs rule (feed ''
              @ hex_encode (take 3 (array_bytes (PythPriceCondition.feed_id c))) @ ellipsis @ '')''))
     else case (verification_level snap, verification_level_required c) of (Full, Full) \<Rightarrow>
     bindE (ok_or (checked_i128 (sint (tc_current_unix_timestamp ctx) - sint (publish_time snap)))
       (Terminal ''pyth age subtract overflow'')) (\<lambda>age_secs.
     if age_secs < 0 \<or> age_secs > int (unat (max_age_seconds c)) then
       Inl (Transient (''pyth price too old: age '' @ show_int age_secs @ ''s, max ''
                       @ show_nat (unat (max_age_seconds c)) @ ''s''))
     else if \<not> bound_direction_ok (PythPriceCondition.comparison c) (bound_mode c) then
       Inl (Terminal ''pyth bound mode does not match comparison direction'')
     else bindE (gw_confidence_gate c snap) (\<lambda>_.
     bindE (gw_bound c snap) (\<lambda>bound.
     bindE (gw_operands c snap bound) (\<lambda>(lhs, rhs).
     Inr (apply_i128 (PythPriceCondition.comparison c) lhs rhs))))))"

definition eval_solend ::
  "(u8 list \<Rightarrow> string) \<Rightarrow> pubkey \<Rightarrow> SolendSupplyAprCondition \<Rightarrow> SolendSnapshotValue \<Rightarrow> Stage2TickContext \<Rightarrow>
   Stage2WatcherError + bool" where
  "eval_solend b58 rsv c snap ctx =
    (if snap_reserve_pubkey snap \<noteq> rsv then
       Inl (Terminal (''solend reserve mismatch: snapshot vs rule ('' @ pubkey_to_base58 b58 rsv @ '')''))
     else if formula_version c \<noteq> SUPPORTED_SOLEND_FORMULA_VERSION then
       Inl (Terminal (''solend formula_version '' @ show_nat (unat (formula_version c))
              @ '' unsupported (this build supports 1)''))
     else case rate_kind c of
       Apy \<Rightarrow> Inl (Terminal ''solend rate_kind APY not supported in v1'')
     | Apr \<Rightarrow>
     if \<not> gw_is_reserve_config_valid snap then
       Inl (Transient ''solend reserve config invariants violated'')
     else bindE (ok_or (checked_sub (tc_current_slot ctx) (SolendReserveSnapshot.last_update_slot snap))
            (Transient ''solend reserve future-dated'')) (\<lambda>age.
     if age > ucast (max_reserve_staleness_slots c) \<or> stale_flag snap then
       Inl (Transient (''solend reserve stale: age '' @ show_nat (unat age) @ '' slots, max ''
              @ show_nat (unat (max_reserve_staleness_slots c)) @ '' slots, stale_flag='' @ show_bool (stale_flag snap)))
     else bindE (gw_supply_apr_wad snap) (\<lambda>supply_apr.
     bindE (ok_or (checked_mul (ucast (threshold_bps c)) (10 ^ 14))
       (Terminal ''solend threshold conversion overflow'')) (\<lambda>threshold_wad.
     Inr (apply_u128 (SolendSupplyAprCondition.comparison c) supply_apr threshold_wad)))))"

datatype CondOutcome = CoTrue | CoFalse | CoErr Stage2WatcherError

definition outcome_of :: "Stage2WatcherError + bool \<Rightarrow> CondOutcome" where
  "outcome_of r = (case r of Inr True \<Rightarrow> CoTrue | Inr False \<Rightarrow> CoFalse | Inl e \<Rightarrow> CoErr e)"

fun evaluate_one_condition ::
  "(u8 list \<Rightarrow> string) \<Rightarrow> Stage2SnapshotBatch \<Rightarrow> Stage2TickContext \<Rightarrow> Condition \<Rightarrow> CondOutcome" where
  "evaluate_one_condition b58 batch ctx (PythPrice feed acct cmp tm te age bps lvl bm) =
    (case batch_pyth batch feed of
       Some (Inr snap) \<Rightarrow> outcome_of (eval_pyth \<lparr>PythPriceCondition.feed_id = feed, comparison = cmp,
         threshold_mantissa = tm, threshold_exponent = te, max_age_seconds = age, max_confidence_bps = bps,
         verification_level_required = lvl, bound_mode = bm\<rparr> snap ctx)
     | Some (Inl e) \<Rightarrow> CoErr (into_watcher_error e)
     | None \<Rightarrow> CoErr (Transient ''pyth snapshot missing from batch''))"
| "evaluate_one_condition b58 batch ctx (SolendReserveSupplyRate rsv mkt prog cmp bps rk fv stal refr) =
    (case batch_solend batch rsv of
       Some (Inr snap) \<Rightarrow> outcome_of (eval_solend b58 rsv \<lparr>SolendSupplyAprCondition.comparison = cmp,
         threshold_bps = bps, rate_kind = rk, formula_version = fv, max_reserve_staleness_slots = stal\<rparr> snap ctx)
     | Some (Inl e) \<Rightarrow> CoErr (into_watcher_error e)
     | None \<Rightarrow> CoErr (Transient ''solend snapshot missing from batch''))"

section \<open>A rule\<close>

definition severity_rank :: "Stage2WatcherError \<Rightarrow> nat" where
  "severity_rank e = (if is_terminal_error e then 2 else if is_transient e then 1 else 0)"

fun merge_severity :: "Stage2WatcherError option \<Rightarrow> Stage2WatcherError \<Rightarrow> Stage2WatcherError" where
  "merge_severity None new = new"
| "merge_severity (Some c) new = (if severity_rank new \<ge> severity_rank c then new else c)"

fun fold_all_step :: "Stage2WatcherError option \<times> bool \<Rightarrow> CondOutcome \<Rightarrow> Stage2WatcherError option \<times> bool" where
  "fold_all_step (highest, all_true) CoTrue = (highest, all_true)"
| "fold_all_step (highest, all_true) CoFalse = (highest, False)"
| "fold_all_step (highest, all_true) (CoErr e) = (Some (merge_severity highest e), all_true)"

definition fold_all :: "CondOutcome list \<Rightarrow> Stage2WatcherError + bool" where
  "fold_all outcomes = (case foldl fold_all_step (None, True) outcomes of
     (Some e, _) \<Rightarrow> Inl e | (None, all_true) \<Rightarrow> Inr all_true)"

fun fold_any_step :: "Stage2WatcherError option \<times> bool \<Rightarrow> CondOutcome \<Rightarrow> Stage2WatcherError option \<times> bool" where
  "fold_any_step (highest, any_true) CoTrue = (highest, True)"
| "fold_any_step (highest, any_true) CoFalse = (highest, any_true)"
| "fold_any_step (highest, any_true) (CoErr e) = (Some (merge_severity highest e), any_true)"

definition fold_any :: "CondOutcome list \<Rightarrow> Stage2WatcherError + bool" where
  "fold_any outcomes = (case foldl fold_any_step (None, False) outcomes of
     (highest, any_true) \<Rightarrow> if any_true then Inr True
       else (case highest of Some e \<Rightarrow> Inl e | None \<Rightarrow> Inr False))"

text \<open>The evaluation loop: the outcomes it collected and the value that sealed it, if any.\<close>

fun eval_loop ::
  "(Condition \<Rightarrow> CondOutcome) \<Rightarrow> ConditionLogic \<Rightarrow> Condition list \<Rightarrow> CondOutcome list \<Rightarrow> CondOutcome list \<times> bool option" where
  "eval_loop ev logic [] outcomes = (outcomes, None)"
| "eval_loop ev logic (c # cs) outcomes =
    (case (ev c, logic) of
       (CoTrue, Any_logic) \<Rightarrow> (outcomes @ [CoTrue], Some True)
     | (CoFalse, All_logic) \<Rightarrow> (outcomes @ [CoFalse], Some False)
     | (out, _) \<Rightarrow> eval_loop ev logic cs (outcomes @ [out]))"

definition evaluate_rule_against_batch ::
  "(u8 list \<Rightarrow> string) \<Rightarrow> WatchRule \<Rightarrow> Stage2SnapshotBatch \<Rightarrow> Stage2TickContext \<Rightarrow> Stage2WatcherError + bool" where
  "evaluate_rule_against_batch b58 rule batch ctx =
    (if wr_conditions rule = [] then Inr (wr_condition_logic rule = All_logic)
     else case eval_loop (evaluate_one_condition b58 batch ctx) (wr_condition_logic rule) (wr_conditions rule) [] of
       (_, Some v) \<Rightarrow> Inr v
     | (outcomes, None) \<Rightarrow>
        (case wr_condition_logic rule of All_logic \<Rightarrow> fold_all outcomes | Any_logic \<Rightarrow> fold_any outcomes))"

section \<open>What a rule's evaluation returns\<close>

text \<open>The most severe error of a list of outcomes, the later one among equals.\<close>

fun worst :: "Stage2WatcherError option \<Rightarrow> CondOutcome list \<Rightarrow> Stage2WatcherError option" where
  "worst h [] = h"
| "worst h (CoErr e # os) = worst (Some (merge_severity h e)) os"
| "worst h (_ # os) = worst h os"

lemma fold_all_foldl: "foldl fold_all_step (h, b) os = (worst h os, b \<and> CoFalse \<notin> set os)"
proof (induction os arbitrary: h b)
  case (Cons x xs)
  then show ?case by (cases x) auto
qed simp

lemma fold_any_foldl: "foldl fold_any_step (h, b) os = (worst h os, b \<or> CoTrue \<in> set os)"
proof (induction os arbitrary: h b)
  case (Cons x xs)
  then show ?case by (cases x) auto
qed simp

lemma worst_None: "worst h os = None \<longleftrightarrow> h = None \<and> (\<forall>e. CoErr e \<notin> set os)"
proof (induction os arbitrary: h)
  case (Cons x xs)
  then show ?case by (cases x) auto
qed simp

lemma eval_loop_eq:
  "eval_loop ev logic cs acc =
    (case logic of
       All_logic \<Rightarrow> if CoFalse \<in> ev ` set cs
         then (acc @ takeWhile (\<lambda>x. x \<noteq> CoFalse) (map ev cs) @ [CoFalse], Some False) else (acc @ map ev cs, None)
     | Any_logic \<Rightarrow> if CoTrue \<in> ev ` set cs
         then (acc @ takeWhile (\<lambda>x. x \<noteq> CoTrue) (map ev cs) @ [CoTrue], Some True) else (acc @ map ev cs, None))"
proof (induction cs arbitrary: acc)
  case (Cons c cs)
  then show ?case by (cases "ev c"; cases logic) auto
qed (cases logic; simp)

lemma evaluate_rule_eq:
  fixes b58 rule batch ctx
  defines "ev \<equiv> evaluate_one_condition b58 batch ctx" and "cs \<equiv> wr_conditions rule"
  shows "evaluate_rule_against_batch b58 rule batch ctx =
    (case wr_condition_logic rule of
       All_logic \<Rightarrow> if CoFalse \<in> ev ` set cs then Inr False
         else (case worst None (map ev cs) of Some e \<Rightarrow> Inl e | None \<Rightarrow> Inr True)
     | Any_logic \<Rightarrow> if CoTrue \<in> ev ` set cs then Inr True
         else (case worst None (map ev cs) of Some e \<Rightarrow> Inl e | None \<Rightarrow> Inr False))"
  unfolding evaluate_rule_against_batch_def ev_def [symmetric] cs_def [symmetric]
  by (cases "wr_condition_logic rule"; cases "cs = []")
    (auto simp: eval_loop_eq fold_all_def fold_all_foldl fold_any_def fold_any_foldl split: option.splits)

section \<open>Agreement with the on-chain verifier\<close>

lemma gw_pow10_value [simp]: "value_of (gw_pow10_i128 n) = value_of (pow10_i128 n)"
proof -
  have "value_of (gw_pow10_loop n acc) = value_of (pow10_loop n acc)" for acc
    by (induction n arbitrary: acc) simp_all
  then show ?thesis by (simp add: gw_pow10_i128_def pow10_i128_def)
qed

lemma gw_confidence_value: "value_of (gw_confidence_gate c snap) = value_of (pyth_confidence_gate c snap)"
  by (simp add: gw_confidence_gate_def pyth_confidence_gate_def Let_def cong: if_cong)

lemma gw_bound_value: "value_of (gw_bound c snap) = value_of (pyth_bound c snap)"
  by (simp add: gw_bound_def pyth_bound_def split: BoundMode.split)

lemma gw_operands_value: "value_of (gw_operands c snap b) = value_of (pyth_operands c snap b)"
  by (simp add: gw_operands_def pyth_operands_def cong: if_cong)

lemma eval_pyth_value:
  "value_of (eval_pyth c snap ctx) =
   value_of (verify_pyth_price_condition c snap \<lparr>current_unix_time = tc_current_unix_timestamp ctx\<rparr>)"
  unfolding eval_pyth_def verify_pyth_price_condition_def
  by (simp add: gw_confidence_value gw_bound_value gw_operands_value case_prod_unfold cong: if_cong
      split: VerificationLevel.split)

lemma eval_solend_value:
  "value_of (eval_solend b58 rsv c snap ctx) =
   (if snap_reserve_pubkey snap = rsv
    then value_of (verify_solend_supply_apr_condition c (onchain snap) \<lparr>current_slot = tc_current_slot ctx\<rparr>)
    else None)"
proof -
  have apr: "value_of (gw_supply_apr_wad snap) = value_of (supply_apr_wad (onchain snap))"
    if "is_reserve_config_valid (onchain snap)"
    using gw_supply_apr_value [of snap] that by (simp add: solend_supply_apr_wad_for_snapshot_def gw_config_valid)
  show ?thesis
    unfolding eval_solend_def verify_solend_supply_apr_condition_def
    by (simp add: gw_config_valid apr cong: if_cong split: RateKind.split)
qed

text \<open>The proof entry that an executor builds for a condition from the snapshot in the batch.\<close>

fun proof_condition :: "Stage2SnapshotBatch \<Rightarrow> Condition \<Rightarrow> ProofCondition option" where
  "proof_condition batch (PythPrice feed acct cmp tm te age bps lvl bm) =
    (case batch_pyth batch feed of
       Some (Inr snap) \<Rightarrow> Some (ProofCondition_Pyth \<lparr>PythPriceCondition.feed_id = feed, comparison = cmp,
         threshold_mantissa = tm, threshold_exponent = te, max_age_seconds = age, max_confidence_bps = bps,
         verification_level_required = lvl, bound_mode = bm\<rparr> snap)
     | _ \<Rightarrow> None)"
| "proof_condition batch (SolendReserveSupplyRate rsv mkt prog cmp bps rk fv stal refr) =
    (case batch_solend batch rsv of
       Some (Inr snap) \<Rightarrow> if snap_reserve_pubkey snap = rsv then
         Some (ProofCondition_Solend \<lparr>SolendSupplyAprCondition.comparison = cmp, threshold_bps = bps,
           rate_kind = rk, formula_version = fv, max_reserve_staleness_slots = stal\<rparr> (onchain snap)) else None
     | _ \<Rightarrow> None)"

lemma outcome_of_value: "outcome_of r = (case value_of r of Some True \<Rightarrow> CoTrue | Some False \<Rightarrow> CoFalse
    | None \<Rightarrow> CoErr (case r of Inl e \<Rightarrow> e))"
  by (cases r) (simp_all add: outcome_of_def split: bool.split)

lemma evaluate_one_condition_chain:
  assumes "proof_condition batch c = Some pc"
    and "slot clk = tc_current_slot ctx" and "unix_timestamp clk = tc_current_unix_timestamp ctx"
  shows "(evaluate_one_condition b58 batch ctx c = CoTrue \<longleftrightarrow> evaluate_proof_condition clk pc = Inr True)
    \<and> (evaluate_one_condition b58 batch ctx c = CoFalse \<longleftrightarrow> evaluate_proof_condition clk pc = Inr False)"
  using assms
  by (cases c) (auto simp: evaluate_proof_condition_def Let_def outcome_of_value eval_pyth_value
      eval_solend_value value_of_Some [symmetric] split: option.splits sum.splits if_splits bool.splits)

lemma map_Some_the: "map f xs = map Some ys \<Longrightarrow> ys = map (\<lambda>x. the (f x)) xs \<and> (\<forall>x \<in> set xs. f x = Some (the (f x)))"
proof (induction xs arbitrary: ys)
  case (Cons x xs)
  then obtain y zs where "ys = y # zs" "f x = Some y" "map f xs = map Some zs" by (cases ys) auto
  then show ?case using Cons.IH by simp
qed simp

section \<open>Properties\<close>

lemma evaluator_chain:
  assumes "slot clk = tc_current_slot ctx" and "unix_timestamp clk = tc_current_unix_timestamp ctx"
    and "map (proof_condition batch) (wr_conditions rule) = map Some ps" and "0 < length ps" and "length ps \<le> 8"
  shows "condition_gate clk \<lparr>condition_logic = wr_condition_logic rule, conditions = ps\<rparr> = Inr () \<longleftrightarrow>
    evaluate_rule_against_batch b58 rule batch ctx = Inr True
    \<and> (wr_condition_logic rule = Any_logic \<longrightarrow>
        (\<forall>c \<in> set (wr_conditions rule). \<forall>e. evaluate_one_condition b58 batch ctx c \<noteq> CoErr e))"
proof -
  let ?cs = "wr_conditions rule" and ?ev = "evaluate_one_condition b58 batch ctx"
  let ?pc = "\<lambda>c. the (proof_condition batch c)"
  have ps: "ps = map ?pc ?cs" and pc: "\<And>c. c \<in> set ?cs \<Longrightarrow> proof_condition batch c = Some (?pc c)"
    using map_Some_the [OF assms(3)] by auto
  have true: "proof_condition_true clk (?pc c) \<longleftrightarrow> ?ev c = CoTrue" if "c \<in> set ?cs" for c
    using evaluate_one_condition_chain [OF pc [OF that] assms(1,2)] by (simp add: proof_condition_true_def)
  have ok: "is_ok (evaluate_proof_condition clk (?pc c)) \<longleftrightarrow> (\<forall>e. ?ev c \<noteq> CoErr e)" if "c \<in> set ?cs" for c
    using evaluate_one_condition_chain [OF pc [OF that] assms(1,2), of b58]
    by (cases "?ev c"; cases "evaluate_proof_condition clk (?pc c)") auto
  have none: "worst None (map ?ev ?cs) = None \<longleftrightarrow> (\<forall>c \<in> set ?cs. \<forall>e. ?ev c \<noteq> CoErr e)"
    unfolding worst_None set_map by (metis imageE imageI)
  have three: "(\<forall>c \<in> set ?cs. ?ev c = CoTrue) \<longleftrightarrow>
      CoFalse \<notin> ?ev ` set ?cs \<and> (\<forall>c \<in> set ?cs. \<forall>e. ?ev c \<noteq> CoErr e)"
    by (metis CondOutcome.exhaust CondOutcome.distinct(1) CondOutcome.distinct(3) image_iff)
  have some: "(\<exists>c \<in> set ?cs. ?ev c = CoTrue) \<longleftrightarrow> CoTrue \<in> ?ev ` set ?cs"
    by (metis imageE imageI)
  have "condition_gate clk \<lparr>condition_logic = wr_condition_logic rule, conditions = ps\<rparr> = Inr () \<longleftrightarrow>
      (\<forall>c \<in> set ?cs. \<forall>e. ?ev c \<noteq> CoErr e)
      \<and> (case wr_condition_logic rule of
           All_logic \<Rightarrow> \<forall>c \<in> set ?cs. ?ev c = CoTrue | Any_logic \<Rightarrow> \<exists>c \<in> set ?cs. ?ev c = CoTrue)"
    using assms(4,5) ok true
    by (simp add: ok_simps conditions_hold_def ps split: ConditionLogic.split)
  also have "\<dots> \<longleftrightarrow> evaluate_rule_against_batch b58 rule batch ctx = Inr True
    \<and> (wr_condition_logic rule = Any_logic \<longrightarrow> (\<forall>c \<in> set ?cs. \<forall>e. ?ev c \<noteq> CoErr e))"
    unfolding evaluate_rule_eq some three none [symmetric]
    by (simp split: ConditionLogic.split option.split)
  finally show ?thesis .
qed

text \<open>
  C17: the watcher's verdict is the chain's verdict. For a rule of one to eight conditions whose
  snapshots the batch holds, and a tick at the chain's clock, the on-chain condition gate accepts
  the proof built from the rule's conditions and those snapshots exactly when the gateway's
  evaluator returns true and, for a rule that asks for any of its conditions, no condition fails
  to evaluate: the evaluator stops at the first true condition, the program evaluates them all.\<close>

theorem evaluator_matches_chain:
  assumes "slot clk = tc_current_slot ctx" and "unix_timestamp clk = tc_current_unix_timestamp ctx"
    and "map (proof_condition batch) (wr_conditions rule) = map Some ps" and "0 < length ps" and "length ps \<le> 8"
  shows "condition_gate clk \<lparr>condition_logic = wr_condition_logic rule, conditions = ps\<rparr> = Inr () \<longleftrightarrow>
    evaluate_rule_against_batch b58 rule batch ctx = Inr True
    \<and> (wr_condition_logic rule = Any_logic \<longrightarrow>
        (\<forall>c \<in> set (wr_conditions rule). \<forall>e. evaluate_one_condition b58 batch ctx c \<noteq> CoErr e))"
  using assms by (rule evaluator_chain)

end
