(* ===== verification/Evaluator_Cache.thy ===== *)
theory Evaluator_Cache
  imports Rule_Evaluator
begin

text \<open>
  \<open>Stage2BatchedConditionEvaluator\<close> of \<open>crates/gateway/src/stage2_evaluator.rs\<close>: the evaluator with
  its per-tick cache. The snapshot provider is a parameter, and so is what concurrent evaluations
  do to the cache between the three sections in which a call holds the lock.
\<close>

section \<open>The code\<close>

record TickCache =
  token :: "(u64 \<times> i64 \<times> i64) option"
  cache_pyth :: "256 word \<rightharpoonup> Stage2SnapshotError + PythSnapshotValue"
  cache_solend :: "pubkey \<rightharpoonup> Stage2SnapshotError + SolendSnapshotValue"
  pyth_attempted :: "256 word set"
  solend_attempted :: "pubkey set"

definition new_cache :: TickCache where
  "new_cache = \<lparr>token = None, cache_pyth = Map.empty, cache_solend = Map.empty,
     pyth_attempted = {}, solend_attempted = {}\<rparr>"

definition tick_token :: "Stage2TickContext \<Rightarrow> u64 \<times> i64 \<times> i64" where
  "tick_token ctx = (tc_current_slot ctx, tc_current_unix_timestamp ctx, tc_now_ms ctx)"

definition ensure_token :: "Stage2TickContext \<Rightarrow> TickCache \<Rightarrow> TickCache" where
  "ensure_token ctx c = (if token c \<noteq> Some (tick_token ctx)
     then new_cache\<lparr>token := Some (tick_token ctx)\<rparr> else c)"

fun missing_condition :: "TickCache \<Rightarrow> Condition \<Rightarrow> Stage2SnapshotRequest \<Rightarrow> Stage2SnapshotRequest" where
  "missing_condition c (PythPrice feed _ _ _ _ _ _ _ _) req =
     (if feed \<notin> pyth_attempted c then add_pyth feed req else req)"
| "missing_condition c (SolendReserveSupplyRate rsv _ _ _ _ _ _ _ _) req =
     (if rsv \<notin> solend_attempted c then add_solend rsv req else req)"

definition missing_request :: "TickCache \<Rightarrow> WatchRule \<Rightarrow> Stage2SnapshotRequest" where
  "missing_request c rule = fold (missing_condition c) (wr_conditions rule) empty_request"

definition integrate :: "Stage2SnapshotBatch \<Rightarrow> TickCache \<Rightarrow> TickCache" where
  "integrate batch c = c\<lparr>cache_pyth := cache_pyth c ++ batch_pyth batch,
     cache_solend := cache_solend c ++ batch_solend batch,
     pyth_attempted := pyth_attempted c \<union> dom (batch_pyth batch),
     solend_attempted := solend_attempted c \<union> dom (batch_solend batch)\<rparr>"

definition snapshot_view :: "TickCache \<Rightarrow> Stage2SnapshotBatch" where
  "snapshot_view c = \<lparr>batch_pyth = cache_pyth c, batch_solend = cache_solend c\<rparr>"

type_synonym provider = "Stage2SnapshotRequest \<Rightarrow> Stage2TickContext \<Rightarrow> Stage2SnapshotBatch"

record eval_env =
  eval_base58 :: "u8 list \<Rightarrow> string"
  fetch_batch :: provider
  cache_tasks :: "nat \<Rightarrow> TickCache \<Rightarrow> TickCache"

text \<open>One call: the verdict, the request that went to the provider if any, the cache it leaves.\<close>

definition batched_evaluate ::
  "eval_env \<Rightarrow> WatchRule \<Rightarrow> Stage2TickContext \<Rightarrow> TickCache \<Rightarrow>
   (Stage2WatcherError + bool) \<times> Stage2SnapshotRequest option \<times> TickCache" where
  "batched_evaluate env rule ctx cache =
    (let c1 = ensure_token ctx cache;
         request = missing_request c1 rule;
         c2 = (if request_is_empty request then c1
               else integrate (fetch_batch env request ctx) (ensure_token ctx (cache_tasks env 1 c1)));
         c3 = cache_tasks env 2 c2
     in (evaluate_rule_against_batch (eval_base58 env) rule (snapshot_view c3) ctx,
         if request_is_empty request then None else Some request, c3))"

definition noop_fetch_batch :: provider where
  "noop_fetch_batch req ctx = empty_batch"

text \<open>The scripted provider; its call counters are left out.\<close>

definition mock_fetch_batch ::
  "(pubkey \<Rightarrow> string) \<Rightarrow> (256 word \<rightharpoonup> Stage2SnapshotError + PythSnapshotValue) \<Rightarrow>
   (pubkey \<rightharpoonup> Stage2SnapshotError + SolendSnapshotValue) \<Rightarrow> provider" where
  "mock_fetch_batch show_pk pyth solend req ctx = \<lparr>
     batch_pyth = (\<lambda>k. if k \<in> set (pyth_feeds req) then Some (case pyth k of Some r \<Rightarrow> r
       | None \<Rightarrow> Inl (SnapshotTransient (''no fixture for pyth feed_id ''
           @ hex_encode (take 3 (array_bytes k)) @ ellipsis))) else None),
     batch_solend = (\<lambda>k. if k \<in> set (solend_reserves req) then Some (case solend k of Some r \<Rightarrow> r
       | None \<Rightarrow> Inl (SnapshotTransient (''no fixture for solend reserve '' @ show_pk k))) else None)\<rparr>"

section \<open>Requests\<close>

fun condition_feeds :: "Condition \<Rightarrow> 256 word set" where
  "condition_feeds (PythPrice feed _ _ _ _ _ _ _ _) = {feed}"
| "condition_feeds _ = {}"

fun condition_reserves :: "Condition \<Rightarrow> pubkey set" where
  "condition_reserves (SolendReserveSupplyRate rsv _ _ _ _ _ _ _ _) = {rsv}"
| "condition_reserves _ = {}"

definition rule_feeds :: "WatchRule \<Rightarrow> 256 word set" where
  "rule_feeds rule = (\<Union>c \<in> set (wr_conditions rule). condition_feeds c)"

definition rule_reserves :: "WatchRule \<Rightarrow> pubkey set" where
  "rule_reserves rule = (\<Union>c \<in> set (wr_conditions rule). condition_reserves c)"

lemma fold_missing:
  assumes "distinct (pyth_feeds req)" and "distinct (solend_reserves req)"
  shows "set (pyth_feeds (fold (missing_condition c) cs req))
           = set (pyth_feeds req) \<union> ((\<Union>x \<in> set cs. condition_feeds x) - pyth_attempted c)
    \<and> set (solend_reserves (fold (missing_condition c) cs req))
           = set (solend_reserves req) \<union> ((\<Union>x \<in> set cs. condition_reserves x) - solend_attempted c)
    \<and> distinct (pyth_feeds (fold (missing_condition c) cs req))
    \<and> distinct (solend_reserves (fold (missing_condition c) cs req))"
  using assms
proof (induction cs arbitrary: req)
  case (Cons x xs)
  let ?req = "missing_condition c x req"
  have "distinct (pyth_feeds ?req)" "distinct (solend_reserves ?req)"
    using Cons.prems by (cases x; auto simp: add_pyth_def add_solend_def)+
  note IH = Cons.IH [OF this]
  have "set (pyth_feeds ?req) = set (pyth_feeds req) \<union> (condition_feeds x - pyth_attempted c)"
    "set (solend_reserves ?req) = set (solend_reserves req) \<union> (condition_reserves x - solend_attempted c)"
    by (cases x; auto simp: add_pyth_def add_solend_def)+
  then show ?case using IH by auto
qed simp

lemma missing_request_keys:
  "set (pyth_feeds (missing_request c rule)) = rule_feeds rule - pyth_attempted c"
  "set (solend_reserves (missing_request c rule)) = rule_reserves rule - solend_attempted c"
  "distinct (pyth_feeds (missing_request c rule))" "distinct (solend_reserves (missing_request c rule))"
  using fold_missing [of empty_request c "wr_conditions rule"]
  by (simp_all add: missing_request_def rule_feeds_def rule_reserves_def empty_request_def)

section \<open>The cache answers like the provider\<close>

text \<open>
  What the provider would answer during a tick, for every key. A provider keeps its contract when
  it resolves exactly the requested keys; a concurrent task of the same tick only adds to the cache.
\<close>

type_synonym market =
  "Stage2TickContext \<Rightarrow> (256 word \<Rightarrow> Stage2SnapshotError + PythSnapshotValue)
     \<times> (pubkey \<Rightarrow> Stage2SnapshotError + SolendSnapshotValue)"

definition batch_at :: "market \<Rightarrow> Stage2TickContext \<Rightarrow> 256 word set \<Rightarrow> pubkey set \<Rightarrow> Stage2SnapshotBatch" where
  "batch_at W ctx F R = \<lparr>batch_pyth = (\<lambda>k. if k \<in> F then Some (fst (W ctx) k) else None),
     batch_solend = (\<lambda>k. if k \<in> R then Some (snd (W ctx) k) else None)\<rparr>"

definition resolves :: "market \<Rightarrow> provider \<Rightarrow> bool" where
  "resolves W fetch \<longleftrightarrow> (\<forall>req ctx. fetch req ctx = batch_at W ctx (set (pyth_feeds req)) (set (solend_reserves req)))"

definition filled :: "market \<Rightarrow> Stage2TickContext \<Rightarrow> TickCache \<Rightarrow> bool" where
  "filled W ctx c \<longleftrightarrow> token c = Some (tick_token ctx)
     \<and> snapshot_view c = batch_at W ctx (pyth_attempted c) (solend_attempted c)"

definition cache_valid :: "market \<Rightarrow> TickCache \<Rightarrow> bool" where
  "cache_valid W c \<longleftrightarrow> (\<forall>ctx. token c = Some (tick_token ctx) \<longrightarrow> filled W ctx c)"

definition same_tick :: "market \<Rightarrow> Stage2TickContext \<Rightarrow> (nat \<Rightarrow> TickCache \<Rightarrow> TickCache) \<Rightarrow> bool" where
  "same_tick W ctx tasks \<longleftrightarrow> (\<forall>i c. filled W ctx c \<longrightarrow> filled W ctx (tasks i c)
     \<and> pyth_attempted c \<subseteq> pyth_attempted (tasks i c) \<and> solend_attempted c \<subseteq> solend_attempted (tasks i c))"

lemma ensure_token_filled: "cache_valid W c \<Longrightarrow> filled W ctx (ensure_token ctx c)"
  by (auto simp: ensure_token_def cache_valid_def filled_def new_cache_def snapshot_view_def batch_at_def)

lemma ensure_token_same: "filled W ctx c \<Longrightarrow> ensure_token ctx c = c"
  by (simp add: ensure_token_def filled_def)

lemma tick_token_inject: "tick_token ctx = tick_token ctx' \<longleftrightarrow> ctx = ctx'"
  by (cases ctx; cases ctx') (auto simp: tick_token_def)

lemma filled_valid: "filled W ctx c \<Longrightarrow> cache_valid W c"
  by (auto simp: cache_valid_def filled_def tick_token_inject)

lemma integrate_filled:
  assumes "filled W ctx c"
  shows "filled W ctx (integrate (batch_at W ctx F R) c)"
    and "pyth_attempted (integrate (batch_at W ctx F R) c) = pyth_attempted c \<union> F"
    and "solend_attempted (integrate (batch_at W ctx F R) c) = solend_attempted c \<union> R"
  using assms
  by (auto simp: filled_def integrate_def batch_at_def snapshot_view_def map_add_def fun_eq_iff
      split: option.splits if_splits)

lemma evaluate_rule_keys:
  assumes "rule_feeds rule \<subseteq> F" and "rule_reserves rule \<subseteq> R"
  shows "evaluate_rule_against_batch b58 rule (batch_at W ctx F R) ctx'
    = evaluate_rule_against_batch b58 rule (batch_at W ctx UNIV UNIV) ctx'"
proof -
  have one: "evaluate_one_condition b58 (batch_at W ctx F R) ctx' c
      = evaluate_one_condition b58 (batch_at W ctx UNIV UNIV) ctx' c" if "c \<in> set (wr_conditions rule)" for c
  proof -
    have "condition_feeds c \<subseteq> F" "condition_reserves c \<subseteq> R"
      using that assms by (auto simp: rule_feeds_def rule_reserves_def)
    then show ?thesis by (cases c) (auto simp: batch_at_def)
  qed
  then have "map (evaluate_one_condition b58 (batch_at W ctx F R) ctx') (wr_conditions rule)
      = map (evaluate_one_condition b58 (batch_at W ctx UNIV UNIV) ctx') (wr_conditions rule)" by simp
  then show ?thesis unfolding evaluate_rule_eq by (metis set_map)
qed

lemma batched_evaluate_direct:
  assumes "cache_valid W cache" and "resolves W (fetch_batch env)" and "same_tick W ctx (cache_tasks env)"
    and "batched_evaluate env rule ctx cache = (v, req, cache')"
  shows "v = evaluate_rule_against_batch (eval_base58 env) rule (batch_at W ctx UNIV UNIV) ctx"
    and "filled W ctx cache'"
    and "pyth_attempted (ensure_token ctx cache) \<union> rule_feeds rule \<subseteq> pyth_attempted cache'"
    and "solend_attempted (ensure_token ctx cache) \<union> rule_reserves rule \<subseteq> solend_attempted cache'"
    and "req = (let r = missing_request (ensure_token ctx cache) rule in if request_is_empty r then None else Some r)"
proof -
  define c1 where "c1 = ensure_token ctx cache"
  define r where "r = missing_request c1 rule"
  define c2 where "c2 = (if request_is_empty r then c1
      else integrate (fetch_batch env r ctx) (ensure_token ctx (cache_tasks env 1 c1)))"
  define c3 where "c3 = cache_tasks env 2 c2"
  have res: "v = evaluate_rule_against_batch (eval_base58 env) rule (snapshot_view c3) ctx" "cache' = c3"
    "req = (if request_is_empty r then None else Some r)"
    using assms(4) unfolding batched_evaluate_def Let_def c1_def [symmetric] r_def [symmetric]
      c2_def [symmetric] c3_def [symmetric] by auto
  note keys = missing_request_keys [of c1 rule, folded r_def]
  have f1: "filled W ctx c1" unfolding c1_def using assms(1) by (rule ensure_token_filled)
  have t1: "filled W ctx (cache_tasks env 1 c1)" "pyth_attempted c1 \<subseteq> pyth_attempted (cache_tasks env 1 c1)"
    "solend_attempted c1 \<subseteq> solend_attempted (cache_tasks env 1 c1)"
    using assms(3) f1 unfolding same_tick_def by blast+
  have f2: "filled W ctx c2 \<and> pyth_attempted c1 \<union> rule_feeds rule \<subseteq> pyth_attempted c2
      \<and> solend_attempted c1 \<union> rule_reserves rule \<subseteq> solend_attempted c2"
  proof (cases "request_is_empty r")
    case True
    then show ?thesis using f1 keys by (auto simp: c2_def request_is_empty_def)
  next
    case False
    have "fetch_batch env r ctx = batch_at W ctx (set (pyth_feeds r)) (set (solend_reserves r))"
      using assms(2) by (simp add: resolves_def)
    then show ?thesis
      using False t1 keys integrate_filled [OF t1(1)] by (auto simp: c2_def ensure_token_same)
  qed
  then have f3: "filled W ctx c3" "pyth_attempted c2 \<subseteq> pyth_attempted c3" "solend_attempted c2 \<subseteq> solend_attempted c3"
    using assms(3) unfolding same_tick_def c3_def by blast+
  show "filled W ctx cache'" unfolding res by (rule f3)
  show "pyth_attempted (ensure_token ctx cache) \<union> rule_feeds rule \<subseteq> pyth_attempted cache'"
    "solend_attempted (ensure_token ctx cache) \<union> rule_reserves rule \<subseteq> solend_attempted cache'"
    using f2 f3 unfolding res c1_def by auto
  have keyed_rule: "rule_feeds rule \<subseteq> pyth_attempted c3" "rule_reserves rule \<subseteq> solend_attempted c3"
    using f2 f3(2,3) by auto
  have "snapshot_view c3 = batch_at W ctx (pyth_attempted c3) (solend_attempted c3)"
    using f3(1) by (simp add: filled_def)
  then show "v = evaluate_rule_against_batch (eval_base58 env) rule (batch_at W ctx UNIV UNIV) ctx"
    unfolding res by (simp only: evaluate_rule_keys [OF keyed_rule])
  show "req = (let r = missing_request (ensure_token ctx cache) rule in if request_is_empty r then None else Some r)"
    unfolding res r_def c1_def by simp
qed

section \<open>Properties\<close>

text \<open>The calls of one tick, in order: the verdicts and the requests that reached the provider.\<close>

fun evaluate_all ::
  "eval_env \<Rightarrow> Stage2TickContext \<Rightarrow> WatchRule list \<Rightarrow> TickCache \<Rightarrow>
   (Stage2WatcherError + bool) list \<times> Stage2SnapshotRequest list \<times> TickCache" where
  "evaluate_all env ctx [] cache = ([], [], cache)"
| "evaluate_all env ctx (rule # rules) cache =
    (let (v, req, cache1) = batched_evaluate env rule ctx cache;
         (vs, reqs, cache2) = evaluate_all env ctx rules cache1
     in (v # vs, (case req of None \<Rightarrow> reqs | Some r \<Rightarrow> r # reqs), cache2))"

lemma evaluate_all_direct:
  assumes "cache_valid W cache" and "resolves W (fetch_batch env)" and "same_tick W ctx (cache_tasks env)"
    and "evaluate_all env ctx rules cache = (vs, reqs, cache')"
  shows "vs = map (\<lambda>rule. evaluate_rule_against_batch (eval_base58 env) rule (batch_at W ctx UNIV UNIV) ctx) rules"
    and "distinct (concat (map pyth_feeds reqs)) \<and> distinct (concat (map solend_reserves reqs))
      \<and> (\<forall>r \<in> set reqs. set (pyth_feeds r) \<inter> pyth_attempted (ensure_token ctx cache) = {}
           \<and> set (solend_reserves r) \<inter> solend_attempted (ensure_token ctx cache) = {})"
proof -
  have "vs = map (\<lambda>rule. evaluate_rule_against_batch (eval_base58 env) rule (batch_at W ctx UNIV UNIV) ctx) rules
    \<and> distinct (concat (map pyth_feeds reqs)) \<and> distinct (concat (map solend_reserves reqs))
      \<and> (\<forall>r \<in> set reqs. set (pyth_feeds r) \<inter> pyth_attempted (ensure_token ctx cache) = {}
           \<and> set (solend_reserves r) \<inter> solend_attempted (ensure_token ctx cache) = {})"
    using assms(1,4)
  proof (induction rules arbitrary: cache vs reqs cache')
    case (Cons rule rules)
    obtain v req c1 where one: "batched_evaluate env rule ctx cache = (v, req, c1)" by (metis prod_cases3)
    obtain vs' reqs' c2 where rest: "evaluate_all env ctx rules c1 = (vs', reqs', c2)" by (metis prod_cases3)
    note d = batched_evaluate_direct [OF Cons.prems(1) assms(2,3) one]
    let ?r = "missing_request (ensure_token ctx cache) rule"
    have same: "ensure_token ctx c1 = c1" using d(2) by (rule ensure_token_same)
    note IH = Cons.IH [OF filled_valid [OF d(2)] rest, unfolded same]
    note keys = missing_request_keys [of "ensure_token ctx cache" rule]
    have out: "vs = v # vs'" "reqs = (case req of None \<Rightarrow> reqs' | Some r \<Rightarrow> r # reqs')"
      using Cons.prems(2) by (simp_all add: one rest)
    have old: "\<forall>r \<in> set reqs'. set (pyth_feeds r) \<inter> pyth_attempted (ensure_token ctx cache) = {}
        \<and> set (solend_reserves r) \<inter> solend_attempted (ensure_token ctx cache) = {}"
      using IH d(3,4) by blast
    show ?case
    proof (cases "request_is_empty ?r")
      case True
      then have "reqs = reqs'" using out(2) d(5) by simp
      then show ?thesis using IH d(1) out(1) old by simp
    next
      case False
      then have reqs: "reqs = ?r # reqs'" using out(2) d(5) by simp
      have "\<forall>r \<in> set reqs'. set (pyth_feeds r) \<inter> set (pyth_feeds ?r) = {}
          \<and> set (solend_reserves r) \<inter> set (solend_reserves ?r) = {}"
        using IH d(3,4) keys(1,2) by blast
      then show ?thesis
        using IH d(1) out(1) old keys unfolding reqs by auto
    qed
  qed simp
  then show "vs = map (\<lambda>rule. evaluate_rule_against_batch (eval_base58 env) rule (batch_at W ctx UNIV UNIV) ctx) rules"
    "distinct (concat (map pyth_feeds reqs)) \<and> distinct (concat (map solend_reserves reqs))
      \<and> (\<forall>r \<in> set reqs. set (pyth_feeds r) \<inter> pyth_attempted (ensure_token ctx cache) = {}
           \<and> set (solend_reserves r) \<inter> solend_attempted (ensure_token ctx cache) = {})"
    by blast+
qed

text \<open>
  C18: the cache changes nothing but the traffic. With a provider that resolves the keys it is
  asked for, and concurrent evaluations of the same tick at most, the verdict of every rule of a
  tick is the verdict on what the provider would answer for all its keys, and over the whole tick
  no feed and no reserve is fetched twice.\<close>

theorem cached_evaluation_exact:
  assumes "cache_valid W cache" and "resolves W (fetch_batch env)" and "same_tick W ctx (cache_tasks env)"
    and "evaluate_all env ctx rules cache = (vs, reqs, cache')"
  shows "vs = map (\<lambda>rule. evaluate_rule_against_batch (eval_base58 env) rule (batch_at W ctx UNIV UNIV) ctx) rules
    \<and> distinct (concat (map pyth_feeds reqs)) \<and> distinct (concat (map solend_reserves reqs))"
  using evaluate_all_direct [OF assms] by blast

end
