(* ===== verification/Rule_Pipeline.thy ===== *)
theory Rule_Pipeline
  imports Rule_Watcher Evaluator_Cache
begin

text \<open>
  The watcher with the gateway's own evaluator behind it, against the on-chain program: when a tick at some clock marks a
  rule of one to eight conditions as met, the program's condition gate at that clock accepts the proofs the batch yields.
  For a rule that asks for all conditions every proof is there; for a rule that asks for any of them this takes a proof
  for each condition and no condition in error.
\<close>

lemma met_condition_has_proof:
  "evaluate_one_condition b58 batch ctx c = CoTrue \<Longrightarrow> \<exists>pc. proof_condition batch c = Some pc"
  by (cases c) (auto simp: eval_solend_def outcome_of_def split: option.splits sum.splits if_splits bool.splits)

lemma met_rule_has_proofs:
  assumes "evaluate_rule_against_batch b58 rule batch ctx = Inr True" and "wr_condition_logic rule = All_logic"
  shows "\<exists>ps. map (proof_condition batch) (wr_conditions rule) = map Some ps"
proof -
  let ?ev = "evaluate_one_condition b58 batch ctx"
  have "CoFalse \<notin> ?ev ` set (wr_conditions rule) \<and> worst None (map ?ev (wr_conditions rule)) = None"
    using assms evaluate_rule_eq [of b58 rule batch ctx] by (simp split: if_splits option.splits)
  then have "?ev c = CoTrue" if "c \<in> set (wr_conditions rule)" for c
    using that by (cases "?ev c") (force simp: worst_None)+
  then have "\<forall>c \<in> set (wr_conditions rule). \<exists>pc. proof_condition batch c = Some pc"
    using met_condition_has_proof by blast
  then have "map (proof_condition batch) (wr_conditions rule)
      = map Some (map (\<lambda>c. the (proof_condition batch c)) (wr_conditions rule))" by auto
  then show ?thesis by blast
qed

text \<open>
  C16: what the watcher marks as met, the program accepts at the same clock. When the tick's evaluator is the gateway's
  own on a batch of snapshots, every rule reported as met is a loaded rule that was active and unexpired at the tick's
  slot. If it has one to eight conditions, the program's clock being the tick's: a rule that asks for all of them has a
  proof for each in the batch, and the program's condition gate accepts those proofs; for a rule that asks for any of
  them the gate accepts the proofs when the batch has one for every condition and no condition evaluates to an error.\<close>

theorem met_rule_passes_chain:
  assumes "list_pending_lifecycle_limit (wt_codec env) (wt_list_verdict env) (max_rules_per_tick (wt_config env))
      (sh_rules (wt_tasks env sh)) = Inr rules"
    and "watcher_tick env ctx (sh, st) = (rep, sh', st')"
    and "\<And>k rule. pe_evaluate (wt_rule env k) rule ctx = evaluate_rule_against_batch b58 rule batch ctx"
    and "ConditionMet rid \<in> set (per_rule rep)"
    and "slot clk = tc_current_slot ctx" and "unix_timestamp clk = tc_current_unix_timestamp ctx"
  shows "\<exists>s \<in> set rules. wr_rule_id (sw_rule s) = rid \<and> sw_status s = WsActive
    \<and> tc_current_slot ctx < wr_expires_at_slot (sw_rule s)
    \<and> (wr_conditions (sw_rule s) \<noteq> [] \<longrightarrow> length (wr_conditions (sw_rule s)) \<le> 8 \<longrightarrow>
        (wr_condition_logic (sw_rule s) = All_logic \<longrightarrow>
          (\<exists>ps. map (proof_condition batch) (wr_conditions (sw_rule s)) = map Some ps
            \<and> condition_gate clk \<lparr>condition_logic = All_logic, conditions = ps\<rparr> = Inr ()))
        \<and> (wr_condition_logic (sw_rule s) = Any_logic \<longrightarrow>
          (\<forall>ps. map (proof_condition batch) (wr_conditions (sw_rule s)) = map Some ps \<longrightarrow>
            (\<forall>c \<in> set (wr_conditions (sw_rule s)). \<forall>e. evaluate_one_condition b58 batch ctx c \<noteq> CoErr e) \<longrightarrow>
            condition_gate clk \<lparr>condition_logic = Any_logic, conditions = ps\<rparr> = Inr ())))"
proof -
  from watcher_tick_report [OF assms(1,2)] assms(4) obtain i where i: "i < length rules"
    "rid = wr_rule_id (sw_rule (rules ! i))"
    "triggered (wt_rule env i) (rules ! i) ctx (state_before (wt_rule env) ctx 0 rules (wt_tasks env sh) i)"
    using claim_holds.simps(5) by (metis Stage2RuleTickResult.sel(6))
  let ?s = "rules ! i"
  have met: "evaluate_rule_against_batch b58 (sw_rule ?s) batch ctx = Inr True" and due: "due ?s ctx"
    using i(3) assms(3) by (simp_all add: triggered_def attempted_def)
  have gate: "condition_gate clk \<lparr>condition_logic = wr_condition_logic (sw_rule ?s), conditions = ps\<rparr> = Inr ()"
    if "map (proof_condition batch) (wr_conditions (sw_rule ?s)) = map Some ps"
      and "wr_conditions (sw_rule ?s) \<noteq> []" and "length (wr_conditions (sw_rule ?s)) \<le> 8"
      and "wr_condition_logic (sw_rule ?s) = Any_logic \<Longrightarrow>
        \<forall>c \<in> set (wr_conditions (sw_rule ?s)). \<forall>e. evaluate_one_condition b58 batch ctx c \<noteq> CoErr e" for ps
  proof -
    have "length ps = length (wr_conditions (sw_rule ?s))" using that(1) by (metis length_map)
    then show ?thesis using evaluator_chain [OF assms(5,6) that(1), of b58] met that by auto
  qed
  have "\<exists>ps. map (proof_condition batch) (wr_conditions (sw_rule ?s)) = map Some ps"
    if "wr_condition_logic (sw_rule ?s) = All_logic"
    using met_rule_has_proofs [OF met that] .
  then show ?thesis using i due gate by (intro bexI [of _ ?s]) (auto simp: due_def)
qed

end
