(* ===== verification/Rule_Executor.thy ===== *)
theory Rule_Executor
  imports Rule_Watcher Live_Sender Solend_Cpi_Builder
begin

text \<open>
  \<open>Stage2Executor\<close> of \<open>crates/gateway/src/stage2_executor.rs\<close>: lease a rule whose condition is met, build the
  request from the rule and the pinned demo fixture, hand it to the injected execution client and
  write the outcome back. As in the watcher, other tasks may act before each database call.
\<close>

section \<open>Errors, requests and receipts\<close>

datatype Stage2ExecutionError =
    InvalidRequest string | SendFailed string | ConfirmationFailed string | ExecInternal string

fun execution_error_display :: "Stage2ExecutionError \<Rightarrow> string" where
  "execution_error_display (InvalidRequest m) = ''invalid request: '' @ m"
| "execution_error_display (SendFailed m) = ''send failed: '' @ m"
| "execution_error_display (ConfirmationFailed m) = ''confirmation failed: '' @ m"
| "execution_error_display (ExecInternal m) = ''client internal: '' @ m"

fun action_type_debug :: "WatchRuleActionType \<Rightarrow> string" where
  "action_type_debug WaSolendWithdrawAllDelegated = ''SolendWithdrawAllDelegated''"
| "action_type_debug WaJupiterBuySolWithUsdc = ''JupiterBuySolWithUsdc''"

datatype Stage2ExecutorError =
    XeLeaseLost string
  | XeUnsupportedActionType WatchRuleActionType
  | XeDemoFixtureMismatch string
  | XeInputHeadroomExhausted u64 u64
  | XeClient Stage2ExecutionError
  | XeInternal string

fun executor_error_display :: "Stage2ExecutorError \<Rightarrow> string" where
  "executor_error_display (XeLeaseLost rid) = ''lease lost for rule '' @ rid"
| "executor_error_display (XeUnsupportedActionType t) = ''unsupported action_type: '' @ action_type_debug t"
| "executor_error_display (XeDemoFixtureMismatch m) = ''rule does not match demo fixture: '' @ m"
| "executor_error_display (XeInputHeadroomExhausted used mx) =
     ''input headroom exhausted: used='' @ show_nat (unat used) @ '' max='' @ show_nat (unat mx)"
| "executor_error_display (XeClient e) = ''execution client error: '' @ execution_error_display e"
| "executor_error_display (XeInternal m) = ''internal: '' @ m"

record Stage2SolendExecutePayload =
  sp_target_obligation :: pubkey
  sp_reserve :: pubkey
  sp_lending_market :: pubkey
  sp_liquidity_mint :: pubkey
  sp_ctoken_mint :: pubkey
  sp_pyth_oracle :: pubkey
  sp_switchboard_oracle :: pubkey
  sp_extra_oracle :: "pubkey option"
  sp_withdraw_mode :: WithdrawMode

record Stage2ExecuteActionRequest =
  rq_rule_id :: "128 word"
  rq_canonical_rule_hash :: "256 word"
  rq_action_type :: WatchRuleActionType
  rq_action_type_byte :: u8
  rq_schema_version :: u8
  rq_input_amount_raw :: u64
  rq_execution_nonce :: u64
  rq_user :: pubkey
  rq_executor :: pubkey
  rq_delegated_wallet :: pubkey
  rq_destination :: pubkey
  rq_expires_at_slot :: u64
  rq_solend :: "Stage2SolendExecutePayload option"

record Stage2ExecutionReceipt =
  rc_rule_id :: "128 word"
  rc_execution_nonce :: u64
  rc_confirmation_slot :: u64
  rc_used_amount_raw :: u64
  rc_signature_sentinel :: string

definition validate_request_shape :: "Stage2ExecuteActionRequest \<Rightarrow> Stage2ExecutionError + unit" where
  "validate_request_shape req =
    (if rq_input_amount_raw req = 0 then Inl (InvalidRequest ''input_amount_raw must be > 0'')
     else if rq_execution_nonce req = 0 then
       Inl (InvalidRequest ''execution_nonce must be > 0 (Stage 2 nonces start at 1)'')
     else if rule_action_to_u8 (rq_action_type req) \<noteq> rq_action_type_byte req then
       Inl (InvalidRequest ''action_type / action_type_byte mismatch'')
     else case rq_action_type req of
       WaSolendWithdrawAllDelegated \<Rightarrow>
         if rq_solend req = None then Inl (InvalidRequest ''Solend action_type requires solend payload'') else Inr ()
     | WaJupiterBuySolWithUsdc \<Rightarrow>
         Inl (InvalidRequest ''W4-lite execution client does not handle Jupiter action_type''))"

section \<open>The mock client\<close>

datatype MockOutcome = MockSuccess u64 u64 string | MockFailure Stage2ExecutionError

record MockExecutionClient =
  mk_outcomes :: "MockOutcome list"
  mk_received :: "Stage2ExecuteActionRequest list"

definition mock_push_success :: "u64 \<Rightarrow> u64 \<Rightarrow> string \<Rightarrow> MockExecutionClient \<Rightarrow> MockExecutionClient" where
  "mock_push_success used sl sig c = c\<lparr>mk_outcomes := mk_outcomes c @ [MockSuccess used sl sig]\<rparr>"

definition mock_push_success_echo :: "string \<Rightarrow> MockExecutionClient \<Rightarrow> MockExecutionClient" where
  "mock_push_success_echo sig c = c\<lparr>mk_outcomes := mk_outcomes c @ [MockSuccess (- 1) 0 sig]\<rparr>"

definition mock_push_failure :: "Stage2ExecutionError \<Rightarrow> MockExecutionClient \<Rightarrow> MockExecutionClient" where
  "mock_push_failure e c = c\<lparr>mk_outcomes := mk_outcomes c @ [MockFailure e]\<rparr>"

definition mock_send_and_confirm ::
  "Stage2ExecuteActionRequest \<Rightarrow> MockExecutionClient \<Rightarrow>
   (Stage2ExecutionError + Stage2ExecutionReceipt) \<times> MockExecutionClient" where
  "mock_send_and_confirm req c =
    (case validate_request_shape req of
       Inl e \<Rightarrow> (Inl e, c)
     | Inr _ \<Rightarrow>
       (case mk_outcomes c of
          [] \<Rightarrow> (Inl (ExecInternal ''MockExecutionClient: no outcomes queued''), c)
        | out # rest \<Rightarrow>
          (case out of
             MockSuccess used sl sig \<Rightarrow>
               Inr \<lparr>rc_rule_id = rq_rule_id req, rc_execution_nonce = rq_execution_nonce req,
                 rc_confirmation_slot = sl,
                 rc_used_amount_raw = (if used = - 1 then rq_input_amount_raw req else used),
                 rc_signature_sentinel = sig\<rparr>
           | MockFailure e \<Rightarrow> Inl e,
           c\<lparr>mk_outcomes := rest, mk_received := mk_received c @ [req]\<rparr>)))"

section \<open>The demo fixture\<close>

definition DEMO_SWITCHBOARD_ORACLE_BS58 :: string where
  "DEMO_SWITCHBOARD_ORACLE_BS58 = ''nu11111111111111111111111111111111111111111''"

record DemoSolendExecutionFixture =
  fx_reserve :: pubkey
  fx_lending_market :: pubkey
  fx_liquidity_mint :: pubkey
  fx_ctoken_mint :: pubkey
  fx_pyth_oracle :: pubkey
  fx_switchboard_oracle :: pubkey
  fx_extra_oracle :: "pubkey option"

definition mainnet_beta_demo_usdc :: DemoSolendExecutionFixture where
  "mainnet_beta_demo_usdc = \<lparr>fx_reserve = pubkey_of DEMO_RESERVE_BS58,
     fx_lending_market = pubkey_of DEMO_LENDING_MARKET_BS58, fx_liquidity_mint = pubkey_of DEMO_LIQUIDITY_MINT_BS58,
     fx_ctoken_mint = pubkey_of DEMO_CTOKEN_MINT_BS58, fx_pyth_oracle = pubkey_of DEMO_PYTH_ORACLE_BS58,
     fx_switchboard_oracle = pubkey_of DEMO_SWITCHBOARD_ORACLE_BS58, fx_extra_oracle = None\<rparr>"

fun build_payload ::
  "(u8 list \<Rightarrow> string) \<Rightarrow> DemoSolendExecutionFixture \<Rightarrow> ActionSpec \<Rightarrow>
   Stage2ExecutorError + Stage2SolendExecutePayload" where
  "build_payload b58 fx (ActionSpec.SolendWithdrawAllDelegated obl rsv market _ mode) =
    (if rsv \<noteq> fx_reserve fx then
       Inl (XeDemoFixtureMismatch (''rule.reserve '' @ pubkey_to_base58 b58 rsv @ '' != demo.reserve ''
         @ pubkey_to_base58 b58 (fx_reserve fx)))
     else if market \<noteq> fx_lending_market fx then
       Inl (XeDemoFixtureMismatch (''rule.lending_market '' @ pubkey_to_base58 b58 market @ '' != demo.lending_market ''
         @ pubkey_to_base58 b58 (fx_lending_market fx)))
     else Inr \<lparr>sp_target_obligation = obl, sp_reserve = fx_reserve fx,
       sp_lending_market = fx_lending_market fx, sp_liquidity_mint = fx_liquidity_mint fx,
       sp_ctoken_mint = fx_ctoken_mint fx, sp_pyth_oracle = fx_pyth_oracle fx,
       sp_switchboard_oracle = fx_switchboard_oracle fx, sp_extra_oracle = fx_extra_oracle fx,
       sp_withdraw_mode = mode\<rparr>)"
| "build_payload b58 fx action = Inl (XeUnsupportedActionType (rule_action_type action))"

section \<open>Configuration, results and reports\<close>

record Stage2ExecutorConfig =
  xc_max_rules_per_tick :: u32
  xc_action_type_allowlist :: "WatchRuleActionType list"

definition default_executor_config :: Stage2ExecutorConfig where
  "default_executor_config = \<lparr>xc_max_rules_per_tick = 64,
     xc_action_type_allowlist = [WaSolendWithdrawAllDelegated]\<rparr>"

datatype Stage2ExecutorRuleResult =
    ErCompleted "128 word" u64 u64 u64 string
  | ErFailed "128 word" string
  | ErLeaseLost "128 word"
  | ErSkippedActionType "128 word" WatchRuleActionType
  | ErDemoFixtureMismatch "128 word" string
  | ErInternalError "128 word" string

record Stage2ExecutorTickReport =
  xr_rules_loaded :: nat
  xr_rules_processed :: nat
  xr_completed_count :: nat
  xr_failed_count :: nat
  xr_lease_lost_count :: nat
  xr_skipped_action_type_count :: nat
  xr_demo_mismatch_count :: nat
  xr_internal_error_count :: nat
  xr_per_rule :: "Stage2ExecutorRuleResult list"

definition empty_executor_report :: Stage2ExecutorTickReport where
  "empty_executor_report = \<lparr>xr_rules_loaded = 0, xr_rules_processed = 0, xr_completed_count = 0,
     xr_failed_count = 0, xr_lease_lost_count = 0, xr_skipped_action_type_count = 0,
     xr_demo_mismatch_count = 0, xr_internal_error_count = 0, xr_per_rule = []\<rparr>"

fun tally_result :: "Stage2ExecutorRuleResult \<Rightarrow> Stage2ExecutorTickReport \<Rightarrow> Stage2ExecutorTickReport" where
  "tally_result (ErCompleted _ _ _ _ _) rep = rep\<lparr>xr_completed_count := xr_completed_count rep + 1\<rparr>"
| "tally_result (ErFailed _ _) rep = rep\<lparr>xr_failed_count := xr_failed_count rep + 1\<rparr>"
| "tally_result (ErLeaseLost _) rep = rep\<lparr>xr_lease_lost_count := xr_lease_lost_count rep + 1\<rparr>"
| "tally_result (ErSkippedActionType _ _) rep =
     rep\<lparr>xr_skipped_action_type_count := xr_skipped_action_type_count rep + 1\<rparr>"
| "tally_result (ErDemoFixtureMismatch _ _) rep = rep\<lparr>xr_demo_mismatch_count := xr_demo_mismatch_count rep + 1\<rparr>"
| "tally_result (ErInternalError _ _) rep = rep\<lparr>xr_internal_error_count := xr_internal_error_count rep + 1\<rparr>"

section \<open>The executor\<close>

text \<open>
  What the processing of one rule meets: the configuration, verdict and clock of its two database
  calls, the other tasks before each, the answer of the execution client, and the printing of
  database errors and keys. The set in flight is the executor's own.
\<close>

record executor_env =
  xe_config :: Stage2ExecutorConfig
  xe_fixture :: DemoSolendExecutionFixture
  xe_verdict :: "nat \<Rightarrow> verdict"
  xe_now :: "nat \<Rightarrow> i64"
  xe_tasks :: "nat \<Rightarrow> shared \<Rightarrow> shared"
  xe_send :: "Stage2ExecuteActionRequest \<Rightarrow> Stage2ExecutionError + Stage2ExecutionReceipt"
  xe_show :: "StoreError \<Rightarrow> string"
  xe_base58 :: "u8 list \<Rightarrow> string"

definition executor_call ::
  "executor_env \<Rightarrow> nat \<Rightarrow> (verdict \<Rightarrow> i64 \<Rightarrow> rule_db \<Rightarrow> rule_cas) \<Rightarrow> shared \<Rightarrow> (StoreError + nat) \<times> shared" where
  "executor_call env i call sh =
    (let sh1 = xe_tasks env i sh;
         (n, db) = call (xe_verdict env i) (xe_now env i) (sh_rules sh1)
     in (n, sh1\<lparr>sh_rules := db\<rparr>))"

definition build_execute_action_request ::
  "executor_env \<Rightarrow> StoredWatchRule \<Rightarrow> u64 \<Rightarrow> Stage2ExecutorError + Stage2ExecuteActionRequest" where
  "build_execute_action_request env stored nonce =
    (let rule = sw_rule stored; atype = rule_action_type (wr_action rule);
         mx = wr_max_input_amount_raw rule; used = wr_used_amount_raw rule
     in if atype \<notin> set (xc_action_type_allowlist (xe_config env)) then Inl (XeUnsupportedActionType atype)
     else if mx \<le> used then Inl (XeInputHeadroomExhausted used mx)
     else bindE (case wr_action rule of
         ActionSpec.SolendWithdrawAllDelegated _ _ _ _ _ \<Rightarrow>
           bindE (build_payload (xe_base58 env) (xe_fixture env) (wr_action rule)) (\<lambda>p. Inr (Some p))
       | ActionSpec.JupiterBuySolWithUsdc _ _ _ _ _ _ _ \<Rightarrow> Inr None) (\<lambda>solend.
     Inr \<lparr>rq_rule_id = wr_rule_id rule, rq_canonical_rule_hash = sw_canonical_rule_hash stored,
       rq_action_type = atype, rq_action_type_byte = rule_action_to_u8 atype,
       rq_schema_version = STAGE2_WATCH_RULE_SCHEMA_VERSION, rq_input_amount_raw = mx - used,
       rq_execution_nonce = nonce, rq_user = wr_user rule, rq_executor = wr_executor rule,
       rq_delegated_wallet = wr_delegated_wallet rule, rq_destination = wr_destination rule,
       rq_expires_at_slot = wr_expires_at_slot rule, rq_solend = solend\<rparr>))"

definition mark_failed_best_effort :: "executor_env \<Rightarrow> 128 word \<Rightarrow> string \<Rightarrow> shared \<Rightarrow> shared" where
  "mark_failed_best_effort env rid detail sh =
     snd (executor_call env 1 (\<lambda>v now. rule_mark_failed v now rid detail) sh)"

text \<open>A result with the request that was handed to the client, if any.\<close>

type_synonym executed = "Stage2ExecutorRuleResult \<times> Stage2ExecuteActionRequest option \<times> shared"

text \<open>Steps 5 and 6: dispatch and terminal write-back.\<close>

definition executor_dispatch :: "executor_env \<Rightarrow> 128 word \<Rightarrow> Stage2ExecuteActionRequest \<Rightarrow> shared \<Rightarrow> executed" where
  "executor_dispatch env rid req sh =
    (case xe_send env req of
       Inr rc \<Rightarrow>
        (let (n, sh1) = executor_call env 1
           (\<lambda>v now. mark_completed v now rid (rc_used_amount_raw rc) (rc_confirmation_slot rc)) sh
         in (case n of
               Inl e \<Rightarrow> ErInternalError rid (''mark_completed: '' @ xe_show env e)
             | Inr _ \<Rightarrow> ErCompleted rid (rc_execution_nonce rc) (rc_used_amount_raw rc)
                 (rc_confirmation_slot rc) (rc_signature_sentinel rc), Some req, sh1))
     | Inl e \<Rightarrow>
         (ErFailed rid (execution_error_display e), Some req,
          mark_failed_best_effort env rid (execution_error_display e) sh))"

text \<open>Step 4: the rule is leased, so an error here is written back as a failure.\<close>

definition executor_leased :: "executor_env \<Rightarrow> StoredWatchRule \<Rightarrow> u64 \<Rightarrow> shared \<Rightarrow> executed" where
  "executor_leased env stored nonce sh =
    (let rid = wr_rule_id (sw_rule stored) in
     case build_execute_action_request env stored nonce of
       Inr req \<Rightarrow> executor_dispatch env rid req sh
     | Inl (XeDemoFixtureMismatch detail) \<Rightarrow>
         (ErDemoFixtureMismatch rid detail, None, mark_failed_best_effort env rid detail sh)
     | Inl (XeUnsupportedActionType t) \<Rightarrow>
         (ErSkippedActionType rid t, None,
          mark_failed_best_effort env rid (''unsupported action_type: '' @ action_type_debug t) sh)
     | Inl e \<Rightarrow>
         (ErFailed rid (executor_error_display e), None,
          mark_failed_best_effort env rid (executor_error_display e) sh))"

definition executor_process_rule :: "executor_env \<Rightarrow> StoredWatchRule \<Rightarrow> shared \<Rightarrow> executed" where
  "executor_process_rule env stored sh =
    (let rid = wr_rule_id (sw_rule stored); atype = rule_action_type (wr_action (sw_rule stored)) in
     if atype \<notin> set (xc_action_type_allowlist (xe_config env)) then (ErSkippedActionType rid atype, None, sh)
     else if rid \<in> sh_in_flight sh then (ErLeaseLost rid, None, sh)
     else let
       nonce = saturating_add (sw_execution_nonce stored) 1;
       (n, sh1) = executor_call env 0 (\<lambda>v now. mark_executing_if_condition_met v now rid nonce)
         (sh\<lparr>sh_in_flight := insert rid (sh_in_flight sh)\<rparr>);
       (res, sent, sh2) =
         (case n of
            Inl e \<Rightarrow> (ErInternalError rid (''mark_executing_if_condition_met: '' @ xe_show env e), None, sh1)
          | Inr k \<Rightarrow> if k = 0 then (ErLeaseLost rid, None, sh1) else executor_leased env stored nonce sh1)
     in (res, sent, sh2\<lparr>sh_in_flight := sh_in_flight sh2 - {rid}\<rparr>))"

fun executor_rules ::
  "(nat \<Rightarrow> executor_env) \<Rightarrow> nat \<Rightarrow> StoredWatchRule list \<Rightarrow>
   Stage2ExecutorTickReport \<times> Stage2ExecuteActionRequest list \<times> shared \<Rightarrow>
   Stage2ExecutorTickReport \<times> Stage2ExecuteActionRequest list \<times> shared" where
  "executor_rules env k [] p = p"
| "executor_rules env k (s # ss) (rep, sent, sh) =
    (let (res, req, sh1) = executor_process_rule (env k) s sh;
         rep1 = tally_result res rep;
         rep2 = rep1\<lparr>xr_per_rule := xr_per_rule rep1 @ [res]\<rparr>;
         rep3 = rep2\<lparr>xr_rules_processed := xr_rules_processed rep2 + 1\<rparr>
     in executor_rules env (Suc k) ss (rep3, sent @ (case req of None \<Rightarrow> [] | Some r \<Rightarrow> [r]), sh1))"

record executor_pass_env =
  xp_config :: Stage2ExecutorConfig
  xp_codec :: rule_codec
  xp_verdict :: verdict
  xp_tasks :: "shared \<Rightarrow> shared"
  xp_rule :: "nat \<Rightarrow> executor_env"
  xp_show :: "StoreError \<Rightarrow> string"

definition execute_ready_rules_once ::
  "executor_pass_env \<Rightarrow> shared \<Rightarrow> Stage2ExecutorTickReport \<times> Stage2ExecuteActionRequest list \<times> shared" where
  "execute_ready_rules_once env sh =
    (let sh1 = xp_tasks env sh in
     case list_pending_lifecycle_limit (xp_codec env) (xp_verdict env) (xc_max_rules_per_tick (xp_config env))
         (sh_rules sh1) of
       Inl e \<Rightarrow> (empty_executor_report\<lparr>xr_internal_error_count := 1,
           xr_per_rule := [ErInternalError 0 (''list_pending_lifecycle_limit: '' @ xp_show env e)]\<rparr>, [], sh1)
     | Inr rules \<Rightarrow>
        (let ready = filter (\<lambda>r. sw_status r = WsConditionMet) rules
         in executor_rules (xp_rule env) 0 ready (empty_executor_report\<lparr>xr_rules_loaded := length ready\<rparr>, [], sh1)))"

definition execute_rule_once :: "executor_pass_env \<Rightarrow> 128 word \<Rightarrow> shared \<Rightarrow> executed" where
  "execute_rule_once env rid sh =
    (let sh1 = xp_tasks env sh in
     case get_rule (xp_codec env) (xp_verdict env) rid (sh_rules sh1) of
       Inl e \<Rightarrow> (ErInternalError rid (''repo.get: '' @ xp_show env e), None, sh1)
     | Inr None \<Rightarrow> (ErInternalError rid ''rule not found'', None, sh1)
     | Inr (Some stored) \<Rightarrow>
         if sw_status stored \<noteq> WsConditionMet then (ErLeaseLost rid, None, sh1)
         else executor_process_rule (xp_rule env 0) stored sh1)"

section \<open>What a dispatch rests on\<close>

lemma saturating_add_pos: "saturating_add a 1 \<noteq> (0 :: u64)"
proof (cases "checked_add a 1")
  case (Some c)
  then have "unat c = unat a + 1" by (simp add: checked_add_Some)
  then have "c \<noteq> 0" by (metis Suc_eq_plus1 nat.simps(3) unat_eq_0)
  then show ?thesis using Some by (simp add: saturating_add_def)
qed (simp add: saturating_add_def)

lemma executor_call_table:
  assumes "executor_call env i call sh = (n, sh')"
  shows "n = fst (call (xe_verdict env i) (xe_now env i) (sh_rules (xe_tasks env i sh)))"
    and "sh_rules sh' = snd (call (xe_verdict env i) (xe_now env i) (sh_rules (xe_tasks env i sh)))"
  using assms by (auto simp: executor_call_def Let_def split: prod.splits)

lemma executor_dispatch_sent: "executor_dispatch env rid req sh = (res, sent, sh') \<Longrightarrow> sent = Some req"
  by (auto simp: executor_dispatch_def Let_def split: sum.splits prod.splits)

lemma executor_leased_sent:
  "executor_leased env stored nonce sh = (res, Some req, sh') \<Longrightarrow>
   build_execute_action_request env stored nonce = Inr req"
  by (cases "build_execute_action_request env stored nonce")
    (auto simp: executor_leased_def Let_def dest: executor_dispatch_sent split: Stage2ExecutorError.splits)

text \<open>The lease of a rule, as the processing asks for it.\<close>

definition executor_lease :: "executor_env \<Rightarrow> StoredWatchRule \<Rightarrow> shared \<Rightarrow> rule_cas" where
  "executor_lease env s sh =
    (let rid = wr_rule_id (sw_rule s) in
     mark_executing_if_condition_met (xe_verdict env 0) (xe_now env 0) rid (saturating_add (sw_execution_nonce s) 1)
       (sh_rules (xe_tasks env 0 (sh\<lparr>sh_in_flight := insert rid (sh_in_flight sh)\<rparr>))))"

lemma executor_process_rule_cases:
  assumes "executor_process_rule env s sh = (res, sent, sh')"
  obtains (skipped) "sent = None" "sh' = sh"
  | (failed) e where "fst (executor_lease env s sh) = Inl e" "sent = None" "sh_rules sh' = snd (executor_lease env s sh)"
  | (lost) "fst (executor_lease env s sh) = Inr 0" "sent = None" "sh_rules sh' = snd (executor_lease env s sh)"
  | (leased) k sh1 sh2 where "fst (executor_lease env s sh) = Inr k" "k \<noteq> 0"
      "sh_rules sh1 = snd (executor_lease env s sh)"
      "rule_action_type (wr_action (sw_rule s)) \<in> set (xc_action_type_allowlist (xe_config env))"
      "executor_leased env s (saturating_add (sw_execution_nonce s) 1) sh1 = (res, sent, sh2)"
      "sh_rules sh' = sh_rules sh2"
proof -
  let ?rid = "wr_rule_id (sw_rule s)" and ?nonce = "saturating_add (sw_execution_nonce s) 1"
  obtain n sh1 where call: "executor_call env 0 (\<lambda>v now. mark_executing_if_condition_met v now ?rid ?nonce)
      (sh\<lparr>sh_in_flight := insert ?rid (sh_in_flight sh)\<rparr>) = (n, sh1)" by force
  have lease: "fst (executor_lease env s sh) = n" "snd (executor_lease env s sh) = sh_rules sh1"
    using executor_call_table [OF call] by (simp_all add: executor_lease_def Let_def)
  obtain r2 s2 sh2 where body: "executor_leased env s ?nonce sh1 = (r2, s2, sh2)" by (metis surj_pair)
  show thesis
  proof (cases "rule_action_type (wr_action (sw_rule s)) \<in> set (xc_action_type_allowlist (xe_config env))
      \<and> ?rid \<notin> sh_in_flight sh")
    case True
    consider (Inl) e where "n = Inl e" | (zero) "n = Inr 0" | (won) k where "n = Inr k" "k \<noteq> 0"
      by (cases n) auto
    then show thesis
    proof cases
      case Inl
      then show thesis using failed assms True lease
        by (auto simp: executor_process_rule_def Let_def call)
    next
      case zero
      then show thesis using lost assms True lease by (auto simp: executor_process_rule_def Let_def call)
    next
      case won
      then show thesis using leased [of k sh1 sh2] assms True lease body
        by (auto simp: executor_process_rule_def Let_def call)
    qed
  qed (use assms skipped in \<open>auto simp: executor_process_rule_def Let_def split: if_splits\<close>)
qed

definition fair_executor :: "rule_codec \<Rightarrow> executor_env \<Rightarrow> bool" where
  "fair_executor cdc env \<longleftrightarrow> (\<forall>i sh. (rule_step cdc)\<^sup>*\<^sup>* (sh_rules sh) (sh_rules (xe_tasks env i sh)))"

lemma executor_call_run:
  assumes "fair_executor cdc env" and "\<And>v now db. rule_step cdc db (snd (call v now db))"
    and "executor_call env i call sh = (n, sh')"
  shows "(rule_step cdc)\<^sup>*\<^sup>* (sh_rules sh) (sh_rules sh')"
proof -
  have "(rule_step cdc)\<^sup>*\<^sup>* (sh_rules sh) (sh_rules (xe_tasks env i sh))"
    using assms(1) by (simp add: fair_executor_def)
  then show ?thesis using executor_call_table(2) [OF assms(3)] assms(2) by (metis rtranclp.rtrancl_into_rtrancl)
qed

lemma mark_failed_best_effort_run:
  assumes "fair_executor cdc env"
  shows "(rule_step cdc)\<^sup>*\<^sup>* (sh_rules sh) (sh_rules (mark_failed_best_effort env rid m sh))"
proof -
  obtain n sh1 where "executor_call env 1 (\<lambda>v now. rule_mark_failed v now rid m) sh = (n, sh1)" by force
  from executor_call_run [OF assms _ this] show ?thesis
    using \<open>executor_call _ _ _ _ = _\<close> by (auto simp: mark_failed_best_effort_def intro: rs_fail)
qed

lemma executor_leased_run:
  assumes "fair_executor cdc env" and "executor_leased env s nonce sh = (res, sent, sh')"
  shows "(rule_step cdc)\<^sup>*\<^sup>* (sh_rules sh) (sh_rules sh')"
proof -
  have complete: "(rule_step cdc)\<^sup>*\<^sup>* (sh_rules sh) (sh_rules sh1)"
    if "executor_call env 1 (\<lambda>v now. mark_completed v now rid used sl) sh = (n, sh1)" for rid used sl n sh1
    using executor_call_run [OF assms(1) _ that] by (blast intro: rs_complete)
  have "(rule_step cdc)\<^sup>*\<^sup>* (sh_rules sh) (sh_rules sh')"
    if "executor_dispatch env rid req sh = (res, sent, sh')" for rid req
    using that complete mark_failed_best_effort_run [OF assms(1)]
    by (auto simp: executor_dispatch_def Let_def split: sum.splits prod.splits)
  then show ?thesis
    using assms(2) mark_failed_best_effort_run [OF assms(1)]
    by (auto simp: executor_leased_def Let_def split: sum.splits Stage2ExecutorError.splits)
qed

lemma executor_lease_run:
  assumes "fair_executor cdc env"
  shows "(rule_step cdc)\<^sup>*\<^sup>* (sh_rules sh) (snd (executor_lease env s sh))"
proof -
  let ?sh = "sh\<lparr>sh_in_flight := insert (wr_rule_id (sw_rule s)) (sh_in_flight sh)\<rparr>"
  have "(rule_step cdc)\<^sup>*\<^sup>* (sh_rules ?sh) (sh_rules (xe_tasks env 0 ?sh))"
    using assms unfolding fair_executor_def by blast
  then show ?thesis by (simp add: executor_lease_def Let_def) (blast intro: rs_lease rtranclp.rtrancl_into_rtrancl)
qed

lemma executor_process_rule_run:
  assumes "fair_executor cdc env" and "executor_process_rule env s sh = (res, sent, sh')"
  shows "(rule_step cdc)\<^sup>*\<^sup>* (sh_rules sh) (sh_rules sh')"
  using assms(2)
proof (cases rule: executor_process_rule_cases)
  case (leased k sh1 sh2)
  have "(rule_step cdc)\<^sup>*\<^sup>* (sh_rules sh1) (sh_rules sh2)" by (rule executor_leased_run [OF assms(1) leased(5)])
  then show ?thesis using executor_lease_run [OF assms(1), of sh s] leased by simp
qed (simp_all add: executor_lease_run [OF assms(1)])

lemma executor_dispatched:
  assumes "executor_process_rule env s sh = (res, Some req, sh')"
  obtains k where "fst (executor_lease env s sh) = Inr k" "k \<noteq> 0"
    "build_execute_action_request env s (saturating_add (sw_execution_nonce s) 1) = Inr req"
  using assms by (cases rule: executor_process_rule_cases) (auto dest: executor_leased_sent)

lemma executor_lease_at:
  assumes "fair_executor cdc env"
  obtains db where "(rule_step cdc)\<^sup>*\<^sup>* (sh_rules sh) db"
    and "executor_lease env s sh = mark_executing_if_condition_met (xe_verdict env 0) (xe_now env 0)
        (wr_rule_id (sw_rule s)) (saturating_add (sw_execution_nonce s) 1) db"
proof -
  let ?sh = "sh\<lparr>sh_in_flight := insert (wr_rule_id (sw_rule s)) (sh_in_flight sh)\<rparr>"
  have "(rule_step cdc)\<^sup>*\<^sup>* (sh_rules ?sh) (sh_rules (xe_tasks env 0 ?sh))"
    using assms unfolding fair_executor_def by blast
  then show thesis using that by (simp add: executor_lease_def Let_def)
qed

lemma executor_lease_won:
  assumes "fair_executor cdc env" and "keyed rr_rule_id (sh_rules sh)"
    and "fst (executor_lease env s sh) = Inr k" and "k \<noteq> 0"
  shows "fst (executor_lease env s sh) = Inr 1"
proof -
  obtain db where db: "(rule_step cdc)\<^sup>*\<^sup>* (sh_rules sh) db"
    "executor_lease env s sh = mark_executing_if_condition_met (xe_verdict env 0) (xe_now env 0)
        (wr_rule_id (sw_rule s)) (saturating_add (sw_execution_nonce s) 1) db"
    by (rule executor_lease_at [OF assms(1)])
  have "keyed rr_rule_id db" using rule_run.steps_le [OF db(1)] assms(2) unfolding leased_le_def by blast
  then have "k \<le> 1"
    using rule_lease.cas_at_most_one assms(3) unfolding db(2) mark_executing_if_condition_met_def by blast
  then show ?thesis using assms(3,4) by (metis One_nat_def le_Suc_eq le_zero_eq)
qed

section \<open>Properties\<close>

text \<open>
  C15: what is dispatched. Whatever other tasks do, a request reaches the execution client only after
  this call won the execution lease of the rule. The request carries the rule's id, hash and parties, asks for
  exactly the rule's remaining headroom (positive and within the cap), has a positive nonce, and, with the
  default configuration, passes the client's shape validation and names exactly the accounts that the on-chain
  program's demo oracle allowlist accepts.\<close>

theorem dispatched_request_exact:
  assumes "executor_process_rule env s sh = (res, Some req, sh')"
    and "xe_config env = default_executor_config" and "xe_fixture env = mainnet_beta_demo_usdc"
  shows "(\<exists>k. fst (executor_lease env s sh) = Inr k \<and> k \<noteq> 0)
    \<and> rq_rule_id req = wr_rule_id (sw_rule s) \<and> rq_canonical_rule_hash req = sw_canonical_rule_hash s
    \<and> rq_user req = wr_user (sw_rule s) \<and> rq_delegated_wallet req = wr_delegated_wallet (sw_rule s)
    \<and> rq_destination req = wr_destination (sw_rule s)
    \<and> unat (rq_input_amount_raw req) + unat (wr_used_amount_raw (sw_rule s)) = unat (wr_max_input_amount_raw (sw_rule s))
    \<and> 0 < rq_input_amount_raw req \<and> 0 < rq_execution_nonce req
    \<and> validate_request_shape req = Inr ()
    \<and> (\<exists>p dest. rq_solend req = Some p
        \<and> wr_action (sw_rule s) = ActionSpec.SolendWithdrawAllDelegated (sp_target_obligation p) (sp_reserve p)
            (sp_lending_market p) dest (sp_withdraw_mode p)
        \<and> select_oracle_mode_for_runtime_tuple (sp_reserve p) (sp_lending_market p) (sp_liquidity_mint p)
            (sp_ctoken_mint p) (sp_pyth_oracle p) (sp_switchboard_oracle p) (sp_extra_oracle p) = DemoPinnedAllowlist)"
proof -
  from executor_dispatched [OF assms(1)] obtain k where won: "fst (executor_lease env s sh) = Inr k" "k \<noteq> 0"
    and build: "build_execute_action_request env s (saturating_add (sw_execution_nonce s) 1) = Inr req" by blast
  have atype: "rule_action_type (wr_action (sw_rule s)) = WaSolendWithdrawAllDelegated"
    using build assms(2) by (auto simp: build_execute_action_request_def default_executor_config_def Let_def split: if_splits)
  then obtain obl rsv market dest mode
    where act: "wr_action (sw_rule s) = ActionSpec.SolendWithdrawAllDelegated obl rsv market dest mode"
    by (cases "wr_action (sw_rule s)") auto
  have room: "wr_used_amount_raw (sw_rule s) < wr_max_input_amount_raw (sw_rule s)"
    using build by (auto simp: build_execute_action_request_def Let_def split: if_splits)
  then have amount: "unat (wr_max_input_amount_raw (sw_rule s) - wr_used_amount_raw (sw_rule s))
      = unat (wr_max_input_amount_raw (sw_rule s)) - unat (wr_used_amount_raw (sw_rule s))"
    by (simp add: unat_sub)
  have nz: "wr_max_input_amount_raw (sw_rule s) \<noteq> wr_used_amount_raw (sw_rule s)" using room by auto
  have pins: "rsv = pubkey_of DEMO_RESERVE_BS58" "market = pubkey_of DEMO_LENDING_MARKET_BS58"
    using build act room by (auto simp: build_execute_action_request_def Let_def assms(3) mainnet_beta_demo_usdc_def
        split: if_splits)
  define p where "p = \<lparr>sp_target_obligation = obl, sp_reserve = rsv, sp_lending_market = market,
    sp_liquidity_mint = pubkey_of DEMO_LIQUIDITY_MINT_BS58, sp_ctoken_mint = pubkey_of DEMO_CTOKEN_MINT_BS58,
    sp_pyth_oracle = pubkey_of DEMO_PYTH_ORACLE_BS58, sp_switchboard_oracle = pubkey_of DEMO_SWITCHBOARD_ORACLE_BS58,
    sp_extra_oracle = None, sp_withdraw_mode = mode\<rparr>"
  have req: "req = \<lparr>rq_rule_id = wr_rule_id (sw_rule s), rq_canonical_rule_hash = sw_canonical_rule_hash s,
      rq_action_type = WaSolendWithdrawAllDelegated, rq_action_type_byte = 1,
      rq_schema_version = STAGE2_WATCH_RULE_SCHEMA_VERSION,
      rq_input_amount_raw = wr_max_input_amount_raw (sw_rule s) - wr_used_amount_raw (sw_rule s),
      rq_execution_nonce = saturating_add (sw_execution_nonce s) 1, rq_user = wr_user (sw_rule s),
      rq_executor = wr_executor (sw_rule s), rq_delegated_wallet = wr_delegated_wallet (sw_rule s),
      rq_destination = wr_destination (sw_rule s), rq_expires_at_slot = wr_expires_at_slot (sw_rule s),
      rq_solend = Some p\<rparr>"
    using build act room pins
    by (auto simp: build_execute_action_request_def Let_def assms(3) mainnet_beta_demo_usdc_def p_def
        split: if_splits)
  have mode: "select_oracle_mode_for_runtime_tuple (sp_reserve p) (sp_lending_market p) (sp_liquidity_mint p)
      (sp_ctoken_mint p) (sp_pyth_oracle p) (sp_switchboard_oracle p) (sp_extra_oracle p) = DemoPinnedAllowlist"
    by (simp add: p_def pins select_oracle_mode_for_runtime_tuple_def verify_demo_pinned_oracle_tuple_def
        MAINNET_BETA_DEMO_USDC_TUPLE_def DEMO_RESERVE_BS58_def DEMO_LENDING_MARKET_BS58_def
        DEMO_LIQUIDITY_MINT_BS58_def DEMO_CTOKEN_MINT_BS58_def DEMO_PYTH_ORACLE_BS58_def DEMO_SWITCHBOARD_ORACLE_BS58_def)
  have shape: "validate_request_shape req = Inr ()"
    using nz saturating_add_pos [of "sw_execution_nonce s"] by (simp add: validate_request_shape_def req)
  have "\<exists>q dest. rq_solend req = Some q
      \<and> wr_action (sw_rule s) = ActionSpec.SolendWithdrawAllDelegated (sp_target_obligation q) (sp_reserve q)
          (sp_lending_market q) dest (sp_withdraw_mode q)
      \<and> select_oracle_mode_for_runtime_tuple (sp_reserve q) (sp_lending_market q) (sp_liquidity_mint q)
          (sp_ctoken_mint q) (sp_pyth_oracle q) (sp_switchboard_oracle q) (sp_extra_oracle q) = DemoPinnedAllowlist"
    using mode by (intro exI [of _ p] exI [of _ dest]) (simp add: req act p_def)
  moreover have "0 < rq_input_amount_raw req" "0 < rq_execution_nonce req"
    using nz saturating_add_pos [of "sw_execution_nonce s"] by (simp_all add: req word_gt_0)
  moreover have "unat (rq_input_amount_raw req) + unat (wr_used_amount_raw (sw_rule s)) = unat (wr_max_input_amount_raw (sw_rule s))"
    using amount room by (simp add: req word_less_nat_alt)
  ultimately show ?thesis using won shape by (simp add: req)
qed

text \<open>
  C14: no rule is dispatched twice. After a call that dispatched a rule, and any further calls of the running system,
  no executor dispatches that rule again, whatever snapshot of the rule it holds and whatever its in-flight set is
  (it may be another process), provided the other tasks act through the repository.\<close>

theorem rule_dispatched_once:
  assumes "keyed rr_rule_id (sh_rules sh)" and "fair_executor cdc env" and "fair_executor cdc env'"
    and "executor_process_rule env s sh = (res, Some req, sh1)"
    and "(rule_step cdc)\<^sup>*\<^sup>* (sh_rules sh1) (sh_rules sh2)"
    and "wr_rule_id (sw_rule s') = wr_rule_id (sw_rule s)"
    and "executor_process_rule env' s' sh2 = (res', sent', sh3)"
  shows "sent' = None"
proof (rule ccontr)
  assume "sent' \<noteq> None"
  then obtain req' where again: "executor_process_rule env' s' sh2 = (res', Some req', sh3)"
    using assms(7) by auto
  from assms(4) obtain k sh4 sh5 where first: "fst (executor_lease env s sh) = Inr k" "k \<noteq> 0"
    "sh_rules sh4 = snd (executor_lease env s sh)"
    "executor_leased env s (saturating_add (sw_execution_nonce s) 1) sh4 = (res, Some req, sh5)"
    "sh_rules sh1 = sh_rules sh5"
    by (cases rule: executor_process_rule_cases) auto
  from again obtain k' where second: "fst (executor_lease env' s' sh2) = Inr k'" "k' \<noteq> 0"
    by (blast elim: executor_dispatched)
  have won: "fst (executor_lease env s sh) = Inr 1"
    using executor_lease_won [OF assms(2) assms(1)] first by blast
  have to1: "(rule_step cdc)\<^sup>*\<^sup>* (snd (executor_lease env s sh)) (sh_rules sh1)"
    using executor_leased_run [OF assms(2) first(4)] first by simp
  have all: "(rule_step cdc)\<^sup>*\<^sup>* (sh_rules sh) (sh_rules sh2)"
    using executor_lease_run [OF assms(2), of sh s] to1 assms(5) by simp
  then have "keyed rr_rule_id (sh_rules sh2)"
    using rule_run.steps_le assms(1) unfolding leased_le_def by blast
  then have won': "fst (executor_lease env' s' sh2) = Inr 1"
    using executor_lease_won [OF assms(3)] second by blast
  obtain db where db: "(rule_step cdc)\<^sup>*\<^sup>* (sh_rules sh2) db"
    "executor_lease env' s' sh2 = mark_executing_if_condition_met (xe_verdict env' 0) (xe_now env' 0)
        (wr_rule_id (sw_rule s')) (saturating_add (sw_execution_nonce s') 1) db"
    by (rule executor_lease_at [OF assms(3)])
  have steps: "(rule_step cdc)\<^sup>*\<^sup>* (snd (executor_lease env s sh)) db"
    using to1 assms(5) db(1) by simp
  obtain db0 where db0: "(rule_step cdc)\<^sup>*\<^sup>* (sh_rules sh) db0"
    "executor_lease env s sh = mark_executing_if_condition_met (xe_verdict env 0) (xe_now env 0)
        (wr_rule_id (sw_rule s)) (saturating_add (sw_execution_nonce s) 1) db0"
    by (rule executor_lease_at [OF assms(2)])
  have "keyed rr_rule_id db0" using rule_run.steps_le [OF db0(1)] assms(1) unfolding leased_le_def by blast
  from rule_lease_once [OF this won [unfolded db0(2)] steps [unfolded db0(2)]] db(2) won' assms(6) show False by simp
qed

lemma rule_update_rows:
  assumes "executor_call env i (\<lambda>v now. sql_update v (id_where rid) (upd now)) sh = (n, sh')"
    and "xe_verdict env i = None" and "\<And>now r. rr_rule_id (upd now r) = rr_rule_id r"
    and "r \<in> set (sh_rules sh')" and "rr_rule_id r = Watch_Rule_Store.rule_id_hex rid"
  shows "\<exists>r0. r = upd (xe_now env i) r0"
  using assms executor_call_table(2) [OF assms(1)] by (auto simp: sql_update_table id_where_def)

text \<open>
  The outcome of a dispatch is recorded. When the write-back reaches the database, then whatever other tasks did to
  the row while the client was sending, the row of a dispatched rule ends completed, with the amount and slot of
  the client's receipt, or failed with the client's error, and the result reported is that outcome.\<close>

theorem dispatch_outcome_recorded:
  assumes "executor_process_rule env s sh = (res, Some req, sh')" and "xe_verdict env 1 = None"
    and "r \<in> set (sh_rules sh')" and "rr_rule_id r = Watch_Rule_Store.rule_id_hex (wr_rule_id (sw_rule s))"
  shows "case xe_send env req of
      Inr rc \<Rightarrow> rr_status r = rule_status_as_str WsCompleted \<and> rr_completed r = 1
        \<and> rr_used_amount_raw r = rc_used_amount_raw rc \<and> rr_last_checked_slot r = Some (rc_confirmation_slot rc)
        \<and> res = ErCompleted (wr_rule_id (sw_rule s)) (rc_execution_nonce rc) (rc_used_amount_raw rc)
            (rc_confirmation_slot rc) (rc_signature_sentinel rc)
    | Inl e \<Rightarrow> rr_status r = rule_status_as_str WsFailed \<and> rr_last_error r = Some (execution_error_display e)
        \<and> res = ErFailed (wr_rule_id (sw_rule s)) (execution_error_display e)"
proof -
  let ?rid = "wr_rule_id (sw_rule s)"
  from assms(1) obtain sh1 sh2 where leased:
    "executor_leased env s (saturating_add (sw_execution_nonce s) 1) sh1 = (res, Some req, sh2)"
    "sh_rules sh' = sh_rules sh2"
    by (cases rule: executor_process_rule_cases) auto
  then have run: "executor_dispatch env ?rid req sh1 = (res, Some req, sh2)"
    using executor_leased_sent [OF leased(1)] by (simp add: executor_leased_def Let_def)
  show ?thesis
  proof (cases "xe_send env req")
    case (Inr rc)
    obtain n sh3 where call: "executor_call env 1 (\<lambda>v now. sql_update v (id_where ?rid)
        (rule_completed_set now (rc_used_amount_raw rc) (rc_confirmation_slot rc))) sh1 = (n, sh3)" by force
    have "sh3 = sh2" using run call Inr by (simp add: executor_dispatch_def mark_completed_def Let_def)
    moreover have "\<exists>k. n = Inr k" using executor_call_table(1) [OF call] assms(2) by (simp add: sql_update_def)
    ultimately show ?thesis
      using rule_update_rows [OF call assms(2), of r] run call Inr assms(3,4) leased(2)
      by (auto simp: executor_dispatch_def mark_completed_def Let_def rule_sets)
  next
    case (Inl e)
    obtain n sh3 where call: "executor_call env 1 (\<lambda>v now. sql_update v (id_where ?rid)
        (rule_failed_set now (execution_error_display e))) sh1 = (n, sh3)" by force
    have "sh3 = sh2"
      using run call Inl by (simp add: executor_dispatch_def mark_failed_best_effort_def rule_mark_failed_def)
    then show ?thesis
      using rule_update_rows [OF call assms(2), of r] run Inl assms(3,4) leased(2)
      by (auto simp: executor_dispatch_def rule_sets)
  qed
qed

lemma collect_rows:
  "collectE f xs = Inr ys \<Longrightarrow> y \<in> set ys \<Longrightarrow> \<exists>x \<in> set xs. f x = Inr y"
  unfolding collectE_Inr by (induction xs ys rule: list_all2_induct) auto

text \<open>
  Waiting rules starve ready ones. The pass loads the oldest pending rows, up to its limit, and only then keeps those
  whose condition is met. When the oldest rows up to the limit are all still waiting for their condition, a pass
  dispatches nothing and changes nothing, however many rules behind them are ready.\<close>

theorem executor_starved:
  assumes "\<forall>r \<in> set (take (unat (xc_max_rules_per_tick (xp_config env)))
      (sort_key oldest_first (filter pending_where (sh_rules (xp_tasks env sh))))).
        rr_status r = rule_status_as_str WsActive"
  shows "\<exists>rep. execute_ready_rules_once env sh = (rep, [], xp_tasks env sh) \<and> xr_rules_processed rep = 0"
proof (cases "list_pending_lifecycle_limit (xp_codec env) (xp_verdict env) (xc_max_rules_per_tick (xp_config env))
    (sh_rules (xp_tasks env sh))")
  case (Inl e)
  then show ?thesis by (simp add: execute_ready_rules_once_def Let_def empty_executor_report_def)
next
  case (Inr rules)
  have "sw_status s \<noteq> WsConditionMet" if mem: "s \<in> set rules" for s
  proof -
    from Inr mem obtain r where "r \<in> set (take (unat (xc_max_rules_per_tick (xp_config env)))
        (sort_key oldest_first (filter pending_where (sh_rules (xp_tasks env sh)))))"
      "row_to_stored (xp_codec env) r = Inr s"
      by (auto simp: list_pending_lifecycle_limit_def sql_select_all_def split: if_splits option.splits
          dest!: collect_rows)
    then show ?thesis using assms row_to_stored_Inr(5) by fastforce
  qed
  then have "filter (\<lambda>r. sw_status r = WsConditionMet) rules = []" by (simp add: filter_empty_conv)
  then show ?thesis using Inr by (simp add: execute_ready_rules_once_def Let_def empty_executor_report_def)
qed

end
