(* ===== verification/Example_Rules.thy ===== *)
theory Example_Rules
  imports Rule_Pipeline Rule_Executor Example_Chain
begin

text \<open>
  One rule on its way through evaluator, watcher and executor: the theorems of the rule pipeline applied
  to a concrete rule, table and batch of snapshots.
\<close>

section \<open>The rule, its row and its batch\<close>

definition er_rule :: WatchRule where
  "er_rule = \<lparr>wr_schema_version = 1, wr_rule_id = 7, wr_user = 3, wr_executor = 4,
     wr_delegated_wallet = 5, wr_created_at_slot = 10, wr_expires_at_slot = 9000, wr_one_shot = True,
     wr_condition_logic = All_logic,
     wr_conditions = [PythPrice 7 1 Gt 15000 (- 2) 30 50 Full AdverseLowerForGt],
     wr_action = ActionSpec.SolendWithdrawAllDelegated 1 (pubkey_of DEMO_RESERVE_BS58)
       (pubkey_of DEMO_LENDING_MARKET_BS58) 6 WithdrawAllDelegatedPosition,
     wr_max_input_amount_raw = 1000, wr_used_amount_raw = 400, wr_destination = 6, wr_slippage_bps = 50\<rparr>"

definition er_codec :: rule_codec where
  "er_codec = \<lparr>sha256 = (\<lambda>_. 9), rule_to_json = (\<lambda>_. Inr ''J''), rule_from_json = (\<lambda>_. Inr er_rule),
     base58 = (\<lambda>_. ''P'')\<rparr>"

definition er_row :: "WatchRuleStatus \<Rightarrow> RuleRow" where
  "er_row st = (rule_row er_codec 1000 ''J'' er_rule)\<lparr>rr_status := rule_status_as_str st\<rparr>"

lemma er_row_cols:
  "rr_rule_id (er_row st) = Watch_Rule_Store.rule_id_hex 7" "rr_status (er_row st) = rule_status_as_str st"
  "rr_completed (er_row st) = 0" "rr_revoked (er_row st) = 0" "rr_created_at_ms (er_row st) = 1000"
  by (simp_all add: er_row_def rule_row_def er_rule_def)

lemma er_pending: "pending_where (er_row WsActive)" "pending_where (er_row WsConditionMet)"
  by (simp_all add: pending_where_def er_row_cols rule_status_as_str.simps rule_status_consts del: rule_status_lits)

lemma er_stored:
  "\<exists>s. row_to_stored er_codec (er_row st) = Inr s \<and> sw_rule s = er_rule \<and> sw_status s = st \<and> sw_execution_nonce s = 0"
proof -
  have "rule_status_parse (rule_status_as_str st) = Some st"
    by (cases st) (simp_all add: rule_status_parse_def)
  moreover have "parse_action_type (rule_action_label (rule_action_type (wr_action er_rule)))
      = Inr WaSolendWithdrawAllDelegated" by (simp add: er_rule_def parse_action_type_def)
  moreover have "parse_condition_logic (condition_logic_str (wr_condition_logic er_rule)) = Inr All_logic"
    by (simp add: er_rule_def parse_condition_logic_def)
  ultimately show ?thesis
    by (simp add: row_to_stored_def er_row_def rule_row_def er_codec_def array_of_array_bytes
        Watch_Rule_Store.rule_id_hex_def
        canonical_rule_hash_def)
qed

definition er_pyth :: "256 word \<rightharpoonup> Stage2SnapshotError + PythSnapshotValue" where
  "er_pyth = [7 \<mapsto> Inr example_pyth_snapshot]"

definition er_batch :: Stage2SnapshotBatch where
  "er_batch = \<lparr>batch_pyth = er_pyth, batch_solend = Map.empty\<rparr>"

definition er_ctx :: Stage2TickContext where
  "er_ctx = \<lparr>tc_current_slot = 100, tc_current_unix_timestamp = 1010, tc_now_ms = 1010000\<rparr>"

lemma er_clock: "slot example_clock = tc_current_slot er_ctx"
  "unix_timestamp example_clock = tc_current_unix_timestamp er_ctx"
  by (simp_all add: example_clock_def er_ctx_def)

lemma er_fires: "eval_pyth example_pyth_condition example_pyth_snapshot er_ctx = Inr True"
proof -
  have "value_of (eval_pyth example_pyth_condition example_pyth_snapshot er_ctx) = Some True"
    unfolding eval_pyth_value using example_pyth_fires by (simp add: er_ctx_def)
  then show ?thesis by (simp only: value_of_Some)
qed

lemma er_condition:
  "\<lparr>PythPriceCondition.feed_id = 7, comparison = Gt, threshold_mantissa = 15000, threshold_exponent = - 2,
     max_age_seconds = 30, max_confidence_bps = 50, verification_level_required = Full,
     bound_mode = AdverseLowerForGt\<rparr> = example_pyth_condition"
  by (simp add: example_pyth_condition_def)

lemma er_evaluates:
  assumes "batch_pyth batch 7 = Some (Inr example_pyth_snapshot)"
  shows "evaluate_rule_against_batch b58 er_rule batch er_ctx = Inr True"
  using er_fires assms
  by (simp add: evaluate_rule_against_batch_def er_rule_def er_condition outcome_of_def fold_all_def)

lemma er_batch_pyth: "batch_pyth er_batch 7 = Some (Inr example_pyth_snapshot)"
  by (simp add: er_batch_def er_pyth_def)

section \<open>Evaluator\<close>

theorem evaluator_matches_chain_witness:
  "condition_gate example_clock \<lparr>condition_logic = All_logic,
     conditions = [ProofCondition_Pyth example_pyth_condition example_pyth_snapshot]\<rparr> = Inr ()"
proof -
  have "map (proof_condition er_batch) (wr_conditions er_rule)
      = map Some [ProofCondition_Pyth example_pyth_condition example_pyth_snapshot]"
    by (simp add: er_rule_def er_batch_pyth er_condition)
  from evaluator_matches_chain [OF er_clock this, of "\<lambda>_. []"] er_evaluates [OF er_batch_pyth] show ?thesis
    by (simp add: er_rule_def)
qed

definition er_market :: market where
  "er_market = (\<lambda>ctx. (\<lambda>k. case er_pyth k of Some r \<Rightarrow> r | None \<Rightarrow>
       Inl (SnapshotTransient (''no fixture for pyth feed_id '' @ hex_encode (take 3 (array_bytes k)) @ ellipsis)),
     \<lambda>k. Inl (SnapshotTransient (''no fixture for solend reserve '' @ ''P''))))"

definition er_eval_env :: eval_env where
  "er_eval_env = \<lparr>eval_base58 = (\<lambda>_. []), fetch_batch = mock_fetch_batch (\<lambda>_. ''P'') er_pyth Map.empty,
     cache_tasks = (\<lambda>_ c. c)\<rparr>"

theorem cached_evaluation_exact_witness:
  "\<exists>reqs cache. evaluate_all er_eval_env er_ctx [er_rule, er_rule] new_cache = ([Inr True, Inr True], reqs, cache)
    \<and> distinct (concat (map pyth_feeds reqs))"
proof -
  obtain vs reqs cache where run: "evaluate_all er_eval_env er_ctx [er_rule, er_rule] new_cache = (vs, reqs, cache)"
    by (metis surj_pair)
  have valid: "cache_valid er_market new_cache" by (simp add: cache_valid_def new_cache_def)
  have resolves: "resolves er_market (fetch_batch er_eval_env)"
    by (simp add: resolves_def er_eval_env_def mock_fetch_batch_def batch_at_def er_market_def fun_eq_iff)
  have same: "same_tick er_market er_ctx (cache_tasks er_eval_env)" by (simp add: same_tick_def er_eval_env_def)
  have "batch_pyth (batch_at er_market er_ctx UNIV UNIV) 7 = Some (Inr example_pyth_snapshot)"
    by (simp add: batch_at_def er_market_def er_pyth_def)
  then show ?thesis
    using cached_evaluation_exact [OF valid resolves same run] run er_evaluates by simp
qed

section \<open>Watcher\<close>

definition er_process :: process_env where
  "er_process = \<lparr>pe_verdict = (\<lambda>_. None), pe_now = (\<lambda>_. 2000), pe_clock = 2000, pe_tasks = (\<lambda>_ sh. sh),
     pe_evaluate = (\<lambda>rule ctx. evaluate_rule_against_batch (\<lambda>_. []) rule er_batch ctx),
     pe_simulate = (\<lambda>_ _. Inr ()), pe_show = (\<lambda>_. [])\<rparr>"

definition er_watcher :: watcher_env where
  "er_watcher = \<lparr>wt_config = default_watcher_config, wt_codec = er_codec, wt_list_verdict = None,
     wt_get_verdict = None, wt_tasks = (\<lambda>sh. sh), wt_rule = (\<lambda>_. er_process), wt_finish_clock = 3000,
     wt_show = (\<lambda>_. [])\<rparr>"

definition er_shared :: "WatchRuleStatus \<Rightarrow> shared" where
  "er_shared st = \<lparr>sh_rules = [er_row st], sh_in_flight = {}\<rparr>"

definition er_cached :: WatcherCachedState where
  "er_cached = \<lparr>ca_last_successful_tick_at_ms = None, ca_last_tick_started_at_ms = None,
     ca_last_tick_finished_at_ms = None, ca_last_tick_duration_ms = None, ca_last_error = None,
     ca_expired_count_last_tick = 0, ca_condition_met_count_last_tick = 0, ca_transient_error_count_last_tick = 0,
     ca_terminal_error_count_last_tick = 0, ca_failed_count_last_tick = 0\<rparr>"

lemma er_listed:
  "\<exists>s. list_pending_lifecycle_limit (wt_codec er_watcher) (wt_list_verdict er_watcher)
      (max_rules_per_tick (wt_config er_watcher)) (sh_rules (wt_tasks er_watcher (er_shared WsActive))) = Inr [s]
    \<and> sw_rule s = er_rule \<and> sw_status s = WsActive"
  using er_stored [of WsActive]
  by (auto simp: list_pending_lifecycle_limit_def er_watcher_def default_watcher_config_def er_shared_def
      sql_select_all_def er_pending)

lemma er_process_rule:
  assumes "sw_rule s = er_rule" and "sw_status s = WsActive"
  shows "\<exists>rep' sh'. process_rule er_process s er_ctx (rep, er_shared WsActive) = (rep', sh')
    \<and> ConditionMet 7 \<in> set (per_rule rep')"
proof -
  have row: "rule_where 7 {WsActive} (rule_checked_set now sl ts (er_row WsActive))" for now sl ts
    by (simp add: rule_where_def rule_checked_set_def er_row_cols)
  have id: "wr_rule_id er_rule = 7" "\<not> wr_expires_at_slot er_rule \<le> tc_current_slot er_ctx"
    by (simp_all add: er_rule_def er_ctx_def)
  show ?thesis
    using assms er_evaluates [OF er_batch_pyth]
    by (simp add: process_rule_def check_and_evaluate_def handle_condition_true_def rule_call_def Let_def
        er_process_def er_shared_def mark_checked_def mark_condition_met_if_active_def sql_update_def
        id_where_def er_row_cols id row add_result_def)
qed

lemma er_tick:
  "\<exists>rep sh st s. watcher_tick er_watcher er_ctx (er_shared WsActive, er_cached) = (rep, sh, st)
    \<and> list_pending_lifecycle_limit (wt_codec er_watcher) (wt_list_verdict er_watcher)
      (max_rules_per_tick (wt_config er_watcher)) (sh_rules (wt_tasks er_watcher (er_shared WsActive))) = Inr [s]
    \<and> sw_rule s = er_rule \<and> ConditionMet 7 \<in> set (per_rule rep)"
proof -
  obtain s where s: "list_pending_lifecycle_limit (wt_codec er_watcher) (wt_list_verdict er_watcher)
      (max_rules_per_tick (wt_config er_watcher)) (sh_rules (wt_tasks er_watcher (er_shared WsActive))) = Inr [s]"
    "sw_rule s = er_rule" "sw_status s = WsActive" using er_listed by blast
  obtain rep sh st where tick: "watcher_tick er_watcher er_ctx (er_shared WsActive, er_cached) = (rep, sh, st)"
    by (metis surj_pair)
  obtain rep0 rep1 where run: "process_rules (wt_rule er_watcher) er_ctx 0 [s] (rep0, wt_tasks er_watcher (er_shared WsActive))
      = (rep1, sh)" and rep: "rep = report_finish (wt_finish_clock er_watcher) rep1"
    using watcher_tick_rules [OF s(1) tick] by metis
  have "ConditionMet 7 \<in> set (per_rule rep1)"
    using run er_process_rule [OF s(2,3), of rep0] by (auto simp: er_watcher_def)
  then show ?thesis using tick s rep by auto
qed


theorem met_rule_passes_chain_witness:
  "\<exists>ps. map (proof_condition er_batch) (wr_conditions er_rule) = map Some ps
    \<and> condition_gate example_clock \<lparr>condition_logic = All_logic, conditions = ps\<rparr> = Inr ()"
proof -
  obtain rep sh st s where tick: "watcher_tick er_watcher er_ctx (er_shared WsActive, er_cached) = (rep, sh, st)"
    and s: "list_pending_lifecycle_limit (wt_codec er_watcher) (wt_list_verdict er_watcher)
      (max_rules_per_tick (wt_config er_watcher)) (sh_rules (wt_tasks er_watcher (er_shared WsActive))) = Inr [s]"
    and rule: "sw_rule s = er_rule" and met: "ConditionMet 7 \<in> set (per_rule rep)" using er_tick by blast
  have "pe_evaluate (wt_rule er_watcher k) rule er_ctx = evaluate_rule_against_batch (\<lambda>_. []) rule er_batch er_ctx" for k rule
    by (simp add: er_watcher_def er_process_def)
  from met_rule_passes_chain [OF s tick this met er_clock] rule show ?thesis by (simp add: er_rule_def)
qed

section \<open>Executor\<close>

definition er_executor :: executor_env where
  "er_executor = \<lparr>xe_config = default_executor_config, xe_fixture = mainnet_beta_demo_usdc,
     xe_verdict = (\<lambda>_. None), xe_now = (\<lambda>_. 2000), xe_tasks = (\<lambda>_ sh. sh),
     xe_send = (\<lambda>req. fst (mock_send_and_confirm req \<lparr>mk_outcomes = [MockSuccess (- 1) 120 ''SIG''], mk_received = []\<rparr>)),
     xe_show = (\<lambda>_. []), xe_base58 = (\<lambda>_. [])\<rparr>"

definition er_ready :: StoredWatchRule where
  "er_ready = (case row_to_stored er_codec (er_row WsConditionMet) of Inr s \<Rightarrow> s)"

lemma er_ready_cols: "sw_rule er_ready = er_rule" "sw_execution_nonce er_ready = 0"
  using er_stored [of WsConditionMet] by (auto simp: er_ready_def)

lemma er_fair: "fair_executor er_codec er_executor"
  by (simp add: fair_executor_def er_executor_def)

lemma er_sends:
  "\<exists>res req sh. executor_process_rule er_executor er_ready (er_shared WsConditionMet) = (res, Some req, sh)
    \<and> xe_send er_executor req = Inr \<lparr>rc_rule_id = 7, rc_execution_nonce = 1, rc_confirmation_slot = 120,
        rc_used_amount_raw = 600, rc_signature_sentinel = ''SIG''\<rparr>
    \<and> (\<exists>r. sh_rules sh = [r] \<and> rr_rule_id r = Watch_Rule_Store.rule_id_hex 7)"
proof -
  have "rule_where 7 {WsConditionMet} (er_row WsConditionMet)" by (simp add: rule_where_def er_row_cols)
  then show ?thesis
    by (simp add: executor_process_rule_def executor_leased_def executor_dispatch_def executor_call_def
        build_execute_action_request_def er_executor_def er_ready_cols er_rule_def default_executor_config_def
        mainnet_beta_demo_usdc_def er_shared_def mark_executing_if_condition_met_def sql_update_def
        mock_send_and_confirm_def validate_request_shape_def saturating_add_def checked_add_def Let_def
        mark_completed_def id_where_def rule_sets er_row_cols)
qed

theorem dispatched_request_exact_witness:
  "\<exists>res req sh. executor_process_rule er_executor er_ready (er_shared WsConditionMet) = (res, Some req, sh)
    \<and> unat (rq_input_amount_raw req) = 600 \<and> validate_request_shape req = Inr ()"
proof -
  obtain res req sh where run: "executor_process_rule er_executor er_ready (er_shared WsConditionMet) = (res, Some req, sh)"
    using er_sends by blast
  have "xe_config er_executor = default_executor_config" "xe_fixture er_executor = mainnet_beta_demo_usdc"
    by (simp_all add: er_executor_def)
  from dispatched_request_exact [OF run this] run show ?thesis by (simp add: er_ready_cols er_rule_def)
qed

theorem rule_dispatched_once_witness:
  "\<exists>res req sh res' sh'. executor_process_rule er_executor er_ready (er_shared WsConditionMet) = (res, Some req, sh)
    \<and> executor_process_rule er_executor er_ready sh = (res', None, sh')"
proof -
  obtain res req sh where run: "executor_process_rule er_executor er_ready (er_shared WsConditionMet) = (res, Some req, sh)"
    using er_sends by blast
  obtain res' sent sh' where again: "executor_process_rule er_executor er_ready sh = (res', sent, sh')"
    by (metis surj_pair)
  have "keyed rr_rule_id (sh_rules (er_shared WsConditionMet))" by (simp add: keyed_def er_shared_def)
  from rule_dispatched_once [OF this er_fair er_fair run rtranclp.rtrancl_refl refl again] run again
  show ?thesis by blast
qed

theorem dispatch_outcome_recorded_witness:
  "\<exists>res req sh r. executor_process_rule er_executor er_ready (er_shared WsConditionMet) = (res, Some req, sh)
    \<and> sh_rules sh = [r] \<and> rr_status r = rule_status_as_str WsCompleted
    \<and> res = ErCompleted 7 1 600 120 ''SIG''"
proof -
  obtain res req sh r where run: "executor_process_rule er_executor er_ready (er_shared WsConditionMet) = (res, Some req, sh)"
    and send: "xe_send er_executor req = Inr \<lparr>rc_rule_id = 7, rc_execution_nonce = 1, rc_confirmation_slot = 120,
        rc_used_amount_raw = 600, rc_signature_sentinel = ''SIG''\<rparr>"
    and r: "sh_rules sh = [r]" "rr_rule_id r = Watch_Rule_Store.rule_id_hex 7" using er_sends by blast
  have id: "wr_rule_id (sw_rule er_ready) = 7" by (simp add: er_ready_cols er_rule_def)
  have "xe_verdict er_executor 1 = None" by (simp add: er_executor_def)
  from dispatch_outcome_recorded [OF run this, of r] send r run show ?thesis by (auto simp: id)
qed

definition er_pass :: executor_pass_env where
  "er_pass = \<lparr>xp_config = default_executor_config\<lparr>xc_max_rules_per_tick := 1\<rparr>, xp_codec = er_codec, xp_verdict = None,
     xp_tasks = (\<lambda>sh. sh), xp_rule = (\<lambda>_. er_executor), xp_show = (\<lambda>_. [])\<rparr>"

theorem executor_starved_witness:
  "\<exists>rep. execute_ready_rules_once er_pass
      \<lparr>sh_rules = [er_row WsActive, (er_row WsConditionMet)\<lparr>rr_created_at_ms := 1001\<rparr>], sh_in_flight = {}\<rparr>
    = (rep, [], \<lparr>sh_rules = [er_row WsActive, (er_row WsConditionMet)\<lparr>rr_created_at_ms := 1001\<rparr>], sh_in_flight = {}\<rparr>)"
proof -
  let ?ready = "(er_row WsConditionMet)\<lparr>rr_created_at_ms := 1001\<rparr>"
  let ?sh = "\<lparr>sh_rules = [er_row WsActive, ?ready], sh_in_flight = {}\<rparr>"
  have "pending_where ?ready" using er_pending(2) by (simp add: pending_where_def)
  then have "sort_key oldest_first (filter pending_where [er_row WsActive, ?ready]) = [er_row WsActive, ?ready]"
    using er_pending(1) by (simp add: oldest_first_def er_row_cols)
  then have "\<forall>r \<in> set (take (unat (xc_max_rules_per_tick (xp_config er_pass)))
      (sort_key oldest_first (filter pending_where (sh_rules (xp_tasks er_pass ?sh))))).
        rr_status r = rule_status_as_str WsActive"
    by (simp add: er_pass_def er_row_cols)
  from executor_starved [OF this] show ?thesis by (auto simp: er_pass_def)
qed

end
