(* ===== verification/Risk_Budget.thy ===== *)
theory Risk_Budget
  imports Rust_Text
begin

text \<open>
  \<open>crates/gateway/src/lending/risk_budget.rs\<close>: the deposit cap of a risk-budget profile, written as a
  decimal string and converted to base units by integer arithmetic, and the formatting back. The
  formatter returns \<open>None\<close> where the source panics; its power of ten wraps in a release build.
\<close>

section \<open>The code\<close>

record SolendDepositRiskBudgetConfig =
  rb_profile_name :: string
  rb_max_deposit_amount_ui :: string
  rb_asset :: string
  rb_decimals :: u8

definition DEMO_PROFILE_NAME :: string where "DEMO_PROFILE_NAME = ''demo''"

definition USDC_DECIMALS :: u8 where "USDC_DECIMALS = 6"

definition demo_budget :: SolendDepositRiskBudgetConfig where
  "demo_budget = \<lparr>rb_profile_name = DEMO_PROFILE_NAME, rb_max_deposit_amount_ui = ''5'', rb_asset = ''USDC'',
     rb_decimals = USDC_DECIMALS\<rparr>"

datatype RiskBudgetParseError =
    RbEmpty
  | RbInvalidCharacter string
  | RbMultipleDecimalPoints string
  | RbTooManyFractionalDigits nat u8
  | RbOverflow string u8

text \<open>The first character of a string that is no ASCII digit, as its UTF-8 bytes.\<close>

definition bad_char :: "string \<Rightarrow> string option" where
  "bad_char s = (case dropWhile (\<lambda>c. digit_value c \<noteq> None) s of
     [] \<Rightarrow> None
   | c # cs \<Rightarrow> Some (c # takeWhile (\<lambda>x. is_cont (byte_of_char x)) cs))"

definition parse_u128 :: "string \<Rightarrow> ParseIntError + u128" where
  "parse_u128 s = (case s of
     [] \<Rightarrow> Inl EmptyString
   | c # cs \<Rightarrow>
      (if cs = [] \<and> (c = CHR ''+'' \<or> c = CHR ''-'') then Inl InvalidDigit
       else if c = CHR ''+'' then parse_digits 0 cs
       else parse_digits 0 s))"

definition checked_pow10 :: "nat \<Rightarrow> u128 option" where
  "checked_pow10 n = (if 10 ^ n < (2 :: nat) ^ 128 then Some (word_of_nat (10 ^ n)) else None)"

definition parse_ui_decimal_to_raw :: "string \<Rightarrow> u8 \<Rightarrow> RiskBudgetParseError + u64" where
  "parse_ui_decimal_to_raw ui decimals =
    (if ui = [] then Inl RbEmpty
     else if length (filter (\<lambda>c. c = CHR ''.'') ui) > 1 then Inl (RbMultipleDecimalPoints ui)
     else let int_part = takeWhile (\<lambda>c. c \<noteq> CHR ''.'') ui;
              frac_part = drop 1 (dropWhile (\<lambda>c. c \<noteq> CHR ''.'') ui);
              overflow = RbOverflow ui decimals
     in case (bad_char int_part, bad_char frac_part) of
       (Some c, _) \<Rightarrow> Inl (RbInvalidCharacter c)
     | (None, Some c) \<Rightarrow> Inl (RbInvalidCharacter c)
     | (None, None) \<Rightarrow>
       if length frac_part > unat decimals then Inl (RbTooManyFractionalDigits (length frac_part) decimals)
       else let padded_frac = frac_part @ replicate (unat decimals - length frac_part) CHR ''0'' in
       bindE (if int_part = [] then Inr 0 else map_err (\<lambda>_. overflow) (parse_u128 int_part)) (\<lambda>int_value.
       bindE (if padded_frac = [] then Inr 0 else map_err (\<lambda>_. overflow) (parse_u128 padded_frac)) (\<lambda>frac_value.
       bindE (ok_or (checked_pow10 (unat decimals)) overflow) (\<lambda>factor.
       bindE (ok_or (Option.bind (checked_mul int_value factor) (\<lambda>v. checked_add v frac_value)) overflow) (\<lambda>raw.
       if raw > 2 ^ 64 - 1 then Inl overflow else Inr (ucast raw))))))"

definition pad_left :: "nat \<Rightarrow> string \<Rightarrow> string" where
  "pad_left n s = replicate (n - length s) CHR ''0'' @ s"

definition raw_to_ui_decimal :: "u64 \<Rightarrow> u8 \<Rightarrow> string option" where
  "raw_to_ui_decimal raw decimals =
    (if decimals = 0 then Some (show_nat (unat raw))
     else let factor = word_of_nat (10 ^ unat decimals) :: u128 in
     if factor = 0 then None
     else Some (show_nat (unat ((ucast raw :: u128) div factor)) @ ''.''
       @ pad_left (unat decimals) (show_nat (unat ((ucast raw :: u128) mod factor)))))"

definition max_deposit_amount_raw :: "SolendDepositRiskBudgetConfig \<Rightarrow> RiskBudgetParseError + u64" where
  "max_deposit_amount_raw cfg = parse_ui_decimal_to_raw (rb_max_deposit_amount_ui cfg) (rb_decimals cfg)"

definition max_deposit_amount_ui_padded :: "SolendDepositRiskBudgetConfig \<Rightarrow> string option" where
  "max_deposit_amount_ui_padded cfg = (case max_deposit_amount_raw cfg of
     Inr raw \<Rightarrow> raw_to_ui_decimal raw (rb_decimals cfg)
   | Inl _ \<Rightarrow> Some (rb_max_deposit_amount_ui cfg))"

section \<open>Digits\<close>

definition digits :: "string \<Rightarrow> bool" where
  "digits s \<longleftrightarrow> (\<forall>c \<in> set s. digit_value c \<noteq> None)"

lemma digits_simps [simp]:
  "digits []" "digits (c # cs) \<longleftrightarrow> digit_value c \<noteq> None \<and> digits cs" "digits (a @ b) \<longleftrightarrow> digits a \<and> digits b"
  by (auto simp: digits_def)

lemma bad_char_None: "bad_char s = None \<longleftrightarrow> digits s"
proof -
  have "dropWhile (\<lambda>c. digit_value c \<noteq> None) s = [] \<longleftrightarrow> digits s"
    unfolding digits_def by (rule dropWhile_eq_Nil_conv)
  moreover have "bad_char s = None \<longleftrightarrow> dropWhile (\<lambda>c. digit_value c \<noteq> None) s = []"
    unfolding bad_char_def by (simp split: list.split del: dropWhile_eq_Nil_conv not_None_eq)
  ultimately show ?thesis by simp
qed

lemma decimal_value_digits: "digits s \<longleftrightarrow> (\<exists>n. decimal_value acc s = Some n)"
  by (induction acc s rule: decimal_value.induct) (auto split: option.splits)

lemma decimal_value_zeros: "decimal_value acc (replicate k CHR ''0'') = Some (acc * 10 ^ k)"
proof (induction k arbitrary: acc)
  case (Suc k)
  have "digit_value CHR ''0'' = Some 0" by (simp add: digit_value_def)
  then show ?case using Suc by (simp add: mult.assoc)
qed simp

lemma decimal_value_pad:
  "decimal_value 0 s = Some n \<Longrightarrow> decimal_value 0 (s @ replicate k CHR ''0'') = Some (n * 10 ^ k)"
  by (simp add: decimal_value_append decimal_value_zeros)

lemma decimal_value_bound: "decimal_value acc s = Some n \<Longrightarrow> n < (acc + 1) * 10 ^ length s"
proof (induction acc s arbitrary: n rule: decimal_value.induct)
  case (2 acc c cs)
  then obtain d where d: "digit_value c = Some d" "decimal_value (acc * 10 + d) cs = Some n"
    by (auto split: option.splits)
  then have "n < (acc * 10 + d + 1) * 10 ^ length cs" using 2 by blast
  also have "\<dots> \<le> ((acc + 1) * 10) * 10 ^ length cs"
    using digit_value_bound [OF d(1)] by (intro mult_right_mono) auto
  finally show ?case by (simp add: algebra_simps)
qed simp

lemma parse_u128_digits:
  assumes "digits s"
  shows "(if s = [] then Inr 0 else map_err f (parse_u128 s)) = Inr v \<longleftrightarrow> decimal_value 0 s = Some (unat v)"
proof (cases s)
  case (Cons c cs)
  have "digit_value CHR ''+'' = None" "digit_value CHR ''-'' = None" by (simp_all add: digit_value_def)
  then have "c \<noteq> CHR ''+''" "c \<noteq> CHR ''-''" using assms Cons by auto
  then have "parse_u128 s = parse_digits 0 s" by (simp add: parse_u128_def Cons)
  then show ?thesis
    using parse_digits_decimal [of "0 :: u128" s v] Cons by (simp add: map_err_Inr)
qed (auto simp: unat_eq_zero)

section \<open>What a decimal string denotes\<close>

text \<open>\<open>ui\<close> is a decimal numeral with at most \<open>d\<close> fractional digits, and \<open>n\<close> is its value times \<open>10 ^ d\<close>.\<close>

definition denotes :: "string \<Rightarrow> nat \<Rightarrow> nat \<Rightarrow> bool" where
  "denotes ui d n \<longleftrightarrow> (\<exists>ip fp a b. (ui = ip \<and> ip \<noteq> [] \<and> fp = [] \<or> ui = ip @ ''.'' @ fp) \<and> length fp \<le> d
     \<and> decimal_value 0 ip = Some a \<and> decimal_value 0 fp = Some b \<and> n = a * 10 ^ d + b * 10 ^ (d - length fp))"

lemma point_no_digit: "digits s \<Longrightarrow> CHR ''.'' \<notin> set s"
proof
  assume "digits s" "CHR ''.'' \<in> set s"
  then have "digit_value CHR ''.'' \<noteq> None" by (simp add: digits_def)
  then show False by (simp add: digit_value_def)
qed

text \<open>The two parts of a string around its first point.\<close>

lemma decimal_parts:
  assumes "takeWhile (\<lambda>c. c \<noteq> CHR ''.'') ui = ip" and "drop 1 (dropWhile (\<lambda>c. c \<noteq> CHR ''.'') ui) = fp"
  shows "ui = ip \<and> fp = [] \<or> ui = ip @ ''.'' @ fp"
proof (cases "dropWhile (\<lambda>c. c \<noteq> CHR ''.'') ui")
  case Nil
  then show ?thesis using assms by (metis append_Nil2 drop_Nil takeWhile_dropWhile_id)
next
  case (Cons c cs)
  then have "c = CHR ''.''" using hd_dropWhile [of "\<lambda>c. c \<noteq> CHR ''.''" ui] by auto
  then show ?thesis using Cons assms takeWhile_dropWhile_id [of "\<lambda>c. c \<noteq> CHR ''.''" ui] by simp
qed

lemma decimal_parts_unique:
  assumes "digits ip" "digits fp" "ui = ip \<and> fp = [] \<or> ui = ip @ ''.'' @ fp"
  shows "takeWhile (\<lambda>c. c \<noteq> CHR ''.'') ui = ip" "drop 1 (dropWhile (\<lambda>c. c \<noteq> CHR ''.'') ui) = fp"
    "length (filter (\<lambda>c. c = CHR ''.'') ui) \<le> 1"
proof -
  have ip: "\<forall>c \<in> set ip. c \<noteq> CHR ''.''" and fp: "\<forall>c \<in> set fp. c \<noteq> CHR ''.''"
    using point_no_digit assms(1,2) by blast+
  then have "filter (\<lambda>c. c = CHR ''.'') ip = []" "filter (\<lambda>c. c = CHR ''.'') fp = []"
    by (simp_all add: filter_empty_conv)
  then show "length (filter (\<lambda>c. c = CHR ''.'') ui) \<le> 1"
    using assms(3) by (elim disjE conjE) simp_all
  have "takeWhile (\<lambda>c. c \<noteq> CHR ''.'') ip = ip" using ip by (simp add: takeWhile_eq_all_conv)
  moreover have "dropWhile (\<lambda>c. c \<noteq> CHR ''.'') ip = []" using ip by (simp add: dropWhile_eq_Nil_conv)
  moreover have "takeWhile (\<lambda>c. c \<noteq> CHR ''.'') (ip @ ''.'' @ fp) = ip" using ip by (simp add: takeWhile_append2)
  moreover have "dropWhile (\<lambda>c. c \<noteq> CHR ''.'') (ip @ ''.'' @ fp) = ''.'' @ fp" using ip by (simp add: dropWhile_append2)
  ultimately show "takeWhile (\<lambda>c. c \<noteq> CHR ''.'') ui = ip" "drop 1 (dropWhile (\<lambda>c. c \<noteq> CHR ''.'') ui) = fp"
    using assms(3) by (elim disjE conjE, simp_all only: drop_Nil append.simps drop_Suc_Cons One_nat_def drop_0)+
qed

lemma pow10_less: "10 ^ d < (2 :: nat) ^ 128 \<longleftrightarrow> d \<le> 38"
proof
  assume "10 ^ d < (2 :: nat) ^ 128"
  then have "10 ^ d < (10 :: nat) ^ 39" by (rule less_trans) simp
  then have "d < 39" by (rule power_less_imp_less_exp [rotated]) simp
  then show "d \<le> 38" by simp
next
  assume "d \<le> 38"
  then have "10 ^ d \<le> (10 :: nat) ^ 38" by (rule power_increasing) simp
  then show "10 ^ d < (2 :: nat) ^ 128" by (rule le_less_trans) simp
qed

lemma unat_u128: "n < 2 ^ 128 \<Longrightarrow> unat (word_of_nat n :: u128) = n"
  unfolding unat_of_nat by simp

lemma checked_pow10_Some: "checked_pow10 d = Some f \<longleftrightarrow> d \<le> 38 \<and> unat f = 10 ^ d"
proof -
  have "unat (word_of_nat (10 ^ d) :: u128) = 10 ^ d" if "d \<le> 38"
    using pow10_less [of d] that unat_u128 by blast
  then show ?thesis unfolding checked_pow10_def pow10_less by (metis option.distinct(1) option.inject word_unat_eq_iff)
qed

text \<open>The arithmetic at the end of the parser.\<close>

definition combine :: "RiskBudgetParseError \<Rightarrow> nat \<Rightarrow> RiskBudgetParseError + u128 \<Rightarrow> RiskBudgetParseError + u128 \<Rightarrow>
    RiskBudgetParseError + u64" where
  "combine overflow d int_part frac_part =
     bindE int_part (\<lambda>int_value. bindE frac_part (\<lambda>frac_value.
     bindE (ok_or (checked_pow10 d) overflow) (\<lambda>factor.
     bindE (ok_or (Option.bind (checked_mul int_value factor) (\<lambda>v. checked_add v frac_value)) overflow) (\<lambda>raw.
     if raw > 2 ^ 64 - 1 then Inl overflow else Inr (ucast raw)))))"

lemma combine_Inr:
  assumes "\<And>v. i = Inr v \<longleftrightarrow> unat v = a" and "\<And>v. f = Inr v \<longleftrightarrow> unat v = b" and "b < 10 ^ d"
  shows "combine overflow d i f = Inr r \<longleftrightarrow> d \<le> 38 \<and> unat r = a * 10 ^ d + b"
proof
  assume "combine overflow d i f = Inr r"
  then obtain iv fv fac v raw where "i = Inr iv" "f = Inr fv" "checked_pow10 d = Some fac"
    "checked_mul iv fac = Some v" "checked_add v fv = Some raw" "\<not> raw > 2 ^ 64 - 1" "r = ucast raw"
    by (auto simp: combine_def ok_simps bind_eq_Some_conv split: if_splits)
  moreover from this have "unat raw < 2 ^ 64" by (simp add: word_less_nat_alt)
  ultimately show "d \<le> 38 \<and> unat r = a * 10 ^ d + b"
    using assms by (simp add: checked_pow10_Some unat_simps unsigned_ucast_eq take_bit_eq_mod)
next
  assume r: "d \<le> 38 \<and> unat r = a * 10 ^ d + b"
  have "a * 10 ^ d + b < 2 ^ 64" using r unat_less_exp [of r] by simp
  then have small: "a * 10 ^ d + b < 2 ^ 128" by simp
  moreover have "a \<le> a * 10 ^ d" by simp
  ultimately have a: "a < 2 ^ 128" by linarith
  define iv fv fac :: u128 where "iv = word_of_nat a" and "fv = word_of_nat b" and "fac = word_of_nat (10 ^ d)"
  define v raw :: u128 where "v = word_of_nat (a * 10 ^ d)" and "raw = word_of_nat (a * 10 ^ d + b)"
  have u: "unat iv = a" "unat fv = b" "unat fac = 10 ^ d" "unat v = a * 10 ^ d" "unat raw = a * 10 ^ d + b"
    unfolding iv_def fv_def fac_def v_def raw_def
    using a small r pow10_less [of d] assms(3) by (auto intro!: unat_u128 simp del: of_nat_power of_nat_mult of_nat_add)
  have "i = Inr iv" "f = Inr fv" "checked_pow10 d = Some fac" using assms u r by (simp_all add: checked_pow10_Some)
  moreover have "checked_mul iv fac = Some v" "checked_add v fv = Some raw" using u by (simp_all add: unat_simps)
  moreover have "\<not> raw > 2 ^ 64 - 1" using u r unat_less_exp [of r] by (simp add: word_less_nat_alt)
  moreover have "ucast raw = r" using u r unat_less_exp [of r] by (simp add: word_unat_eq_iff unsigned_ucast_eq take_bit_eq_mod)
  ultimately show "combine overflow d i f = Inr r" by (simp add: combine_def)
qed

lemma parse_combine:
  assumes "ui \<noteq> []" and "digits ip" and "digits fp" and "ui = ip \<and> fp = [] \<or> ui = ip @ ''.'' @ fp"
    and "length fp \<le> unat d"
  shows "parse_ui_decimal_to_raw ui d = combine (RbOverflow ui d) (unat d)
    (if ip = [] then Inr 0 else map_err (\<lambda>_. RbOverflow ui d) (parse_u128 ip))
    (if fp @ replicate (unat d - length fp) CHR ''0'' = [] then Inr 0
     else map_err (\<lambda>_. RbOverflow ui d) (parse_u128 (fp @ replicate (unat d - length fp) CHR ''0'')))"
proof -
  note parts = decimal_parts_unique [OF assms(2,3,4)]
  have "bad_char ip = None" "bad_char fp = None" using assms(2,3) by (simp_all add: bad_char_None)
  then show ?thesis
    using assms(1,5) parts(3) unfolding parse_ui_decimal_to_raw_def Let_def parts(1,2) combine_def by simp
qed

lemma parse_ui_digits:
  assumes "ui \<noteq> []" and "decimal_value 0 ip = Some a" and "decimal_value 0 fp = Some b"
    and "ui = ip \<and> fp = [] \<or> ui = ip @ ''.'' @ fp" and "length fp \<le> unat d"
  shows "parse_ui_decimal_to_raw ui d = Inr r \<longleftrightarrow>
    unat d \<le> 38 \<and> unat r = a * 10 ^ unat d + b * 10 ^ (unat d - length fp)"
proof -
  let ?k = "unat d - length fp"
  let ?pad = "fp @ replicate ?k CHR ''0''"
  have dig: "digits ip" "digits fp" using assms(2,3) decimal_value_digits [where acc = 0] by blast+
  have pad: "decimal_value 0 ?pad = Some (b * 10 ^ ?k)" using decimal_value_pad [OF assms(3)] .
  then have dpad: "digits ?pad" using decimal_value_digits [where acc = 0] by blast
  have "b * 10 ^ ?k < 10 ^ length ?pad" using decimal_value_bound [OF pad] by simp
  then have small: "b * 10 ^ ?k < 10 ^ unat d" using assms(5) by simp
  have "unat v = x \<longleftrightarrow> Some x = Some (unat v)" for v :: u128 and x by auto
  then show ?thesis
    unfolding parse_combine [OF assms(1) dig assms(4,5)]
    by (intro combine_Inr [OF _ _ small])
      (simp_all only: parse_u128_digits [OF dig(1)] parse_u128_digits [OF dpad] assms(2) pad)
qed

lemma parse_ui_Inr_parts:
  assumes "parse_ui_decimal_to_raw ui d = Inr r"
  obtains ip fp where "ui \<noteq> []" "digits ip" "digits fp" "ui = ip \<and> fp = [] \<or> ui = ip @ ''.'' @ fp" "length fp \<le> unat d"
proof -
  let ?ip = "takeWhile (\<lambda>c. c \<noteq> CHR ''.'') ui" and ?fp = "drop 1 (dropWhile (\<lambda>c. c \<noteq> CHR ''.'') ui)"
  have "ui \<noteq> []" "bad_char ?ip = None" "bad_char ?fp = None" "\<not> length ?fp > unat d"
    using assms unfolding parse_ui_decimal_to_raw_def Let_def by (auto split: if_splits option.splits)
  then show thesis
    using that [of ?ip ?fp] decimal_parts [OF refl refl, of ui] by (simp add: bad_char_None)
qed

section \<open>Properties\<close>

text \<open>
  The parser of caps is exact. For at most 38 decimals, a string converts to the raw amount \<open>r\<close> if and only if
  it is a decimal numeral (digits, at most one point, at most as many fractional digits as the asset has) whose value times
  ten to the decimals is \<open>r\<close>, without rounding; for more decimals nothing converts.\<close>

theorem parse_ui_decimal_exact:
  "parse_ui_decimal_to_raw ui d = Inr r \<longleftrightarrow> unat d \<le> 38 \<and> denotes ui (unat d) (unat r)"
proof
  assume ok: "parse_ui_decimal_to_raw ui d = Inr r"
  then obtain ip fp where parts: "ui \<noteq> []" "digits ip" "digits fp" "ui = ip \<and> fp = [] \<or> ui = ip @ ''.'' @ fp"
    "length fp \<le> unat d" by (rule parse_ui_Inr_parts)
  obtain a b where ab: "decimal_value 0 ip = Some a" "decimal_value 0 fp = Some b"
    using parts(2,3) decimal_value_digits [where acc = 0] by blast
  have "unat d \<le> 38 \<and> unat r = a * 10 ^ unat d + b * 10 ^ (unat d - length fp)"
    using parse_ui_digits [OF parts(1) ab parts(4,5)] ok by blast
  then show "unat d \<le> 38 \<and> denotes ui (unat d) (unat r)"
    using parts ab unfolding denotes_def by blast
next
  assume "unat d \<le> 38 \<and> denotes ui (unat d) (unat r)"
  then obtain ip fp a b where s: "unat d \<le> 38" "ui = ip \<and> ip \<noteq> [] \<and> fp = [] \<or> ui = ip @ ''.'' @ fp" "length fp \<le> unat d"
    "decimal_value 0 ip = Some a" "decimal_value 0 fp = Some b" "unat r = a * 10 ^ unat d + b * 10 ^ (unat d - length fp)"
    unfolding denotes_def by blast
  have "ui \<noteq> []" using s(2) by (elim disjE) simp_all
  moreover have "ui = ip \<and> fp = [] \<or> ui = ip @ ''.'' @ fp" using s(2) by blast
  ultimately show "parse_ui_decimal_to_raw ui d = Inr r" using parse_ui_digits [OF _ s(4,5) _ s(3)] s(1,6) by simp
qed

lemma length_show_nat: "n < 10 ^ k \<Longrightarrow> 0 < k \<Longrightarrow> length (show_nat n) \<le> k"
proof (induction n arbitrary: k rule: show_nat.induct)
  case (1 n)
  show ?case
  proof (cases "n < 10")
    case True
    then show ?thesis using 1 by (simp add: show_nat.simps)
  next
    case False
    with 1 obtain j where k: "k = Suc j" by (cases k) auto
    have "0 < j" using False 1(2) k by (cases j) auto
    moreover have "n div 10 < 10 ^ j" using 1(2) k by (simp add: less_mult_imp_div_less mult.commute)
    ultimately have "length (show_nat (n div 10)) \<le> j" using 1(1) False by blast
    then show ?thesis using False k by (subst show_nat.simps) simp
  qed
qed

text \<open>
  Caps print and read back. For every raw amount and at most 38 decimals the formatter returns a string, and the
  parser reads that string as the same amount.\<close>

theorem ui_decimal_roundtrip:
  assumes "unat d \<le> 38"
  shows "\<exists>s. raw_to_ui_decimal raw d = Some s \<and> parse_ui_decimal_to_raw s d = Inr raw"
proof (cases "d = 0")
  case True
  have "show_nat (unat raw) \<noteq> []" using show_nat_Cons [of "unat raw"] by auto
  then have "denotes (show_nat (unat raw)) 0 (unat raw)"
    unfolding denotes_def using decimal_show_nat [of "unat raw"]
    by (intro exI [of _ "show_nat (unat raw)"] exI [of _ "[]"] exI [of _ "unat raw"] exI [of _ 0]) simp
  then show ?thesis using True by (simp add: raw_to_ui_decimal_def parse_ui_decimal_exact)
next
  case False
  let ?d = "unat d" and ?f = "word_of_nat (10 ^ unat d) :: u128" and ?r = "ucast raw :: u128"
  have f: "unat ?f = 10 ^ ?d" using pow10_less [of ?d] assms unat_u128 by blast
  then have nz: "?f \<noteq> 0" by (metis power_not_zero unat_0 zero_neq_numeral)
  have r: "unat ?r = unat raw" by (simp add: unsigned_ucast_eq take_bit_eq_mod) (use unat_less_exp [of raw] in simp)
  define a b where "a = unat raw div 10 ^ ?d" and "b = unat raw mod 10 ^ ?d"
  have pos: "0 < ?d" using False by (simp add: unat_gt_0)
  have len: "length (show_nat b) \<le> ?d" by (rule length_show_nat) (simp_all add: b_def pos)
  have s: "raw_to_ui_decimal raw d = Some (show_nat a @ ''.'' @ pad_left ?d (show_nat b))"
    using False nz unfolding raw_to_ui_decimal_def Let_def a_def b_def by (simp only: unat_div unat_mod f r if_False)
  have "decimal_value 0 (pad_left ?d (show_nat b)) = Some b"
    by (simp add: pad_left_def decimal_value_append decimal_value_zeros decimal_show_nat)
  moreover have "length (pad_left ?d (show_nat b)) = ?d" using len by (simp add: pad_left_def)
  moreover have "unat raw = a * 10 ^ ?d + b" unfolding a_def b_def by (rule div_mult_mod_eq [symmetric])
  ultimately have "denotes (show_nat a @ ''.'' @ pad_left ?d (show_nat b)) ?d (unat raw)"
    unfolding denotes_def using decimal_show_nat [of a]
    by (intro exI [of _ "show_nat a"] exI [of _ "pad_left ?d (show_nat b)"] exI [of _ a] exI [of _ b]) simp
  then show ?thesis using s assms by (auto simp: parse_ui_decimal_exact)
qed

theorem ui_decimal_roundtrip_witness: "\<exists>s. raw_to_ui_decimal 5000001 6 = Some s \<and> parse_ui_decimal_to_raw s 6 = Inr 5000001"
  by (rule ui_decimal_roundtrip) simp

end
