(* ===== verification/Lending_Policy.thy ===== *)
theory Lending_Policy
  imports Solana_Runtime
begin

text \<open>
  \<open>crates/gateway/src/lending\<close>: the unit-tagged amounts (\<open>types.rs\<close>), the snapshot that a policy
  evaluation reads (\<open>snapshot.rs\<close>), the system invariant gate (\<open>gate.rs\<close>) and the evaluator with its
  five rules (\<open>policy.rs\<close>). The empty enum \<open>ScopeBoundarySubreason\<close> and with it the block reason that
  no value can have are left out.
\<close>

section \<open>Unit-tagged values\<close>

datatype UnderlyingAmount = UnderlyingAmount (underlying_raw: u64)

datatype CollateralTokenAmount = CollateralTokenAmount (collateral_raw: u64)

datatype WadAmount = WadAmount (wad_raw: u128)

datatype ChainSlot = ChainSlot (slot_raw: u64)

datatype DurationMs = DurationMs (ms_raw: u64)

instantiation UnderlyingAmount :: linorder
begin

definition less_eq_UnderlyingAmount :: "UnderlyingAmount \<Rightarrow> UnderlyingAmount \<Rightarrow> bool" where
  "less_eq_UnderlyingAmount a b \<longleftrightarrow> underlying_raw a \<le> underlying_raw b"

definition less_UnderlyingAmount :: "UnderlyingAmount \<Rightarrow> UnderlyingAmount \<Rightarrow> bool" where
  "less_UnderlyingAmount a b \<longleftrightarrow> underlying_raw a < underlying_raw b"

instance
  by standard (auto simp: less_eq_UnderlyingAmount_def less_UnderlyingAmount_def UnderlyingAmount.expand)

end

instantiation CollateralTokenAmount :: linorder
begin

definition less_eq_CollateralTokenAmount :: "CollateralTokenAmount \<Rightarrow> CollateralTokenAmount \<Rightarrow> bool" where
  "less_eq_CollateralTokenAmount a b \<longleftrightarrow> collateral_raw a \<le> collateral_raw b"

definition less_CollateralTokenAmount :: "CollateralTokenAmount \<Rightarrow> CollateralTokenAmount \<Rightarrow> bool" where
  "less_CollateralTokenAmount a b \<longleftrightarrow> collateral_raw a < collateral_raw b"

instance
  by standard (auto simp: less_eq_CollateralTokenAmount_def less_CollateralTokenAmount_def CollateralTokenAmount.expand)

end

definition slots_since :: "ChainSlot \<Rightarrow> ChainSlot \<Rightarrow> u64" where
  "slots_since later earlier =
     (if slot_raw earlier \<le> slot_raw later then slot_raw later - slot_raw earlier else 0)"

section \<open>Snapshots\<close>

datatype ProtocolTag = Solend

datatype StaleMarker = Fresh | Stale

datatype FeedPublishFreshness = KnownSlot ChainSlot | UnknownFreshness

datatype OracleProvider = PythSolanaReceiver | SwitchboardOnDemand | UnknownProvider

record OracleFeed =
  of_identifier :: pubkey
  of_provider :: OracleProvider
  of_publish :: FeedPublishFreshness
  of_fetch :: ChainSlot

record OracleFeedSet =
  os_priced_asset :: pubkey
  os_feeds :: "OracleFeed list"

record ObligationDeposit =
  od_reserve :: pubkey
  od_deposited :: CollateralTokenAmount

record ObligationBorrow =
  ow_reserve :: pubkey
  ow_borrowed_wads :: WadAmount

record Obligation =
  lo_identifier :: pubkey
  lo_owner :: pubkey
  lo_protocol_last_updated_slot :: ChainSlot
  lo_protocol_native_stale :: StaleMarker
  lo_deposits :: "ObligationDeposit list"
  lo_borrows :: "ObligationBorrow list"
  lo_freshness :: ChainSlot

record LendingReserve =
  lr_identifier :: pubkey
  lr_mint :: pubkey
  lr_mint_decimals :: u8
  lr_protocol_last_updated_slot :: ChainSlot
  lr_protocol_native_stale :: StaleMarker
  lr_freshness :: ChainSlot
  lr_liquidity_supply_pubkey :: pubkey
  lr_collateral_mint_pubkey :: pubkey
  lr_collateral_supply_pubkey :: pubkey
  lr_available_underlying :: UnderlyingAmount

record LendingSnapshot =
  ls_protocol_tag :: ProtocolTag
  ls_session_wallet :: pubkey
  ls_fetched_at :: ChainSlot
  ls_obligation :: Obligation
  ls_reserves :: "LendingReserve list"
  ls_oracles :: "OracleFeedSet list"

section \<open>Actions, configuration and verdicts\<close>

datatype ProposedAction =
    ActDeposit (protocol: ProtocolTag) (reserve_mint: pubkey) UnderlyingAmount
  | ActRepay (protocol: ProtocolTag) (reserve_mint: pubkey) UnderlyingAmount
  | ActWithdraw (protocol: ProtocolTag) (reserve_mint: pubkey) CollateralTokenAmount

datatype ActionKind = KDeposit | KRepay | KWithdraw

fun action_kind :: "ProposedAction \<Rightarrow> ActionKind" where
  "action_kind (ActDeposit _ _ _) = KDeposit"
| "action_kind (ActRepay _ _ _) = KRepay"
| "action_kind (ActWithdraw _ _ _) = KWithdraw"

fun amount_underlying :: "ProposedAction \<Rightarrow> UnderlyingAmount option" where
  "amount_underlying (ActDeposit _ _ a) = Some a"
| "amount_underlying (ActRepay _ _ a) = Some a"
| "amount_underlying (ActWithdraw _ _ _) = None"

fun collateral_amount :: "ProposedAction \<Rightarrow> CollateralTokenAmount option" where
  "collateral_amount (ActWithdraw _ _ a) = Some a"
| "collateral_amount _ = None"

fun amount_raw :: "ProposedAction \<Rightarrow> u64" where
  "amount_raw (ActDeposit _ _ a) = underlying_raw a"
| "amount_raw (ActRepay _ _ a) = underlying_raw a"
| "amount_raw (ActWithdraw _ _ a) = collateral_raw a"

record LendingRuleConfig =
  max_fetch_age :: DurationMs
  max_publish_age :: DurationMs
  protocol_allowlist :: "ProtocolTag list"
  mint_allowlist :: "pubkey list"
  per_mint_caps :: "(pubkey \<times> UnderlyingAmount) list"
  per_mint_collateral_caps :: "(pubkey \<times> CollateralTokenAmount) list"

datatype SystemInvariantError = SieOwnerMismatch pubkey pubkey | SieProtocolTagMismatch ProtocolTag ProtocolTag

datatype SystemInvariantSubreason = OwnerMismatch | ProtocolTagMismatch

fun system_subreason :: "SystemInvariantError \<Rightarrow> SystemInvariantSubreason" where
  "system_subreason (SieOwnerMismatch _ _) = OwnerMismatch"
| "system_subreason (SieProtocolTagMismatch _ _) = ProtocolTagMismatch"

datatype RuleKind =
    RequireFreshState | MaxOracleStalenessMs | AllowedLendingProtocols | AllowedMints | MaxActionInputAmount

datatype RuleRejectionDetail =
    ProtocolNativeStale | FetchAgeExceeded | OracleFeedSetEmpty | OraclePublishFreshnessUnknown
  | OraclePublishAgeExceeded | ProtocolNotAllowed | MintNotAllowed | ReserveNotInSnapshot
  | RepayWithoutDebt | WithdrawWithoutDeposit | WithdrawWithDebt | NoCapConfigured | AmountOverCap

datatype HardBlockReason =
    SystemInvariantFailed SystemInvariantSubreason
  | RuleRejected RuleKind RuleRejectionDetail

datatype LendingPolicyVerdict = Pass | HardBlock HardBlockReason

section \<open>The gate and the rules\<close>

definition check_system_invariants ::
  "LendingSnapshot \<Rightarrow> pubkey \<Rightarrow> ProtocolTag \<Rightarrow> SystemInvariantError + unit" where
  "check_system_invariants snap wallet expected =
    (if ls_protocol_tag snap \<noteq> expected then Inl (SieProtocolTagMismatch (ls_protocol_tag snap) expected)
     else if lo_owner (ls_obligation snap) \<noteq> wallet then Inl (SieOwnerMismatch (lo_owner (ls_obligation snap)) wallet)
     else Inr ())"

definition CONSERVATIVE_SLOT_MS :: u64 where "CONSERVATIVE_SLOT_MS = 400"

definition require_fresh_state :: "LendingSnapshot \<Rightarrow> LendingRuleConfig \<Rightarrow> RuleRejectionDetail + unit" where
  "require_fresh_state snap cfg =
    (if lo_protocol_native_stale (ls_obligation snap) = Stale then Inl ProtocolNativeStale
     else if \<exists>r \<in> set (ls_reserves snap). lr_protocol_native_stale r = Stale then Inl ProtocolNativeStale
     else let max_slots = ms_raw (max_fetch_age cfg) div CONSERVATIVE_SLOT_MS in
     if slots_since (ls_fetched_at snap) (lo_freshness (ls_obligation snap)) > max_slots then Inl FetchAgeExceeded
     else if \<exists>r \<in> set (ls_reserves snap). slots_since (ls_fetched_at snap) (lr_freshness r) > max_slots
     then Inl FetchAgeExceeded
     else Inr ())"

fun feeds_fresh :: "ChainSlot \<Rightarrow> u64 \<Rightarrow> OracleFeed list \<Rightarrow> RuleRejectionDetail + unit" where
  "feeds_fresh now max_slots [] = Inr ()"
| "feeds_fresh now max_slots (f # fs) =
    (case of_publish f of
       UnknownFreshness \<Rightarrow> Inl OraclePublishFreshnessUnknown
     | KnownSlot s \<Rightarrow>
         if slots_since now s > max_slots then Inl OraclePublishAgeExceeded else feeds_fresh now max_slots fs)"

definition max_oracle_staleness ::
  "LendingSnapshot \<Rightarrow> ProposedAction \<Rightarrow> LendingRuleConfig \<Rightarrow> RuleRejectionDetail + unit" where
  "max_oracle_staleness snap act cfg =
    bindE (ok_or (List.find (\<lambda>s. os_priced_asset s = reserve_mint act) (ls_oracles snap)) OracleFeedSetEmpty) (\<lambda>fset.
    if os_feeds fset = [] then Inl OracleFeedSetEmpty
    else feeds_fresh (ls_fetched_at snap) (ms_raw (max_publish_age cfg) div CONSERVATIVE_SLOT_MS) (os_feeds fset))"

definition allowed_lending_protocols :: "ProposedAction \<Rightarrow> LendingRuleConfig \<Rightarrow> RuleRejectionDetail + unit" where
  "allowed_lending_protocols act cfg =
    (if protocol act \<in> set (protocol_allowlist cfg) then Inr () else Inl ProtocolNotAllowed)"

definition allowed_mints ::
  "LendingSnapshot \<Rightarrow> ProposedAction \<Rightarrow> LendingRuleConfig \<Rightarrow> RuleRejectionDetail + unit" where
  "allowed_mints snap act cfg =
    (let mint = reserve_mint act; ob = ls_obligation snap in
     if mint \<notin> set (mint_allowlist cfg) then Inl MintNotAllowed
     else bindE (ok_or (List.find (\<lambda>r. lr_mint r = mint) (ls_reserves snap)) ReserveNotInSnapshot) (\<lambda>rsv.
     case action_kind act of
       KDeposit \<Rightarrow> Inr ()
     | KRepay \<Rightarrow>
         if \<exists>b \<in> set (lo_borrows ob). ow_reserve b = lr_identifier rsv then Inr () else Inl RepayWithoutDebt
     | KWithdraw \<Rightarrow>
         if \<not> (\<exists>d \<in> set (lo_deposits ob). od_reserve d = lr_identifier rsv \<and> collateral_raw (od_deposited d) > 0)
         then Inl WithdrawWithoutDeposit
         else if \<exists>b \<in> set (lo_borrows ob). wad_raw (ow_borrowed_wads b) > 0 then Inl WithdrawWithDebt
         else Inr ()))"

fun max_action_input_amount :: "ProposedAction \<Rightarrow> LendingRuleConfig \<Rightarrow> RuleRejectionDetail + unit" where
  "max_action_input_amount (ActWithdraw p mint amount) cfg =
    (case List.find (\<lambda>(m, _). m = mint) (per_mint_collateral_caps cfg) of
       None \<Rightarrow> Inl NoCapConfigured
     | Some (_, cap) \<Rightarrow> if amount > cap then Inl AmountOverCap else Inr ())"
| "max_action_input_amount (ActDeposit p mint amount) cfg =
    (case List.find (\<lambda>(m, _). m = mint) (per_mint_caps cfg) of
       None \<Rightarrow> Inl NoCapConfigured
     | Some (_, cap) \<Rightarrow> if amount > cap then Inl AmountOverCap else Inr ())"
| "max_action_input_amount (ActRepay p mint amount) cfg =
    (case List.find (\<lambda>(m, _). m = mint) (per_mint_caps cfg) of
       None \<Rightarrow> Inl NoCapConfigured
     | Some (_, cap) \<Rightarrow> if amount > cap then Inl AmountOverCap else Inr ())"

definition rule_gate :: "RuleKind \<Rightarrow> RuleRejectionDetail + unit \<Rightarrow> HardBlockReason + unit" where
  "rule_gate kind r = map_err (RuleRejected kind) r"

definition lending_gates ::
  "LendingSnapshot \<Rightarrow> ProposedAction \<Rightarrow> LendingRuleConfig \<Rightarrow> pubkey \<Rightarrow> HardBlockReason + unit" where
  "lending_gates snap act cfg wallet =
    bindE (map_err (\<lambda>e. SystemInvariantFailed (system_subreason e))
      (check_system_invariants snap wallet (protocol act))) (\<lambda>_.
    bindE (rule_gate RequireFreshState (require_fresh_state snap cfg)) (\<lambda>_.
    bindE (rule_gate MaxOracleStalenessMs (max_oracle_staleness snap act cfg)) (\<lambda>_.
    bindE (rule_gate AllowedLendingProtocols (allowed_lending_protocols act cfg)) (\<lambda>_.
    bindE (rule_gate AllowedMints (allowed_mints snap act cfg)) (\<lambda>_.
    rule_gate MaxActionInputAmount (max_action_input_amount act cfg))))))"

definition evaluate_lending_policy ::
  "LendingSnapshot \<Rightarrow> ProposedAction \<Rightarrow> LendingRuleConfig \<Rightarrow> pubkey \<Rightarrow> LendingPolicyVerdict" where
  "evaluate_lending_policy snap act cfg wallet =
    (case lending_gates snap act cfg wallet of Inl reason \<Rightarrow> HardBlock reason | Inr _ \<Rightarrow> Pass)"

section \<open>What passes\<close>

text \<open>The age of a component in slots; a slot from after the snapshot counts as new.\<close>

definition slot_age :: "LendingSnapshot \<Rightarrow> ChainSlot \<Rightarrow> nat" where
  "slot_age snap s = unat (slot_raw (ls_fetched_at snap)) - unat (slot_raw s)"

lemma unat_slots_since: "unat (slots_since now s) = unat (slot_raw now) - unat (slot_raw s)"
  by (simp add: slots_since_def unat_sub word_le_nat_alt)

lemma slots_since_le: "\<not> slots_since (ls_fetched_at snap) s > m \<longleftrightarrow> slot_age snap s \<le> unat m"
  by (simp add: word_less_nat_alt unat_slots_since slot_age_def not_less)

definition slots_of :: "DurationMs \<Rightarrow> nat" where
  "slots_of d = unat (ms_raw d) div 400"

lemma unat_max_slots: "unat (ms_raw d div CONSERVATIVE_SLOT_MS) = slots_of d"
  by (simp add: slots_of_def CONSERVATIVE_SLOT_MS_def unat_div)

definition state_fresh :: "LendingSnapshot \<Rightarrow> nat \<Rightarrow> bool" where
  "state_fresh snap n \<longleftrightarrow>
     lo_protocol_native_stale (ls_obligation snap) = Fresh \<and> slot_age snap (lo_freshness (ls_obligation snap)) \<le> n
     \<and> (\<forall>r \<in> set (ls_reserves snap). lr_protocol_native_stale r = Fresh \<and> slot_age snap (lr_freshness r) \<le> n)"

definition oracle_fresh :: "LendingSnapshot \<Rightarrow> pubkey \<Rightarrow> nat \<Rightarrow> bool" where
  "oracle_fresh snap mint n \<longleftrightarrow>
     (\<exists>fset. List.find (\<lambda>s. os_priced_asset s = mint) (ls_oracles snap) = Some fset \<and> os_feeds fset \<noteq> []
        \<and> (\<forall>f \<in> set (os_feeds fset). \<exists>s. of_publish f = KnownSlot s \<and> slot_age snap s \<le> n))"

definition position_allows :: "LendingSnapshot \<Rightarrow> ProposedAction \<Rightarrow> bool" where
  "position_allows snap act \<longleftrightarrow>
     (\<exists>rsv. List.find (\<lambda>r. lr_mint r = reserve_mint act) (ls_reserves snap) = Some rsv
        \<and> (case action_kind act of
             KDeposit \<Rightarrow> True
           | KRepay \<Rightarrow> \<exists>b \<in> set (lo_borrows (ls_obligation snap)). ow_reserve b = lr_identifier rsv
           | KWithdraw \<Rightarrow> (\<exists>d \<in> set (lo_deposits (ls_obligation snap)).
                 od_reserve d = lr_identifier rsv \<and> 0 < collateral_raw (od_deposited d))
               \<and> (\<forall>b \<in> set (lo_borrows (ls_obligation snap)). wad_raw (ow_borrowed_wads b) = 0)))"

text \<open>The cap of a mint is its first entry.\<close>

fun within_cap :: "ProposedAction \<Rightarrow> LendingRuleConfig \<Rightarrow> bool" where
  "within_cap (ActDeposit _ mint a) cfg \<longleftrightarrow> (\<exists>cap. map_of (per_mint_caps cfg) mint = Some cap \<and> a \<le> cap)"
| "within_cap (ActRepay _ mint a) cfg \<longleftrightarrow> (\<exists>cap. map_of (per_mint_caps cfg) mint = Some cap \<and> a \<le> cap)"
| "within_cap (ActWithdraw _ mint a) cfg \<longleftrightarrow> (\<exists>cap. map_of (per_mint_collateral_caps cfg) mint = Some cap \<and> a \<le> cap)"

definition lending_admissible :: "LendingSnapshot \<Rightarrow> ProposedAction \<Rightarrow> LendingRuleConfig \<Rightarrow> pubkey \<Rightarrow> bool" where
  "lending_admissible snap act cfg wallet \<longleftrightarrow>
     ls_protocol_tag snap = protocol act \<and> lo_owner (ls_obligation snap) = wallet
     \<and> state_fresh snap (slots_of (max_fetch_age cfg))
     \<and> oracle_fresh snap (reserve_mint act) (slots_of (max_publish_age cfg))
     \<and> protocol act \<in> set (protocol_allowlist cfg) \<and> reserve_mint act \<in> set (mint_allowlist cfg)
     \<and> position_allows snap act \<and> within_cap act cfg"

lemma stale_cases: "m \<noteq> Stale \<longleftrightarrow> m = Fresh"
  by (cases m) simp_all

lemma require_fresh_state_Inr [ok_simps]:
  "require_fresh_state snap cfg = Inr u \<longleftrightarrow> state_fresh snap (slots_of (max_fetch_age cfg))"
proof -
  let ?m = "ms_raw (max_fetch_age cfg) div CONSERVATIVE_SLOT_MS"
  have "require_fresh_state snap cfg = Inr u \<longleftrightarrow>
      lo_protocol_native_stale (ls_obligation snap) \<noteq> Stale
      \<and> (\<forall>r \<in> set (ls_reserves snap). lr_protocol_native_stale r \<noteq> Stale)
      \<and> \<not> slots_since (ls_fetched_at snap) (lo_freshness (ls_obligation snap)) > ?m
      \<and> (\<forall>r \<in> set (ls_reserves snap). \<not> slots_since (ls_fetched_at snap) (lr_freshness r) > ?m)"
    by (simp add: require_fresh_state_def Let_def)
  then show ?thesis
    unfolding slots_since_le unat_max_slots stale_cases state_fresh_def by blast
qed

lemma feeds_fresh_Inr [ok_simps]:
  "feeds_fresh (ls_fetched_at snap) m fs = Inr u \<longleftrightarrow>
   (\<forall>f \<in> set fs. \<exists>s. of_publish f = KnownSlot s \<and> slot_age snap s \<le> unat m)"
proof (induction fs)
  case (Cons f fs)
  then show ?case
    using slots_since_le [where m = m and snap = snap] by (cases "of_publish f") auto
qed simp

lemma max_oracle_staleness_Inr [ok_simps]:
  "max_oracle_staleness snap act cfg = Inr u \<longleftrightarrow> oracle_fresh snap (reserve_mint act) (slots_of (max_publish_age cfg))"
  by (auto simp: max_oracle_staleness_def oracle_fresh_def ok_simps unat_max_slots)

lemma allowed_mints_Inr [ok_simps]:
  "allowed_mints snap act cfg = Inr u \<longleftrightarrow> reserve_mint act \<in> set (mint_allowlist cfg) \<and> position_allows snap act"
  by (cases act) (auto simp: allowed_mints_def position_allows_def ok_simps Let_def word_gt_0)

lemma find_pair_map_of: "List.find (\<lambda>(m, _). m = k) xs = map_option (Pair k) (map_of xs k)"
  by (induction xs) auto

lemma max_action_input_amount_Inr [ok_simps]:
  "max_action_input_amount act cfg = Inr u \<longleftrightarrow> within_cap act cfg"
  by (cases act) (auto simp: find_pair_map_of not_less split: option.splits)

lemma rule_gate_Inr [ok_simps]: "rule_gate k r = Inr u \<longleftrightarrow> r = Inr u"
  by (simp add: rule_gate_def map_err_Inr)

section \<open>Properties\<close>

definition gate_list ::
  "LendingSnapshot \<Rightarrow> ProposedAction \<Rightarrow> LendingRuleConfig \<Rightarrow> pubkey \<Rightarrow> (HardBlockReason + unit) list" where
  "gate_list snap act cfg wallet =
    [map_err (\<lambda>e. SystemInvariantFailed (system_subreason e)) (check_system_invariants snap wallet (protocol act)),
     rule_gate RequireFreshState (require_fresh_state snap cfg),
     rule_gate MaxOracleStalenessMs (max_oracle_staleness snap act cfg),
     rule_gate AllowedLendingProtocols (allowed_lending_protocols act cfg),
     rule_gate AllowedMints (allowed_mints snap act cfg),
     rule_gate MaxActionInputAmount (max_action_input_amount act cfg)]"

text \<open>The first error of a list of checks.\<close>

fun first_error :: "('e + unit) list \<Rightarrow> 'e + unit" where
  "first_error [] = Inr ()"
| "first_error (c # cs) = bindE c (\<lambda>_. first_error cs)"

lemma first_error_Inl:
  "first_error cs = Inl e \<longleftrightarrow> (\<exists>i < length cs. take i cs = replicate i (Inr ()) \<and> cs ! i = Inl e)"
proof (induction cs)
  case (Cons c cs)
  show ?case
  proof (cases c)
    case (Inl a)
    have "(\<exists>i < Suc (length cs). take i (c # cs) = replicate i (Inr ()) \<and> (c # cs) ! i = Inl e) \<longleftrightarrow> a = e"
    proof
      assume "\<exists>i < Suc (length cs). take i (c # cs) = replicate i (Inr ()) \<and> (c # cs) ! i = Inl e"
      then obtain i where "take i (c # cs) = replicate i (Inr ())" "(c # cs) ! i = Inl e" by blast
      then show "a = e" using Inl by (cases i) auto
    qed (use Inl in \<open>auto intro!: exI [of _ 0]\<close>)
    then show ?thesis using Inl by simp
  next
    case (Inr u)
    then show ?thesis using Cons.IH by (simp add: Ex_less_Suc2)
  qed
qed simp

lemma bindE_unit: "bindE r Inr = r"
  by (cases r) simp_all

lemma length_gate_list: "length (gate_list snap act cfg wallet) = 6"
  by (simp add: gate_list_def)

lemma lending_gates_first: "lending_gates snap act cfg wallet = first_error (gate_list snap act cfg wallet)"
  by (simp add: lending_gates_def gate_list_def bindE_unit)

lemma lending_pass:
  "evaluate_lending_policy snap act cfg wallet = Pass \<longleftrightarrow> lending_admissible snap act cfg wallet"
proof -
  have "evaluate_lending_policy snap act cfg wallet = Pass \<longleftrightarrow> lending_gates snap act cfg wallet = Inr ()"
    by (auto simp: evaluate_lending_policy_def split: sum.splits)
  also have "\<dots> \<longleftrightarrow> lending_admissible snap act cfg wallet"
    by (auto simp: lending_gates_def ok_simps map_err_Inr check_system_invariants_def allowed_lending_protocols_def
        lending_admissible_def)
  finally show ?thesis .
qed

text \<open>
  C36: the lending policy, exactly. An action passes if and only if the snapshot is of its protocol and its obligation
  belongs to the session wallet, obligation and reserves are unmarked and fetched within the configured age, the feeds of
  the touched asset exist and were all published within theirs, protocol and mint are allowed, the position allows the
  action (a withdrawal needs a deposit in the reserve and no debt at all, a repayment an entry among the borrows), and the
  amount is within the mint's cap in the action's own unit. Otherwise it is blocked with the reason of the first failing
  gate, in the fixed order: invariants, freshness, oracle, protocol, mint, amount.\<close>

theorem lending_policy_exact:
  "(evaluate_lending_policy snap act cfg wallet = Pass \<longleftrightarrow> lending_admissible snap act cfg wallet)
   \<and> (evaluate_lending_policy snap act cfg wallet = HardBlock reason \<longleftrightarrow>
        (\<exists>i < 6. take i (gate_list snap act cfg wallet) = replicate i (Inr ())
           \<and> gate_list snap act cfg wallet ! i = Inl reason))"
proof -
  have "evaluate_lending_policy snap act cfg wallet = HardBlock reason \<longleftrightarrow> lending_gates snap act cfg wallet = Inl reason"
    by (auto simp: evaluate_lending_policy_def split: sum.splits)
  also have "\<dots> \<longleftrightarrow> (\<exists>i < 6. take i (gate_list snap act cfg wallet) = replicate i (Inr ())
           \<and> gate_list snap act cfg wallet ! i = Inl reason)"
    unfolding lending_gates_first first_error_Inl length_gate_list ..
  finally show ?thesis using lending_pass by blast
qed

end
