(* ===== verification/Solend_Mapping.thy ===== *)
theory Solend_Mapping
  imports Solend_Raw Lending_Policy Rust_Text
begin

text \<open>
  \<open>crates/gateway/src/integrations/solend\<close>: the mapping of decoded Solend accounts into the
  protocol-agnostic snapshot of the lending policy (\<open>mapping.rs\<close>) and the decoder of an oracle's
  publish slot (\<open>oracle_decoder.rs\<close>). Printing a key in base58 is the SDK's and so a parameter.
\<close>

section \<open>Inputs\<close>

datatype FreshnessKind = SnapshotKind | ObligationKind | ReserveKind | OracleKind

datatype MappingError =
    ObligationReserveMissing pubkey
  | ReserveMarketMismatch pubkey
  | FreshnessOrdering FreshnessKind

record OracleAccountInfo =
  oa_pubkey :: pubkey
  oa_owner_program :: pubkey
  oa_fetched_at_slot :: ChainSlot
  oa_publish :: FeedPublishFreshness

record ReserveInput =
  ri_pubkey :: pubkey
  ri_raw :: SolendReserveRaw
  ri_fetched_at_slot :: ChainSlot

record SolendAssemblyInputs =
  ai_session_wallet :: pubkey
  ai_obligation_pubkey :: pubkey
  ai_obligation_raw :: SolendObligationRaw
  ai_obligation_fetched_at_slot :: ChainSlot
  ai_reserves :: "ReserveInput list"
  ai_oracles :: "OracleAccountInfo list"
  ai_snapshot_observed_slot :: ChainSlot

record FirstDepositAssemblyInputs =
  fi_session_wallet :: pubkey
  fi_obligation_pubkey :: pubkey
  fi_lending_market :: pubkey
  fi_target_reserves :: "ReserveInput list"
  fi_oracles :: "OracleAccountInfo list"
  fi_snapshot_observed_slot :: ChainSlot

section \<open>Oracle providers\<close>

definition classify_oracle_provider :: "(pubkey \<Rightarrow> string) \<Rightarrow> pubkey \<Rightarrow> OracleProvider" where
  "classify_oracle_provider to_string ow =
    (if to_string ow = ''rec5EKMGg6MxZYaMdyBfgwp4d5rB9T1VQH5pJv5LtFJ'' then PythSolanaReceiver
     else if to_string ow = ''SW1TCH7qEPTdLsDHRgPuMQjbQxKdH2aBStViMFnt64f'' then SwitchboardOnDemand
     else UnknownProvider)"

definition PYTH_PRICE_UPDATE_V2_LEN :: nat where "PYTH_PRICE_UPDATE_V2_LEN = 134"

definition PYTH_PRICE_UPDATE_V2_DISCRIMINATOR :: "u8 list" where
  "PYTH_PRICE_UPDATE_V2_DISCRIMINATOR = [0x22, 0xf1, 0x23, 0x63, 0x9d, 0x7e, 0xf4, 0xcd]"

text \<open>A slice or an index outside the account would panic: \<open>None\<close>.\<close>

definition decode_pyth_solana_receiver_publish_freshness :: "u8 list \<Rightarrow> FeedPublishFreshness option" where
  "decode_pyth_solana_receiver_publish_freshness bs =
    (if length bs \<noteq> PYTH_PRICE_UPDATE_V2_LEN then Some UnknownFreshness
     else Option.bind (get_range bs 0 8) (\<lambda>disc.
     if disc \<noteq> PYTH_PRICE_UPDATE_V2_DISCRIMINATOR then Some UnknownFreshness
     else Option.bind (get_index bs 40) (\<lambda>tag.
     case (if tag = 0 then Some 42 else if tag = 1 then Some 41 else None) of
       None \<Rightarrow> Some UnknownFreshness
     | Some price_message_start \<Rightarrow>
         let posted_slot_start = price_message_start + 84 in
         if length bs < posted_slot_start + 8 then Some UnknownFreshness
         else map_option (\<lambda>b. KnownSlot (ChainSlot (from_le_bytes b))) (get_range bs posted_slot_start 8))))"

definition decode_switchboard_on_demand_publish_freshness :: "u8 list \<Rightarrow> FeedPublishFreshness" where
  "decode_switchboard_on_demand_publish_freshness bs = UnknownFreshness"

definition extract_publish_freshness ::
  "(pubkey \<Rightarrow> string) \<Rightarrow> pubkey \<Rightarrow> u8 list \<Rightarrow> FeedPublishFreshness option" where
  "extract_publish_freshness to_string ow bs =
    (case classify_oracle_provider to_string ow of
       PythSolanaReceiver \<Rightarrow> decode_pyth_solana_receiver_publish_freshness bs
     | SwitchboardOnDemand \<Rightarrow> Some (decode_switchboard_on_demand_publish_freshness bs)
     | UnknownProvider \<Rightarrow> Some UnknownFreshness)"

section \<open>Mapping\<close>

definition stale_to_marker :: "bool \<Rightarrow> StaleMarker" where
  "stale_to_marker stale = (if stale then Stale else Fresh)"

definition find_reserve :: "ReserveInput list \<Rightarrow> pubkey \<Rightarrow> MappingError + ReserveInput" where
  "find_reserve rs target = ok_or (List.find (\<lambda>r. ri_pubkey r = target) rs) (ObligationReserveMissing target)"

definition map_reserve :: "ReserveInput \<Rightarrow> LendingReserve" where
  "map_reserve r = \<lparr>lr_identifier = ri_pubkey r, lr_mint = re_liquidity_mint (ri_raw r),
     lr_mint_decimals = re_liquidity_mint_decimals (ri_raw r),
     lr_protocol_last_updated_slot = ChainSlot (re_last_update_slot (ri_raw r)),
     lr_protocol_native_stale = stale_to_marker (re_last_update_stale (ri_raw r)),
     lr_freshness = ri_fetched_at_slot r, lr_liquidity_supply_pubkey = re_liquidity_supply (ri_raw r),
     lr_collateral_mint_pubkey = re_collateral_mint (ri_raw r),
     lr_collateral_supply_pubkey = re_collateral_supply (ri_raw r),
     lr_available_underlying = UnderlyingAmount (re_liquidity_available_amount (ri_raw r))\<rparr>"

text \<open>The feed of one oracle slot of a reserve: none for the sentinel or an account that was not fetched.\<close>

definition slot_feeds :: "(pubkey \<Rightarrow> string) \<Rightarrow> OracleAccountInfo list \<Rightarrow> pubkey \<Rightarrow> OracleFeed list" where
  "slot_feeds to_string oracles slot_pubkey =
    (if is_null_oracle_sentinel to_string slot_pubkey then []
     else case List.find (\<lambda>o'. oa_pubkey o' = slot_pubkey) oracles of
       None \<Rightarrow> []
     | Some probe \<Rightarrow> [\<lparr>of_identifier = oa_pubkey probe,
         of_provider = classify_oracle_provider to_string (oa_owner_program probe),
         of_publish = oa_publish probe, of_fetch = oa_fetched_at_slot probe\<rparr>])"

definition map_feed_set :: "(pubkey \<Rightarrow> string) \<Rightarrow> OracleAccountInfo list \<Rightarrow> ReserveInput \<Rightarrow> OracleFeedSet" where
  "map_feed_set to_string oracles r = \<lparr>os_priced_asset = re_liquidity_mint (ri_raw r),
     os_feeds = concat (map (slot_feeds to_string oracles)
       [re_pyth_oracle (ri_raw r), re_switchboard_oracle (ri_raw r)])\<rparr>"

definition build_reserves_and_oracles ::
  "(pubkey \<Rightarrow> string) \<Rightarrow> ReserveInput list \<Rightarrow> OracleAccountInfo list \<Rightarrow> LendingReserve list \<times> OracleFeedSet list" where
  "build_reserves_and_oracles to_string rs oracles = (map map_reserve rs, map (map_feed_set to_string oracles) rs)"

definition market_check :: "pubkey \<Rightarrow> unit \<Rightarrow> ReserveInput \<Rightarrow> MappingError + unit" where
  "market_check market _ r =
    (if re_lending_market (ri_raw r) \<noteq> market then Inl (ReserveMarketMismatch (ri_pubkey r)) else Inr ())"

definition map_obligation :: "SolendAssemblyInputs \<Rightarrow> Obligation" where
  "map_obligation inputs = (let raw = ai_obligation_raw inputs in
     \<lparr>lo_identifier = ai_obligation_pubkey inputs, lo_owner = ob_owner raw,
      lo_protocol_last_updated_slot = ChainSlot (ob_last_update_slot raw),
      lo_protocol_native_stale = stale_to_marker (ob_last_update_stale raw),
      lo_deposits = map (\<lambda>d. \<lparr>od_reserve = deposit_reserve d,
        od_deposited = CollateralTokenAmount (deposited_amount d)\<rparr>) (ob_deposits raw),
      lo_borrows = map (\<lambda>b. \<lparr>ow_reserve = borrow_reserve b,
        ow_borrowed_wads = WadAmount (borrowed_amount_wads b)\<rparr>) (ob_borrows raw),
      lo_freshness = ai_obligation_fetched_at_slot inputs\<rparr>)"

definition map_snapshot :: "(pubkey \<Rightarrow> string) \<Rightarrow> SolendAssemblyInputs \<Rightarrow> MappingError + LendingSnapshot" where
  "map_snapshot to_string inputs =
    (let rs = ai_reserves inputs; raw = ai_obligation_raw inputs in
     bindE (foldE (\<lambda>_ d. bindE (find_reserve rs (deposit_reserve d)) (\<lambda>_. Inr ())) () (ob_deposits raw)) (\<lambda>_.
     bindE (foldE (\<lambda>_ b. bindE (find_reserve rs (borrow_reserve b)) (\<lambda>_. Inr ())) () (ob_borrows raw)) (\<lambda>_.
     bindE (foldE (market_check (ob_lending_market raw)) () rs) (\<lambda>_.
     let (reserves_out, oracles_out) = build_reserves_and_oracles to_string rs (ai_oracles inputs) in
     Inr \<lparr>ls_protocol_tag = ProtocolTag.Solend, ls_session_wallet = ai_session_wallet inputs,
       ls_fetched_at = ai_snapshot_observed_slot inputs, ls_obligation = map_obligation inputs,
       ls_reserves = reserves_out, ls_oracles = oracles_out\<rparr>))))"

definition map_snapshot_for_first_deposit ::
  "(pubkey \<Rightarrow> string) \<Rightarrow> FirstDepositAssemblyInputs \<Rightarrow> MappingError + LendingSnapshot" where
  "map_snapshot_for_first_deposit to_string inputs =
    bindE (foldE (market_check (fi_lending_market inputs)) () (fi_target_reserves inputs)) (\<lambda>_.
    let (reserves_out, oracles_out) = build_reserves_and_oracles to_string (fi_target_reserves inputs) (fi_oracles inputs) in
    Inr \<lparr>ls_protocol_tag = ProtocolTag.Solend, ls_session_wallet = fi_session_wallet inputs,
      ls_fetched_at = fi_snapshot_observed_slot inputs,
      ls_obligation = \<lparr>lo_identifier = fi_obligation_pubkey inputs, lo_owner = fi_session_wallet inputs,
        lo_protocol_last_updated_slot = ChainSlot 0, lo_protocol_native_stale = Fresh, lo_deposits = [], lo_borrows = [],
        lo_freshness = fi_snapshot_observed_slot inputs\<rparr>,
      ls_reserves = reserves_out, ls_oracles = oracles_out\<rparr>)"

section \<open>What the mapping keeps\<close>

text \<open>
  Base58 text determines the key it was printed from.\<close>

definition display_law :: "(pubkey \<Rightarrow> string) \<Rightarrow> bool" where
  "display_law to_string \<longleftrightarrow> (\<forall>k. pubkey_of (to_string k) = k)"

lemma display_eq: "display_law to_string \<Longrightarrow> to_string k = s \<Longrightarrow> k = pubkey_of s"
  by (auto simp: display_law_def)

text \<open>A price account of the Pyth receiver, posted at the slot given.\<close>

definition pyth_posted :: "u8 list \<Rightarrow> u64 \<Rightarrow> bool" where
  "pyth_posted bs s \<longleftrightarrow> length bs = 134 \<and> take 8 bs = PYTH_PRICE_UPDATE_V2_DISCRIMINATOR
     \<and> (\<exists>start. (bs ! 40 = 0 \<and> start = 126 \<or> bs ! 40 = 1 \<and> start = 125) \<and> s = from_le_bytes (take 8 (drop start bs)))"

lemma decode_pyth_cases:
  "decode_pyth_solana_receiver_publish_freshness bs = Some (KnownSlot (ChainSlot s)) \<longleftrightarrow> pyth_posted bs s"
  "decode_pyth_solana_receiver_publish_freshness bs \<noteq> None"
  by (auto simp: decode_pyth_solana_receiver_publish_freshness_def pyth_posted_def PYTH_PRICE_UPDATE_V2_LEN_def
      get_range_def get_index_def split: if_splits)

lemma extract_total: "extract_publish_freshness to_string ow bs \<noteq> None"
  using decode_pyth_cases(2) by (simp add: extract_publish_freshness_def split: OracleProvider.split)

lemma extract_known:
  assumes "display_law to_string" "extract_publish_freshness to_string ow bs = Some (KnownSlot (ChainSlot s))"
  shows "ow = pubkey_of ''rec5EKMGg6MxZYaMdyBfgwp4d5rB9T1VQH5pJv5LtFJ'' \<and> pyth_posted bs s"
proof -
  have ow: "to_string ow = ''rec5EKMGg6MxZYaMdyBfgwp4d5rB9T1VQH5pJv5LtFJ''"
    and d: "decode_pyth_solana_receiver_publish_freshness bs = Some (KnownSlot (ChainSlot s))"
    using assms(2) by (auto simp: extract_publish_freshness_def classify_oracle_provider_def
        decode_switchboard_on_demand_publish_freshness_def split: if_splits)
  from d have "pyth_posted bs s" by (simp only: decode_pyth_cases(1))
  with display_eq [OF assms(1) ow] show ?thesis by simp
qed

lemma foldE_unit: "foldE f () xs = Inr u \<longleftrightarrow> (\<forall>x \<in> set xs. f () x = Inr ())"
  by (induction xs) (auto simp: bindE_Inr)

lemma find_reserve_Inr:
  "find_reserve rs k = Inr r \<longleftrightarrow> List.find (\<lambda>r. ri_pubkey r = k) rs = Some r"
  by (simp add: find_reserve_def ok_or_Inr)

lemma find_some_iff: "(\<exists>r. List.find P xs = Some r) \<longleftrightarrow> (\<exists>x \<in> set xs. P x)"
  by (cases "List.find P xs") (auto simp: find_None_iff find_Some_iff)

lemma map_snapshot_Inr:
  "map_snapshot to_string inp = Inr snap \<longleftrightarrow>
    (\<forall>d \<in> set (ob_deposits (ai_obligation_raw inp)). \<exists>r \<in> set (ai_reserves inp). ri_pubkey r = deposit_reserve d)
    \<and> (\<forall>b \<in> set (ob_borrows (ai_obligation_raw inp)). \<exists>r \<in> set (ai_reserves inp). ri_pubkey r = borrow_reserve b)
    \<and> (\<forall>r \<in> set (ai_reserves inp). re_lending_market (ri_raw r) = ob_lending_market (ai_obligation_raw inp))
    \<and> snap = \<lparr>ls_protocol_tag = ProtocolTag.Solend, ls_session_wallet = ai_session_wallet inp,
       ls_fetched_at = ai_snapshot_observed_slot inp, ls_obligation = map_obligation inp,
       ls_reserves = map map_reserve (ai_reserves inp),
       ls_oracles = map (map_feed_set to_string (ai_oracles inp)) (ai_reserves inp)\<rparr>"
  by (auto simp: map_snapshot_def Let_def build_reserves_and_oracles_def bindE_Inr foldE_unit find_reserve_Inr
      find_some_iff market_check_def)

lemma map_first_deposit_Inr:
  "map_snapshot_for_first_deposit to_string inp = Inr snap \<Longrightarrow>
    (\<forall>r \<in> set (fi_target_reserves inp). re_lending_market (ri_raw r) = fi_lending_market inp)
    \<and> ls_reserves snap = map map_reserve (fi_target_reserves inp)
    \<and> ls_oracles snap = map (map_feed_set to_string (fi_oracles inp)) (fi_target_reserves inp)
    \<and> ls_fetched_at snap = fi_snapshot_observed_slot inp"
  by (auto simp: map_snapshot_for_first_deposit_def build_reserves_and_oracles_def bindE_Inr foldE_unit market_check_def
      split: if_splits)

end
