(* ===== verification/Solend_Assembler.thy ===== *)
theory Solend_Assembler
  imports Solend_Mapping
begin

text \<open>
  \<open>crates/gateway/src/integrations/solend/assembler.rs\<close>: the assembly of a deposit snapshot from fetched accounts. The
  fetcher, the derivation of token accounts and the printing of a key are parameters. The result is \<open>None\<close> where an
  index or a slice would panic, which the assembler is shown never to do.
\<close>

section \<open>Interface\<close>

definition USDC_MINT_BS58 :: string where "USDC_MINT_BS58 = ''EPjFWdd5AufqSSqeM2qN1xzybapC8G4wEGGkZwyTDt1v''"
definition USDC_RESERVE_BS58 :: string where "USDC_RESERVE_BS58 = ''BgxfHJDzm44T7XG68MYKx7YisTjZu73tVovyZSjJMpmw''"
definition PYTH_SOLANA_RECEIVER_PROGRAM_BS58 :: string where
  "PYTH_SOLANA_RECEIVER_PROGRAM_BS58 = ''rec5EKMGg6MxZYaMdyBfgwp4d5rB9T1VQH5pJv5LtFJ''"
definition SPL_TOKEN_ACCOUNT_LEN :: nat where "SPL_TOKEN_ACCOUNT_LEN = 165"

datatype AtaKind = SourceAta | CollateralAta

datatype FetchError = RpcFailure string

record assembler_env =
  fe_get_slot :: "FetchError + u64"
  fe_get_account :: "pubkey \<Rightarrow> FetchError + account option"
  fe_get_multiple_accounts :: "pubkey list \<Rightarrow> FetchError + account option list"
  fe_ata :: "pubkey \<Rightarrow> pubkey \<Rightarrow> pubkey \<Rightarrow> pubkey"
  fe_display :: "pubkey \<Rightarrow> string"

datatype SolendAssemblyError =
    UnsupportedReserveMint pubkey pubkey
  | ReserveAccountMissing pubkey
  | ReserveDecodeFailed pubkey DecodeError
  | ObligationDecodeFailed pubkey DecodeError
  | ObligationAccountOwnerMismatch pubkey pubkey pubkey
  | OracleAccountMissing pubkey
  | InvalidAccountOwner pubkey pubkey pubkey
  | RpcFetchFailed string
  | FirstDepositMappingFailed MappingError
  | SnapshotMappingFailed MappingError
  | InvalidTokenAccountOwnerProgram AtaKind pubkey pubkey
  | InvalidTokenAccountDataLen AtaKind nat nat
  | InvalidTokenAccountMint AtaKind pubkey pubkey
  | InvalidTokenAccountOwner AtaKind pubkey pubkey
  | PythOracleOwnerMismatch pubkey pubkey pubkey

fun from_fetch_error :: "FetchError \<Rightarrow> SolendAssemblyError" where
  "from_fetch_error (RpcFailure reason) = RpcFetchFailed reason"

record AssembledSolendDepositSnapshot =
  asd_snapshot :: LendingSnapshot
  asd_obligation_exists :: bool
  asd_source_ata_exists :: bool
  asd_collateral_ata_exists :: bool
  asd_reserve_pubkey :: pubkey
  asd_obligation_pubkey :: pubkey
  asd_source_liquidity_ata :: pubkey
  asd_user_collateral_ata :: pubkey
  asd_lending_market :: pubkey

section \<open>The steps\<close>

definition fetch_reserve :: "assembler_env \<Rightarrow> pubkey \<Rightarrow> (SolendAssemblyError + SolendReserveRaw) option" where
  "fetch_reserve env reserve_pubkey =
    raw_ok (Some (map_err from_fetch_error (fe_get_account env reserve_pubkey))) (\<lambda>found.
    raw_ok (Some (ok_or found (ReserveAccountMissing reserve_pubkey))) (\<lambda>acct.
    let solend_program_id = pubkey_of SOLEND_PROGRAM_ID_BS58 in
    if account.owner acct \<noteq> solend_program_id then
      Some (Inl (InvalidAccountOwner reserve_pubkey (account.owner acct) solend_program_id))
    else map_option (map_err (ReserveDecodeFailed reserve_pubkey)) (raw_decode_reserve (data acct))))"

text \<open>The keys of the batch, and the accounts it returned for the two oracle slots.\<close>

definition batch_keys :: "assembler_env \<Rightarrow> pubkey \<Rightarrow> pubkey \<Rightarrow> pubkey \<Rightarrow> SolendReserveRaw \<Rightarrow> pubkey list" where
  "batch_keys env obligation source_ata coll_ata r =
    [obligation, source_ata, coll_ata]
    @ (if is_null_oracle_sentinel (fe_display env) (re_pyth_oracle r) then [] else [re_pyth_oracle r])
    @ (if is_null_oracle_sentinel (fe_display env) (re_switchboard_oracle r) then [] else [re_switchboard_oracle r])"

definition pyth_idx :: "assembler_env \<Rightarrow> SolendReserveRaw \<Rightarrow> nat option" where
  "pyth_idx env r = (if is_null_oracle_sentinel (fe_display env) (re_pyth_oracle r) then None else Some 3)"

definition switchboard_idx :: "assembler_env \<Rightarrow> SolendReserveRaw \<Rightarrow> nat option" where
  "switchboard_idx env r = (if is_null_oracle_sentinel (fe_display env) (re_switchboard_oracle r) then None
     else Some (if pyth_idx env r = None then 3 else 4))"

text \<open>\<open>idx.and_then(|i| batch[i].clone())\<close>, which panics out of range.\<close>

definition batch_at_idx :: "nat option \<Rightarrow> account option list \<Rightarrow> account option option" where
  "batch_at_idx idx accts = (case idx of None \<Rightarrow> Some None | Some i \<Rightarrow> get_index accts i)"

definition pyth_oracle_info ::
  "assembler_env \<Rightarrow> ChainSlot \<Rightarrow> SolendReserveRaw \<Rightarrow> account option \<Rightarrow>
   (SolendAssemblyError + OracleAccountInfo list) option" where
  "pyth_oracle_info env now r found =
    (if is_null_oracle_sentinel (fe_display env) (re_pyth_oracle r) then Some (Inr [])
     else raw_ok (Some (ok_or found (OracleAccountMissing (re_pyth_oracle r)))) (\<lambda>acct.
     let pyth_receiver_program = pubkey_of PYTH_SOLANA_RECEIVER_PROGRAM_BS58 in
     if account.owner acct \<noteq> pyth_receiver_program then
       Some (Inl (PythOracleOwnerMismatch (re_pyth_oracle r) (account.owner acct) pyth_receiver_program))
     else map_option (\<lambda>fresh. Inr [\<lparr>oa_pubkey = re_pyth_oracle r, oa_owner_program = account.owner acct,
            oa_fetched_at_slot = now, oa_publish = fresh\<rparr>])
       (extract_publish_freshness (fe_display env) (account.owner acct) (data acct))))"

definition switchboard_oracle_info ::
  "assembler_env \<Rightarrow> ChainSlot \<Rightarrow> SolendReserveRaw \<Rightarrow> account option \<Rightarrow>
   (SolendAssemblyError + OracleAccountInfo list) option" where
  "switchboard_oracle_info env now r found =
    (if is_null_oracle_sentinel (fe_display env) (re_switchboard_oracle r) then Some (Inr [])
     else raw_ok (Some (ok_or found (OracleAccountMissing (re_switchboard_oracle r)))) (\<lambda>acct.
     map_option (\<lambda>fresh. Inr [\<lparr>oa_pubkey = re_switchboard_oracle r, oa_owner_program = account.owner acct,
            oa_fetched_at_slot = now, oa_publish = fresh\<rparr>])
       (extract_publish_freshness (fe_display env) (account.owner acct) (data acct))))"

definition obligation_snapshot ::
  "assembler_env \<Rightarrow> pubkey \<Rightarrow> pubkey \<Rightarrow> ChainSlot \<Rightarrow> pubkey \<Rightarrow> SolendReserveRaw \<Rightarrow> OracleAccountInfo list \<Rightarrow> account option \<Rightarrow>
   (SolendAssemblyError + LendingSnapshot \<times> bool) option" where
  "obligation_snapshot env wallet obligation now reserve_pubkey r oracles found =
    (let reserve_input = \<lparr>ri_pubkey = reserve_pubkey, ri_raw = r, ri_fetched_at_slot = now\<rparr> in
     case found of
       None \<Rightarrow> Some (map_err FirstDepositMappingFailed (bindE (map_snapshot_for_first_deposit (fe_display env)
         \<lparr>fi_session_wallet = wallet, fi_obligation_pubkey = obligation, fi_lending_market = re_lending_market r,
          fi_target_reserves = [reserve_input], fi_oracles = oracles, fi_snapshot_observed_slot = now\<rparr>)
         (\<lambda>snap. Inr (snap, False))))
     | Some acct \<Rightarrow>
         let solend_program_id = pubkey_of SOLEND_PROGRAM_ID_BS58 in
         if account.owner acct \<noteq> solend_program_id then
           Some (Inl (ObligationAccountOwnerMismatch obligation (account.owner acct) solend_program_id))
         else raw_ok (map_option (map_err (ObligationDecodeFailed obligation)) (raw_decode_obligation (data acct)))
           (\<lambda>raw. Some (map_err SnapshotMappingFailed (bindE (map_snapshot (fe_display env)
             \<lparr>ai_session_wallet = wallet, ai_obligation_pubkey = obligation, ai_obligation_raw = raw,
              ai_obligation_fetched_at_slot = now, ai_reserves = [reserve_input], ai_oracles = oracles,
              ai_snapshot_observed_slot = now\<rparr>)
             (\<lambda>snap. Inr (snap, True))))))"

definition validate_spl_token_account ::
  "account \<Rightarrow> AtaKind \<Rightarrow> pubkey \<Rightarrow> pubkey \<Rightarrow> pubkey \<Rightarrow> (SolendAssemblyError + unit) option" where
  "validate_spl_token_account acct kind expected_mint expected_owner expected_owner_program =
    (if account.owner acct \<noteq> expected_owner_program then
       Some (Inl (InvalidTokenAccountOwnerProgram kind (account.owner acct) expected_owner_program))
     else if length (data acct) \<noteq> SPL_TOKEN_ACCOUNT_LEN then
       Some (Inl (InvalidTokenAccountDataLen kind (length (data acct)) SPL_TOKEN_ACCOUNT_LEN))
     else Option.bind (get_range (data acct) 0 32) (\<lambda>mint_buf.
     let actual_mint = array_of_bytes mint_buf in
     if actual_mint \<noteq> expected_mint then Some (Inl (InvalidTokenAccountMint kind actual_mint expected_mint))
     else Option.bind (get_range (data acct) 32 32) (\<lambda>owner_buf.
     let actual_owner = array_of_bytes owner_buf in
     if actual_owner \<noteq> expected_owner then Some (Inl (InvalidTokenAccountOwner kind actual_owner expected_owner))
     else Some (Inr ()))))"

definition ata_exists ::
  "account option \<Rightarrow> AtaKind \<Rightarrow> pubkey \<Rightarrow> pubkey \<Rightarrow> pubkey \<Rightarrow> (SolendAssemblyError + bool) option" where
  "ata_exists found kind mnt wallet program = (case found of
     None \<Rightarrow> Some (Inr False)
   | Some acct \<Rightarrow> raw_ok (validate_spl_token_account acct kind mnt wallet program) (\<lambda>_. Some (Inr True)))"

definition batch_length_reason :: "nat \<Rightarrow> nat \<Rightarrow> string" where
  "batch_length_reason got want =
    ''get_multiple_accounts returned '' @ show_nat got @ '' items for '' @ show_nat want @ '' pubkeys''"

definition assemble_batch ::
  "assembler_env \<Rightarrow> pubkey \<Rightarrow> pubkey \<Rightarrow> ChainSlot \<Rightarrow> pubkey \<Rightarrow> SolendReserveRaw \<Rightarrow> pubkey \<Rightarrow> pubkey \<Rightarrow> account option list \<Rightarrow>
   (SolendAssemblyError + AssembledSolendDepositSnapshot) option" where
  "assemble_batch env wallet obligation now reserve_pubkey r source_ata coll_ata accts =
    Option.bind (get_index accts 0) (\<lambda>obligation_acct.
    Option.bind (get_index accts 1) (\<lambda>source_acct.
    Option.bind (get_index accts 2) (\<lambda>coll_acct.
    Option.bind (batch_at_idx (pyth_idx env r) accts) (\<lambda>pyth_acct.
    Option.bind (batch_at_idx (switchboard_idx env r) accts) (\<lambda>sb_acct.
    raw_ok (pyth_oracle_info env now r pyth_acct) (\<lambda>pyth_infos.
    raw_ok (switchboard_oracle_info env now r sb_acct) (\<lambda>sb_infos.
    raw_ok (obligation_snapshot env wallet obligation now reserve_pubkey r (pyth_infos @ sb_infos) obligation_acct)
      (\<lambda>(snap, obligation_exists).
    let spl_token_program = pubkey_of SPL_TOKEN_PROGRAM_ID_BS58 in
    raw_ok (ata_exists source_acct SourceAta (re_liquidity_mint r) wallet spl_token_program) (\<lambda>source_exists.
    raw_ok (ata_exists coll_acct CollateralAta (re_collateral_mint r) wallet spl_token_program) (\<lambda>coll_exists.
    Some (Inr \<lparr>asd_snapshot = snap, asd_obligation_exists = obligation_exists,
      asd_source_ata_exists = source_exists, asd_collateral_ata_exists = coll_exists,
      asd_reserve_pubkey = reserve_pubkey, asd_obligation_pubkey = obligation,
      asd_source_liquidity_ata = source_ata, asd_user_collateral_ata = coll_ata,
      asd_lending_market = re_lending_market r\<rparr>)))))))))))"

definition assemble_for_deposit ::
  "assembler_env \<Rightarrow> pubkey \<Rightarrow> pubkey \<Rightarrow> pubkey \<Rightarrow> (SolendAssemblyError + AssembledSolendDepositSnapshot) option" where
  "assemble_for_deposit env wallet mnt obligation =
    (let usdc_mint = pubkey_of USDC_MINT_BS58 in
     if mnt \<noteq> usdc_mint then Some (Inl (UnsupportedReserveMint mnt usdc_mint))
     else
     let reserve_pubkey = pubkey_of USDC_RESERVE_BS58;
         spl_token_program = pubkey_of SPL_TOKEN_PROGRAM_ID_BS58;
         source_ata = fe_ata env wallet mnt spl_token_program
     in raw_ok (Some (map_err from_fetch_error (fe_get_slot env))) (\<lambda>slot_raw.
     raw_ok (fetch_reserve env reserve_pubkey) (\<lambda>r.
     let coll_ata = fe_ata env wallet (re_collateral_mint r) spl_token_program;
         keys = batch_keys env obligation source_ata coll_ata r
     in raw_ok (Some (map_err from_fetch_error (fe_get_multiple_accounts env keys))) (\<lambda>accts.
     if length accts \<noteq> length keys then Some (Inl (RpcFetchFailed (batch_length_reason (length accts) (length keys))))
     else assemble_batch env wallet obligation (ChainSlot slot_raw) reserve_pubkey r source_ata coll_ata accts))))"

section \<open>It returns\<close>

lemma length_batch_keys:
  "length (batch_keys env ob sa ca r) = 3 + (if pyth_idx env r = None then 0 else 1) + (if switchboard_idx env r = None then 0 else 1)"
  by (simp add: batch_keys_def pyth_idx_def switchboard_idx_def)

lemma batch_indices:
  assumes "length accts = length (batch_keys env ob sa ca r)"
  shows "batch_at_idx (pyth_idx env r) accts \<noteq> None" "batch_at_idx (switchboard_idx env r) accts \<noteq> None"
    "get_index accts 0 = Some (accts ! 0)" "get_index accts 1 = Some (accts ! 1)" "get_index accts 2 = Some (accts ! 2)"
  using assms by (auto simp: length_batch_keys batch_at_idx_def get_index_def pyth_idx_def switchboard_idx_def)

lemma bind_total: "m \<noteq> None \<Longrightarrow> (\<And>x. f x \<noteq> None) \<Longrightarrow> Option.bind m f \<noteq> None"
  by (cases m) simp_all

lemma map_option_total: "m \<noteq> None \<Longrightarrow> map_option f m \<noteq> None"
  by simp

lemma case_prod_total: "(\<And>a b. f a b \<noteq> None) \<Longrightarrow> (case p of (a, b) \<Rightarrow> f a b) \<noteq> None"
  by (cases p) simp

lemma case_option_total: "a \<noteq> None \<Longrightarrow> (\<And>x. f x \<noteq> None) \<Longrightarrow> (case v of None \<Rightarrow> a | Some x \<Rightarrow> f x) \<noteq> None"
  by (cases v) simp_all

lemmas totality = if_total raw_ok_total bind_total map_option_total case_prod_total case_option_total option.distinct(2)

lemma validate_total: "validate_spl_token_account acct kind mnt wallet program \<noteq> None"
  by (auto simp: validate_spl_token_account_def SPL_TOKEN_ACCOUNT_LEN_def get_range_def Let_def)

lemma step_totals:
  "fetch_reserve env k \<noteq> None" "pyth_oracle_info env now r found \<noteq> None" "switchboard_oracle_info env now r found \<noteq> None"
  "obligation_snapshot env wallet ob now k r infos found \<noteq> None" "ata_exists found kind mnt wallet program \<noteq> None"
  unfolding fetch_reserve_def pyth_oracle_info_def switchboard_oracle_info_def obligation_snapshot_def ata_exists_def Let_def
  by (intro totality decoders_return extract_total validate_total)+

lemma assemble_batch_total:
  assumes "length accts = length (batch_keys env ob sa ca r)"
  shows "assemble_batch env wallet ob now k r sa ca accts \<noteq> None"
  unfolding assemble_batch_def batch_indices(3-5) [OF assms] Let_def
  by (intro totality step_totals batch_indices(1,2) [OF assms])

lemma assemble_total: "assemble_for_deposit env wallet mnt ob \<noteq> None"
  unfolding assemble_for_deposit_def Let_def
  by (intro totality step_totals assemble_batch_total) simp_all

section \<open>What an assembled snapshot rests on\<close>

text \<open>The oracle accounts that feed the snapshot are the ones the batch returned for their keys.\<close>

definition fetched_oracles ::
  "assembler_env \<Rightarrow> (pubkey \<times> account option) set \<Rightarrow> SolendReserveRaw \<Rightarrow> OracleAccountInfo list \<Rightarrow> bool" where
  "fetched_oracles env fetched r infos \<longleftrightarrow>
     (\<forall>i \<in> set infos. \<exists>acct. (oa_pubkey i, Some acct) \<in> fetched
        \<and> extract_publish_freshness (fe_display env) (account.owner acct) (data acct) = Some (oa_publish i))
     \<and> (\<forall>k \<in> {re_pyth_oracle r, re_switchboard_oracle r}. \<not> is_null_oracle_sentinel (fe_display env) k
          \<longrightarrow> (\<exists>i \<in> set infos. oa_pubkey i = k))"

lemma batch_idx_key:
  "pyth_idx env r = Some i \<Longrightarrow> i < length (batch_keys env ob sa ca r) \<and> batch_keys env ob sa ca r ! i = re_pyth_oracle r"
  "switchboard_idx env r = Some i \<Longrightarrow>
     i < length (batch_keys env ob sa ca r) \<and> batch_keys env ob sa ca r ! i = re_switchboard_oracle r"
  by (auto simp: pyth_idx_def switchboard_idx_def batch_keys_def eval_nat_numeral split: if_splits)

lemma batch_at_zip:
  assumes "batch_at_idx (Some i) accts = Some (Some acct)" "i < length keys" "keys ! i = k"
  shows "(k, Some acct) \<in> set (zip keys accts)"
  using assms by (auto simp: batch_at_idx_def get_index_def in_set_zip split: if_splits)

lemma oracle_info_Inr:
  "pyth_oracle_info env now r found = Some (Inr infos) \<Longrightarrow> i \<in> set infos \<Longrightarrow>
     \<exists>acct. found = Some acct \<and> oa_pubkey i = re_pyth_oracle r \<and> pyth_idx env r \<noteq> None
       \<and> extract_publish_freshness (fe_display env) (account.owner acct) (data acct) = Some (oa_publish i)"
  "switchboard_oracle_info env now r found = Some (Inr infos) \<Longrightarrow> i \<in> set infos \<Longrightarrow>
     \<exists>acct. found = Some acct \<and> oa_pubkey i = re_switchboard_oracle r \<and> switchboard_idx env r \<noteq> None
       \<and> extract_publish_freshness (fe_display env) (account.owner acct) (data acct) = Some (oa_publish i)"
  by (cases found; force simp: pyth_oracle_info_def pyth_idx_def raw_ok_Some Let_def split: if_splits)
    (cases found; force simp: switchboard_oracle_info_def switchboard_idx_def raw_ok_Some Let_def split: if_splits)

lemma oracle_infos_fetched:
  assumes p: "batch_at_idx (pyth_idx env r) accts = Some pf" "pyth_oracle_info env now r pf = Some (Inr ps)"
    and s: "batch_at_idx (switchboard_idx env r) accts = Some sf" "switchboard_oracle_info env now r sf = Some (Inr ss)"
  shows "fetched_oracles env (set (zip (batch_keys env ob sa ca r) accts)) r (ps @ ss)"
proof -
  let ?keys = "batch_keys env ob sa ca r"
  have slot: "\<exists>acct. (oa_pubkey i, Some acct) \<in> set (zip ?keys accts)
      \<and> extract_publish_freshness (fe_display env) (account.owner acct) (data acct) = Some (oa_publish i)"
    if "i \<in> set ps \<union> set ss" for i
    using that
  proof
    assume i: "i \<in> set ps"
    then obtain n acct where n: "pyth_idx env r = Some n" and acct: "pf = Some acct" "oa_pubkey i = re_pyth_oracle r"
      "extract_publish_freshness (fe_display env) (account.owner acct) (data acct) = Some (oa_publish i)"
      using oracle_info_Inr(1) [OF p(2)] by blast
    have "(oa_pubkey i, Some acct) \<in> set (zip ?keys accts)"
      by (rule batch_at_zip [where i = n]) (use p(1) acct(1,2) n batch_idx_key(1) [OF n, of ob sa ca] in simp_all)
    with acct(3) show ?thesis by blast
  next
    assume i: "i \<in> set ss"
    then obtain n acct where n: "switchboard_idx env r = Some n" and acct: "sf = Some acct" "oa_pubkey i = re_switchboard_oracle r"
      "extract_publish_freshness (fe_display env) (account.owner acct) (data acct) = Some (oa_publish i)"
      using oracle_info_Inr(2) [OF s(2)] by blast
    have "(oa_pubkey i, Some acct) \<in> set (zip ?keys accts)"
      by (rule batch_at_zip [where i = n]) (use s(1) acct(1,2) n batch_idx_key(2) [OF n, of ob sa ca] in simp_all)
    with acct(3) show ?thesis by blast
  qed
  have "\<exists>i \<in> set (ps @ ss). oa_pubkey i = k"
    if "k \<in> {re_pyth_oracle r, re_switchboard_oracle r}" "\<not> is_null_oracle_sentinel (fe_display env) k" for k
    using that p(2) s(2)
    by (auto simp: pyth_oracle_info_def switchboard_oracle_info_def raw_ok_Inr Let_def split: if_splits)
  with slot show ?thesis unfolding fetched_oracles_def set_append by blast
qed

lemma assembled_facts:
  assumes "assemble_for_deposit env wallet mnt obligation = Some (Inr a)"
  obtains now acct r sa ca accts infos where
    "mnt = pubkey_of USDC_MINT_BS58" "fe_get_slot env = Inr now"
    "fe_get_account env (pubkey_of USDC_RESERVE_BS58) = Inr (Some acct)"
    "account.owner acct = pubkey_of SOLEND_PROGRAM_ID_BS58" "raw_decode_reserve (data acct) = Some (Inr r)"
    "sa = fe_ata env wallet mnt (pubkey_of SPL_TOKEN_PROGRAM_ID_BS58)"
    "ca = fe_ata env wallet (re_collateral_mint r) (pubkey_of SPL_TOKEN_PROGRAM_ID_BS58)"
    "fe_get_multiple_accounts env (batch_keys env obligation sa ca r) = Inr accts"
    "length accts = length (batch_keys env obligation sa ca r)"
    "fetched_oracles env (set (zip (batch_keys env obligation sa ca r) accts)) r infos"
    "obligation_snapshot env wallet obligation (ChainSlot now) (pubkey_of USDC_RESERVE_BS58) r infos (accts ! 0)
       = Some (Inr (asd_snapshot a, asd_obligation_exists a))"
    "ata_exists (accts ! 1) SourceAta (re_liquidity_mint r) wallet (pubkey_of SPL_TOKEN_PROGRAM_ID_BS58)
       = Some (Inr (asd_source_ata_exists a))"
    "ata_exists (accts ! 2) CollateralAta (re_collateral_mint r) wallet (pubkey_of SPL_TOKEN_PROGRAM_ID_BS58)
       = Some (Inr (asd_collateral_ata_exists a))"
proof -
  let ?tok = "pubkey_of SPL_TOKEN_PROGRAM_ID_BS58"
  from assms obtain now r accts where m: "mnt = pubkey_of USDC_MINT_BS58" "fe_get_slot env = Inr now"
    "fetch_reserve env (pubkey_of USDC_RESERVE_BS58) = Some (Inr r)"
    "fe_get_multiple_accounts env (batch_keys env obligation (fe_ata env wallet mnt ?tok)
       (fe_ata env wallet (re_collateral_mint r) ?tok) r) = Inr accts"
    "length accts = length (batch_keys env obligation (fe_ata env wallet mnt ?tok)
       (fe_ata env wallet (re_collateral_mint r) ?tok) r)"
    "assemble_batch env wallet obligation (ChainSlot now) (pubkey_of USDC_RESERVE_BS58) r (fe_ata env wallet mnt ?tok)
       (fe_ata env wallet (re_collateral_mint r) ?tok) accts = Some (Inr a)"
    by (auto simp: assemble_for_deposit_def Let_def raw_ok_Inr map_err_Inr split: if_splits)
  from m(3) obtain acct where f: "fe_get_account env (pubkey_of USDC_RESERVE_BS58) = Inr (Some acct)"
    "account.owner acct = pubkey_of SOLEND_PROGRAM_ID_BS58" "raw_decode_reserve (data acct) = Some (Inr r)"
    by (auto simp: fetch_reserve_def raw_ok_Inr map_err_Inr ok_or_Inr Let_def split: if_splits)
  from m(6) obtain pf sf ps ss where b: "batch_at_idx (pyth_idx env r) accts = Some pf"
    "pyth_oracle_info env (ChainSlot now) r pf = Some (Inr ps)" "batch_at_idx (switchboard_idx env r) accts = Some sf"
    "switchboard_oracle_info env (ChainSlot now) r sf = Some (Inr ss)"
    "obligation_snapshot env wallet obligation (ChainSlot now) (pubkey_of USDC_RESERVE_BS58) r (ps @ ss) (accts ! 0)
       = Some (Inr (asd_snapshot a, asd_obligation_exists a))"
    "ata_exists (accts ! 1) SourceAta (re_liquidity_mint r) wallet ?tok = Some (Inr (asd_source_ata_exists a))"
    "ata_exists (accts ! 2) CollateralAta (re_collateral_mint r) wallet ?tok = Some (Inr (asd_collateral_ata_exists a))"
    unfolding assemble_batch_def batch_indices(3-5) [OF m(5)] Let_def
    by (auto simp: bind_eq_Some_conv raw_ok_Inr)
  show thesis
    by (rule that [OF m(1,2) f refl refl m(4,5) oracle_infos_fetched [OF b(1-4)] b(5-7)])
qed

lemma obligation_snapshot_facts:
  assumes "obligation_snapshot env wallet ob now k r infos found = Some (Inr (snap, ex))"
  defines "ri \<equiv> \<lparr>ri_pubkey = k, ri_raw = r, ri_fetched_at_slot = now\<rparr>"
  shows "ls_reserves snap = [map_reserve ri] \<and> ls_oracles snap = [map_feed_set (fe_display env) infos ri] \<and> ls_fetched_at snap = now"
    "found = Some acct \<Longrightarrow> account.owner acct = pubkey_of SOLEND_PROGRAM_ID_BS58
       \<and> (\<exists>raw. raw_decode_obligation (data acct) = Some (Inr raw) \<and> lo_owner (ls_obligation snap) = ob_owner raw
            \<and> lo_protocol_native_stale (ls_obligation snap) = stale_to_marker (ob_last_update_stale raw)
            \<and> ob_lending_market raw = re_lending_market r \<and> (\<forall>d \<in> set (ob_deposits raw). deposit_reserve d = k)
            \<and> (\<forall>b \<in> set (ob_borrows raw). borrow_reserve b = k))"
proof -
  show "ls_reserves snap = [map_reserve ri] \<and> ls_oracles snap = [map_feed_set (fe_display env) infos ri] \<and> ls_fetched_at snap = now"
  proof (cases found)
    case None
    then show ?thesis using assms(1) map_first_deposit_Inr unfolding ri_def
      by (fastforce simp: obligation_snapshot_def map_err_Inr bindE_Inr)
  next
    case (Some acct)
    then show ?thesis using assms(1) unfolding ri_def
      by (auto simp: obligation_snapshot_def raw_ok_Inr map_err_Inr bindE_Inr map_snapshot_Inr Let_def split: if_splits)
  qed
  assume found: "found = Some acct"
  then have ow: "account.owner acct = pubkey_of SOLEND_PROGRAM_ID_BS58"
    using assms(1) by (auto simp: obligation_snapshot_def Let_def split: if_splits)
  from found ow assms(1) obtain raw where raw: "raw_decode_obligation (data acct) = Some (Inr raw)"
    "map_snapshot (fe_display env) \<lparr>ai_session_wallet = wallet, ai_obligation_pubkey = ob, ai_obligation_raw = raw,
       ai_obligation_fetched_at_slot = now, ai_reserves = [ri], ai_oracles = infos, ai_snapshot_observed_slot = now\<rparr> = Inr snap"
    unfolding ri_def by (auto simp: obligation_snapshot_def raw_ok_Inr map_err_Inr bindE_Inr Let_def)
  from raw(2) show "account.owner acct = pubkey_of SOLEND_PROGRAM_ID_BS58
       \<and> (\<exists>raw. raw_decode_obligation (data acct) = Some (Inr raw) \<and> lo_owner (ls_obligation snap) = ob_owner raw
            \<and> lo_protocol_native_stale (ls_obligation snap) = stale_to_marker (ob_last_update_stale raw)
            \<and> ob_lending_market raw = re_lending_market r \<and> (\<forall>d \<in> set (ob_deposits raw). deposit_reserve d = k)
            \<and> (\<forall>b \<in> set (ob_borrows raw). borrow_reserve b = k))"
    using ow raw(1) unfolding map_snapshot_Inr ri_def by (intro conjI exI [of _ raw]) (auto simp: map_obligation_def)
qed

lemma slot_feed_fetched:
  assumes "fetched_oracles env F r infos" "k \<in> {re_pyth_oracle r, re_switchboard_oracle r}"
    "\<not> is_null_oracle_sentinel (fe_display env) k"
  shows "\<exists>f acct. slot_feeds (fe_display env) infos k = [f] \<and> (k, Some acct) \<in> F
     \<and> extract_publish_freshness (fe_display env) (account.owner acct) (data acct) = Some (of_publish f)"
proof -
  obtain i where i: "List.find (\<lambda>o'. oa_pubkey o' = k) infos = Some i"
    using assms unfolding fetched_oracles_def find_some_iff [symmetric] by blast
  then have "i \<in> set infos" "oa_pubkey i = k" by (auto simp: find_Some_iff)
  then obtain acct where "(k, Some acct) \<in> F"
    "extract_publish_freshness (fe_display env) (account.owner acct) (data acct) = Some (oa_publish i)"
    using assms(1) unfolding fetched_oracles_def by blast
  then show ?thesis using i assms(3) by (auto simp: slot_feeds_def)
qed

text \<open>The oracle accounts of a reserve: every slot in use was fetched as a Pyth price account, posted at most so many
  slots before the snapshot, and at least one slot is in use.\<close>

definition oracle_slots_priced ::
  "assembler_env \<Rightarrow> (pubkey \<times> account option) set \<Rightarrow> SolendReserveRaw \<Rightarrow> u64 \<Rightarrow> nat \<Rightarrow> bool" where
  "oracle_slots_priced env fetched r now n \<longleftrightarrow>
     (\<exists>k \<in> {re_pyth_oracle r, re_switchboard_oracle r}. \<not> is_null_oracle_sentinel (fe_display env) k)
     \<and> (\<forall>k \<in> {re_pyth_oracle r, re_switchboard_oracle r}. \<not> is_null_oracle_sentinel (fe_display env) k \<longrightarrow>
          (\<exists>acct s. (k, Some acct) \<in> fetched \<and> account.owner acct = pubkey_of PYTH_SOLANA_RECEIVER_PROGRAM_BS58
             \<and> pyth_posted (data acct) s \<and> unat now - unat s \<le> n))"

lemma fresh_slots_priced:
  assumes law: "display_law (fe_display env)" and infos: "fetched_oracles env F r infos"
    and fetched: "ls_oracles snap = [map_feed_set (fe_display env) infos ri]" "ri_raw ri = r" "ls_fetched_at snap = ChainSlot now"
    and fresh: "oracle_fresh snap mnt n"
  shows "oracle_slots_priced env F r now n \<and> re_liquidity_mint r = mnt"
proof -
  let ?slots = "[re_pyth_oracle r, re_switchboard_oracle r]"
  from fresh fetched have mnt: "re_liquidity_mint r = mnt" and ne: "concat (map (slot_feeds (fe_display env) infos) ?slots) \<noteq> []"
    and known: "\<And>f. f \<in> set (concat (map (slot_feeds (fe_display env) infos) ?slots)) \<Longrightarrow>
      \<exists>s. of_publish f = KnownSlot s \<and> slot_age snap s \<le> n"
    by (auto simp: oracle_fresh_def map_feed_set_def split: if_splits)
  have "\<exists>k \<in> set ?slots. \<not> is_null_oracle_sentinel (fe_display env) k"
    using ne by (auto simp: slot_feeds_def)
  moreover have "\<exists>acct s. (k, Some acct) \<in> F \<and> account.owner acct = pubkey_of PYTH_SOLANA_RECEIVER_PROGRAM_BS58
             \<and> pyth_posted (data acct) s \<and> unat now - unat s \<le> n"
    if k: "k \<in> set ?slots" "\<not> is_null_oracle_sentinel (fe_display env) k" for k
  proof -
    from k obtain f acct where f: "slot_feeds (fe_display env) infos k = [f]" "(k, Some acct) \<in> F"
      "extract_publish_freshness (fe_display env) (account.owner acct) (data acct) = Some (of_publish f)"
      using slot_feed_fetched [OF infos, of k] by auto
    from f(1) k(1) have "f \<in> set (concat (map (slot_feeds (fe_display env) infos) ?slots))" by fastforce
    from known [OF this] obtain s where s: "of_publish f = KnownSlot s" "slot_age snap s \<le> n" by blast
    obtain w where w: "s = ChainSlot w" by (cases s)
    have "account.owner acct = pubkey_of PYTH_SOLANA_RECEIVER_PROGRAM_BS58 \<and> pyth_posted (data acct) w"
      using extract_known [OF law] f(3) s(1) w by (auto simp: PYTH_SOLANA_RECEIVER_PROGRAM_BS58_def)
    moreover have "unat now - unat w \<le> n" using s(2) w fetched(3) by (simp add: slot_age_def)
    ultimately show ?thesis using f(2) by blast
  qed
  ultimately show ?thesis using mnt unfolding oracle_slots_priced_def by simp
qed

text \<open>
  C35: what the lending policy admits on an assembled snapshot is backed by the chain. If a deposit passes the policy
  on an assembled snapshot, the mint is USDC and the pinned reserve account was owned by the Solend program, decoded, of that mint and
  not stale; at least one of its two oracle slots is in use, and the batch returned for each slot in use an account of
  the Pyth receiver with a price posted within the configured age of the snapshot's slot; an obligation account, if one
  exists, was owned by Solend, decodes, belongs to the session wallet, is not stale, is of the reserve's market and has positions in
  that reserve only; and the amount is within the cap of the mint.\<close>

theorem assembled_deposit_backed:
  assumes law: "display_law (fe_display env)"
    and asm: "assemble_for_deposit env wallet mnt obligation = Some (Inr a)"
    and pass: "evaluate_lending_policy (asd_snapshot a) (ActDeposit ProtocolTag.Solend mnt amt) cfg wallet = Pass"
  shows "\<exists>now acct r accts keys. mnt = pubkey_of USDC_MINT_BS58 \<and> fe_get_slot env = Inr now
     \<and> fe_get_account env (pubkey_of USDC_RESERVE_BS58) = Inr (Some acct)
     \<and> account.owner acct = pubkey_of SOLEND_PROGRAM_ID_BS58 \<and> raw_decode_reserve (data acct) = Some (Inr r)
     \<and> re_liquidity_mint r = mnt \<and> \<not> re_last_update_stale r
     \<and> keys ! 0 = obligation \<and> fe_get_multiple_accounts env keys = Inr accts \<and> length accts = length keys
     \<and> oracle_slots_priced env (set (zip keys accts)) r now (slots_of (max_publish_age cfg))
     \<and> (\<forall>ob. accts ! 0 = Some ob \<longrightarrow> account.owner ob = pubkey_of SOLEND_PROGRAM_ID_BS58
          \<and> (\<exists>raw. raw_decode_obligation (data ob) = Some (Inr raw) \<and> ob_owner raw = wallet \<and> \<not> ob_last_update_stale raw
               \<and> ob_lending_market raw = re_lending_market r
               \<and> (\<forall>d \<in> set (ob_deposits raw). deposit_reserve d = pubkey_of USDC_RESERVE_BS58)
               \<and> (\<forall>b \<in> set (ob_borrows raw). borrow_reserve b = pubkey_of USDC_RESERVE_BS58)))
     \<and> (\<exists>cap. map_of (per_mint_caps cfg) mnt = Some cap \<and> amt \<le> cap)"
proof -
  from pass have adm: "lending_admissible (asd_snapshot a) (ActDeposit ProtocolTag.Solend mnt amt) cfg wallet"
    by (simp only: lending_pass)
  obtain now acct r sa ca accts infos where facts: "mnt = pubkey_of USDC_MINT_BS58" "fe_get_slot env = Inr now"
    "fe_get_account env (pubkey_of USDC_RESERVE_BS58) = Inr (Some acct)"
    "account.owner acct = pubkey_of SOLEND_PROGRAM_ID_BS58" "raw_decode_reserve (data acct) = Some (Inr r)"
    and batch: "fe_get_multiple_accounts env (batch_keys env obligation sa ca r) = Inr accts"
      "length accts = length (batch_keys env obligation sa ca r)"
    and infos: "fetched_oracles env (set (zip (batch_keys env obligation sa ca r) accts)) r infos"
    and snap: "obligation_snapshot env wallet obligation (ChainSlot now) (pubkey_of USDC_RESERVE_BS58) r infos (accts ! 0)
       = Some (Inr (asd_snapshot a, asd_obligation_exists a))"
    by (rule assembled_facts [OF asm]) blast
  note sf = obligation_snapshot_facts [OF snap]
  have "oracle_slots_priced env (set (zip (batch_keys env obligation sa ca r) accts)) r now (slots_of (max_publish_age cfg))
      \<and> re_liquidity_mint r = mnt"
    by (rule fresh_slots_priced [OF law infos, where snap = "asd_snapshot a"]) (use sf(1) adm in \<open>auto simp: lending_admissible_def\<close>)
  moreover have "\<not> re_last_update_stale r"
    using sf(1) adm by (auto simp: lending_admissible_def state_fresh_def map_reserve_def stale_to_marker_def split: if_splits)
  moreover have "account.owner ob = pubkey_of SOLEND_PROGRAM_ID_BS58
          \<and> (\<exists>raw. raw_decode_obligation (data ob) = Some (Inr raw) \<and> ob_owner raw = wallet \<and> \<not> ob_last_update_stale raw
               \<and> ob_lending_market raw = re_lending_market r
               \<and> (\<forall>d \<in> set (ob_deposits raw). deposit_reserve d = pubkey_of USDC_RESERVE_BS58)
               \<and> (\<forall>b \<in> set (ob_borrows raw). borrow_reserve b = pubkey_of USDC_RESERVE_BS58))"
    if "accts ! 0 = Some ob" for ob
  proof -
    have "lo_owner (ls_obligation (asd_snapshot a)) = wallet" "lo_protocol_native_stale (ls_obligation (asd_snapshot a)) = Fresh"
      using adm by (auto simp: lending_admissible_def state_fresh_def)
    with sf(2) [OF that] show ?thesis by (auto simp: stale_to_marker_def split: if_splits)
  qed
  moreover have "\<exists>cap. map_of (per_mint_caps cfg) mnt = Some cap \<and> amt \<le> cap"
    using adm by (simp add: lending_admissible_def)
  moreover have "batch_keys env obligation sa ca r ! 0 = obligation" by (simp add: batch_keys_def)
  ultimately show ?thesis using facts batch by blast
qed

end
