(* ===== verification/Example_Lending.thy ===== *)
theory Example_Lending
  imports Solend_Assembler
begin

text \<open>
  The assembler and the lending policy on a concrete node: a fresh USDC reserve with a Pyth feed, no obligation yet, and
  a deposit under its cap. Base58 printing is defined and shown to satisfy \<open>display_law\<close>.
\<close>

section \<open>Base58\<close>

definition alphabet :: string where
  "alphabet = ''123456789ABCDEFGHJKLMNPQRSTUVWXYZabcdefghijkmnopqrstuvwxyz''"

fun base58_text :: "nat \<Rightarrow> string" where
  "base58_text n = (if n < 58 then [alphabet ! n] else base58_text (n div 58) @ [alphabet ! (n mod 58)])"

declare base58_text.simps [simp del]

lemma alphabet_digit: "d < 58 \<Longrightarrow> base58_digit (alphabet ! d) = d"
proof -
  assume d: "d < 58"
  have "length alphabet = 58" by (simp add: alphabet_def)
  then have "base58_digit (alphabet ! d) = map base58_digit alphabet ! d" using d by simp
  also have "\<dots> = d" using d unfolding alphabet_def base58_digits by simp
  finally show ?thesis .
qed

lemma base58_value_snoc: "base58_value acc (cs @ [c]) = base58_value acc cs * 58 + base58_digit c"
  by (induction acc cs rule: base58_value.induct) simp_all

lemma base58_text_value: "base58_value 0 (base58_text n) = n"
proof (induction n rule: base58_text.induct)
  case (1 n)
  then show ?case
    by (subst base58_text.simps) (simp add: base58_value_snoc alphabet_digit)
qed

definition xl_display :: "pubkey \<Rightarrow> string" where
  "xl_display k =
    (if k = pubkey_of PYTH_SOLANA_RECEIVER_PROGRAM_BS58 then PYTH_SOLANA_RECEIVER_PROGRAM_BS58
     else if k = pubkey_of SOLEND_NULL_ORACLE_SENTINEL_BS58 then SOLEND_NULL_ORACLE_SENTINEL_BS58
     else base58_text (unat k))"

lemma xl_display_law: "display_law xl_display"
  by (simp add: display_law_def xl_display_def) (simp add: pubkey_of_def base58_text_value)

section \<open>The node\<close>

definition xl_reserve :: "u8 list" where
  "xl_reserve = 1 # replicate 9 0 @ replicate 32 0 @ array_bytes (pubkey_of USDC_MINT_BS58) @ 6 # replicate 32 0
     @ array_bytes (5 :: pubkey) @ array_bytes (pubkey_of SOLEND_NULL_ORACLE_SENTINEL_BS58) @ replicate 448 0"

definition xl_price :: "u8 list" where
  "xl_price = PYTH_PRICE_UPDATE_V2_DISCRIMINATOR @ replicate 32 0 @ [1] @ replicate 93 0"

definition xl_accounts :: "pubkey \<Rightarrow> account option" where
  "xl_accounts k =
    (if k = pubkey_of USDC_RESERVE_BS58
     then Some \<lparr>lamports = 1, data = xl_reserve, owner = pubkey_of SOLEND_PROGRAM_ID_BS58\<rparr>
     else if k = 5 then Some \<lparr>lamports = 1, data = xl_price, owner = pubkey_of PYTH_SOLANA_RECEIVER_PROGRAM_BS58\<rparr>
     else None)"

definition xl_env :: assembler_env where
  "xl_env = \<lparr>fe_get_slot = Inr 100, fe_get_account = (\<lambda>k. Inr (xl_accounts k)),
     fe_get_multiple_accounts = (\<lambda>ks. Inr (map xl_accounts ks)), fe_ata = (\<lambda>w m p. w + 1), fe_display = xl_display\<rparr>"

definition xl_config :: LendingRuleConfig where
  "xl_config = \<lparr>max_fetch_age = DurationMs 60000, max_publish_age = DurationMs 60000,
     protocol_allowlist = [ProtocolTag.Solend], mint_allowlist = [pubkey_of USDC_MINT_BS58],
     per_mint_caps = [(pubkey_of USDC_MINT_BS58, UnderlyingAmount 5000000)], per_mint_collateral_caps = []\<rparr>"

lemmas xl_literals = USDC_MINT_BS58_def USDC_RESERVE_BS58_def PYTH_SOLANA_RECEIVER_PROGRAM_BS58_def
  SOLEND_PROGRAM_ID_BS58_def SOLEND_NULL_ORACLE_SENTINEL_BS58_def

lemma xl_keys:
  "pubkey_of SOLEND_NULL_ORACLE_SENTINEL_BS58 \<noteq> pubkey_of PYTH_SOLANA_RECEIVER_PROGRAM_BS58"
  "(5 :: pubkey) \<noteq> pubkey_of PYTH_SOLANA_RECEIVER_PROGRAM_BS58"
  "(5 :: pubkey) \<noteq> pubkey_of SOLEND_NULL_ORACLE_SENTINEL_BS58"
  "(5 :: pubkey) \<noteq> pubkey_of USDC_RESERVE_BS58"
  "(9 :: pubkey) \<noteq> pubkey_of USDC_RESERVE_BS58" "(8 :: pubkey) \<noteq> pubkey_of USDC_RESERVE_BS58"
  by (simp_all add: xl_literals pubkey_literal)

lemma xl_reserve_bytes:
  "length xl_reserve = 619" "xl_reserve ! 9 = 0" "xl_reserve ! 0 = 1" "xl_reserve ! 74 = 6"
  "take 32 (drop 10 xl_reserve) = replicate 32 0"
  "take 32 (drop 42 xl_reserve) = array_bytes (pubkey_of USDC_MINT_BS58)"
  "take 32 (drop 107 xl_reserve) = array_bytes (5 :: pubkey)"
  "take 32 (drop 139 xl_reserve) = array_bytes (pubkey_of SOLEND_NULL_ORACLE_SENTINEL_BS58)"
  by (simp_all add: xl_reserve_def nth_append nth_Cons' drop_Cons')

lemma xl_reserve_decodes:
  obtains r where "raw_decode_reserve xl_reserve = Some (Inr r)" "\<not> re_last_update_stale r"
    "re_liquidity_mint r = pubkey_of USDC_MINT_BS58" "re_pyth_oracle r = 5"
    "re_switchboard_oracle r = pubkey_of SOLEND_NULL_ORACLE_SENTINEL_BS58"
proof -
  have "raw_u8 xl_reserve 0 = Some (xl_reserve ! 0)" by (rule raw_reads) (simp add: xl_reserve_bytes)
  then have "\<exists>r. raw_decode_reserve xl_reserve = Some (Inr r) \<and> \<not> re_last_update_stale r
    \<and> re_liquidity_mint r = pubkey_of USDC_MINT_BS58 \<and> re_pyth_oracle r = 5
    \<and> re_switchboard_oracle r = pubkey_of SOLEND_NULL_ORACLE_SENTINEL_BS58"
    by (simp add: raw_decode_reserve_def raw_lens raw_reads raw_bool_read raw_ok_Some xl_reserve_bytes array_of_array_bytes)
  then show thesis using that by blast
qed

lemma xl_display_values:
  "xl_display (pubkey_of PYTH_SOLANA_RECEIVER_PROGRAM_BS58) = ''rec5EKMGg6MxZYaMdyBfgwp4d5rB9T1VQH5pJv5LtFJ''"
  "is_null_oracle_sentinel xl_display (pubkey_of SOLEND_NULL_ORACLE_SENTINEL_BS58)"
  "\<not> is_null_oracle_sentinel xl_display 5"
  using xl_keys(1,2,3)
  by (simp_all add: xl_display_def is_null_oracle_sentinel_def xl_literals base58_text.simps)

lemma xl_price_known:
  "extract_publish_freshness xl_display (pubkey_of PYTH_SOLANA_RECEIVER_PROGRAM_BS58) xl_price = Some (KnownSlot (ChainSlot 0))"
proof -
  have "from_le_bytes (take 8 (drop 125 xl_price)) = (0 :: u64)"
    by (simp add: xl_price_def PYTH_PRICE_UPDATE_V2_DISCRIMINATOR_def drop_Cons' from_le_bytes_def numeral_nat)
  then have "pyth_posted xl_price 0"
    by (simp add: pyth_posted_def) (simp add: xl_price_def PYTH_PRICE_UPDATE_V2_DISCRIMINATOR_def nth_append nth_Cons')
  then show ?thesis
    using decode_pyth_cases(1) [of xl_price 0]
    by (simp add: extract_publish_freshness_def classify_oracle_provider_def xl_display_values)
qed

lemma xl_assembles:
  obtains a where "assemble_for_deposit xl_env 8 (pubkey_of USDC_MINT_BS58) 8 = Some (Inr a)"
    "evaluate_lending_policy (asd_snapshot a) (ActDeposit ProtocolTag.Solend (pubkey_of USDC_MINT_BS58) (UnderlyingAmount 1000000))
       xl_config 8 = Pass"
proof -
  obtain r where r: "raw_decode_reserve xl_reserve = Some (Inr r)" "\<not> re_last_update_stale r"
    "re_liquidity_mint r = pubkey_of USDC_MINT_BS58" "re_pyth_oracle r = 5"
    "re_switchboard_oracle r = pubkey_of SOLEND_NULL_ORACLE_SENTINEL_BS58"
    by (rule xl_reserve_decodes)
  let ?ri = "\<lparr>ri_pubkey = pubkey_of USDC_RESERVE_BS58, ri_raw = r, ri_fetched_at_slot = ChainSlot 100\<rparr>"
  let ?snap = "\<lparr>ls_protocol_tag = ProtocolTag.Solend, ls_session_wallet = 8, ls_fetched_at = ChainSlot 100,
      ls_obligation = \<lparr>lo_identifier = 8, lo_owner = 8, lo_protocol_last_updated_slot = ChainSlot 0,
        lo_protocol_native_stale = Fresh, lo_deposits = [], lo_borrows = [], lo_freshness = ChainSlot 100\<rparr>,
      ls_reserves = [map_reserve ?ri], ls_oracles = [map_feed_set xl_display
        [\<lparr>oa_pubkey = 5, oa_owner_program = pubkey_of PYTH_SOLANA_RECEIVER_PROGRAM_BS58,
          oa_fetched_at_slot = ChainSlot 100, oa_publish = KnownSlot (ChainSlot 0)\<rparr>] ?ri]\<rparr>"
  have fetch: "fetch_reserve xl_env (pubkey_of USDC_RESERVE_BS58) = Some (Inr r)"
    by (simp add: fetch_reserve_def xl_env_def xl_accounts_def raw_ok_Some r(1))
  have idx: "pyth_idx xl_env r = Some 3" "switchboard_idx xl_env r = None"
    using xl_display_values by (simp_all add: pyth_idx_def switchboard_idx_def xl_env_def r)
  have keys: "batch_keys xl_env 8 9 9 r = [8, 9, 9, 5]"
    using xl_display_values by (simp add: batch_keys_def xl_env_def r)
  have disp: "fe_display xl_env = xl_display" by (simp add: xl_env_def)
  have accts: "xl_accounts 8 = None" "xl_accounts 9 = None"
    "xl_accounts 5 = Some \<lparr>lamports = 1, data = xl_price, owner = pubkey_of PYTH_SOLANA_RECEIVER_PROGRAM_BS58\<rparr>"
    using xl_keys by (simp_all add: xl_accounts_def)
  have "\<exists>a. assemble_batch xl_env 8 8 (ChainSlot 100) (pubkey_of USDC_RESERVE_BS58) r 9 9 (map xl_accounts [8, 9, 9, 5])
      = Some (Inr a) \<and> asd_snapshot a = ?snap"
    using xl_display_values xl_price_known
    by (simp add: assemble_batch_def accts batch_at_idx_def idx get_index_def pyth_oracle_info_def switchboard_oracle_info_def
        disp r raw_ok_Some obligation_snapshot_def map_snapshot_for_first_deposit_def market_check_def
        build_reserves_and_oracles_def ata_exists_def Let_def)
  then obtain a where a: "assemble_batch xl_env 8 8 (ChainSlot 100) (pubkey_of USDC_RESERVE_BS58) r 9 9 (map xl_accounts [8, 9, 9, 5])
      = Some (Inr a)" "asd_snapshot a = ?snap" by blast
  have "assemble_for_deposit xl_env 8 (pubkey_of USDC_MINT_BS58) 8 = Some (Inr a)"
    using a(1) fetch keys by (simp add: assemble_for_deposit_def raw_ok_Some) (simp add: xl_env_def raw_ok_Some)
  moreover have "lending_admissible ?snap (ActDeposit ProtocolTag.Solend (pubkey_of USDC_MINT_BS58) (UnderlyingAmount 1000000)) xl_config 8"
    using xl_display_values
    by (simp add: lending_admissible_def state_fresh_def oracle_fresh_def position_allows_def xl_config_def map_reserve_def
        map_feed_set_def slot_feeds_def r slot_age_def slots_of_def stale_to_marker_def less_eq_UnderlyingAmount_def)
  ultimately show thesis using that a(2) lending_pass by simp
qed

theorem assembled_deposit_backed_witness:
  "\<exists>acct r keys accts. fe_get_account xl_env (pubkey_of USDC_RESERVE_BS58) = Inr (Some acct)
     \<and> raw_decode_reserve (data acct) = Some (Inr r) \<and> \<not> re_last_update_stale r
     \<and> fe_get_multiple_accounts xl_env keys = Inr accts \<and> oracle_slots_priced xl_env (set (zip keys accts)) r 100 150"
proof -
  obtain a where a: "assemble_for_deposit xl_env 8 (pubkey_of USDC_MINT_BS58) 8 = Some (Inr a)"
    "evaluate_lending_policy (asd_snapshot a) (ActDeposit ProtocolTag.Solend (pubkey_of USDC_MINT_BS58) (UnderlyingAmount 1000000))
       xl_config 8 = Pass" by (rule xl_assembles)
  have "display_law (fe_display xl_env)" using xl_display_law by (simp add: xl_env_def)
  from assembled_deposit_backed [OF this a] have "\<exists>now acct r accts keys. fe_get_slot xl_env = Inr now
     \<and> fe_get_account xl_env (pubkey_of USDC_RESERVE_BS58) = Inr (Some acct) \<and> raw_decode_reserve (data acct) = Some (Inr r)
     \<and> \<not> re_last_update_stale r \<and> fe_get_multiple_accounts xl_env keys = Inr accts
     \<and> oracle_slots_priced xl_env (set (zip keys accts)) r now (slots_of (max_publish_age xl_config))"
    by blast
  then show ?thesis by (auto simp: xl_env_def xl_config_def slots_of_def)
qed

end
