(* ===== verification/Policy_Engine.thy ===== *)
theory Policy_Engine
  imports Rust_Text
begin

text \<open>
  The policy engine of transaction signing: \<open>crates/types/src/policy.rs\<close> (rules and verdicts),
  \<open>crates/risk-engine\<close> (evaluation, rule helpers, spend tracking) and the part of \<open>crates/gateway\<close> that layers
  wallet, session and global rules (\<open>wallet_policy.rs\<close>, \<open>session_policy.rs\<close>, \<open>daemon.rs\<close>, \<open>tools/signing.rs\<close>). A
  floating-point threshold is its bit pattern, and its conversion to lamports a parameter, since the library has no
  IEEE arithmetic. A time is in seconds since the epoch.
\<close>

section \<open>Transactions\<close>

type_synonym f64 = "64 word"
type_synonym uuid = "128 word"
type_synonym seconds = int

datatype SolanaNetwork = MainnetBeta | Devnet | Testnet | Localnet

record TokenTransfer =
  tt_mint :: string
  tt_amount :: u64
  tt_decimals :: "u8 option"
  tt_source :: string
  tt_destination :: string

record AccountRole =
  ar_pubkey :: string
  ar_label :: "string option"
  ar_is_signer :: bool
  ar_is_writable :: bool

record InstructionSummary =
  is_program_id :: string
  is_program_name :: "string option"
  is_description :: string
  is_transfer_lamports :: "u64 option"
  is_token_transfer :: "TokenTransfer option"
  is_legacy_token_transfer :: bool
  is_accounts :: "AccountRole list"

record TransactionProposal =
  tp_id :: uuid
  tp_session_id :: uuid
  tp_wallet_pubkey :: string
  tp_network :: SolanaNetwork
  tp_description :: string
  tp_transaction_b64 :: string
  tp_instructions_summary :: "InstructionSummary list"
  tp_created_at :: seconds

record AccountDiff =
  ad_pubkey :: string
  ad_lamports_before :: "u64 option"
  ad_lamports_after :: "u64 option"
  ad_data_changed :: bool

record SimulationResult =
  sim_success :: bool
  sim_error :: "string option"
  sim_compute_units_used :: "u64 option"
  sim_logs :: "string list"
  sim_return_data :: "string option"
  sim_account_diffs :: "AccountDiff list"
  sim_fee_lamports :: "u64 option"

record PolicyEvaluationContext =
  cx_proposal :: TransactionProposal
  cx_simulation_result :: "SimulationResult option"
  cx_network :: SolanaNetwork
  cx_session_id :: uuid
  cx_session_spend_lamports :: u64
  cx_wallet_daily_spend_lamports :: u64

section \<open>Rules and verdicts\<close>

record ApprovalChainStage =
  cs_role :: string
  cs_description :: string
  cs_min_approvals :: u32

datatype PolicyVerdict =
    Approved string
  | RequiresHumanApproval string string "string option" "ApprovalChainStage list option"
  | Rejected string string
  | SimulationRequired
  | SimulationFailed string

fun is_auto_approved :: "PolicyVerdict \<Rightarrow> bool" where
  "is_auto_approved (Approved _) = True"
| "is_auto_approved _ = False"

fun is_blocked :: "PolicyVerdict \<Rightarrow> bool" where
  "is_blocked (Rejected _ _) = True"
| "is_blocked (SimulationFailed _) = True"
| "is_blocked _ = False"

fun requires_human :: "PolicyVerdict \<Rightarrow> bool" where
  "requires_human (RequiresHumanApproval _ _ _ _) = True"
| "requires_human _ = False"

fun verdict_label :: "PolicyVerdict \<Rightarrow> string" where
  "verdict_label (Approved _) = ''approved''"
| "verdict_label (RequiresHumanApproval _ _ _ _) = ''requires_human_approval''"
| "verdict_label (Rejected _ _) = ''rejected''"
| "verdict_label SimulationRequired = ''simulation_required''"
| "verdict_label (SimulationFailed _) = ''simulation_failed''"

fun verdict_rule_name :: "PolicyVerdict \<Rightarrow> string option" where
  "verdict_rule_name (Approved n) = Some n"
| "verdict_rule_name (RequiresHumanApproval _ n _ _) = Some n"
| "verdict_rule_name (Rejected _ n) = Some n"
| "verdict_rule_name _ = None"

fun verdict_reason :: "PolicyVerdict \<Rightarrow> string option" where
  "verdict_reason (RequiresHumanApproval r _ _ _) = Some r"
| "verdict_reason (Rejected r _) = Some r"
| "verdict_reason _ = None"

record PolicyEvaluationResult =
  pr_verdict :: PolicyVerdict
  pr_rules_total :: nat
  pr_rules_evaluated :: nat
  pr_matched_rule_index :: "nat option"

datatype PolicyCondition =
    NetworkIn "SolanaNetwork list"
  | ProgramNotInAllowlist
  | DestinationInDenylist
  | CostExceedsSol f64
  | DailySpendExceedsSol f64
  | AmountExceedsLamports u64
  | SimulationNotPassed
  | TokenAmountExceeds string u64
  | MintNotInAllowlist "string list"
  | LegacyTokenTransferPresent
  | OutsideAllowedHours u8 u8 "u8 list" i32
  | Always

datatype PolicyAction =
    Approve
  | RequireHumanApproval string "string option"
  | RequireApprovalChain string "ApprovalChainStage list"
  | Reject string

record PolicyRule =
  ru_name :: string
  ru_description :: string
  ru_condition :: PolicyCondition
  ru_action :: PolicyAction

section \<open>Evaluation\<close>

record PolicySet =
  ps_rules :: "PolicyRule list"
  ps_program_allowlist :: "string list"
  ps_destination_denylist :: "string list"

text \<open>
  The local hour (0 to 23) and ISO weekday (1 is Monday) of a time at an offset: the epoch was a Thursday. The offset in
  seconds is a wrapped product, and one of a day or more is replaced by zero.\<close>

definition fixed_offset :: "i32 \<Rightarrow> int" where
  "fixed_offset utc_offset_hours =
    (let secs = sint (utc_offset_hours * 3600) in if - 86400 < secs \<and> secs < 86400 then secs else 0)"

definition local_hour :: "seconds \<Rightarrow> int \<Rightarrow> int" where
  "local_hour now off = (now + off) div 3600 mod 24"

definition local_weekday :: "seconds \<Rightarrow> int \<Rightarrow> int" where
  "local_weekday now off = ((now + off) div 86400 + 3) mod 7 + 1"

definition is_outside_allowed_hours_at :: "seconds \<Rightarrow> u8 \<Rightarrow> u8 \<Rightarrow> u8 list \<Rightarrow> i32 \<Rightarrow> bool" where
  "is_outside_allowed_hours_at now start_hour end_hour allowed_days utc_offset_hours =
    (let off = fixed_offset utc_offset_hours; hour = local_hour now off; day_of_week = local_weekday now off in
     if allowed_days \<noteq> [] \<and> word_of_int day_of_week \<notin> set allowed_days then True
     else
       let in_allowed_hours =
         (if start_hour \<le> end_hour then hour \<ge> uint start_hour \<and> hour \<le> uint end_hour
          else hour \<ge> uint start_hour \<or> hour \<le> uint end_hour)
       in \<not> in_allowed_hours)"

definition find_diff :: "string \<Rightarrow> AccountDiff list \<Rightarrow> AccountDiff option" where
  "find_diff pk = List.find (\<lambda>d. ad_pubkey d = pk)"

definition transfer_amount_lamports :: "PolicyEvaluationContext \<Rightarrow> u64 option" where
  "transfer_amount_lamports ctx =
    (let amounts = List.map_filter is_transfer_lamports (tp_instructions_summary (cx_proposal ctx)) in
     if amounts \<noteq> [] then Some (foldl saturating_add 0 amounts)
     else Option.bind (cx_simulation_result ctx) (\<lambda>sim.
       Option.bind (find_diff (tp_wallet_pubkey (cx_proposal ctx)) (sim_account_diffs sim)) (\<lambda>diff.
       Option.bind (ad_lamports_before diff) (\<lambda>before.
       Option.bind (ad_lamports_after diff) (\<lambda>after'.
       Option.bind (checked_sub before after') (\<lambda>spent.
       Some (case sim_fee_lamports sim of Some fee \<Rightarrow> saturating_sub spent fee | None \<Rightarrow> spent)))))))"

definition token_transfers :: "PolicyEvaluationContext \<Rightarrow> TokenTransfer list" where
  "token_transfers ctx = List.map_filter is_token_transfer (tp_instructions_summary (cx_proposal ctx))"

fun condition_matches_at ::
  "(f64 \<Rightarrow> u64) \<Rightarrow> PolicySet \<Rightarrow> PolicyCondition \<Rightarrow> PolicyEvaluationContext \<Rightarrow> seconds \<Rightarrow> bool" where
  "condition_matches_at to_lamports ps (NetworkIn networks) ctx now \<longleftrightarrow> cx_network ctx \<in> set networks"
| "condition_matches_at to_lamports ps ProgramNotInAllowlist ctx now \<longleftrightarrow>
     ps_program_allowlist ps \<noteq> []
     \<and> list_ex (\<lambda>ix. is_program_id ix \<notin> set (ps_program_allowlist ps)) (tp_instructions_summary (cx_proposal ctx))"
| "condition_matches_at to_lamports ps DestinationInDenylist ctx now \<longleftrightarrow>
     ps_destination_denylist ps \<noteq> []
     \<and> list_ex (\<lambda>acc. ar_pubkey acc \<in> set (ps_destination_denylist ps))
         (concat (map is_accounts (tp_instructions_summary (cx_proposal ctx))))"
| "condition_matches_at to_lamports ps (CostExceedsSol threshold_sol) ctx now \<longleftrightarrow>
     (case cx_simulation_result ctx of
        None \<Rightarrow> False
      | Some sim \<Rightarrow> (case sim_fee_lamports sim of None \<Rightarrow> False | Some f \<Rightarrow> f > to_lamports threshold_sol))"
| "condition_matches_at to_lamports ps (DailySpendExceedsSol cap_sol) ctx now \<longleftrightarrow>
     cx_wallet_daily_spend_lamports ctx > to_lamports cap_sol"
| "condition_matches_at to_lamports ps (AmountExceedsLamports threshold) ctx now \<longleftrightarrow>
     (case transfer_amount_lamports ctx of None \<Rightarrow> False | Some amount \<Rightarrow> amount \<ge> threshold)"
| "condition_matches_at to_lamports ps SimulationNotPassed ctx now \<longleftrightarrow>
     (case cx_simulation_result ctx of None \<Rightarrow> True | Some s \<Rightarrow> \<not> sim_success s)"
| "condition_matches_at to_lamports ps (TokenAmountExceeds mnt threshold) ctx now \<longleftrightarrow>
     sum_list (map tt_amount (filter (\<lambda>tt. tt_mint tt = mnt) (token_transfers ctx))) \<ge> threshold"
| "condition_matches_at to_lamports ps (MintNotInAllowlist allowed) ctx now \<longleftrightarrow>
     allowed \<noteq> [] \<and> list_ex (\<lambda>tt. tt_mint tt \<notin> set allowed) (token_transfers ctx)"
| "condition_matches_at to_lamports ps LegacyTokenTransferPresent ctx now \<longleftrightarrow>
     list_ex is_legacy_token_transfer (tp_instructions_summary (cx_proposal ctx))"
| "condition_matches_at to_lamports ps (OutsideAllowedHours start_hour end_hour days off) ctx now \<longleftrightarrow>
     is_outside_allowed_hours_at now start_hour end_hour days off"
| "condition_matches_at to_lamports ps Always ctx now \<longleftrightarrow> True"

fun action_to_verdict :: "PolicyAction \<Rightarrow> string \<Rightarrow> PolicyVerdict" where
  "action_to_verdict Approve rule_name = Approved rule_name"
| "action_to_verdict (RequireHumanApproval reason role) rule_name = RequiresHumanApproval reason rule_name role None"
| "action_to_verdict (RequireApprovalChain reason stages) rule_name =
     RequiresHumanApproval reason rule_name None (Some stages)"
| "action_to_verdict (Reject reason) rule_name = Rejected reason rule_name"

fun evaluate_rules ::
  "(f64 \<Rightarrow> u64) \<Rightarrow> PolicySet \<Rightarrow> PolicyEvaluationContext \<Rightarrow> seconds \<Rightarrow> nat \<Rightarrow> PolicyRule list \<Rightarrow> PolicyEvaluationResult option" where
  "evaluate_rules to_lamports ps ctx now i [] = None"
| "evaluate_rules to_lamports ps ctx now i (rule # rules) =
    (if condition_matches_at to_lamports ps (ru_condition rule) ctx now
     then Some \<lparr>pr_verdict = action_to_verdict (ru_action rule) (ru_name rule), pr_rules_total = length (ps_rules ps),
       pr_rules_evaluated = i + 1, pr_matched_rule_index = Some i\<rparr>
     else evaluate_rules to_lamports ps ctx now (Suc i) rules)"

definition simulation_error :: "SimulationResult \<Rightarrow> string" where
  "simulation_error sim = (case sim_error sim of Some e \<Rightarrow> e | None \<Rightarrow> ''unknown simulation error'')"

definition fail_closed :: PolicyVerdict where
  "fail_closed = RequiresHumanApproval ''no matching policy rule; failing closed'' ''default-fail-closed'' None None"

definition evaluate_at ::
  "(f64 \<Rightarrow> u64) \<Rightarrow> PolicySet \<Rightarrow> PolicyEvaluationContext \<Rightarrow> seconds \<Rightarrow> PolicyEvaluationResult" where
  "evaluate_at to_lamports ps ctx now =
    (let rules_total = length (ps_rules ps);
         after_precheck = (case evaluate_rules to_lamports ps ctx now 0 (ps_rules ps) of
           Some r \<Rightarrow> r
         | None \<Rightarrow> \<lparr>pr_verdict = fail_closed, pr_rules_total = rules_total, pr_rules_evaluated = rules_total,
             pr_matched_rule_index = None\<rparr>)
     in case cx_simulation_result ctx of
          None \<Rightarrow> after_precheck
        | Some sim \<Rightarrow>
            if \<not> sim_success sim then \<lparr>pr_verdict = SimulationFailed (simulation_error sim), pr_rules_total = rules_total,
              pr_rules_evaluated = 0, pr_matched_rule_index = None\<rparr>
            else after_precheck)"

definition with_session_rules :: "PolicySet \<Rightarrow> PolicyRule list \<Rightarrow> PolicySet" where
  "with_session_rules ps session_rules = ps\<lparr>ps_rules := session_rules @ ps_rules ps\<rparr>"

section \<open>Default rules\<close>

definition allow_all_rule :: PolicyRule where
  "allow_all_rule = \<lparr>ru_name = ''allow-all'', ru_description = ''Approve all transactions (devnet/testnet only)'',
     ru_condition = Always, ru_action = Approve\<rparr>"

definition mainnet_rules :: "PolicyRule list" where
  "mainnet_rules =
    [\<lparr>ru_name = ''mainnet-requires-human'', ru_description = ''All mainnet transactions require human approval'',
      ru_condition = NetworkIn [MainnetBeta],
      ru_action = RequireHumanApproval ''mainnet transaction requires explicit operator approval'' None\<rparr>,
     \<lparr>ru_name = ''devnet-allow'', ru_description = ''Allow devnet transactions automatically'',
      ru_condition = NetworkIn [Devnet, Testnet, Localnet], ru_action = Approve\<rparr>]"

definition permissive_default :: PolicySet where
  "permissive_default = \<lparr>ps_rules = [allow_all_rule], ps_program_allowlist = [], ps_destination_denylist = []\<rparr>"

definition mainnet_safe_default :: PolicySet where
  "mainnet_safe_default = \<lparr>ps_rules = mainnet_rules, ps_program_allowlist = [], ps_destination_denylist = []\<rparr>"

definition default_policy_rules :: "SolanaNetwork \<Rightarrow> bool \<Rightarrow> PolicyRule list" where
  "default_policy_rules network mainnet_safe_defaults =
    (if mainnet_safe_defaults \<and> network = MainnetBeta then mainnet_rules else [allow_all_rule])"

record PolicyConfig =
  pc_rules :: "PolicyRule list"
  pc_program_allowlist :: "string list"
  pc_destination_denylist :: "string list"
  pc_mainnet_safe_defaults :: bool

definition build_policy_set :: "SolanaNetwork \<Rightarrow> PolicyConfig \<Rightarrow> PolicySet" where
  "build_policy_set network cfg =
    \<lparr>ps_rules = pc_rules cfg @ default_policy_rules network (pc_mainnet_safe_defaults cfg),
     ps_program_allowlist = pc_program_allowlist cfg, ps_destination_denylist = pc_destination_denylist cfg\<rparr>"

section \<open>Wallet and session rules\<close>

record WalletPolicyConfig =
  wp_max_amount_lamports :: "u64 option"
  wp_program_allowlist :: "string list"
  wp_required_approver_role :: "string option"
  wp_rules :: "PolicyRule list"

record WalletConfig =
  wc_label :: string
  wc_pubkey :: "string option"
  wc_policy :: "WalletPolicyConfig option"

text \<open>\<open>&pubkey[..8.min(pubkey.len())]\<close>, which panics inside a character.\<close>

definition short_key :: "string \<Rightarrow> string option" where
  "short_key pk = (let n = min 8 (length pk) in if is_char_boundary pk n then Some (take n pk) else None)"

definition amount_cap_rules :: "string \<Rightarrow> string \<Rightarrow> WalletPolicyConfig \<Rightarrow> PolicyRule list option" where
  "amount_cap_rules pk label p = (case wp_max_amount_lamports p of
     None \<Rightarrow> Some []
   | Some max_amount \<Rightarrow> map_option (\<lambda>short.
       [\<lparr>ru_name = ''wallet-'' @ short @ ''-amount-cap'',
         ru_description = ''Wallet '' @ label @ '' amount cap: '' @ show_nat (unat max_amount) @ '' lamports'',
         ru_condition = AmountExceedsLamports max_amount,
         ru_action = RequireHumanApproval
           (''wallet '' @ [CHR 0x27] @ label @ [CHR 0x27] @ '': amount exceeds '' @ show_nat (unat max_amount) @ '' lamports'')
           (wp_required_approver_role p)\<rparr>]) (short_key pk))"

definition program_allowlist_rules :: "string \<Rightarrow> string \<Rightarrow> WalletPolicyConfig \<Rightarrow> PolicyRule list option" where
  "program_allowlist_rules pk label p = (if wp_program_allowlist p = [] then Some []
   else map_option (\<lambda>short.
       [\<lparr>ru_name = ''wallet-'' @ short @ ''-program-allowlist'', ru_description = ''Wallet '' @ label @ '' program allowlist'',
         ru_condition = ProgramNotInAllowlist,
         ru_action = Reject (''wallet '' @ [CHR 0x27] @ label @ [CHR 0x27] @ '': program not in wallet allowlist'')\<rparr>])
     (short_key pk))"

definition requires_role_rules :: "string \<Rightarrow> string \<Rightarrow> WalletPolicyConfig \<Rightarrow> PolicyRule list option" where
  "requires_role_rules pk label p =
    (if wp_required_approver_role p \<noteq> None \<and> wp_max_amount_lamports p = None
     then map_option (\<lambda>short.
       [\<lparr>ru_name = ''wallet-'' @ short @ ''-requires-role'', ru_description = ''Wallet '' @ label @ '' requires specific approver'',
         ru_condition = Always,
         ru_action = RequireHumanApproval (''wallet '' @ [CHR 0x27] @ label @ [CHR 0x27] @ '': requires designated approver'')
           (wp_required_approver_role p)\<rparr>]) (short_key pk)
     else Some [])"

definition compile_wallet_rules :: "string \<Rightarrow> string \<Rightarrow> WalletPolicyConfig \<Rightarrow> PolicyRule list option" where
  "compile_wallet_rules pk label p =
    Option.bind (amount_cap_rules pk label p) (\<lambda>caps.
    Option.bind (program_allowlist_rules pk label p) (\<lambda>programs.
    Option.bind (requires_role_rules pk label p) (\<lambda>roles. Some (caps @ programs @ roles @ wp_rules p))))"

type_synonym WalletPolicyStore = "string \<rightharpoonup> PolicyRule list"

definition wallet_register :: "WalletPolicyStore \<Rightarrow> string \<Rightarrow> WalletConfig \<Rightarrow> WalletPolicyStore option" where
  "wallet_register st pk wallet = (case wc_policy wallet of
     None \<Rightarrow> Some st
   | Some p \<Rightarrow> map_option (\<lambda>rules. if rules = [] then st else st(pk \<mapsto> rules)) (compile_wallet_rules pk (wc_label wallet) p))"

fun wallet_from_config :: "WalletPolicyStore \<Rightarrow> WalletConfig list \<Rightarrow> WalletPolicyStore option" where
  "wallet_from_config st [] = Some st"
| "wallet_from_config st (wallet # ws) = (case wc_pubkey wallet of
     None \<Rightarrow> wallet_from_config st ws
   | Some pk \<Rightarrow> Option.bind (wallet_register st pk wallet) (\<lambda>st'. wallet_from_config st' ws))"

record RolePolicyProfile =
  rp_role :: string
  rp_rules :: "PolicyRule list"

datatype AgentRole = Research | Execution | Risk | Ops

fun agent_role_name :: "AgentRole \<Rightarrow> string" where
  "agent_role_name Research = ''research''"
| "agent_role_name Execution = ''execution''"
| "agent_role_name Risk = ''risk''"
| "agent_role_name Ops = ''ops''"

definition build_session_rules :: "AgentRole \<Rightarrow> PolicyRule list option \<Rightarrow> RolePolicyProfile list \<Rightarrow> PolicyRule list" where
  "build_session_rules role caller_overrides profiles =
    (case caller_overrides of None \<Rightarrow> [] | Some rs \<Rightarrow> rs)
    @ (case List.find (\<lambda>p. rp_role p = agent_role_name role) profiles of None \<Rightarrow> [] | Some p \<Rightarrow> rp_rules p)"

type_synonym SessionPolicyStore = "uuid \<rightharpoonup> PolicyRule list"

definition session_policy_set :: "SessionPolicyStore \<Rightarrow> uuid \<Rightarrow> PolicyRule list \<Rightarrow> SessionPolicyStore" where
  "session_policy_set st sid rules = (if rules = [] then st else st(sid \<mapsto> rules))"

definition session_policy_remove :: "SessionPolicyStore \<Rightarrow> uuid \<Rightarrow> SessionPolicyStore" where
  "session_policy_remove st sid = st(sid := None)"

text \<open>The layered policy of one signing call.\<close>

definition effective_policy ::
  "PolicySet \<Rightarrow> SessionPolicyStore \<Rightarrow> WalletPolicyStore \<Rightarrow> uuid \<Rightarrow> string \<Rightarrow> PolicySet" where
  "effective_policy ps sessions wallets sid wallet_pubkey =
    (let layered = (case sessions sid of Some rules \<Rightarrow> with_session_rules ps rules | None \<Rightarrow> ps)
     in case wallets wallet_pubkey of Some rules \<Rightarrow> with_session_rules layered rules | None \<Rightarrow> layered)"

section \<open>Rule helpers and spend tracking\<close>

definition exceeds_cap :: "u64 \<Rightarrow> u64 \<Rightarrow> u64 \<Rightarrow> bool" where
  "exceeds_cap current proposed cap = (case checked_add current proposed of Some tot \<Rightarrow> tot > cap | None \<Rightarrow> True)"

definition all_programs_allowed :: "string list \<Rightarrow> string list \<Rightarrow> bool" where
  "all_programs_allowed ids allowlist \<longleftrightarrow> allowlist = [] \<or> list_all (\<lambda>p. list_ex (\<lambda>a. a = p) allowlist) ids"

definition any_account_denied :: "string list \<Rightarrow> string list \<Rightarrow> bool" where
  "any_account_denied accounts denylist \<longleftrightarrow> denylist \<noteq> [] \<and> list_ex (\<lambda>p. list_ex (\<lambda>d. d = p) denylist) accounts"

record SpendTracker =
  st_session_spend :: "string \<rightharpoonup> u64"
  st_daily_spend :: "string \<times> string \<rightharpoonup> u64"

definition spend_of :: "('k \<rightharpoonup> u64) \<Rightarrow> 'k \<Rightarrow> u64" where
  "spend_of m k = (case m k of Some v \<Rightarrow> v | None \<Rightarrow> 0)"

definition record_spend :: "SpendTracker \<Rightarrow> string \<Rightarrow> string \<Rightarrow> string \<Rightarrow> u64 \<Rightarrow> SpendTracker" where
  "record_spend tr sid wallet today amount = tr\<lparr>
     st_session_spend := (st_session_spend tr)(sid \<mapsto> spend_of (st_session_spend tr) sid + amount),
     st_daily_spend := (st_daily_spend tr)((wallet, today) \<mapsto> spend_of (st_daily_spend tr) (wallet, today) + amount)\<rparr>"

definition clear_session :: "SpendTracker \<Rightarrow> string \<Rightarrow> SpendTracker" where
  "clear_session tr sid = tr\<lparr>st_session_spend := (st_session_spend tr)(sid := None)\<rparr>"

section \<open>First match\<close>

definition rule_matches :: "(f64 \<Rightarrow> u64) \<Rightarrow> PolicySet \<Rightarrow> PolicyEvaluationContext \<Rightarrow> seconds \<Rightarrow> PolicyRule \<Rightarrow> bool" where
  "rule_matches to_lamports ps ctx now rule \<longleftrightarrow> condition_matches_at to_lamports ps (ru_condition rule) ctx now"

lemma evaluate_rules_first:
  "evaluate_rules f ps ctx now i rules =
    (let k = length (takeWhile (\<lambda>r. \<not> rule_matches f ps ctx now r) rules) in
     if k < length rules
     then Some \<lparr>pr_verdict = action_to_verdict (ru_action (rules ! k)) (ru_name (rules ! k)),
       pr_rules_total = length (ps_rules ps), pr_rules_evaluated = i + k + 1, pr_matched_rule_index = Some (i + k)\<rparr>
     else None)"
  by (induction rules arbitrary: i) (auto simp: rule_matches_def Let_def)

definition simulation_failed :: "PolicyEvaluationContext \<Rightarrow> bool" where
  "simulation_failed ctx \<longleftrightarrow> (case cx_simulation_result ctx of None \<Rightarrow> False | Some sim \<Rightarrow> \<not> sim_success sim)"

text \<open>The rule that decides: the first of the list that matches.\<close>

fun first_match :: "('r \<Rightarrow> bool) \<Rightarrow> 'r list \<Rightarrow> 'r \<Rightarrow> bool" where
  "first_match m [] r \<longleftrightarrow> False"
| "first_match m (x # xs) r \<longleftrightarrow> (if m x then r = x else first_match m xs r)"

lemma first_match_append:
  "first_match m (xs @ ys) r \<longleftrightarrow> first_match m xs r \<or> list_all (\<lambda>x. \<not> m x) xs \<and> first_match m ys r"
  by (induction xs) simp_all

lemma first_match_mem: "first_match m xs r \<Longrightarrow> r \<in> set xs"
  by (induction xs) (auto split: if_splits)

lemma first_match_unique: "first_match m xs r \<Longrightarrow> first_match m xs r' \<Longrightarrow> r = r'"
  by (induction xs) (auto split: if_splits)

lemma first_match_none: "list_all (\<lambda>x. \<not> m x) xs \<Longrightarrow> \<not> first_match m xs r"
  by (induction xs) auto

lemma first_match_takeWhile:
  "first_match m rules r \<longleftrightarrow>
     length (takeWhile (\<lambda>x. \<not> m x) rules) < length rules \<and> r = rules ! length (takeWhile (\<lambda>x. \<not> m x) rules)"
  by (induction rules) auto

lemma evaluate_verdict:
  "pr_verdict (evaluate_at f ps ctx now) = v \<longleftrightarrow>
    (if simulation_failed ctx then v = SimulationFailed (simulation_error (the (cx_simulation_result ctx)))
     else (\<exists>r. first_match (rule_matches f ps ctx now) (ps_rules ps) r \<and> v = action_to_verdict (ru_action r) (ru_name r))
       \<or> list_all (\<lambda>r. \<not> rule_matches f ps ctx now r) (ps_rules ps) \<and> v = fail_closed)"
proof -
  let ?k = "length (takeWhile (\<lambda>x. \<not> rule_matches f ps ctx now x) (ps_rules ps))"
  have all: "list_all (\<lambda>r. \<not> rule_matches f ps ctx now r) (ps_rules ps) \<longleftrightarrow> \<not> ?k < length (ps_rules ps)"
  proof -
    have "?k = length (ps_rules ps) \<longleftrightarrow> takeWhile (\<lambda>x. \<not> rule_matches f ps ctx now x) (ps_rules ps) = ps_rules ps"
      by (metis takeWhile_eq_take take_all_iff order_refl)
    also have "\<dots> \<longleftrightarrow> list_all (\<lambda>r. \<not> rule_matches f ps ctx now r) (ps_rules ps)"
      by (simp add: takeWhile_eq_all_conv list_all_iff)
    finally show ?thesis using length_takeWhile_le [of "\<lambda>x. \<not> rule_matches f ps ctx now x" "ps_rules ps"] by linarith
  qed
  show ?thesis
    unfolding first_match_takeWhile all
    by (auto simp: evaluate_at_def Let_def evaluate_rules_first simulation_failed_def split: option.splits)
qed

lemma auto_approved_verdict:
  "is_auto_approved (action_to_verdict act n) \<longleftrightarrow> act = Approve" "\<not> is_auto_approved fail_closed"
  by (cases act; simp add: fail_closed_def)+

lemma evaluate_auto_approved:
  "is_auto_approved (pr_verdict (evaluate_at f ps ctx now)) \<longleftrightarrow>
    \<not> simulation_failed ctx \<and> (\<exists>r. first_match (rule_matches f ps ctx now) (ps_rules ps) r \<and> ru_action r = Approve)"
  using evaluate_verdict [of f ps ctx now "pr_verdict (evaluate_at f ps ctx now)"]
  by (cases "simulation_failed ctx") (auto simp: auto_approved_verdict dest: first_match_unique first_match_none)

section \<open>Layers\<close>

definition layered_rules :: "SessionPolicyStore \<Rightarrow> WalletPolicyStore \<Rightarrow> uuid \<Rightarrow> string \<Rightarrow> PolicyRule list \<Rightarrow> PolicyRule list" where
  "layered_rules sessions wallets sid w global =
    (case wallets w of Some rs \<Rightarrow> rs | None \<Rightarrow> []) @ (case sessions sid of Some rs \<Rightarrow> rs | None \<Rightarrow> []) @ global"

lemma condition_matches_lists:
  "ps_program_allowlist ps = ps_program_allowlist ps' \<Longrightarrow> ps_destination_denylist ps = ps_destination_denylist ps' \<Longrightarrow>
   condition_matches_at f ps c ctx now = condition_matches_at f ps' c ctx now"
  by (cases c) simp_all

lemma effective_policy_layers:
  "ps_rules (effective_policy ps sessions wallets sid w) = layered_rules sessions wallets sid w (ps_rules ps)"
  "rule_matches f (effective_policy ps sessions wallets sid w) = rule_matches f ps"
proof -
  show "ps_rules (effective_policy ps sessions wallets sid w) = layered_rules sessions wallets sid w (ps_rules ps)"
    by (simp add: effective_policy_def layered_rules_def with_session_rules_def split: option.split)
  show "rule_matches f (effective_policy ps sessions wallets sid w) = rule_matches f ps"
    by (intro ext) (auto simp: rule_matches_def effective_policy_def with_session_rules_def
        intro!: condition_matches_lists split: option.split)
qed

text \<open>
  C33: automatic approval, exactly. Under the layered policy of a signing call a transaction is approved without a human if
  and only if its simulation did not fail and the first rule that matches, in the order wallet rules, session rules,
  configured rules, defaults, says so. In every other case, no matching rule included, it is not.\<close>

theorem auto_approval_exact:
  "is_auto_approved (pr_verdict (evaluate_at f (effective_policy (build_policy_set network cfg) sessions wallets sid w) ctx now))
   \<longleftrightarrow> \<not> simulation_failed ctx
     \<and> (\<exists>r. first_match (rule_matches f (build_policy_set network cfg) ctx now)
          (layered_rules sessions wallets sid w (pc_rules cfg @ default_policy_rules network (pc_mainnet_safe_defaults cfg))) r
          \<and> ru_action r = Approve)"
  unfolding evaluate_auto_approved effective_policy_layers by (simp add: build_policy_set_def)

text \<open>
  On mainnet with the safe defaults no transaction is approved without a human, whatever it does and whatever its
  context, unless a wallet, session or configured rule asks for automatic approval.\<close>

theorem mainnet_needs_human:
  assumes "pc_mainnet_safe_defaults cfg" "cx_network ctx = MainnetBeta"
    and "list_all (\<lambda>r. ru_action r \<noteq> Approve) (layered_rules sessions wallets sid w (pc_rules cfg))"
  shows "\<not> is_auto_approved (pr_verdict (evaluate_at f
     (effective_policy (build_policy_set MainnetBeta cfg) sessions wallets sid w) ctx now))"
proof
  let ?m = "rule_matches f (build_policy_set MainnetBeta cfg) ctx now"
  assume "is_auto_approved (pr_verdict (evaluate_at f
     (effective_policy (build_policy_set MainnetBeta cfg) sessions wallets sid w) ctx now))"
  then obtain r where r: "first_match ?m (layered_rules sessions wallets sid w (pc_rules cfg) @ mainnet_rules) r"
    "ru_action r = Approve"
    using assms(1)
    by (auto simp: evaluate_auto_approved effective_policy_layers layered_rules_def build_policy_set_def default_policy_rules_def)
  have "r \<notin> set (layered_rules sessions wallets sid w (pc_rules cfg))" using assms(3) r(2) by (auto simp: list_all_iff)
  then have "first_match ?m mainnet_rules r" using r(1) first_match_mem by (fastforce simp: first_match_append)
  then show False using assms(2) r(2) by (auto simp: rule_matches_def mainnet_rules_def)
qed

text \<open>The stand-alone helpers of \<open>rules/allowlist.rs\<close> decide the same conditions.\<close>

lemma list_helpers_agree:
  "condition_matches_at f ps ProgramNotInAllowlist ctx now \<longleftrightarrow>
     \<not> all_programs_allowed (map is_program_id (tp_instructions_summary (cx_proposal ctx))) (ps_program_allowlist ps)"
  "condition_matches_at f ps DestinationInDenylist ctx now \<longleftrightarrow>
     any_account_denied (concat (map (\<lambda>ix. map ar_pubkey (is_accounts ix)) (tp_instructions_summary (cx_proposal ctx))))
       (ps_destination_denylist ps)"
  by (auto simp: all_programs_allowed_def any_account_denied_def list_all_iff list_ex_iff)

section \<open>Wallet allowlists\<close>

text \<open>
  C34: the contents of a wallet's program allowlist have no effect. Two non-empty allowlists compile to the same rules, so
  every transaction of the wallet gets the same verdict under either: the compiled rule consults the global list only.\<close>

theorem wallet_allowlist_ineffective:
  assumes "allowed \<noteq> []" "allowed' \<noteq> []"
    and "wallet_register wallets w \<lparr>wc_label = label, wc_pubkey = key, wc_policy = Some (p\<lparr>wp_program_allowlist := allowed\<rparr>)\<rparr> = Some st"
    and "wallet_register wallets w \<lparr>wc_label = label, wc_pubkey = key, wc_policy = Some (p\<lparr>wp_program_allowlist := allowed'\<rparr>)\<rparr> = Some st'"
  shows "evaluate_at f (effective_policy ps sessions st sid w) ctx now = evaluate_at f (effective_policy ps sessions st' sid w) ctx now"
proof -
  have "compile_wallet_rules w label (p\<lparr>wp_program_allowlist := allowed\<rparr>) = compile_wallet_rules w label (p\<lparr>wp_program_allowlist := allowed'\<rparr>)"
    unfolding compile_wallet_rules_def amount_cap_rules_def program_allowlist_rules_def requires_role_rules_def
    using assms(1,2) by (cases "wp_max_amount_lamports p") simp_all
  then have "st = st'" using assms(3,4) by (auto simp: wallet_register_def)
  then show ?thesis by simp
qed

section \<open>Amount thresholds\<close>

lemma unat_saturating_add: "unat (saturating_add a b) = min (unat a + unat b) (2 ^ LENGTH('a) - 1)" for a :: "'a::len word"
proof (cases "checked_add a b")
  case None
  then have "2 ^ LENGTH('a) \<le> unat a + unat b" by (simp only: checked_add_None)
  with None show ?thesis by (simp add: saturating_add_def unsigned_minus_1_eq_mask mask_eq_exp_minus_1)
next
  case (Some c)
  then have "unat c = unat a + unat b" by (simp only: checked_add_Some)
  with Some unat_less_exp [of c] show ?thesis by (simp add: saturating_add_def)
qed

lemma unat_saturating_sum:
  "unat (foldl saturating_add a xs) = min (unat a + sum_list (map unat xs)) (2 ^ LENGTH('a) - 1)" for a :: "'a::len word"
proof (induction xs arbitrary: a)
  case Nil
  have "unat a \<le> 2 ^ LENGTH('a) - 1" using unat_less_exp [of a] by linarith
  then show ?case by simp
next
  case (Cons x xs)
  show ?case by (simp add: Cons.IH unat_saturating_add)
qed

lemma unat_sum_list: "unat (sum_list xs) = sum_list (map unat xs) mod 2 ^ LENGTH('a)" for xs :: "'a::len word list"
proof (induction xs)
  case (Cons x xs)
  show ?case by (simp add: unat_word_ariths Cons.IH mod_add_right_eq)
qed simp

text \<open>
  The two amount thresholds treat overflow differently. The lamports of a transaction's transfers are added with
  saturation, so a total beyond 64 bits meets every threshold. The amounts of its token transfers of a mint are added modulo
  2 to the 64, so a transaction whose transfers of the mint add up to a multiple of that stays under every positive threshold.\<close>

theorem amount_thresholds_exact:
  "(condition_matches_at f ps (TokenAmountExceeds mnt threshold) ctx now \<longleftrightarrow>
      unat threshold \<le> sum_list (map (unat \<circ> tt_amount) (filter (\<lambda>tt. tt_mint tt = mnt) (token_transfers ctx))) mod 2 ^ 64)
   \<and> (let amounts = List.map_filter is_transfer_lamports (tp_instructions_summary (cx_proposal ctx)) in
      (amounts \<noteq> [] \<and> condition_matches_at f ps (AmountExceedsLamports threshold) ctx now) =
      (amounts \<noteq> [] \<and> unat threshold \<le> min (sum_list (map unat amounts)) (2 ^ 64 - 1)))"
  by (simp add: Let_def transfer_amount_lamports_def word_le_nat_alt unat_sum_list unat_saturating_sum conj_commute cong: conj_cong)

section \<open>Examples\<close>

definition xp_instruction :: "string \<Rightarrow> u64 \<Rightarrow> InstructionSummary" where
  "xp_instruction program amount = \<lparr>is_program_id = program, is_program_name = None, is_description = [],
     is_transfer_lamports = None,
     is_token_transfer = Some \<lparr>tt_mint = ''USDC'', tt_amount = amount, tt_decimals = None, tt_source = ''S'', tt_destination = ''D''\<rparr>,
     is_legacy_token_transfer = False, is_accounts = []\<rparr>"

definition xp_context :: "SolanaNetwork \<Rightarrow> InstructionSummary list \<Rightarrow> PolicyEvaluationContext" where
  "xp_context network ixs = \<lparr>cx_proposal = \<lparr>tp_id = 1, tp_session_id = 2, tp_wallet_pubkey = ''W'', tp_network = network,
       tp_description = [], tp_transaction_b64 = [], tp_instructions_summary = ixs, tp_created_at = 0\<rparr>,
     cx_simulation_result = None, cx_network = network, cx_session_id = 2, cx_session_spend_lamports = 0,
     cx_wallet_daily_spend_lamports = 0\<rparr>"

definition xp_config :: PolicyConfig where
  "xp_config = \<lparr>pc_rules = [\<lparr>ru_name = ''token-cap'', ru_description = [], ru_condition = TokenAmountExceeds ''USDC'' 1000,
       ru_action = Reject ''too much''\<rparr>],
     pc_program_allowlist = [], pc_destination_denylist = [], pc_mainnet_safe_defaults = True\<rparr>"

theorem mainnet_needs_human_witness:
  "\<not> is_auto_approved (pr_verdict (evaluate_at (\<lambda>_. 0)
     (effective_policy (build_policy_set MainnetBeta xp_config) Map.empty Map.empty 2 ''W'')
     (xp_context MainnetBeta [xp_instruction ''A'' 5]) 0))"
  by (rule mainnet_needs_human) (simp_all add: xp_config_def xp_context_def layered_rules_def)

definition xp_wallet :: "string list \<Rightarrow> WalletConfig" where
  "xp_wallet allowed = \<lparr>wc_label = ''hot'', wc_pubkey = None, wc_policy = Some \<lparr>wp_max_amount_lamports = None,
     wp_program_allowlist = allowed, wp_required_approver_role = None, wp_rules = []\<rparr>\<rparr>"

text \<open>A wallet restricted to program A: a transaction that calls program B is approved, as it is with B listed.\<close>

theorem wallet_allowlist_ineffective_witness:
  "\<exists>st st'. wallet_register Map.empty ''W'' (xp_wallet [''A'']) = Some st \<and> wallet_register Map.empty ''W'' (xp_wallet [''B'']) = Some st'
     \<and> evaluate_at (\<lambda>_. 0) (effective_policy (build_policy_set Devnet xp_config) Map.empty st 2 ''W'') (xp_context Devnet [xp_instruction ''B'' 5]) 0
       = evaluate_at (\<lambda>_. 0) (effective_policy (build_policy_set Devnet xp_config) Map.empty st' 2 ''W'') (xp_context Devnet [xp_instruction ''B'' 5]) 0
     \<and> is_auto_approved (pr_verdict (evaluate_at (\<lambda>_. 0)
         (effective_policy (build_policy_set Devnet xp_config) Map.empty st 2 ''W'') (xp_context Devnet [xp_instruction ''B'' 5]) 0))"
proof -
  let ?p = "\<lparr>wp_max_amount_lamports = None, wp_program_allowlist = [], wp_required_approver_role = None, wp_rules = []\<rparr>"
  have reg: "\<exists>st. wallet_register Map.empty ''W'' \<lparr>wc_label = ''hot'', wc_pubkey = None,
      wc_policy = Some (?p\<lparr>wp_program_allowlist := [c]\<rparr>)\<rparr> = Some st" for c
    by (simp add: wallet_register_def compile_wallet_rules_def amount_cap_rules_def program_allowlist_rules_def
        requires_role_rules_def short_key_def is_char_boundary_def)
  obtain st st' where st: "wallet_register Map.empty ''W'' \<lparr>wc_label = ''hot'', wc_pubkey = None,
      wc_policy = Some (?p\<lparr>wp_program_allowlist := [''A'']\<rparr>)\<rparr> = Some st"
    "wallet_register Map.empty ''W'' \<lparr>wc_label = ''hot'', wc_pubkey = None,
      wc_policy = Some (?p\<lparr>wp_program_allowlist := [''B'']\<rparr>)\<rparr> = Some st'"
    using reg by blast
  have eq: "evaluate_at (\<lambda>_. 0) (effective_policy (build_policy_set Devnet xp_config) Map.empty st 2 ''W'') (xp_context Devnet [xp_instruction ''B'' 5]) 0
       = evaluate_at (\<lambda>_. 0) (effective_policy (build_policy_set Devnet xp_config) Map.empty st' 2 ''W'') (xp_context Devnet [xp_instruction ''B'' 5]) 0"
    by (rule wallet_allowlist_ineffective [OF _ _ st]) simp_all
  have "is_auto_approved (pr_verdict (evaluate_at (\<lambda>_. 0)
         (effective_policy (build_policy_set Devnet xp_config) Map.empty st 2 ''W'') (xp_context Devnet [xp_instruction ''B'' 5]) 0))"
    using st(1)
    by (auto simp: evaluate_auto_approved effective_policy_layers layered_rules_def wallet_register_def compile_wallet_rules_def
        amount_cap_rules_def program_allowlist_rules_def requires_role_rules_def short_key_def is_char_boundary_def
        simulation_failed_def xp_context_def build_policy_set_def xp_config_def default_policy_rules_def rule_matches_def
        token_transfers_def xp_instruction_def allow_all_rule_def map_filter_def)
  with st eq show ?thesis by (auto simp: xp_wallet_def)
qed

end
