(* ===== verification/Approval_Workflow.thy ===== *)
theory Approval_Workflow
  imports Policy_Engine State_Machine
begin

text \<open>
  Human approval of a transaction: the workflow of stages and quorums (\<open>crates/types/src/approval.rs\<close>), the in-memory store of
  requests and workflows (\<open>crates/gateway/src/approval_store.rs\<close>) and the construction of a workflow from a verdict
  (\<open>tools/signing.rs\<close>, \<open>durable_pending.rs\<close>). An instant is in nanoseconds; every reading of the clock is an argument. An
  index outside a list panics: \<open>None\<close>.
\<close>

section \<open>Workflows\<close>

type_synonym instant = int

datatype ApprovalWorkflowState = Pending | Approved | Rejected | Expired

fun state_is_terminal :: "ApprovalWorkflowState \<Rightarrow> bool" where
  "state_is_terminal Pending = False"
| "state_is_terminal _ = True"

fun state_label :: "ApprovalWorkflowState \<Rightarrow> string" where
  "state_label Pending = ''pending''"
| "state_label Approved = ''approved''"
| "state_label Rejected = ''rejected''"
| "state_label Expired = ''expired''"

record StageDecision =
  sd_approved :: bool
  sd_operator_id :: "string option"
  sd_approver_role :: "string option"
  sd_decided_at :: instant

record ApprovalStage =
  sg_index :: nat
  sg_allowed_roles :: "string list"
  sg_min_approvals :: u32
  sg_decisions :: "StageDecision list"

definition approval_count :: "ApprovalStage \<Rightarrow> nat" where
  "approval_count s = length (filter sd_approved (sg_decisions s))"

definition quorum_met :: "ApprovalStage \<Rightarrow> bool" where
  "quorum_met s \<longleftrightarrow> approval_count s \<ge> unat (sg_min_approvals s)"

definition has_rejection :: "ApprovalStage \<Rightarrow> bool" where
  "has_rejection s \<longleftrightarrow> list_ex (\<lambda>d. \<not> sd_approved d) (sg_decisions s)"

definition stage_is_pending :: "ApprovalStage \<Rightarrow> bool" where
  "stage_is_pending s \<longleftrightarrow> \<not> quorum_met s \<and> \<not> has_rejection s"

definition has_operator_voted :: "ApprovalStage \<Rightarrow> string \<Rightarrow> bool" where
  "has_operator_voted s op \<longleftrightarrow> list_ex (\<lambda>d. sd_operator_id d = Some op) (sg_decisions s)"

record ApprovalWorkflow =
  wf_request_id :: uuid
  wf_session_id :: uuid
  wf_state :: ApprovalWorkflowState
  wf_stages :: "ApprovalStage list"
  wf_created_at :: instant
  wf_updated_at :: instant
  wf_expires_at :: "instant option"

definition single_stage :: "instant \<Rightarrow> uuid \<Rightarrow> uuid \<Rightarrow> string option \<Rightarrow> ApprovalWorkflow" where
  "single_stage now rid sid required_role = \<lparr>wf_request_id = rid, wf_session_id = sid, wf_state = Pending,
     wf_stages = [\<lparr>sg_index = 0, sg_allowed_roles = (case required_role of Some r \<Rightarrow> [r] | None \<Rightarrow> []),
       sg_min_approvals = 1, sg_decisions = []\<rparr>],
     wf_created_at = now, wf_updated_at = now, wf_expires_at = None\<rparr>"

text \<open>The lease: \<open>seconds as i64\<close> reads the word as signed; \<open>Duration::seconds\<close> panics beyond \<open>i64::MAX / 1000\<close>, and the sum
  outside the range of dates, which is a parameter.\<close>

definition with_lease_seconds ::
  "(instant \<Rightarrow> bool) \<Rightarrow> instant \<Rightarrow> u64 \<Rightarrow> ApprovalWorkflow \<Rightarrow> ApprovalWorkflow option" where
  "with_lease_seconds date_range now secs w =
    (if secs > 0 then
       let d = sint secs; t = now + d * 1000000000 in
       if \<bar>d\<bar> \<le> (2 ^ 63 - 1) div 1000 \<and> date_range t then Some (w\<lparr>wf_expires_at := Some t\<rparr>) else None
     else Some w)"

definition is_expired :: "instant \<Rightarrow> ApprovalWorkflow \<Rightarrow> bool" where
  "is_expired now w = (case wf_expires_at w of Some t \<Rightarrow> now > t | None \<Rightarrow> False)"

definition current_stage :: "ApprovalWorkflow \<Rightarrow> ApprovalStage option" where
  "current_stage w = List.find stage_is_pending (wf_stages w)"

fun position :: "('a \<Rightarrow> bool) \<Rightarrow> 'a list \<Rightarrow> nat option" where
  "position P [] = None"
| "position P (x # xs) = (if P x then Some 0 else map_option Suc (position P xs))"

definition apply_decision :: "instant \<Rightarrow> StageDecision \<Rightarrow> ApprovalWorkflow \<Rightarrow> ApprovalWorkflow \<times> bool" where
  "apply_decision now d w =
    (if state_is_terminal (wf_state w) then (w, False)
     else case position stage_is_pending (wf_stages w) of
       None \<Rightarrow> (w, False)
     | Some i \<Rightarrow>
         let stage = (wf_stages w ! i)\<lparr>sg_decisions := sg_decisions (wf_stages w ! i) @ [d]\<rparr>;
             stages = (wf_stages w)[i := stage];
             st = (if \<not> sd_approved d then Rejected
                   else if quorum_met stage \<and> list_all quorum_met stages then Approved
                   else wf_state w)
         in (w\<lparr>wf_stages := stages, wf_updated_at := now, wf_state := st\<rparr>, True))"

definition expire :: "instant \<Rightarrow> ApprovalWorkflow \<Rightarrow> ApprovalWorkflow \<times> bool" where
  "expire now w =
    (if wf_state w = Pending then (w\<lparr>wf_state := Expired, wf_updated_at := now\<rparr>, True) else (w, False))"

text \<open>The workflow of an approval chain, and of a verdict.\<close>

definition chain_stages :: "ApprovalChainStage list \<Rightarrow> ApprovalStage list" where
  "chain_stages chain = map (\<lambda>(i, cs). \<lparr>sg_index = i, sg_allowed_roles = [cs_role cs],
     sg_min_approvals = cs_min_approvals cs, sg_decisions = []\<rparr>) (enumerate 0 chain)"

definition chain_workflow :: "instant \<Rightarrow> uuid \<Rightarrow> uuid \<Rightarrow> ApprovalChainStage list \<Rightarrow> ApprovalWorkflow" where
  "chain_workflow now rid sid chain = \<lparr>wf_request_id = rid, wf_session_id = sid, wf_state = Pending,
     wf_stages = chain_stages chain, wf_created_at = now, wf_updated_at = now, wf_expires_at = None\<rparr>"

fun verdict_approvers :: "PolicyVerdict \<Rightarrow> string option \<times> ApprovalChainStage list option" where
  "verdict_approvers (RequiresHumanApproval _ _ role chain) = (role, chain)"
| "verdict_approvers _ = (None, None)"

definition verdict_workflow ::
  "instant \<Rightarrow> uuid \<Rightarrow> uuid \<Rightarrow> string option \<Rightarrow> ApprovalChainStage list option \<Rightarrow> ApprovalWorkflow" where
  "verdict_workflow now rid sid role chain =
    (case chain of Some c \<Rightarrow> chain_workflow now rid sid c | None \<Rightarrow> single_stage now rid sid role)"

definition signing_workflow ::
  "(instant \<Rightarrow> bool) \<Rightarrow> instant \<Rightarrow> instant \<Rightarrow> u64 \<Rightarrow> uuid \<Rightarrow> uuid \<Rightarrow> PolicyVerdict \<Rightarrow> ApprovalWorkflow option" where
  "signing_workflow date_range now now' lease rid sid v = (case verdict_approvers v of (role, chain) \<Rightarrow>
     with_lease_seconds date_range now' lease (verdict_workflow now rid sid role chain))"

text \<open>Recovery after a restart, from the persisted verdict and the role of the persisted request.\<close>

definition recovered_workflow :: "instant \<Rightarrow> uuid \<Rightarrow> uuid \<Rightarrow> string option \<Rightarrow> PolicyVerdict \<Rightarrow> ApprovalWorkflow" where
  "recovered_workflow now rid sid request_role v = (case snd (verdict_approvers v) of
     Some c \<Rightarrow> chain_workflow now rid sid c
   | None \<Rightarrow> single_stage now rid sid request_role)"

section \<open>Requests, decisions and the store\<close>

record ApprovalRequest =
  rq_id :: uuid
  rq_session_id :: uuid
  rq_transaction_id :: uuid
  rq_description :: string
  rq_policy_verdict :: PolicyVerdict
  rq_simulation :: SimulationResult
  rq_requested_at :: instant
  rq_decided :: bool
  rq_required_approver_role :: "string option"

record ApprovalDecision =
  de_request_id :: uuid
  de_approved :: bool
  de_note :: "string option"
  de_approver_role :: "string option"
  de_operator_id :: "string option"
  de_decided_at :: instant

datatype ApprovalOutcome =
    OutApproved
  | OutRejected
  | AlreadyDecided
  | NotFound
  | RoleMismatch string "string option"
  | StageAdvanced nat nat "string option"
  | QuorumProgress nat nat u32
  | DuplicateOperator string nat
  | OutExpired

record ApprovalStore =
  as_pending :: "uuid \<rightharpoonup> ApprovalRequest"
  as_workflows :: "uuid \<rightharpoonup> ApprovalWorkflow"

definition empty_store :: ApprovalStore where
  "empty_store = \<lparr>as_pending = Map.empty, as_workflows = Map.empty\<rparr>"

definition register :: "ApprovalRequest \<Rightarrow> ApprovalWorkflow \<Rightarrow> ApprovalStore \<Rightarrow> ApprovalStore" where
  "register req w st = st\<lparr>as_pending := (as_pending st)(rq_id req \<mapsto> req),
     as_workflows := (as_workflows st)(rq_id req \<mapsto> w)\<rparr>"

text \<open>The listings visit the map in an order of its own, then sort by time.\<close>

definition pending_for_session :: "uuid list \<Rightarrow> uuid \<Rightarrow> ApprovalStore \<Rightarrow> ApprovalRequest list" where
  "pending_for_session order sid st = sort_key rq_requested_at
     (filter (\<lambda>r. rq_session_id r = sid \<and> \<not> rq_decided r) (List.map_filter (as_pending st) order))"

definition all_pending_with_workflow :: "uuid list \<Rightarrow> ApprovalStore \<Rightarrow> (ApprovalRequest \<times> ApprovalWorkflow) list" where
  "all_pending_with_workflow order st = sort_key (\<lambda>(r, _). rq_requested_at r)
     (List.map_filter (\<lambda>r. map_option (\<lambda>w. (r, w)) (as_workflows st (rq_id r)))
       (filter (\<lambda>r. \<not> rq_decided r) (List.map_filter (as_pending st) order)))"

definition session_for_request :: "uuid \<Rightarrow> ApprovalStore \<Rightarrow> uuid option" where
  "session_for_request rid st =
    Option.bind (as_pending st rid) (\<lambda>r. if \<not> rq_decided r then Some (rq_session_id r) else None)"

definition role_allowed :: "ApprovalStage \<Rightarrow> string option \<Rightarrow> bool" where
  "role_allowed stage role \<longleftrightarrow> sg_allowed_roles stage = []
     \<or> (case role of Some p \<Rightarrow> p \<in> set (sg_allowed_roles stage) | None \<Rightarrow> False)"

definition duplicate_vote :: "ApprovalStage \<Rightarrow> string option \<Rightarrow> string option" where
  "duplicate_vote stage op_id = (case op_id of
     None \<Rightarrow> None | Some op \<Rightarrow> (if has_operator_voted stage op then Some op else None))"

definition stage_decision :: "ApprovalDecision \<Rightarrow> StageDecision" where
  "stage_decision d = \<lparr>sd_approved = de_approved d, sd_operator_id = de_operator_id d,
     sd_approver_role = de_approver_role d, sd_decided_at = de_decided_at d\<rparr>"

text \<open>What becomes of the pending request.\<close>

datatype closing = KeepPending | DropPending | TakePending

definition progress_outcome :: "nat \<Rightarrow> ApprovalWorkflow \<Rightarrow> ApprovalOutcome option" where
  "progress_outcome stage_index w =
    (let next_pending = current_stage w;
         next_index = (case next_pending of Some s \<Rightarrow> sg_index s | None \<Rightarrow> 0) in
     if next_index = stage_index then
       map_option (\<lambda>stage. QuorumProgress stage_index (approval_count stage) (sg_min_approvals stage))
         (get_index (wf_stages w) stage_index)
     else Some (StageAdvanced stage_index next_index
       (Option.bind next_pending (\<lambda>s. get_index (sg_allowed_roles s) 0))))"

definition decide_workflow ::
  "instant \<Rightarrow> instant \<Rightarrow> ApprovalDecision \<Rightarrow> ApprovalWorkflow \<Rightarrow> (ApprovalOutcome \<times> ApprovalWorkflow \<times> closing) option" where
  "decide_workflow now now' d w =
    (if state_is_terminal (wf_state w) then Some (AlreadyDecided, w, KeepPending)
     else if is_expired now w then Some (OutExpired, fst (expire now' w), DropPending)
     else case current_stage w of
       None \<Rightarrow> Some (AlreadyDecided, w, KeepPending)
     | Some stage \<Rightarrow>
         if \<not> role_allowed stage (de_approver_role d) then
           Some (RoleMismatch (join_comma (sg_allowed_roles stage)) (de_approver_role d), w, KeepPending)
         else case duplicate_vote stage (de_operator_id d) of
           Some op \<Rightarrow> Some (DuplicateOperator op (sg_index stage), w, KeepPending)
         | None \<Rightarrow>
             let w' = fst (apply_decision now' (stage_decision d) w) in
             if state_is_terminal (wf_state w') then
               Some (if wf_state w' = Approved then OutApproved else OutRejected, w', TakePending)
             else map_option (\<lambda>out. (out, w', KeepPending)) (progress_outcome (sg_index stage) w'))"

definition close_pending :: "closing \<Rightarrow> uuid \<Rightarrow> (uuid \<rightharpoonup> ApprovalRequest) \<Rightarrow> ApprovalRequest option \<times> (uuid \<rightharpoonup> ApprovalRequest)" where
  "close_pending c rid pending = (case c of
     KeepPending \<Rightarrow> (None, pending)
   | DropPending \<Rightarrow> (None, pending(rid := None))
   | TakePending \<Rightarrow> (map_option (\<lambda>r. r\<lparr>rq_decided := True\<rparr>) (pending rid), pending(rid := None)))"

definition decide ::
  "instant \<Rightarrow> instant \<Rightarrow> ApprovalDecision \<Rightarrow> ApprovalStore \<Rightarrow> (ApprovalOutcome \<times> ApprovalRequest option \<times> ApprovalStore) option" where
  "decide now now' d st = (case as_workflows st (de_request_id d) of
     None \<Rightarrow> Some (NotFound, None, st)
   | Some w \<Rightarrow> map_option (\<lambda>(out, w', c).
       let (req, pending) = close_pending c (de_request_id d) (as_pending st) in
       (out, req, st\<lparr>as_workflows := (as_workflows st)(de_request_id d \<mapsto> w'), as_pending := pending\<rparr>))
       (decide_workflow now now' d w))"

section \<open>The invariant of a workflow\<close>

text \<open>A decision is one that was submitted for the request before its lease ended.\<close>

type_synonym submission = "ApprovalDecision \<times> instant"

definition submitted :: "submission set \<Rightarrow> uuid \<Rightarrow> instant option \<Rightarrow> StageDecision \<Rightarrow> bool" where
  "submitted votes rid lease sd \<longleftrightarrow> (\<exists>d now. (d, now) \<in> votes \<and> de_request_id d = rid \<and> sd = stage_decision d
     \<and> (case lease of None \<Rightarrow> True | Some t \<Rightarrow> now \<le> t))"

definition stage_sound :: "submission set \<Rightarrow> uuid \<Rightarrow> instant option \<Rightarrow> ApprovalStage \<Rightarrow> bool" where
  "stage_sound votes rid lease s \<longleftrightarrow>
     list_all (\<lambda>sd. role_allowed s (sd_approver_role sd) \<and> submitted votes rid lease sd) (sg_decisions s)
     \<and> distinct (List.map_filter sd_operator_id (sg_decisions s))"

definition in_order :: "ApprovalStage list \<Rightarrow> bool" where
  "in_order stages \<longleftrightarrow> (\<forall>i < length stages. \<forall>j < i. sg_decisions (stages ! i) \<noteq> [] \<longrightarrow> quorum_met (stages ! j))"

definition workflow_sound :: "submission set \<Rightarrow> uuid \<Rightarrow> ApprovalWorkflow \<Rightarrow> bool" where
  "workflow_sound votes rid w \<longleftrightarrow>
     map sg_index (wf_stages w) = [0..<length (wf_stages w)]
     \<and> list_all (stage_sound votes rid (wf_expires_at w)) (wf_stages w)
     \<and> in_order (wf_stages w)
     \<and> (wf_state w \<in> {Pending, Approved} \<longrightarrow> list_all (\<lambda>s. \<not> has_rejection s) (wf_stages w))
     \<and> (wf_state w = Approved \<longrightarrow> list_all quorum_met (wf_stages w))"

lemma position_Some:
  "position P xs = Some i \<longleftrightarrow> i < length xs \<and> P (xs ! i) \<and> (\<forall>j < i. \<not> P (xs ! j))"
proof (induction xs arbitrary: i)
  case (Cons x xs)
  show ?case by (cases i) (auto simp: Cons.IH All_less_Suc2)
qed simp

lemma find_position:
  "List.find P xs = map_option (nth xs) (position P xs)"
  by (induction xs) (auto simp: option.map_comp comp_def)

lemma map_filter_snoc: "List.map_filter f (xs @ [x]) = List.map_filter f xs @ (case f x of None \<Rightarrow> [] | Some y \<Rightarrow> [y])"
  by (simp add: map_filter_def split: option.split)

lemma set_map_filter: "y \<in> set (List.map_filter f xs) \<longleftrightarrow> (\<exists>x \<in> set xs. f x = Some y)"
  by (induction xs) (auto simp: map_filter_simps split: option.splits)

lemma quorum_met_mono: "quorum_met s \<Longrightarrow> quorum_met (s\<lparr>sg_decisions := sg_decisions s @ [d]\<rparr>)"
  by (simp add: quorum_met_def approval_count_def)

lemma has_rejection_snoc [simp]:
  "has_rejection (s\<lparr>sg_decisions := sg_decisions s @ [d]\<rparr>) \<longleftrightarrow> has_rejection s \<or> \<not> sd_approved d"
  by (auto simp: has_rejection_def)

lemma stage_sound_mono: "stage_sound votes rid lease s \<Longrightarrow> votes \<subseteq> votes' \<Longrightarrow> stage_sound votes' rid lease s"
  unfolding stage_sound_def submitted_def list_all_iff by blast

lemma workflow_sound_mono: "workflow_sound votes rid w \<Longrightarrow> votes \<subseteq> votes' \<Longrightarrow> workflow_sound votes' rid w"
  using stage_sound_mono unfolding workflow_sound_def list_all_iff by blast

lemma role_allowed_decisions [simp]: "role_allowed (s\<lparr>sg_decisions := ds\<rparr>) r = role_allowed s r"
  by (simp add: role_allowed_def split: option.split)

lemma stage_sound_vote:
  assumes "stage_sound votes rid lease s" "role_allowed s (de_approver_role d)" "duplicate_vote s (de_operator_id d) = None"
    "de_request_id d = rid" "case lease of None \<Rightarrow> True | Some t \<Rightarrow> now \<le> t"
  shows "stage_sound (insert (d, now) votes) rid lease (s\<lparr>sg_decisions := sg_decisions s @ [stage_decision d]\<rparr>)"
proof -
  have "submitted (insert (d, now) votes) rid lease (stage_decision d)"
    using assms(4,5) unfolding submitted_def by blast
  moreover have "distinct (List.map_filter sd_operator_id (sg_decisions s @ [stage_decision d]))"
    using assms(1,3)
    by (auto simp: map_filter_snoc stage_sound_def stage_decision_def duplicate_vote_def has_operator_voted_def
        set_map_filter list_ex_iff split: option.splits if_splits)
  ultimately show ?thesis
    using stage_sound_mono [OF assms(1) subset_insertI [of votes "(d, now)"]] assms(2)
    by (simp add: stage_sound_def) (simp add: stage_decision_def)
qed

lemma in_order_vote:
  assumes "in_order stages" "i < length stages" "\<forall>j < i. quorum_met (stages ! j)"
  shows "in_order (stages[i := (stages ! i)\<lparr>sg_decisions := sg_decisions (stages ! i) @ [d]\<rparr>])"
  unfolding in_order_def
proof (intro allI impI)
  fix k j
  assume k: "k < length (stages[i := (stages ! i)\<lparr>sg_decisions := sg_decisions (stages ! i) @ [d]\<rparr>])" "j < k"
    "sg_decisions (stages[i := (stages ! i)\<lparr>sg_decisions := sg_decisions (stages ! i) @ [d]\<rparr>] ! k) \<noteq> []"
  have "quorum_met (stages ! j)"
  proof (cases "k = i")
    case True
    then show ?thesis using assms(3) k(2) by blast
  next
    case False
    then show ?thesis using assms(1) k unfolding in_order_def by simp
  qed
  then show "quorum_met (stages[i := (stages ! i)\<lparr>sg_decisions := sg_decisions (stages ! i) @ [d]\<rparr>] ! j)"
    using quorum_met_mono k(1,2) assms(2) by (cases "j = i") simp_all
qed

lemma apply_decision_sound:
  assumes sound: "workflow_sound votes rid w" and pending: "wf_state w = Pending" and i: "position stage_is_pending (wf_stages w) = Some i"
    and vote: "role_allowed (wf_stages w ! i) (de_approver_role d)" "duplicate_vote (wf_stages w ! i) (de_operator_id d) = None"
      "de_request_id d = rid" "\<not> is_expired now w"
  shows "workflow_sound (insert (d, now) votes) rid (fst (apply_decision now' (stage_decision d) w))"
proof -
  let ?s = "(wf_stages w ! i)\<lparr>sg_decisions := sg_decisions (wf_stages w ! i) @ [stage_decision d]\<rparr>"
  let ?stages = "(wf_stages w)[i := ?s]"
  from i have il: "i < length (wf_stages w)" "stage_is_pending (wf_stages w ! i)"
    and before: "\<And>j. j < i \<Longrightarrow> \<not> stage_is_pending (wf_stages w ! j)" by (auto simp: position_Some)
  have norej: "list_all (\<lambda>s. \<not> has_rejection s) (wf_stages w)" using sound pending by (simp add: workflow_sound_def)
  have met: "\<forall>j < i. quorum_met (wf_stages w ! j)"
    using before norej il(1) by (auto simp: stage_is_pending_def list_all_length)
  have lease: "case wf_expires_at w of None \<Rightarrow> True | Some t \<Rightarrow> now \<le> t"
    using vote(4) by (auto simp: is_expired_def split: option.splits)
  have idx: "map sg_index ?stages = [0..<length ?stages]"
    using sound il(1) by (simp add: workflow_sound_def map_update) (metis list_update_id nth_map)
  have st: "list_all (stage_sound (insert (d, now) votes) rid (wf_expires_at w)) ?stages"
  proof -
    have old: "list_all (stage_sound votes rid (wf_expires_at w)) (wf_stages w)" using sound by (simp add: workflow_sound_def)
    then have "stage_sound (insert (d, now) votes) rid (wf_expires_at w) ?s"
      using il(1) vote(1-3) lease by (intro stage_sound_vote) (auto simp: list_all_length)
    then show ?thesis
      using old stage_sound_mono [OF _ subset_insertI [of votes "(d, now)"]] il(1) by (auto simp: list_all_length nth_list_update)
  qed
  have ord: "in_order ?stages" using sound il(1) met by (intro in_order_vote) (simp_all add: workflow_sound_def)
  have nr: "list_all (\<lambda>s. \<not> has_rejection s) ?stages" if "de_approved d"
    using norej il(1) that by (auto simp: list_all_length nth_list_update stage_decision_def)
  have app: "fst (apply_decision now' (stage_decision d) w) = w\<lparr>wf_stages := ?stages, wf_updated_at := now',
      wf_state := (if \<not> de_approved d then Rejected else if quorum_met ?s \<and> list_all quorum_met ?stages then Approved else Pending)\<rparr>"
    using pending i by (simp add: apply_decision_def Let_def) (simp add: stage_decision_def)
  show ?thesis unfolding app workflow_sound_def using idx st ord nr by simp
qed

lemma decide_workflow_sound:
  assumes sound: "workflow_sound votes rid w" and dec: "decide_workflow now now' d w = Some (out, w', c)" and rid: "de_request_id d = rid"
  shows "workflow_sound (insert (d, now) votes) rid w'"
proof (cases "w' = w")
  case True
  then show ?thesis using workflow_sound_mono [OF sound] by blast
next
  case False
  have p: "wf_state w = Pending" using dec False by (cases "wf_state w") (auto simp: decide_workflow_def)
  show ?thesis
  proof (cases "is_expired now w")
    case True
    then have "w' = w\<lparr>wf_state := Expired, wf_updated_at := now'\<rparr>"
      using dec p by (simp add: decide_workflow_def expire_def)
    then show ?thesis using workflow_sound_mono [OF sound, of "insert (d, now) votes"] by (auto simp: workflow_sound_def)
  next
    case live: False
    then obtain i where i: "position stage_is_pending (wf_stages w) = Some i"
      and v: "role_allowed (wf_stages w ! i) (de_approver_role d)" "duplicate_vote (wf_stages w ! i) (de_operator_id d) = None"
      and w': "w' = fst (apply_decision now' (stage_decision d) w)"
      using dec p False
      by (auto simp: decide_workflow_def current_stage_def find_position Let_def split: option.splits if_splits)
    show ?thesis unfolding w' by (rule apply_decision_sound [OF sound p i v rid live])
  qed
qed

section \<open>Histories of the store\<close>

text \<open>A workflow as a signing call or a recovery creates it.\<close>

definition issued_workflow :: "uuid \<Rightarrow> ApprovalWorkflow \<Rightarrow> bool" where
  "issued_workflow rid w \<longleftrightarrow>
     (\<exists>date_range now now' lease sid v. signing_workflow date_range now now' lease rid sid v = Some w)
     \<or> (\<exists>now sid role v. w = recovered_workflow now rid sid role v)"

lemma issued_workflow_sound:
  assumes "issued_workflow rid w"
  shows "workflow_sound votes rid w"
proof -
  have new: "workflow_sound votes rid w0"
    if "wf_state w0 = Pending" "map sg_index (wf_stages w0) = [0..<length (wf_stages w0)]"
      "list_all (\<lambda>s. sg_decisions s = []) (wf_stages w0)" for w0
    using that
    by (auto simp: workflow_sound_def list_all_iff stage_sound_def in_order_def has_rejection_def map_filter_def)
  have chain: "map sg_index (chain_stages c) = [0..<length (chain_stages c)]" "list_all (\<lambda>s. sg_decisions s = []) (chain_stages c)" for c
    by (auto simp: chain_stages_def list_all_iff comp_def case_prod_beta enumerate_eq_zip)
  have v: "workflow_sound votes rid ((verdict_workflow now rid sid role ch)\<lparr>wf_expires_at := e\<rparr>)"
      "workflow_sound votes rid (verdict_workflow now rid sid role ch)" for now sid role ch e
    by (rule new; cases ch; simp add: verdict_workflow_def chain_workflow_def single_stage_def chain)+
  from assms show ?thesis
  proof (unfold issued_workflow_def, elim disjE exE)
    fix date_range now now' lease sid ver
    assume "signing_workflow date_range now now' lease rid sid ver = Some w"
    then show ?thesis
      by (auto simp: signing_workflow_def with_lease_seconds_def Let_def v split: prod.splits if_splits)
  next
    fix now sid role ver
    assume "w = recovered_workflow now rid sid role ver"
    then have "w = verdict_workflow now rid sid role (snd (verdict_approvers ver))"
      by (simp add: recovered_workflow_def verdict_workflow_def)
    then show ?thesis by (simp add: v)
  qed
qed

inductive approval_step :: "ApprovalStore \<times> submission set \<Rightarrow> ApprovalStore \<times> submission set \<Rightarrow> bool" where
  step_register: "as_workflows st (rq_id req) = None \<Longrightarrow> issued_workflow (rq_id req) w \<Longrightarrow>
    approval_step (st, votes) (register req w st, votes)"
| step_decide: "decide now now' d st = Some (out, req, st') \<Longrightarrow> approval_step (st, votes) (st', insert (d, now) votes)"

inductive_cases approval_stepE: "approval_step s s'"

definition approval_init :: "ApprovalStore \<times> submission set \<Rightarrow> bool" where
  "approval_init s \<longleftrightarrow> s = (empty_store, {})"

definition store_sound :: "ApprovalStore \<times> submission set \<Rightarrow> bool" where
  "store_sound s \<longleftrightarrow> (\<forall>rid w. as_workflows (fst s) rid = Some w \<longrightarrow> workflow_sound (snd s) rid w)"

lemma decide_cases:
  assumes "decide now now' d st = Some (out, req, st')"
  obtains "as_workflows st (de_request_id d) = None" "out = NotFound" "req = None" "st' = st"
  | w w' c where "as_workflows st (de_request_id d) = Some w" "decide_workflow now now' d w = Some (out, w', c)"
      "as_workflows st' = (as_workflows st)(de_request_id d \<mapsto> w')"
      "close_pending c (de_request_id d) (as_pending st) = (req, as_pending st')"
proof (cases "as_workflows st (de_request_id d)")
  case None
  with assms have "out = NotFound" "req = None" "st' = st" by (simp_all add: decide_def)
  with None show ?thesis by (rule that(1))
next
  case (Some w)
  with assms obtain o' w' c where dec: "decide_workflow now now' d w = Some (o', w', c)" by (auto simp: decide_def)
  obtain r p where cp: "close_pending c (de_request_id d) (as_pending st) = (r, p)" by fastforce
  have "o' = out" "req = r" "st' = st\<lparr>as_workflows := (as_workflows st)(de_request_id d \<mapsto> w'), as_pending := p\<rparr>"
    using assms Some dec cp by (simp_all add: decide_def)
  with dec cp have dec: "decide_workflow now now' d w = Some (out, w', c)"
    and "as_workflows st' = (as_workflows st)(de_request_id d \<mapsto> w')"
    "close_pending c (de_request_id d) (as_pending st) = (req, as_pending st')" by simp_all
  with Some show ?thesis by (rule that(2))
qed

lemma decide_effect:
  "as_workflows st (de_request_id d) = Some w \<Longrightarrow> decide_workflow now now' d w = Some (out, w', c) \<Longrightarrow>
   \<exists>req st'. decide now now' d st = Some (out, req, st') \<and> as_workflows st' = (as_workflows st)(de_request_id d \<mapsto> w')"
  by (cases "close_pending c (de_request_id d) (as_pending st)") (simp add: decide_def)

interpretation approvals: inductive_invariant approval_init approval_step store_sound
proof unfold_locales
  fix s s'
  assume good: "store_sound s" and step: "approval_step s s'"
  show "store_sound s'" using step
  proof cases
    case (step_register st req w votes)
    then show ?thesis using good issued_workflow_sound by (auto simp: store_sound_def register_def)
  next
    case (step_decide now now' d st out req st' votes)
    have old: "workflow_sound (insert (d, now) votes) rid w" if "as_workflows st rid = Some w" for rid w
      using good step_decide(1) that workflow_sound_mono [OF _ subset_insertI] by (simp add: store_sound_def)
    from step_decide(3) show ?thesis
    proof (cases rule: decide_cases)
      case 1
      then show ?thesis using old step_decide(2) by (simp add: store_sound_def)
    next
      case (2 w w' c)
      have "workflow_sound votes (de_request_id d) w" using good step_decide(1) 2(1) by (simp add: store_sound_def)
      from decide_workflow_sound [OF this 2(2) refl] show ?thesis
        using old step_decide(2) 2(3) by (simp add: store_sound_def)
    qed
  qed
qed (simp add: approval_init_def store_sound_def empty_store_def)

text \<open>
  C30: nothing is approved without its quorum. In every store that a history of registrations and decisions can reach, each stage of an
  approved workflow has at least as many approvals as it asks for, holds no rejection, and every recorded vote was submitted
  for that request, no later than its lease, under a role the stage allows; no identified operator is counted
  twice in a stage, and no stage was voted on before the earlier ones had their quorum.\<close>

theorem approved_by_quorum:
  assumes "reach approval_init approval_step (st, votes)" "as_workflows st rid = Some w" "wf_state w = Approved"
    and "i < length (wf_stages w)"
  shows "unat (sg_min_approvals (wf_stages w ! i)) \<le> length (filter sd_approved (sg_decisions (wf_stages w ! i)))
     \<and> list_all (\<lambda>sd. sd_approved sd \<and> role_allowed (wf_stages w ! i) (sd_approver_role sd) \<and> submitted votes rid (wf_expires_at w) sd)
         (sg_decisions (wf_stages w ! i))
     \<and> distinct (List.map_filter sd_operator_id (sg_decisions (wf_stages w ! i)))
     \<and> in_order (wf_stages w)"
proof -
  have "workflow_sound votes rid w"
    using approvals.reach_good [OF assms(1)] assms(2) by (simp add: store_sound_def)
  then have "quorum_met (wf_stages w ! i)" "\<not> has_rejection (wf_stages w ! i)"
    "stage_sound votes rid (wf_expires_at w) (wf_stages w ! i)" "in_order (wf_stages w)"
    using assms(3,4) by (simp_all add: workflow_sound_def list_all_length)
  then show ?thesis by (auto simp: quorum_met_def approval_count_def has_rejection_def stage_sound_def list_all_iff list_ex_iff)
qed

section \<open>A request is decided once\<close>

lemma terminal_stays:
  assumes "approval_step s s'" "as_workflows (fst s) rid = Some w" "state_is_terminal (wf_state w)"
  shows "as_workflows (fst s') rid = Some w"
  using assms(1)
proof cases
  case (step_register st req w0 votes)
  then show ?thesis using assms(2) by (auto simp: register_def)
next
  case (step_decide now now' d st out req st' votes)
  from step_decide(3) show ?thesis
    by (cases rule: decide_cases) (use step_decide assms(2,3) in \<open>auto simp: decide_workflow_def\<close>)
qed

lemma terminal_stays_run:
  "approval_step\<^sup>*\<^sup>* s s' \<Longrightarrow> as_workflows (fst s) rid = Some w \<Longrightarrow> state_is_terminal (wf_state w) \<Longrightarrow>
   as_workflows (fst s') rid = Some w"
  by (induction rule: rtranclp_induct) (auto dest: terminal_stays)

lemma decide_workflow_terminal:
  "decide_workflow now now' d w = Some (out, w', c) \<Longrightarrow> out \<in> {OutApproved, OutRejected, OutExpired} \<Longrightarrow> state_is_terminal (wf_state w')"
  by (cases "wf_state w")
    (auto simp: decide_workflow_def Let_def expire_def progress_outcome_def split: option.splits if_splits)

text \<open>
  C31: a request is decided once. After a decision was answered with approval, rejection or expiry, every later decision on
  that request, over any history of the store, is answered as already decided, hands out no request and changes nothing.\<close>

theorem request_decided_once:
  assumes "decide now now' d st = Some (out, req, st1)" "out \<in> {OutApproved, OutRejected, OutExpired}"
    and "approval_step\<^sup>*\<^sup>* (st1, votes1) (st2, votes2)" "de_request_id d2 = de_request_id d"
  shows "decide t t' d2 st2 = Some (AlreadyDecided, None, st2)"
  using assms(1)
proof (cases rule: decide_cases)
  case 1
  then show ?thesis using assms(2) by simp
next
  case (2 w w' c)
  have fin: "state_is_terminal (wf_state w')" by (rule decide_workflow_terminal [OF 2(2) assms(2)])
  have "as_workflows st1 (de_request_id d) = Some w'" using 2(3) by simp
  then have "as_workflows st2 (de_request_id d) = Some w'"
    using terminal_stays_run [OF assms(3)] fin by simp
  then show ?thesis
    using fin assms(4) by (simp add: decide_def decide_workflow_def close_pending_def fun_upd_idem)
qed

section \<open>Who can fill a quorum\<close>

text \<open>The same decision, submitted a number of times at times of its own.\<close>

fun decide_times :: "nat \<Rightarrow> (nat \<Rightarrow> instant) \<Rightarrow> ApprovalDecision \<Rightarrow> ApprovalStore \<Rightarrow> ApprovalStore option" where
  "decide_times 0 clock d st = Some st"
| "decide_times (Suc n) clock d st =
    Option.bind (decide_times n clock d st) (\<lambda>st'. map_option (\<lambda>(_, _, st''). st'') (decide (clock n) (clock n) d st'))"

lemma vote_once_more:
  assumes w: "wf_state w = Pending" "wf_expires_at w = None"
      "wf_stages w = [\<lparr>sg_index = 0, sg_allowed_roles = [role], sg_min_approvals = m, sg_decisions = replicate k (stage_decision d)\<rparr>]"
    and d: "de_approved d" "de_operator_id d = None" "de_approver_role d = Some role" and k: "k < unat m"
  shows "\<exists>out c w'. decide_workflow now now' d w = Some (out, w', c) \<and> wf_expires_at w' = None
     \<and> wf_state w' = (if Suc k = unat m then Approved else Pending)
     \<and> wf_stages w' = [\<lparr>sg_index = 0, sg_allowed_roles = [role], sg_min_approvals = m,
         sg_decisions = replicate (Suc k) (stage_decision d)\<rparr>]"
proof -
  have [simp]: "sd_approved (stage_decision d)" using d(1) by (simp add: stage_decision_def)
  have [simp]: "filter sd_approved (replicate n (stage_decision d)) = replicate n (stage_decision d)" for n by (induction n) simp_all
  have "list_ex (\<lambda>d. \<not> sd_approved d) (replicate n (stage_decision d)) = False" for n by (induction n) simp_all
  then show ?thesis
    using w d k
    by (auto simp: decide_workflow_def is_expired_def current_stage_def stage_is_pending_def quorum_met_def approval_count_def
        has_rejection_def role_allowed_def duplicate_vote_def apply_decision_def Let_def progress_outcome_def get_index_def
        replicate_append_same [symmetric])
qed

lemma anonymous_votes:
  assumes st: "as_workflows st (de_request_id d) = Some (chain_workflow now (de_request_id d) sid [c])"
    and d: "de_approved d" "de_operator_id d = None" "de_approver_role d = Some (cs_role c)" and k: "k \<le> unat (cs_min_approvals c)" "0 < unat (cs_min_approvals c)"
  shows "\<exists>st' w. decide_times k clock d st = Some st' \<and> as_workflows st' (de_request_id d) = Some w \<and> wf_expires_at w = None
     \<and> wf_state w = (if k = unat (cs_min_approvals c) then Approved else Pending)
     \<and> wf_stages w = [\<lparr>sg_index = 0, sg_allowed_roles = [cs_role c], sg_min_approvals = cs_min_approvals c,
         sg_decisions = replicate k (stage_decision d)\<rparr>]"
  using k(1)
proof (induction k)
  case 0
  then show ?case using st k(2) by (auto simp: chain_workflow_def chain_stages_def)
next
  case (Suc k)
  then obtain st' w where IH: "decide_times k clock d st = Some st'" "as_workflows st' (de_request_id d) = Some w"
    "wf_expires_at w = None" "wf_state w = Pending"
    "wf_stages w = [\<lparr>sg_index = 0, sg_allowed_roles = [cs_role c], sg_min_approvals = cs_min_approvals c,
         sg_decisions = replicate k (stage_decision d)\<rparr>]" by auto
  from Suc.prems have "k < unat (cs_min_approvals c)" by simp
  from vote_once_more [OF IH(4,3,5) d this, of "clock k" "clock k"] obtain out cl w' where w': 
    "decide_workflow (clock k) (clock k) d w = Some (out, w', cl)" "wf_expires_at w' = None"
    "wf_state w' = (if Suc k = unat (cs_min_approvals c) then Approved else Pending)"
    "wf_stages w' = [\<lparr>sg_index = 0, sg_allowed_roles = [cs_role c], sg_min_approvals = cs_min_approvals c,
       sg_decisions = replicate (Suc k) (stage_decision d)\<rparr>]" by blast
  obtain req st'' where "decide (clock k) (clock k) d st' = Some (out, req, st'')"
    "as_workflows st'' = (as_workflows st')(de_request_id d \<mapsto> w')"
    using decide_effect [OF IH(2) w'(1)] by blast
  then show ?case using IH(1) w'(2-4) by simp
qed

text \<open>
  C32: a quorum counts votes, not persons, when they are anonymous. Whatever number of approvals a stage asks for, one caller without
  an operator identity who claims its role and repeats one decision that often brings the workflow to approval.\<close>

theorem anonymous_caller_fills_quorum:
  assumes "as_workflows st (de_request_id d) = Some (chain_workflow now (de_request_id d) sid [c])"
    and "de_approved d" "de_operator_id d = None" "de_approver_role d = Some (cs_role c)" "0 < cs_min_approvals c"
  shows "\<exists>st' w. decide_times (unat (cs_min_approvals c)) clock d st = Some st'
     \<and> as_workflows st' (de_request_id d) = Some w \<and> wf_state w = Approved"
proof -
  have "0 < unat (cs_min_approvals c)" using assms(5) by (simp add: word_less_nat_alt)
  from anonymous_votes [OF assms(1-4) order_refl this, of clock] show ?thesis by auto
qed

text \<open>A chain none of whose stages asks for a vote is never decided: neither approval nor rejection has an effect.\<close>

lemma empty_chain_undecidable:
  assumes "as_workflows st (de_request_id d) = Some (chain_workflow now rid sid chain)" "list_all (\<lambda>c. cs_min_approvals c = 0) chain"
  shows "decide t t' d st = Some (AlreadyDecided, None, st)"
proof -
  have "\<not> stage_is_pending s" if "s \<in> set (chain_stages chain)" for s
  proof -
    from that obtain c where "c \<in> set chain" "sg_min_approvals s = cs_min_approvals c"
      by (auto simp: chain_stages_def enumerate_eq_zip dest: set_zip_rightD)
    with assms(2) show ?thesis by (auto simp: list_all_iff stage_is_pending_def quorum_met_def)
  qed
  then have "current_stage (chain_workflow now rid sid chain) = None"
    by (auto simp: current_stage_def chain_workflow_def find_None_iff)
  then show ?thesis
    using assms(1) by (simp add: decide_def decide_workflow_def is_expired_def close_pending_def fun_upd_idem)
      (simp add: chain_workflow_def)
qed

section \<open>Examples\<close>

definition xa_sim :: SimulationResult where
  "xa_sim = \<lparr>sim_success = True, sim_error = None, sim_compute_units_used = None, sim_logs = [], sim_return_data = None,
     sim_account_diffs = [], sim_fee_lamports = None\<rparr>"

definition xa_verdict :: PolicyVerdict where
  "xa_verdict = RequiresHumanApproval ''large'' ''chain'' None (Some [\<lparr>cs_role = ''risk'', cs_description = [], cs_min_approvals = 2\<rparr>])"

definition xa_request :: ApprovalRequest where
  "xa_request = \<lparr>rq_id = 7, rq_session_id = 1, rq_transaction_id = 3, rq_description = [], rq_policy_verdict = xa_verdict,
     rq_simulation = xa_sim, rq_requested_at = 0, rq_decided = False, rq_required_approver_role = None\<rparr>"

definition xa_store :: ApprovalStore where
  "xa_store = register xa_request (chain_workflow 0 7 1 [\<lparr>cs_role = ''risk'', cs_description = [], cs_min_approvals = 2\<rparr>]) empty_store"

definition xa_decision :: "string option \<Rightarrow> ApprovalDecision" where
  "xa_decision op = \<lparr>de_request_id = 7, de_approved = True, de_note = None, de_approver_role = Some ''risk'',
     de_operator_id = op, de_decided_at = 5\<rparr>"

lemma xa_registered: "as_workflows xa_store 7 = Some (chain_workflow 0 7 1 [\<lparr>cs_role = ''risk'', cs_description = [], cs_min_approvals = 2\<rparr>])"
  by (simp add: xa_store_def register_def xa_request_def)

lemma xa_reached: "reach approval_init approval_step (xa_store, {})"
proof -
  have "chain_workflow 0 7 1 [\<lparr>cs_role = ''risk'', cs_description = [], cs_min_approvals = 2\<rparr>] = recovered_workflow 0 7 1 None xa_verdict"
    by (simp add: recovered_workflow_def xa_verdict_def)
  then have "issued_workflow 7 (chain_workflow 0 7 1 [\<lparr>cs_role = ''risk'', cs_description = [], cs_min_approvals = 2\<rparr>])"
    unfolding issued_workflow_def by blast
  then have step: "approval_step (empty_store, {}) (xa_store, {})"
    unfolding xa_store_def by (intro step_register) (simp_all add: empty_store_def xa_request_def)
  show ?thesis
    by (rule reach_step [where step = approval_step, OF reach_init step]) (simp add: approval_init_def)
qed

lemmas xa_simps = decide_def decide_workflow_def is_expired_def current_stage_def stage_is_pending_def quorum_met_def approval_count_def
  has_rejection_def role_allowed_def duplicate_vote_def has_operator_voted_def apply_decision_def Let_def progress_outcome_def get_index_def
  close_pending_def stage_decision_def chain_workflow_def chain_stages_def

theorem approved_by_quorum_witness:
  "\<exists>(st :: ApprovalStore) w. as_workflows st 7 = Some w \<and> wf_state w = Approved
     \<and> 2 \<le> length (filter sd_approved (sg_decisions (wf_stages w ! 0)))
     \<and> distinct (List.map_filter sd_operator_id (sg_decisions (wf_stages w ! 0)))"
proof -
  obtain out1 r1 st1 where 1: "decide 10 10 (xa_decision (Some ''ann'')) xa_store = Some (out1, r1, st1)"
    "as_workflows st1 7 = Some ((chain_workflow 0 7 1 [])\<lparr>wf_updated_at := 10, wf_stages := [\<lparr>sg_index = 0, sg_allowed_roles = [''risk''],
       sg_min_approvals = 2, sg_decisions = [stage_decision (xa_decision (Some ''ann''))]\<rparr>]\<rparr>)"
    using xa_registered by (simp add: xa_simps xa_decision_def)
  obtain out2 r2 st2 w where 2: "decide 20 20 (xa_decision (Some ''bob'')) st1 = Some (out2, r2, st2)"
    "as_workflows st2 7 = Some w" "wf_state w = Approved" "length (wf_stages w) = 1" "sg_min_approvals (wf_stages w ! 0) = 2"
    using 1(2) by (simp add: xa_simps xa_decision_def)
  have "reach approval_init approval_step (st2, {(xa_decision (Some ''bob''), 20), (xa_decision (Some ''ann''), 10)})"
    using xa_reached 1(1) 2(1) by (meson reach_step step_decide)
  from approved_by_quorum [OF this 2(2,3), of 0] 2(4,5)
  have "2 \<le> length (filter sd_approved (sg_decisions (wf_stages w ! 0)))"
    "distinct (List.map_filter sd_operator_id (sg_decisions (wf_stages w ! 0)))" by simp_all
  with 2(2,3) show ?thesis by blast
qed

theorem request_decided_once_witness:
  "\<exists>st. decide 30 30 (xa_decision None) st = Some (AlreadyDecided, None, st) \<and> (\<exists>w. as_workflows st 7 = Some w \<and> wf_state w = Rejected)"
proof -
  let ?no = "(xa_decision None)\<lparr>de_approved := False\<rparr>"
  obtain req st w where no: "decide 10 10 ?no xa_store = Some (OutRejected, req, st)" "as_workflows st 7 = Some w" "wf_state w = Rejected"
    using xa_registered by (simp add: xa_simps xa_decision_def)
  have "decide 30 30 (xa_decision None) st = Some (AlreadyDecided, None, st)"
    by (rule request_decided_once [OF no(1) _ rtranclp.rtrancl_refl [of approval_step "(st, {})"]]) (simp_all add: xa_decision_def)
  with no(2,3) show ?thesis by blast
qed

theorem anonymous_caller_fills_quorum_witness:
  "\<exists>st' w. decide_times 2 (\<lambda>_. 10) (xa_decision None) xa_store = Some st' \<and> as_workflows st' 7 = Some w \<and> wf_state w = Approved"
  using anonymous_caller_fills_quorum [of xa_store "xa_decision None" 0 1 "\<lparr>cs_role = ''risk'', cs_description = [], cs_min_approvals = 2\<rparr>" "\<lambda>_. 10"]
    xa_registered by (simp add: xa_decision_def)

end
