(* ===== verification/Solend_Tx_Plan.thy ===== *)
theory Solend_Tx_Plan
  imports Solend_Tx Solend_Assembler Approval_Workflow
begin

text \<open>
  \<open>crates/gateway/src/integrations/solend_tx_plan.rs\<close>, \<open>solend_withdraw_tx_plan.rs\<close> and
  \<open>solend_preflight.rs\<close>: the plan of a deposit or a withdrawal, grouped as setup, refresh and action
  instructions over a fresh snapshot; the replacement of the placeholder obligation; and the simulation before signing.
  The instruction builders of the Solana SDK are the record \<open>plan_env\<close>, a compiled transaction is the parameter \<open>'t\<close>.
\<close>

section \<open>The parked intent\<close>

record ParkedSolendDepositIntent =
  pk_intent_id :: uuid
  pk_action :: ProposedAction
  pk_snapshot :: LendingSnapshot
  pk_obligation_exists :: bool
  pk_source_ata_exists :: bool
  pk_collateral_ata_exists :: bool
  pk_verdict_at_propose :: LendingPolicyVerdict
  pk_proposed_at :: instant
  pk_expires_at :: instant
  pk_session_id :: uuid
  pk_session_wallet :: pubkey

section \<open>The plan of a deposit\<close>

definition PHASE_4C2_OBLIGATION_RENT_EXEMPT_LAMPORTS :: u64 where
  "PHASE_4C2_OBLIGATION_RENT_EXEMPT_LAMPORTS = 9938880"

definition SOLEND_DEPOSIT_PRIORITY_FEE_MICRO_LAMPORTS :: u64 where
  "SOLEND_DEPOSIT_PRIORITY_FEE_MICRO_LAMPORTS = 50000"

record plan_env =
  pe_set_compute_unit_price :: "u64 \<Rightarrow> instruction"
  pe_create_ata_idempotent :: "pubkey \<Rightarrow> pubkey \<Rightarrow> pubkey \<Rightarrow> pubkey \<Rightarrow> instruction"
  pe_create_account :: "pubkey \<Rightarrow> pubkey \<Rightarrow> u64 \<Rightarrow> u64 \<Rightarrow> pubkey \<Rightarrow> instruction"
  pe_find_pda :: pda_finder

record PlanAccountsSummary =
  pa_reserve_pubkey :: pubkey
  pa_reserve_mint :: pubkey
  pa_obligation_pubkey :: pubkey
  pa_source_liquidity_ata :: pubkey
  pa_user_collateral_ata :: pubkey
  pa_source_ata_exists :: bool
  pa_collateral_ata_exists :: bool
  pa_obligation_exists :: bool

record SolendDepositTxPlan =
  dp_request_id :: uuid
  dp_intent_id :: uuid
  dp_session_id :: uuid
  dp_session_wallet :: pubkey
  dp_verified_slot :: u64
  dp_action :: ProposedAction
  dp_setup :: "instruction list"
  dp_refresh :: "instruction list"
  dp_deposit :: "instruction list"
  dp_transient :: "pubkey option"
  dp_signer_required :: bool
  dp_accounts :: PlanAccountsSummary
  dp_rent :: u64

datatype SolendTxPlanError =
    UnsupportedProtocol ProtocolTag
  | UnsupportedActionKind
  | PlanReserveNotInSnapshot pubkey
  | DepositBuildFailed SolendBuildError

text \<open>The oracle accounts of a mint: the last feed of each provider, the null oracle where there is none.\<close>

fun note_feed :: "pubkey \<times> pubkey \<Rightarrow> OracleFeed \<Rightarrow> pubkey \<times> pubkey" where
  "note_feed (pyth, sb) f = (case of_provider f of
     PythSolanaReceiver \<Rightarrow> (of_identifier f, sb)
   | SwitchboardOnDemand \<Rightarrow> (pyth, of_identifier f)
   | UnknownProvider \<Rightarrow> (pyth, sb))"

definition plan_oracles :: "LendingSnapshot \<Rightarrow> pubkey \<Rightarrow> pubkey \<times> pubkey" where
  "plan_oracles snap mnt =
    (let none = (pubkey_of SOLEND_NULL_ORACLE_SENTINEL_BS58, pubkey_of SOLEND_NULL_ORACLE_SENTINEL_BS58) in
     case List.find (\<lambda>s. os_priced_asset s = mnt) (ls_oracles snap) of
       None \<Rightarrow> none
     | Some feed_set \<Rightarrow> foldl note_feed none (os_feeds feed_set))"

definition deposit_setup ::
  "'z plan_env_scheme \<Rightarrow> pubkey \<Rightarrow> AssembledSolendDepositSnapshot \<Rightarrow> LendingReserve \<Rightarrow> pubkey \<Rightarrow> u64 \<Rightarrow> instruction list" where
  "deposit_setup env wallet a r ob rent =
     [pe_set_compute_unit_price env SOLEND_DEPOSIT_PRIORITY_FEE_MICRO_LAMPORTS]
     @ (if asd_source_ata_exists a then []
        else [pe_create_ata_idempotent env wallet wallet (lr_mint r) (pubkey_of SPL_TOKEN_PROGRAM_ID_BS58)])
     @ (if asd_obligation_exists a then []
        else [build_create_obligation_account_instruction (pe_create_account env)
                \<lparr>co_funder = wallet, co_new_obligation = ob, co_rent_exempt_lamports = rent,
                 co_solend_program_id = pubkey_of SOLEND_PROGRAM_ID_BS58\<rparr>,
              build_init_obligation_instruction
                \<lparr>io_solend_program_id = pubkey_of SOLEND_PROGRAM_ID_BS58, io_obligation = ob,
                 io_lending_market = asd_lending_market a, io_obligation_owner = wallet\<rparr>])
     @ (if asd_collateral_ata_exists a then []
        else [pe_create_ata_idempotent env wallet wallet (lr_collateral_mint_pubkey r) (pubkey_of SPL_TOKEN_PROGRAM_ID_BS58)])"

definition deposit_refresh ::
  "AssembledSolendDepositSnapshot \<Rightarrow> LendingReserve \<Rightarrow> pubkey \<Rightarrow> pubkey \<times> pubkey \<Rightarrow> instruction list" where
  "deposit_refresh a r ob oracles = plan_instructions (build_refresh_instructions \<lparr>
     rp_solend_program_id = pubkey_of SOLEND_PROGRAM_ID_BS58,
     rp_reserves = [\<lparr>rr_reserve_pubkey = lr_identifier r, rr_pyth_oracle = fst oracles, rr_switchboard_oracle = snd oracles\<rparr>],
     rp_obligation = (if asd_obligation_exists a
       then Some \<lparr>or_obligation_pubkey = ob,
              or_referenced_reserves_in_order = map od_reserve (lo_deposits (ls_obligation (asd_snapshot a)))\<rparr>
       else None)\<rparr>)"

definition plan_deposit_inputs ::
  "pubkey \<Rightarrow> AssembledSolendDepositSnapshot \<Rightarrow> LendingReserve \<Rightarrow> pubkey \<Rightarrow> pubkey \<times> pubkey \<Rightarrow> u64 \<Rightarrow> DepositInstructionInputs" where
  "plan_deposit_inputs wallet a r ob oracles amt = \<lparr>
     di_solend_program_id = pubkey_of SOLEND_PROGRAM_ID_BS58,
     di_amount = amt,
     di_source_liquidity = asd_source_liquidity_ata a,
     di_user_collateral = asd_user_collateral_ata a,
     di_reserve = lr_identifier r,
     di_reserve_liquidity_supply = lr_liquidity_supply_pubkey r,
     di_reserve_collateral_mint = lr_collateral_mint_pubkey r,
     di_lending_market = asd_lending_market a,
     di_destination_deposit_collateral = lr_collateral_supply_pubkey r,
     di_obligation = ob,
     di_obligation_owner = wallet,
     di_pyth_oracle = fst oracles,
     di_switchboard_oracle = snd oracles,
     di_user_transfer_authority = wallet\<rparr>"

text \<open>
  \<open>Pubkey::new_unique()\<close> is the parameter \<open>transient\<close>, used when there is no obligation yet.\<close>

definition assemble_solend_deposit_tx_plan ::
  "'z plan_env_scheme \<Rightarrow> pubkey \<Rightarrow> uuid \<Rightarrow> ParkedSolendDepositIntent \<Rightarrow> AssembledSolendDepositSnapshot \<Rightarrow> u64 \<Rightarrow> u64 \<Rightarrow>
   SolendTxPlanError + SolendDepositTxPlan" where
  "assemble_solend_deposit_tx_plan env transient request_id p a verified_slot rent =
    (case pk_action p of
       ActRepay _ _ _ \<Rightarrow> Inl UnsupportedActionKind
     | ActWithdraw _ _ _ \<Rightarrow> Inl UnsupportedActionKind
     | ActDeposit proto mnt amt \<Rightarrow>
         if proto \<noteq> ProtocolTag.Solend then Inl (UnsupportedProtocol proto)
         else bindE (ok_or (List.find (\<lambda>r. lr_mint r = mnt) (ls_reserves (asd_snapshot a))) (PlanReserveNotInSnapshot mnt)) (\<lambda>r.
         let oracles = plan_oracles (asd_snapshot a) mnt;
             fresh = \<not> asd_obligation_exists a;
             ob = (if fresh then transient else asd_obligation_pubkey a);
             wallet = pk_session_wallet p
         in bindE (map_err DepositBuildFailed (build_deposit_instruction (pe_find_pda env)
               (plan_deposit_inputs wallet a r ob oracles (underlying_raw amt)))) (\<lambda>ix.
         Inr \<lparr>dp_request_id = request_id, dp_intent_id = pk_intent_id p, dp_session_id = pk_session_id p,
           dp_session_wallet = wallet, dp_verified_slot = verified_slot, dp_action = pk_action p,
           dp_setup = deposit_setup env wallet a r ob rent, dp_refresh = deposit_refresh a r ob oracles,
           dp_deposit = [ix], dp_transient = (if fresh then Some transient else None), dp_signer_required = fresh,
           dp_accounts = \<lparr>pa_reserve_pubkey = lr_identifier r, pa_reserve_mint = lr_mint r, pa_obligation_pubkey = ob,
             pa_source_liquidity_ata = asd_source_liquidity_ata a, pa_user_collateral_ata = asd_user_collateral_ata a,
             pa_source_ata_exists = asd_source_ata_exists a, pa_collateral_ata_exists = asd_collateral_ata_exists a,
             pa_obligation_exists = asd_obligation_exists a\<rparr>,
           dp_rent = rent\<rparr>)))"

section \<open>The plan of a withdrawal\<close>

definition SOLEND_WITHDRAW_PRIORITY_FEE_MICRO_LAMPORTS :: u64 where
  "SOLEND_WITHDRAW_PRIORITY_FEE_MICRO_LAMPORTS = 50000"

record SolendWithdrawTxPlan =
  wt_request_id :: uuid
  wt_intent_id :: uuid
  wt_session_id :: uuid
  wt_session_wallet :: pubkey
  wt_verified_slot :: u64
  wt_action :: ProposedAction
  wt_setup :: "instruction list"
  wt_refresh :: "instruction list"
  wt_withdraw :: "instruction list"
  wt_signer_required :: bool
  wt_transient :: "pubkey option"
  wt_accounts :: PlanAccountsSummary

datatype SolendWithdrawTxPlanError =
    WdUnsupportedProtocol ProtocolTag
  | WdUnsupportedActionKind
  | WdReserveNotInSnapshot pubkey
  | ObligationDoesNotExist
  | WithdrawBuildFailed SolendBuildError

definition push_new :: "'a \<Rightarrow> 'a list \<Rightarrow> 'a list" where
  "push_new x xs = (if x \<in> set xs then xs else xs @ [x])"

definition withdraw_refresh_reserves :: "AssembledSolendDepositSnapshot \<Rightarrow> pubkey list" where
  "withdraw_refresh_reserves a =
    (let ob = ls_obligation (asd_snapshot a) in
     push_new (asd_reserve_pubkey a)
       (foldl (\<lambda>acc b. push_new (ow_reserve b) acc)
         (foldl (\<lambda>acc d. push_new (od_reserve d) acc) [] (lo_deposits ob)) (lo_borrows ob)))"

definition assemble_solend_withdraw_tx_plan ::
  "'z plan_env_scheme \<Rightarrow> uuid \<Rightarrow> ProposedAction \<Rightarrow> uuid \<Rightarrow> pubkey \<Rightarrow> AssembledSolendDepositSnapshot \<Rightarrow> u64 \<Rightarrow>
   SolendWithdrawTxPlanError + SolendWithdrawTxPlan" where
  "assemble_solend_withdraw_tx_plan env request_id act session_id wallet a verified_slot =
    (case act of
       ActDeposit _ _ _ \<Rightarrow> Inl WdUnsupportedActionKind
     | ActRepay _ _ _ \<Rightarrow> Inl WdUnsupportedActionKind
     | ActWithdraw proto mnt amt \<Rightarrow>
         if proto \<noteq> ProtocolTag.Solend then Inl (WdUnsupportedProtocol proto)
         else bindE (ok_or (List.find (\<lambda>r. lr_mint r = mnt) (ls_reserves (asd_snapshot a))) (WdReserveNotInSnapshot mnt)) (\<lambda>r.
         if \<not> asd_obligation_exists a then Inl ObligationDoesNotExist
         else let oracles = plan_oracles (asd_snapshot a) mnt;
             setup = [pe_set_compute_unit_price env SOLEND_WITHDRAW_PRIORITY_FEE_MICRO_LAMPORTS]
               @ (if asd_source_ata_exists a then []
                  else [pe_create_ata_idempotent env wallet wallet mnt (pubkey_of SPL_TOKEN_PROGRAM_ID_BS58)])
               @ (if asd_collateral_ata_exists a then []
                  else [pe_create_ata_idempotent env wallet wallet (lr_collateral_mint_pubkey r) (pubkey_of SPL_TOKEN_PROGRAM_ID_BS58)]);
             refresh = plan_instructions (build_refresh_instructions \<lparr>
               rp_solend_program_id = pubkey_of SOLEND_PROGRAM_ID_BS58,
               rp_reserves = [\<lparr>rr_reserve_pubkey = asd_reserve_pubkey a, rr_pyth_oracle = fst oracles,
                 rr_switchboard_oracle = snd oracles\<rparr>],
               rp_obligation = Some \<lparr>or_obligation_pubkey = asd_obligation_pubkey a,
                 or_referenced_reserves_in_order = withdraw_refresh_reserves a\<rparr>\<rparr>)
         in bindE (map_err WithdrawBuildFailed (build_withdraw_instruction (pe_find_pda env) \<lparr>
               wi_solend_program_id = pubkey_of SOLEND_PROGRAM_ID_BS58,
               wi_collateral_amount = collateral_raw amt,
               wi_source_collateral = lr_collateral_supply_pubkey r,
               wi_destination_collateral = asd_user_collateral_ata a,
               wi_reserve = asd_reserve_pubkey a,
               wi_obligation = asd_obligation_pubkey a,
               wi_lending_market = asd_lending_market a,
               wi_destination_liquidity = asd_source_liquidity_ata a,
               wi_reserve_collateral_mint = lr_collateral_mint_pubkey r,
               wi_reserve_liquidity_supply = lr_liquidity_supply_pubkey r,
               wi_obligation_owner = wallet,
               wi_user_transfer_authority = wallet,
               wi_deposit_reserves_in_order = map od_reserve (lo_deposits (ls_obligation (asd_snapshot a)))\<rparr>)) (\<lambda>ix.
         Inr \<lparr>wt_request_id = request_id, wt_intent_id = request_id, wt_session_id = session_id,
           wt_session_wallet = wallet, wt_verified_slot = verified_slot, wt_action = act,
           wt_setup = setup, wt_refresh = refresh, wt_withdraw = [ix], wt_signer_required = False, wt_transient = None,
           wt_accounts = \<lparr>pa_reserve_pubkey = asd_reserve_pubkey a, pa_reserve_mint = mnt,
             pa_obligation_pubkey = asd_obligation_pubkey a,
             pa_source_liquidity_ata = asd_source_liquidity_ata a, pa_user_collateral_ata = asd_user_collateral_ata a,
             pa_source_ata_exists = asd_source_ata_exists a, pa_collateral_ata_exists = asd_collateral_ata_exists a,
             pa_obligation_exists = asd_obligation_exists a\<rparr>\<rparr>)))"

section \<open>Replacing the placeholder\<close>

definition replace_pubkey_in_instructions :: "instruction list \<Rightarrow> pubkey \<Rightarrow> pubkey \<Rightarrow> instruction list" where
  "replace_pubkey_in_instructions ixs from to = map (\<lambda>ix. \<lparr>
     ix_program_id = ix_program_id ix,
     ix_accounts = map (\<lambda>a. \<lparr>meta_pubkey = (if meta_pubkey a = from then to else meta_pubkey a),
       meta_is_signer = meta_is_signer a, meta_is_writable = meta_is_writable a\<rparr>) (ix_accounts ix),
     ix_data = ix_data ix\<rparr>) ixs"

definition rebuild_create_account_with_fresh_rent ::
  "'z plan_env_scheme \<Rightarrow> instruction list \<Rightarrow> u64 \<Rightarrow> pubkey \<Rightarrow> pubkey \<Rightarrow> pubkey \<Rightarrow> instruction list" where
  "rebuild_create_account_with_fresh_rent env setup fresh_rent funder new_obligation program = map (\<lambda>ix.
     if ix_program_id ix = system_program_ID
     then pe_create_account env funder new_obligation fresh_rent (word_of_nat OBLIGATION_LEN) program
     else ix) setup"

section \<open>The simulation before signing\<close>

definition SIMULATION_MAX_LOGS :: nat where "SIMULATION_MAX_LOGS = 64"
definition LEGACY_MAX_SERIALIZED_TX_SIZE :: nat where "LEGACY_MAX_SERIALIZED_TX_SIZE = 1232"

text \<open>The instruction and transaction errors that the classification names; the others carry their debug text.\<close>

datatype ix_error = Custom u32 | InsufficientFunds | MissingAccount | AccountNotExecutable | OtherIxError string

datatype tx_error =
    InstructionError u8 ix_error
  | SignatureFailure
  | AccountNotFound
  | AccountInUse
  | InsufficientFundsForFee
  | BlockhashNotFound
  | OtherTxError string

record RawSimulationResult =
  rs_err :: "tx_error option"
  rs_logs :: "string list option"
  rs_units_consumed :: "u64 option"
  rs_context_slot :: "u64 option"

text \<open>The fields \<open>sig_verify\<close> and \<open>replace_recent_blockhash\<close> of both outcomes are constants of the source.\<close>

datatype SolendPreflightOutcome =
    is_Passed: Passed (pf_verified_slot: u64) (pf_simulation_slot: "u64 option") (pf_units_consumed: "u64 option")
      (pf_logs: "string list") (pf_rent_updated: bool) (pf_planning_rent: "u64 option") (pf_fresh_rent: "u64 option")
  | Failed string "nat option" "u32 option" "string list" "u64 option"
  | ConfigError string string
  | TooLargeNeedsChunking string

fun classify_transaction_error :: "tx_error \<Rightarrow> string \<times> nat option \<times> u32 option" where
  "classify_transaction_error (InstructionError idx e) = (case e of
     Custom code \<Rightarrow> (if code = 9 then ''InvalidTokenProgram'' else if code = 10 then ''InvalidAmount''
       else if code = 14 then ''MathOverflow'' else ''CustomInstructionError'', Some (unat idx), Some code)
   | InsufficientFunds \<Rightarrow> (''InsufficientFunds'', Some (unat idx), None)
   | MissingAccount \<Rightarrow> (''MissingAccount'', Some (unat idx), None)
   | AccountNotExecutable \<Rightarrow> (''AccountNotExecutable'', Some (unat idx), None)
   | OtherIxError text \<Rightarrow> (''InstructionError:'' @ text, Some (unat idx), None))"
| "classify_transaction_error SignatureFailure = (''SignatureFailure'', None, None)"
| "classify_transaction_error AccountNotFound = (''AccountNotFound'', None, None)"
| "classify_transaction_error AccountInUse = (''AccountInUse'', None, None)"
| "classify_transaction_error InsufficientFundsForFee = (''InsufficientFundsForFee'', None, None)"
| "classify_transaction_error BlockhashNotFound = (''BlockhashNotFound'', None, None)"
| "classify_transaction_error (OtherTxError text) = (''UnknownSimulationError:'' @ text, None, None)"

text \<open>
  The SDK compiles an instruction list for a payer at the zero block hash (\<open>pre_compile\<close>) and tells the size of the result;
  the node answers the rent and runs the simulation; \<open>pre_keypair\<close> is the key pair generated and dropped.\<close>

record 't preflight_env = plan_env +
  pre_compile :: "instruction list \<Rightarrow> pubkey \<Rightarrow> 't"
  pre_serialized_size :: "'t \<Rightarrow> string + nat"
  pre_keypair :: pubkey
  pre_rent :: "nat \<Rightarrow> string + u64"
  pre_simulate :: "'t \<Rightarrow> string + RawSimulationResult"

record 't PreparedPreflight =
  pp_setup :: "instruction list"
  pp_refresh :: "instruction list"
  pp_deposit :: "instruction list"
  pp_replacement :: "pubkey option"
  pp_rent_updated :: bool
  pp_planning_rent :: "u64 option"
  pp_fresh_rent :: "u64 option"
  pp_transaction :: 't
  pp_serialized_size :: nat

datatype PreparePreflightError =
    MissingTransientObligation
  | UnexpectedTransientObligation
  | PrepareSerializationFailed string

definition transient_sanity :: "bool \<Rightarrow> pubkey option \<Rightarrow> PreparePreflightError + unit" where
  "transient_sanity required transient =
    (if required \<and> transient = None then Inl MissingTransientObligation
     else if \<not> required \<and> transient \<noteq> None then Inl UnexpectedTransientObligation
     else Inr ())"

definition substitute_obligation :: "pubkey option \<Rightarrow> pubkey option \<Rightarrow> instruction list \<Rightarrow> instruction list" where
  "substitute_obligation placeholder replacement ixs = (case (placeholder, replacement) of
     (Some from, Some to) \<Rightarrow> replace_pubkey_in_instructions ixs from to
   | _ \<Rightarrow> ixs)"

definition prepare_preflight_transaction ::
  "('t, 'z) preflight_env_scheme \<Rightarrow> SolendDepositTxPlan \<Rightarrow> pubkey option \<Rightarrow> u64 option \<Rightarrow>
   PreparePreflightError + 't PreparedPreflight" where
  "prepare_preflight_transaction env plan replacement fresh_rent =
    bindE (transient_sanity (dp_signer_required plan) (dp_transient plan)) (\<lambda>_.
    let sub = substitute_obligation (dp_transient plan) replacement;
        rebuild = (case (dp_signer_required plan, replacement, fresh_rent) of
           (True, Some ob, Some fresh) \<Rightarrow> if fresh \<noteq> dp_rent plan then Some (ob, fresh) else None
         | _ \<Rightarrow> None);
        setup = (case rebuild of
           Some (ob, fresh) \<Rightarrow> rebuild_create_account_with_fresh_rent env (sub (dp_setup plan)) fresh
             (dp_session_wallet plan) ob (pubkey_of SOLEND_PROGRAM_ID_BS58)
         | None \<Rightarrow> sub (dp_setup plan));
        refresh = sub (dp_refresh plan);
        deposit = sub (dp_deposit plan);
        tx = pre_compile env (setup @ refresh @ deposit) (dp_session_wallet plan)
    in bindE (map_err PrepareSerializationFailed (pre_serialized_size env tx)) (\<lambda>size.
    Inr \<lparr>pp_setup = setup, pp_refresh = refresh, pp_deposit = deposit, pp_replacement = replacement,
      pp_rent_updated = (rebuild \<noteq> None),
      pp_planning_rent = (if dp_signer_required plan then Some (dp_rent plan) else None),
      pp_fresh_rent = (if dp_signer_required plan then fresh_rent else None),
      pp_transaction = tx, pp_serialized_size = size\<rparr>))"

fun prepare_error_outcome :: "PreparePreflightError \<Rightarrow> SolendPreflightOutcome" where
  "prepare_error_outcome MissingTransientObligation = ConfigError ''MissingTransientObligation''
     ''obligation_signer_required=true but transient_obligation_pubkey is None''"
| "prepare_error_outcome UnexpectedTransientObligation = ConfigError ''UnexpectedTransientObligation''
     ''transient_obligation_pubkey is set but obligation_signer_required=false''"
| "prepare_error_outcome (PrepareSerializationFailed msg) = ConfigError ''SerializationFailed'' msg"

definition em_dash :: string where "em_dash = [CHR 0xE2, CHR 0x80, CHR 0x94]"

definition preflight_solend_deposit_plan ::
  "('t, 'z) preflight_env_scheme \<Rightarrow> SolendDepositTxPlan \<Rightarrow> SolendPreflightOutcome" where
  "preflight_solend_deposit_plan env plan =
    (case transient_sanity (dp_signer_required plan) (dp_transient plan) of
       Inl e \<Rightarrow> prepare_error_outcome e
     | Inr _ \<Rightarrow>
    (case (if dp_signer_required plan then map_err (\<lambda>e. ''RPC fetch failed: '' @ e) (map_sum id Some (pre_rent env OBLIGATION_LEN)) else Inr None) of
       Inl e \<Rightarrow> ConfigError ''RentFetchFailed'' e
     | Inr fresh_rent \<Rightarrow>
    (case prepare_preflight_transaction env plan (if dp_signer_required plan then Some (pre_keypair env) else None) fresh_rent of
       Inl e \<Rightarrow> prepare_error_outcome e
     | Inr prepared \<Rightarrow>
     if pp_serialized_size prepared > LEGACY_MAX_SERIALIZED_TX_SIZE
     then TooLargeNeedsChunking (''serialized legacy transaction size '' @ show_nat (pp_serialized_size prepared)
            @ '' exceeds limit '' @ show_nat LEGACY_MAX_SERIALIZED_TX_SIZE @ '' '' @ em_dash @ '' ALT/v0 deferred'')
     else (case pre_simulate env (pp_transaction prepared) of
       Inl _ \<Rightarrow> Failed ''SimulateRpcFailure'' None None [] None
     | Inr raw \<Rightarrow>
       let logs = take SIMULATION_MAX_LOGS (case rs_logs raw of None \<Rightarrow> [] | Some ls \<Rightarrow> ls) in
       (case rs_err raw of
          None \<Rightarrow> Passed (dp_verified_slot plan) (rs_context_slot raw) (rs_units_consumed raw) logs
            (pp_rent_updated prepared) (pp_planning_rent prepared) (pp_fresh_rent prepared)
        | Some e \<Rightarrow> (case classify_transaction_error e of (kind, idx, code) \<Rightarrow>
            Failed kind idx code logs (rs_units_consumed raw)))))))"

section \<open>What the plan contains\<close>

text \<open>No account of an instruction list is the given key.\<close>

definition unmentioned :: "pubkey \<Rightarrow> instruction list \<Rightarrow> bool" where
  "unmentioned k ixs \<longleftrightarrow> (\<forall>ix \<in> set ixs. \<forall>m \<in> set (ix_accounts ix). meta_pubkey m \<noteq> k)"

lemma unmentioned_simps [simp]:
  "unmentioned k []" "unmentioned k (ix # ixs) \<longleftrightarrow> (\<forall>m \<in> set (ix_accounts ix). meta_pubkey m \<noteq> k) \<and> unmentioned k ixs"
  "unmentioned k (xs @ ys) \<longleftrightarrow> unmentioned k xs \<and> unmentioned k ys"
  by (auto simp: unmentioned_def)

lemma replace_simps [simp]:
  "replace_pubkey_in_instructions [] from to = []"
  "replace_pubkey_in_instructions (xs @ ys) from to
     = replace_pubkey_in_instructions xs from to @ replace_pubkey_in_instructions ys from to"
  by (simp_all add: replace_pubkey_in_instructions_def)

lemma replace_unmentioned: "unmentioned from ixs \<Longrightarrow> replace_pubkey_in_instructions ixs from to = ixs"
  unfolding replace_pubkey_in_instructions_def unmentioned_def
  by (intro map_idI instruction.equality) (auto intro!: map_idI)

lemma replace_length [simp]: "length (replace_pubkey_in_instructions ixs from to) = length ixs"
  by (simp add: replace_pubkey_in_instructions_def)

text \<open>Replacing only touches account keys: programs, data and flags stay.\<close>

lemma replace_keeps:
  "map ix_program_id (replace_pubkey_in_instructions ixs from to) = map ix_program_id ixs"
  "map ix_data (replace_pubkey_in_instructions ixs from to) = map ix_data ixs"
  by (simp_all add: replace_pubkey_in_instructions_def)

text \<open>
  The documented shape of the SDK's builders: the funder and the new account, both writable
  signers, are the only accounts of \<open>create_account\<close>, neither occurs in its data, and the other two builders are of other programs
  than the system program.\<close>

definition builder_laws :: "'z plan_env_scheme \<Rightarrow> bool" where
  "builder_laws env \<longleftrightarrow>
     (\<exists>encode. \<forall>f n l sp ow. pe_create_account env f n l sp ow =
        \<lparr>ix_program_id = system_program_ID, ix_accounts = [AccountMeta_new f True, AccountMeta_new n True],
         ix_data = encode l sp ow\<rparr>)
     \<and> (\<forall>p. ix_program_id (pe_set_compute_unit_price env p) \<noteq> system_program_ID)
     \<and> (\<forall>f w m t. ix_program_id (pe_create_ata_idempotent env f w m t) \<noteq> system_program_ID)"

text \<open>The whole instruction list of a deposit for the obligation \<open>ob\<close>.\<close>

definition planned_transaction ::
  "'z plan_env_scheme \<Rightarrow> pubkey \<Rightarrow> AssembledSolendDepositSnapshot \<Rightarrow> LendingReserve \<Rightarrow> u64 \<Rightarrow> pubkey \<Rightarrow> u64 \<Rightarrow> instruction list" where
  "planned_transaction env wallet a r amt ob rent =
    (let oracles = plan_oracles (asd_snapshot a) (lr_mint r) in
     deposit_setup env wallet a r ob rent @ deposit_refresh a r ob oracles
     @ (case build_deposit_instruction (pe_find_pda env) (plan_deposit_inputs wallet a r ob oracles amt) of
          Inr ix \<Rightarrow> [ix] | Inl _ \<Rightarrow> []))"

definition plan_instructions_of :: "SolendDepositTxPlan \<Rightarrow> instruction list" where
  "plan_instructions_of plan = dp_setup plan @ dp_refresh plan @ dp_deposit plan"

lemma find_mint: "List.find (\<lambda>r. lr_mint r = mnt) rs = Some r \<Longrightarrow> lr_mint r = mnt \<and> r \<in> set rs"
  by (auto simp: find_Some_iff)

lemma deposit_plan_facts:
  assumes "assemble_solend_deposit_tx_plan env transient rid p a vslot rent = Inr plan"
  obtains mnt amt r where "pk_action p = ActDeposit ProtocolTag.Solend mnt amt" "underlying_raw amt \<noteq> 0"
    "r \<in> set (ls_reserves (asd_snapshot a))" "lr_mint r = mnt"
    "plan_instructions_of plan = planned_transaction env (pk_session_wallet p) a r (underlying_raw amt)
       (if asd_obligation_exists a then asd_obligation_pubkey a else transient) rent"
    "dp_setup plan = deposit_setup env (pk_session_wallet p) a r
       (if asd_obligation_exists a then asd_obligation_pubkey a else transient) rent"
    "dp_transient plan = (if asd_obligation_exists a then None else Some transient)"
    "dp_signer_required plan = (\<not> asd_obligation_exists a)" "dp_action plan = pk_action p" "dp_rent plan = rent"
    "dp_session_wallet plan = pk_session_wallet p" "dp_session_id plan = pk_session_id p"
    "dp_intent_id plan = pk_intent_id p" "dp_request_id plan = rid" "dp_verified_slot plan = vslot"
    "length (dp_deposit plan) = 1"
proof -
  from assms obtain proto mnt amt where act: "pk_action p = ActDeposit proto mnt amt"
    by (auto simp: assemble_solend_deposit_tx_plan_def split: ProposedAction.splits)
  with assms obtain r ix where r: "List.find (\<lambda>r. lr_mint r = mnt) (ls_reserves (asd_snapshot a)) = Some r"
    and ix: "build_deposit_instruction (pe_find_pda env) (plan_deposit_inputs (pk_session_wallet p) a r
        (if asd_obligation_exists a then asd_obligation_pubkey a else transient)
        (plan_oracles (asd_snapshot a) mnt) (underlying_raw amt)) = Inr ix"
    by (auto simp: assemble_solend_deposit_tx_plan_def bindE_Inr ok_or_Inr map_err_Inr Let_def split: if_splits)
  from ix have nz: "underlying_raw amt \<noteq> 0"
    by (auto simp: build_deposit_instruction_def plan_deposit_inputs_def split: if_splits)
  have proto: "proto = ProtocolTag.Solend" by (cases proto)
  from find_mint [OF r] have mnt: "lr_mint r = mnt" "r \<in> set (ls_reserves (asd_snapshot a))" by auto
  note split = assms [unfolded assemble_solend_deposit_tx_plan_def act, simplified, simplified r ix Let_def, simplified]
  show thesis
    by (rule that [of mnt amt r]) (use act proto nz mnt ix split in \<open>auto simp: r planned_transaction_def plan_instructions_of_def Let_def bindE_Inr split: if_splits\<close>)
qed

lemma replace_Cons: "replace_pubkey_in_instructions (ix # ixs) from to
    = replace_pubkey_in_instructions [ix] from to @ replace_pubkey_in_instructions ixs from to"
  by (simp add: replace_pubkey_in_instructions_def)

text \<open>With the placeholder replaced, the plan is the transaction of the real obligation.\<close>

lemma replace_obligation:
  assumes laws: "builder_laws env" and new: "\<not> asd_obligation_exists a"
    and fresh: "unmentioned from (planned_transaction env wallet a r amt ob rent)"
  shows "replace_pubkey_in_instructions (planned_transaction env wallet a r amt from rent) from ob
     = planned_transaction env wallet a r amt ob rent"
proof -
  obtain encode where create: "\<And>f n l sp ow. pe_create_account env f n l sp ow =
      \<lparr>ix_program_id = system_program_ID, ix_accounts = [AccountMeta_new f True, AccountMeta_new n True],
       ix_data = encode l sp ow\<rparr>"
    using laws unfolding builder_laws_def by blast
  note new [simp] and metas = AccountMeta_new_def AccountMeta_new_readonly_def replace_pubkey_in_instructions_def
  let ?tx = "planned_transaction env wallet a r amt ob rent"
  let ?oracles = "plan_oracles (asd_snapshot a) (lr_mint r)"
  let ?program = "pubkey_of SOLEND_PROGRAM_ID_BS58"
  have opaque: "replace_pubkey_in_instructions ixs from ob = ixs" if "set ixs \<subseteq> set ?tx" for ixs
    using fresh that by (intro replace_unmentioned) (auto simp: unmentioned_def)
  have keys: "unmentioned from (deposit_setup env wallet a r ob rent)"
    "unmentioned from (case build_deposit_instruction (pe_find_pda env) (plan_deposit_inputs wallet a r ob ?oracles amt) of Inr ix \<Rightarrow> [ix] | Inl _ \<Rightarrow> [])"
    using fresh by (simp_all add: planned_transaction_def Let_def)
  have created: "replace_pubkey_in_instructions
      [build_create_obligation_account_instruction (pe_create_account env)
         \<lparr>co_funder = wallet, co_new_obligation = from, co_rent_exempt_lamports = rent, co_solend_program_id = ?program\<rparr>,
       build_init_obligation_instruction \<lparr>io_solend_program_id = ?program, io_obligation = from,
         io_lending_market = asd_lending_market a, io_obligation_owner = wallet\<rparr>] from ob
    = [build_create_obligation_account_instruction (pe_create_account env)
         \<lparr>co_funder = wallet, co_new_obligation = ob, co_rent_exempt_lamports = rent, co_solend_program_id = ?program\<rparr>,
       build_init_obligation_instruction \<lparr>io_solend_program_id = ?program, io_obligation = ob,
         io_lending_market = asd_lending_market a, io_obligation_owner = wallet\<rparr>]"
    using keys(1) by (auto simp: deposit_setup_def build_create_obligation_account_instruction_def
        build_init_obligation_instruction_def create metas)
  have deposited: "replace_pubkey_in_instructions
      (case build_deposit_instruction (pe_find_pda env) (plan_deposit_inputs wallet a r from ?oracles amt) of Inr ix \<Rightarrow> [ix] | Inl _ \<Rightarrow> []) from ob
    = (case build_deposit_instruction (pe_find_pda env) (plan_deposit_inputs wallet a r ob ?oracles amt) of Inr ix \<Rightarrow> [ix] | Inl _ \<Rightarrow> [])"
    using keys(2) by (auto simp: build_deposit_instruction_def plan_deposit_inputs_def Let_def metas)
  have refreshed: "deposit_refresh a r from ?oracles = deposit_refresh a r ob ?oracles"
    by (simp add: deposit_refresh_def)
  have same: "replace_pubkey_in_instructions [pe_set_compute_unit_price env SOLEND_DEPOSIT_PRIORITY_FEE_MICRO_LAMPORTS] from ob
      = [pe_set_compute_unit_price env SOLEND_DEPOSIT_PRIORITY_FEE_MICRO_LAMPORTS]"
    "\<not> asd_source_ata_exists a \<Longrightarrow> replace_pubkey_in_instructions
      [pe_create_ata_idempotent env wallet wallet (lr_mint r) (pubkey_of SPL_TOKEN_PROGRAM_ID_BS58)] from ob
      = [pe_create_ata_idempotent env wallet wallet (lr_mint r) (pubkey_of SPL_TOKEN_PROGRAM_ID_BS58)]"
    "\<not> asd_collateral_ata_exists a \<Longrightarrow> replace_pubkey_in_instructions
      [pe_create_ata_idempotent env wallet wallet (lr_collateral_mint_pubkey r) (pubkey_of SPL_TOKEN_PROGRAM_ID_BS58)] from ob
      = [pe_create_ata_idempotent env wallet wallet (lr_collateral_mint_pubkey r) (pubkey_of SPL_TOKEN_PROGRAM_ID_BS58)]"
    "replace_pubkey_in_instructions (deposit_refresh a r ob ?oracles) from ob = deposit_refresh a r ob ?oracles"
    by (rule opaque, auto simp: planned_transaction_def deposit_setup_def Let_def)+
  show ?thesis
    unfolding planned_transaction_def Let_def refreshed replace_simps(2) deposited
    unfolding deposit_setup_def replace_simps(2)
    by (simp add: created same)
qed

text \<open>The rebuilt setup is the setup with the fetched rent: nothing else in it is of the system program.\<close>

lemma solend_not_system: "pubkey_of SOLEND_PROGRAM_ID_BS58 \<noteq> system_program_ID"
  by (simp add: system_program_ID_eq SOLEND_PROGRAM_ID_BS58_def pubkey_literal)

lemma rebuild_setup:
  assumes "builder_laws env"
  shows "rebuild_create_account_with_fresh_rent env (deposit_setup env wallet a r ob rent) fresh wallet ob
       (pubkey_of SOLEND_PROGRAM_ID_BS58)
     = deposit_setup env wallet a r ob (if asd_obligation_exists a then rent else fresh)"
  using assms solend_not_system
  by (auto simp: builder_laws_def rebuild_create_account_with_fresh_rent_def deposit_setup_def
      build_create_obligation_account_instruction_def build_init_obligation_instruction_def)

lemma rebuild_nil: "asd_obligation_exists a \<Longrightarrow> deposit_setup env wallet a r ob rent = deposit_setup env wallet a r ob rent'"
  by (simp add: deposit_setup_def)

lemma replace_setup:
  assumes "builder_laws env" "\<not> asd_obligation_exists a" "unmentioned from (planned_transaction env wallet a r amt ob rent)"
  shows "replace_pubkey_in_instructions (deposit_setup env wallet a r from rent) from ob = deposit_setup env wallet a r ob rent"
proof -
  have "length (deposit_setup env wallet a r from rent) = length (deposit_setup env wallet a r ob rent)"
    by (simp add: deposit_setup_def)
  with replace_obligation [OF assms] show ?thesis by (simp add: planned_transaction_def Let_def)
qed

text \<open>The placeholder is none of the accounts of the finished transaction.\<close>

definition placeholder_fresh ::
  "'z plan_env_scheme \<Rightarrow> ParkedSolendDepositIntent \<Rightarrow> AssembledSolendDepositSnapshot \<Rightarrow> pubkey \<Rightarrow> pubkey \<Rightarrow> u64 \<Rightarrow> bool" where
  "placeholder_fresh env p a transient ob rent \<longleftrightarrow> (asd_obligation_exists a \<or> (\<forall>r \<in> set (ls_reserves (asd_snapshot a)). \<forall>amt.
     unmentioned transient (planned_transaction env (pk_session_wallet p) a r amt ob rent)))"

text \<open>The plan with its placeholder replaced, as the signing and the simulation use it.\<close>

lemma substituted_plan:
  assumes laws: "builder_laws env"
    and plan: "assemble_solend_deposit_tx_plan env transient rid p a vslot rent = Inr plan"
    and fresh: "placeholder_fresh env p a transient ob rent"
  obtains mnt amt r where "pk_action p = ActDeposit ProtocolTag.Solend mnt amt" "underlying_raw amt \<noteq> 0"
    "r \<in> set (ls_reserves (asd_snapshot a))" "lr_mint r = mnt"
    "substitute_obligation (dp_transient plan) (if asd_obligation_exists a then None else Some ob) (plan_instructions_of plan)
       = planned_transaction env (pk_session_wallet p) a r (underlying_raw amt)
           (if asd_obligation_exists a then asd_obligation_pubkey a else ob) rent"
    "substitute_obligation (dp_transient plan) (if asd_obligation_exists a then None else Some ob) (dp_setup plan)
       = deposit_setup env (pk_session_wallet p) a r (if asd_obligation_exists a then asd_obligation_pubkey a else ob) rent"
proof -
  obtain mnt amt r where f: "pk_action p = ActDeposit ProtocolTag.Solend mnt amt" "underlying_raw amt \<noteq> 0"
    "r \<in> set (ls_reserves (asd_snapshot a))" "lr_mint r = mnt"
    "plan_instructions_of plan = planned_transaction env (pk_session_wallet p) a r (underlying_raw amt)
       (if asd_obligation_exists a then asd_obligation_pubkey a else transient) rent"
    "dp_setup plan = deposit_setup env (pk_session_wallet p) a r
       (if asd_obligation_exists a then asd_obligation_pubkey a else transient) rent"
    "dp_transient plan = (if asd_obligation_exists a then None else Some transient)"
    using deposit_plan_facts [OF plan] by metis
  show thesis
    using replace_obligation [OF laws, of a transient "pk_session_wallet p" r "underlying_raw amt" ob rent]
      replace_setup [OF laws, of a transient "pk_session_wallet p" r "underlying_raw amt" ob rent] fresh f(3)
    by (intro that [OF f(1-4)]) (auto simp: f substitute_obligation_def placeholder_fresh_def)
qed

lemma substitute_append: "substitute_obligation x y (as @ bs) = substitute_obligation x y as @ substitute_obligation x y bs"
  by (auto simp: substitute_obligation_def split: option.splits)

lemma map_sum_Some: "map_sum id Some x = Inr y \<longleftrightarrow> (\<exists>n. x = Inr n \<and> y = Some n)"
  by (cases x) auto

lemma prepare_error_not_passed [simp]: "prepare_error_outcome e \<noteq> Passed vs sl un lg ru pr fr"
  by (cases e) auto

text \<open>
  What the simulation before signing runs: the deposit of the parked action on the snapshot, at the rent just fetched
  and for the throw-away obligation when there is none yet.\<close>

lemma preflight_simulates:
  assumes laws: "builder_laws env"
    and plan: "assemble_solend_deposit_tx_plan env transient rid p a vslot rent = Inr plan"
    and fresh: "placeholder_fresh env p a transient (pre_keypair env) rent"
    and passed: "preflight_solend_deposit_plan env plan = Passed vs sl un lg ru pr fr"
  shows "\<exists>mnt amt r rent' raw. pk_action p = ActDeposit ProtocolTag.Solend mnt amt \<and> r \<in> set (ls_reserves (asd_snapshot a))
     \<and> lr_mint r = mnt \<and> (asd_obligation_exists a \<or> pre_rent env OBLIGATION_LEN = Inr rent')
     \<and> pre_simulate env (pre_compile env (planned_transaction env (pk_session_wallet p) a r (underlying_raw amt)
          (if asd_obligation_exists a then asd_obligation_pubkey a else pre_keypair env) rent') (pk_session_wallet p)) = Inr raw
     \<and> rs_err raw = None"
proof -
  have flags: "dp_signer_required plan = (\<not> asd_obligation_exists a)" "dp_session_wallet plan = pk_session_wallet p"
    "dp_rent plan = rent"
    using deposit_plan_facts [OF plan] by metis+
  define repl where "repl = (if asd_obligation_exists a then None else Some (pre_keypair env))"
  from passed obtain fresh_rent prep raw where pre:
    "prepare_preflight_transaction env plan repl fresh_rent = Inr prep"
    "asd_obligation_exists a \<or> (\<exists>n. pre_rent env OBLIGATION_LEN = Inr n \<and> fresh_rent = Some n)"
    "pre_simulate env (pp_transaction prep) = Inr raw" "rs_err raw = None"
    unfolding repl_def
    by (auto simp: preflight_solend_deposit_plan_def flags Let_def map_err_Inr map_sum_Some
        split: sum.splits if_splits option.splits prod.splits)
  obtain mnt amt r where f: "pk_action p = ActDeposit ProtocolTag.Solend mnt amt"
    "r \<in> set (ls_reserves (asd_snapshot a))" "lr_mint r = mnt"
    and sub: "substitute_obligation (dp_transient plan) repl (plan_instructions_of plan)
       = planned_transaction env (pk_session_wallet p) a r (underlying_raw amt)
           (if asd_obligation_exists a then asd_obligation_pubkey a else pre_keypair env) rent"
      "substitute_obligation (dp_transient plan) repl (dp_setup plan)
       = deposit_setup env (pk_session_wallet p) a r (if asd_obligation_exists a then asd_obligation_pubkey a else pre_keypair env) rent"
    using substituted_plan [OF laws plan fresh] unfolding repl_def by metis
  obtain rest where rest: "\<And>rent. planned_transaction env (pk_session_wallet p) a r (underlying_raw amt)
      (if asd_obligation_exists a then asd_obligation_pubkey a else pre_keypair env) rent
    = deposit_setup env (pk_session_wallet p) a r (if asd_obligation_exists a then asd_obligation_pubkey a else pre_keypair env) rent @ rest"
    by (simp add: planned_transaction_def Let_def)
  have tail: "substitute_obligation (dp_transient plan) repl (dp_refresh plan)
      @ substitute_obligation (dp_transient plan) repl (dp_deposit plan) = rest"
    using sub by (simp add: plan_instructions_of_def substitute_append rest)
  define rent' where "rent' = (if asd_obligation_exists a then rent else the fresh_rent)"
  have "pp_transaction prep = pre_compile env (planned_transaction env (pk_session_wallet p) a r (underlying_raw amt)
      (if asd_obligation_exists a then asd_obligation_pubkey a else pre_keypair env) rent') (pk_session_wallet p)"
    using pre(1,2) rebuild_setup [OF laws] sub(2) unfolding rest tail [symmetric] rent'_def
    by (cases "asd_obligation_exists a")
      (auto simp: prepare_preflight_transaction_def Let_def bindE_Inr map_err_Inr flags repl_def split: if_splits)
  then show ?thesis
    using pre f unfolding rent'_def by (intro exI [of _ mnt] exI [of _ amt] exI [of _ r] exI [of _ rent'] exI [of _ raw])
      (auto simp: rent'_def)
qed

end
