(* ===== verification/Solend_Signing.thy ===== *)
theory Solend_Signing
  imports Solend_Tx_Plan Watch_Rule_Store Intent_Program Json
begin

text \<open>
  \<open>crates/gateway/src/integrations/solend_signing.rs\<close>, \<open>solend_jit_ready.rs\<close> and \<open>canonical_intent_gate.rs\<close>: the
  transaction a user is asked to sign, built from a plan that passed the simulation, and the two stores around it. The
  Solana SDK (compiling, partial signing, hashing and serializing a transaction) is the record \<open>sdk_env\<close> over a type
  \<open>'m\<close> of messages; clocks, key generation and the recent block hash are fields of \<open>handoff_env\<close>.
\<close>

section \<open>Transactions of the SDK\<close>

type_synonym signature = "512 word"
type_synonym keypair = "512 word"

record 'm legacy_tx =
  lt_signatures :: "signature list"
  lt_message :: 'm

record 'm sdk_env =
  sdk_message_new :: "instruction list \<Rightarrow> pubkey \<Rightarrow> 'm"
  sdk_new_unsigned :: "'m \<Rightarrow> 'm legacy_tx"
  sdk_set_blockhash :: "256 word \<Rightarrow> 'm \<Rightarrow> 'm"
  sdk_try_partial_sign :: "keypair \<Rightarrow> 256 word \<Rightarrow> 'm legacy_tx \<Rightarrow> string + 'm legacy_tx"
  sdk_keypair_pubkey :: "keypair \<Rightarrow> pubkey"
  sdk_account_keys :: "'m \<Rightarrow> pubkey list"
  sdk_num_required_signatures :: "'m \<Rightarrow> u8"
  sdk_message_hash :: "'m \<Rightarrow> 256 word"
  sdk_message_data :: "'m \<Rightarrow> u8 list"
  sdk_serialize :: "'m legacy_tx \<Rightarrow> string + u8 list"
  sdk_deserialize :: "u8 list \<Rightarrow> string + 'm legacy_tx"
  sdk_verify :: "signature \<Rightarrow> pubkey \<Rightarrow> u8 list \<Rightarrow> bool"

text \<open>
  What the SDK documents: a message lists its payer first, and a compiled message needs at least the payer's signature;
  the block hash changes neither; signing sets the block hash and no other part of the message; and what was
  serialized reads back.\<close>

definition sdk_laws :: "'m sdk_env \<Rightarrow> bool" where
  "sdk_laws env \<longleftrightarrow>
     (\<forall>ixs payer bh. \<exists>ks. sdk_account_keys env (sdk_set_blockhash env bh (sdk_message_new env ixs payer)) = payer # ks)
     \<and> (\<forall>ixs payer bh. sdk_num_required_signatures env (sdk_set_blockhash env bh (sdk_message_new env ixs payer)) \<noteq> 0)
     \<and> (\<forall>m. lt_message (sdk_new_unsigned env m) = m)
     \<and> (\<forall>k bh tx tx'. sdk_try_partial_sign env k bh tx = Inr tx' \<longrightarrow> lt_message tx' = sdk_set_blockhash env bh (lt_message tx))
     \<and> (\<forall>tx bs. sdk_serialize env tx = Inr bs \<longrightarrow> sdk_deserialize env bs = Inr tx)"

section \<open>The audit log\<close>

datatype audit_severity = SevInfo | SevWarning | SevError

record solend_event =
  ev_name :: string
  ev_correlation_id :: string
  ev_session_id :: "string option"
  ev_severity :: audit_severity
  ev_payload :: json

abbreviation json_u64 :: "u64 \<Rightarrow> json" where
  "json_u64 n \<equiv> JNumber (PosInt n)"

definition json_opt_u64 :: "u64 option \<Rightarrow> json" where
  "json_opt_u64 x = (case x of None \<Rightarrow> JNull | Some n \<Rightarrow> json_u64 n)"

text \<open>How ids and keys print: uuids and base58 are third-party code.\<close>

record display_env =
  show_uuid :: "uuid \<Rightarrow> string"
  show_key :: "pubkey \<Rightarrow> string"

section \<open>The expiry gate\<close>

datatype GateOutcome = NoCanonicalMetadata | NotExpired u64 u64

datatype GateError = GateIntentExpired u64 u64 string

definition check_intent_expiry :: "CanonicalIntentMetadata option \<Rightarrow> u64 \<Rightarrow> GateError + GateOutcome" where
  "check_intent_expiry metadata now_slot = (case metadata of
     None \<Rightarrow> Inr NoCanonicalMetadata
   | Some m \<Rightarrow> (case metadata_validate_not_expired m now_slot of
       Inr _ \<Rightarrow> Inr (NotExpired now_slot (cm_expires_at_slot m))
     | Inl (Canonical_Intent.IntentExpired current expires) \<Rightarrow>
         Inl (GateIntentExpired current expires (hex_encode (array_bytes (cm_intent_id m))))))"

section \<open>The store of transactions waiting for the user\<close>

record ParkedSolendSigning =
  ps_intent_id :: uuid
  ps_session_id :: uuid
  ps_session_wallet :: pubkey
  ps_action :: ProposedAction
  ps_verified_slot :: u64
  ps_simulation_slot :: "u64 option"
  ps_units_consumed :: "u64 option"
  ps_tx_bytes :: "u8 list"
  ps_recent_blockhash :: "256 word"
  ps_last_valid_block_height :: u64
  ps_obligation_keypair :: "keypair option"
  ps_obligation_signature :: "signature option"
  ps_proposed_at :: instant
  ps_expires_at :: instant

record SigningHandoffSummary =
  su_signing_request_id :: uuid
  su_intent_id :: uuid
  su_session_id :: uuid
  su_session_wallet :: pubkey
  su_verified_slot :: u64
  su_simulation_slot :: "u64 option"
  su_units_consumed :: "u64 option"
  su_backend_partial :: bool
  su_last_valid_block_height :: u64
  su_expires_at :: instant

definition signing_summary :: "uuid \<Rightarrow> ParkedSolendSigning \<Rightarrow> SigningHandoffSummary" where
  "signing_summary rid e = \<lparr>su_signing_request_id = rid, su_intent_id = ps_intent_id e, su_session_id = ps_session_id e,
     su_session_wallet = ps_session_wallet e, su_verified_slot = ps_verified_slot e,
     su_simulation_slot = ps_simulation_slot e, su_units_consumed = ps_units_consumed e,
     su_backend_partial = (ps_obligation_keypair e \<noteq> None),
     su_last_valid_block_height = ps_last_valid_block_height e, su_expires_at = ps_expires_at e\<rparr>"

type_synonym SolendSigningStore = "uuid \<rightharpoonup> ParkedSolendSigning"

definition signing_park :: "uuid \<Rightarrow> ParkedSolendSigning \<Rightarrow> SolendSigningStore \<Rightarrow> SigningHandoffSummary \<times> SolendSigningStore" where
  "signing_park rid e st = (signing_summary rid e, st(rid \<mapsto> e))"

text \<open>A lookup drops an entry that has expired; one made for another session finds nothing and leaves the entry.\<close>

definition summary :: "instant \<Rightarrow> uuid \<Rightarrow> SolendSigningStore \<Rightarrow> SigningHandoffSummary option \<times> SolendSigningStore" where
  "summary now rid st = (case st rid of
     None \<Rightarrow> (None, st(rid := None))
   | Some e \<Rightarrow> if ps_expires_at e \<le> now then (None, st(rid := None)) else (Some (signing_summary rid e), st))"

definition tx_bytes_for_session ::
  "instant \<Rightarrow> uuid \<Rightarrow> uuid \<Rightarrow> SolendSigningStore \<Rightarrow> (SigningHandoffSummary \<times> u8 list) option \<times> SolendSigningStore" where
  "tx_bytes_for_session now sid rid st = (case st rid of
     None \<Rightarrow> (None, st)
   | Some e \<Rightarrow> if ps_expires_at e \<le> now then (None, st(rid := None))
       else if ps_session_id e \<noteq> sid then (None, st)
       else (Some (signing_summary rid e, ps_tx_bytes e), st))"

definition summary_for_session ::
  "instant \<Rightarrow> uuid \<Rightarrow> uuid \<Rightarrow> SolendSigningStore \<Rightarrow> SigningHandoffSummary option \<times> SolendSigningStore" where
  "summary_for_session now sid rid st = (case st rid of
     None \<Rightarrow> (None, st)
   | Some e \<Rightarrow> if ps_expires_at e \<le> now then (None, st(rid := None))
       else if ps_session_id e \<noteq> sid then (None, st)
       else (Some (signing_summary rid e), st))"

definition consume :: "instant \<Rightarrow> uuid \<Rightarrow> SolendSigningStore \<Rightarrow> ParkedSolendSigning option \<times> SolendSigningStore" where
  "consume now rid st = (case st rid of
     None \<Rightarrow> (None, st(rid := None))
   | Some e \<Rightarrow> if ps_expires_at e \<le> now then (None, st(rid := None)) else (Some e, st(rid := None)))"

definition sweep_signing :: "instant \<Rightarrow> SolendSigningStore \<Rightarrow> SolendSigningStore" where
  "sweep_signing now st = (\<lambda>rid. case st rid of None \<Rightarrow> None | Some e \<Rightarrow> if ps_expires_at e \<le> now then None else Some e)"

text \<open>The listing of a session visits the map in an order of its own.\<close>

definition signing_pending_for_session ::
  "uuid list \<Rightarrow> instant \<Rightarrow> uuid \<Rightarrow> SolendSigningStore \<Rightarrow> SigningHandoffSummary list \<times> SolendSigningStore" where
  "signing_pending_for_session order now sid st =
    (let st' = sweep_signing now st in
     (concat (map (\<lambda>rid. case st' rid of None \<Rightarrow> [] | Some e \<Rightarrow> if ps_session_id e = sid then [signing_summary rid e] else []) order), st'))"

section \<open>The hand-off of a deposit\<close>

datatype SigningHandoffError =
    HandoffMissingTransient
  | HandoffUnexpectedTransient
  | BlockhashFetchFailed string
  | HandoffSerializationFailed string
  | PartialSignFailed string
  | HandoffIntentExpired u64 u64 string
  | TxTooLargeWithRecordIntent nat nat

record RecordIntentHandoffOptions =
  ro_demo_program_id :: pubkey
  ro_canonical_metadata :: CanonicalIntentMetadata
  ro_canonical_intent_bytes :: "u8 list"
  ro_current_slot_for_gate :: u64

record handoff_env =
  he_new_keypair :: keypair
  he_latest_blockhash :: "string + (256 word \<times> u64)"
  he_new_request_id :: uuid
  he_now :: instant
  he_date_range :: "instant \<Rightarrow> bool"
  he_display :: display_env
  he_runtime :: intent_runtime

definition PACKET_DATA_SIZE :: nat where "PACKET_DATA_SIZE = 1232"
definition ACTION_TYPE_SOLEND_DEPOSIT :: u8 where "ACTION_TYPE_SOLEND_DEPOSIT = 1"

definition AUDIT_EVENT_HANDOFF_CREATED :: string where "AUDIT_EVENT_HANDOFF_CREATED = ''solend_signing_handoff_created''"

definition lease_end :: "(instant \<Rightarrow> bool) \<Rightarrow> instant \<Rightarrow> u64 \<Rightarrow> instant option" where
  "lease_end date_range now secs = (let d = sint secs; t = now + d * 1000000000 in
     if \<bar>d\<bar> \<le> (2 ^ 63 - 1) div 1000 \<and> date_range t then Some t else None)"

fun handoff_transient_error :: "PreparePreflightError \<Rightarrow> SigningHandoffError" where
  "handoff_transient_error MissingTransientObligation = HandoffMissingTransient"
| "handoff_transient_error UnexpectedTransientObligation = HandoffUnexpectedTransient"
| "handoff_transient_error (PrepareSerializationFailed msg) = HandoffSerializationFailed msg"

definition record_intent_prefix :: "handoff_env \<Rightarrow> pubkey \<Rightarrow> RecordIntentHandoffOptions \<Rightarrow> instruction" where
  "record_intent_prefix env wallet opts = (let m = ro_canonical_metadata opts in
     record_intent_instruction (he_runtime env) (ro_demo_program_id opts) wallet (cm_schema_version m) (cm_intent_id m)
       (cm_canonical_intent_hash m) ACTION_TYPE_SOLEND_DEPOSIT (cm_expires_at_slot m) (ro_canonical_intent_bytes opts))"

text \<open>
  Signing with the new obligation key and keeping its signature, or only setting the block hash. The outer option is the
  panic of an index outside the signatures.\<close>

definition sign_obligation ::
  "'m sdk_env \<Rightarrow> keypair option \<Rightarrow> 256 word \<Rightarrow> 'm legacy_tx \<Rightarrow> (SigningHandoffError + 'm legacy_tx \<times> signature option) option" where
  "sign_obligation sdk kp bh tx = (case kp of
     None \<Rightarrow> Some (Inr (tx\<lparr>lt_message := sdk_set_blockhash sdk bh (lt_message tx)\<rparr>, None))
   | Some k \<Rightarrow> raw_ok (Some (map_err PartialSignFailed (sdk_try_partial_sign sdk k bh tx))) (\<lambda>tx'.
     raw_ok (Some (ok_or (position (\<lambda>a. a = sdk_keypair_pubkey sdk k) (sdk_account_keys sdk (lt_message tx')))
       (PartialSignFailed ''obligation pubkey missing from account_keys after partial sign''))) (\<lambda>i.
     map_option (\<lambda>sig. Inr (tx', Some sig)) (get_index (lt_signatures tx') i))))"

definition handoff_instructions ::
  "handoff_env \<Rightarrow> keypair option \<Rightarrow> 'm sdk_env \<Rightarrow> RecordIntentHandoffOptions option \<Rightarrow> SolendDepositTxPlan \<Rightarrow> instruction list" where
  "handoff_instructions env kp sdk opts plan =
     (case opts of None \<Rightarrow> [] | Some o' \<Rightarrow> [record_intent_prefix env (dp_session_wallet plan) o'])
     @ (let sub = substitute_obligation (dp_transient plan) (map_option (sdk_keypair_pubkey sdk) kp) in
        sub (dp_setup plan) @ sub (dp_refresh plan) @ sub (dp_deposit plan))"

definition build_signing ::
  "'m sdk_env \<Rightarrow> handoff_env \<Rightarrow> u64 \<Rightarrow> RecordIntentHandoffOptions option \<Rightarrow> SolendDepositTxPlan \<Rightarrow> SolendPreflightOutcome \<Rightarrow>
   (SigningHandoffError + ParkedSolendSigning) option" where
  "build_signing sdk env lease opts plan preflight =
    raw_ok (Some (case opts of None \<Rightarrow> Inr () | Some o' \<Rightarrow>
      (case check_intent_expiry (Some (ro_canonical_metadata o')) (ro_current_slot_for_gate o') of
         Inr _ \<Rightarrow> Inr () | Inl (GateIntentExpired cur ex iid) \<Rightarrow> Inl (HandoffIntentExpired cur ex iid)))) (\<lambda>_.
    raw_ok (Some (map_err handoff_transient_error (transient_sanity (dp_signer_required plan) (dp_transient plan)))) (\<lambda>_.
    raw_ok (Some (case preflight of Passed _ sim_slot units _ _ _ _ \<Rightarrow> Inr (sim_slot, units)
      | _ \<Rightarrow> Inl (PartialSignFailed ''create_signing_handoff called with non-Passed preflight''))) (\<lambda>(sim_slot, units).
    let kp = (if dp_signer_required plan then Some (he_new_keypair env) else None) in
    raw_ok (Some (map_err (\<lambda>e. BlockhashFetchFailed (''blockhash fetch failed: '' @ e)) (he_latest_blockhash env))) (\<lambda>(bh, last_valid).
    let message = sdk_message_new sdk (handoff_instructions env kp sdk opts plan) (dp_session_wallet plan) in
    raw_ok (sign_obligation sdk kp bh (sdk_new_unsigned sdk message)) (\<lambda>(tx, sig).
    raw_ok (Some (map_err (\<lambda>e. HandoffSerializationFailed (''bincode serialize: '' @ e)) (sdk_serialize sdk tx))) (\<lambda>tx_bytes.
    if opts \<noteq> None \<and> length tx_bytes > PACKET_DATA_SIZE
    then Some (Inl (TxTooLargeWithRecordIntent (length tx_bytes) PACKET_DATA_SIZE))
    else map_option (\<lambda>expires. Inr \<lparr>ps_intent_id = dp_intent_id plan, ps_session_id = dp_session_id plan,
      ps_session_wallet = dp_session_wallet plan, ps_action = dp_action plan, ps_verified_slot = dp_verified_slot plan,
      ps_simulation_slot = sim_slot, ps_units_consumed = units, ps_tx_bytes = tx_bytes, ps_recent_blockhash = bh,
      ps_last_valid_block_height = last_valid, ps_obligation_keypair = kp, ps_obligation_signature = sig,
      ps_proposed_at = he_now env, ps_expires_at = expires\<rparr>) (lease_end (he_date_range env) (he_now env) lease)))))))"

definition handoff_created_event :: "display_env \<Rightarrow> uuid \<Rightarrow> ParkedSolendSigning \<Rightarrow> solend_event" where
  "handoff_created_event d rid e = \<lparr>ev_name = AUDIT_EVENT_HANDOFF_CREATED, ev_correlation_id = show_uuid d rid,
     ev_session_id = Some (show_uuid d (ps_session_id e)), ev_severity = SevInfo,
     ev_payload = JObject [
       (''signing_request_id'', JString (show_uuid d rid)),
       (''intent_id'', JString (show_uuid d (ps_intent_id e))),
       (''session_id'', JString (show_uuid d (ps_session_id e))),
       (''session_wallet'', JString (show_key d (ps_session_wallet e))),
       (''protocol'', JString ''Solend''),
       (''action'', JString ''Deposit''),
       (''asset'', JString ''USDC''),
       (''amount_raw'', json_u64 (amount_raw (ps_action e))),
       (''verified_slot'', json_u64 (ps_verified_slot e)),
       (''simulation_slot'', json_opt_u64 (ps_simulation_slot e)),
       (''last_valid_block_height'', json_u64 (ps_last_valid_block_height e)),
       (''obligation_signer_backend_partial'', JBool (ps_obligation_keypair e \<noteq> None))]\<rparr>"

definition create_signing_handoff ::
  "'m sdk_env \<Rightarrow> handoff_env \<Rightarrow> u64 \<Rightarrow> RecordIntentHandoffOptions option \<Rightarrow> SolendDepositTxPlan \<Rightarrow> SolendPreflightOutcome \<Rightarrow>
   SolendSigningStore \<Rightarrow> ((SigningHandoffError + SigningHandoffSummary) \<times> SolendSigningStore \<times> solend_event list) option" where
  "create_signing_handoff sdk env lease opts plan preflight st =
    map_option (\<lambda>res. case res of
      Inl e \<Rightarrow> (Inl e, st, [])
    | Inr parked \<Rightarrow> (case signing_park (he_new_request_id env) parked st of (su, st') \<Rightarrow>
        (Inr su, st', [handoff_created_event (he_display env) (he_new_request_id env) parked])))
    (build_signing sdk env lease opts plan preflight)"

section \<open>The hand-off of a withdrawal\<close>

definition build_withdraw_signing ::
  "'m sdk_env \<Rightarrow> handoff_env \<Rightarrow> u64 \<Rightarrow> SolendWithdrawTxPlan \<Rightarrow> (SigningHandoffError + ParkedSolendSigning) option" where
  "build_withdraw_signing sdk env lease plan =
    (if wt_signer_required plan then Some (Inl HandoffUnexpectedTransient)
     else if wt_transient plan \<noteq> None then Some (Inl HandoffUnexpectedTransient)
     else raw_ok (Some (map_err (\<lambda>e. BlockhashFetchFailed (''blockhash fetch failed: '' @ e)) (he_latest_blockhash env))) (\<lambda>(bh, last_valid).
     let message = sdk_message_new sdk (wt_setup plan @ wt_refresh plan @ wt_withdraw plan) (wt_session_wallet plan);
         unsigned = sdk_new_unsigned sdk message;
         tx = unsigned\<lparr>lt_message := sdk_set_blockhash sdk bh (lt_message unsigned)\<rparr>
     in raw_ok (Some (map_err (\<lambda>e. HandoffSerializationFailed (''bincode serialize: '' @ e)) (sdk_serialize sdk tx))) (\<lambda>tx_bytes.
     map_option (\<lambda>expires. Inr \<lparr>ps_intent_id = wt_intent_id plan, ps_session_id = wt_session_id plan,
       ps_session_wallet = wt_session_wallet plan, ps_action = wt_action plan, ps_verified_slot = wt_verified_slot plan,
       ps_simulation_slot = None, ps_units_consumed = None, ps_tx_bytes = tx_bytes, ps_recent_blockhash = bh,
       ps_last_valid_block_height = last_valid, ps_obligation_keypair = None, ps_obligation_signature = None,
       ps_proposed_at = he_now env, ps_expires_at = expires\<rparr>) (lease_end (he_date_range env) (he_now env) lease))))"

definition withdraw_created_event :: "display_env \<Rightarrow> uuid \<Rightarrow> SolendWithdrawTxPlan \<Rightarrow> ParkedSolendSigning \<Rightarrow> solend_event" where
  "withdraw_created_event d rid plan e = \<lparr>ev_name = AUDIT_EVENT_HANDOFF_CREATED, ev_correlation_id = show_uuid d rid,
     ev_session_id = Some (show_uuid d (ps_session_id e)), ev_severity = SevInfo,
     ev_payload = JObject [
       (''signing_request_id'', JString (show_uuid d rid)),
       (''intent_id'', JString (show_uuid d (ps_intent_id e))),
       (''session_id'', JString (show_uuid d (ps_session_id e))),
       (''session_wallet'', JString (show_key d (ps_session_wallet e))),
       (''protocol'', JString ''Solend''),
       (''action'', JString ''Withdraw''),
       (''asset'', JString ''USDC''),
       (''collateral_amount_raw'', json_u64 (amount_raw (ps_action e))),
       (''obligation_pubkey'', JString (show_key d (pa_obligation_pubkey (wt_accounts plan)))),
       (''reserve_pubkey'', JString (show_key d (pa_reserve_pubkey (wt_accounts plan)))),
       (''verified_slot'', json_u64 (ps_verified_slot e)),
       (''last_valid_block_height'', json_u64 (ps_last_valid_block_height e)),
       (''obligation_signer_backend_partial'', JBool False)]\<rparr>"

definition create_withdraw_signing_handoff ::
  "'m sdk_env \<Rightarrow> handoff_env \<Rightarrow> u64 \<Rightarrow> SolendWithdrawTxPlan \<Rightarrow>
   SolendSigningStore \<Rightarrow> ((SigningHandoffError + SigningHandoffSummary) \<times> SolendSigningStore \<times> solend_event list) option" where
  "create_withdraw_signing_handoff sdk env lease plan st =
    map_option (\<lambda>res. case res of
      Inl e \<Rightarrow> (Inl e, st, [])
    | Inr parked \<Rightarrow> (case signing_park (he_new_request_id env) parked st of (su, st') \<Rightarrow>
        (Inr su, st', [withdraw_created_event (he_display env) (he_new_request_id env) plan parked])))
    (build_withdraw_signing sdk env lease plan)"

section \<open>Plans waiting for the user's click\<close>

record SolendJitReady =
  jr_intent_id :: uuid
  jr_session_id :: uuid
  jr_session_wallet :: pubkey
  jr_plan :: SolendDepositTxPlan
  jr_preflight :: SolendPreflightOutcome
  jr_verified_slot :: u64
  jr_created_at :: instant
  jr_expires_at :: instant

type_synonym SolendJitReadyStore = "uuid \<rightharpoonup> SolendJitReady"

definition jit_put :: "uuid \<Rightarrow> SolendJitReady \<Rightarrow> SolendJitReadyStore \<Rightarrow> SolendJitReadyStore" where
  "jit_put rid e st = st(rid \<mapsto> e)"

definition jit_get :: "instant \<Rightarrow> uuid \<Rightarrow> SolendJitReadyStore \<Rightarrow> SolendJitReady option \<times> SolendJitReadyStore" where
  "jit_get now rid st = (case st rid of
     None \<Rightarrow> (None, st(rid := None))
   | Some e \<Rightarrow> if jr_expires_at e \<le> now then (None, st(rid := None)) else (Some e, st))"

definition jit_remove :: "uuid \<Rightarrow> SolendJitReadyStore \<Rightarrow> bool \<times> SolendJitReadyStore" where
  "jit_remove rid st = (st rid \<noteq> None, st(rid := None))"

definition jit_cleanup_expired :: "instant \<Rightarrow> SolendJitReadyStore \<Rightarrow> SolendJitReadyStore" where
  "jit_cleanup_expired now st = (\<lambda>rid. case st rid of None \<Rightarrow> None | Some e \<Rightarrow> if jr_expires_at e \<le> now then None else Some e)"

section \<open>What waits for a signature\<close>

lemma sign_obligation_message:
  assumes "sdk_laws sdk" "sign_obligation sdk kp bh (sdk_new_unsigned sdk m) = Some (Inr (tx, sig))"
  shows "lt_message tx = sdk_set_blockhash sdk bh m"
  using assms
  by (cases kp) (auto simp: sign_obligation_def sdk_laws_def raw_ok_Inr map_err_Inr)

text \<open>What a hand-off without a recorded intent asks the user to sign.\<close>

lemma build_signing_facts:
  assumes laws: "sdk_laws sdk" and signing: "build_signing sdk env lease None plan preflight = Some (Inr e)"
  obtains tx where "sdk_deserialize sdk (ps_tx_bytes e) = Inr tx"
    "lt_message tx = sdk_set_blockhash sdk (ps_recent_blockhash e) (sdk_message_new sdk
       (substitute_obligation (dp_transient plan)
          (if dp_signer_required plan then Some (sdk_keypair_pubkey sdk (he_new_keypair env)) else None) (plan_instructions_of plan))
       (dp_session_wallet plan))"
    "ps_action e = dp_action plan" "ps_session_wallet e = dp_session_wallet plan" "ps_session_id e = dp_session_id plan"
    "ps_intent_id e = dp_intent_id plan"
    "ps_obligation_keypair e = (if dp_signer_required plan then Some (he_new_keypair env) else None)"
    "is_Passed preflight"
    "he_latest_blockhash env = Inr (ps_recent_blockhash e, ps_last_valid_block_height e)"
proof -
  from signing obtain sim_slot units bh lv tx sig bytes expires where parts:
    "preflight = Passed (pf_verified_slot preflight) sim_slot units (pf_logs preflight) (pf_rent_updated preflight)
       (pf_planning_rent preflight) (pf_fresh_rent preflight)"
    "he_latest_blockhash env = Inr (bh, lv)"
    "sign_obligation sdk (if dp_signer_required plan then Some (he_new_keypair env) else None) bh (sdk_new_unsigned sdk
       (sdk_message_new sdk (handoff_instructions env (if dp_signer_required plan then Some (he_new_keypair env) else None) sdk None plan)
          (dp_session_wallet plan))) = Some (Inr (tx, sig))"
    "sdk_serialize sdk tx = Inr bytes"
    "e = \<lparr>ps_intent_id = dp_intent_id plan, ps_session_id = dp_session_id plan,
      ps_session_wallet = dp_session_wallet plan, ps_action = dp_action plan, ps_verified_slot = dp_verified_slot plan,
      ps_simulation_slot = sim_slot, ps_units_consumed = units, ps_tx_bytes = bytes, ps_recent_blockhash = bh,
      ps_last_valid_block_height = lv,
      ps_obligation_keypair = (if dp_signer_required plan then Some (he_new_keypair env) else None), ps_obligation_signature = sig,
      ps_proposed_at = he_now env, ps_expires_at = expires\<rparr>"
    unfolding build_signing_def Let_def
    by (auto simp: raw_ok_Inr map_err_Inr split: SolendPreflightOutcome.splits)
  have "sdk_deserialize sdk bytes = Inr tx" using laws parts(4) by (simp add: sdk_laws_def)
  moreover note sign_obligation_message [OF laws parts(3)]
  moreover have "handoff_instructions env (if dp_signer_required plan then Some (he_new_keypair env) else None) sdk None plan
      = substitute_obligation (dp_transient plan)
          (if dp_signer_required plan then Some (sdk_keypair_pubkey sdk (he_new_keypair env)) else None) (plan_instructions_of plan)"
    by (simp add: handoff_instructions_def plan_instructions_of_def substitute_append Let_def)
  moreover have "is_Passed preflight" by (subst parts(1)) simp
  ultimately show thesis using parts(2) by (intro that [of tx]) (auto simp: parts(5))
qed

lemma signing_of_plan:
  assumes laws: "sdk_laws sdk" "builder_laws penv"
    and plan: "assemble_solend_deposit_tx_plan penv transient rid p a vslot rent = Inr plan"
    and fresh: "placeholder_fresh penv p a transient (sdk_keypair_pubkey sdk (he_new_keypair env)) rent"
    and signing: "build_signing sdk env lease None plan preflight = Some (Inr e)"
  obtains mnt amt r tx where "pk_action p = ActDeposit ProtocolTag.Solend mnt amt" "underlying_raw amt \<noteq> 0"
    "r \<in> set (ls_reserves (asd_snapshot a))" "lr_mint r = mnt" "sdk_deserialize sdk (ps_tx_bytes e) = Inr tx"
    "lt_message tx = sdk_set_blockhash sdk (ps_recent_blockhash e) (sdk_message_new sdk
       (planned_transaction penv (pk_session_wallet p) a r (underlying_raw amt)
          (if asd_obligation_exists a then asd_obligation_pubkey a else sdk_keypair_pubkey sdk (he_new_keypair env)) rent)
       (pk_session_wallet p))"
    "ps_action e = pk_action p" "ps_session_wallet e = pk_session_wallet p" "ps_session_id e = pk_session_id p"
proof -
  have flags: "dp_signer_required plan = (\<not> asd_obligation_exists a)" "dp_session_wallet plan = pk_session_wallet p"
    "dp_action plan = pk_action p" "dp_session_id plan = pk_session_id p"
    using deposit_plan_facts [OF plan] by metis+
  obtain tx where tx: "sdk_deserialize sdk (ps_tx_bytes e) = Inr tx"
    "lt_message tx = sdk_set_blockhash sdk (ps_recent_blockhash e) (sdk_message_new sdk
       (substitute_obligation (dp_transient plan)
          (if asd_obligation_exists a then None else Some (sdk_keypair_pubkey sdk (he_new_keypair env))) (plan_instructions_of plan))
       (pk_session_wallet p))"
    "ps_action e = pk_action p" "ps_session_wallet e = pk_session_wallet p" "ps_session_id e = pk_session_id p"
    by (rule build_signing_facts [OF laws(1) signing]) (simp add: flags split: if_splits)
  show thesis
    by (rule substituted_plan [OF laws(2) plan fresh], rule that) (use tx in auto)
qed

end
