(* ===== verification/Solend_Submit.thy ===== *)
theory Solend_Submit
  imports Solend_Signing
begin

text \<open>
  \<open>crates/gateway/src/integrations/solend_submit.rs\<close>: what happens to a transaction that the user
  returns signed. It is checked against the parked one, broadcast in a bounded loop, and its outcome recorded. A run of the
  pipeline returns the outcome, the store and its effects in order: audit events and broadcasts. \<open>None\<close> is a panic.
\<close>

section \<open>Outcomes and effects\<close>

datatype effect = Audited solend_event | Broadcast "u8 list"

datatype SolendSubmitOutcome =
    SubSubmitted (sub_signature: string) (sub_request_id: uuid) (sub_intent_id: uuid) (sub_wallet: pubkey)
      (sub_verified_slot: u64) (sub_last_valid: u64) (sub_signed_bytes: "u8 list")
  | SubNotFound
  | SubExpired string
  | SubRejected string string
  | SubBroadcastFailed string string uuid

definition MAX_BROADCAST_ATTEMPTS :: nat where "MAX_BROADCAST_ATTEMPTS = 4"

definition AUDIT_EVENT_SIGNED_TX_RECEIVED :: string where "AUDIT_EVENT_SIGNED_TX_RECEIVED = ''solend_signed_tx_received''"
definition AUDIT_EVENT_SIGNED_TX_VERIFIED :: string where "AUDIT_EVENT_SIGNED_TX_VERIFIED = ''solend_signed_tx_verified''"
definition AUDIT_EVENT_SIGNED_TX_REJECTED :: string where "AUDIT_EVENT_SIGNED_TX_REJECTED = ''solend_signed_tx_rejected''"
definition AUDIT_EVENT_TRANSACTION_SUBMITTED :: string where "AUDIT_EVENT_TRANSACTION_SUBMITTED = ''solend_transaction_submitted''"
definition AUDIT_EVENT_TRANSACTION_SUBMIT_FAILED :: string where
  "AUDIT_EVENT_TRANSACTION_SUBMIT_FAILED = ''solend_transaction_submit_failed''"
definition AUDIT_EVENT_TRANSACTION_BROADCAST_ATTEMPT :: string where
  "AUDIT_EVENT_TRANSACTION_BROADCAST_ATTEMPT = ''solend_transaction_broadcast_attempt''"

text \<open>The sender and the block height answer anew at each attempt; an error is its rendered text.\<close>

record submit_env =
  se_base64_decode :: "string \<Rightarrow> string + u8 list"
  se_send :: "nat \<Rightarrow> u8 list \<Rightarrow> string + string"
  se_block_height :: "nat \<Rightarrow> string + u64"
  se_show_signature :: "signature \<Rightarrow> string"
  se_consumed_at :: instant
  se_display :: display_env

section \<open>Audit events\<close>

definition json_opt :: "('a \<Rightarrow> json) \<Rightarrow> 'a option \<Rightarrow> json" where
  "json_opt f x = (case x of None \<Rightarrow> JNull | Some v \<Rightarrow> f v)"

definition handoff_safe_payload ::
  "display_env \<Rightarrow> uuid \<Rightarrow> ParkedSolendSigning \<Rightarrow> u64 option \<Rightarrow> string option \<Rightarrow> (string \<times> json) list" where
  "handoff_safe_payload d rid e height sig = [
     (''signing_request_id'', JString (show_uuid d rid)),
     (''intent_id'', JString (show_uuid d (ps_intent_id e))),
     (''session_id'', JString (show_uuid d (ps_session_id e))),
     (''session_wallet'', JString (show_key d (ps_session_wallet e))),
     (''protocol'', JString ''Solend''),
     (''action'', JString ''Deposit''),
     (''asset'', JString ''USDC''),
     (''amount_raw'', json_u64 (amount_raw (ps_action e))),
     (''verified_slot'', json_u64 (ps_verified_slot e)),
     (''simulation_slot'', json_opt_u64 (ps_simulation_slot e)),
     (''last_valid_block_height'', json_u64 (ps_last_valid_block_height e)),
     (''obligation_signer_backend_partial'', JBool (ps_obligation_keypair e \<noteq> None))]
     @ (case height of None \<Rightarrow> [] | Some h \<Rightarrow> [(''current_block_height'', json_u64 h)])
     @ (case sig of None \<Rightarrow> [] | Some s \<Rightarrow> [(''tx_signature'', JString s)])"

definition audit_rejected ::
  "display_env \<Rightarrow> uuid \<Rightarrow> ParkedSolendSigning option \<Rightarrow> u64 option \<Rightarrow> string \<Rightarrow> string \<Rightarrow> effect" where
  "audit_rejected d rid parked height kind msg = Audited \<lparr>ev_name = AUDIT_EVENT_SIGNED_TX_REJECTED,
     ev_correlation_id = show_uuid d rid, ev_session_id = map_option (\<lambda>e. show_uuid d (ps_session_id e)) parked,
     ev_severity = SevWarning,
     ev_payload = JObject ([
       (''signing_request_id'', JString (show_uuid d rid)), (''error_type'', JString kind), (''message'', JString msg)]
       @ (case parked of None \<Rightarrow> [] | Some e \<Rightarrow> [
           (''intent_id'', JString (show_uuid d (ps_intent_id e))),
           (''session_wallet'', JString (show_key d (ps_session_wallet e))),
           (''protocol'', JString ''Solend''), (''action'', JString ''Deposit''), (''asset'', JString ''USDC''),
           (''amount_raw'', json_u64 (amount_raw (ps_action e))),
           (''verified_slot'', json_u64 (ps_verified_slot e)),
           (''last_valid_block_height'', json_u64 (ps_last_valid_block_height e))])
       @ (case height of None \<Rightarrow> [] | Some h \<Rightarrow> [(''current_block_height'', json_u64 h)]))\<rparr>"

definition session_event ::
  "display_env \<Rightarrow> uuid \<Rightarrow> ParkedSolendSigning \<Rightarrow> string \<Rightarrow> audit_severity \<Rightarrow> (string \<times> json) list \<Rightarrow> effect" where
  "session_event d rid e name sev payload = Audited \<lparr>ev_name = name, ev_correlation_id = show_uuid d rid,
     ev_session_id = Some (show_uuid d (ps_session_id e)), ev_severity = sev, ev_payload = JObject payload\<rparr>"

datatype BroadcastAttemptOutcome = AttemptOk | SendError string | AttemptBlockhashExpired string | HeightFetchError string

fun attempt_severity :: "BroadcastAttemptOutcome \<Rightarrow> audit_severity" where
  "attempt_severity AttemptOk = SevInfo"
| "attempt_severity _ = SevWarning"

fun attempt_labels :: "BroadcastAttemptOutcome \<Rightarrow> (string \<times> json) list" where
  "attempt_labels AttemptOk = [(''rpc_outcome'', JString ''ok'')]"
| "attempt_labels (SendError m) =
     [(''rpc_outcome'', JString ''error''), (''error_kind'', JString ''SendError''), (''error_message'', JString m)]"
| "attempt_labels (AttemptBlockhashExpired m) =
     [(''rpc_outcome'', JString ''error''), (''error_kind'', JString ''BlockhashExpired''), (''error_message'', JString m)]"
| "attempt_labels (HeightFetchError m) =
     [(''rpc_outcome'', JString ''error''), (''error_kind'', JString ''HeightFetchError''), (''error_message'', JString m)]"

definition emit_broadcast_attempt_audit ::
  "display_env \<Rightarrow> uuid \<Rightarrow> ParkedSolendSigning \<Rightarrow> string \<Rightarrow> nat \<Rightarrow> u64 option \<Rightarrow> u64 option \<Rightarrow> BroadcastAttemptOutcome \<Rightarrow> effect" where
  "emit_broadcast_attempt_audit d rid e sig attempt height budget out =
     session_event d rid e AUDIT_EVENT_TRANSACTION_BROADCAST_ATTEMPT (attempt_severity out) ([
       (''signing_request_id'', JString (show_uuid d rid)),
       (''intent_id'', JString (show_uuid d (ps_intent_id e))),
       (''session_id'', JString (show_uuid d (ps_session_id e))),
       (''wallet'', JString (show_key d (ps_session_wallet e))),
       (''tx_signature'', JString sig),
       (''attempt_n'', json_u64 (word_of_nat attempt)),
       (''max_attempts'', json_u64 (word_of_nat MAX_BROADCAST_ATTEMPTS)),
       (''current_block_height'', json_opt_u64 height),
       (''last_valid_block_height'', json_u64 (ps_last_valid_block_height e)),
       (''remaining_block_budget'', json_opt_u64 budget)] @ attempt_labels out)"

section \<open>Verification of the returned transaction\<close>

text \<open>
  Steps C to F: an error is its type, the message of the audit event and the message of the outcome. The outer option is the
  panic of an index outside the signatures.\<close>

definition signature_at :: "'m legacy_tx \<Rightarrow> nat \<Rightarrow> signature option" where
  "signature_at tx i = get_index (lt_signatures tx) i"

definition verify_session_wallet ::
  "'m sdk_env \<Rightarrow> ParkedSolendSigning \<Rightarrow> 'm legacy_tx \<Rightarrow> 'm legacy_tx \<Rightarrow> ((string \<times> string \<times> string) + unit) option" where
  "verify_session_wallet sdk e parked_tx signed_tx =
    (if sdk_message_hash sdk (lt_message parked_tx) \<noteq> sdk_message_hash sdk (lt_message signed_tx)
     then Some (Inl (''MessageHashMismatch'', ''signed_tx.message.hash() != parked_tx.message.hash()'',
       ''signed tx message hash differs from parked message hash''))
     else let required = unat (sdk_num_required_signatures sdk (lt_message signed_tx)) in
     if length (lt_signatures signed_tx) \<noteq> required
     then Some (Inl (''SignaturesLengthMismatch'', ''signatures.len()='' @ show_nat (length (lt_signatures signed_tx))
         @ '' != num_required_signatures='' @ show_nat required,
       ''signatures vector length does not match header.num_required_signatures''))
     else if (case sdk_account_keys sdk (lt_message signed_tx) of [] \<Rightarrow> 0 | k # _ \<Rightarrow> k) \<noteq> ps_session_wallet e
     then Some (Inl (''FeePayerMismatch'', ''fee payer in signed tx differs from session_wallet'',
       ''fee payer changed away from session_wallet''))
     else map_option (\<lambda>sig.
       if sig = 0
       then Inl (''SessionWalletSignatureMissing'', ''session-wallet signature slot is default'',
         ''session wallet signature slot is default (unsigned)'')
       else if \<not> sdk_verify sdk sig (ps_session_wallet e) (sdk_message_data sdk (lt_message signed_tx))
       then Inl (''SessionWalletSignatureInvalid'', ''ed25519 verify(session_wallet, signed_tx.message_data()) failed'',
         ''session wallet signature is not valid ed25519 over the message'')
       else Inr ()) (signature_at signed_tx 0))"

definition verify_obligation ::
  "'m sdk_env \<Rightarrow> ParkedSolendSigning \<Rightarrow> 'm legacy_tx \<Rightarrow> ((string \<times> string \<times> string) + unit) option" where
  "verify_obligation sdk e signed_tx = (case ps_obligation_keypair e of
     None \<Rightarrow> Some (Inr ())
   | Some k \<Rightarrow> let ob = sdk_keypair_pubkey sdk k; msg = lt_message signed_tx in
     (case position (\<lambda>a. a = ob) (sdk_account_keys sdk msg) of
        None \<Rightarrow> Some (Inl (''ObligationNotInAccountKeys'', ''obligation pubkey missing from signed tx account_keys'',
          ''obligation pubkey missing from signed tx account_keys''))
      | Some i \<Rightarrow> if i \<ge> unat (sdk_num_required_signatures sdk msg)
          then Some (Inl (''ObligationNotInSignerSlots'', ''obligation pubkey present but outside signer slots'',
            ''obligation pubkey present in account_keys but not in signer slots''))
          else map_option (\<lambda>sig. case ps_obligation_signature e of
            None \<Rightarrow> Inl (''InternalMissingParkedSignature'', ''custody invariant violated'',
              ''parked_obligation_signature missing despite signer-required flag'')
          | Some parked_sig \<Rightarrow>
              if sig \<noteq> parked_sig
              then Inl (''ObligationSignatureChanged'', ''obligation signature bit-unequal to parked partial signature'',
                ''obligation signature in returned tx differs from parked partial signature'')
              else if \<not> sdk_verify sdk sig ob (sdk_message_data sdk msg)
              then Inl (''ObligationSignatureInvalid'', ''ed25519 verify(obligation_pk, signed_tx.message_data()) failed'',
                ''obligation signature is not valid ed25519 over the message'')
              else Inr ()) (signature_at signed_tx i)))"

section \<open>The broadcast loop\<close>

definition submitted_payload :: "display_env \<Rightarrow> uuid \<Rightarrow> ParkedSolendSigning \<Rightarrow> string \<Rightarrow> nat \<Rightarrow> (string \<times> json) list" where
  "submitted_payload d rid e sig attempt = [
     (''signing_request_id'', JString (show_uuid d rid)),
     (''intent_id'', JString (show_uuid d (ps_intent_id e))),
     (''session_id'', JString (show_uuid d (ps_session_id e))),
     (''session_wallet'', JString (show_key d (ps_session_wallet e))),
     (''protocol'', JString ''Solend''),
     (''action'', JString ''Deposit''),
     (''asset'', JString ''USDC''),
     (''amount_raw'', json_u64 (amount_raw (ps_action e))),
     (''verified_slot'', json_u64 (ps_verified_slot e)),
     (''simulation_slot'', json_opt_u64 (ps_simulation_slot e)),
     (''last_valid_block_height'', json_u64 (ps_last_valid_block_height e)),
     (''tx_signature'', JString sig),
     (''broadcast_attempts_used'', json_u64 (word_of_nat attempt)),
     (''max_broadcast_attempts'', json_u64 (word_of_nat MAX_BROADCAST_ATTEMPTS))]"

text \<open>The loop over the attempts left; it ends with the signature the sender returned, or with the last error.\<close>

fun broadcast_loop ::
  "submit_env \<Rightarrow> uuid \<Rightarrow> ParkedSolendSigning \<Rightarrow> u8 list \<Rightarrow> string \<Rightarrow> u64 \<Rightarrow> nat list \<Rightarrow> string option \<Rightarrow>
   (string option + string) \<times> effect list" where
  "broadcast_loop env rid e bytes sig_text current [] last_err = (Inl last_err, [])"
| "broadcast_loop env rid e bytes sig_text current (n # ns) last_err =
    (case (if n = 1 then Inr current else se_block_height env n) of
       Inl msg \<Rightarrow> (Inl (Some (case last_err of Some m \<Rightarrow> m | None \<Rightarrow> ''block height fetch: '' @ msg)),
         [emit_broadcast_attempt_audit (se_display env) rid e sig_text n None None (HeightFetchError msg)])
     | Inr height \<Rightarrow>
       if height > ps_last_valid_block_height e then
         (let msg = ''blockhash expired before attempt '' @ show_nat n @ '' of '' @ show_nat MAX_BROADCAST_ATTEMPTS
            @ '': current='' @ show_nat (unat height) @ '', last_valid='' @ show_nat (unat (ps_last_valid_block_height e)) in
          (Inl (Some (case last_err of Some m \<Rightarrow> m | None \<Rightarrow> msg)),
           [emit_broadcast_attempt_audit (se_display env) rid e sig_text n (Some height) (Some 0) (AttemptBlockhashExpired msg)]))
       else
         (let budget = saturating_sub (ps_last_valid_block_height e) height in
          case se_send env n bytes of
            Inr signature \<Rightarrow> (Inr signature,
              [Broadcast bytes,
               emit_broadcast_attempt_audit (se_display env) rid e signature n (Some height) (Some budget) AttemptOk,
               session_event (se_display env) rid e AUDIT_EVENT_TRANSACTION_SUBMITTED SevInfo
                 (submitted_payload (se_display env) rid e signature n)])
          | Inl msg \<Rightarrow>
              (case broadcast_loop env rid e bytes sig_text current ns (Some msg) of
                 (res, effs) \<Rightarrow> (res, [Broadcast bytes,
                   emit_broadcast_attempt_audit (se_display env) rid e sig_text n (Some height) (Some budget) (SendError msg)] @ effs))))"

definition broadcast_verified ::
  "submit_env \<Rightarrow> uuid \<Rightarrow> ParkedSolendSigning \<Rightarrow> u8 list \<Rightarrow> string \<Rightarrow> u64 \<Rightarrow> SolendSubmitOutcome \<times> effect list" where
  "broadcast_verified env rid e bytes sig_text current =
    (case broadcast_loop env rid e bytes sig_text current [1..<Suc MAX_BROADCAST_ATTEMPTS] None of
       (Inr signature, effs) \<Rightarrow> (SubSubmitted signature rid (ps_intent_id e) (ps_session_wallet e) (ps_verified_slot e)
         (ps_last_valid_block_height e) bytes, effs)
     | (Inl last_err, effs) \<Rightarrow>
         (let msg = (case last_err of Some m \<Rightarrow> m | None \<Rightarrow> ''solend rebroadcast loop ended without attempting'') in
          (SubBroadcastFailed ''RpcBroadcastError'' msg rid, effs @ [session_event (se_display env) rid e
             AUDIT_EVENT_TRANSACTION_SUBMIT_FAILED SevError [
               (''signing_request_id'', JString (show_uuid (se_display env) rid)),
               (''intent_id'', JString (show_uuid (se_display env) (ps_intent_id e))),
               (''session_wallet'', JString (show_key (se_display env) (ps_session_wallet e))),
               (''error_type'', JString ''RpcBroadcastError''), (''message'', JString msg),
               (''max_broadcast_attempts'', json_u64 (word_of_nat MAX_BROADCAST_ATTEMPTS))]])))"

section \<open>The pipeline\<close>

definition freshness_gate ::
  "submit_env \<Rightarrow> uuid \<Rightarrow> ParkedSolendSigning \<Rightarrow> u8 list \<Rightarrow> string \<Rightarrow> SolendSubmitOutcome \<times> effect list" where
  "freshness_gate env rid e bytes sig_text = (let d = se_display env in
    case se_block_height env 1 of
      Inl msg \<Rightarrow> (SubRejected ''BlockHeightFetchFailed'' msg, [audit_rejected d rid (Some e) None ''BlockHeightFetchFailed'' msg])
    | Inr height \<Rightarrow>
      if height > ps_last_valid_block_height e then
        (let msg = ''current_block_height '' @ show_nat (unat height) @ '' > last_valid_block_height ''
           @ show_nat (unat (ps_last_valid_block_height e)) in
         (SubExpired msg, [session_event d rid e AUDIT_EVENT_SIGNED_TX_REJECTED SevWarning [
            (''signing_request_id'', JString (show_uuid d rid)),
            (''intent_id'', JString (show_uuid d (ps_intent_id e))),
            (''session_wallet'', JString (show_key d (ps_session_wallet e))),
            (''error_type'', JString ''BlockhashExpired''), (''message'', JString msg),
            (''last_valid_block_height'', json_u64 (ps_last_valid_block_height e)),
            (''current_block_height'', json_u64 height)]]))
      else (case broadcast_verified env rid e bytes sig_text height of (out, effs) \<Rightarrow>
        (out, session_event d rid e AUDIT_EVENT_SIGNED_TX_VERIFIED SevInfo (handoff_safe_payload d rid e (Some height) None) # effs)))"

text \<open>Steps C to G of a consumed entry and the decoded transaction.\<close>

definition submit_consumed ::
  "'m sdk_env \<Rightarrow> submit_env \<Rightarrow> uuid \<Rightarrow> ParkedSolendSigning \<Rightarrow> u8 list \<Rightarrow> 'm legacy_tx \<Rightarrow>
   (SolendSubmitOutcome \<times> effect list) option" where
  "submit_consumed sdk env rid e bytes signed_tx =
    (let d = se_display env;
         reject = (\<lambda>(kind, audit_msg, msg). (SubRejected kind msg, [audit_rejected d rid (Some e) None kind audit_msg])) in
     case sdk_deserialize sdk (ps_tx_bytes e) of
       Inl msg \<Rightarrow> Some (reject (''InternalParkedTxCorrupted'', msg, msg))
     | Inr parked_tx \<Rightarrow>
       Option.bind (verify_session_wallet sdk e parked_tx signed_tx) (\<lambda>v. case v of
         Inl err \<Rightarrow> Some (reject err)
       | Inr _ \<Rightarrow> Option.bind (verify_obligation sdk e signed_tx) (\<lambda>v'. case v' of
           Inl err \<Rightarrow> Some (reject err)
         | Inr _ \<Rightarrow> map_option (\<lambda>sig. freshness_gate env rid e bytes (se_show_signature env sig)) (signature_at signed_tx 0))))"

definition submit_signed_solend_transaction ::
  "'m sdk_env \<Rightarrow> submit_env \<Rightarrow> uuid \<Rightarrow> string \<Rightarrow> SolendSigningStore \<Rightarrow>
   (SolendSubmitOutcome \<times> effect list) option \<times> SolendSigningStore" where
  "submit_signed_solend_transaction sdk env rid signed_b64 st = (let d = se_display env in
    case se_base64_decode env signed_b64 of
      Inl msg \<Rightarrow> (Some (SubRejected ''MalformedBase64'' (''base64 decode: '' @ msg),
        [audit_rejected d rid None None ''MalformedBase64'' (''base64 decode: '' @ msg)]), st)
    | Inr bytes \<Rightarrow> (case sdk_deserialize sdk bytes of
        Inl msg \<Rightarrow> (Some (SubRejected ''MalformedTransaction'' (''bincode deserialize: '' @ msg),
          [audit_rejected d rid None None ''MalformedTransaction'' (''bincode deserialize: '' @ msg)]), st)
      | Inr signed_tx \<Rightarrow> (case consume (se_consumed_at env) rid st of
          (None, st') \<Rightarrow> (Some (SubNotFound,
            [audit_rejected d rid None None ''NotFound'' ''signing request missing or expired at consume'']), st')
        | (Some e, st') \<Rightarrow> (map_option (\<lambda>(out, effs). (out,
            session_event d rid e AUDIT_EVENT_SIGNED_TX_RECEIVED SevInfo (handoff_safe_payload d rid e None None) # effs))
            (submit_consumed sdk env rid e bytes signed_tx), st'))))"

section \<open>What is broadcast\<close>

definition broadcasts :: "effect list \<Rightarrow> u8 list list" where
  "broadcasts effs = concat (map (\<lambda>x. case x of Broadcast bs \<Rightarrow> [bs] | _ \<Rightarrow> []) effs)"

lemma broadcasts_simps [simp]:
  "broadcasts [] = []" "broadcasts (Broadcast bs # effs) = bs # broadcasts effs"
  "broadcasts (Audited ev # effs) = broadcasts effs" "broadcasts (xs @ ys) = broadcasts xs @ broadcasts ys"
  by (simp_all add: broadcasts_def)

lemma broadcasts_audits [simp]:
  "broadcasts (audit_rejected d rid e h k m # effs) = broadcasts effs"
  "broadcasts (session_event d rid e' n sv pl # effs) = broadcasts effs"
  "broadcasts (emit_broadcast_attempt_audit d rid e' t n' h b out # effs) = broadcasts effs"
  by (simp_all add: audit_rejected_def session_event_def emit_broadcast_attempt_audit_def)

text \<open>
  The loop sends the same bytes at most once per attempt, in each attempt at a height at which the block hash is valid, and
  again only after an attempt that failed.\<close>

lemma broadcast_loop_sends:
  assumes "broadcast_loop env rid e bytes t cur ns err = (res, effs)"
  shows "set (broadcasts effs) \<subseteq> {bytes} \<and> length (broadcasts effs) \<le> length ns
    \<and> (\<forall>n \<in> set (take (length (broadcasts effs)) ns).
         \<exists>h. (if n = 1 then Inr cur else se_block_height env n) = Inr h \<and> h \<le> ps_last_valid_block_height e)
    \<and> (\<forall>n \<in> set (take (length (broadcasts effs) - 1) ns). \<exists>msg. se_send env n bytes = Inl msg)
    \<and> (\<forall>sig. res = Inr sig \<longrightarrow> broadcasts effs \<noteq> [])"
  using assms
proof (induction ns arbitrary: err res effs)
  case (Cons n ns)
  show ?case
  proof (cases "if n = 1 then Inr cur else se_block_height env n")
    case (Inr h)
    show ?thesis
    proof (cases "h > ps_last_valid_block_height e")
      case False
      show ?thesis
      proof (cases "se_send env n bytes")
        case (Inl msg)
        obtain res' effs' where rec: "broadcast_loop env rid e bytes t cur ns (Some msg) = (res', effs')"
          by fastforce
        then have effs: "res = res'" "broadcasts effs = bytes # broadcasts effs'"
          using Cons.prems False Inl by (auto simp: Inr simp del: One_nat_def)
        then show ?thesis
          using Cons.IH [OF rec] Inr Inl False
          by (cases "broadcasts effs'") (auto simp: not_less simp del: One_nat_def)
      next
        case ok: (Inr sig)
        then show ?thesis using Cons.prems False Inr by (auto simp: Let_def not_less simp del: One_nat_def)
      qed
    next
      case True
      then show ?thesis using Cons.prems by (auto simp: Inr Let_def simp del: One_nat_def)
    qed
  next
    case (Inl msg)
    then show ?thesis using Cons.prems by (auto simp: Inl simp del: One_nat_def)
  qed
qed simp

text \<open>The first \<open>k\<close> attempts are each made at a height at which the block hash is valid, and all but the last of them failed.\<close>

definition attempts_valid :: "submit_env \<Rightarrow> u8 list \<Rightarrow> u64 \<Rightarrow> nat \<Rightarrow> bool" where
  "attempts_valid env bytes lv k \<longleftrightarrow>
     (\<forall>n \<in> {1..k}. \<exists>h. se_block_height env n = Inr h \<and> h \<le> lv)
     \<and> (\<forall>n \<in> {1..<k}. \<exists>msg. se_send env n bytes = Inl msg)"

lemma position_index: "position P xs = Some i \<Longrightarrow> i < length xs \<and> P (xs ! i)"
  by (induction xs arbitrary: i) (auto split: if_splits simp: less_Suc_eq_0_disj)

text \<open>What verification establishes of a returned transaction.\<close>

definition returned_ok :: "'m sdk_env \<Rightarrow> ParkedSolendSigning \<Rightarrow> 'm legacy_tx \<Rightarrow> bool" where
  "returned_ok sdk e tx \<longleftrightarrow> (\<exists>parked. sdk_deserialize sdk (ps_tx_bytes e) = Inr parked
       \<and> sdk_message_hash sdk (lt_message tx) = sdk_message_hash sdk (lt_message parked))
     \<and> lt_signatures tx \<noteq> [] \<and> lt_signatures tx ! 0 \<noteq> 0
     \<and> length (lt_signatures tx) = unat (sdk_num_required_signatures sdk (lt_message tx))
     \<and> sdk_verify sdk (lt_signatures tx ! 0) (ps_session_wallet e) (sdk_message_data sdk (lt_message tx))
     \<and> (\<forall>k. ps_obligation_keypair e = Some k \<longrightarrow> (\<exists>i < length (lt_signatures tx).
          sdk_account_keys sdk (lt_message tx) ! i = sdk_keypair_pubkey sdk k
          \<and> ps_obligation_signature e = Some (lt_signatures tx ! i)
          \<and> sdk_verify sdk (lt_signatures tx ! i) (sdk_keypair_pubkey sdk k) (sdk_message_data sdk (lt_message tx))))"

lemma verify_session_wallet_ok:
  assumes "verify_session_wallet sdk e parked tx = Some (Inr ())"
  shows "sdk_message_hash sdk (lt_message tx) = sdk_message_hash sdk (lt_message parked)" "lt_signatures tx \<noteq> []"
    "lt_signatures tx ! 0 \<noteq> 0" "length (lt_signatures tx) = unat (sdk_num_required_signatures sdk (lt_message tx))"
    "sdk_verify sdk (lt_signatures tx ! 0) (ps_session_wallet e) (sdk_message_data sdk (lt_message tx))"
  using assms by (auto simp: verify_session_wallet_def Let_def signature_at_def get_index_def split: if_splits)

lemma verify_obligation_ok:
  assumes "verify_obligation sdk e tx = Some (Inr ())" "ps_obligation_keypair e = Some k"
  obtains i where "position (\<lambda>a. a = sdk_keypair_pubkey sdk k) (sdk_account_keys sdk (lt_message tx)) = Some i"
    "i < length (lt_signatures tx)" "ps_obligation_signature e = Some (lt_signatures tx ! i)"
    "sdk_verify sdk (lt_signatures tx ! i) (sdk_keypair_pubkey sdk k) (sdk_message_data sdk (lt_message tx))"
  using assms
  by (auto simp: verify_obligation_def Let_def signature_at_def get_index_def split: option.splits if_splits)

lemma freshness_gate_sends:
  assumes "freshness_gate env rid e bytes t = (out, effs)" "bs \<in> set (broadcasts effs)"
  shows "bs = bytes \<and> length (broadcasts effs) \<le> MAX_BROADCAST_ATTEMPTS
    \<and> attempts_valid env bs (ps_last_valid_block_height e) (length (broadcasts effs))"
proof -
  from assms obtain h where h: "se_block_height env 1 = Inr h" "\<not> h > ps_last_valid_block_height e"
    by (cases "se_block_height env 1") (auto simp: freshness_gate_def Let_def split: if_splits)
  obtain res leffs where loop: "broadcast_loop env rid e bytes t h [1..<Suc MAX_BROADCAST_ATTEMPTS] None = (res, leffs)"
    by fastforce
  have effs: "broadcasts effs = broadcasts leffs"
    using assms(1) h loop by (cases res) (auto simp: freshness_gate_def broadcast_verified_def Let_def)
  let ?k = "length (broadcasts effs)"
  note sends = broadcast_loop_sends [OF loop, folded effs]
  then have k: "?k \<le> MAX_BROADCAST_ATTEMPTS" by (simp del: upt_Suc)
  have "take ?k [1..<Suc MAX_BROADCAST_ATTEMPTS] = [1..<Suc ?k]"
    "take (?k - 1) [1..<Suc MAX_BROADCAST_ATTEMPTS] = [1..<Suc (?k - 1)]"
    using k by (simp_all add: take_upt del: upt_Suc)
  then have tries: "set (take ?k [1..<Suc MAX_BROADCAST_ATTEMPTS]) = {1..?k}"
    "set (take (?k - 1) [1..<Suc MAX_BROADCAST_ATTEMPTS]) = {1..<?k}"
    by (auto simp del: upt_Suc)
  have "\<exists>h'. se_block_height env n = Inr h' \<and> h' \<le> ps_last_valid_block_height e" if n: "n \<in> {1..?k}" for n
  proof -
    obtain h' where "(if n = 1 then Inr h else se_block_height env n) = Inr h'" "h' \<le> ps_last_valid_block_height e"
      using sends n unfolding tries by blast
    then show ?thesis using h(1) by (cases "n = 1") auto
  qed
  then have "attempts_valid env bytes (ps_last_valid_block_height e) ?k"
    using sends unfolding tries attempts_valid_def by blast
  with sends k assms(2) show ?thesis by auto
qed

lemma submit_consumed_sends:
  assumes "submit_consumed sdk env rid e bytes tx = Some (out, effs)" "bs \<in> set (broadcasts effs)"
  shows "bs = bytes \<and> returned_ok sdk e tx \<and> length (broadcasts effs) \<le> MAX_BROADCAST_ATTEMPTS
    \<and> attempts_valid env bs (ps_last_valid_block_height e) (length (broadcasts effs))"
proof -
  from assms obtain parked sig where parts: "sdk_deserialize sdk (ps_tx_bytes e) = Inr parked"
    "verify_session_wallet sdk e parked tx = Some (Inr ())" "verify_obligation sdk e tx = Some (Inr ())"
    "freshness_gate env rid e bytes (se_show_signature env sig) = (out, effs)"
    unfolding submit_consumed_def Let_def
    by (auto split: sum.splits prod.splits Option.bind_splits)
  have "returned_ok sdk e tx"
    unfolding returned_ok_def
  proof (intro conjI allI impI)
    fix k assume k: "ps_obligation_keypair e = Some k"
    obtain i where "position (\<lambda>a. a = sdk_keypair_pubkey sdk k) (sdk_account_keys sdk (lt_message tx)) = Some i"
      "i < length (lt_signatures tx)" "ps_obligation_signature e = Some (lt_signatures tx ! i)"
      "sdk_verify sdk (lt_signatures tx ! i) (sdk_keypair_pubkey sdk k) (sdk_message_data sdk (lt_message tx))"
      using verify_obligation_ok [OF parts(3) k] by blast
    then show "\<exists>i < length (lt_signatures tx). sdk_account_keys sdk (lt_message tx) ! i = sdk_keypair_pubkey sdk k
          \<and> ps_obligation_signature e = Some (lt_signatures tx ! i)
          \<and> sdk_verify sdk (lt_signatures tx ! i) (sdk_keypair_pubkey sdk k) (sdk_message_data sdk (lt_message tx))"
      using position_index by fastforce
  qed (use parts(1) verify_session_wallet_ok [OF parts(2)] in auto)
  with freshness_gate_sends [OF parts(4) assms(2)] show ?thesis by blast
qed

lemma submit_sends:
  assumes "submit_signed_solend_transaction sdk env rid b64 st = (Some (out, effs), st')" "bs \<in> set (broadcasts effs)"
  obtains e tx where "st rid = Some e" "ps_expires_at e > se_consumed_at env" "se_base64_decode env b64 = Inr bs"
    "sdk_deserialize sdk bs = Inr tx" "returned_ok sdk e tx" "st' = st(rid := None)"
    "length (broadcasts effs) \<le> MAX_BROADCAST_ATTEMPTS" "set (broadcasts effs) = {bs}"
    "attempts_valid env bs (ps_last_valid_block_height e) (length (broadcasts effs))"
proof -
  from assms obtain bytes tx where dec: "se_base64_decode env b64 = Inr bytes" "sdk_deserialize sdk bytes = Inr tx"
    by (auto simp: submit_signed_solend_transaction_def Let_def audit_rejected_def split: sum.splits)
  with assms obtain e where e: "consume (se_consumed_at env) rid st = (Some e, st')"
    by (auto simp: submit_signed_solend_transaction_def Let_def audit_rejected_def split: option.splits prod.splits)
  from assms dec e obtain effs' where sub: "submit_consumed sdk env rid e bytes tx = Some (out, effs')"
    and effs: "broadcasts effs = broadcasts effs'"
    by (auto simp: submit_signed_solend_transaction_def Let_def)
  have all: "bs' = bytes" if "bs' \<in> set (broadcasts effs)" for bs'
    using submit_consumed_sends [OF sub] that effs by simp
  note facts = submit_consumed_sends [OF sub, of bs] all [OF assms(2)]
  have "set (broadcasts effs) = {bs}" using all facts(2) assms(2) by auto
  moreover have "st rid = Some e" "ps_expires_at e > se_consumed_at env" "st' = st(rid := None)"
    using e by (auto simp: consume_def split: option.splits if_splits)
  ultimately show thesis using facts dec assms(2) effs by (intro that) auto
qed

text \<open>A consumed request is gone: nothing is broadcast for a request that the store does not hold.\<close>

lemma submit_unknown:
  assumes "st rid = None" "submit_signed_solend_transaction sdk env rid b64 st = (res, st')"
  shows "st' = st \<and> (\<exists>out effs. res = Some (out, effs) \<and> broadcasts effs = [])"
  using assms
  by (auto simp: submit_signed_solend_transaction_def consume_def Let_def audit_rejected_def fun_upd_idem split: sum.splits)

lemma submit_store:
  assumes "submit_signed_solend_transaction sdk env rid b64 st = (res, st')"
  shows "st' = st \<or> st' = st(rid := None)"
  using assms
  by (auto simp: submit_signed_solend_transaction_def consume_def Let_def split: sum.splits option.splits if_splits)

lemma handoff_parks:
  assumes "create_signing_handoff sdk env lease opts plan preflight st0 = Some (Inr su, st, evs)"
  shows "\<exists>e. build_signing sdk env lease opts plan preflight = Some (Inr e) \<and> st = st0(he_new_request_id env \<mapsto> e)"
proof (cases "build_signing sdk env lease opts plan preflight")
  case (Some res)
  then show ?thesis using assms by (cases res) (auto simp: create_signing_handoff_def signing_park_def)
qed (use assms in \<open>simp add: create_signing_handoff_def\<close>)

lemma withdraw_handoff_parks:
  assumes "create_withdraw_signing_handoff sdk env lease plan st0 = Some (Inr su, st, evs)"
  shows "\<exists>e. build_withdraw_signing sdk env lease plan = Some (Inr e) \<and> st = st0(he_new_request_id env \<mapsto> e)"
proof (cases "build_withdraw_signing sdk env lease plan")
  case (Some res)
  then show ?thesis using assms by (cases res) (auto simp: create_withdraw_signing_handoff_def signing_park_def)
qed (use assms in \<open>simp add: create_withdraw_signing_handoff_def\<close>)

text \<open>
  C25: what the gateway broadcasts for a signing request is the deposit that was parked. If a plan was assembled from a
  parked intent and a fresh snapshot, handed off for signing, and a later submission of that request broadcasts anything, then the parked action is a
  nonzero deposit; the bytes sent are the ones the user returned, they decode to a transaction whose message is exactly the deposit of
  that amount on the snapshot, for the parked wallet as payer and with the block hash of the hand-off; the wallet has signed it;
  the same bytes are sent at most four times, in consecutive attempts, each of them at a block height, read for that attempt, that does
  not exceed the last valid height of the block hash, and again only after the attempt before it failed; and the request is gone. The message hash is only assumed
  to have no second preimage for the parked message, the placeholder to be none of the transaction's accounts.\<close>

theorem broadcast_is_planned_deposit:
  assumes laws: "sdk_laws sdk" "builder_laws penv"
    and plan: "assemble_solend_deposit_tx_plan penv transient aid p a vslot rent = Inr plan"
    and fresh: "placeholder_fresh penv p a transient (sdk_keypair_pubkey sdk (he_new_keypair henv)) rent"
    and handoff: "create_signing_handoff sdk henv lease None plan preflight st0 = Some (Inr su, st1, evs)"
    and stored: "st (he_new_request_id henv) = st1 (he_new_request_id henv)"
    and preimage: "\<forall>e tx m. st1 (he_new_request_id henv) = Some e \<and> sdk_deserialize sdk (ps_tx_bytes e) = Inr tx
        \<and> sdk_message_hash sdk m = sdk_message_hash sdk (lt_message tx) \<longrightarrow> m = lt_message tx"
    and run: "submit_signed_solend_transaction sdk senv (he_new_request_id henv) b64 st = (Some (out, effs), st')"
      "bs \<in> set (broadcasts effs)"
  shows "\<exists>mnt amt r tx bh lv. is_Passed preflight
     \<and> pk_action p = ActDeposit ProtocolTag.Solend mnt amt \<and> underlying_raw amt \<noteq> 0
     \<and> r \<in> set (ls_reserves (asd_snapshot a)) \<and> lr_mint r = mnt
     \<and> he_latest_blockhash henv = Inr (bh, lv)
     \<and> se_base64_decode senv b64 = Inr bs \<and> sdk_deserialize sdk bs = Inr tx
     \<and> lt_message tx = sdk_set_blockhash sdk bh (sdk_message_new sdk
          (planned_transaction penv (pk_session_wallet p) a r (underlying_raw amt)
             (if asd_obligation_exists a then asd_obligation_pubkey a else sdk_keypair_pubkey sdk (he_new_keypair henv)) rent)
          (pk_session_wallet p))
     \<and> sdk_verify sdk (lt_signatures tx ! 0) (pk_session_wallet p) (sdk_message_data sdk (lt_message tx))
     \<and> (\<forall>n \<in> {1..length (broadcasts effs)}. \<exists>h. se_block_height senv n = Inr h \<and> h \<le> lv)
     \<and> (\<forall>n \<in> {1..<length (broadcasts effs)}. \<exists>msg. se_send senv n bs = Inl msg)
     \<and> set (broadcasts effs) = {bs} \<and> length (broadcasts effs) \<le> 4
     \<and> st' (he_new_request_id henv) = None"
proof -
  let ?rid = "he_new_request_id henv"
  obtain e where signing: "build_signing sdk henv lease None plan preflight = Some (Inr e)" and e: "st1 ?rid = Some e"
    using handoff_parks [OF handoff] by auto
  obtain e' tx where sent: "st ?rid = Some e'" "se_base64_decode senv b64 = Inr bs" "sdk_deserialize sdk bs = Inr tx"
    "returned_ok sdk e' tx" "st' = st(?rid := None)" "length (broadcasts effs) \<le> MAX_BROADCAST_ATTEMPTS"
    "set (broadcasts effs) = {bs}"
    "attempts_valid senv bs (ps_last_valid_block_height e') (length (broadcasts effs))"
    by (rule submit_sends [OF run]) blast
  have [simp]: "e' = e" using sent(1) stored e by simp
  obtain mnt amt r parked where d: "pk_action p = ActDeposit ProtocolTag.Solend mnt amt" "underlying_raw amt \<noteq> 0"
    "r \<in> set (ls_reserves (asd_snapshot a))" "lr_mint r = mnt" "sdk_deserialize sdk (ps_tx_bytes e) = Inr parked"
    "lt_message parked = sdk_set_blockhash sdk (ps_recent_blockhash e) (sdk_message_new sdk
       (planned_transaction penv (pk_session_wallet p) a r (underlying_raw amt)
          (if asd_obligation_exists a then asd_obligation_pubkey a else sdk_keypair_pubkey sdk (he_new_keypair henv)) rent)
       (pk_session_wallet p))" "ps_session_wallet e = pk_session_wallet p"
    by (rule signing_of_plan [OF laws plan fresh signing]) blast
  have "lt_message tx = lt_message parked" using sent(4) preimage e d(5) by (auto simp: returned_ok_def)
  moreover have "is_Passed preflight" "he_latest_blockhash henv = Inr (ps_recent_blockhash e, ps_last_valid_block_height e)"
    using build_signing_facts [OF laws(1) signing] by metis+
  moreover have "sdk_verify sdk (lt_signatures tx ! 0) (pk_session_wallet p) (sdk_message_data sdk (lt_message tx))"
    using sent(4) d(7) by (simp add: returned_ok_def)
  ultimately show ?thesis
    using d(1-4,6) sent
    by (intro exI [of _ mnt] exI [of _ amt] exI [of _ r] exI [of _ tx] exI [of _ "ps_recent_blockhash e"]
        exI [of _ "ps_last_valid_block_height e"]) (simp add: MAX_BROADCAST_ATTEMPTS_def attempts_valid_def)
qed

section \<open>A request is broadcast once\<close>

text \<open>
  A history of the signing store: hand-offs under ids never used before, submissions by anyone, look-ups and sweeps. The
  state keeps the ids used and, for every submission that broadcast something, its id.\<close>

record signing_history =
  sh_store :: SolendSigningStore
  sh_used :: "uuid set"
  sh_sent :: "uuid list"

inductive signing_step :: "'m sdk_env \<Rightarrow> signing_history \<Rightarrow> signing_history \<Rightarrow> bool" for sdk where
  step_handoff: "create_signing_handoff sdk env lease opts plan preflight (sh_store s) = Some (Inr su, st, evs) \<Longrightarrow>
    he_new_request_id env \<notin> sh_used s \<Longrightarrow>
    signing_step sdk s (s\<lparr>sh_store := st, sh_used := insert (he_new_request_id env) (sh_used s)\<rparr>)"
| step_withdraw_handoff: "create_withdraw_signing_handoff sdk env lease wplan (sh_store s) = Some (Inr su, st, evs) \<Longrightarrow>
    he_new_request_id env \<notin> sh_used s \<Longrightarrow>
    signing_step sdk s (s\<lparr>sh_store := st, sh_used := insert (he_new_request_id env) (sh_used s)\<rparr>)"
| step_submit: "submit_signed_solend_transaction sdk senv rid b64 (sh_store s) = (res, st) \<Longrightarrow>
    sent = (case res of Some (out, effs) \<Rightarrow> broadcasts effs | None \<Rightarrow> []) \<Longrightarrow>
    signing_step sdk s (s\<lparr>sh_store := st, sh_sent := (if sent = [] then sh_sent s else rid # sh_sent s)\<rparr>)"
| step_summary: "summary_for_session now sid rid (sh_store s) = (res, st) \<Longrightarrow> signing_step sdk s (s\<lparr>sh_store := st\<rparr>)"
| step_sweep: "signing_step sdk s (s\<lparr>sh_store := sweep_signing now (sh_store s)\<rparr>)"

inductive_cases signing_stepE: "signing_step sdk s s'"

definition signing_init :: "signing_history \<Rightarrow> bool" where
  "signing_init s \<longleftrightarrow> sh_store s = Map.empty \<and> sh_used s = {} \<and> sh_sent s = []"

definition signing_good :: "signing_history \<Rightarrow> bool" where
  "signing_good s \<longleftrightarrow> dom (sh_store s) \<subseteq> sh_used s \<and> set (sh_sent s) \<subseteq> sh_used s - dom (sh_store s) \<and> distinct (sh_sent s)"

lemma dom_sweep: "dom (sweep_signing now st) \<subseteq> dom st"
  by (auto simp: sweep_signing_def split: option.splits if_splits)

lemma summary_store: "summary_for_session now sid rid st = (res, st') \<Longrightarrow> dom st' \<subseteq> dom st"
  by (auto simp: summary_for_session_def split: option.splits if_splits)

interpretation signing: inductive_invariant signing_init "signing_step sdk" signing_good for sdk :: "'m sdk_env"
proof unfold_locales
  fix s s'
  assume good: "signing_good s" and step: "signing_step sdk s s'"
  show "signing_good s'" using step
  proof cases
    case (step_submit senv rid b64 res st sent)
    have store: "dom st \<subseteq> dom (sh_store s)" using submit_store [OF step_submit(2)] by (auto split: if_splits)
    show ?thesis
    proof (cases "sent = []")
      case True
      then show ?thesis using good store step_submit(1) by (auto simp: signing_good_def)
    next
      case False
      then obtain out effs where res: "res = Some (out, effs)" and "broadcasts effs \<noteq> []"
        using step_submit(3) by (cases res) auto
      then obtain bs where bs: "bs \<in> set (broadcasts effs)" using list.set_sel(1) by blast
      have run: "submit_signed_solend_transaction sdk senv rid b64 (sh_store s) = (Some (out, effs), st)"
        using step_submit(2) res by simp
      obtain e where "sh_store s rid = Some e" "st = (sh_store s)(rid := None)"
        by (rule submit_sends [OF run bs]) blast
      then show ?thesis using good False step_submit(1) by (auto simp: signing_good_def)
    qed
  next
    case (step_handoff env lease opts plan preflight su st evs)
    then have "dom st = insert (he_new_request_id env) (dom (sh_store s))" using handoff_parks [OF step_handoff(2)] by auto
    then show ?thesis using good step_handoff(1,3) by (simp add: signing_good_def) blast
  next
    case (step_withdraw_handoff env lease wplan su st evs)
    then have "dom st = insert (he_new_request_id env) (dom (sh_store s))" using withdraw_handoff_parks [OF step_withdraw_handoff(2)] by auto
    then show ?thesis using good step_withdraw_handoff(1,3) by (simp add: signing_good_def) blast
  next
    case (step_summary now sid rid res st)
    then show ?thesis using good summary_store [OF step_summary(2)] by (auto simp: signing_good_def)
  next
    case (step_sweep now)
    then show ?thesis using good dom_sweep [of now "sh_store s"] by (auto simp: signing_good_def)
  qed
qed (auto simp: signing_init_def signing_good_def)

text \<open>
  C26: a signing request is broadcast by at most one submission. On every reachable history of hand-offs, submissions,
  look-ups and sweeps, the requests whose submission broadcast anything are distinct, each was handed off, and none of them is
  in the store any more.\<close>

theorem request_broadcast_once:
  assumes "reach signing_init (signing_step sdk) s"
  shows "distinct (sh_sent s) \<and> set (sh_sent s) \<subseteq> sh_used s \<and> set (sh_sent s) \<inter> dom (sh_store s) = {}"
  using signing.reach_good [OF assms] by (auto simp: signing_good_def)

end
