(* ===== verification/Example_Deposit.thy ===== *)
theory Example_Deposit
  imports Solend_Submit Example_Intent
begin

text \<open>
  A first deposit of one USDC from its plan to its broadcast, and the history of its signing request: a wallet without
  an obligation, so that the placeholder is replaced by a generated key that signs before the user does. A message is its
  instructions, payer and block hash.
\<close>

section \<open>The plan\<close>

definition xd_builders :: plan_env where
  "xd_builders = \<lparr>pe_set_compute_unit_price = (\<lambda>n. \<lparr>ix_program_id = 1, ix_accounts = [], ix_data = to_le_bytes n\<rparr>),
     pe_create_ata_idempotent = (\<lambda>f w m t. \<lparr>ix_program_id = 2, ix_accounts = [AccountMeta_new f True], ix_data = [1]\<rparr>),
     pe_create_account = (\<lambda>f n l sp ow. \<lparr>ix_program_id = system_program_ID,
       ix_accounts = [AccountMeta_new f True, AccountMeta_new n True], ix_data = to_le_bytes l @ to_le_bytes sp\<rparr>),
     pe_find_pda = (\<lambda>seeds p. (3, 255))\<rparr>"

definition xd_reserve :: LendingReserve where
  "xd_reserve = \<lparr>lr_identifier = 11, lr_mint = 12, lr_mint_decimals = 6, lr_protocol_last_updated_slot = ChainSlot 0,
     lr_protocol_native_stale = Fresh, lr_freshness = ChainSlot 100, lr_liquidity_supply_pubkey = 13,
     lr_collateral_mint_pubkey = 14, lr_collateral_supply_pubkey = 15, lr_available_underlying = UnderlyingAmount 0\<rparr>"

definition xd_snapshot :: AssembledSolendDepositSnapshot where
  "xd_snapshot = \<lparr>asd_snapshot = \<lparr>ls_protocol_tag = ProtocolTag.Solend, ls_session_wallet = 8, ls_fetched_at = ChainSlot 100,
       ls_obligation = \<lparr>lo_identifier = 8, lo_owner = 8, lo_protocol_last_updated_slot = ChainSlot 0,
         lo_protocol_native_stale = Fresh, lo_deposits = [], lo_borrows = [], lo_freshness = ChainSlot 100\<rparr>,
       ls_reserves = [xd_reserve], ls_oracles = []\<rparr>,
     asd_obligation_exists = False, asd_source_ata_exists = True, asd_collateral_ata_exists = False,
     asd_reserve_pubkey = 11, asd_obligation_pubkey = 16, asd_source_liquidity_ata = 17, asd_user_collateral_ata = 18,
     asd_lending_market = 19\<rparr>"

definition xd_intent :: ParkedSolendDepositIntent where
  "xd_intent = \<lparr>pk_intent_id = 1, pk_action = ActDeposit ProtocolTag.Solend 12 (UnderlyingAmount 1000000),
     pk_snapshot = asd_snapshot xd_snapshot, pk_obligation_exists = False, pk_source_ata_exists = True,
     pk_collateral_ata_exists = False, pk_verdict_at_propose = Pass, pk_proposed_at = 0, pk_expires_at = 1000,
     pk_session_id = 2, pk_session_wallet = 8\<rparr>"

abbreviation xd_transient :: pubkey where "xd_transient \<equiv> 99"
abbreviation xd_obligation :: pubkey where "xd_obligation \<equiv> 7"
abbreviation xd_rent :: u64 where "xd_rent \<equiv> PHASE_4C2_OBLIGATION_RENT_EXEMPT_LAMPORTS"

definition xd_instructions :: "instruction list" where
  "xd_instructions = planned_transaction xd_builders 8 xd_snapshot xd_reserve 1000000 xd_obligation xd_rent"

lemma xd_plan:
  obtains plan where "assemble_solend_deposit_tx_plan xd_builders xd_transient 5 xd_intent xd_snapshot 100 xd_rent = Inr plan"
  by (simp add: assemble_solend_deposit_tx_plan_def xd_intent_def xd_snapshot_def xd_reserve_def ok_or_def Let_def
      build_deposit_instruction_def plan_deposit_inputs_def)

lemma xd_builder_laws: "builder_laws xd_builders"
  by (auto simp: builder_laws_def xd_builders_def system_program_ID_eq)

lemma xd_fresh: "placeholder_fresh xd_builders xd_intent xd_snapshot xd_transient xd_obligation xd_rent"
proof -
  have "unmentioned xd_transient (planned_transaction xd_builders 8 xd_snapshot xd_reserve amt xd_obligation xd_rent)" for amt
    by (simp add: planned_transaction_def Let_def plan_oracles_def deposit_setup_def deposit_refresh_def build_refresh_instructions_def
        refresh_reserve_ix_def build_deposit_instruction_def plan_deposit_inputs_def build_create_obligation_account_instruction_def
        build_init_obligation_instruction_def xd_snapshot_def xd_reserve_def xd_builders_def AccountMeta_new_def
        AccountMeta_new_readonly_def SOLEND_NULL_ORACLE_SENTINEL_BS58_def SPL_TOKEN_PROGRAM_ID_BS58_def pubkey_literal
        sysvar_clock_id_def sysvar_rent_id_def)
  then show ?thesis by (simp add: placeholder_fresh_def) (simp add: xd_snapshot_def xd_intent_def)
qed

section \<open>The transaction\<close>

type_synonym xd_msg = "instruction list \<times> pubkey \<times> 256 word"

definition xd_message :: xd_msg where "xd_message = (xd_instructions, 8, 6)"

definition xd_tx :: "signature \<Rightarrow> xd_msg legacy_tx" where
  "xd_tx sig = \<lparr>lt_signatures = [sig, 55], lt_message = xd_message\<rparr>"

definition xd_sdk :: "xd_msg sdk_env" where
  "xd_sdk = \<lparr>sdk_message_new = (\<lambda>ixs payer. (ixs, payer, 0)),
     sdk_new_unsigned = (\<lambda>m. \<lparr>lt_signatures = [0, 0], lt_message = m\<rparr>),
     sdk_set_blockhash = (\<lambda>bh (ixs, payer, _). (ixs, payer, bh)),
     sdk_try_partial_sign = (\<lambda>k bh tx. Inr \<lparr>lt_signatures = [0, 55],
       lt_message = (fst (lt_message tx), fst (snd (lt_message tx)), bh)\<rparr>),
     sdk_keypair_pubkey = (\<lambda>k. xd_obligation),
     sdk_account_keys = (\<lambda>m. [fst (snd m), xd_obligation]),
     sdk_num_required_signatures = (\<lambda>m. 2),
     sdk_message_hash = (\<lambda>m. if m = xd_message then 1 else 0),
     sdk_message_data = (\<lambda>m. []),
     sdk_serialize = (\<lambda>tx. if tx = xd_tx 0 then Inr [1] else if tx = xd_tx 44 then Inr [2] else Inl ''size''),
     sdk_deserialize = (\<lambda>bs. if bs = [1] then Inr (xd_tx 0) else if bs = [2] then Inr (xd_tx 44) else Inl ''eof''),
     sdk_verify = (\<lambda>sig k d. if k = 8 then sig = 44 else sig = 55)\<rparr>"

lemma xd_tx_eq [simp]: "xd_tx s = xd_tx t \<longleftrightarrow> s = t"
  by (simp add: xd_tx_def)

lemma xd_sdk_laws: "sdk_laws xd_sdk"
  by (auto simp: sdk_laws_def xd_sdk_def split: if_splits prod.splits)

definition xd_display :: display_env where
  "xd_display = \<lparr>show_uuid = (\<lambda>u. ''id''), show_key = (\<lambda>k. ''key'')\<rparr>"

definition xd_handoff :: handoff_env where
  "xd_handoff = \<lparr>he_new_keypair = 77, he_latest_blockhash = Inr (6, 200), he_new_request_id = 5, he_now = 0,
     he_date_range = (\<lambda>t. True), he_display = xd_display, he_runtime = intent_rt\<rparr>"

definition xd_submit :: submit_env where
  "xd_submit = \<lparr>se_base64_decode = (\<lambda>s. Inr [2]), se_send = (\<lambda>n bs. Inr ''sig''), se_block_height = (\<lambda>n. Inr 150),
     se_show_signature = (\<lambda>s. ''sig''), se_consumed_at = 10, se_display = xd_display\<rparr>"

definition xd_passed :: SolendPreflightOutcome where
  "xd_passed = Passed 100 None None [] False None None"

definition xd_parked :: ParkedSolendSigning where
  "xd_parked = \<lparr>ps_intent_id = 1, ps_session_id = 2, ps_session_wallet = 8, ps_action = pk_action xd_intent,
     ps_verified_slot = 100, ps_simulation_slot = None, ps_units_consumed = None, ps_tx_bytes = [1],
     ps_recent_blockhash = 6, ps_last_valid_block_height = 200, ps_obligation_keypair = Some 77,
     ps_obligation_signature = Some 55, ps_proposed_at = 0, ps_expires_at = 60000000000\<rparr>"

lemma xd_build:
  assumes plan: "assemble_solend_deposit_tx_plan xd_builders xd_transient 5 xd_intent xd_snapshot 100 xd_rent = Inr plan"
  shows "build_signing xd_sdk xd_handoff 60 None plan xd_passed = Some (Inr xd_parked)"
proof -
  have new: "\<not> asd_obligation_exists xd_snapshot" by (simp add: xd_snapshot_def)
  have "substitute_obligation (dp_transient plan) (Some xd_obligation) (plan_instructions_of plan) = xd_instructions"
    by (rule substituted_plan [OF xd_builder_laws plan xd_fresh])
      (simp add: new xd_instructions_def, simp add: xd_intent_def xd_snapshot_def)
  then have ixs: "handoff_instructions xd_handoff (Some 77) xd_sdk None plan = xd_instructions"
    by (simp add: handoff_instructions_def plan_instructions_of_def substitute_append Let_def xd_sdk_def)
  have flags: "dp_signer_required plan" "dp_transient plan = Some xd_transient" "dp_session_wallet plan = 8"
    "dp_session_id plan = 2" "dp_intent_id plan = 1" "dp_verified_slot plan = 100" "dp_action plan = pk_action xd_intent"
    using deposit_plan_facts [OF plan] new by (metis, metis, simp_all add: xd_intent_def, metis+)
  have sign: "sign_obligation xd_sdk (Some 77) 6 (sdk_new_unsigned xd_sdk (sdk_message_new xd_sdk xd_instructions 8))
      = Some (Inr (xd_tx 0, Some 55))"
    by (simp add: sign_obligation_def xd_sdk_def raw_ok_Some ok_or_def get_index_def xd_tx_def xd_message_def)
  have he: "he_new_keypair xd_handoff = 77" "he_latest_blockhash xd_handoff = Inr (6, 200)" by (simp_all add: xd_handoff_def)
  have ser: "sdk_serialize xd_sdk (xd_tx 0) = Inr [1]" by (simp add: xd_sdk_def)
  have lease: "lease_end (he_date_range xd_handoff) (he_now xd_handoff) 60 = Some 60000000000"
    by (simp add: lease_end_def xd_handoff_def Let_def)
  show ?thesis
    by (simp add: build_signing_def raw_ok_Some transient_sanity_def flags xd_passed_def he ixs sign ser lease Let_def xd_parked_def)
      (simp add: xd_handoff_def)
qed

lemma xd_handoff_runs:
  assumes "assemble_solend_deposit_tx_plan xd_builders xd_transient 5 xd_intent xd_snapshot 100 xd_rent = Inr plan"
  obtains su evs where "create_signing_handoff xd_sdk xd_handoff 60 None plan xd_passed Map.empty = Some (Inr su, [5 \<mapsto> xd_parked], evs)"
  by (simp add: create_signing_handoff_def xd_build [OF assms] signing_park_def) (simp add: xd_handoff_def)

definition xd_submitted :: SolendSubmitOutcome where
  "xd_submitted = SubSubmitted ''sig'' 5 1 8 100 200 [2]"

lemma xd_submit_runs:
  obtains effs where "submit_signed_solend_transaction xd_sdk xd_submit 5 b64 [5 \<mapsto> xd_parked] = (Some (xd_submitted, effs), Map.empty)"
    "broadcasts effs = [[2]]"
proof -
  have sdk: "sdk_deserialize xd_sdk [1] = Inr (xd_tx 0)" "sdk_deserialize xd_sdk [2] = Inr (xd_tx 44)"
    by (simp_all add: xd_sdk_def)
  have env: "se_base64_decode xd_submit b64 = Inr [2]" "se_block_height xd_submit n = Inr 150"
    "se_consumed_at xd_submit = 10" "se_send xd_submit n bs = Inr ''sig''" for n bs
    by (simp_all add: xd_submit_def)
  have wallet: "verify_session_wallet xd_sdk xd_parked (xd_tx 0) (xd_tx 44) = Some (Inr ())"
    by (simp add: verify_session_wallet_def signature_at_def get_index_def xd_sdk_def xd_parked_def xd_tx_def xd_message_def)
  have obligation: "verify_obligation xd_sdk xd_parked (xd_tx 44) = Some (Inr ())"
    by (simp add: verify_obligation_def signature_at_def get_index_def xd_sdk_def xd_parked_def xd_tx_def xd_message_def Let_def)
  have parked: "ps_tx_bytes xd_parked = [1]" "ps_last_valid_block_height xd_parked = 200" "ps_expires_at xd_parked = 60000000000"
    "ps_intent_id xd_parked = 1" "ps_session_wallet xd_parked = 8" "ps_verified_slot xd_parked = 100"
    by (simp_all add: xd_parked_def)
  have sig: "signature_at (xd_tx 44) 0 = Some 44" by (simp add: signature_at_def get_index_def xd_tx_def)
  have attempts: "[1..<Suc MAX_BROADCAST_ATTEMPTS] = 1 # [2..<5]"
    by (simp add: MAX_BROADCAST_ATTEMPTS_def upt_conv_Cons)
  have "\<exists>effs. broadcast_verified xd_submit 5 xd_parked [2] t 150 = (xd_submitted, effs) \<and> broadcasts effs = [[2]]" for t
    unfolding broadcast_verified_def attempts by (simp add: parked env Let_def xd_submitted_def)
  then obtain effs where sent: "broadcast_verified xd_submit 5 xd_parked [2] (se_show_signature xd_submit 44) 150 = (xd_submitted, effs)"
    "broadcasts effs = [[2]]" by blast
  have "\<exists>effs. submit_signed_solend_transaction xd_sdk xd_submit 5 b64 [5 \<mapsto> xd_parked] = (Some (xd_submitted, effs), Map.empty)
      \<and> broadcasts effs = [[2]]"
    by (simp add: submit_signed_solend_transaction_def Let_def submit_consumed_def freshness_gate_def consume_def sdk env wallet obligation
        parked sig sent)
  then show thesis using that by blast
qed

section \<open>The theorems on it\<close>

theorem broadcast_is_planned_deposit_witness:
  "\<exists>tx. sdk_deserialize xd_sdk [2] = Inr tx \<and> fst (lt_message tx) = xd_instructions
     \<and> sdk_verify xd_sdk (lt_signatures tx ! 0) 8 (sdk_message_data xd_sdk (lt_message tx))"
proof -
  obtain plan where plan: "assemble_solend_deposit_tx_plan xd_builders xd_transient 5 xd_intent xd_snapshot 100 xd_rent = Inr plan"
    by (rule xd_plan)
  obtain su evs where handoff: "create_signing_handoff xd_sdk xd_handoff 60 None plan xd_passed Map.empty
      = Some (Inr su, [5 \<mapsto> xd_parked], evs)" by (rule xd_handoff_runs [OF plan])
  obtain effs where run: "submit_signed_solend_transaction xd_sdk xd_submit 5 [] [5 \<mapsto> xd_parked] = (Some (xd_submitted, effs), Map.empty)"
    "broadcasts effs = [[2]]" by (rule xd_submit_runs)
  have id: "he_new_request_id xd_handoff = 5" "sdk_keypair_pubkey xd_sdk k = xd_obligation" for k
    by (simp_all add: xd_handoff_def xd_sdk_def)
  have preimage: "\<forall>e tx m. [5 \<mapsto> xd_parked] (he_new_request_id xd_handoff) = Some e \<and> sdk_deserialize xd_sdk (ps_tx_bytes e) = Inr tx
      \<and> sdk_message_hash xd_sdk m = sdk_message_hash xd_sdk (lt_message tx) \<longrightarrow> m = lt_message tx"
    by (simp add: id) (auto simp: xd_sdk_def xd_parked_def xd_tx_def split: if_splits)
  have fresh: "placeholder_fresh xd_builders xd_intent xd_snapshot xd_transient (sdk_keypair_pubkey xd_sdk (he_new_keypair xd_handoff)) xd_rent"
    using xd_fresh by (simp add: id)
  have stored: "[5 \<mapsto> xd_parked] (he_new_request_id xd_handoff) = [5 \<mapsto> xd_parked] (he_new_request_id xd_handoff)" by (rule refl)
  have submitted: "submit_signed_solend_transaction xd_sdk xd_submit (he_new_request_id xd_handoff) [] [5 \<mapsto> xd_parked]
      = (Some (xd_submitted, effs), Map.empty)" "[2] \<in> set (broadcasts effs)"
    using run by (simp_all add: id)
  from broadcast_is_planned_deposit [OF xd_sdk_laws xd_builder_laws plan fresh handoff stored preimage submitted]
  obtain tx mnt amt r bh where tx: "sdk_deserialize xd_sdk [2] = Inr tx"
    "pk_action xd_intent = ActDeposit ProtocolTag.Solend mnt amt" "r \<in> set (ls_reserves (asd_snapshot xd_snapshot))"
    "lt_message tx = sdk_set_blockhash xd_sdk bh (sdk_message_new xd_sdk (planned_transaction xd_builders (pk_session_wallet xd_intent)
        xd_snapshot r (underlying_raw amt)
        (if asd_obligation_exists xd_snapshot then asd_obligation_pubkey xd_snapshot
         else sdk_keypair_pubkey xd_sdk (he_new_keypair xd_handoff)) xd_rent) (pk_session_wallet xd_intent))"
    "sdk_verify xd_sdk (lt_signatures tx ! 0) (pk_session_wallet xd_intent) (sdk_message_data xd_sdk (lt_message tx))"
    by (elim exE conjE) (rule that)
  have "amt = UnderlyingAmount 1000000" "r = xd_reserve" "pk_session_wallet xd_intent = 8" "\<not> asd_obligation_exists xd_snapshot"
    using tx(2,3) by (simp_all add: xd_intent_def xd_snapshot_def)
  then have "fst (lt_message tx) = xd_instructions" "sdk_verify xd_sdk (lt_signatures tx ! 0) 8 (sdk_message_data xd_sdk (lt_message tx))"
    using tx(4,5) by (simp_all add: xd_instructions_def id) (simp add: xd_sdk_def)
  then show ?thesis using tx(1) by blast
qed

definition xd_done :: signing_history where
  "xd_done = \<lparr>sh_store = Map.empty, sh_used = {5}, sh_sent = [5]\<rparr>"

theorem request_broadcast_once_witness:
  "reach signing_init (signing_step xd_sdk) xd_done \<and> set (sh_sent xd_done) \<subseteq> sh_used xd_done \<and> sh_sent xd_done = [5]"
proof -
  let ?s0 = "\<lparr>sh_store = Map.empty, sh_used = {}, sh_sent = []\<rparr>"
  obtain plan where plan: "assemble_solend_deposit_tx_plan xd_builders xd_transient 5 xd_intent xd_snapshot 100 xd_rent = Inr plan"
    by (rule xd_plan)
  obtain su evs where handoff: "create_signing_handoff xd_sdk xd_handoff 60 None plan xd_passed (sh_store ?s0)
      = Some (Inr su, [5 \<mapsto> xd_parked], evs)" using xd_handoff_runs [OF plan] by auto
  let ?s1 = "\<lparr>sh_store = [5 \<mapsto> xd_parked], sh_used = {5}, sh_sent = []\<rparr>"
  have one: "signing_step xd_sdk ?s0 ?s1"
    using step_handoff [OF handoff] by (simp add: xd_handoff_def)
  obtain effs where run: "submit_signed_solend_transaction xd_sdk xd_submit 5 [] (sh_store ?s1) = (Some (xd_submitted, effs), Map.empty)"
    "broadcasts effs = [[2]]" using xd_submit_runs by auto
  have two: "signing_step xd_sdk ?s1 xd_done"
    using step_submit [OF run(1) refl] by (simp add: run(2) xd_done_def)
  have start: "reach signing_init (signing_step xd_sdk) ?s0" by (rule reach.intros) (simp add: signing_init_def)
  have "reach signing_init (signing_step xd_sdk) xd_done"
    by (rule reach_step [OF reach_step [OF start one] two])
  with request_broadcast_once [OF this] show ?thesis by (simp add: xd_done_def)
qed

end
