(* ===== verification/Tx_Lifecycle.thy ===== *)
theory Tx_Lifecycle
  imports Rust_Text State_Machine
begin

text \<open>
  \<open>crates/solana-core/src/tx_lifecycle.rs\<close> and \<open>tracker.rs\<close>: the state machine of a submitted transaction, and the tick of the
  tracker that feeds it with what the node reports. The node's answers are the record \<open>tracker_env\<close>.
\<close>

section \<open>States and observations\<close>

datatype TxState =
    TsSubmitted
  | TsDropped
  | TsConfirmed u64
  | TsFinalized u64
  | TsFailed string
  | TsExpired

fun tx_precedence :: "TxState \<Rightarrow> nat" where
  "tx_precedence TsSubmitted = 0"
| "tx_precedence TsDropped = 1"
| "tx_precedence TsExpired = 1"
| "tx_precedence (TsConfirmed _) = 2"
| "tx_precedence (TsFailed _) = 3"
| "tx_precedence (TsFinalized _) = 4"

fun tx_is_terminal :: "TxState \<Rightarrow> bool" where
  "tx_is_terminal (TsFinalized _) = True"
| "tx_is_terminal (TsFailed _) = True"
| "tx_is_terminal TsExpired = True"
| "tx_is_terminal _ = False"

fun tx_slot :: "TxState \<Rightarrow> u64 option" where
  "tx_slot (TsConfirmed s) = Some s"
| "tx_slot (TsFinalized s) = Some s"
| "tx_slot _ = None"

record RpcObservation =
  ob_status :: "string option"
  ob_err :: "string option"
  ob_slot :: "u64 option"

definition DROPPED_GRACE_BLOCKS :: u64 where "DROPPED_GRACE_BLOCKS = 50"
definition EXPIRY_TRACKING_BUFFER :: u64 where "EXPIRY_TRACKING_BUFFER = 32"

section \<open>The transition function\<close>

definition next_on_null :: "TxState \<Rightarrow> u64 \<Rightarrow> u64 \<Rightarrow> u64 \<Rightarrow> TxState" where
  "next_on_null current height submission last_valid = (case current of
     TsConfirmed _ \<Rightarrow> current
   | _ \<Rightarrow>
     if height > last_valid then TsExpired
     else if saturating_sub height submission \<ge> DROPPED_GRACE_BLOCKS \<and> current = TsSubmitted then TsDropped
     else current)"

definition calculate_next_state :: "TxState \<Rightarrow> RpcObservation \<Rightarrow> u64 \<Rightarrow> u64 \<Rightarrow> u64 \<Rightarrow> TxState" where
  "calculate_next_state current obs height submission last_valid = (case current of
     TsFinalized _ \<Rightarrow> current
   | TsFailed _ \<Rightarrow> current
   | _ \<Rightarrow> (case ob_err obs of
       Some err \<Rightarrow> TsFailed err
     | None \<Rightarrow> (case ob_status obs of
         Some st \<Rightarrow>
           if st = ''finalized'' then TsFinalized (case ob_slot obs of Some s \<Rightarrow> s | None \<Rightarrow> 0)
           else if st = ''confirmed'' then
             (if tx_precedence current < 2 \<or> current = TsExpired
              then TsConfirmed (case ob_slot obs of Some s \<Rightarrow> s | None \<Rightarrow> 0) else current)
           else current
       | None \<Rightarrow> next_on_null current height submission last_valid)))"

section \<open>Records and events\<close>

record TrackingRecord =
  tr_signature :: string
  tr_transaction_id :: "128 word"
  tr_request_id :: "128 word"
  tr_session_id :: string
  tr_wallet_pubkey :: string
  tr_state :: TxState
  tr_last_valid :: u64
  tr_submission :: u64
  tr_slot :: "u64 option"
  tr_err :: "string option"
  tr_confirmed_emitted :: bool
  tr_finalized_emitted :: bool
  tr_failed_emitted :: bool
  tr_dropped_emitted :: bool
  tr_expired_emitted :: bool
  tr_signed_tx_bytes :: "u8 list option"
  tr_retry_count :: u32

definition record_with_bytes ::
  "string \<Rightarrow> 128 word \<Rightarrow> 128 word \<Rightarrow> string \<Rightarrow> string \<Rightarrow> u64 \<Rightarrow> u64 \<Rightarrow> u8 list option \<Rightarrow> TrackingRecord" where
  "record_with_bytes sig tid rid sid wallet last_valid submission bytes = \<lparr>
     tr_signature = sig, tr_transaction_id = tid, tr_request_id = rid, tr_session_id = sid, tr_wallet_pubkey = wallet,
     tr_state = TsSubmitted, tr_last_valid = last_valid, tr_submission = submission, tr_slot = None, tr_err = None,
     tr_confirmed_emitted = False, tr_finalized_emitted = False, tr_failed_emitted = False,
     tr_dropped_emitted = False, tr_expired_emitted = False, tr_signed_tx_bytes = bytes, tr_retry_count = 0\<rparr>"

definition should_continue_tracking :: "TrackingRecord \<Rightarrow> u64 \<Rightarrow> bool" where
  "should_continue_tracking r height = (case tr_state r of
     TsFinalized _ \<Rightarrow> False
   | TsFailed _ \<Rightarrow> False
   | TsExpired \<Rightarrow> height \<le> tr_last_valid r + EXPIRY_TRACKING_BUFFER
   | _ \<Rightarrow> True)"

datatype LifecycleEventKind = LeConfirmed u64 | LeFinalized u64 | LeFailed string | LeDropped | LeExpired

definition pending_events :: "TrackingRecord \<Rightarrow> LifecycleEventKind list" where
  "pending_events r = (case tr_state r of
     TsConfirmed s \<Rightarrow> if tr_confirmed_emitted r then [] else [LeConfirmed s]
   | TsFinalized s \<Rightarrow> (if tr_confirmed_emitted r then [] else [LeConfirmed s])
       @ (if tr_finalized_emitted r then [] else [LeFinalized s])
   | TsFailed e \<Rightarrow> if tr_failed_emitted r then [] else [LeFailed e]
   | TsDropped \<Rightarrow> if tr_dropped_emitted r then [] else [LeDropped]
   | TsExpired \<Rightarrow> if tr_expired_emitted r then [] else [LeExpired]
   | TsSubmitted \<Rightarrow> [])"

section \<open>The tracker\<close>

datatype PollTier = Hot | Warm | Cool | ExpiryWatch

definition from_block_distance :: "u64 \<Rightarrow> PollTier" where
  "from_block_distance d = (if d \<le> 30 then Hot else if d \<le> 100 then Warm else if d \<le> 300 then Cool else ExpiryWatch)"

fun skip_ticks :: "PollTier \<Rightarrow> u64" where
  "skip_ticks Hot = 0"
| "skip_ticks Warm = 1"
| "skip_ticks Cool = 4"
| "skip_ticks ExpiryWatch = 14"

definition MAX_BATCH_SIZE :: nat where "MAX_BATCH_SIZE = 256"

datatype TransactionConfirmationStatus = CsProcessed | CsConfirmed | CsFinalized

record TransactionStatus =
  xs_confirmation_status :: "TransactionConfirmationStatus option"
  xs_err :: "string option"
  xs_slot :: u64

fun confirmation_string :: "TransactionConfirmationStatus \<Rightarrow> string" where
  "confirmation_string CsProcessed = ''processed''"
| "confirmation_string CsConfirmed = ''confirmed''"
| "confirmation_string CsFinalized = ''finalized''"

definition status_to_observation :: "TransactionStatus option \<Rightarrow> RpcObservation" where
  "status_to_observation x = (case x of
     None \<Rightarrow> \<lparr>ob_status = None, ob_err = None, ob_slot = None\<rparr>
   | Some s \<Rightarrow> \<lparr>ob_status = map_option confirmation_string (xs_confirmation_status s), ob_err = xs_err s,
       ob_slot = Some (xs_slot s)\<rparr>)"

type_synonym tracking = "512 word \<rightharpoonup> TrackingRecord"

record StateChange =
  ch_record :: TrackingRecord
  ch_to :: TxState
  ch_height :: u64

text \<open>A duplicate registration is ignored.\<close>

definition track :: "512 word \<Rightarrow> TrackingRecord \<Rightarrow> tracking \<Rightarrow> tracking" where
  "track sig r st = (if st sig \<noteq> None then st else st(sig \<mapsto> r))"

definition tracker_eligible :: "u64 \<Rightarrow> u64 \<Rightarrow> TrackingRecord \<Rightarrow> bool" where
  "tracker_eligible counter height r \<longleftrightarrow>
     counter mod (skip_ticks (from_block_distance (saturating_sub height (tr_submission r))) + 1) = 0"

definition tracker_apply :: "u64 \<Rightarrow> RpcObservation \<Rightarrow> TrackingRecord \<Rightarrow> TrackingRecord" where
  "tracker_apply height obs r =
    (let s = calculate_next_state (tr_state r) obs height (tr_submission r) (tr_last_valid r) in
     if s = tr_state r then r
     else r\<lparr>tr_state := s, tr_slot := (case tx_slot s of Some x \<Rightarrow> Some x | None \<Rightarrow> tr_slot r),
       tr_err := (case s of TsFailed e \<Rightarrow> Some e | _ \<Rightarrow> tr_err r)\<rparr>)"

record tracker_env =
  tk_height :: "u64 option"
  tk_statuses :: "512 word list \<Rightarrow> TransactionStatus option list option"
  tk_rebroadcast :: "u8 list \<Rightarrow> bool"
  tk_max_retries :: u32

text \<open>One batch: the answers are matched by position, a missing one is a null observation.\<close>

definition tracker_observe ::
  "u64 \<Rightarrow> TransactionStatus option list \<Rightarrow> tracking \<times> StateChange list \<Rightarrow> nat \<times> 512 word \<Rightarrow> tracking \<times> StateChange list" where
  "tracker_observe height statuses acc x = (case (acc, x) of ((st, chs), (i, sig)) \<Rightarrow> (case st sig of
     None \<Rightarrow> (st, chs)
   | Some r \<Rightarrow> (let r' = tracker_apply height (status_to_observation (Option.bind (get_index statuses i) id)) r in
       (st(sig \<mapsto> r'), if tr_state r' = tr_state r then chs
         else chs @ [\<lparr>ch_record = r, ch_to = tr_state r', ch_height = height\<rparr>]))))"

definition tracker_batch :: "tracker_env \<Rightarrow> u64 \<Rightarrow> 512 word list \<Rightarrow> tracking \<Rightarrow> tracking \<times> StateChange list" where
  "tracker_batch env height sigs st = (case tk_statuses env sigs of
     None \<Rightarrow> (st, [])
   | Some statuses \<Rightarrow> foldl (tracker_observe height statuses) (st, []) (enumerate 0 sigs))"

function tracker_batches :: "tracker_env \<Rightarrow> u64 \<Rightarrow> 512 word list \<Rightarrow> tracking \<Rightarrow> tracking \<times> StateChange list" where
  "tracker_batches env height [] st = (st, [])"
| "tracker_batches env height (s # ss) st =
    (case tracker_batch env height (take MAX_BATCH_SIZE (s # ss)) st of (st', chs) \<Rightarrow>
     (case tracker_batches env height (drop MAX_BATCH_SIZE (s # ss)) st' of (st'', chs') \<Rightarrow> (st'', chs @ chs')))"
  by pat_completeness auto
termination by (relation "measure (\<lambda>(_, _, ss, _). length ss)") (auto simp: MAX_BATCH_SIZE_def)

definition rebroadcast_due :: "tracker_env \<Rightarrow> u64 \<Rightarrow> TrackingRecord \<Rightarrow> bool" where
  "rebroadcast_due env height r \<longleftrightarrow> tr_state r = TsDropped \<and> tr_retry_count r < tk_max_retries env
     \<and> tr_signed_tx_bytes r \<noteq> None \<and> height \<le> tr_last_valid r"

text \<open>A rebroadcast sends the record's bytes once; a success starts the grace period anew.\<close>

definition tracker_rebroadcast :: "tracker_env \<Rightarrow> u64 \<Rightarrow> TrackingRecord \<Rightarrow> TrackingRecord" where
  "tracker_rebroadcast env height r =
    (if rebroadcast_due env height r then
       (if tk_rebroadcast env (the (tr_signed_tx_bytes r))
        then r\<lparr>tr_retry_count := tr_retry_count r + 1, tr_state := TsSubmitted, tr_submission := height\<rparr>
        else r\<lparr>tr_retry_count := tr_retry_count r + 1\<rparr>)
     else r)"

text \<open>A tick visits the map in an order of its own. The last component are the bytes sent again.\<close>

definition tracker_tick ::
  "tracker_env \<Rightarrow> 512 word list \<Rightarrow> u64 \<Rightarrow> tracking \<Rightarrow> tracking \<times> StateChange list \<times> u8 list list" where
  "tracker_tick env order counter st =
    (if st = Map.empty then (st, [], [])
     else case tk_height env of
       None \<Rightarrow> (st, [], [])
     | Some height \<Rightarrow>
       let eligible = filter (\<lambda>sig. case st sig of None \<Rightarrow> False | Some r \<Rightarrow> tracker_eligible counter height r) order in
       if eligible = [] then (st, [], [])
       else (case tracker_batches env height eligible st of (st1, chs) \<Rightarrow>
         (map_option (tracker_rebroadcast env height) \<circ> st1 |` {sig. case st1 sig of None \<Rightarrow> False
            | Some r \<Rightarrow> should_continue_tracking (tracker_rebroadcast env height r) height},
          chs,
          concat (map (\<lambda>sig. case st1 sig of None \<Rightarrow> [] | Some r \<Rightarrow>
            if rebroadcast_due env height r then [the (tr_signed_tx_bytes r)] else []) order))))"

section \<open>Properties\<close>

definition null_observation :: "RpcObservation \<Rightarrow> bool" where
  "null_observation obs \<longleftrightarrow> ob_status obs = None \<and> ob_err obs = None"

lemma next_state_monotone: "tx_precedence s \<le> tx_precedence (calculate_next_state s obs h sub lv)"
  by (cases s) (auto simp: calculate_next_state_def next_on_null_def split: option.splits)

lemma next_state_expired:
  "calculate_next_state s obs h sub lv = TsExpired \<longleftrightarrow>
     (s \<in> {TsSubmitted, TsDropped} \<and> null_observation obs \<and> h > lv)
     \<or> (s = TsExpired \<and> ob_err obs = None \<and> ob_status obs \<notin> {Some ''finalized'', Some ''confirmed''})"
  by (cases s) (auto simp: calculate_next_state_def next_on_null_def null_observation_def split: option.splits if_splits)

text \<open>A run of polls of one transaction: the observation and the block height of each.\<close>

definition poll_run :: "u64 \<Rightarrow> u64 \<Rightarrow> TxState \<Rightarrow> (RpcObservation \<times> u64) list \<Rightarrow> TxState" where
  "poll_run sub lv s polls = foldl (\<lambda>s (obs, h). calculate_next_state s obs h sub lv) s polls"

lemma poll_run_simps [simp]:
  "poll_run sub lv s [] = s"
  "poll_run sub lv s ((obs, h) # polls) = poll_run sub lv (calculate_next_state s obs h sub lv) polls"
  by (simp_all add: poll_run_def)

lemma poll_run_monotone: "tx_precedence s \<le> tx_precedence (poll_run sub lv s polls)"
proof (induction polls arbitrary: s)
  case (Cons p polls)
  obtain obs h where p: "p = (obs, h)" by (cases p)
  show ?case using Cons.IH [of "calculate_next_state s obs h sub lv"] next_state_monotone [of s obs h sub lv]
    by (simp add: p)
qed simp

lemma poll_run_append: "poll_run sub lv s (xs @ ys) = poll_run sub lv (poll_run sub lv s xs) ys"
  by (simp add: poll_run_def)

lemma settled_stays: "tx_precedence s \<ge> 3 \<Longrightarrow> poll_run sub lv s polls = s"
proof (induction polls)
  case (Cons p polls)
  then have "calculate_next_state s (fst p) (snd p) sub lv = s" by (cases s) (simp_all add: calculate_next_state_def)
  with Cons show ?case by (cases p) simp
qed simp

text \<open>
  What a run of polls says of a transaction just submitted, read off the reports without the intermediate states: the first
  report of an error or of finality settles it; else the first report of a confirmation; else a missing record beyond the last
  valid height, or, failing that, one after the grace period.\<close>

definition reported_slot :: "RpcObservation \<Rightarrow> u64" where
  "reported_slot obs = (case ob_slot obs of Some s \<Rightarrow> s | None \<Rightarrow> 0)"

definition settles :: "RpcObservation \<times> u64 \<Rightarrow> bool" where
  "settles = (\<lambda>(obs, h). ob_err obs \<noteq> None \<or> ob_status obs = Some ''finalized'')"

definition confirms :: "RpcObservation \<times> u64 \<Rightarrow> bool" where
  "confirms = (\<lambda>(obs, h). ob_err obs = None \<and> ob_status obs = Some ''confirmed'')"

definition poll_outcome :: "u64 \<Rightarrow> u64 \<Rightarrow> (RpcObservation \<times> u64) list \<Rightarrow> TxState" where
  "poll_outcome sub lv xs = (case find settles xs of
     Some (obs, _) \<Rightarrow> (case ob_err obs of Some e \<Rightarrow> TsFailed e | None \<Rightarrow> TsFinalized (reported_slot obs))
   | None \<Rightarrow> (case find confirms xs of
       Some (obs, _) \<Rightarrow> TsConfirmed (reported_slot obs)
     | None \<Rightarrow>
       if \<exists>(obs, h) \<in> set xs. null_observation obs \<and> h > lv then TsExpired
       else if \<exists>(obs, h) \<in> set xs. null_observation obs \<and> saturating_sub h sub \<ge> DROPPED_GRACE_BLOCKS then TsDropped
       else TsSubmitted))"

lemma find_snoc: "find P (xs @ [x]) = (case find P xs of Some y \<Rightarrow> Some y | None \<Rightarrow> if P x then Some x else None)"
  by (induction xs) auto

lemma poll_outcome_snoc:
  "poll_outcome sub lv (xs @ [(obs, h)]) = calculate_next_state (poll_outcome sub lv xs) obs h sub lv"
proof (cases "find settles xs")
  case (Some p)
  then show ?thesis
    by (auto simp: poll_outcome_def find_snoc calculate_next_state_def split: prod.splits option.splits)
next
  case None
  note quiet = None
  show ?thesis
  proof (cases "find confirms xs")
    case (Some p)
    then show ?thesis using quiet
      by (cases "ob_err obs"; cases "ob_status obs")
        (auto simp: poll_outcome_def find_snoc calculate_next_state_def next_on_null_def settles_def confirms_def
          reported_slot_def split: prod.splits option.splits)
  next
    case None
    then show ?thesis using quiet
      by (cases "ob_err obs"; cases "ob_status obs")
        (auto simp: poll_outcome_def find_snoc calculate_next_state_def next_on_null_def settles_def confirms_def
          reported_slot_def null_observation_def)
  qed
qed

lemma poll_run_outcome: "poll_run sub lv TsSubmitted xs = poll_outcome sub lv xs"
proof (induction xs rule: rev_induct)
  case Nil
  show ?case by (simp add: poll_outcome_def)
next
  case (snoc p xs)
  then show ?case by (cases p) (simp add: poll_run_append poll_outcome_snoc)
qed

text \<open>
  C29: the life cycle of a submitted transaction. A run of polls from submission ends in the state its reports say: failed
  with the error or finalized at the slot of the first report of an error or of finality, whichever came first; without one,
  confirmed at the slot of the first report of a confirmation; without that, expired exactly if some poll found no record
  of the transaction beyond the last valid height, and dropped if one found none after the grace period. And from any state,
  whatever the node reports in any order of polls, the state never loses rank; once finalized or failed it does not change;
  once confirmed it never expires or drops.\<close>

theorem tx_lifecycle_sound:
  "poll_run sub lv TsSubmitted xs = poll_outcome sub lv xs
   \<and> tx_precedence (poll_run sub lv s xs) \<le> tx_precedence (poll_run sub lv s (xs @ ys))
   \<and> (tx_precedence (poll_run sub lv s xs) \<ge> 3 \<longrightarrow> poll_run sub lv s (xs @ ys) = poll_run sub lv s xs)
   \<and> ((\<exists>n. poll_run sub lv s xs = TsConfirmed n) \<longrightarrow> poll_run sub lv s (xs @ ys) \<notin> {TsSubmitted, TsDropped, TsExpired})
   \<and> (poll_run sub lv TsSubmitted xs = TsExpired \<longrightarrow> (\<exists>(obs, h) \<in> set xs. null_observation obs \<and> h > lv))"
proof (intro conjI impI)
  show "poll_run sub lv TsSubmitted xs = poll_outcome sub lv xs" by (rule poll_run_outcome)
  show mono: "tx_precedence (poll_run sub lv s xs) \<le> tx_precedence (poll_run sub lv s (xs @ ys))"
    by (simp add: poll_run_append poll_run_monotone)
  show "poll_run sub lv s (xs @ ys) = poll_run sub lv s xs" if "tx_precedence (poll_run sub lv s xs) \<ge> 3"
    using settled_stays [OF that] by (simp add: poll_run_append)
  show "poll_run sub lv s (xs @ ys) \<notin> {TsSubmitted, TsDropped, TsExpired}" if "\<exists>n. poll_run sub lv s xs = TsConfirmed n"
    using mono that by auto
  show "\<exists>(obs, h) \<in> set xs. null_observation obs \<and> h > lv" if "poll_run sub lv TsSubmitted xs = TsExpired"
    using that by (simp add: poll_run_outcome poll_outcome_def split: option.splits prod.splits if_splits)
qed

theorem tx_lifecycle_sound_witness:
  "let null = \<lparr>ob_status = None, ob_err = None, ob_slot = None\<rparr>;
       fin = \<lparr>ob_status = Some ''finalized'', ob_err = None, ob_slot = Some 9\<rparr>;
       conf = \<lparr>ob_status = Some ''confirmed'', ob_err = None, ob_slot = Some 8\<rparr> in
   poll_run 0 100 TsSubmitted ([(null, 60), (null, 101)] @ [(conf, 102)]) = TsConfirmed 8
   \<and> poll_run 0 100 TsSubmitted [(null, 60), (null, 101)] = TsExpired
   \<and> poll_outcome 0 100 [(null, 60), (null, 101)] = TsExpired
   \<and> (\<exists>(obs, h) \<in> set [(null, 60), (null, 101)]. null_observation obs \<and> h > (100 :: u64))
   \<and> poll_run 0 100 TsSubmitted ([(fin, 50)] @ [(null, 200)]) = TsFinalized 9
   \<and> poll_run 0 100 TsSubmitted ([(conf, 50)] @ [(null, 200)]) \<notin> {TsSubmitted, TsDropped, TsExpired}"
proof -
  let ?null = "\<lparr>ob_status = None, ob_err = None, ob_slot = None\<rparr>"
  let ?fin = "\<lparr>ob_status = Some ''finalized'', ob_err = None, ob_slot = Some 9\<rparr>"
  let ?conf = "\<lparr>ob_status = Some ''confirmed'', ob_err = None, ob_slot = Some 8\<rparr>"
  have runs: "poll_run 0 100 TsSubmitted [(?null, 60), (?null, 101)] = TsExpired"
    "poll_run 0 100 TsSubmitted [(?null, 60), (?null, 101), (?conf, 102)] = TsConfirmed 8"
    "poll_run 0 100 TsSubmitted [(?fin, 50)] = TsFinalized 9" "poll_run 0 100 TsSubmitted [(?conf, 50)] = TsConfirmed 8"
    by (simp_all add: calculate_next_state_def next_on_null_def DROPPED_GRACE_BLOCKS_def saturating_sub_def)
  show ?thesis
    using runs tx_lifecycle_sound [of 0 100 "[(?null, 60), (?null, 101)]" TsSubmitted "[(?conf, 102)]"]
      tx_lifecycle_sound [of 0 100 "[(?fin, 50)]" TsSubmitted "[(?null, 200)]"]
      tx_lifecycle_sound [of 0 100 "[(?conf, 50)]" TsSubmitted "[(?null, 200)]"]
    unfolding Let_def by (intro conjI) (simp_all del: poll_run_simps)
qed

text \<open>An error that only a single validator has reported is final at once.\<close>

lemma processed_error_is_final:
  "poll_run sub lv TsSubmitted
     ((\<lparr>ob_status = Some ''processed'', ob_err = Some e, ob_slot = Some n\<rparr>, h) # polls) = TsFailed e"
  using settled_stays [of "TsFailed e"] by (simp add: calculate_next_state_def)

text \<open>While the transaction is tracked, a late report overrides an expiry.\<close>

lemma expiry_overridden:
  "poll_run sub lv TsExpired [(\<lparr>ob_status = Some ''confirmed'', ob_err = None, ob_slot = Some n\<rparr>, h)] = TsConfirmed n"
  by (simp add: calculate_next_state_def)

section \<open>Rebroadcasts are bounded\<close>

definition retries_left :: "u32 \<Rightarrow> tracking \<Rightarrow> 512 word \<Rightarrow> nat" where
  "retries_left limit st sig = (case st sig of None \<Rightarrow> 0 | Some r \<Rightarrow> unat limit - unat (tr_retry_count r))"

lemma tracker_apply_keeps [simp]: "tr_retry_count (tracker_apply h obs r) = tr_retry_count r"
  by (simp add: tracker_apply_def Let_def)

lemma tracker_observe_keeps:
  "retries_left limit (fst (tracker_observe h statuses acc x)) = retries_left limit (fst acc)"
  by (cases acc; cases x) (auto simp: tracker_observe_def retries_left_def Let_def fun_eq_iff split: option.splits)

lemma tracker_batch_keeps:
  assumes "tracker_batch env h sigs st = (st', chs)"
  shows "retries_left limit st' = retries_left limit st"
proof -
  have fold: "retries_left limit (fst (foldl (tracker_observe h statuses) acc xs)) = retries_left limit (fst acc)" for statuses acc xs
    by (induction xs arbitrary: acc) (simp_all add: tracker_observe_keeps)
  show ?thesis
  proof (cases "tk_statuses env sigs")
    case (Some statuses)
    then show ?thesis using assms fold [of statuses "(st, [])" "enumerate 0 sigs"] by (simp add: tracker_batch_def)
  qed (use assms in \<open>simp add: tracker_batch_def\<close>)
qed

lemma tracker_batches_keeps:
  "tracker_batches env h sigs st = (st', chs) \<Longrightarrow> retries_left limit st' = retries_left limit st"
  by (induction env h sigs st arbitrary: st' chs rule: tracker_batches.induct)
    (auto split: prod.splits dest: tracker_batch_keeps)

lemma rebroadcast_step:
  "(if rebroadcast_due env h r then 1 else 0) + (unat (tk_max_retries env) - unat (tr_retry_count (tracker_rebroadcast env h r)))
   \<le> unat (tk_max_retries env) - unat (tr_retry_count r)"
proof (cases "rebroadcast_due env h r")
  case True
  then have lt: "tr_retry_count r < tk_max_retries env" by (simp add: rebroadcast_due_def)
  then have "unat (tr_retry_count r + 1) = Suc (unat (tr_retry_count r))"
  proof -
    have "unat (tk_max_retries env) < 2 ^ LENGTH(32)" by (rule unsigned_less)
    with lt show ?thesis by (simp add: word_less_nat_alt unat_word_ariths)
  qed
  with lt True show ?thesis by (auto simp: tracker_rebroadcast_def word_less_nat_alt)
qed (simp add: tracker_rebroadcast_def)

lemma concat_budget:
  assumes "\<And>x. length (f x) + g x \<le> h x"
  shows "length (concat (map f xs)) + (\<Sum>x \<leftarrow> xs. g x) \<le> (\<Sum>x \<leftarrow> xs. h x :: nat)"
proof (induction xs)
  case (Cons x xs)
  then show ?case using assms [of x] by simp
qed simp

lemma tick_rebroadcasts:
  assumes "tracker_tick env order c st = (st', chs, sent)"
  shows "length sent + (\<Sum>sig \<leftarrow> order. retries_left (tk_max_retries env) st' sig)
     \<le> (\<Sum>sig \<leftarrow> order. retries_left (tk_max_retries env) st sig)"
proof -
  let ?left = "retries_left (tk_max_retries env)"
  consider (idle) "st' = st" "sent = []"
    | (polled) h st1 where "?left st1 = ?left st"
        "st' = map_option (tracker_rebroadcast env h) \<circ> st1 |` {sig. case st1 sig of None \<Rightarrow> False
            | Some r \<Rightarrow> should_continue_tracking (tracker_rebroadcast env h r) h}"
        "sent = concat (map (\<lambda>sig. case st1 sig of None \<Rightarrow> [] | Some r \<Rightarrow>
            if rebroadcast_due env h r then [the (tr_signed_tx_bytes r)] else []) order)"
  proof (cases "tk_height env")
    case (Some h)
    let ?eligible = "filter (\<lambda>sig. case st sig of None \<Rightarrow> False | Some r \<Rightarrow> tracker_eligible c h r) order"
    obtain st1 chs' where b: "tracker_batches env h ?eligible st = (st1, chs')" by fastforce
    show ?thesis
    proof (cases "st = Map.empty \<or> ?eligible = []")
      case True
      then have "tracker_tick env order c st = (st, [], [])" using Some by (elim disjE) (simp_all add: tracker_tick_def Let_def)
      with assms that(1) show ?thesis by simp
    next
      case False
      then show ?thesis using assms Some b tracker_batches_keeps [OF b]
        by (intro that(2) [of st1 h]) (simp_all add: tracker_tick_def Let_def)
    qed
  next
    case None
    then have "tracker_tick env order c st = (st, [], [])" by (simp add: tracker_tick_def)
    with assms that(1) show ?thesis by simp
  qed
  then show ?thesis
  proof cases
    case polled
    have "length (case st1 sig of None \<Rightarrow> [] | Some r \<Rightarrow> if rebroadcast_due env h r then [the (tr_signed_tx_bytes r)] else [])
        + ?left st' sig \<le> ?left st1 sig" for sig
      using rebroadcast_step [of env h "the (st1 sig)"]
      by (cases "st1 sig") (auto simp: polled(2) retries_left_def restrict_map_def split: if_splits)
    then have "length sent + (\<Sum>sig \<leftarrow> order. ?left st' sig) \<le> (\<Sum>sig \<leftarrow> order. ?left st1 sig)"
      unfolding polled(3) by (rule concat_budget)
    then show ?thesis by (simp add: polled(1))
  qed simp
qed

fun tracker_run :: "u32 \<Rightarrow> 512 word list \<Rightarrow> (tracker_env \<times> u64) list \<Rightarrow> tracking \<Rightarrow> u8 list list" where
  "tracker_run limit order [] st = []"
| "tracker_run limit order ((env, c) # ticks) st =
    (case tracker_tick (env\<lparr>tk_max_retries := limit\<rparr>) order c st of (st', _, sent) \<Rightarrow> sent @ tracker_run limit order ticks st')"

text \<open>
  The tracker rebroadcasts a transaction a bounded number of times. Over any number of ticks, with any answers of the
  node, it sends again at most \<open>max_retries\<close> times the number of transactions it tracks.\<close>

theorem tracker_rebroadcasts_bounded:
  "length (tracker_run limit order ticks st) \<le> unat limit * length order"
proof -
  have "length (tracker_run limit order ticks st) \<le> (\<Sum>sig \<leftarrow> order. retries_left limit st sig)"
  proof (induction ticks arbitrary: st)
    case (Cons t ticks)
    obtain env c where t: "t = (env, c)" by (cases t)
    obtain st' chs sent where tick: "tracker_tick (env\<lparr>tk_max_retries := limit\<rparr>) order c st = (st', chs, sent)"
      by (metis prod_cases3)
    show ?case using tick_rebroadcasts [OF tick] Cons.IH [of st'] by (simp add: t tick)
  qed simp
  also have "\<dots> \<le> (\<Sum>sig \<leftarrow> order. unat limit)"
    by (intro sum_list_mono) (simp add: retries_left_def split: option.splits)
  finally show ?thesis by (simp add: sum_list_triv mult.commute)
qed

end
