(* ===== verification/Solend_Confirmation.thy ===== *)
theory Solend_Confirmation
  imports Solend_Submit Tx_Lifecycle
begin

text \<open>
  \<open>crates/gateway/src/integrations/solend_lifecycle.rs\<close>, \<open>solend_confirmation.rs\<close> and \<open>runtime/solend_submit_wiring.rs\<close>: the
  recorded outcome of each signing request, the tracker that follows a broadcast transaction and sends it again, and the
  handlers of the two routes. The node, the clock and what other tasks do between two calls are \<open>confirm_node\<close> and
  \<open>handler_env\<close>.
\<close>

section \<open>Recorded outcomes\<close>

datatype RecordedSubmitOutcome =
    RsSubmitted string uuid pubkey u64 u64
  | RsConfirming string u64 uuid pubkey u64
  | RsFinalized string u64 uuid pubkey u64
  | RsExecutionFailed string uuid pubkey string
  | RsConfirmationTimeout string u64 u64 string
  | RsExpired string
  | RsRejected string string
  | RsBroadcastFailed string string

fun rs_precedence :: "RecordedSubmitOutcome \<Rightarrow> nat" where
  "rs_precedence (RsSubmitted _ _ _ _ _) = 10"
| "rs_precedence (RsConfirming _ _ _ _ _) = 20"
| "rs_precedence (RsFinalized _ _ _ _ _) = 90"
| "rs_precedence (RsExecutionFailed _ _ _ _) = 90"
| "rs_precedence (RsConfirmationTimeout _ _ _ _) = 90"
| "rs_precedence (RsExpired _) = 100"
| "rs_precedence (RsRejected _ _) = 100"
| "rs_precedence (RsBroadcastFailed _ _) = 100"

fun rs_is_terminal :: "RecordedSubmitOutcome \<Rightarrow> bool" where
  "rs_is_terminal (RsSubmitted _ _ _ _ _) = False"
| "rs_is_terminal (RsConfirming _ _ _ _ _) = False"
| "rs_is_terminal _ = True"

fun rs_tx_signature :: "RecordedSubmitOutcome \<Rightarrow> string option" where
  "rs_tx_signature (RsSubmitted s _ _ _ _) = Some s"
| "rs_tx_signature (RsConfirming s _ _ _ _) = Some s"
| "rs_tx_signature (RsFinalized s _ _ _ _) = Some s"
| "rs_tx_signature (RsExecutionFailed s _ _ _) = Some s"
| "rs_tx_signature (RsConfirmationTimeout s _ _ _) = Some s"
| "rs_tx_signature _ = None"

record RecordedSubmission =
  rs_session_id :: uuid
  rs_outcome :: RecordedSubmitOutcome
  rs_recorded_at :: instant
  rs_expires_at :: instant

type_synonym lifecycle_store = "uuid \<rightharpoonup> RecordedSubmission"

text \<open>The first record of a request wins.\<close>

definition lifecycle_record ::
  "instant \<Rightarrow> int \<Rightarrow> uuid \<Rightarrow> uuid \<Rightarrow> RecordedSubmitOutcome \<Rightarrow> lifecycle_store \<Rightarrow> bool \<times> lifecycle_store" where
  "lifecycle_record now ttl rid sid out st = (case st rid of
     Some _ \<Rightarrow> (False, st)
   | None \<Rightarrow> (True, st(rid \<mapsto> \<lparr>rs_session_id = sid, rs_outcome = out, rs_recorded_at = now, rs_expires_at = now + ttl\<rparr>)))"

definition lifecycle_transition :: "uuid \<Rightarrow> uuid \<Rightarrow> RecordedSubmitOutcome \<Rightarrow> lifecycle_store \<Rightarrow> bool \<times> lifecycle_store" where
  "lifecycle_transition rid sid out st = (case st rid of
     None \<Rightarrow> (False, st)
   | Some e \<Rightarrow>
     if rs_session_id e \<noteq> sid then (False, st)
     else if rs_is_terminal (rs_outcome e) then (False, st)
     else if rs_precedence out \<le> rs_precedence (rs_outcome e) then (False, st)
     else (True, st(rid \<mapsto> e\<lparr>rs_outcome := out\<rparr>)))"

definition outcome_is_terminal :: "uuid \<Rightarrow> lifecycle_store \<Rightarrow> bool" where
  "outcome_is_terminal rid st = (case st rid of None \<Rightarrow> False | Some e \<Rightarrow> rs_is_terminal (rs_outcome e))"

definition non_terminal_snapshot ::
  "instant \<Rightarrow> uuid list \<Rightarrow> lifecycle_store \<Rightarrow> (uuid \<times> uuid \<times> RecordedSubmitOutcome) list" where
  "non_terminal_snapshot now order st = concat (map (\<lambda>rid. case st rid of
     None \<Rightarrow> []
   | Some e \<Rightarrow> if rs_expires_at e > now \<and> \<not> rs_is_terminal (rs_outcome e) then [(rid, rs_session_id e, rs_outcome e)] else [])
   order)"

definition lookup_for_session ::
  "instant \<Rightarrow> uuid \<Rightarrow> uuid \<Rightarrow> lifecycle_store \<Rightarrow> RecordedSubmission option \<times> lifecycle_store" where
  "lookup_for_session now sid rid st = (case st rid of
     None \<Rightarrow> (None, st)
   | Some e \<Rightarrow> if rs_expires_at e \<le> now then (None, st(rid := None))
       else if rs_session_id e \<noteq> sid then (None, st) else (Some e, st))"

definition lifecycle_cleanup :: "instant \<Rightarrow> lifecycle_store \<Rightarrow> lifecycle_store" where
  "lifecycle_cleanup now st = (\<lambda>rid. case st rid of None \<Rightarrow> None | Some e \<Rightarrow> if rs_expires_at e \<le> now then None else Some e)"

section \<open>The tracker\<close>

definition MAX_CONFIRMATION_REBROADCAST_ATTEMPTS :: u32 where "MAX_CONFIRMATION_REBROADCAST_ATTEMPTS = 6"
definition CONFIRMATION_REBROADCAST_INTERVAL :: int where "CONFIRMATION_REBROADCAST_INTERVAL = 2000000000"
definition BLOCKHASH_GUARD_BUFFER_BLOCKS :: u64 where "BLOCKHASH_GUARD_BUFFER_BLOCKS = 5"

definition AUDIT_EVENT_CONFIRMATION_STARTED :: string where "AUDIT_EVENT_CONFIRMATION_STARTED = ''solend_transaction_confirmation_started''"
definition AUDIT_EVENT_CONFIRMATION_CONFIRMED :: string where "AUDIT_EVENT_CONFIRMATION_CONFIRMED = ''solend_transaction_confirmed''"
definition AUDIT_EVENT_CONFIRMATION_FINALIZED :: string where "AUDIT_EVENT_CONFIRMATION_FINALIZED = ''solend_transaction_finalized''"
definition AUDIT_EVENT_CONFIRMATION_FAILED :: string where "AUDIT_EVENT_CONFIRMATION_FAILED = ''solend_transaction_failed''"
definition AUDIT_EVENT_CONFIRMATION_TIMEOUT :: string where
  "AUDIT_EVENT_CONFIRMATION_TIMEOUT = ''solend_transaction_confirmation_timeout''"
definition AUDIT_EVENT_CONFIRMATION_POLL_ERROR :: string where
  "AUDIT_EVENT_CONFIRMATION_POLL_ERROR = ''solend_transaction_confirmation_poll_error''"
definition AUDIT_EVENT_TRANSACTION_REBROADCAST_ATTEMPT :: string where
  "AUDIT_EVENT_TRANSACTION_REBROADCAST_ATTEMPT = ''solend_transaction_rebroadcast_attempt''"
definition AUDIT_EVENT_BLOCKHASH_EXPIRED_DURING_CONFIRMATION :: string where
  "AUDIT_EVENT_BLOCKHASH_EXPIRED_DURING_CONFIRMATION = ''solend_transaction_blockhash_expired_during_confirmation''"

record SolendTrackedContext =
  sc_request_id :: uuid
  sc_intent_id :: uuid
  sc_session_id :: uuid
  sc_wallet :: pubkey
  sc_last_valid :: u64
  sc_submission :: u64
  sc_state :: TxState
  sc_signed_bytes :: "u8 list option"
  sc_enqueued_at :: int
  sc_attempts :: u32
  sc_last_rebroadcast_at :: "int option"
  sc_guard_audited :: bool

type_synonym tracked = "signature \<rightharpoonup> SolendTrackedContext"

definition new_submitted ::
  "int \<Rightarrow> uuid \<Rightarrow> uuid \<Rightarrow> uuid \<Rightarrow> pubkey \<Rightarrow> u64 \<Rightarrow> u64 \<Rightarrow> u8 list option \<Rightarrow> SolendTrackedContext" where
  "new_submitted now rid iid sid wallet last_valid submission bytes = \<lparr>sc_request_id = rid, sc_intent_id = iid,
     sc_session_id = sid, sc_wallet = wallet, sc_last_valid = last_valid, sc_submission = submission,
     sc_state = TsSubmitted, sc_signed_bytes = bytes, sc_enqueued_at = now, sc_attempts = 0,
     sc_last_rebroadcast_at = None, sc_guard_audited = False\<rparr>"

datatype TrackResult = Started | AlreadyTracked | AlreadyTerminal

record confirm_node =
  cn_block_height :: "string + u64"
  cn_statuses :: "signature list \<Rightarrow> string + RpcObservation option list"
  cn_rebroadcast :: "signature \<Rightarrow> u8 list \<Rightarrow> string + string"
  cn_now :: "signature \<Rightarrow> int"
  cn_display :: display_env
  cn_show_signature :: "signature \<Rightarrow> string"

definition context_event ::
  "confirm_node \<Rightarrow> SolendTrackedContext \<Rightarrow> string \<Rightarrow> audit_severity \<Rightarrow> (string \<times> json) list \<Rightarrow> effect" where
  "context_event env c name sev payload = Audited \<lparr>ev_name = name,
     ev_correlation_id = show_uuid (cn_display env) (sc_request_id c),
     ev_session_id = Some (show_uuid (cn_display env) (sc_session_id c)), ev_severity = sev, ev_payload = JObject payload\<rparr>"

definition context_fields :: "confirm_node \<Rightarrow> SolendTrackedContext \<Rightarrow> string \<Rightarrow> (string \<times> json) list" where
  "context_fields env c wallet_field = [
     (''signing_request_id'', JString (show_uuid (cn_display env) (sc_request_id c))),
     (''intent_id'', JString (show_uuid (cn_display env) (sc_intent_id c))),
     (''session_id'', JString (show_uuid (cn_display env) (sc_session_id c))),
     (wallet_field, JString (show_key (cn_display env) (sc_wallet c)))]"

definition enqueue ::
  "confirm_node \<Rightarrow> lifecycle_store \<Rightarrow> signature \<Rightarrow> SolendTrackedContext \<Rightarrow> tracked \<Rightarrow> TrackResult \<times> tracked \<times> effect list" where
  "enqueue env lc sig c tr =
    (if outcome_is_terminal (sc_request_id c) lc then (AlreadyTerminal, tr, [])
     else case tr sig of
       Some _ \<Rightarrow> (AlreadyTracked, tr, [])
     | None \<Rightarrow> (Started, tr(sig \<mapsto> c), [context_event env c AUDIT_EVENT_CONFIRMATION_STARTED SevInfo
         (context_fields env c ''session_wallet'' @ [(''tx_signature'', JString (cn_show_signature env sig)),
            (''last_valid_block_height'', json_u64 (sc_last_valid c)),
            (''submission_block_height'', json_u64 (sc_submission c))])]))"

text \<open>What a change of state records: the outcome, the event, its severity and the commitment label.\<close>

definition change_outcome ::
  "string \<Rightarrow> SolendTrackedContext \<Rightarrow> u64 \<Rightarrow> TxState \<Rightarrow> (RecordedSubmitOutcome \<times> string \<times> audit_severity \<times> string) option" where
  "change_outcome sig_text c height new_state = (case new_state of
     TsSubmitted \<Rightarrow> None
   | TsDropped \<Rightarrow> None
   | TsConfirmed s \<Rightarrow> Some (RsConfirming sig_text s (sc_intent_id c) (sc_wallet c) (sc_last_valid c),
       AUDIT_EVENT_CONFIRMATION_CONFIRMED, SevInfo, ''confirmed'')
   | TsFinalized s \<Rightarrow> Some (RsFinalized sig_text s (sc_intent_id c) (sc_wallet c) (sc_last_valid c),
       AUDIT_EVENT_CONFIRMATION_FINALIZED, SevInfo, ''finalized'')
   | TsFailed e \<Rightarrow> Some (RsExecutionFailed sig_text (sc_intent_id c) (sc_wallet c) e,
       AUDIT_EVENT_CONFIRMATION_FAILED, SevWarning, ''failed'')
   | TsExpired \<Rightarrow> Some (RsConfirmationTimeout sig_text (sc_last_valid c) height
       (''current_block_height '' @ show_nat (unat height) @ '' > last_valid_block_height ''
          @ show_nat (unat (sc_last_valid c)) @ '' without finalized observation''),
       AUDIT_EVENT_CONFIRMATION_TIMEOUT, SevWarning, ''expired''))"

definition on_state_change ::
  "confirm_node \<Rightarrow> u64 \<Rightarrow> signature \<Rightarrow> SolendTrackedContext \<Rightarrow> TxState \<Rightarrow> lifecycle_store \<Rightarrow> lifecycle_store \<times> effect list" where
  "on_state_change env height sig c new_state lc =
    (case change_outcome (cn_show_signature env sig) c height new_state of
       None \<Rightarrow> (lc, [])
     | Some (out, name, sev, commitment) \<Rightarrow>
       (case lifecycle_transition (sc_request_id c) (sc_session_id c) out lc of
          (False, lc') \<Rightarrow> (lc', [])
        | (True, lc') \<Rightarrow> (lc', [context_event env c name sev (context_fields env c ''session_wallet'' @ [
            (''tx_signature'', JString (cn_show_signature env sig)),
            (''last_valid_block_height'', json_u64 (sc_last_valid c)),
            (''current_block_height'', json_u64 height),
            (''slot'', json_opt_u64 (tx_slot new_state)),
            (''err'', (case new_state of TsFailed e \<Rightarrow> JString e | _ \<Rightarrow> JNull)),
            (''commitment'', JString commitment)])])))"

definition to_observation :: "RpcObservation option \<Rightarrow> RpcObservation" where
  "to_observation x = (case x of None \<Rightarrow> \<lparr>ob_status = None, ob_err = None, ob_slot = None\<rparr> | Some s \<Rightarrow> s)"

definition observe_one ::
  "confirm_node \<Rightarrow> u64 \<Rightarrow> signature \<times> RpcObservation option \<Rightarrow> tracked \<times> lifecycle_store \<Rightarrow>
   (tracked \<times> lifecycle_store) \<times> effect list" where
  "observe_one env height x s = (case (x, s) of ((sig, status), (tr, lc)) \<Rightarrow> (case tr sig of
     None \<Rightarrow> ((tr, lc), [])
   | Some c \<Rightarrow> (let new_state = calculate_next_state (sc_state c) (to_observation status) height (sc_submission c) (sc_last_valid c) in
       if new_state = sc_state c then ((tr, lc), [])
       else (case on_state_change env height sig c new_state lc of (lc', effs) \<Rightarrow>
         ((tr(sig \<mapsto> c\<lparr>sc_state := new_state\<rparr>), lc'), effs)))))"

definition rebroadcast_attempt_event ::
  "confirm_node \<Rightarrow> u64 \<Rightarrow> signature \<Rightarrow> SolendTrackedContext \<Rightarrow> string + string \<Rightarrow> effect" where
  "rebroadcast_attempt_event env height sig c res = context_event env c AUDIT_EVENT_TRANSACTION_REBROADCAST_ATTEMPT
     (case res of Inr _ \<Rightarrow> SevInfo | Inl _ \<Rightarrow> SevWarning) (context_fields env c ''wallet'' @ [
       (''tx_signature'', JString (cn_show_signature env sig)),
       (''attempt_n'', json_u64 (ucast (sc_attempts c + 1))),
       (''max_attempts'', json_u64 (ucast MAX_CONFIRMATION_REBROADCAST_ATTEMPTS)),
       (''current_block_height'', json_u64 height),
       (''last_valid_block_height'', json_u64 (sc_last_valid c)),
       (''remaining_block_budget'', json_u64 (saturating_sub (sc_last_valid c) height)),
       (''rpc_outcome'', JString (case res of Inr _ \<Rightarrow> ''ok'' | Inl _ \<Rightarrow> ''error''))]
       @ (case res of Inr _ \<Rightarrow> [] | Inl m \<Rightarrow> [(''error_kind'', JString ''SendError''), (''error_message'', JString m)]))"

definition interval_due :: "int \<Rightarrow> SolendTrackedContext \<Rightarrow> bool" where
  "interval_due now c \<longleftrightarrow> max 0 (now - (case sc_last_rebroadcast_at c of Some t \<Rightarrow> t | None \<Rightarrow> sc_enqueued_at c))
     \<ge> CONFIRMATION_REBROADCAST_INTERVAL"

text \<open>The rebroadcast pass for one transaction that the node did not report this tick.\<close>

definition rebroadcast_one ::
  "confirm_node \<Rightarrow> u64 \<Rightarrow> signature \<Rightarrow> SolendTrackedContext \<Rightarrow> SolendTrackedContext \<times> effect list" where
  "rebroadcast_one env height sig c =
    (if tx_is_terminal (sc_state c) then (c, [])
     else case sc_signed_bytes c of
       None \<Rightarrow> (c, [])
     | Some bytes \<Rightarrow>
       if sc_attempts c \<ge> MAX_CONFIRMATION_REBROADCAST_ATTEMPTS then (c, [])
       else if saturating_add height BLOCKHASH_GUARD_BUFFER_BLOCKS \<ge> sc_last_valid c then
         (c\<lparr>sc_guard_audited := True\<rparr>, if sc_guard_audited c then [] else
            [context_event env c AUDIT_EVENT_BLOCKHASH_EXPIRED_DURING_CONFIRMATION SevWarning (context_fields env c ''wallet'' @ [
              (''tx_signature'', JString (cn_show_signature env sig)),
              (''current_block_height'', json_u64 height),
              (''last_valid_block_height'', json_u64 (sc_last_valid c)),
              (''guard_buffer_blocks'', json_u64 BLOCKHASH_GUARD_BUFFER_BLOCKS),
              (''rebroadcast_attempts'', json_u64 (ucast (sc_attempts c)))])])
       else if \<not> interval_due (cn_now env sig) c then (c, [])
       else (c\<lparr>sc_attempts := sc_attempts c + 1, sc_last_rebroadcast_at := Some (cn_now env sig)\<rparr>,
          [Broadcast bytes, rebroadcast_attempt_event env height sig c (cn_rebroadcast env sig bytes)]))"

definition poll_error_event :: "(string \<times> json) list \<Rightarrow> effect" where
  "poll_error_event payload = Audited \<lparr>ev_name = AUDIT_EVENT_CONFIRMATION_POLL_ERROR, ev_correlation_id = ''unknown'',
     ev_session_id = None, ev_severity = SevWarning, ev_payload = JObject payload\<rparr>"

fun run_effects :: "('a \<Rightarrow> 's \<Rightarrow> 's \<times> effect list) \<Rightarrow> 'a list \<Rightarrow> 's \<Rightarrow> 's \<times> effect list" where
  "run_effects f [] s = (s, [])"
| "run_effects f (x # xs) s = (case f x s of (s', e) \<Rightarrow> (case run_effects f xs s' of (s'', e') \<Rightarrow> (s'', e @ e')))"

definition rebroadcast_pass_one ::
  "confirm_node \<Rightarrow> u64 \<Rightarrow> signature set \<Rightarrow> signature \<Rightarrow> tracked \<times> lifecycle_store \<Rightarrow> (tracked \<times> lifecycle_store) \<times> effect list" where
  "rebroadcast_pass_one env height observed sig s = (case s of (tr, lc) \<Rightarrow>
     if sig \<in> observed then (s, [])
     else (case tr sig of
       None \<Rightarrow> (s, [])
     | Some c \<Rightarrow> (case rebroadcast_one env height sig c of (c', effs) \<Rightarrow> ((tr(sig \<mapsto> c'), lc), effs))))"

definition prune_terminal :: "tracked \<Rightarrow> tracked" where
  "prune_terminal tr = (\<lambda>sig. case tr sig of None \<Rightarrow> None | Some c \<Rightarrow> if tx_is_terminal (sc_state c) then None else Some c)"

definition tick_once ::
  "confirm_node \<Rightarrow> signature list \<Rightarrow> tracked \<times> lifecycle_store \<Rightarrow> (tracked \<times> lifecycle_store) \<times> effect list" where
  "tick_once env sigs s =
    (case cn_block_height env of
       Inl e \<Rightarrow> (s, [poll_error_event [(''error'', JString e), (''phase'', JString ''current_block_height'')]])
     | Inr height \<Rightarrow>
       if sigs = [] then (s, [])
       else (case cn_statuses env sigs of
         Inl e \<Rightarrow> (s, [poll_error_event [(''error'', JString e), (''phase'', JString ''get_signature_statuses''),
           (''batch_size'', json_u64 (word_of_nat (length sigs)))]])
       | Inr statuses \<Rightarrow>
         (case run_effects (observe_one env height) (zip sigs statuses) s of (s1, e1) \<Rightarrow>
         (case run_effects (rebroadcast_pass_one env height (set (map fst (filter (\<lambda>p. snd p \<noteq> None) (zip sigs statuses))))) sigs s1 of
            (s2, e2) \<Rightarrow> ((prune_terminal (fst s2), snd s2), e1 @ e2)))))"

section \<open>The routes\<close>

datatype SolendSubmitResult =
    SrSubmitted uuid uuid string string u64 u64
  | SrRecovered uuid string int
  | SrNotFound
  | SrExpired string
  | SrRejected string string
  | SrBroadcastFailed uuid string string

datatype SolendRetrievalResult =
    RtFound SigningHandoffSummary string "u8 list"
  | RtSubmitted uuid uuid string u64
  | RtConfirming uuid uuid string u64 u64
  | RtFinalized uuid uuid string u64
  | RtFailed uuid uuid string string
  | RtConfirmationTimeout uuid string u64 u64 bool string
  | RtRejected uuid string string
  | RtBroadcastFailed uuid string string
  | RtPreSubmitExpired string
  | RtNotFound

text \<open>What the two routes answer from the record alone; a timestamp is given in milliseconds.\<close>

fun recovered_to_retrieval_result :: "uuid \<Rightarrow> RecordedSubmitOutcome \<Rightarrow> SolendRetrievalResult" where
  "recovered_to_retrieval_result rid (RsSubmitted sig iid _ _ lv) = RtSubmitted rid iid sig lv"
| "recovered_to_retrieval_result rid (RsConfirming sig sl iid _ lv) = RtConfirming rid iid sig sl lv"
| "recovered_to_retrieval_result rid (RsFinalized sig sl iid _ _) = RtFinalized rid iid sig sl"
| "recovered_to_retrieval_result rid (RsExecutionFailed sig iid _ err) = RtFailed rid iid sig err"
| "recovered_to_retrieval_result rid (RsConfirmationTimeout sig lv cur reason) = RtConfirmationTimeout rid sig lv cur True reason"
| "recovered_to_retrieval_result rid (RsRejected kind msg) = RtRejected rid kind msg"
| "recovered_to_retrieval_result rid (RsBroadcastFailed kind msg) = RtBroadcastFailed rid kind msg"
| "recovered_to_retrieval_result rid (RsExpired reason) = RtPreSubmitExpired reason"

definition recovered_to_submit_result :: "uuid \<Rightarrow> RecordedSubmission \<Rightarrow> SolendSubmitResult" where
  "recovered_to_submit_result rid r = (case rs_outcome r of
     RsExpired reason \<Rightarrow> SrExpired reason
   | RsRejected kind msg \<Rightarrow> SrRejected kind msg
   | RsBroadcastFailed kind msg \<Rightarrow> SrBroadcastFailed rid kind msg
   | out \<Rightarrow> SrRecovered rid (the (rs_tx_signature out)) (rs_recorded_at r div 1000000))"

record server_state =
  sv_signing :: SolendSigningStore
  sv_lifecycle :: lifecycle_store
  sv_tracked :: tracked

text \<open>
  The environment of one call of a route: what other tasks do to the stores before the pipeline, after it and before the
  enqueueing (\<open>hd_other\<close>), the clock at each use, the tracker when one is attached.\<close>

record 'm handler_env =
  hd_sdk :: "'m sdk_env"
  hd_submit :: submit_env
  hd_tracker :: "confirm_node option"
  hd_other :: "nat \<Rightarrow> server_state \<Rightarrow> server_state"
  hd_peek_at :: instant
  hd_lookup_at :: instant
  hd_record_at :: instant
  hd_ttl :: int
  hd_submission_height :: "string + u64"
  hd_parse_signature :: "string \<Rightarrow> string + signature"
  hd_enqueue_at :: int

definition lookup_answer :: "'m handler_env \<Rightarrow> uuid \<Rightarrow> uuid \<Rightarrow> server_state \<Rightarrow> SolendSubmitResult \<times> server_state" where
  "lookup_answer env sid rid s = (case lookup_for_session (hd_lookup_at env) sid rid (sv_lifecycle s) of
     (Some r, lc) \<Rightarrow> (recovered_to_submit_result rid r, s\<lparr>sv_lifecycle := lc\<rparr>)
   | (None, lc) \<Rightarrow> (SrNotFound, s\<lparr>sv_lifecycle := lc\<rparr>))"

definition handler_record :: "'m handler_env \<Rightarrow> uuid \<Rightarrow> uuid \<Rightarrow> RecordedSubmitOutcome \<Rightarrow> server_state \<Rightarrow> server_state" where
  "handler_record env sid rid out s =
    s\<lparr>sv_lifecycle := snd (lifecycle_record (hd_record_at env) (hd_ttl env) rid sid out (sv_lifecycle s))\<rparr>"

definition enqueue_parse_event :: "display_env \<Rightarrow> uuid \<Rightarrow> uuid \<Rightarrow> string \<Rightarrow> string \<Rightarrow> effect" where
  "enqueue_parse_event d sid rid sig err = Audited \<lparr>ev_name = AUDIT_EVENT_CONFIRMATION_POLL_ERROR,
     ev_correlation_id = show_uuid d rid, ev_session_id = Some (show_uuid d sid), ev_severity = SevWarning,
     ev_payload = JObject [(''signing_request_id'', JString (show_uuid d rid)), (''tx_signature'', JString sig),
       (''error'', JString err), (''phase'', JString ''enqueue_parse_signature'')]\<rparr>"

definition start_confirmation ::
  "'m handler_env \<Rightarrow> uuid \<Rightarrow> uuid \<Rightarrow> uuid \<Rightarrow> string \<Rightarrow> pubkey \<Rightarrow> u64 \<Rightarrow> u8 list \<Rightarrow> server_state \<Rightarrow> server_state \<times> effect list" where
  "start_confirmation env sid rid iid sig wallet last_valid bytes s = (case hd_tracker env of
     None \<Rightarrow> (s, [])
   | Some node \<Rightarrow>
     (let s' = hd_other env 2 s;
          height = (case hd_submission_height env of Inr h \<Rightarrow> h | Inl _ \<Rightarrow> last_valid) in
      case hd_parse_signature env sig of
        Inl err \<Rightarrow> (s', [enqueue_parse_event (se_display (hd_submit env)) sid rid sig err])
      | Inr parsed \<Rightarrow>
          (case enqueue node (sv_lifecycle s') parsed
             (new_submitted (hd_enqueue_at env) rid iid sid wallet last_valid height (Some bytes)) (sv_tracked s') of
             (_, tr, effs) \<Rightarrow> (s'\<lparr>sv_tracked := tr\<rparr>, effs))))"

definition finish_submit ::
  "'m handler_env \<Rightarrow> uuid \<Rightarrow> uuid \<Rightarrow> SolendSubmitOutcome \<Rightarrow> server_state \<Rightarrow> SolendSubmitResult \<times> server_state \<times> effect list" where
  "finish_submit env sid rid out s = (case out of
     SubSubmitted sig rid' iid wallet sl last_valid bytes \<Rightarrow>
       (case start_confirmation env sid rid' iid sig wallet last_valid bytes
               (handler_record env sid rid' (RsSubmitted sig iid wallet sl last_valid) s) of
          (s', effs) \<Rightarrow> (SrSubmitted rid' iid (show_key (se_display (hd_submit env)) wallet) sig sl last_valid, s', effs))
   | SubNotFound \<Rightarrow> (case lookup_answer env sid rid s of (r, s') \<Rightarrow> (r, s', []))
   | SubExpired reason \<Rightarrow> (SrExpired reason, handler_record env sid rid (RsExpired reason) s, [])
   | SubRejected kind msg \<Rightarrow> (SrRejected kind msg, handler_record env sid rid (RsRejected kind msg) s, [])
   | SubBroadcastFailed kind msg rid' \<Rightarrow>
       (SrBroadcastFailed rid' kind msg, handler_record env sid rid (RsBroadcastFailed kind msg) s, []))"

definition handler_submit ::
  "'m handler_env \<Rightarrow> uuid \<Rightarrow> uuid \<Rightarrow> string \<Rightarrow> server_state \<Rightarrow> (SolendSubmitResult \<times> server_state \<times> effect list) option" where
  "handler_submit env sid rid signed_b64 s =
    (case summary_for_session (hd_peek_at env) sid rid (sv_signing s) of
       (None, st) \<Rightarrow> (case lookup_answer env sid rid (s\<lparr>sv_signing := st\<rparr>) of (r, s') \<Rightarrow> Some (r, s', []))
     | (Some _, st) \<Rightarrow>
       (let s1 = hd_other env 0 (s\<lparr>sv_signing := st\<rparr>) in
        case submit_signed_solend_transaction (hd_sdk env) (hd_submit env) rid signed_b64 (sv_signing s1) of
          (None, _) \<Rightarrow> None
        | (Some (out, effs), st') \<Rightarrow>
          (case finish_submit env sid rid out (hd_other env 1 (s1\<lparr>sv_signing := st'\<rparr>)) of
             (r, s2, effs') \<Rightarrow> Some (r, s2, effs @ effs'))))"

definition handler_retrieve ::
  "display_env \<Rightarrow> instant \<Rightarrow> uuid \<Rightarrow> uuid \<Rightarrow> server_state \<Rightarrow> SolendRetrievalResult \<times> server_state" where
  "handler_retrieve d now sid rid s = (case tx_bytes_for_session now sid rid (sv_signing s) of
     (Some (su, bytes), st) \<Rightarrow> (RtFound su (show_key d (su_session_wallet su)) bytes, s\<lparr>sv_signing := st\<rparr>)
   | (None, st) \<Rightarrow> (case lookup_for_session now sid rid (sv_lifecycle s) of
       (Some r, lc) \<Rightarrow> (recovered_to_retrieval_result rid (rs_outcome r), s\<lparr>sv_signing := st, sv_lifecycle := lc\<rparr>)
     | (None, lc) \<Rightarrow> (RtNotFound, s\<lparr>sv_signing := st, sv_lifecycle := lc\<rparr>)))"

text \<open>The recovery of a replaced handler: what is recorded as not final is followed again, without its bytes.\<close>

fun recovery_context :: "int \<Rightarrow> uuid \<Rightarrow> uuid \<Rightarrow> RecordedSubmitOutcome \<Rightarrow> (string \<times> SolendTrackedContext) option" where
  "recovery_context now rid sid (RsSubmitted sig iid wallet _ lv) = Some (sig, new_submitted now rid iid sid wallet lv 0 None)"
| "recovery_context now rid sid (RsConfirming sig _ iid wallet lv) = Some (sig, new_submitted now rid iid sid wallet lv 0 None)"
| "recovery_context now rid sid _ = None"

definition recover_one ::
  "'m handler_env \<Rightarrow> confirm_node \<Rightarrow> lifecycle_store \<Rightarrow> uuid \<times> uuid \<times> RecordedSubmitOutcome \<Rightarrow> tracked \<Rightarrow> tracked \<times> effect list" where
  "recover_one env node lc x tr = (case x of (rid, sid, out) \<Rightarrow>
     (case recovery_context (hd_enqueue_at env) rid sid out of
        None \<Rightarrow> (tr, [])
      | Some (sig, c) \<Rightarrow> (case hd_parse_signature env sig of
          Inl _ \<Rightarrow> (tr, [])
        | Inr parsed \<Rightarrow> snd (enqueue node lc parsed c tr))))"

definition recover_tracker ::
  "'m handler_env \<Rightarrow> confirm_node \<Rightarrow> instant \<Rightarrow> uuid list \<Rightarrow> lifecycle_store \<Rightarrow> tracked \<Rightarrow> tracked \<times> effect list" where
  "recover_tracker env node now order lc tr = run_effects (recover_one env node lc) (non_terminal_snapshot now order lc) tr"

section \<open>What a tick does\<close>

text \<open>A record only moves up, and not at all once it is final.\<close>

definition record_le :: "lifecycle_store \<Rightarrow> lifecycle_store \<Rightarrow> bool" where
  "record_le lc lc' \<longleftrightarrow> dom lc' = dom lc \<and> (\<forall>rid e e'. lc rid = Some e \<and> lc' rid = Some e' \<longrightarrow>
     e' = e \<or> (\<not> rs_is_terminal (rs_outcome e) \<and> rs_precedence (rs_outcome e) < rs_precedence (rs_outcome e')
       \<and> rs_session_id e' = rs_session_id e \<and> rs_expires_at e' = rs_expires_at e))"

lemma rs_precedence_terminal: "rs_is_terminal x \<longleftrightarrow> 90 \<le> rs_precedence x"
  by (cases x) simp_all

lemma record_le_refl [simp]: "record_le lc lc"
  by (auto simp: record_le_def)

lemma record_le_trans:
  assumes "record_le a b" "record_le b c"
  shows "record_le a c"
  unfolding record_le_def
proof (intro conjI allI impI)
  show "dom c = dom a" using assms by (simp add: record_le_def)
  fix rid e e'' assume ends: "a rid = Some e \<and> c rid = Some e''"
  then have "rid \<in> dom b" using assms(1) by (auto simp: record_le_def)
  then obtain e' where mid: "b rid = Some e'" by auto
  have "e' = e \<or> (\<not> rs_is_terminal (rs_outcome e) \<and> rs_precedence (rs_outcome e) < rs_precedence (rs_outcome e')
       \<and> rs_session_id e' = rs_session_id e \<and> rs_expires_at e' = rs_expires_at e)"
    using assms(1) ends mid unfolding record_le_def by blast
  moreover have "e'' = e' \<or> (\<not> rs_is_terminal (rs_outcome e') \<and> rs_precedence (rs_outcome e') < rs_precedence (rs_outcome e'')
       \<and> rs_session_id e'' = rs_session_id e' \<and> rs_expires_at e'' = rs_expires_at e')"
    using assms(2) ends mid unfolding record_le_def by blast
  ultimately show "e'' = e \<or> (\<not> rs_is_terminal (rs_outcome e) \<and> rs_precedence (rs_outcome e) < rs_precedence (rs_outcome e'')
       \<and> rs_session_id e'' = rs_session_id e \<and> rs_expires_at e'' = rs_expires_at e)"
    by fastforce
qed

lemma transition_le: "lifecycle_transition rid sid out lc = (b, lc') \<Longrightarrow> record_le lc lc'"
  by (auto simp: lifecycle_transition_def record_le_def split: option.splits if_splits)

text \<open>The first pass sends nothing, moves records up and changes only the states of the contexts.\<close>

lemma observe_step:
  assumes "observe_one env h x (tr, lc) = ((tr', lc'), effs)"
  shows "record_le lc lc' \<and> broadcasts effs = [] \<and> (\<forall>sig. map_option (sc_state_update (\<lambda>_. TsSubmitted)) (tr' sig)
      = map_option (sc_state_update (\<lambda>_. TsSubmitted)) (tr sig))"
proof -
  obtain sig st where [simp]: "x = (sig, st)" by fastforce
  show ?thesis
  proof (cases "tr sig")
    case (Some c)
    define new where "new = calculate_next_state (sc_state c) (to_observation st) h (sc_submission c) (sc_last_valid c)"
    show ?thesis
    proof (cases "new = sc_state c")
      case False
      obtain lc2 effs2 where change: "on_state_change env h sig c new lc = (lc2, effs2)" by fastforce
      then have "record_le lc lc2" "broadcasts effs2 = []"
        by (auto simp: on_state_change_def context_event_def split: option.splits prod.splits bool.splits
            dest: transition_le)
      then show ?thesis using assms Some False change
        by (auto simp: observe_one_def Let_def simp flip: new_def)
    qed (use assms Some in \<open>simp add: observe_one_def Let_def new_def [symmetric]\<close>)
  qed (use assms in \<open>simp add: observe_one_def\<close>)
qed

lemma observe_pass:
  assumes "run_effects (observe_one env h) xs (tr, lc) = ((tr', lc'), effs)"
  shows "record_le lc lc' \<and> broadcasts effs = [] \<and> (\<forall>sig. map_option (sc_state_update (\<lambda>_. TsSubmitted)) (tr' sig)
      = map_option (sc_state_update (\<lambda>_. TsSubmitted)) (tr sig))"
  using assms
proof (induction xs arbitrary: tr lc effs)
  case (Cons x xs)
  obtain tr1 lc1 e1 where one: "observe_one env h x (tr, lc) = ((tr1, lc1), e1)" by (metis surj_pair)
  obtain e2 where rest: "run_effects (observe_one env h) xs (tr1, lc1) = ((tr', lc'), e2)" "effs = e1 @ e2"
    using Cons.prems one by (auto split: prod.splits)
  from Cons.IH [OF rest(1)] observe_step [OF one] show ?case
    by (auto simp: rest(2) intro: record_le_trans)
qed simp

text \<open>What one rebroadcast needs: bytes, attempts left, and a block hash that stays valid beyond the guard.\<close>

definition may_rebroadcast :: "u64 \<Rightarrow> SolendTrackedContext \<Rightarrow> u8 list \<Rightarrow> bool" where
  "may_rebroadcast h c bs \<longleftrightarrow> sc_signed_bytes c = Some bs \<and> sc_attempts c < MAX_CONFIRMATION_REBROADCAST_ATTEMPTS
     \<and> unat h + 5 < unat (sc_last_valid c)"

lemma guard_height:
  assumes "\<not> saturating_add h BLOCKHASH_GUARD_BUFFER_BLOCKS \<ge> (lv :: u64)"
  shows "unat h + 5 < unat lv"
proof -
  have "unat (saturating_add h BLOCKHASH_GUARD_BUFFER_BLOCKS) < unat lv" using assms by (simp add: not_le word_less_nat_alt)
  moreover have "unat lv \<le> 2 ^ 64 - 1" using unsigned_less [of lv, where 'a = nat] by simp
  ultimately show ?thesis by (simp add: unat_saturating_add BLOCKHASH_GUARD_BUFFER_BLOCKS_def)
qed

lemma rebroadcast_one_sends:
  assumes "rebroadcast_one env h sig c = (c', effs)"
  shows "sc_attempts c' = sc_attempts c + of_nat (length (broadcasts effs)) \<and> length (broadcasts effs) \<le> 1
    \<and> (\<forall>bs \<in> set (broadcasts effs). may_rebroadcast h c bs)"
  using assms
  by (auto simp: rebroadcast_one_def may_rebroadcast_def not_le context_event_def rebroadcast_attempt_event_def guard_height
      dest: guard_height split: if_splits option.splits)

text \<open>The second pass sends for signatures without an answer only, at most once for each.\<close>

lemma rebroadcast_pass:
  assumes "distinct sigs" "run_effects (rebroadcast_pass_one env h seen) sigs (tr, lc) = ((tr', lc'), effs)"
  shows "lc' = lc \<and> length (broadcasts effs) \<le> length sigs
    \<and> (\<forall>bs \<in> set (broadcasts effs). \<exists>sig \<in> set sigs - seen. \<exists>c. tr sig = Some c \<and> may_rebroadcast h c bs)"
  using assms
proof (induction sigs arbitrary: tr effs)
  case (Cons sig sigs)
  show ?case
  proof (cases "sig \<in> seen \<or> tr sig = None")
    case True
    then have skip: "rebroadcast_pass_one env h seen sig (tr, lc) = ((tr, lc), [])"
      by (auto simp: rebroadcast_pass_one_def)
    with Cons.prems(2) have "run_effects (rebroadcast_pass_one env h seen) sigs (tr, lc) = ((tr', lc'), effs)"
      by (auto split: prod.splits)
    from Cons.IH [OF _ this] Cons.prems(1) show ?thesis by (simp add: le_SucI) blast
  next
    case False
    then obtain c where c: "tr sig = Some c" "sig \<notin> seen" by auto
    obtain c' e1 where one: "rebroadcast_one env h sig c = (c', e1)" by fastforce
    with c have "rebroadcast_pass_one env h seen sig (tr, lc) = ((tr(sig \<mapsto> c'), lc), e1)"
      by (simp add: rebroadcast_pass_one_def)
    with Cons.prems(2) obtain e2 where
      rest: "run_effects (rebroadcast_pass_one env h seen) sigs (tr(sig \<mapsto> c'), lc) = ((tr', lc'), e2)" "effs = e1 @ e2"
      by (auto split: prod.splits)
    have other: "(tr(sig \<mapsto> c')) sig' = tr sig'" if "sig' \<in> set sigs" for sig'
      using that Cons.prems(1) by auto
    from Cons.IH [OF _ rest(1)] Cons.prems(1) have tail: "lc' = lc" "length (broadcasts e2) \<le> length sigs"
      "\<forall>bs \<in> set (broadcasts e2). \<exists>sig' \<in> set sigs - seen. \<exists>c. (tr(sig \<mapsto> c')) sig' = Some c \<and> may_rebroadcast h c bs"
      by simp_all
    from tail(3) other have "\<forall>bs \<in> set (broadcasts e2). \<exists>sig' \<in> set sigs - seen. \<exists>c. tr sig' = Some c \<and> may_rebroadcast h c bs"
      by (metis DiffD1)
    moreover have "\<forall>bs \<in> set (broadcasts e1). may_rebroadcast h c bs" "length (broadcasts e1) \<le> 1"
      using rebroadcast_one_sends [OF one] by simp_all
    ultimately show ?thesis using tail(1,2) c by (simp add: rest(2)) blast
  qed
qed simp

text \<open>
  C27: the confirmation tracker is safe at every tick. The recorded outcome of a request only moves up, and one that is final is
  never replaced; whatever is sent again are the very bytes of a tracked transaction that has attempts left, whose block hash
  stays valid for more than the guard of five blocks and for which the node reported nothing; and at most one copy is sent
  for each tracked transaction.\<close>

theorem confirmation_tick_safe:
  assumes tick: "tick_once env sigs (tr, lc) = ((tr', lc'), effs)" and sigs: "distinct sigs"
  shows "record_le lc lc' \<and> length (broadcasts effs) \<le> length sigs
    \<and> (\<forall>bs \<in> set (broadcasts effs). \<exists>sig \<in> set sigs. \<exists>c h sts. tr sig = Some c \<and> may_rebroadcast h c bs
         \<and> cn_block_height env = Inr h \<and> cn_statuses env sigs = Inr sts \<and> (\<forall>st. (sig, Some st) \<notin> set (zip sigs sts)))"
proof (cases "\<exists>h sts. cn_block_height env = Inr h \<and> cn_statuses env sigs = Inr sts \<and> sigs \<noteq> []")
  case True
  then obtain h sts where ok: "cn_block_height env = Inr h" "cn_statuses env sigs = Inr sts" "sigs \<noteq> []" by blast
  let ?seen = "set (map fst (filter (\<lambda>p. snd p \<noteq> None) (zip sigs sts)))"
  obtain tr1 lc1 e1 where one: "run_effects (observe_one env h) (zip sigs sts) (tr, lc) = ((tr1, lc1), e1)" by (metis surj_pair)
  obtain tr2 lc2 e2 where two: "run_effects (rebroadcast_pass_one env h ?seen) sigs (tr1, lc1) = ((tr2, lc2), e2)" by (metis surj_pair)
  have res: "lc' = lc2" "effs = e1 @ e2" using tick ok one two by (auto simp: tick_once_def)
  note first = observe_pass [OF one] and second = rebroadcast_pass [OF sigs two]
  have unseen: "(sig, Some st) \<notin> set (zip sigs sts)" if "sig \<notin> ?seen" for sig st
    using that by force
  have "\<exists>c. tr sig = Some c \<and> may_rebroadcast h c bs" if "tr1 sig = Some c" "may_rebroadcast h c bs" for sig c bs
  proof -
    have "map_option (sc_state_update (\<lambda>_. TsSubmitted)) (tr sig) = Some (sc_state_update (\<lambda>_. TsSubmitted) c)"
      using first that(1) by (metis option.simps(9))
    then obtain c0 where "tr sig = Some c0" "c0\<lparr>sc_state := TsSubmitted\<rparr> = c\<lparr>sc_state := TsSubmitted\<rparr>" by auto
    moreover from this(2) have "may_rebroadcast h c0 bs" using that(2)
      unfolding may_rebroadcast_def by (cases c, cases c0) simp
    ultimately show ?thesis by blast
  qed
  then have "\<forall>bs \<in> set (broadcasts e2). \<exists>sig \<in> set sigs - ?seen. \<exists>c. tr sig = Some c \<and> may_rebroadcast h c bs"
    using second by blast
  then have "\<forall>bs \<in> set (broadcasts effs). \<exists>sig \<in> set sigs. \<exists>c h sts. tr sig = Some c \<and> may_rebroadcast h c bs
       \<and> cn_block_height env = Inr h \<and> cn_statuses env sigs = Inr sts \<and> (\<forall>st. (sig, Some st) \<notin> set (zip sigs sts))"
    using ok first unseen unfolding res(2) broadcasts_simps by (metis DiffE append_Nil)
  then show ?thesis using first second by (simp add: res)
next
  case False
  then show ?thesis using tick
    by (auto simp: tick_once_def poll_error_event_def split: sum.splits if_splits)
qed

section \<open>A final record outlives a broadcast\<close>

lemma lookup_store: "lookup_for_session now sid rid lc = (r, lc') \<Longrightarrow> lc' = lc \<or> lc' = lc(rid := None)"
  by (auto simp: lookup_for_session_def split: option.splits if_splits)

lemma malformed_stays:
  assumes "se_base64_decode (hd_submit env) bad = Inl msg" "hd_other env = (\<lambda>n s. s)"
    "sv_signing s rid = Some p" "ps_expires_at p > hd_peek_at env" "ps_session_id p = sid" "sv_lifecycle s rid = None"
    "handler_submit env sid rid bad s = Some (r, s', effs)"
  shows "r = SrRejected ''MalformedBase64'' (''base64 decode: '' @ msg) \<and> sv_signing s' = sv_signing s
    \<and> sv_tracked s' = sv_tracked s \<and> broadcasts effs = []
    \<and> (\<exists>e. sv_lifecycle s' rid = Some e \<and> rs_session_id e = sid \<and> rs_expires_at e = hd_record_at env + hd_ttl env
         \<and> rs_outcome e = RsRejected ''MalformedBase64'' (''base64 decode: '' @ msg))"
  using assms
  by (auto simp: handler_submit_def summary_for_session_def submit_signed_solend_transaction_def finish_submit_def
      handler_record_def lifecycle_record_def Let_def)

lemma freshness_submitted:
  assumes "freshness_gate env rid e bytes t = (SubSubmitted sig rid' iid w sl lv bs, effs)"
  shows "rid' = rid \<and> broadcasts effs \<noteq> []"
proof -
  obtain h where "se_block_height env 1 = Inr h" "\<not> h > ps_last_valid_block_height e"
    using assms by (cases "se_block_height env 1") (auto simp: freshness_gate_def Let_def split: if_splits)
  moreover obtain res leffs where loop: "broadcast_loop env rid e bytes t h [1..<Suc MAX_BROADCAST_ATTEMPTS] None = (res, leffs)"
    by fastforce
  ultimately obtain sig' where "res = Inr sig'" "rid' = rid" "broadcasts effs = broadcasts leffs"
    using assms by (cases res) (auto simp: freshness_gate_def broadcast_verified_def Let_def)
  with broadcast_loop_sends [OF loop] show ?thesis by simp
qed

lemma submitted_sends:
  assumes "submit_signed_solend_transaction sdk env rid b64 st = (Some (SubSubmitted sig rid' iid w sl lv bs, effs), st')"
  shows "rid' = rid \<and> st' = st(rid := None) \<and> broadcasts effs \<noteq> []"
proof -
  obtain bytes tx where dec: "se_base64_decode env b64 = Inr bytes" "sdk_deserialize sdk bytes = Inr tx"
    using assms by (auto simp: submit_signed_solend_transaction_def Let_def split: sum.splits)
  obtain e where e: "consume (se_consumed_at env) rid st = (Some e, st')"
    using assms dec by (auto simp: submit_signed_solend_transaction_def Let_def split: option.splits prod.splits)
  obtain effs' where sub: "submit_consumed sdk env rid e bytes tx = Some (SubSubmitted sig rid' iid w sl lv bs, effs')"
    and effs: "broadcasts effs = broadcasts effs'"
    using assms dec e by (auto simp: submit_signed_solend_transaction_def Let_def)
  obtain t where "freshness_gate env rid e bytes t = (SubSubmitted sig rid' iid w sl lv bs, effs')"
    using sub unfolding submit_consumed_def Let_def by (auto split: sum.splits prod.splits Option.bind_splits)
  from freshness_submitted [OF this] effs e show ?thesis
    by (auto simp: consume_def split: option.splits if_splits)
qed

lemma lookup_never_submitted [simp]: "lookup_answer env sid rid s \<noteq> (SrSubmitted a b c d e f, s')"
  by (auto simp: lookup_answer_def recovered_to_submit_result_def split: option.splits prod.splits RecordedSubmitOutcome.splits)

lemma enqueue_terminal: "outcome_is_terminal (sc_request_id c) lc \<Longrightarrow> enqueue env lc sig c tr = (AlreadyTerminal, tr, [])"
  by (simp add: enqueue_def)

text \<open>A submission that broadcasts while a final record exists leaves the record, and follows nothing.\<close>

lemma submitted_over_terminal:
  assumes "handler_submit env sid rid b64 s = Some (SrSubmitted rid' iid w sig sl lv, s', effs)"
    "hd_other env = (\<lambda>n s. s)" "sv_lifecycle s rid = Some e" "rs_is_terminal (rs_outcome e)"
  shows "broadcasts effs \<noteq> [] \<and> sv_lifecycle s' = sv_lifecycle s \<and> sv_tracked s' = sv_tracked s \<and> sv_signing s' rid = None"
proof -
  obtain su st where peek: "summary_for_session (hd_peek_at env) sid rid (sv_signing s) = (Some su, st)"
    using assms(1) by (cases "summary_for_session (hd_peek_at env) sid rid (sv_signing s)"; cases "fst (summary_for_session (hd_peek_at env) sid rid (sv_signing s))")
      (auto simp: handler_submit_def split: prod.splits)
  obtain out effs1 st' where run: "submit_signed_solend_transaction (hd_sdk env) (hd_submit env) rid b64 st = (Some (out, effs1), st')"
    using assms(1,2) peek by (auto simp: handler_submit_def Let_def split: prod.splits option.splits)
  let ?s1 = "s\<lparr>sv_signing := st'\<rparr>"
  obtain effs2 where fin: "finish_submit env sid rid out ?s1 = (SrSubmitted rid' iid w sig sl lv, s', effs2)" "effs = effs1 @ effs2"
    using assms(1,2) peek run by (auto simp: handler_submit_def Let_def split: prod.splits)
  obtain wal bs where out: "out = SubSubmitted sig rid' iid wal sl lv bs"
    using fin(1) by (cases out) (auto simp: finish_submit_def split: prod.splits)
  note sent = submitted_sends [OF run [unfolded out]]
  have rec: "handler_record env sid rid x ?s1 = ?s1" for x
    using assms(3) by (simp add: handler_record_def lifecycle_record_def)
  have conf: "start_confirmation env sid rid iid sig wal lv bs ?s1 = (s', effs2)"
    using fin(1) conjunct1 [OF sent] by (auto simp: finish_submit_def out rec split: prod.splits)
  have "s' = ?s1"
    using conf assms(2,3,4)
    by (auto simp: start_confirmation_def Let_def enqueue_terminal outcome_is_terminal_def new_submitted_def
        split: option.splits sum.splits)
  with sent fin(2) show ?thesis by simp
qed

text \<open>
  C28: a malformed submission hides a later broadcast. A payload that is no base64 does not consume the signing request, yet its
  rejection is recorded as final. When the same user then sends the correctly signed transaction, it is broadcast and the
  route answers that it was submitted; but the record stays rejected, the confirmation tracker does not follow the
  transaction, and until the record expires the status route answers that the request was rejected.\<close>

theorem malformed_submission_hides_broadcast:
  assumes "sv_signing s rid = Some p" "ps_session_id p = sid" "ps_expires_at p > hd_peek_at env1" "sv_lifecycle s rid = None"
    and "se_base64_decode (hd_submit env1) bad = Inl msg" "hd_other env1 = (\<lambda>n s. s)" "hd_other env2 = (\<lambda>n s. s)"
    and "handler_submit env1 sid rid bad s = Some (r1, s1, effs1)"
    and "handler_submit env2 sid rid good s1 = Some (SrSubmitted rid' iid w sig sl lv, s2, effs2)"
    and "now < hd_record_at env1 + hd_ttl env1"
  shows "r1 = SrRejected ''MalformedBase64'' (''base64 decode: '' @ msg) \<and> broadcasts effs2 \<noteq> []
    \<and> sv_tracked s2 = sv_tracked s
    \<and> fst (handler_retrieve d now sid rid s2) = RtRejected rid ''MalformedBase64'' (''base64 decode: '' @ msg)"
proof -
  obtain e where first: "r1 = SrRejected ''MalformedBase64'' (''base64 decode: '' @ msg)" "sv_tracked s1 = sv_tracked s"
    "sv_lifecycle s1 rid = Some e" "rs_session_id e = sid" "rs_expires_at e = hd_record_at env1 + hd_ttl env1"
    "rs_outcome e = RsRejected ''MalformedBase64'' (''base64 decode: '' @ msg)"
    using malformed_stays [OF assms(5,6,1,3,2,4,8)] by blast
  from first(6) have "rs_is_terminal (rs_outcome e)" by simp
  from submitted_over_terminal [OF assms(9,7) first(3) this] first assms(10) show ?thesis
    by (simp add: handler_retrieve_def tx_bytes_for_session_def lookup_for_session_def)
qed

end
