(* ===== verification/Example_Confirmation.thy ===== *)
theory Example_Confirmation
  imports Example_Deposit Solend_Confirmation
begin

text \<open>
  The broadcast deposit of \<open>Example_Deposit\<close> followed by the tracker, and the two submissions of which the first is malformed.
\<close>

definition xc_node :: confirm_node where
  "xc_node = \<lparr>cn_block_height = Inr 160, cn_statuses = (\<lambda>sigs. Inr [None]), cn_rebroadcast = (\<lambda>sig bs. Inr ''sig''),
     cn_now = (\<lambda>sig. 3000000000), cn_display = xd_display, cn_show_signature = (\<lambda>sig. ''sig'')\<rparr>"

definition xc_context :: SolendTrackedContext where
  "xc_context = new_submitted 0 5 1 2 8 200 150 (Some [2])"

definition xc_lifecycle :: lifecycle_store where
  "xc_lifecycle = [5 \<mapsto> \<lparr>rs_session_id = 2, rs_outcome = RsSubmitted ''sig'' 1 8 100 200, rs_recorded_at = 20,
     rs_expires_at = 60000000000\<rparr>]"

theorem confirmation_tick_safe_witness:
  "\<exists>tr' lc' effs. tick_once xc_node [9] ([9 \<mapsto> xc_context], xc_lifecycle) = ((tr', lc'), effs)
     \<and> broadcasts effs = [[2]] \<and> may_rebroadcast 160 xc_context [2] \<and> record_le xc_lifecycle lc'"
proof -
  obtain tr' lc' effs where tick: "tick_once xc_node [9] ([9 \<mapsto> xc_context], xc_lifecycle) = ((tr', lc'), effs)"
    by (metis surj_pair)
  have "broadcasts effs = [[2]]"
    using tick
    by (simp add: tick_once_def observe_one_def rebroadcast_pass_one_def rebroadcast_one_def calculate_next_state_def
        next_on_null_def to_observation_def xc_node_def xc_context_def new_submitted_def saturating_sub_def saturating_add_def
        checked_sub_def checked_add_def DROPPED_GRACE_BLOCKS_def MAX_CONFIRMATION_REBROADCAST_ATTEMPTS_def
        BLOCKHASH_GUARD_BUFFER_BLOCKS_def interval_due_def CONFIRMATION_REBROADCAST_INTERVAL_def rebroadcast_attempt_event_def
        context_event_def) auto
  with confirmation_tick_safe [OF tick] tick show ?thesis by (auto simp: xc_node_def)
qed

definition xc_env :: "(string \<Rightarrow> string + u8 list) \<Rightarrow> xd_msg handler_env" where
  "xc_env decode = \<lparr>hd_sdk = xd_sdk, hd_submit = xd_submit\<lparr>se_base64_decode := decode\<rparr>, hd_tracker = Some xc_node,
     hd_other = (\<lambda>n s. s), hd_peek_at = 5, hd_lookup_at = 15, hd_record_at = 20, hd_ttl = 60000000000,
     hd_submission_height = Inr 150, hd_parse_signature = (\<lambda>s. Inr 9), hd_enqueue_at = 20\<rparr>"

definition xc_state :: server_state where
  "xc_state = \<lparr>sv_signing = [5 \<mapsto> xd_parked], sv_lifecycle = Map.empty, sv_tracked = Map.empty\<rparr>"

theorem malformed_submission_hides_broadcast_witness:
  "\<exists>r1 s1 e1 s2 e2. handler_submit (xc_env (\<lambda>s. Inl ''bad'')) 2 5 ''!'' xc_state = Some (r1, s1, e1)
     \<and> handler_submit (xc_env (\<lambda>s. Inr [2])) 2 5 ''tx'' s1 = Some (SrSubmitted 5 1 ''key'' ''sig'' 100 200, s2, e2)
     \<and> broadcasts e2 \<noteq> []
     \<and> fst (handler_retrieve xd_display 1000 2 5 s2) = RtRejected 5 ''MalformedBase64'' ''base64 decode: bad''"
proof -
  have parked: "ps_session_id xd_parked = 2" "ps_expires_at xd_parked = 60000000000" by (simp_all add: xd_parked_def)
  have env: "hd_sdk (xc_env f) = xd_sdk" "hd_submit (xc_env f) = xd_submit\<lparr>se_base64_decode := f\<rparr>"
    "hd_other (xc_env f) = (\<lambda>n s. s)" "hd_peek_at (xc_env f) = 5" "hd_record_at (xc_env f) = 20" "hd_ttl (xc_env f) = 60000000000"
    "se_display xd_submit = xd_display" "show_key xd_display 8 = ''key''" for f
    by (simp_all add: xc_env_def xd_submit_def xd_display_def)
  obtain r1 s1 e1 where first: "handler_submit (xc_env (\<lambda>s. Inl ''bad'')) 2 5 ''!'' xc_state = Some (r1, s1, e1)"
    by (simp add: handler_submit_def summary_for_session_def submit_signed_solend_transaction_def finish_submit_def
        xc_state_def parked env Let_def)
  have s1: "sv_signing s1 = [5 \<mapsto> xd_parked]"
    using malformed_stays [OF _ _ _ _ _ _ first, of "''bad''" xd_parked] by (simp add: env parked xc_state_def)
  have decode: "xd_submit\<lparr>se_base64_decode := \<lambda>s. Inr [2]\<rparr> = xd_submit" by (simp add: xd_submit_def)
  obtain effs where run: "submit_signed_solend_transaction xd_sdk xd_submit 5 ''tx'' [5 \<mapsto> xd_parked] = (Some (xd_submitted, effs), Map.empty)"
    by (rule xd_submit_runs)
  obtain s2 e3 where started: "start_confirmation (xc_env (\<lambda>s. Inr [2])) 2 5 1 ''sig'' 8 200 [2]
      (handler_record (xc_env (\<lambda>s. Inr [2])) 2 5 (RsSubmitted ''sig'' 1 8 100 200) (s1\<lparr>sv_signing := Map.empty\<rparr>)) = (s2, e3)"
    by fastforce
  obtain e2 where second: "handler_submit (xc_env (\<lambda>s. Inr [2])) 2 5 ''tx'' s1 = Some (SrSubmitted 5 1 ''key'' ''sig'' 100 200, s2, e2)"
    by (simp add: handler_submit_def summary_for_session_def s1 parked env decode run Let_def finish_submit_def xd_submitted_def
        started)
  from malformed_submission_hides_broadcast [OF _ _ _ _ _ _ _ first second, of xd_parked "''bad''" 1000 xd_display]
  have "broadcasts e2 \<noteq> [] \<and> fst (handler_retrieve xd_display 1000 2 5 s2) = RtRejected 5 ''MalformedBase64'' ''base64 decode: bad''"
    by (simp add: env parked xc_state_def)
  with first second show ?thesis by blast
qed

end
