(* ===== verification/Spec2Isabelle.thy ===== *)
theory Spec2Isabelle
  imports Example_Chain Example_Intent Example_Funding Example_Execution Example_Sender
    Example_Rules Risk_Budget Example_Lending Example_Confirmation
begin

text \<open>
  \<^bold>\<open>Solfrontier 2026: on-chain authority and off-chain conditional execution.\<close>

  The repository lets a user pre-commit to a conditional on-chain action. Its trust anchor are two
  Solana programs under \<^verbatim>\<open>src/programs\<close>: \<^verbatim>\<open>clawsol-authority\<close>, which keeps an authorization record per
  user and rule and lets a named executor act on it once, within a cap, before an expiry and under a
  verified market condition; and \<^verbatim>\<open>clawsol-intent\<close>, which records the hash of a canonical intent.
  Around them the crates under \<^verbatim>\<open>src/crates\<close> keep watch rules and funding intents in SQLite
  (\<^verbatim>\<open>state-store\<close>), confirm that a user funded an intent, and execute it: by an approved chat command
  or by a watcher, through a sender that builds, signs and broadcasts one Solend deposit (\<^verbatim>\<open>gateway\<close>).
  This development models both programs and that off-chain path, and proves what they guarantee.

  \<^bold>\<open>How the on-chain code is modelled.\<close> A handler is a function from the runtime, the program id, the
  account views and the decoded arguments to a world transformer that may fail:
  \<open>world \<Rightarrow> program_error + world\<close>. A failing handler returns an error and no world, which is the
  runtime's rollback. The world is the ledger, a function from addresses to accounts, so slots that
  name the same account alias as they do in the runtime, and the log of \<open>sol_log_data\<close> events.
  Integers are words of the source's width, checked operations are written out; \<open>[u8; N]\<close> is a word
  of \<open>8 * N\<close> bits. Rust's \<open>?\<close> is \<open>bindE\<close>, a loop with early return is \<open>foldE\<close>.

  \<^bold>\<open>How the off-chain code is modelled.\<close> A table is the list of its rows; a repository call is one SQL
  statement, applied atomically, with a verdict of the environment that says whether the driver
  failed: it returns the number of rows it changed or a \<open>StoreError\<close>, and the new table. A route or
  executor is a function from its environment, the request and the tables to the outcome and the new
  tables; between two of its calls an arbitrary function of the environment (\<open>other_tasks\<close>) stands
  for everything other tasks do to the tables meanwhile, and each theorem names what it asks of it.
  The result type has a value for a panic where the source can panic (\<open>None\<close>, \<open>Panics\<close>). Strings are
  byte lists, with UTF-8 validity and character boundaries defined on them (\<open>Rust_Text\<close>).

  \<^bold>\<open>What is a parameter.\<close> \<^verbatim>\<open>solana_program\<close> and the derived Borsh code of the instruction enum are not in
  the repository. They are the record \<open>runtime\<close> and its extensions \<open>authority_env\<close>,
  \<open>authority_runtime\<close> and \<open>intent_runtime\<close>: address derivation, clock, rent, \<open>create_account\<close>,
  \<open>invoke\<close>, \<open>invoke_signed\<close>, \<open>realloc\<close>, hashing, serializers. Theorems name what they rely on:
  \<open>create_account_law\<close>, \<open>invoke_law\<close> (other programs cannot write this program's accounts),
  \<open>realloc_law\<close>, \<open>zero_law\<close>, \<open>borsh_fixed\<close> (lossless, fixed length), bundled as \<open>platform_laws\<close>,
  \<open>chain_laws\<close>, \<open>intent_laws\<close>. For the three account types the documented Borsh layouts are defined
  and interpreted into that interface, and \<open>Example_Chain\<close> gives a runtime that satisfies all of it.
  Off chain the parameters are SHA-256, base58, base64 and serde (\<open>rule_codec\<close>, \<open>rpc_codec\<close>), HTTP
  exchanges, clocks and fetchers (\<open>confirm_env\<close>, \<open>exec_env\<close>, \<open>sender_env\<close>, \<open>poll_env\<close>, \<open>tick_env\<close>,
  \<open>eval_env\<close>, \<open>watcher_env\<close>, \<open>executor_env\<close>), the watcher's injected evaluator and simulator, the execution client,
  address derivation and signing; no theorem assumes that they succeed.

  \<^bold>\<open>Theories.\<close>

  \<^item> \<open>Prelude\<close>, \<open>Solana_Runtime\<close>, \<open>Borsh\<close>, \<open>State_Machine\<close>: results, checked words, byte slices, the
    walk interface for loops over a slice (locale \<open>walk\<close>); accounts, instructions and the runtime
    record; serializers and layouts (locales \<open>borsh_fixed\<close>, \<open>borsh_layout\<close>, \<open>fixed_layout\<close>); reachability,
    invariants, simulations (locales \<open>inductive_invariant\<close>, \<open>simulation\<close>, \<open>step_order\<close>).

  \<^item> \<open>Authority_Error\<close>, \<open>Authority_State\<close>: \<^verbatim>\<open>error.rs\<close>, \<^verbatim>\<open>state.rs\<close>.

  \<^item> \<open>Condition_Types\<close>, \<open>Wad_Math\<close>, \<open>Solend_Rate\<close>, \<open>Condition_Verifier\<close>: \<^verbatim>\<open>condition_verifier.rs\<close>. The
    256-bit long division computes the exact floor; the kinked borrow rate is monotone; the Pyth and
    Solend verifiers are characterized on every branch against exact decimal prices and the reference
    APR; a trigger with an adverse bound is robust over the confidence interval.

  \<^item> \<open>Solend_Account_Decode\<close>, \<open>Solend_Boundary\<close>, \<open>Jupiter_Boundary\<close>: \<^verbatim>\<open>solend_account_decode.rs\<close>,
    \<^verbatim>\<open>solend_boundary.rs\<close>, \<^verbatim>\<open>jupiter_boundary.rs\<close>. The verifiers accept exactly their declarative
    specifications; both sibling loops are instances of \<open>walk\<close>.

  \<^item> \<open>Solend_Cpi_Builder\<close>: \<^verbatim>\<open>solend_cpi_builder.rs\<close>. The validator, the oracle gate and the exact
    sequence of the three Solend calls; outside the pinned demo tuple it fails closed.

  \<^item> \<open>Jupiter_Bracket\<close>: \<^verbatim>\<open>jupiter_bracket.rs\<close>. A pre-check and a post-check bracket a gain; a
    checkpoint serves once; the minimum is the executor's choice.

  \<^item> \<open>Authority_Instruction\<close>, \<open>Authority_Program\<close>: \<^verbatim>\<open>instruction.rs\<close>, \<^verbatim>\<open>lib.rs\<close>. Payloads, builders,
    dispatcher and handlers; \<open>process_execute_action\<close> is composed of the blocks of the source.

  \<^item> \<open>Authority_Effects\<close>: what each handler accepts and writes; \<open>Authority_Lifecycle\<close>: the abstract
    lifecycle machine of one authorization, the proof that every instruction and every action of other
    programs refines it at every address, and the run-level guarantees: cap and single execution on
    every reachable chain, immutable terms, final revocation, and that the user can always revoke.

  \<^item> \<open>Intent_Program\<close>: \<^verbatim>\<open>clawsol-intent\<close>. Tamper evidence, permanence and soundness of the records.

  \<^item> \<open>Sql_Table\<close>, \<open>Rust_Text\<close>, \<open>Json\<close>, \<open>Prefix_Code\<close>: the SQL statements used, with the laws of a
    compare-and-set on a keyed table (locale \<open>cas_update\<close> and its interpretations); Rust strings, number
    parsing and printing; \<open>serde_json\<close> values; injective concatenation of Borsh fields (locale
    \<open>prefix_code\<close>).

  \<^item> \<open>Canonical_Intent\<close>, \<open>Watch_Rule\<close>: \<^verbatim>\<open>canonical_intent.rs\<close>, \<^verbatim>\<open>stage2_watch_rule.rs\<close>. The canonical
    bytes that are hashed determine the rule or intent, and never coincide between the two.

  \<^item> \<open>Watch_Rule_Store\<close>, \<open>Watch_Rule_Lifecycle\<close>, \<open>Rule_Ids\<close>: \<^verbatim>\<open>stage2_watch_rules.rs\<close>. A loaded rule
    hashes to its stored hash; an execution lease is won once; ids print and read back.

  \<^item> \<open>Funding_Store\<close>, \<open>Funding_Lifecycle\<close>: \<^verbatim>\<open>stage2_w5h_funding.rs\<close>. The abstract life cycle of a funding
    intent, refined by every call; execution and refund exclude each other; a reserved budget always
    has exactly one winnable lease; reachable rows decode.

  \<^item> \<open>Funding_Confirm\<close>, \<open>Funding_Evidence\<close>, \<open>Tx_Fetcher\<close>: \<^verbatim>\<open>stage2_w5h_funding_confirm.rs\<close>. The two
    verifiers against their specifications; no budget without a matching ledger payment, whatever
    the interleaving; the parser of \<^verbatim>\<open>getTransaction\<close> results.

  \<^item> \<open>Chat_Execute\<close>, \<open>Chat_Execute_Safety\<close>, \<open>Deposit_Once\<close>: the executor of \<^verbatim>\<open>stage2_chat_execute.rs\<close>. A
    deposit reaches the sender only through every gate, never after a refund lease, and never again
    after a reported signature; a failed broadcast is retried; when the executor panics.

  \<^item> \<open>Chat_Rpc\<close>, \<open>Live_Sender\<close>: the JSON-RPC layer, the polling loop and the live sender of the same
    file. The sender always returns, broadcasts at most one transaction, and only the requested
    deposit on the pinned market.

  \<^item> \<open>Auto_Execute\<close>: \<^verbatim>\<open>stage2_w5i_auto_execute.rs\<close>. The tick and its report; over any number of
    ticks no dispatch of a rule reaches the sender after one that reported a signature, and none is repeated but after a
    failure without a signature; how the watcher's gates relate to the executor's.

  \<^item> \<open>Gateway_Rate\<close>, \<open>Rule_Evaluator\<close>, \<open>Evaluator_Cache\<close>: \<^verbatim>\<open>stage2_evaluator.rs\<close>. The verdict on a rule is
    the on-chain verdict on the same snapshots; the tick cache changes no verdict and fetches no key twice.

  \<^item> \<open>Watcher_Types\<close>, \<open>Rule_Watcher\<close>, \<open>Rule_Pipeline\<close>: \<^verbatim>\<open>stage2_watcher.rs\<close>. A tick's report is truthful
    under any interleaving: \<open>claim_holds\<close> ties each result to the state before its rule (\<open>state_before\<close>) and to the answers of
    its database calls. What a tick with the gateway's evaluator marks as met, the program's condition gate accepts at the same
    clock: an All-rule of one to eight conditions always, an Any-rule when no condition lacks its proof or errs.

  \<^item> \<open>Rule_Executor\<close>: \<^verbatim>\<open>stage2_executor.rs\<close>. A rule is dispatched once, for its remaining headroom and
    with the accounts of the on-chain allowlist; its outcome is recorded; waiting rules starve ready ones.

  \<^item> \<open>Solend_Raw\<close>, \<open>Solend_Tx\<close>: \<^verbatim>\<open>integrations/solend\<close>. The gateway's decoders and builders agree with
    those of the on-chain program; the deposit headroom is exact.

  \<^item> \<open>Lending_Policy\<close>, \<open>Risk_Budget\<close>: \<^verbatim>\<open>crates/gateway/src/lending\<close>. An action passes the lending policy
    exactly when every gate admits it, and the first failing gate names the reason; the decimal amounts of
    the risk budget parse without rounding and print back.

  \<^item> \<open>Solend_Mapping\<close>, \<open>Solend_Assembler\<close>: \<^verbatim>\<open>mapping.rs\<close>, \<^verbatim>\<open>oracle_decoder.rs\<close> and \<^verbatim>\<open>assembler.rs\<close> of
    \<^verbatim>\<open>integrations/solend\<close>. The assembler always returns; a deposit that the lending policy admits on its snapshot
    rests on accounts of the right owner, fresh and matching.

  \<^item> \<open>Policy_Engine\<close>: \<^verbatim>\<open>crates/risk-engine\<close>, the policy types and the layering of wallet, session and global
    rules. When a transaction is approved without a human; thresholds under overflow; the wallet allowlist that
    has no effect.

  \<^item> \<open>Approval_Workflow\<close>: \<^verbatim>\<open>approval.rs\<close> and \<^verbatim>\<open>approval_store.rs\<close>. Nothing is approved without its quorum, over any
    history of the store, and a request is decided once; an anonymous caller can fill a quorum alone.

  \<^item> \<open>Solend_Tx_Plan\<close>, \<open>Solend_Signing\<close>, \<open>Solend_Submit\<close>: \<^verbatim>\<open>solend_tx_plan.rs\<close>, \<^verbatim>\<open>solend_withdraw_tx_plan.rs\<close>,
    \<^verbatim>\<open>solend_preflight.rs\<close>, \<^verbatim>\<open>solend_signing.rs\<close>, \<^verbatim>\<open>solend_jit_ready.rs\<close> and \<^verbatim>\<open>solend_submit.rs\<close> of \<^verbatim>\<open>integrations\<close>:
    from a parked deposit to its broadcast. What is broadcast is the parked deposit, for the parked wallet and signed by it, in each
    attempt at a height at which the block hash is valid; a signing request is broadcast by one submission at most. Message compilation, hashing and signatures are the record \<open>sdk_env\<close> with
    the laws \<open>sdk_laws\<close>, the instruction builders of the SDK \<open>plan_env\<close> with \<open>builder_laws\<close>.

  \<^item> \<open>Tx_Lifecycle\<close>, \<open>Solend_Confirmation\<close>: \<^verbatim>\<open>tx_lifecycle.rs\<close> and \<^verbatim>\<open>tracker.rs\<close> of \<^verbatim>\<open>crates/solana-core\<close>;
    \<^verbatim>\<open>solend_lifecycle.rs\<close>, \<^verbatim>\<open>solend_confirmation.rs\<close> and \<^verbatim>\<open>runtime/solend_submit_wiring.rs\<close>. The state of a submitted
    transaction after any polls is the one its reports determine (\<open>poll_outcome\<close>); records only move up, rebroadcasts are bounded; how a malformed submission hides a
    later broadcast.

  \<^item> \<open>Example_Chain\<close>, \<open>Example_Intent\<close>, \<open>Example_Funding\<close>, \<open>Example_Execution\<close>, \<open>Example_Sender\<close>,
    \<open>Example_Rules\<close>, \<open>Example_Lending\<close>, \<open>Example_Deposit\<close>, \<open>Example_Confirmation\<close>: concrete runtimes, tables, nodes and histories on which the theorems with hypotheses are applied, and the
    payment that reserves two budgets.

  \<^bold>\<open>Bounds.\<close> No definition uses fuel. The loops of the programs run over a slice or a fixed range of
  bit positions and are structural recursion, as is a tick over its intents. The polling loop has no
  structural measure: it is a \<open>partial_function\<close> in the option monad, and \<open>poll_returns\<close> proves
  that it returns for every schedule with positive backoff. The watcher's endless loop is any
  finite prefix of its ticks. The limits of the source (16 siblings, 32 writable accounts, 8
  conditions, 1024 intent bytes, 16 intents per tick, 1232 transaction bytes) are constants of the
  model.

  \<^bold>\<open>What is not modelled.\<close> The human-readable \<open>msg!\<close> and tracing output; failures of \<open>try_borrow_data\<close>,
  which cannot occur because no borrow is held across a call; compute limits; the runtime's own
  checks at the end of an instruction (lamport balance, read-only accounts), which can only turn a
  success into a failure. Of the gateway: HTTP wiring, LLM tools and process supervision, which are
  I/O around the modelled parts. Wallet, API,
  channels, observability and the front end are I/O glue or third-party cryptography.
\<close>

end
